(* ===== verification/Gents_Prelude.thy ===== *)
theory Gents_Prelude
  imports Main "HOL-Library.Sublist"
begin

text \<open>
  Shared ground of the development: Rust's \<^verbatim>\<open>str\<close> as a list of Unicode scalar values,
  the handful of \<^verbatim>\<open>core::str\<close> methods the runtime uses, \<^verbatim>\<open>Result\<close> as a sum whose left
  injection is the error, and the generic list lemmas the component theories apply.
\<close>

named_theorems str_simps \<open>equations that evaluate string operations on literals\<close>

section \<open>Text\<close>

text \<open>
  A Rust string is a sequence of Unicode scalar values stored as UTF-8. The model keeps the
  scalar values; byte lengths are computed from them by \<open>utf8_len\<close>. \<open>lit\<close> turns an ASCII
  literal of the source into such a list.
\<close>

type_synonym uchar = nat
type_synonym ustring = "uchar list"

definition lit :: "string \<Rightarrow> ustring" where
  "lit s = map of_char s"

lemma lit_inject [simp]: "lit a = lit b \<longleftrightarrow> a = b"
proof -
  have "inj (of_char :: char \<Rightarrow> nat)"
    by (rule injI) simp
  then show ?thesis
    by (simp add: lit_def inj_map_eq_map)
qed

lemma lit_Nil_iff [simp]: "lit s = [] \<longleftrightarrow> s = []" "[] = lit s \<longleftrightarrow> s = []"
  by (auto simp: lit_def)

lemma length_lit [simp]: "length (lit s) = length s"
  by (simp add: lit_def)

lemma lit_append: "lit (a @ b) = lit a @ lit b"
  by (simp add: lit_def)

text \<open>Bytes of one scalar value, and of a string, in UTF-8 (\<^verbatim>\<open>str::len\<close>).\<close>

definition utf8_width :: "uchar \<Rightarrow> nat" where
  "utf8_width c = (if c < 128 then 1 else if c < 2048 then 2 else if c < 65536 then 3 else 4)"

definition utf8_len :: "ustring \<Rightarrow> nat" where
  "utf8_len s = sum_list (map utf8_width s)"

lemma utf8_width_pos [simp]: "0 < utf8_width c"
  by (simp add: utf8_width_def)

lemma utf8_len_Nil [simp]: "utf8_len [] = 0"
  by (simp add: utf8_len_def)

lemma utf8_len_Cons [simp]: "utf8_len (c # s) = utf8_width c + utf8_len s"
  by (simp add: utf8_len_def)

lemma utf8_len_append [simp]: "utf8_len (a @ b) = utf8_len a + utf8_len b"
  by (simp add: utf8_len_def)

lemma length_le_utf8_len: "length s \<le> utf8_len s"
proof (induction s)
  case Nil
  then show ?case by simp
next
  case (Cons c s)
  moreover have "1 \<le> utf8_width c" by (simp add: Suc_leI)
  ultimately show ?case by simp
qed

subsection \<open>White space and trimming\<close>

text \<open>\<^verbatim>\<open>char::is_whitespace\<close>: the Unicode \<open>White_Space\<close> property.\<close>

definition is_ws :: "uchar \<Rightarrow> bool" where
  "is_ws c \<longleftrightarrow> 9 \<le> c \<and> c \<le> 13 \<or> c = 32 \<or> c = 133 \<or> c = 160 \<or> c = 5760 \<or>
     8192 \<le> c \<and> c \<le> 8202 \<or> c = 8232 \<or> c = 8233 \<or> c = 8239 \<or> c = 8287 \<or> c = 12288"

definition trim_start :: "ustring \<Rightarrow> ustring" where
  "trim_start s = dropWhile is_ws s"

definition trim_end :: "ustring \<Rightarrow> ustring" where
  "trim_end s = rev (dropWhile is_ws (rev s))"

definition trim :: "ustring \<Rightarrow> ustring" where
  "trim s = trim_end (trim_start s)"

lemmas trim_defs [str_simps] = trim_start_def trim_end_def trim_def

lemma dropWhile_idem [simp]: "dropWhile P (dropWhile P xs) = dropWhile P xs"
  by (induction xs) auto

lemma trim_start_idem [simp]: "trim_start (trim_start s) = trim_start s"
  by (simp add: trim_start_def)

lemma trim_end_idem [simp]: "trim_end (trim_end s) = trim_end s"
  by (simp add: trim_end_def)

lemma trim_end_prefix: "prefix (trim_end s) s"
proof -
  have "suffix (dropWhile is_ws (rev s)) (rev s)"
    by (rule suffix_dropWhile)
  then show ?thesis
    by (simp add: trim_end_def suffix_to_prefix)
qed

lemma trim_start_suffix: "suffix (trim_start s) s"
  by (simp add: trim_start_def suffix_dropWhile)

lemma trim_start_fixed: "s = [] \<or> \<not> is_ws (hd s) \<Longrightarrow> trim_start s = s"
  by (cases s) (auto simp: trim_start_def)

lemma trim_end_fixed: "s = [] \<or> \<not> is_ws (last s) \<Longrightarrow> trim_end s = s"
  by (cases s rule: rev_cases) (auto simp: trim_end_def)

text \<open>A literal that neither starts nor ends with white space is its own trimming.\<close>

lemma trim_lit:
  "s = [] \<or> \<not> is_ws (of_char (hd s)) \<and> \<not> is_ws (of_char (last s)) \<Longrightarrow> trim (lit s) = lit s"
  by (cases "s = []") (simp_all add: trim_def trim_start_fixed trim_end_fixed lit_def hd_map last_map)

lemma trim_start_hd: "trim_start s \<noteq> [] \<Longrightarrow> \<not> is_ws (hd (trim_start s))"
  unfolding trim_start_def using hd_dropWhile by blast

lemma trim_start_trim_end [simp]: "trim_start (trim_end (trim_start s)) = trim_end (trim_start s)"
proof (rule trim_start_fixed, rule disjCI)
  assume ws: "\<not> \<not> is_ws (hd (trim_end (trim_start s)))"
  show "trim_end (trim_start s) = []"
  proof (rule ccontr)
    assume ne: "trim_end (trim_start s) \<noteq> []"
    obtain rest where eq: "trim_start s = trim_end (trim_start s) @ rest"
      using trim_end_prefix [of "trim_start s"] by (auto elim: prefixE)
    have ne': "trim_start s \<noteq> []"
      using ne eq by auto
    have "hd (trim_start s) = hd (trim_end (trim_start s))"
      using ne by (subst eq) simp
    with ws trim_start_hd [OF ne'] show False by simp
  qed
qed

lemma trim_idem [simp]: "trim (trim s) = trim s"
  by (simp add: trim_def)

lemma trim_Nil [simp]: "trim [] = []"
  by (simp add: str_simps)

subsection \<open>Splitting and joining\<close>

text \<open>
  \<^verbatim>\<open>str::split(char)\<close>: the pieces between separators, never an empty list. \<open>split_pred\<close> is
  the same for a character class; \<^verbatim>\<open>split_whitespace\<close> drops the empty pieces.
\<close>

fun split_pred :: "(uchar \<Rightarrow> bool) \<Rightarrow> ustring \<Rightarrow> ustring list" where
  "split_pred p [] = [[]]"
| "split_pred p (c # s) =
     (if p c then [] # split_pred p s
      else case split_pred p s of [] \<Rightarrow> [[c]] | l # ls \<Rightarrow> (c # l) # ls)"

definition split_on :: "uchar \<Rightarrow> ustring \<Rightarrow> ustring list" where
  "split_on c = split_pred (\<lambda>d. d = c)"

definition split_whitespace :: "ustring \<Rightarrow> ustring list" where
  "split_whitespace s = filter (\<lambda>w. w \<noteq> []) (split_pred is_ws s)"

fun join_with :: "ustring \<Rightarrow> ustring list \<Rightarrow> ustring" where
  "join_with sep [] = []"
| "join_with sep [l] = l"
| "join_with sep (l # m # ls) = l @ sep @ join_with sep (m # ls)"

text \<open>\<^verbatim>\<open>str::split_once(char)\<close>.\<close>

fun split_once :: "uchar \<Rightarrow> ustring \<Rightarrow> (ustring \<times> ustring) option" where
  "split_once c [] = None"
| "split_once c (d # s) =
     (if d = c then Some ([], s) else map_option (\<lambda>(a, b). (d # a, b)) (split_once c s))"

text \<open>\<^verbatim>\<open>str::strip_prefix\<close> and \<^verbatim>\<open>str::starts_with\<close>.\<close>

fun strip_prefix :: "ustring \<Rightarrow> ustring \<Rightarrow> ustring option" where
  "strip_prefix [] s = Some s"
| "strip_prefix (p # ps) [] = None"
| "strip_prefix (p # ps) (c # s) = (if p = c then strip_prefix ps s else None)"

definition starts_with :: "ustring \<Rightarrow> ustring \<Rightarrow> bool" where
  "starts_with p s \<longleftrightarrow> strip_prefix p s \<noteq> None"

text \<open>\<^verbatim>\<open>str::contains\<close> and \<^verbatim>\<open>str::to_ascii_lowercase\<close>.\<close>

fun str_contains :: "ustring \<Rightarrow> ustring \<Rightarrow> bool" where
  "str_contains [] needle \<longleftrightarrow> needle = []"
| "str_contains (c # s) needle \<longleftrightarrow> starts_with needle (c # s) \<or> str_contains s needle"

definition to_ascii_lowercase :: "ustring \<Rightarrow> ustring" where
  "to_ascii_lowercase s = map (\<lambda>c. if 65 \<le> c \<and> c \<le> 90 then c + 32 else c) s"

lemma strip_prefix_Some: "strip_prefix p s = Some r \<longleftrightarrow> s = p @ r"
  by (induction p s rule: strip_prefix.induct) auto

lemma strip_prefix_None: "strip_prefix p s = None \<longleftrightarrow> \<not> prefix p s"
  by (induction p s rule: strip_prefix.induct) auto

lemma starts_with_iff: "starts_with p s \<longleftrightarrow> prefix p s"
  by (simp add: starts_with_def strip_prefix_None)

lemma split_pred_not_Nil [simp]: "split_pred p s \<noteq> []"
  by (induction s) (auto split: list.splits)

lemma split_on_not_Nil [simp]: "split_on c s \<noteq> []"
  by (simp add: split_on_def)

lemma join_with_Cons:
  "join_with sep (l # ls) = (if ls = [] then l else l @ sep @ join_with sep ls)"
  by (cases ls) auto

lemma join_split_on [simp]: "join_with [c] (split_on c s) = s"
proof (induction s)
  case Nil
  then show ?case by (simp add: split_on_def)
next
  case (Cons d s)
  obtain l ls where sp: "split_pred (\<lambda>x. x = c) s = l # ls"
    by (cases "split_pred (\<lambda>x. x = c) s") (auto dest: arg_cong [where f = "\<lambda>x. x = []"])
  from Cons show ?case
    by (auto simp: split_on_def sp join_with_Cons)
qed

lemma split_once_Some: "split_once c s = Some (a, b) \<Longrightarrow> s = a @ c # b \<and> c \<notin> set a"
  by (induction s arbitrary: a) (auto split: if_splits)

lemma split_once_None: "split_once c s = None \<longleftrightarrow> c \<notin> set s"
  by (induction s) auto

text \<open>Each piece of a split is free of the separator, and the pieces are no longer in total.\<close>

lemma split_pred_pieces: "l \<in> set (split_pred p s) \<Longrightarrow> c \<in> set l \<Longrightarrow> \<not> p c \<and> c \<in> set s"
proof (induction s arbitrary: l)
  case Nil
  then show ?case by simp
next
  case (Cons d s)
  show ?case
  proof (cases "p d")
    case True
    with Cons show ?thesis by auto
  next
    case False
    then show ?thesis
      using Cons.prems Cons.IH by (cases "split_pred p s") fastforce+
  qed
qed

section \<open>Options and results\<close>

text \<open>
  \<^verbatim>\<open>Option::filter\<close> (the model's \<open>opt_filter\<close>) and the trimmed, non-empty value many
  handlers take from an optional string: \<^verbatim>\<open>.map(str::trim).filter(|v| !v.is_empty())\<close>.
\<close>

definition opt_filter :: "('a \<Rightarrow> bool) \<Rightarrow> 'a option \<Rightarrow> 'a option" where
  "opt_filter p x = (case x of None \<Rightarrow> None | Some v \<Rightarrow> if p v then Some v else None)"

definition nonblank :: "ustring option \<Rightarrow> ustring option" where
  "nonblank v = opt_filter (\<lambda>s. s \<noteq> []) (map_option trim v)"

lemma opt_filter_simps [simp]:
  "opt_filter p None = None"
  "opt_filter p (Some v) = (if p v then Some v else None)"
  by (simp_all add: opt_filter_def)

lemma opt_filter_eq_Some [simp]: "opt_filter p x = Some v \<longleftrightarrow> x = Some v \<and> p v"
  by (cases x) auto

lemma nonblank_idem [simp]: "nonblank (nonblank v) = nonblank v"
  by (cases v) (auto simp: nonblank_def)

lemma nonblank_Some: "nonblank v = Some s \<Longrightarrow> s \<noteq> [] \<and> trim s = s"
  by (cases v) (auto simp: nonblank_def split: if_splits)

text \<open>\<^verbatim>\<open>?\<close> on a \<^verbatim>\<open>Result\<close>, and \<^verbatim>\<open>Option::ok_or\<close>.\<close>

definition bind_res :: "'e + 'a \<Rightarrow> ('a \<Rightarrow> 'e + 'b) \<Rightarrow> 'e + 'b" where
  "bind_res r f = (case r of Inl e \<Rightarrow> Inl e | Inr a \<Rightarrow> f a)"

definition ok_or :: "'e \<Rightarrow> 'a option \<Rightarrow> 'e + 'a" where
  "ok_or e x = (case x of None \<Rightarrow> Inl e | Some a \<Rightarrow> Inr a)"

lemma bind_res_simps [simp]:
  "bind_res (Inl e) f = Inl e"
  "bind_res (Inr a) f = f a"
  by (simp_all add: bind_res_def)

lemma bind_res_Inr: "bind_res r f = Inr b \<longleftrightarrow> (\<exists>a. r = Inr a \<and> f a = Inr b)"
  by (cases r) auto

lemma bind_resE:
  assumes "bind_res r f = Inr b"
  obtains a where "r = Inr a" "f a = Inr b"
  using assms by (auto simp: bind_res_Inr)

lemma ok_or_simps [simp]:
  "ok_or e None = Inl e"
  "ok_or e (Some a) = Inr a"
  by (simp_all add: ok_or_def)

lemma ok_or_Inr [simp]: "ok_or e x = Inr a \<longleftrightarrow> x = Some a"
  by (cases x) auto

section \<open>Time\<close>

text \<open>
  \<^verbatim>\<open>chrono::DateTime<Utc>\<close> is a count of nanoseconds since the epoch. \<^verbatim>\<open>timestamp_millis\<close>
  rounds down; \<^verbatim>\<open>Duration::num_milliseconds\<close> truncates towards zero; RFC 3339 text with
  \<^verbatim>\<open>SecondsFormat::Secs\<close> keeps whole seconds.
\<close>

type_synonym instant = int

definition timestamp_millis :: "instant \<Rightarrow> int" where
  "timestamp_millis t = t div 1000000"

definition num_milliseconds :: "int \<Rightarrow> int" where
  "num_milliseconds d = sgn d * (\<bar>d\<bar> div 1000000)"

definition trunc_secs :: "instant \<Rightarrow> instant" where
  "trunc_secs t = (t div 1000000000) * 1000000000"

lemma timestamp_millis_mono: "s \<le> t \<Longrightarrow> timestamp_millis s \<le> timestamp_millis t"
  by (simp add: timestamp_millis_def zdiv_mono1)

lemma trunc_secs_le: "trunc_secs t \<le> t"
  by (simp add: trunc_secs_def minus_mod_eq_div_mult [symmetric])

section \<open>Numbers as text\<close>

text \<open>\<^verbatim>\<open>to_string\<close> on integers, and \<^verbatim>\<open>str::parse::<u32>\<close>: an optional plus sign, then decimal
  digits, rejected when empty or when the value leaves the 32 bits.\<close>

function dec_of_nat :: "nat \<Rightarrow> ustring" where
  "dec_of_nat n = (if n < 10 then [48 + n] else dec_of_nat (n div 10) @ [48 + n mod 10])"
  by pat_completeness auto
termination
  by (relation "measure id") auto

declare dec_of_nat.simps [simp del]

definition dec_of_int :: "int \<Rightarrow> ustring" where
  "dec_of_int i = (if i < 0 then lit ''-'' @ dec_of_nat (nat (- i)) else dec_of_nat (nat i))"

fun digits_value :: "nat \<Rightarrow> ustring \<Rightarrow> nat option" where
  "digits_value acc [] = Some acc"
| "digits_value acc (c # s) =
     (if 48 \<le> c \<and> c \<le> 57 then digits_value (10 * acc + (c - 48)) s else None)"

definition parse_u32 :: "ustring \<Rightarrow> nat option" where
  "parse_u32 s =
     (let ds = (case s of [] \<Rightarrow> [] | c # r \<Rightarrow> if c = 43 then r else s)
      in if ds = [] then None
         else case digits_value 0 ds of
             None \<Rightarrow> None
           | Some n \<Rightarrow> if n < 2 ^ 32 then Some n else None)"

lemma digits_value_append:
  "digits_value acc (a @ b) = Option.bind (digits_value acc a) (\<lambda>m. digits_value m b)"
  by (induction acc a rule: digits_value.induct) auto

lemma digits_value_dec: "digits_value 0 (dec_of_nat n) = Some n"
proof (induction n rule: dec_of_nat.induct)
  case (1 n)
  show ?case
  proof (cases "n < 10")
    case True
    then show ?thesis by (simp add: dec_of_nat.simps)
  next
    case False
    have "n mod 10 < 10" by simp
    then have digit: "48 + n mod 10 \<le> 57" by linarith
    from False have "digits_value 0 (dec_of_nat n) = digits_value (n div 10) [48 + n mod 10]"
      using 1 by (subst dec_of_nat.simps) (simp add: digits_value_append)
    also have "\<dots> = Some (10 * (n div 10) + n mod 10)"
      using digit by simp
    finally show ?thesis by simp
  qed
qed

lemma dec_of_nat_hd: "dec_of_nat n \<noteq> [] \<and> 48 \<le> hd (dec_of_nat n)"
proof (induction n rule: dec_of_nat.induct)
  case (1 n)
  then show ?case
    by (subst (1 2) dec_of_nat.simps) (auto simp: hd_append)
qed

lemma dec_of_nat_digits: "c \<in> set (dec_of_nat n) \<Longrightarrow> 48 \<le> c \<and> c \<le> 57"
proof (induction n rule: dec_of_nat.induct)
  case (1 n)
  have "n mod 10 \<le> 9" by simp
  with 1 show ?case
    by (subst (asm) dec_of_nat.simps) (auto split: if_splits)
qed

lemma dec_of_nat_inject [simp]: "dec_of_nat m = dec_of_nat n \<longleftrightarrow> m = n"
  by (metis digits_value_dec option.inject)

text \<open>A number and a colon before a text can be read back: the number ends at the first colon.\<close>

lemma dec_colon_inject: "dec_of_nat m @ lit '':'' @ x = dec_of_nat n @ lit '':'' @ y \<longleftrightarrow> m = n \<and> x = y"
proof
  assume eq: "dec_of_nat m @ lit '':'' @ x = dec_of_nat n @ lit '':'' @ y"
  have colon: "58 \<notin> set (dec_of_nat k)" for k
    using dec_of_nat_digits [of 58 k] by auto
  have shape: "dec_of_nat k @ lit '':'' @ z = dec_of_nat k @ 58 # z" for k z
    by (simp add: lit_def)
  have number: "takeWhile (\<lambda>c. c \<noteq> 58) (dec_of_nat k @ 58 # z) = dec_of_nat k" for k z
    using colon [of k] by (metis (mono_tags, lifting) takeWhile.simps(2) takeWhile_append2 append_Nil2)
  from eq number [of m x] number [of n y] have "m = n"
    unfolding shape by simp
  with eq show "m = n \<and> x = y" by simp
qed simp

lemma utf8_prefix_inject:
  assumes "a @ x = b @ y" and "utf8_len a = utf8_len b"
  shows "a = b \<and> x = y"
proof -
  from assms(1) obtain us where "a = b @ us \<and> us @ x = y \<or> a @ us = b \<and> x = us @ y"
    by (auto simp: append_eq_append_conv2)
  moreover have "us = []" if "utf8_len us = 0" for us
    using length_le_utf8_len [of us] that by simp
  ultimately show ?thesis using assms(2) by auto
qed

lemma parse_u32_dec: "n < 2 ^ 32 \<Longrightarrow> parse_u32 (dec_of_nat n) = Some n"
  using dec_of_nat_hd [of n] digits_value_dec [of n]
  by (cases "dec_of_nat n") (auto simp: parse_u32_def)

section \<open>JSON values\<close>

text \<open>
  \<^verbatim>\<open>serde_json::Value\<close>. A number is an integer in the range of \<^verbatim>\<open>i64\<close> or \<^verbatim>\<open>u64\<close>, or a float
  kept as its text; an object is its list of members with distinct keys.
\<close>

datatype json =
    JNull
  | JBool bool
  | JInt int
  | JFloat ustring
  | JStr ustring
  | JArr "json list"
  | JObj "(ustring \<times> json) list"

definition json_get :: "ustring \<Rightarrow> json \<Rightarrow> json option" where
  "json_get k v = (case v of JObj m \<Rightarrow> map_of m k | _ \<Rightarrow> None)"

definition json_as_str :: "json \<Rightarrow> ustring option" where
  "json_as_str v = (case v of JStr s \<Rightarrow> Some s | _ \<Rightarrow> None)"

definition json_as_array :: "json \<Rightarrow> json list option" where
  "json_as_array v = (case v of JArr xs \<Rightarrow> Some xs | _ \<Rightarrow> None)"

text \<open>\<^verbatim>\<open>Option::or_else\<close>, and \<^verbatim>\<open>slice::first\<close>.\<close>

definition or_else :: "'a option \<Rightarrow> 'a option \<Rightarrow> 'a option" where
  "or_else x y = (case x of None \<Rightarrow> y | Some v \<Rightarrow> Some v)"

definition first_of :: "'a list \<Rightarrow> 'a option" where
  "first_of xs = (case xs of [] \<Rightarrow> None | x # _ \<Rightarrow> Some x)"

lemma or_else_simps [simp]: "or_else None y = y" "or_else (Some v) y = Some v"
  by (simp_all add: or_else_def)

lemma first_of_simps [simp]: "first_of [] = None" "first_of (x # xs) = Some x"
  by (simp_all add: first_of_def)

lemmas json_simps [simp] = json_get_def json_as_str_def json_as_array_def

section \<open>Association lists\<close>

lemma map_of_filter_key: "map_of (filter (\<lambda>(a, _). Q a) m) k = (if Q k then map_of m k else None)"
  by (induction m) auto

end
