(* ===== verification/Persisted_Vocab.thy ===== *)
theory Persisted_Vocab
  imports Gents_Prelude
begin

text \<open>
  The contract of a persisted vocabulary: an enumeration that is written to a document as a
  string and read back. Every status enumeration of the runtime (\<^verbatim>\<open>RequestLifecycleState\<close>,
  \<^verbatim>\<open>ToolCallState\<close>, \<^verbatim>\<open>FailureClass\<close>, \<^verbatim>\<open>AwaitMode\<close>, \<^verbatim>\<open>CancelPolicy\<close>, \<^verbatim>\<open>CancelCause\<close>,
  \<^verbatim>\<open>ExecutionOrigin\<close>) provides it; the readers and the compare-and-set filters of the
  lifecycle code rely on it.
\<close>

locale persisted_vocab =
  fixes as_str :: "'a \<Rightarrow> ustring"
    and from_str :: "ustring \<Rightarrow> 'a option"
  assumes from_as: "from_str (as_str x) = Some x"
    and as_from: "from_str s = Some x \<Longrightarrow> as_str x = s"
begin

lemma as_str_inject [simp]: "as_str x = as_str y \<longleftrightarrow> x = y"
proof
  assume "as_str x = as_str y"
  then have "from_str (as_str x) = from_str (as_str y)" by simp
  then show "x = y" by (simp add: from_as)
qed simp

lemma from_str_iff: "from_str s = Some x \<longleftrightarrow> s = as_str x"
  using from_as as_from by blast

lemma from_str_None_iff: "from_str s = None \<longleftrightarrow> s \<notin> range as_str"
  by (cases "from_str s") (auto simp: from_str_iff from_as)

lemma unknown_rejected: "s \<notin> range as_str \<Longrightarrow> from_str s = None"
  by (simp add: from_str_None_iff)

end

end
