(* ===== verification/Request_State.thy ===== *)
theory Request_State
  imports Persisted_Vocab
begin

text \<open>
  The request vocabulary and the request-side helpers of the lifecycle:
  \<^verbatim>\<open>gents-protocol/src/request_lifecycle.rs\<close> (the state enumeration and its string form),
  \<^verbatim>\<open>gents/src/lifecycle.rs\<close> (TTL interpretation, execution origin, workspace lineage, document
  identifiers in responses) and \<^verbatim>\<open>gents/src/lifecycle/queue/metadata.rs\<close> (queue hints). JSON
  and RFC 3339 parsing are library code: the functions that need them take the parser as an
  argument.
\<close>

section \<open>RequestLifecycleState\<close>

datatype request_state =
    WorkspaceBindingPending
  | ReqPending
  | ReqClaimed
  | ReqProcessing
  | InputRequired
  | ReqCompleted
  | ReqFailed
  | ReqSuperseded
  | ReqDead
  | ReqInterrupted

definition request_all :: "request_state list" where
  "request_all = [WorkspaceBindingPending, ReqPending, ReqClaimed, ReqProcessing, InputRequired,
     ReqCompleted, ReqFailed, ReqSuperseded, ReqDead, ReqInterrupted]"

fun request_as_str :: "request_state \<Rightarrow> ustring" where
  "request_as_str WorkspaceBindingPending = lit ''workspaceBindingPending''"
| "request_as_str ReqPending = lit ''pending''"
| "request_as_str ReqClaimed = lit ''claimed''"
| "request_as_str ReqProcessing = lit ''processing''"
| "request_as_str InputRequired = lit ''inputRequired''"
| "request_as_str ReqCompleted = lit ''completed''"
| "request_as_str ReqFailed = lit ''failed''"
| "request_as_str ReqSuperseded = lit ''superseded''"
| "request_as_str ReqDead = lit ''dead''"
| "request_as_str ReqInterrupted = lit ''interrupted''"

definition request_is_terminal :: "request_state \<Rightarrow> bool" where
  "request_is_terminal s \<longleftrightarrow>
     s \<in> {ReqCompleted, ReqFailed, ReqSuperseded, ReqDead, ReqInterrupted}"

definition request_is_claimable :: "request_state \<Rightarrow> bool" where
  "request_is_claimable s \<longleftrightarrow> s = ReqPending"

definition request_is_active_runtime :: "request_state \<Rightarrow> bool" where
  "request_is_active_runtime s \<longleftrightarrow> s \<in> {ReqPending, ReqClaimed, ReqProcessing}"

datatype invalid_request_state = InvalidRequestState ustring

definition request_parse :: "ustring \<Rightarrow> invalid_request_state + request_state" where
  "request_parse v =
     (if v = lit ''workspaceBindingPending'' then Inr WorkspaceBindingPending
      else if v = lit ''pending'' then Inr ReqPending
      else if v = lit ''claimed'' then Inr ReqClaimed
      else if v = lit ''processing'' then Inr ReqProcessing
      else if v = lit ''inputRequired'' then Inr InputRequired
      else if v = lit ''completed'' then Inr ReqCompleted
      else if v = lit ''failed'' then Inr ReqFailed
      else if v = lit ''superseded'' then Inr ReqSuperseded
      else if v = lit ''dead'' then Inr ReqDead
      else if v = lit ''interrupted'' then Inr ReqInterrupted
      else Inl (InvalidRequestState v))"

definition request_parse_opt :: "ustring option \<Rightarrow> request_state option" where
  "request_parse_opt v =
     Option.bind v (\<lambda>s. case request_parse s of Inl _ \<Rightarrow> None | Inr st \<Rightarrow> Some st)"

definition request_is_terminal_str :: "ustring option \<Rightarrow> bool" where
  "request_is_terminal_str v =
     (case request_parse_opt v of None \<Rightarrow> False | Some s \<Rightarrow> request_is_terminal s)"

definition request_graphql_list :: "request_state list \<Rightarrow> ustring" where
  "request_graphql_list ss =
     lit ''['' @ join_with (lit '', '') (map (\<lambda>s. [34] @ request_as_str s @ [34]) ss) @ lit '']''"

definition terminal_graphql_list :: ustring where
  "terminal_graphql_list = request_graphql_list (filter request_is_terminal request_all)"

definition active_runtime_graphql_list :: ustring where
  "active_runtime_graphql_list = request_graphql_list (filter request_is_active_runtime request_all)"

definition nonterminal_graphql_list :: ustring where
  "nonterminal_graphql_list =
     request_graphql_list (filter (\<lambda>s. \<not> request_is_terminal s) request_all)"

lemmas request_class_defs = request_is_terminal_def request_is_claimable_def
  request_is_active_runtime_def

lemma request_parse_as_str [simp]: "request_parse (request_as_str s) = Inr s"
  by (cases s) (simp_all add: request_parse_def)

lemma request_parse_Inr: "request_parse v = Inr s \<Longrightarrow> request_as_str s = v"
  by (auto simp: request_parse_def split: if_splits)

lemma request_parse_Inl: "request_parse v = Inl e \<Longrightarrow> e = InvalidRequestState v"
  by (auto simp: request_parse_def split: if_splits)

interpretation request_vocab:
  persisted_vocab request_as_str "\<lambda>s. request_parse_opt (Some s)"
  by unfold_locales (auto simp: request_parse_opt_def dest: request_parse_Inr split: sum.splits)

lemma request_all_complete: "set request_all = UNIV"
proof -
  have "s \<in> set request_all" for s
    by (cases s) (simp_all add: request_all_def)
  then show ?thesis by blast
qed

section \<open>Local lifecycle, claim outcomes, execution origin\<close>

datatype local_lifecycle_state =
    LPending | LClaimed | LStreaming | LCompleted | LFailed | LInterrupted | LDead

datatype claim_outcome = ClaimClaimed | ClaimQueued | ClaimInterrupted | ClaimExpired

datatype execution_origin = Interactive | Scheduled

fun origin_as_str :: "execution_origin \<Rightarrow> ustring" where
  "origin_as_str Interactive = lit ''interactive''"
| "origin_as_str Scheduled = lit ''scheduled''"

datatype origin_error = UnknownOrigin ustring | OriginRequired

definition origin_from_persisted :: "ustring option \<Rightarrow> origin_error + execution_origin" where
  "origin_from_persisted v =
     (case v of
        None \<Rightarrow> Inl OriginRequired
      | Some s \<Rightarrow>
          if s = lit ''interactive'' then Inr Interactive
          else if s = lit ''scheduled'' then Inr Scheduled
          else Inl (UnknownOrigin s))"

interpretation origin_vocab:
  persisted_vocab origin_as_str
    "\<lambda>s. case origin_from_persisted (Some s) of Inl _ \<Rightarrow> None | Inr x \<Rightarrow> Some x"
proof unfold_locales
  fix x
  show "(case origin_from_persisted (Some (origin_as_str x)) of
      Inl _ \<Rightarrow> None | Inr x \<Rightarrow> Some x) = Some x"
    by (cases x) (simp_all add: origin_from_persisted_def)
next
  fix s x
  assume "(case origin_from_persisted (Some s) of Inl _ \<Rightarrow> None | Inr x \<Rightarrow> Some x) = Some x"
  then show "origin_as_str x = s"
    by (auto simp: origin_from_persisted_def split: if_splits sum.splits)
qed

section \<open>Request time-to-live\<close>

datatype 'e ttl_outcome = NotSet | Live instant | Expired instant | Malformed 'e

definition parse_valid_until ::
  "(ustring \<Rightarrow> 'e + instant) \<Rightarrow> ustring option \<Rightarrow> instant \<Rightarrow> 'e ttl_outcome" where
  "parse_valid_until rfc3339 value now =
     (case value of
        None \<Rightarrow> NotSet
      | Some v \<Rightarrow>
          (case rfc3339 v of
             Inr parsed \<Rightarrow> if now > parsed then Expired parsed else Live parsed
           | Inl e \<Rightarrow> Malformed e))"

definition resolve_behavior_id :: "ustring \<Rightarrow> ustring option \<Rightarrow> ustring" where
  "resolve_behavior_id default_id requested =
     (case nonblank requested of None \<Rightarrow> default_id | Some v \<Rightarrow> v)"

section \<open>Queue hints\<close>

datatype queue_source = QUser | QBackgroundCompletion | QSteering | QGoal

datatype queue_policy = QAppend | QCoalesce

record queue_hints =
  qh_source :: queue_source
  qh_policy :: queue_policy
  qh_key :: "ustring option"
  qh_queued_after_request_id :: "ustring option"
  qh_interrupted_request_id :: "ustring option"

record request_queue_metadata =
  qm_queue :: queue_hints
  qm_background_completion_wake_version :: "nat option"

definition background_completion_wake_version :: nat where
  "background_completion_wake_version = 1"

definition parse_queue_metadata ::
  "(ustring \<Rightarrow> request_queue_metadata option) \<Rightarrow> ustring option \<Rightarrow> request_queue_metadata option" where
  "parse_queue_metadata from_json metadata =
     (case metadata of
        None \<Rightarrow> None
      | Some m \<Rightarrow> if trim m = [] then None else from_json (trim m))"

definition parse_queue_hints ::
  "(ustring \<Rightarrow> request_queue_metadata option) \<Rightarrow> ustring option \<Rightarrow> queue_hints option" where
  "parse_queue_hints from_json metadata = map_option qm_queue (parse_queue_metadata from_json metadata)"

definition queue_hints_are_automated_wakeup :: "queue_hints \<Rightarrow> bool" where
  "queue_hints_are_automated_wakeup h \<longleftrightarrow>
     qh_source h = QBackgroundCompletion \<and> qh_policy h = QCoalesce \<and>
     (case qh_key h of None \<Rightarrow> False | Some k \<Rightarrow> trim k \<noteq> [])"

definition queue_metadata_of :: "queue_hints \<Rightarrow> request_queue_metadata" where
  "queue_metadata_of h =
     \<lparr>qm_queue = h,
      qm_background_completion_wake_version =
        (if queue_hints_are_automated_wakeup h then Some background_completion_wake_version
         else None)\<rparr>"

definition queue_metadata_json ::
  "(request_queue_metadata \<Rightarrow> ustring) \<Rightarrow> queue_hints \<Rightarrow> ustring" where
  "queue_metadata_json to_json h = to_json (queue_metadata_of h)"

definition is_automated_wakeup ::
  "(ustring \<Rightarrow> request_queue_metadata option) \<Rightarrow> ustring option \<Rightarrow> bool" where
  "is_automated_wakeup from_json metadata =
     (case parse_queue_hints from_json metadata of
        None \<Rightarrow> False | Some h \<Rightarrow> queue_hints_are_automated_wakeup h)"

definition is_subagent_owned_queue ::
  "(ustring \<Rightarrow> request_queue_metadata option) \<Rightarrow> ustring option \<Rightarrow> bool" where
  "is_subagent_owned_queue from_json metadata =
     (case parse_queue_hints from_json metadata of
        None \<Rightarrow> False
      | Some h \<Rightarrow>
          qh_source h = QSteering \<or>
          qh_source h = QBackgroundCompletion \<and> qh_policy h = QCoalesce \<and>
          (case qh_key h of None \<Rightarrow> False | Some k \<Rightarrow> trim k \<noteq> []))"

definition is_goal_queue ::
  "(ustring \<Rightarrow> request_queue_metadata option) \<Rightarrow> ustring option \<Rightarrow> bool" where
  "is_goal_queue from_json metadata =
     (case parse_queue_hints from_json metadata of
        None \<Rightarrow> False | Some h \<Rightarrow> qh_source h = QGoal)"

definition steering_input_message_prefix :: ustring where
  "steering_input_message_prefix = lit ''steering-input:''"

definition steering_input_message_key :: "ustring \<Rightarrow> ustring" where
  "steering_input_message_key request_id = steering_input_message_prefix @ request_id"

definition is_steering_input_message_key :: "ustring \<Rightarrow> bool" where
  "is_steering_input_message_key k = starts_with steering_input_message_prefix k"

definition request_content_owns_user_projection ::
  "(ustring \<Rightarrow> request_queue_metadata option) \<Rightarrow> ustring option \<Rightarrow> bool" where
  "request_content_owns_user_projection from_json metadata =
     (case parse_queue_hints from_json metadata of
        None \<Rightarrow> True | Some h \<Rightarrow> qh_source h = QUser)"

definition request_owns_user_turn ::
  "(ustring \<Rightarrow> request_queue_metadata option) \<Rightarrow> ustring option \<Rightarrow> bool" where
  "request_owns_user_turn from_json metadata =
     (case parse_queue_hints from_json metadata of
        None \<Rightarrow> True | Some h \<Rightarrow> qh_source h \<in> {QUser, QSteering})"

definition is_runtime_control_message ::
  "(ustring \<Rightarrow> request_queue_metadata option) \<Rightarrow> (ustring \<Rightarrow> bool) \<Rightarrow>
   ustring option \<Rightarrow> ustring \<Rightarrow> bool \<Rightarrow> bool" where
  "is_runtime_control_message from_json is_completion_key metadata message_key has_keyed_steering =
     (if is_completion_key message_key then True
      else case parse_queue_hints from_json metadata of
          None \<Rightarrow> False
        | Some h \<Rightarrow>
            (case qh_source h of
               QBackgroundCompletion \<Rightarrow> True
             | QGoal \<Rightarrow> True
             | QSteering \<Rightarrow> has_keyed_steering \<and> \<not> is_steering_input_message_key message_key
             | QUser \<Rightarrow> False))"

section \<open>Document identifiers in mutation responses\<close>

definition extract_single_doc_id :: "json option \<Rightarrow> ustring \<Rightarrow> ustring option" where
  "extract_single_doc_id resp_data key =
     (let normalized = map_option (\<lambda>c. lit ''add_'' @ c) (strip_prefix (lit ''create_'') key)
      in Option.bind
           (Option.bind resp_data
             (\<lambda>data. or_else (json_get key data)
                (Option.bind normalized (\<lambda>n. json_get n data))))
           (\<lambda>value. or_else
              (Option.bind (json_get (lit ''_docID'') value) json_as_str)
              (Option.bind (Option.bind (Option.bind (json_as_array value) first_of)
                 (json_get (lit ''_docID''))) json_as_str)))"

section \<open>Workspace lineage\<close>

record workspace_lineage =
  wl_workspace_id :: "ustring option"
  wl_workspace_authority :: "ustring option"
  wl_workspace_owner_deployment_id :: "ustring option"
  wl_workspace_seal_hash :: "ustring option"

type_synonym source_fields = "ustring \<rightharpoonup> ustring"

definition source_keys :: "ustring list" where
  "source_keys = [lit ''workspace_id'', lit ''workspace_authority'',
     lit ''workspace_owner_deployment_id'', lit ''owner_deployment_id'', lit ''work_unit_id'',
     lit ''workspace_seal_hash'', lit ''seal_hash'', lit ''caused_by_correlation'']"

definition bind_keys :: "ustring list" where
  "bind_keys = [lit ''workspace_id'', lit ''workspace_authority'',
     lit ''workspace_owner_deployment_id'', lit ''owner_deployment_id'',
     lit ''workspace_seal_hash'', lit ''seal_hash'']"

definition source_string_field :: "json \<Rightarrow> ustring \<Rightarrow> ustring option" where
  "source_string_field doc name =
     (case json_get name doc of
        Some (JStr v) \<Rightarrow> if trim v = [] then None else Some (trim v)
      | Some (JInt i) \<Rightarrow> Some (dec_of_int i)
      | _ \<Rightarrow> None)"

definition snapshot_key ::
  "json \<Rightarrow> ustring option \<Rightarrow> ustring \<Rightarrow> source_fields \<Rightarrow> source_fields" where
  "snapshot_key doc authority key sf =
     (if authority = None \<and> key \<in> set bind_keys then sf
      else if sf key \<noteq> None then sf
      else case source_string_field doc key of
          None \<Rightarrow> sf
        | Some v \<Rightarrow> sf(key \<mapsto> v))"

definition snapshot_workspace_lineage_source_fields ::
  "json \<Rightarrow> source_fields \<Rightarrow> ustring option \<Rightarrow> source_fields" where
  "snapshot_workspace_lineage_source_fields doc sf trigger_authority =
     (let authority = nonblank trigger_authority;
          f1 = fold (snapshot_key doc authority) source_keys sf;
          f2 = (if f1 (lit ''workspace_seal_hash'') = None
                then (case f1 (lit ''seal_hash'') of
                        None \<Rightarrow> f1
                      | Some h \<Rightarrow> f1(lit ''workspace_seal_hash'' \<mapsto> h))
                else f1)
      in case authority of
           None \<Rightarrow> f2
         | Some a \<Rightarrow> f2(lit ''workspace_authority'' \<mapsto> a))"

definition max_trigger_context_bytes :: nat where
  "max_trigger_context_bytes = 16 * 1024"

record trigger_execution_context =
  tec_version :: nat
  tec_source_fields :: source_fields

datatype 'e context_error = ContextTooLarge | ContextJson 'e | UnsupportedVersion nat

definition trigger_context_default :: trigger_execution_context where
  "trigger_context_default = \<lparr>tec_version = 0, tec_source_fields = Map.empty\<rparr>"

definition trigger_context_parse ::
  "(ustring \<Rightarrow> 'e + trigger_execution_context) \<Rightarrow> ustring option \<Rightarrow>
   'e context_error + trigger_execution_context" where
  "trigger_context_parse from_json value =
     (case nonblank value of
        None \<Rightarrow> Inr trigger_context_default
      | Some v \<Rightarrow>
          if utf8_len v > max_trigger_context_bytes then Inl ContextTooLarge
          else case from_json v of
              Inl e \<Rightarrow> Inl (ContextJson e)
            | Inr c \<Rightarrow>
                if tec_version c \<noteq> 1 then Inl (UnsupportedVersion (tec_version c)) else Inr c)"

definition lineage_from_trigger_context ::
  "(ustring \<Rightarrow> 'e + trigger_execution_context) \<Rightarrow> ustring option \<Rightarrow>
   'e context_error + workspace_lineage" where
  "lineage_from_trigger_context from_json trigger_context =
     bind_res (trigger_context_parse from_json trigger_context)
       (\<lambda>c. let field = (\<lambda>name. nonblank (tec_source_fields c (lit name)))
            in Inr \<lparr>wl_workspace_id = field ''workspace_id'',
                    wl_workspace_authority = field ''workspace_authority'',
                    wl_workspace_owner_deployment_id =
                      or_else (field ''workspace_owner_deployment_id'') (field ''owner_deployment_id''),
                    wl_workspace_seal_hash =
                      or_else (field ''workspace_seal_hash'') (field ''seal_hash'')\<rparr>)"

definition lineage_is_bound :: "workspace_lineage \<Rightarrow> bool" where
  "lineage_is_bound l \<longleftrightarrow>
     nonblank (wl_workspace_id l) \<noteq> None \<or> nonblank (wl_workspace_owner_deployment_id l) \<noteq> None"

definition lineage_owner_deployment_id :: "workspace_lineage \<Rightarrow> ustring option" where
  "lineage_owner_deployment_id l = nonblank (wl_workspace_owner_deployment_id l)"

datatype lineage_error = AuthorityRequired

definition require_authority_if_workspace_id :: "workspace_lineage \<Rightarrow> lineage_error + unit" where
  "require_authority_if_workspace_id l =
     (let has_workspace_id = nonblank (wl_workspace_id l) \<noteq> None;
          has_authority = nonblank (wl_workspace_authority l) \<noteq> None
      in if has_workspace_id \<and> \<not> has_authority then Inl AuthorityRequired else Inr ())"

section \<open>Properties\<close>

lemmas snapshot_defs = snapshot_workspace_lineage_source_fields_def snapshot_key_def

text \<open>One key at a time, the snapshot only ever adds a value to an absent field.\<close>

lemma snapshot_key_keeps: "sf k = Some v \<Longrightarrow> snapshot_key doc a key sf k = Some v"
  by (auto simp: snapshot_key_def split: option.splits)

lemma snapshot_key_other: "k \<noteq> key \<Longrightarrow> snapshot_key doc a key sf k = sf k"
  by (auto simp: snapshot_key_def split: option.splits)

lemma snapshot_key_bind: "k \<in> set bind_keys \<Longrightarrow> snapshot_key doc None key sf k = sf k"
  by (auto simp: snapshot_key_def split: option.splits)

lemma fold_snapshot_keeps: "sf k = Some v \<Longrightarrow> fold (snapshot_key doc a) ks sf k = Some v"
  by (induction ks arbitrary: sf) (simp_all add: snapshot_key_keeps)

lemma fold_snapshot_bind:
  "k \<in> set bind_keys \<Longrightarrow> fold (snapshot_key doc None) ks sf k = sf k"
  by (induction ks arbitrary: sf) (simp_all add: snapshot_key_bind)

lemma snapshot_without_authority:
  assumes "nonblank auth = None" and "k \<in> set bind_keys"
  shows "snapshot_workspace_lineage_source_fields doc sf auth k =
    (if k = lit ''workspace_seal_hash'' \<and> sf k = None then sf (lit ''seal_hash'') else sf k)"
proof -
  have "lit ''seal_hash'' \<in> set bind_keys" and "lit ''workspace_seal_hash'' \<in> set bind_keys"
    by (simp_all add: bind_keys_def)
  with assms show ?thesis
    by (auto simp: snapshot_workspace_lineage_source_fields_def Let_def fold_snapshot_bind
        split: option.splits)
qed

lemma snapshot_authority:
  "nonblank auth = Some a \<Longrightarrow>
   snapshot_workspace_lineage_source_fields doc sf auth (lit ''workspace_authority'') = Some a"
  by (simp add: snapshot_workspace_lineage_source_fields_def Let_def)

text \<open>The persisted form of a request state is read back as that state, and exactly the ten
  names of the vocabulary are accepted: any other string is an error that carries the string.\<close>

theorem request_state_vocabulary:
  "(request_parse v = Inr s \<longleftrightarrow> v = request_as_str s) \<and>
   ((\<exists>e. request_parse v = Inl e) \<longleftrightarrow> v \<notin> range request_as_str) \<and>
   (\<forall>e. request_parse v = Inl e \<longleftrightarrow> e = InvalidRequestState v \<and> v \<notin> range request_as_str)"
proof -
  have iff: "request_parse v = Inr s' \<longleftrightarrow> v = request_as_str s'" for s'
    using request_parse_Inr by auto
  have bad: "(\<exists>e. request_parse v = Inl e) \<longleftrightarrow> v \<notin> range request_as_str"
    by (cases "request_parse v") (auto simp: iff)
  then show ?thesis
    using iff [of s] request_parse_Inl [of v] by blast
qed

text \<open>Workspace lineage cannot be smuggled in through an event document. The source fields
  snapshotted from a document onto a fresh trigger context, once persisted and parsed back,
  give a lineage that is unbound when the trigger carries no authority, and in every case one
  that passes the authority check of a workspace-bound request.\<close>

theorem snapshot_lineage_needs_authority:
  assumes parse: "from_json v = Inr \<lparr>tec_version = 1,
      tec_source_fields = snapshot_workspace_lineage_source_fields doc Map.empty auth\<rparr>"
    and raw: "nonblank (Some raw) = Some v"
    and small: "utf8_len v \<le> max_trigger_context_bytes"
  shows "\<exists>l. lineage_from_trigger_context from_json (Some raw) = Inr l \<and>
      (nonblank auth = None \<longrightarrow> \<not> lineage_is_bound l) \<and>
      require_authority_if_workspace_id l = Inr ()"
proof -
  let ?sf = "snapshot_workspace_lineage_source_fields doc Map.empty auth"
  obtain l where l: "lineage_from_trigger_context from_json (Some raw) = Inr l"
    and ids: "wl_workspace_id l = nonblank (?sf (lit ''workspace_id''))"
      "wl_workspace_authority l = nonblank (?sf (lit ''workspace_authority''))"
      "wl_workspace_owner_deployment_id l =
         or_else (nonblank (?sf (lit ''workspace_owner_deployment_id'')))
           (nonblank (?sf (lit ''owner_deployment_id'')))"
    using parse raw small
    by (simp add: lineage_from_trigger_context_def trigger_context_parse_def Let_def)
  have unbound: "\<not> lineage_is_bound l \<and> nonblank (wl_workspace_id l) = None"
    if "nonblank auth = None"
    using snapshot_without_authority [OF that, of _ doc Map.empty] ids
    by (auto simp: lineage_is_bound_def bind_keys_def nonblank_def)
  have "require_authority_if_workspace_id l = Inr ()"
  proof (cases "nonblank auth")
    case None
    with unbound show ?thesis
      by (simp add: require_authority_if_workspace_id_def)
  next
    case (Some a)
    then have "nonblank (wl_workspace_authority l) = nonblank (Some a)"
      by (simp add: ids snapshot_authority)
    also have "\<dots> = Some a"
      using nonblank_Some [OF Some] by (simp add: nonblank_def)
    finally show ?thesis
      by (simp add: require_authority_if_workspace_id_def)
  qed
  then show ?thesis
    by (intro exI [of _ l] conjI impI l) (simp_all add: unbound)
qed

theorem snapshot_lineage_needs_authority_witness:
  "\<exists>l. lineage_from_trigger_context
       (\<lambda>_. Inr \<lparr>tec_version = 1, tec_source_fields =
          snapshot_workspace_lineage_source_fields
            (JObj [(lit ''workspace_id'', JStr (lit ''w1''))]) Map.empty None\<rparr> :: unit + trigger_execution_context)
       (Some (lit ''{}'')) = Inr l \<and> \<not> lineage_is_bound l"
proof -
  have raw: "nonblank (Some (lit ''{}'')) = Some (lit ''{}'')"
    by (simp add: nonblank_def lit_def str_simps is_ws_def)
  have small: "utf8_len (lit ''{}'') \<le> max_trigger_context_bytes"
    by (simp add: utf8_len_def utf8_width_def lit_def max_trigger_context_bytes_def)
  have none: "nonblank None = None"
    by (simp add: nonblank_def)
  let ?j = "\<lambda>_ :: ustring. Inr \<lparr>tec_version = 1, tec_source_fields =
    snapshot_workspace_lineage_source_fields
      (JObj [(lit ''workspace_id'', JStr (lit ''w1''))]) Map.empty None\<rparr> ::
      unit + trigger_execution_context"
  have "?j (lit ''{}'') = Inr \<lparr>tec_version = 1, tec_source_fields =
      snapshot_workspace_lineage_source_fields
        (JObj [(lit ''workspace_id'', JStr (lit ''w1''))]) Map.empty None\<rparr>"
    by (rule refl)
  from snapshot_lineage_needs_authority [OF this raw small] none show ?thesis
    by blast
qed

text \<open>Snapshotting never overwrites a field the trigger already carries, except that a
  trigger authority replaces whatever authority was there; without a trigger authority no
  binding field is taken from the document at all.\<close>

theorem snapshot_frame:
  "(sf k = Some v \<and> (nonblank auth = None \<or> k \<noteq> lit ''workspace_authority'') \<longrightarrow>
      snapshot_workspace_lineage_source_fields doc sf auth k = Some v) \<and>
   (\<forall>a. nonblank auth = Some a \<longrightarrow>
      snapshot_workspace_lineage_source_fields doc sf auth (lit ''workspace_authority'') = Some a) \<and>
   (nonblank auth = None \<and> k \<in> set bind_keys \<and> k \<noteq> lit ''workspace_seal_hash'' \<longrightarrow>
      snapshot_workspace_lineage_source_fields doc sf auth k = sf k)"
  using fold_snapshot_keeps [of sf k v doc "nonblank auth" source_keys]
  by (auto simp: snapshot_without_authority snapshot_authority)
     (auto simp: snapshot_workspace_lineage_source_fields_def Let_def split: option.splits)

theorem snapshot_frame_witness:
  "snapshot_workspace_lineage_source_fields (JObj [(lit ''workspace_id'', JStr (lit ''evil''))])
     [lit ''workspace_id'' \<mapsto> lit ''w1''] (Some (lit '' read '')) (lit ''workspace_id'')
     = Some (lit ''w1'') \<and>
   snapshot_workspace_lineage_source_fields (JObj []) Map.empty (Some (lit '' read ''))
     (lit ''workspace_authority'') = Some (lit ''read'')"
proof -
  have a: "nonblank (Some (lit '' read '')) = Some (lit ''read'')"
    by (simp add: nonblank_def lit_def str_simps is_ws_def)
  have ne: "lit ''workspace_id'' \<noteq> lit ''workspace_authority''" by simp
  show ?thesis
    using snapshot_frame [of "[lit ''workspace_id'' \<mapsto> lit ''w1'']" "lit ''workspace_id''"
        "lit ''w1''" "Some (lit '' read '')" "JObj [(lit ''workspace_id'', JStr (lit ''evil''))]",
        THEN conjunct1] ne
      snapshot_frame [of Map.empty undefined undefined "Some (lit '' read '')" "JObj []",
        THEN conjunct2, THEN conjunct1] a
    by (simp only: fun_upd_same option.inject simp_thms not_False_eq_True)
qed

text \<open>A time-to-live is live only when it was persisted, parsed, and has not passed: a value
  that does not parse is neither live nor unset, so a request whose TTL cannot be read is never
  claimed as though it had none.\<close>

theorem valid_until_fails_closed:
  "(parse_valid_until rfc3339 value now = NotSet \<longleftrightarrow> value = None) \<and>
   (parse_valid_until rfc3339 value now = Live t \<longleftrightarrow>
      (\<exists>v. value = Some v \<and> rfc3339 v = Inr t \<and> now \<le> t)) \<and>
   (parse_valid_until rfc3339 value now = Expired t \<longleftrightarrow>
      (\<exists>v. value = Some v \<and> rfc3339 v = Inr t \<and> t < now)) \<and>
   (parse_valid_until rfc3339 value now = Malformed e \<longleftrightarrow>
      (\<exists>v. value = Some v \<and> rfc3339 v = Inl e))"
  by (auto simp: parse_valid_until_def split: option.splits sum.splits)

end
