(* ===== verification/Doc_Store.thy ===== *)
theory Doc_Store
  imports Request_State
begin

text \<open>
  The boundary to DefraDB. The runtime reaches the database through GraphQL documents; the model
  keeps each document as the collection, the filter and the field list it denotes
  (escaping and RFC 3339 text are the wire form of these values). DefraDB itself is not part of
  the sources: it is the record \<open>node\<close> of three calls, an argument of every operation that uses
  it, and the locale \<open>defra\<close> states what the runtime relies on: a create adds one fresh document, a
  filtered update changes exactly the matching documents and names them in its response, a query
  returns exactly the matching documents (\<open>limit: 1\<close> takes the first of them), and a call that
  reports an error has either done nothing or done all of its work. A create or an update stands for
  one mutation with the retry of conflicts that the node itself makes under the policy it is handed
  (\<^verbatim>\<open>execute_with_retry\<close> of \<^verbatim>\<open>defra_node\<close>). The in-memory store at the end provides the laws.
\<close>

section \<open>Values, rows, filters\<close>

text \<open>A float is kept as its bit pattern: the runtime only passes it on.\<close>

datatype gval =
    GNull
  | GStr ustring
  | GInt int
  | GFloat nat
  | GBool bool
  | GTime instant
  | GStrs "ustring list"

text \<open>The operators \<^verbatim>\<open>_eq\<close>, \<^verbatim>\<open>_in\<close>, \<^verbatim>\<open>_like\<close> with a prefix pattern, \<^verbatim>\<open>_neq: null\<close> and \<^verbatim>\<open>_lt\<close> of a
  filter.\<close>

datatype cond = Is gval | OneOf "gval list" | StartsWith ustring | NotNull | Below int

type_synonym row = "string \<rightharpoonup> gval"
type_synonym eq_filter = "(string \<times> cond) list"
type_synonym input = "(string \<times> gval) list"
type_synonym doc_id = ustring

abbreviation AREQ :: string where
  "AREQ \<equiv> ''AgentRequest''"

abbreviation ARSP :: string where
  "ARSP \<equiv> ''AgentResponse''"

definition doc_field :: "doc_id \<Rightarrow> row \<Rightarrow> string \<Rightarrow> gval option" where
  "doc_field d r f = (if f = ''_docID'' then Some (GStr d) else r f)"

fun cond_holds :: "cond \<Rightarrow> gval option \<Rightarrow> bool" where
  "cond_holds (Is v) x \<longleftrightarrow> x = Some v"
| "cond_holds (OneOf vs) x \<longleftrightarrow> (case x of None \<Rightarrow> False | Some v \<Rightarrow> v \<in> set vs)"
| "cond_holds (StartsWith p) x \<longleftrightarrow> (case x of Some (GStr s) \<Rightarrow> starts_with p s | _ \<Rightarrow> False)"
| "cond_holds NotNull x \<longleftrightarrow> x \<noteq> None \<and> x \<noteq> Some GNull"
| "cond_holds (Below n) x \<longleftrightarrow> (case x of Some (GInt i) \<Rightarrow> i < n | _ \<Rightarrow> False)"

definition row_matches :: "eq_filter \<Rightarrow> doc_id \<Rightarrow> row \<Rightarrow> bool" where
  "row_matches flt d r = list_all (\<lambda>(f, c). cond_holds c (doc_field d r f)) flt"

definition apply_input :: "input \<Rightarrow> row \<Rightarrow> row" where
  "apply_input inp r = fold (\<lambda>(f, v) acc. acc(f \<mapsto> v)) inp r"

text \<open>Typed reads of an optional column, as the row structs deserialize them.\<close>

definition str_field :: "row \<Rightarrow> string \<Rightarrow> ustring option" where
  "str_field r f = (case r f of Some (GStr s) \<Rightarrow> Some s | _ \<Rightarrow> None)"

definition time_field :: "row \<Rightarrow> string \<Rightarrow> instant option" where
  "time_field r f = (case r f of Some (GTime t) \<Rightarrow> Some t | _ \<Rightarrow> None)"

definition int_field :: "row \<Rightarrow> string \<Rightarrow> int option" where
  "int_field r f = (case r f of Some (GInt i) \<Rightarrow> Some i | _ \<Rightarrow> None)"

lemma apply_input_simps [simp]:
  "apply_input [] r = r"
  "apply_input ((f, v) # inp) r = apply_input inp (r(f \<mapsto> v))"
  by (simp_all add: apply_input_def)

lemma apply_input_append [simp]: "apply_input (a @ b) r = apply_input b (apply_input a r)"
  by (simp add: apply_input_def)

lemma apply_input_other: "f \<notin> fst ` set inp \<Longrightarrow> apply_input inp r f = r f"
  by (induction inp arbitrary: r) auto

lemma row_matches_simps [simp]:
  "row_matches [] d r \<longleftrightarrow> True"
  "row_matches ((f, c) # flt) d r \<longleftrightarrow> cond_holds c (doc_field d r f) \<and> row_matches flt d r"
  by (simp_all add: row_matches_def)

lemma doc_field_simps [simp]:
  "doc_field d r ''_docID'' = Some (GStr d)"
  "f \<noteq> ''_docID'' \<Longrightarrow> doc_field d r f = r f"
  by (simp_all add: doc_field_def)

text \<open>Optional columns of a create, from \<^verbatim>\<open>gents/src/session.rs\<close>.\<close>

definition requester_did_create_field :: "ustring option \<Rightarrow> input" where
  "requester_did_create_field did =
     (case nonblank did of None \<Rightarrow> [] | Some d \<Rightarrow> [(''requester_did'', GStr d)])"

definition request_doc_id_create_field :: "ustring option \<Rightarrow> input" where
  "request_doc_id_create_field doc =
     (case nonblank doc of None \<Rightarrow> [] | Some d \<Rightarrow> [(''request_doc_id'', GStr d)])"

section \<open>Responses\<close>

definition response_has_documents :: "json \<Rightarrow> bool" where
  "response_has_documents v =
     (case v of
        JArr items \<Rightarrow> items \<noteq> []
      | JObj m \<Rightarrow> map_of m (lit ''_docID'') \<noteq> None
      | _ \<Rightarrow> False)"

text \<open>
  The test every compare-and-set of the runtime makes on an update response, and the shapes a
  response can have: an array of documents, or a single document as an object, under
  \<^verbatim>\<open>update_C\<close>; for a create, under \<^verbatim>\<open>create_C\<close> or the normalized \<^verbatim>\<open>add_C\<close>.
\<close>

definition update_hit :: "string \<Rightarrow> json option \<Rightarrow> bool" where
  "update_hit c resp_data =
     (case Option.bind resp_data (json_get (lit (''update_'' @ c))) of
        None \<Rightarrow> False | Some v \<Rightarrow> response_has_documents v)"

definition id_object :: "doc_id \<Rightarrow> json" where
  "id_object d = JObj [(lit ''_docID'', JStr d)]"

definition updated_response :: "string \<Rightarrow> doc_id list \<Rightarrow> json" where
  "updated_response c ds = JObj [(lit (''update_'' @ c), JArr (map id_object ds))]"

definition created_responses :: "string \<Rightarrow> doc_id \<Rightarrow> json list" where
  "created_responses c d =
     [JObj [(lit (''create_'' @ c), id_object d)],
      JObj [(lit (''create_'' @ c), JArr [id_object d])],
      JObj [(lit (''add_'' @ c), id_object d)],
      JObj [(lit (''add_'' @ c), JArr [id_object d])]]"

lemma update_hit_updated [simp]: "update_hit c (Some (updated_response c ds)) \<longleftrightarrow> ds \<noteq> []"
  by (simp add: update_hit_def updated_response_def response_has_documents_def)

section \<open>The interface\<close>

record 'db node =
  nd_create :: "string \<Rightarrow> input \<Rightarrow> 'db \<Rightarrow> (ustring + json option) \<times> 'db"
  nd_update :: "string \<Rightarrow> eq_filter \<Rightarrow> input \<Rightarrow> 'db \<Rightarrow> (ustring + json option) \<times> 'db"
  nd_query :: "string \<Rightarrow> eq_filter \<Rightarrow> 'db \<Rightarrow> ustring + (doc_id \<times> row) list"

type_synonym contents = "string \<Rightarrow> doc_id \<Rightarrow> row option"

definition added :: "string \<Rightarrow> doc_id \<Rightarrow> input \<Rightarrow> contents \<Rightarrow> contents" where
  "added c d inp v = v(c := (v c)(d \<mapsto> apply_input inp Map.empty))"

definition updated :: "string \<Rightarrow> eq_filter \<Rightarrow> input \<Rightarrow> contents \<Rightarrow> contents" where
  "updated c flt inp v =
     v(c := \<lambda>d. map_option (\<lambda>r. if row_matches flt d r then apply_input inp r else r) (v c d))"

locale defra =
  fixes N :: "'db node"
    and view :: "'db \<Rightarrow> contents"
  assumes create_ok: "nd_create N c inp db = (Inr resp, db') \<Longrightarrow>
      \<exists>d. view db c d = None \<and> view db' = added c d inp (view db) \<and>
          (\<exists>j \<in> set (created_responses c d). resp = Some j)"
    and create_err: "nd_create N c inp db = (Inl e, db') \<Longrightarrow>
      view db' = view db \<or> (\<exists>d. view db c d = None \<and> view db' = added c d inp (view db))"
    and update_ok: "nd_update N c flt inp db = (Inr resp, db') \<Longrightarrow>
      view db' = updated c flt inp (view db) \<and>
      (\<exists>ds. resp = Some (updated_response c ds) \<and>
         set ds = {d. \<exists>r. view db c d = Some r \<and> row_matches flt d r})"
    and update_err: "nd_update N c flt inp db = (Inl e, db') \<Longrightarrow>
      view db' = view db \<or> view db' = updated c flt inp (view db)"
    and query_rows: "nd_query N c flt db = Inr rows \<Longrightarrow>
      set rows = {(d, r). view db c d = Some r \<and> row_matches flt d r}"
begin

lemma query_ok:
  assumes "nd_query N c flt db = Inr rows"
  shows "(\<forall>(d, r) \<in> set rows. view db c d = Some r \<and> row_matches flt d r) \<and>
    (rows = [] \<longrightarrow> \<not> (\<exists>d r. view db c d = Some r \<and> row_matches flt d r))"
  using query_rows [OF assms] by auto

text \<open>A document's contents after any create or update, whether or not it reported an error.\<close>

lemma create_view:
  assumes "nd_create N c inp db = (res, db')"
  shows "view db' = view db \<or> (\<exists>d. view db c d = None \<and> view db' = added c d inp (view db))"
  using assms create_ok create_err by (cases res) blast+

lemma update_view:
  assumes "nd_update N c flt inp db = (res, db')"
  shows "view db' = view db \<or> view db' = updated c flt inp (view db)"
  using assms update_ok update_err by (cases res) blast+

lemma create_keeps:
  assumes "nd_create N c inp db = (res, db')" and "view db c' d = Some r"
  shows "view db' c' d = Some r"
  using create_view [OF assms(1)] assms(2) by (auto simp: added_def)

lemma update_keeps:
  assumes "nd_update N c flt inp db = (res, db')" and "view db c' d = Some r"
  shows "view db' c' d = Some r \<or>
    c' = c \<and> row_matches flt d r \<and> view db' c' d = Some (apply_input inp r)"
  using update_view [OF assms(1)] assms(2)
  by (cases "row_matches flt d r") (auto simp: updated_def split: if_splits)

text \<open>The compare-and-set of the runtime: the response names a document exactly when the
  filter matched one, and then that document carries the new fields.\<close>

lemma update_hit_iff:
  assumes "nd_update N c flt inp db = (Inr resp, db')"
  shows "update_hit c resp \<longleftrightarrow> (\<exists>d r. view db c d = Some r \<and> row_matches flt d r)"
proof -
  from update_ok [OF assms] obtain ds where "resp = Some (updated_response c ds)"
    and "set ds = {d. \<exists>r. view db c d = Some r \<and> row_matches flt d r}" by blast
  moreover have "ds \<noteq> [] \<longleftrightarrow> set ds \<noteq> {}" by simp
  ultimately show ?thesis by simp
qed

lemma update_won:
  assumes "nd_update N c ((''_docID'', Is (GStr d)) # flt) inp db = (Inr resp, db')"
    and "update_hit c resp"
  shows "\<exists>r. view db c d = Some r \<and> row_matches flt d r \<and> view db' c d = Some (apply_input inp r)"
  using update_ok [OF assms(1)] update_hit_iff [OF assms(1)] assms(2)
  by (auto simp: updated_def)

lemma update_lost:
  assumes "nd_update N c ((''_docID'', Is (GStr d)) # flt) inp db = (Inr resp, db')"
    and "\<not> update_hit c resp"
  shows "view db' = view db \<and> (\<forall>r. view db c d = Some r \<longrightarrow> \<not> row_matches flt d r)"
proof -
  have none: "\<not> (\<exists>r. view db c d = Some r \<and> row_matches flt d r)"
    using update_hit_iff [OF assms(1)] assms(2) by auto
  have "updated c ((''_docID'', Is (GStr d)) # flt) inp (view db) = view db"
    using none by (auto simp: updated_def fun_eq_iff intro!: option.map_ident_strong)
  then show ?thesis
    using update_ok [OF assms(1)] none by auto
qed

end

section \<open>An in-memory store\<close>

type_synonym mem_db = "((string \<times> doc_id) \<times> row) list"

definition mem_view :: "mem_db \<Rightarrow> contents" where
  "mem_view db c d = map_of db (c, d)"

definition mem_fresh :: "mem_db \<Rightarrow> doc_id" where
  "mem_fresh db = replicate (Suc (fold max (map (\<lambda>x. length (snd (fst x))) db) 0)) 120"

definition mem_create :: "string \<Rightarrow> input \<Rightarrow> mem_db \<Rightarrow> (ustring + json option) \<times> mem_db" where
  "mem_create c inp db =
     (let d = mem_fresh db
      in (Inr (Some (JObj [(lit (''add_'' @ c), JArr [id_object d])])),
          ((c, d), apply_input inp Map.empty) # db))"

definition mem_hits :: "string \<Rightarrow> eq_filter \<Rightarrow> mem_db \<Rightarrow> (doc_id \<times> row) list" where
  "mem_hits c flt db =
     map (\<lambda>d. (d, the (map_of db (c, d))))
       (filter (\<lambda>d. case map_of db (c, d) of None \<Rightarrow> False | Some r \<Rightarrow> row_matches flt d r)
         (remdups (map (\<lambda>x. snd (fst x)) (filter (\<lambda>x. fst (fst x) = c) db))))"

definition mem_update ::
  "string \<Rightarrow> eq_filter \<Rightarrow> input \<Rightarrow> mem_db \<Rightarrow> (ustring + json option) \<times> mem_db" where
  "mem_update c flt inp db =
     (Inr (Some (updated_response c (map fst (mem_hits c flt db)))),
      map (\<lambda>((c', d), r).
        ((c', d), if c' = c \<and> row_matches flt d r then apply_input inp r else r)) db)"

definition mem_query :: "string \<Rightarrow> eq_filter \<Rightarrow> mem_db \<Rightarrow> ustring + (doc_id \<times> row) list" where
  "mem_query c flt db = Inr (mem_hits c flt db)"

definition mem_node :: "mem_db node" where
  "mem_node = \<lparr>nd_create = mem_create, nd_update = mem_update, nd_query = mem_query\<rparr>"

lemma fold_max_ge: "a \<le> fold max xs a \<and> (\<forall>x \<in> set xs. (x :: nat) \<le> fold max xs a)"
proof (induction xs arbitrary: a)
  case Nil
  then show ?case by simp
next
  case (Cons y ys)
  from Cons [of "max y a"] show ?case by auto
qed

lemma mem_fresh_new: "mem_view db c (mem_fresh db) = None"
proof -
  have "length d \<le> fold max (map (\<lambda>x. length (snd (fst x))) db) 0"
    if "((c, d), r) \<in> set db" for d r
    using that fold_max_ge [of 0 "map (\<lambda>x. length (snd (fst x))) db"] by force
  then have "((c, mem_fresh db), r) \<notin> set db" for r
    by (metis Suc_n_not_le_n length_replicate mem_fresh_def)
  then show ?thesis
    by (auto simp: mem_view_def map_of_eq_None_iff)
qed

lemma mem_hits_iff: "(d, r) \<in> set (mem_hits c flt db) \<longleftrightarrow> mem_view db c d = Some r \<and> row_matches flt d r"
proof
  assume "(d, r) \<in> set (mem_hits c flt db)"
  then show "mem_view db c d = Some r \<and> row_matches flt d r"
    by (auto simp: mem_hits_def mem_view_def split: option.splits)
next
  assume hit: "mem_view db c d = Some r \<and> row_matches flt d r"
  then have "((c, d), r) \<in> set db"
    by (auto simp: mem_view_def dest: map_of_SomeD)
  then have "d \<in> set (map (\<lambda>x. snd (fst x)) (filter (\<lambda>x. fst (fst x) = c) db))"
    by force
  with hit show "(d, r) \<in> set (mem_hits c flt db)"
    by (auto simp: mem_hits_def mem_view_def)
qed

lemma mem_update_view: "mem_view (snd (mem_update c flt inp db)) = updated c flt inp (mem_view db)"
proof -
  have "map_of (snd (mem_update c flt inp db)) (c', d) =
      map_option (\<lambda>r. if c' = c \<and> row_matches flt d r then apply_input inp r else r)
        (map_of db (c', d))" for c' d
    by (induction db) (auto simp: mem_update_def)
  then show ?thesis
    by (auto simp: fun_eq_iff mem_view_def updated_def option.map_ident)
qed

interpretation mem: defra mem_node mem_view
proof unfold_locales
  fix c inp db resp db'
  assume "nd_create mem_node c inp db = (Inr resp, db')"
  then have "resp = Some (JObj [(lit (''add_'' @ c), JArr [id_object (mem_fresh db)])])"
    and db': "db' = ((c, mem_fresh db), apply_input inp Map.empty) # db"
    by (simp_all add: mem_node_def mem_create_def Let_def)
  moreover from db' have "mem_view db' = added c (mem_fresh db) inp (mem_view db)"
    by (auto simp: fun_eq_iff mem_view_def added_def)
  ultimately show "\<exists>d. mem_view db c d = None \<and> mem_view db' = added c d inp (mem_view db) \<and>
      (\<exists>j \<in> set (created_responses c d). resp = Some j)"
    using mem_fresh_new by (auto simp: created_responses_def)
next
  fix c flt inp db resp db'
  assume "nd_update mem_node c flt inp db = (Inr resp, db')"
  then have "resp = Some (updated_response c (map fst (mem_hits c flt db)))"
    and "db' = snd (mem_update c flt inp db)"
    by (auto simp: mem_node_def mem_update_def)
  moreover have "set (map fst (mem_hits c flt db)) =
      {d. \<exists>r. mem_view db c d = Some r \<and> row_matches flt d r}"
    by (auto simp: mem_hits_iff intro!: image_eqI [where x = "(_, _)"])
  ultimately show "mem_view db' = updated c flt inp (mem_view db) \<and>
      (\<exists>ds. resp = Some (updated_response c ds) \<and>
        set ds = {d. \<exists>r. mem_view db c d = Some r \<and> row_matches flt d r})"
    using mem_update_view by blast
next
  fix c flt db rows
  assume "nd_query mem_node c flt db = Inr rows"
  then have rows: "rows = mem_hits c flt db"
    by (simp add: mem_node_def mem_query_def)
  show "set rows = {(d, r). mem_view db c d = Some r \<and> row_matches flt d r}"
    by (auto simp: rows mem_hits_iff)
qed (simp_all add: mem_node_def mem_create_def mem_update_def Let_def)

lemma mem_calls:
  "nd_query mem_node c flt db = Inr (mem_hits c flt db)"
  "nd_update mem_node c flt inp db = mem_update c flt inp db"
  "nd_create mem_node c inp db = mem_create c inp db"
  by (simp_all add: mem_node_def mem_query_def)

end
