(* ===== verification/Tool_Call.thy ===== *)
theory Tool_Call
  imports Doc_Store
begin

text \<open>
  The tool-call lifecycle: \<^verbatim>\<open>gents/src/tool_call_lifecycle.rs\<close> (vocabulary and handle), its
  \<^verbatim>\<open>query.rs\<close> (reload) and \<^verbatim>\<open>transition.rs\<close> with \<^verbatim>\<open>transition/{native,bridge,mode_policy}.rs\<close>
  (every transition method). A handle is the record \<open>tool_call\<close>; the durable side is one
  \<^verbatim>\<open>AgentToolCall\<close> row behind the \<open>node\<close> interface. A method takes the node, the clock
  reading it makes, the handle and the database, and returns its result with the new handle and
  database; the calls a method makes on the database follow each other without interleaving.
\<close>

section \<open>Vocabulary\<close>

datatype tool_call_state =
  Pending | AwaitingApproval | Running | Completed | Failed | TimedOut | Cancelled

fun tool_state_as_str :: "tool_call_state \<Rightarrow> ustring" where
  "tool_state_as_str Pending = lit ''pending''"
| "tool_state_as_str AwaitingApproval = lit ''awaitingApproval''"
| "tool_state_as_str Running = lit ''running''"
| "tool_state_as_str Completed = lit ''completed''"
| "tool_state_as_str Failed = lit ''failed''"
| "tool_state_as_str TimedOut = lit ''timedOut''"
| "tool_state_as_str Cancelled = lit ''cancelled''"

definition tool_state_from_persisted :: "ustring \<Rightarrow> tool_call_state option" where
  "tool_state_from_persisted v =
     (if v = lit ''pending'' then Some Pending
      else if v = lit ''awaitingApproval'' then Some AwaitingApproval
      else if v = lit ''running'' then Some Running
      else if v = lit ''completed'' then Some Completed
      else if v = lit ''failed'' then Some Failed
      else if v = lit ''timedOut'' then Some TimedOut
      else if v = lit ''cancelled'' then Some Cancelled
      else None)"

definition tool_state_is_terminal :: "tool_call_state \<Rightarrow> bool" where
  "tool_state_is_terminal s \<longleftrightarrow> s \<in> {Completed, Failed, TimedOut, Cancelled}"

definition tool_state_is_cancellable :: "tool_call_state \<Rightarrow> bool" where
  "tool_state_is_cancellable s \<longleftrightarrow> s \<in> {Pending, AwaitingApproval, Running}"

datatype failure_class =
    ApprovalDenied | ArgumentInvalid | ServiceUnavailable | Transport | ToolReturnedError
  | PolicyDenied | External

fun failure_as_str :: "failure_class \<Rightarrow> ustring" where
  "failure_as_str ApprovalDenied = lit ''approvalDenied''"
| "failure_as_str ArgumentInvalid = lit ''argumentInvalid''"
| "failure_as_str ServiceUnavailable = lit ''serviceUnavailable''"
| "failure_as_str Transport = lit ''transport''"
| "failure_as_str ToolReturnedError = lit ''toolReturnedError''"
| "failure_as_str PolicyDenied = lit ''policyDenied''"
| "failure_as_str External = lit ''external''"

definition failure_from_persisted :: "ustring \<Rightarrow> failure_class option" where
  "failure_from_persisted v =
     (if v = lit ''approvalDenied'' then Some ApprovalDenied
      else if v = lit ''argumentInvalid'' then Some ArgumentInvalid
      else if v = lit ''serviceUnavailable'' then Some ServiceUnavailable
      else if v = lit ''transport'' then Some Transport
      else if v = lit ''toolReturnedError'' then Some ToolReturnedError
      else if v = lit ''policyDenied'' then Some PolicyDenied
      else if v = lit ''external'' then Some External
      else None)"

datatype await_mode = Foreground | Background

fun await_as_str :: "await_mode \<Rightarrow> ustring" where
  "await_as_str Foreground = lit ''foreground''"
| "await_as_str Background = lit ''background''"

definition await_from_persisted :: "ustring \<Rightarrow> await_mode option" where
  "await_from_persisted v =
     (if v = lit ''foreground'' then Some Foreground
      else if v = lit ''background'' then Some Background else None)"

datatype cancel_policy = Cascade | Detach

fun policy_as_str :: "cancel_policy \<Rightarrow> ustring" where
  "policy_as_str Cascade = lit ''cascade''"
| "policy_as_str Detach = lit ''detach''"

definition policy_from_persisted :: "ustring \<Rightarrow> cancel_policy option" where
  "policy_from_persisted v =
     (if v = lit ''cascade'' then Some Cascade
      else if v = lit ''detach'' then Some Detach else None)"

datatype cancel_cause = Interrupted | Deadline | UserCancelled

fun cause_as_str :: "cancel_cause \<Rightarrow> ustring" where
  "cause_as_str Interrupted = lit ''interrupted''"
| "cause_as_str Deadline = lit ''deadline''"
| "cause_as_str UserCancelled = lit ''userCancelled''"

definition cause_from_persisted :: "ustring \<Rightarrow> cancel_cause option" where
  "cause_from_persisted v =
     (if v = lit ''interrupted'' then Some Interrupted
      else if v = lit ''deadline'' then Some Deadline
      else if v = lit ''userCancelled'' then Some UserCancelled else None)"

datatype child_terminal =
  ChildFailed ustring failure_class | ChildDead | ChildInterrupted | ChildSuperseded

definition projected_state :: "child_terminal \<Rightarrow> tool_call_state" where
  "projected_state t = (case t of ChildInterrupted \<Rightarrow> Cancelled | _ \<Rightarrow> Failed)"

record cascade_intent =
  ci_child_request_id :: ustring
  ci_at :: instant

datatype cascade_dispatch = LocalIntent cascade_intent | RemoteIntentWritten

lemma tool_state_from_as [simp]: "tool_state_from_persisted (tool_state_as_str s) = Some s"
  by (cases s) (simp_all add: tool_state_from_persisted_def)

lemma tool_state_from_Some: "tool_state_from_persisted v = Some s \<Longrightarrow> tool_state_as_str s = v"
  by (auto simp: tool_state_from_persisted_def split: if_splits)

interpretation tool_state: persisted_vocab tool_state_as_str tool_state_from_persisted
  by unfold_locales (simp, erule tool_state_from_Some)

lemma failure_from_as [simp]: "failure_from_persisted (failure_as_str s) = Some s"
  by (cases s) (simp_all add: failure_from_persisted_def)

lemma failure_from_Some: "failure_from_persisted v = Some s \<Longrightarrow> failure_as_str s = v"
  by (auto simp: failure_from_persisted_def split: if_splits)

interpretation failure: persisted_vocab failure_as_str failure_from_persisted
  by unfold_locales (simp, erule failure_from_Some)

lemma await_from_as [simp]: "await_from_persisted (await_as_str s) = Some s"
  by (cases s) (simp_all add: await_from_persisted_def)

lemma await_from_Some: "await_from_persisted v = Some s \<Longrightarrow> await_as_str s = v"
  by (auto simp: await_from_persisted_def split: if_splits)

interpretation await: persisted_vocab await_as_str await_from_persisted
  by unfold_locales (simp, erule await_from_Some)

lemma policy_from_as [simp]: "policy_from_persisted (policy_as_str s) = Some s"
  by (cases s) (simp_all add: policy_from_persisted_def)

lemma policy_from_Some: "policy_from_persisted v = Some s \<Longrightarrow> policy_as_str s = v"
  by (auto simp: policy_from_persisted_def split: if_splits)

interpretation policy: persisted_vocab policy_as_str policy_from_persisted
  by unfold_locales (simp, erule policy_from_Some)

lemma cause_from_as [simp]: "cause_from_persisted (cause_as_str s) = Some s"
  by (cases s) (simp_all add: cause_from_persisted_def)

lemma cause_from_Some: "cause_from_persisted v = Some s \<Longrightarrow> cause_as_str s = v"
  by (auto simp: cause_from_persisted_def split: if_splits)

interpretation cause: persisted_vocab cause_as_str cause_from_persisted
  by unfold_locales (simp, erule cause_from_Some)

section \<open>The handle\<close>

record tool_call =
  tc_request_id :: ustring
  tc_request_doc_id :: "ustring option"
  tc_session_id :: ustring
  tc_agent_did :: ustring
  tc_requester_did :: "ustring option"
  tc_tool_call_id :: ustring
  tc_message_sequence :: nat
  tc_tool_name :: ustring
  tc_args :: ustring
  tc_doc_id :: "doc_id option"
  tc_deadline_at :: instant
  tc_state :: tool_call_state
  tc_started_at :: "instant option"
  tc_failure_class :: "failure_class option"
  tc_cancel_cause :: "cancel_cause option"
  tc_selected_tool_identity :: "(ustring \<times> ustring) option"
  tc_await_mode :: await_mode
  tc_cancel_policy :: cancel_policy
  tc_child_request_id :: "ustring option"
  tc_spawn_target_did :: "ustring option"
  tc_unclaimed_deadline_at :: "instant option"

definition tool_call_new ::
  "ustring \<Rightarrow> ustring \<Rightarrow> ustring \<Rightarrow> ustring \<Rightarrow> nat \<Rightarrow> ustring \<Rightarrow> ustring \<Rightarrow> instant \<Rightarrow> tool_call" where
  "tool_call_new request_id session_id agent_did tool_call_id message_sequence tool_name args
     deadline_at =
     \<lparr>tc_request_id = request_id, tc_request_doc_id = None, tc_session_id = session_id,
      tc_agent_did = agent_did, tc_requester_did = None, tc_tool_call_id = tool_call_id,
      tc_message_sequence = message_sequence, tc_tool_name = tool_name, tc_args = args,
      tc_doc_id = None, tc_deadline_at = deadline_at, tc_state = Pending, tc_started_at = None,
      tc_failure_class = None, tc_cancel_cause = None, tc_selected_tool_identity = None,
      tc_await_mode = Foreground, tc_cancel_policy = Cascade, tc_child_request_id = None,
      tc_spawn_target_did = None, tc_unclaimed_deadline_at = None\<rparr>"

definition tool_call_new_subagent ::
  "ustring \<Rightarrow> ustring \<Rightarrow> ustring \<Rightarrow> ustring \<Rightarrow> nat \<Rightarrow> ustring \<Rightarrow> ustring \<Rightarrow> instant \<Rightarrow>
   await_mode \<Rightarrow> cancel_policy \<Rightarrow> ustring \<Rightarrow> ustring \<Rightarrow> tool_call" where
  "tool_call_new_subagent request_id session_id agent_did tool_call_id message_sequence tool_name
     args deadline_at await_mode cancel_policy child_request_id spawn_target_did =
     \<lparr>tc_request_id = request_id, tc_request_doc_id = None, tc_session_id = session_id,
      tc_agent_did = agent_did, tc_requester_did = None, tc_tool_call_id = tool_call_id,
      tc_message_sequence = message_sequence, tc_tool_name = tool_name, tc_args = args,
      tc_doc_id = None, tc_deadline_at = deadline_at, tc_state = Pending, tc_started_at = None,
      tc_failure_class = None, tc_cancel_cause = None, tc_selected_tool_identity = None,
      tc_await_mode = await_mode, tc_cancel_policy = cancel_policy,
      tc_child_request_id = Some child_request_id, tc_spawn_target_did = Some spawn_target_did,
      tc_unclaimed_deadline_at = None\<rparr>"

definition tool_call_new_background_tool ::
  "ustring \<Rightarrow> ustring \<Rightarrow> ustring \<Rightarrow> ustring \<Rightarrow> nat \<Rightarrow> ustring \<Rightarrow> ustring \<Rightarrow> instant \<Rightarrow> tool_call" where
  "tool_call_new_background_tool request_id session_id agent_did tool_call_id message_sequence
     tool_name args deadline_at =
     \<lparr>tc_request_id = request_id, tc_request_doc_id = None, tc_session_id = session_id,
      tc_agent_did = agent_did, tc_requester_did = None, tc_tool_call_id = tool_call_id,
      tc_message_sequence = message_sequence, tc_tool_name = tool_name, tc_args = args,
      tc_doc_id = None, tc_deadline_at = deadline_at, tc_state = Pending, tc_started_at = None,
      tc_failure_class = None, tc_cancel_cause = None, tc_selected_tool_identity = None,
      tc_await_mode = Background, tc_cancel_policy = Cascade, tc_child_request_id = None,
      tc_spawn_target_did = None, tc_unclaimed_deadline_at = None\<rparr>"

definition with_requester_did :: "ustring option \<Rightarrow> tool_call \<Rightarrow> tool_call" where
  "with_requester_did did tc = tc\<lparr>tc_requester_did := nonblank did\<rparr>"

definition with_request_doc_id :: "ustring option \<Rightarrow> tool_call \<Rightarrow> tool_call" where
  "with_request_doc_id d tc = tc\<lparr>tc_request_doc_id := opt_filter (\<lambda>s. trim s \<noteq> []) d\<rparr>"

definition with_selected_tool_identity :: "(ustring \<times> ustring) option \<Rightarrow> tool_call \<Rightarrow> tool_call" where
  "with_selected_tool_identity sel tc =
     (case sel of None \<Rightarrow> tc | Some p \<Rightarrow> tc\<lparr>tc_selected_tool_identity := Some p\<rparr>)"

definition is_deadline_expired :: "tool_call \<Rightarrow> instant \<Rightarrow> bool" where
  "is_deadline_expired tc now \<longleftrightarrow> tc_deadline_at tc \<le> now"

definition is_subagent_bridge :: "tool_call \<Rightarrow> bool" where
  "is_subagent_bridge tc \<longleftrightarrow> tc_child_request_id tc \<noteq> None"

definition is_background_tool_bridge :: "tool_call \<Rightarrow> bool" where
  "is_background_tool_bridge tc \<longleftrightarrow>
     tc_child_request_id tc = None \<and> tc_await_mode tc = Background"

definition is_bridge :: "tool_call \<Rightarrow> bool" where
  "is_bridge tc \<longleftrightarrow> is_subagent_bridge tc \<or> is_background_tool_bridge tc"

definition terminal_persistence_status :: "tool_call \<Rightarrow> ustring option \<Rightarrow> ustring" where
  "terminal_persistence_status tc reason =
     (if is_background_tool_bridge tc
      then (case reason of
              Some r \<Rightarrow> lit ''completionPending:'' @ r
            | None \<Rightarrow> lit ''completionPending'')
      else lit ''completed'')"

definition set_unclaimed_deadline_at :: "instant option \<Rightarrow> tool_call \<Rightarrow> tool_call" where
  "set_unclaimed_deadline_at t tc = tc\<lparr>tc_unclaimed_deadline_at := t\<rparr>"

section \<open>Errors\<close>

datatype illegal_transition =
    BadState string tool_call_state "tool_call_state list"
  | ModeAlreadyBackground
  | ModeAlreadyForeground
  | PolicyAlreadyDetach
  | DetachRequiresChildLink
  | BridgeCompleteRequiresChildLink
  | BridgeFailureRequiresChildLink
  | CascadeRequiresCancelled
  | SubagentDepthExceeded
  | ParentLinkageIncoherent
  | NativeCompleteOnSubagentTool
  | NativeFailOnSubagentTool

datatype tc_error =
    Illegal illegal_transition
  | NoPersistedRow string
  | NoStartedAt string
  | MutationFailed string ustring
  | CreateReturnedNoDocId
  | RowDisappeared string
  | StillRunning string
  | StillRunningInMode string await_mode
  | StillAwaitingApproval string
  | LoadQueryFailed ustring
  | MissingLifecycleState
  | MissingDeadlineAt
  | MissingAwaitMode
  | MissingCancelPolicy
  | BadSelectedToolIdentity
  | MissingRequestId
  | MissingAgentDid
  | ChildQueryFailed ustring

definition ensure_state :: "tool_call_state list \<Rightarrow> string \<Rightarrow> tool_call \<Rightarrow> tc_error + unit" where
  "ensure_state allowed method tc =
     (if tc_state tc \<in> set allowed then Inr ()
      else Inl (Illegal (BadState method (tc_state tc) allowed)))"

section \<open>Reload\<close>

abbreviation ATC :: string where
  "ATC \<equiv> ''AgentToolCall''"

definition decode_selected_tool_identity ::
  "ustring option \<Rightarrow> ustring option \<Rightarrow> tc_error + (ustring \<times> ustring) option" where
  "decode_selected_tool_identity service_id tool_name =
     (case (service_id, tool_name) of
        (None, None) \<Rightarrow> Inr None
      | (Some s, Some t) \<Rightarrow>
          if trim s \<noteq> [] \<and> trim t \<noteq> [] then Inr (Some (s, t)) else Inl BadSelectedToolIdentity
      | _ \<Rightarrow> Inl BadSelectedToolIdentity)"

text \<open>The columns that \<^verbatim>\<open>ToolCallRow\<close> requires: without them the response does not deserialize and
  counts as no row.\<close>

definition row_decodes :: "row \<Rightarrow> bool" where
  "row_decodes r \<longleftrightarrow>
     (case int_field r ''message_sequence'' of Some n \<Rightarrow> 0 \<le> n \<and> n < 2 ^ 32 | None \<Rightarrow> False) \<and>
     str_field r ''tool_name'' \<noteq> None \<and> str_field r ''args'' \<noteq> None"

definition tool_call_of_row ::
  "ustring \<Rightarrow> ustring \<Rightarrow> doc_id \<Rightarrow> row \<Rightarrow> tc_error + tool_call" where
  "tool_call_of_row session_id tool_call_id d r =
     bind_res (ok_or MissingLifecycleState
        (Option.bind (str_field r ''lifecycle_state'') tool_state_from_persisted)) (\<lambda>state.
     bind_res (ok_or MissingDeadlineAt (time_field r ''deadline_at'')) (\<lambda>deadline.
     bind_res (ok_or MissingAwaitMode
        (Option.bind (str_field r ''await_mode'') await_from_persisted)) (\<lambda>mode.
     bind_res (ok_or MissingCancelPolicy
        (Option.bind (str_field r ''cancel_policy'') policy_from_persisted)) (\<lambda>cpolicy.
     bind_res (decode_selected_tool_identity (str_field r ''selected_service_id'')
        (str_field r ''selected_tool_name'')) (\<lambda>sel.
     bind_res (ok_or MissingRequestId
        (opt_filter (\<lambda>s. trim s \<noteq> []) (str_field r ''request_id''))) (\<lambda>request_id.
     bind_res (ok_or MissingAgentDid
        (opt_filter (\<lambda>s. trim s \<noteq> []) (str_field r ''agent_did''))) (\<lambda>agent_did.
     Inr \<lparr>tc_request_id = request_id,
          tc_request_doc_id = opt_filter (\<lambda>s. trim s \<noteq> []) (str_field r ''request_doc_id''),
          tc_session_id = session_id, tc_agent_did = agent_did,
          tc_requester_did = opt_filter (\<lambda>s. trim s \<noteq> []) (str_field r ''requester_did''),
          tc_tool_call_id = tool_call_id,
          tc_message_sequence = nat (the (int_field r ''message_sequence'')),
          tc_tool_name = the (str_field r ''tool_name''),
          tc_args = the (str_field r ''args''),
          tc_doc_id = Some d, tc_deadline_at = deadline, tc_state = state,
          tc_started_at = time_field r ''started_at'',
          tc_failure_class = Option.bind (str_field r ''tool_failure_class'') failure_from_persisted,
          tc_cancel_cause = Option.bind (str_field r ''cancel_cause'') cause_from_persisted,
          tc_selected_tool_identity = sel, tc_await_mode = mode, tc_cancel_policy = cpolicy,
          tc_child_request_id = opt_filter (\<lambda>s. s \<noteq> []) (str_field r ''child_request_id''),
          tc_spawn_target_did = opt_filter (\<lambda>s. s \<noteq> []) (str_field r ''spawn_target_did''),
          tc_unclaimed_deadline_at = time_field r ''unclaimed_deadline_at''\<rparr>)))))))"

definition tool_call_load ::
  "'db node \<Rightarrow> ustring \<Rightarrow> ustring \<Rightarrow> 'db \<Rightarrow> tc_error + tool_call option" where
  "tool_call_load N session_id tool_call_id db =
     (case nd_query N ATC [(''session_id'', Is (GStr session_id)), (''tool_call_id'', Is (GStr tool_call_id))] db of
        Inl e \<Rightarrow> Inl (LoadQueryFailed e)
      | Inr rows \<Rightarrow>
          (case first_of rows of
             None \<Rightarrow> Inr None
           | Some (d, r) \<Rightarrow>
               if \<not> row_decodes r then Inr None
               else bind_res (tool_call_of_row session_id tool_call_id d r) (\<lambda>tc. Inr (Some tc))))"

definition load_tool_call_result ::
  "'db node \<Rightarrow> ustring \<Rightarrow> ustring \<Rightarrow> 'db \<Rightarrow> tc_error + ustring" where
  "load_tool_call_result N session_id tool_call_id db =
     (case nd_query N ATC [(''tool_call_key'', Is (GStr (session_id @ lit '':'' @ tool_call_id)))] db of
        Inl e \<Rightarrow> Inl (LoadQueryFailed e)
      | Inr rows \<Rightarrow>
          (case first_of rows of
             None \<Rightarrow> Inl (RowDisappeared ''load_tool_call_result'')
           | Some (d, r) \<Rightarrow>
               (case str_field r ''result'' of
                  None \<Rightarrow> Inl (LoadQueryFailed [])
                | Some s \<Rightarrow> Inr s)))"

text \<open>Adopting the durable row after a lost compare-and-set.\<close>

definition adopt_row :: "tool_call \<Rightarrow> tool_call \<Rightarrow> tool_call" where
  "adopt_row current tc = tc\<lparr>tc_doc_id := tc_doc_id current, tc_deadline_at := tc_deadline_at current,
     tc_state := tc_state current, tc_started_at := tc_started_at current,
     tc_failure_class := tc_failure_class current, tc_cancel_cause := tc_cancel_cause current,
     tc_await_mode := tc_await_mode current, tc_cancel_policy := tc_cancel_policy current,
     tc_child_request_id := tc_child_request_id current,
     tc_unclaimed_deadline_at := tc_unclaimed_deadline_at current\<rparr>"

definition sync_after_lost_running_compare ::
  "'db node \<Rightarrow> string \<Rightarrow> tool_call \<Rightarrow> 'db \<Rightarrow> tc_error + tool_call" where
  "sync_after_lost_running_compare N method tc db =
     bind_res (tool_call_load N (tc_session_id tc) (tc_tool_call_id tc) db) (\<lambda>found.
     bind_res (ok_or (RowDisappeared method) found) (\<lambda>current.
       if tc_state current = Running then Inl (StillRunning method)
       else Inr (adopt_row current tc)))"

definition sync_after_lost_mode_compare ::
  "'db node \<Rightarrow> string \<Rightarrow> await_mode \<Rightarrow> tool_call \<Rightarrow> 'db \<Rightarrow> tc_error + tool_call" where
  "sync_after_lost_mode_compare N method target tc db =
     bind_res (tool_call_load N (tc_session_id tc) (tc_tool_call_id tc) db) (\<lambda>found.
     bind_res (ok_or (RowDisappeared method) found) (\<lambda>current.
       if tc_state current = Running \<and> tc_await_mode current \<noteq> target
       then Inl (StillRunningInMode method (tc_await_mode current))
       else Inr (adopt_row current tc)))"

definition sync_after_lost_held_compare ::
  "'db node \<Rightarrow> string \<Rightarrow> tool_call \<Rightarrow> 'db \<Rightarrow> tc_error + tool_call" where
  "sync_after_lost_held_compare N method tc db =
     bind_res (tool_call_load N (tc_session_id tc) (tc_tool_call_id tc) db) (\<lambda>found.
     bind_res (ok_or (RowDisappeared method) found) (\<lambda>current.
       if tc_state current = AwaitingApproval then Inl (StillAwaitingApproval method)
       else Inr (tc\<lparr>tc_doc_id := tc_doc_id current, tc_deadline_at := tc_deadline_at current,
              tc_state := tc_state current, tc_started_at := tc_started_at current,
              tc_failure_class := tc_failure_class current,
              tc_cancel_cause := tc_cancel_cause current\<rparr>)))"

section \<open>Columns written by the transitions\<close>

definition selected_tool_fields :: "tool_call \<Rightarrow> input" where
  "selected_tool_fields tc =
     (case tc_selected_tool_identity tc of
        Some (s, t) \<Rightarrow> [(''selected_service_id'', GStr s), (''selected_tool_name'', GStr t)]
      | None \<Rightarrow> [(''selected_service_id'', GNull), (''selected_tool_name'', GNull)])"

definition clear_unclaimed_deadline :: "tool_call \<Rightarrow> input" where
  "clear_unclaimed_deadline tc =
     (if tc_unclaimed_deadline_at tc \<noteq> None then [(''unclaimed_deadline_at'', GNull)] else [])"

definition resupply_unclaimed_deadline :: "tool_call \<Rightarrow> input" where
  "resupply_unclaimed_deadline tc =
     (case tc_unclaimed_deadline_at tc of
        None \<Rightarrow> [] | Some t \<Rightarrow> [(''unclaimed_deadline_at'', GTime (trunc_secs t))])"

text \<open>What the fragments read from a \<^verbatim>\<open>CommandPolicyDenial\<close>.\<close>

record command_denial =
  cd_contract :: ustring
  cd_denied_argv :: "ustring list option"
  cd_denied_command :: "ustring option"
  cd_denied_argument :: "ustring option"
  cd_denied_subcommand :: "ustring option"
  cd_matched_prefix :: "ustring list option"
  cd_policy_mode :: ustring
  cd_policy_network :: ustring

definition opt_str :: "ustring option \<Rightarrow> gval" where
  "opt_str v = (case v of None \<Rightarrow> GNull | Some s \<Rightarrow> GStr s)"

definition opt_strs :: "ustring list option \<Rightarrow> gval" where
  "opt_strs v = (case v of None \<Rightarrow> GNull | Some s \<Rightarrow> GStrs s)"

definition command_denial_fields :: "command_denial option \<Rightarrow> input" where
  "command_denial_fields denial =
     (case denial of
        None \<Rightarrow> []
      | Some c \<Rightarrow>
          [(''denial_reason'', GStr (cd_contract c)), (''denied_argv'', opt_strs (cd_denied_argv c)),
           (''denied_command'', opt_str (cd_denied_command c)),
           (''denied_argument'', opt_str (cd_denied_argument c)),
           (''denied_subcommand'', opt_str (cd_denied_subcommand c)),
           (''denied_prefix'', opt_strs (cd_matched_prefix c)),
           (''policy_mode'', GStr (cd_policy_mode c)), (''policy_network'', GStr (cd_policy_network c))])"

text \<open>The identity columns shared by the four create mutations, from \<open>tool_call_key\<close> to \<open>args\<close>.\<close>

definition identity_columns :: "tool_call \<Rightarrow> input" where
  "identity_columns tc =
     [(''tool_call_key'', GStr (tc_session_id tc @ lit '':'' @ tc_tool_call_id tc)),
      (''request_id'', GStr (tc_request_id tc))] @
     request_doc_id_create_field (tc_request_doc_id tc) @
     [(''session_id'', GStr (tc_session_id tc)), (''agent_did'', GStr (tc_agent_did tc))] @
     requester_did_create_field (tc_requester_did tc) @
     [(''message_sequence'', GInt (int (tc_message_sequence tc))),
      (''tool_name'', GStr (tc_tool_name tc)), (''tool_call_id'', GStr (tc_tool_call_id tc)),
      (''args'', GStr (tc_args tc))]"

definition bridge_fields :: "tool_call \<Rightarrow> input" where
  "bridge_fields tc =
     (case tc_child_request_id tc of None \<Rightarrow> [] | Some c \<Rightarrow> [(''child_request_id'', GStr c)]) @
     (case tc_spawn_target_did tc of None \<Rightarrow> [] | Some d \<Rightarrow> [(''spawn_target_did'', GStr d)]) @
     (case tc_unclaimed_deadline_at tc of
        None \<Rightarrow> [] | Some t \<Rightarrow> [(''unclaimed_deadline_at'', GTime (trunc_secs t))]) @
     [(''await_mode'', GStr (await_as_str (tc_await_mode tc))),
      (''cancel_policy'', GStr (policy_as_str (tc_cancel_policy tc)))]"

definition extract_doc_id_from_create_response :: "json option \<Rightarrow> doc_id option" where
  "extract_doc_id_from_create_response resp_data =
     Option.bind resp_data (\<lambda>data.
     Option.bind (or_else (json_get (lit ''create_AgentToolCall'') data)
                    (json_get (lit ''add_AgentToolCall'') data)) (\<lambda>value.
       or_else (Option.bind (json_get (lit ''_docID'') value) json_as_str)
         (Option.bind (Option.bind (Option.bind (json_as_array value) first_of)
            (json_get (lit ''_docID''))) json_as_str)))"

section \<open>The two database steps of a transition\<close>

text \<open>
  Every create transition runs its mutation, reads the document identifier from the response and
  then updates the handle; every other transition runs an update filtered on the state it leaves
  and either moves on or adopts the row another actor wrote. The source spells both out in each
  method.
\<close>

definition create_transition ::
  "'db node \<Rightarrow> string \<Rightarrow> input \<Rightarrow> (doc_id \<Rightarrow> tool_call \<Rightarrow> tool_call) \<Rightarrow> tool_call \<Rightarrow> 'db \<Rightarrow>
   (tc_error + unit) \<times> tool_call \<times> 'db" where
  "create_transition N method inp moved tc db =
     (case nd_create N ATC inp db of
        (Inl e, db') \<Rightarrow> (Inl (MutationFailed method e), tc, db')
      | (Inr resp, db') \<Rightarrow>
          (case extract_doc_id_from_create_response resp of
             None \<Rightarrow> (Inl CreateReturnedNoDocId, tc, db')
           | Some d \<Rightarrow> (Inr (), moved d tc, db')))"

definition cas_transition ::
  "'db node \<Rightarrow> string \<Rightarrow> eq_filter \<Rightarrow> input \<Rightarrow> (tool_call \<Rightarrow> 'db \<Rightarrow> tc_error + tool_call) \<Rightarrow>
   (tool_call \<Rightarrow> tool_call) \<Rightarrow> tool_call \<Rightarrow> 'db \<Rightarrow> (tc_error + bool) \<times> tool_call \<times> 'db" where
  "cas_transition N method flt inp sync moved tc db =
     (case nd_update N ATC flt inp db of
        (Inl e, db') \<Rightarrow> (Inl (MutationFailed method e), tc, db')
      | (Inr resp, db') \<Rightarrow>
          if update_hit ATC resp then (Inr True, moved tc, db')
          else (case sync tc db' of
                  Inl e \<Rightarrow> (Inl e, tc, db')
                | Inr tc' \<Rightarrow> (Inr False, tc', db')))"

text \<open>Methods that do not report who won drop the flag.\<close>

definition drop_flag :: "('e + bool) \<times> 'b \<Rightarrow> ('e + unit) \<times> 'b" where
  "drop_flag = apfst (map_sum id (\<lambda>_. ()))"

definition running_filter :: "doc_id \<Rightarrow> eq_filter" where
  "running_filter d = [(''_docID'', Is (GStr d)), (''lifecycle_state'', Is (GStr (lit ''running'')))]"

definition held_filter :: "doc_id \<Rightarrow> eq_filter" where
  "held_filter d = [(''_docID'', Is (GStr d)), (''lifecycle_state'', Is (GStr (lit ''awaitingApproval'')))]"

text \<open>The guards of a transition that leaves \<open>Running\<close>: state, persisted row, start time.\<close>

definition with_running ::
  "string \<Rightarrow> tool_call \<Rightarrow> 'db \<Rightarrow> (doc_id \<Rightarrow> instant \<Rightarrow> (tc_error + 'r) \<times> tool_call \<times> 'db) \<Rightarrow>
   (tc_error + 'r) \<times> tool_call \<times> 'db" where
  "with_running method tc db k =
     (case tc_doc_id tc of
        None \<Rightarrow> (Inl (NoPersistedRow method), tc, db)
      | Some d \<Rightarrow>
          (case tc_started_at tc of
             None \<Rightarrow> (Inl (NoStartedAt method), tc, db)
           | Some t \<Rightarrow> k d t))"

definition with_held ::
  "string \<Rightarrow> tool_call \<Rightarrow> 'db \<Rightarrow> (doc_id \<Rightarrow> (tc_error + 'r) \<times> tool_call \<times> 'db) \<Rightarrow>
   (tc_error + 'r) \<times> tool_call \<times> 'db" where
  "with_held method tc db k =
     (case ensure_state [AwaitingApproval] method tc of
        Inl e \<Rightarrow> (Inl e, tc, db)
      | Inr _ \<Rightarrow>
          (case tc_doc_id tc of
             None \<Rightarrow> (Inl (NoPersistedRow method), tc, db)
           | Some d \<Rightarrow> k d))"

section \<open>Native transitions\<close>

definition start_running ::
  "'db node \<Rightarrow> instant \<Rightarrow> tool_call \<Rightarrow> 'db \<Rightarrow> (tc_error + unit) \<times> tool_call \<times> 'db" where
  "start_running N now tc db =
     (if tc_state tc = Running then (Inr (), tc, db)
      else case ensure_state [Pending] ''start_running'' tc of
          Inl e \<Rightarrow> (Inl e, tc, db)
        | Inr _ \<Rightarrow>
            create_transition N ''start_running''
              (identity_columns tc @
               [(''result'', GStr []), (''status'', GStr (lit ''called'')),
                (''lifecycle_state'', GStr (lit ''running'')), (''started_at'', GTime now),
                (''deadline_at'', GTime (tc_deadline_at tc))] @
               bridge_fields tc @ selected_tool_fields tc @
               [(''tool_failure_class'', GNull), (''latency_ms'', GNull)])
              (\<lambda>d t. t\<lparr>tc_doc_id := Some d, tc_state := Running, tc_started_at := Some now\<rparr>)
              tc db)"

definition complete ::
  "'db node \<Rightarrow> instant \<Rightarrow> ustring \<Rightarrow> tool_call \<Rightarrow> 'db \<Rightarrow> (tc_error + unit) \<times> tool_call \<times> 'db" where
  "complete N now result tc db =
     (case ensure_state [Running] ''complete'' tc of
        Inl e \<Rightarrow> (Inl e, tc, db)
      | Inr _ \<Rightarrow>
          if is_bridge tc then (Inl (Illegal NativeCompleteOnSubagentTool), tc, db)
          else with_running ''complete'' tc db (\<lambda>d started_at.
            drop_flag (cas_transition N ''complete'' (running_filter d)
              ([(''result'', GStr result), (''status'', GStr (lit ''completed'')),
                (''lifecycle_state'', GStr (lit ''completed'')), (''started_at'', GTime started_at),
                (''deadline_at'', GTime (tc_deadline_at tc)), (''completed_at'', GTime now),
                (''latency_ms'', GInt (num_milliseconds (now - started_at)))] @
               clear_unclaimed_deadline tc)
              (sync_after_lost_running_compare N ''complete'')
              (\<lambda>t. t\<lparr>tc_state := Completed\<rparr>) tc db)))"

definition fail_with_details ::
  "'db node \<Rightarrow> instant \<Rightarrow> ustring \<Rightarrow> failure_class \<Rightarrow> command_denial option \<Rightarrow> tool_call \<Rightarrow> 'db \<Rightarrow>
   (tc_error + unit) \<times> tool_call \<times> 'db" where
  "fail_with_details N now result failure denial tc db =
     (case ensure_state [Running] ''fail'' tc of
        Inl e \<Rightarrow> (Inl e, tc, db)
      | Inr _ \<Rightarrow>
          if is_bridge tc then (Inl (Illegal NativeFailOnSubagentTool), tc, db)
          else with_running ''fail'' tc db (\<lambda>d started_at.
            drop_flag (cas_transition N ''fail'' (running_filter d)
              ([(''result'', GStr result), (''status'', GStr (lit ''completed'')),
                (''lifecycle_state'', GStr (lit ''failed'')), (''started_at'', GTime started_at),
                (''deadline_at'', GTime (tc_deadline_at tc)), (''completed_at'', GTime now),
                (''tool_failure_class'', GStr (failure_as_str failure))] @
               command_denial_fields denial @
               [(''latency_ms'', GInt (num_milliseconds (now - started_at)))] @
               clear_unclaimed_deadline tc)
              (sync_after_lost_running_compare N ''fail'')
              (\<lambda>t. t\<lparr>tc_state := Failed, tc_failure_class := Some failure\<rparr>) tc db)))"

definition fail ::
  "'db node \<Rightarrow> instant \<Rightarrow> ustring \<Rightarrow> failure_class \<Rightarrow> tool_call \<Rightarrow> 'db \<Rightarrow>
   (tc_error + unit) \<times> tool_call \<times> 'db" where
  "fail N now result failure = fail_with_details N now result failure None"

definition fail_with_command_denial ::
  "'db node \<Rightarrow> instant \<Rightarrow> ustring \<Rightarrow> command_denial \<Rightarrow> tool_call \<Rightarrow> 'db \<Rightarrow>
   (tc_error + unit) \<times> tool_call \<times> 'db" where
  "fail_with_command_denial N now result denial =
     fail_with_details N now result PolicyDenied (Some denial)"

definition spawn_failed_with_details ::
  "'db node \<Rightarrow> instant \<Rightarrow> failure_class \<Rightarrow> ustring \<Rightarrow> command_denial option \<Rightarrow> tool_call \<Rightarrow> 'db \<Rightarrow>
   (tc_error + unit) \<times> tool_call \<times> 'db" where
  "spawn_failed_with_details N now failure reason denial tc db =
     (case ensure_state [Pending] ''spawn_failed'' tc of
        Inl e \<Rightarrow> (Inl e, tc, db)
      | Inr _ \<Rightarrow>
          create_transition N ''spawn_failed''
            (identity_columns tc @
             [(''result'', GStr reason), (''status'', GStr (lit ''completed'')),
              (''lifecycle_state'', GStr (lit ''failed'')), (''started_at'', GNull),
              (''deadline_at'', GTime (tc_deadline_at tc)), (''completed_at'', GTime now),
              (''tool_failure_class'', GStr (failure_as_str failure))] @
             command_denial_fields denial @ selected_tool_fields tc @ [(''latency_ms'', GInt 0)])
            (\<lambda>d t. t\<lparr>tc_doc_id := Some d, tc_state := Failed, tc_failure_class := Some failure\<rparr>)
            tc db)"

definition spawn_failed ::
  "'db node \<Rightarrow> instant \<Rightarrow> failure_class \<Rightarrow> ustring \<Rightarrow> tool_call \<Rightarrow> 'db \<Rightarrow>
   (tc_error + unit) \<times> tool_call \<times> 'db" where
  "spawn_failed N now failure reason = spawn_failed_with_details N now failure reason None"

definition spawn_failed_with_command_denial ::
  "'db node \<Rightarrow> instant \<Rightarrow> ustring \<Rightarrow> command_denial \<Rightarrow> tool_call \<Rightarrow> 'db \<Rightarrow>
   (tc_error + unit) \<times> tool_call \<times> 'db" where
  "spawn_failed_with_command_denial N now reason denial =
     spawn_failed_with_details N now PolicyDenied reason (Some denial)"

definition timeout ::
  "(instant \<Rightarrow> ustring) \<Rightarrow> 'db node \<Rightarrow> instant \<Rightarrow> tool_call \<Rightarrow> 'db \<Rightarrow>
   (tc_error + bool) \<times> tool_call \<times> 'db" where
  "timeout rfc3339 N now tc db =
     (case ensure_state [Running] ''timeout'' tc of
        Inl e \<Rightarrow> (Inl e, tc, db)
      | Inr _ \<Rightarrow>
          with_running ''timeout'' tc db (\<lambda>d started_at.
            cas_transition N ''timeout'' (running_filter d)
              ([(''result'', GStr (lit ''tool call deadline exceeded at '' @ rfc3339 (tc_deadline_at tc))),
                (''status'', GStr (lit ''completed'')), (''lifecycle_state'', GStr (lit ''timedOut'')),
                (''tool_failure_class'', GStr (failure_as_str External)),
                (''cancel_cause'', GStr (cause_as_str Deadline)), (''started_at'', GTime started_at),
                (''deadline_at'', GTime (tc_deadline_at tc)), (''completed_at'', GTime now),
                (''latency_ms'', GInt (num_milliseconds (now - started_at)))] @
               clear_unclaimed_deadline tc)
              (sync_after_lost_running_compare N ''timeout'')
              (\<lambda>t. t\<lparr>tc_state := TimedOut, tc_failure_class := Some External,
                     tc_cancel_cause := Some Deadline\<rparr>) tc db))"

definition cancel_before_dispatch ::
  "'db node \<Rightarrow> instant \<Rightarrow> cancel_cause \<Rightarrow> tool_call \<Rightarrow> 'db \<Rightarrow>
   (tc_error + unit) \<times> tool_call \<times> 'db" where
  "cancel_before_dispatch N now cause tc db =
     (case ensure_state [Pending] ''cancel_before_dispatch'' tc of
        Inl e \<Rightarrow> (Inl e, tc, db)
      | Inr _ \<Rightarrow>
          create_transition N ''cancel_before_dispatch''
            (identity_columns tc @
             [(''result'', GStr (lit ''tool call cancelled before dispatch'')),
              (''status'', GStr (lit ''completed'')), (''lifecycle_state'', GStr (lit ''cancelled'')),
              (''cancel_cause'', GStr (cause_as_str cause)), (''started_at'', GNull),
              (''deadline_at'', GTime (tc_deadline_at tc)), (''completed_at'', GTime now)] @
             selected_tool_fields tc @ [(''latency_ms'', GInt 0)])
            (\<lambda>d t. t\<lparr>tc_doc_id := Some d, tc_state := Cancelled, tc_cancel_cause := Some cause\<rparr>)
            tc db)"

definition hold_for_approval ::
  "'db node \<Rightarrow> tool_call \<Rightarrow> 'db \<Rightarrow> (tc_error + unit) \<times> tool_call \<times> 'db" where
  "hold_for_approval N tc db =
     (if tc_state tc = AwaitingApproval then (Inr (), tc, db)
      else case ensure_state [Pending] ''hold_for_approval'' tc of
          Inl e \<Rightarrow> (Inl e, tc, db)
        | Inr _ \<Rightarrow>
            create_transition N ''hold_for_approval''
              (identity_columns tc @
               [(''result'', GStr []), (''status'', GStr (lit ''called'')),
                (''lifecycle_state'', GStr (lit ''awaitingApproval'')), (''started_at'', GNull),
                (''deadline_at'', GTime (tc_deadline_at tc))] @
               selected_tool_fields tc @
               [(''tool_failure_class'', GNull), (''latency_ms'', GNull)])
              (\<lambda>d t. t\<lparr>tc_doc_id := Some d, tc_state := AwaitingApproval\<rparr>)
              tc db)"

definition approve_and_start ::
  "'db node \<Rightarrow> instant \<Rightarrow> tool_call \<Rightarrow> 'db \<Rightarrow> (tc_error + bool) \<times> tool_call \<times> 'db" where
  "approve_and_start N now tc db =
     with_held ''approve_and_start'' tc db (\<lambda>d.
       cas_transition N ''approve_and_start'' (held_filter d)
         [(''lifecycle_state'', GStr (lit ''running'')), (''started_at'', GTime now),
          (''deadline_at'', GTime (tc_deadline_at tc))]
         (sync_after_lost_held_compare N ''approve_and_start'')
         (\<lambda>t. t\<lparr>tc_state := Running, tc_started_at := Some now\<rparr>) tc db)"

definition deny_approval ::
  "'db node \<Rightarrow> instant \<Rightarrow> ustring \<Rightarrow> tool_call \<Rightarrow> 'db \<Rightarrow> (tc_error + bool) \<times> tool_call \<times> 'db" where
  "deny_approval N now reason tc db =
     with_held ''deny_approval'' tc db (\<lambda>d.
       cas_transition N ''deny_approval'' (held_filter d)
         [(''result'', GStr reason), (''status'', GStr (lit ''completed'')),
          (''lifecycle_state'', GStr (lit ''failed'')),
          (''tool_failure_class'', GStr (failure_as_str ApprovalDenied)),
          (''deadline_at'', GTime (tc_deadline_at tc)), (''completed_at'', GTime now),
          (''latency_ms'', GInt 0)]
         (sync_after_lost_held_compare N ''deny_approval'')
         (\<lambda>t. t\<lparr>tc_state := Failed, tc_failure_class := Some ApprovalDenied\<rparr>) tc db)"

definition cancel_while_held ::
  "'db node \<Rightarrow> instant \<Rightarrow> cancel_cause \<Rightarrow> tool_call \<Rightarrow> 'db \<Rightarrow>
   (tc_error + bool) \<times> tool_call \<times> 'db" where
  "cancel_while_held N now cause tc db =
     with_held ''cancel_while_held'' tc db (\<lambda>d.
       cas_transition N ''cancel_while_held'' (held_filter d)
         [(''result'', GStr (lit ''tool call cancelled while awaiting approval'')),
          (''status'', GStr (lit ''completed'')), (''lifecycle_state'', GStr (lit ''cancelled'')),
          (''cancel_cause'', GStr (cause_as_str cause)),
          (''deadline_at'', GTime (tc_deadline_at tc)), (''completed_at'', GTime now),
          (''latency_ms'', GInt 0)]
         (sync_after_lost_held_compare N ''cancel_while_held'')
         (\<lambda>t. t\<lparr>tc_state := Cancelled, tc_cancel_cause := Some cause\<rparr>) tc db)"

definition timeout_while_held ::
  "(instant \<Rightarrow> ustring) \<Rightarrow> 'db node \<Rightarrow> instant \<Rightarrow> tool_call \<Rightarrow> 'db \<Rightarrow>
   (tc_error + bool) \<times> tool_call \<times> 'db" where
  "timeout_while_held rfc3339 N now tc db =
     with_held ''timeout_while_held'' tc db (\<lambda>d.
       cas_transition N ''timeout_while_held'' (held_filter d)
         [(''result'',
             GStr (lit ''tool call approval deadline exceeded at '' @ rfc3339 (tc_deadline_at tc))),
          (''status'', GStr (lit ''completed'')), (''lifecycle_state'', GStr (lit ''timedOut'')),
          (''tool_failure_class'', GStr (failure_as_str External)),
          (''cancel_cause'', GStr (cause_as_str Deadline)),
          (''deadline_at'', GTime (tc_deadline_at tc)), (''completed_at'', GTime now),
          (''latency_ms'', GInt 0)]
         (sync_after_lost_held_compare N ''timeout_while_held'')
         (\<lambda>t. t\<lparr>tc_state := TimedOut, tc_failure_class := Some External,
                tc_cancel_cause := Some Deadline\<rparr>) tc db)"

section \<open>Bridge transitions\<close>

definition bridge_complete ::
  "'db node \<Rightarrow> instant \<Rightarrow> ustring \<Rightarrow> tool_call \<Rightarrow> 'db \<Rightarrow> (tc_error + bool) \<times> tool_call \<times> 'db" where
  "bridge_complete N now child_result tc db =
     (case ensure_state [Running] ''bridge_complete'' tc of
        Inl e \<Rightarrow> (Inl e, tc, db)
      | Inr _ \<Rightarrow>
          if \<not> is_bridge tc then (Inl (Illegal BridgeCompleteRequiresChildLink), tc, db)
          else with_running ''bridge_complete'' tc db (\<lambda>d started_at.
            cas_transition N ''bridge_complete'' (running_filter d)
              ([(''result'', GStr child_result),
                (''status'', GStr (terminal_persistence_status tc None)),
                (''lifecycle_state'', GStr (lit ''completed'')), (''started_at'', GTime started_at),
                (''deadline_at'', GTime (tc_deadline_at tc)), (''completed_at'', GTime now),
                (''latency_ms'', GInt (num_milliseconds (now - started_at)))] @
               clear_unclaimed_deadline tc)
              (sync_after_lost_running_compare N ''bridge_complete'')
              (\<lambda>t. t\<lparr>tc_state := Completed\<rparr>) tc db))"

definition bridge_failure_with_completion_reason ::
  "'db node \<Rightarrow> instant \<Rightarrow> child_terminal \<Rightarrow> ustring \<Rightarrow> tool_call \<Rightarrow> 'db \<Rightarrow>
   (tc_error + bool) \<times> tool_call \<times> 'db" where
  "bridge_failure_with_completion_reason N now child completion_reason tc db =
     (case ensure_state [Running] ''bridge_failure'' tc of
        Inl e \<Rightarrow> (Inl e, tc, db)
      | Inr _ \<Rightarrow>
          if \<not> is_bridge tc then (Inl (Illegal BridgeFailureRequiresChildLink), tc, db)
          else
            let projected = projected_state child;
                failure = (case child of ChildFailed _ fc \<Rightarrow> Some fc | _ \<Rightarrow> None);
                cancel = (if projected = Cancelled then Some Interrupted else None)
            in with_running ''bridge_failure'' tc db (\<lambda>d started_at.
              cas_transition N ''bridge_failure'' (running_filter d)
                ((case child of
                    ChildFailed reason fc \<Rightarrow>
                      [(''result'', GStr reason), (''tool_failure_class'', GStr (failure_as_str fc))]
                  | _ \<Rightarrow> []) @
                 (if projected = Cancelled
                  then [(''cancel_cause'', GStr (cause_as_str Interrupted))] else []) @
                 [(''status'', GStr (terminal_persistence_status tc (Some completion_reason))),
                  (''lifecycle_state'', GStr (tool_state_as_str projected)),
                  (''started_at'', GTime started_at),
                  (''deadline_at'', GTime (tc_deadline_at tc)), (''completed_at'', GTime now),
                  (''latency_ms'', GInt (num_milliseconds (now - started_at)))] @
                 clear_unclaimed_deadline tc)
                (sync_after_lost_running_compare N ''bridge_failure'')
                (\<lambda>t. t\<lparr>tc_state := projected, tc_failure_class := failure,
                       tc_cancel_cause := cancel\<rparr>) tc db))"

definition bridge_failure ::
  "'db node \<Rightarrow> instant \<Rightarrow> child_terminal \<Rightarrow> tool_call \<Rightarrow> 'db \<Rightarrow>
   (tc_error + bool) \<times> tool_call \<times> 'db" where
  "bridge_failure N now child tc db =
     bridge_failure_with_completion_reason N now child
       (case child of
          ChildDead \<Rightarrow> lit ''deadline_exceeded''
        | ChildInterrupted \<Rightarrow> lit ''explicit_cancel''
        | ChildFailed _ _ \<Rightarrow> lit ''tool_failed''
        | ChildSuperseded \<Rightarrow> lit ''tool_failed'') tc db"

definition cancel_during_run_inner ::
  "'db node \<Rightarrow> instant \<Rightarrow> cancel_cause \<Rightarrow> instant option \<Rightarrow> ustring option \<Rightarrow> tool_call \<Rightarrow> 'db \<Rightarrow>
   (tc_error + bool) \<times> tool_call \<times> 'db" where
  "cancel_during_run_inner N now cause remote_at reason_override tc db =
     (case ensure_state [Running] ''cancel_during_run'' tc of
        Inl e \<Rightarrow> (Inl e, tc, db)
      | Inr _ \<Rightarrow>
          with_running ''cancel_during_run'' tc db (\<lambda>d started_at.
            let completion_reason =
                  (case reason_override of
                     Some r \<Rightarrow> r
                   | None \<Rightarrow> (case cause of
                       Deadline \<Rightarrow> lit ''deadline_exceeded''
                     | Interrupted \<Rightarrow> lit ''parent_interrupted''
                     | UserCancelled \<Rightarrow> lit ''explicit_cancel''))
            in cas_transition N ''cancel_during_run'' (running_filter d)
              ([(''result'', GStr (lit ''tool call cancelled'')),
                (''status'', GStr (terminal_persistence_status tc (Some completion_reason))),
                (''lifecycle_state'', GStr (lit ''cancelled'')),
                (''cancel_cause'', GStr (cause_as_str cause)), (''started_at'', GTime started_at),
                (''deadline_at'', GTime (tc_deadline_at tc)), (''completed_at'', GTime now),
                (''latency_ms'', GInt (num_milliseconds (now - started_at)))] @
               (case remote_at of
                  None \<Rightarrow> []
                | Some at \<Rightarrow> [(''cancel_cascade_intent_at'', GTime at),
                              (''cancel_pending_remote_ack'', GBool True)]) @
               clear_unclaimed_deadline tc)
              (sync_after_lost_running_compare N ''cancel_during_run'')
              (\<lambda>t. t\<lparr>tc_state := Cancelled, tc_cancel_cause := Some cause\<rparr>) tc db))"

definition cancel_during_run ::
  "'db node \<Rightarrow> instant \<Rightarrow> cancel_cause \<Rightarrow> tool_call \<Rightarrow> 'db \<Rightarrow>
   (tc_error + bool) \<times> tool_call \<times> 'db" where
  "cancel_during_run N now cause = cancel_during_run_inner N now cause None None"

definition cancel_during_run_owned ::
  "'db node \<Rightarrow> instant \<Rightarrow> cancel_cause \<Rightarrow> ustring \<Rightarrow> tool_call \<Rightarrow> 'db \<Rightarrow>
   (tc_error + bool) \<times> tool_call \<times> 'db" where
  "cancel_during_run_owned N now cause reason =
     cancel_during_run_inner N now cause None (Some reason)"

definition child_request_is_locally_owned ::
  "'db node \<Rightarrow> ustring \<Rightarrow> ustring \<Rightarrow> 'db \<Rightarrow> tc_error + bool" where
  "child_request_is_locally_owned N local_did child_request_id db =
     (case nd_query N ''AgentRequest'' [(''request_id'', Is (GStr child_request_id))] db of
        Inl e \<Rightarrow> Inl (ChildQueryFailed e)
      | Inr rows \<Rightarrow>
          Inr (Option.bind (first_of rows) (\<lambda>(d, r). str_field r ''agent_did'') = Some local_did))"

definition bridge_cancel_cascade ::
  "instant \<Rightarrow> tool_call \<Rightarrow> tc_error + cascade_intent option" where
  "bridge_cancel_cascade now tc =
     (if tc_state tc \<noteq> Cancelled then Inl (Illegal CascadeRequiresCancelled)
      else if tc_cancel_policy tc \<noteq> Cascade then Inr None
      else case tc_child_request_id tc of
          None \<Rightarrow> Inr None
        | Some c \<Rightarrow> Inr (Some \<lparr>ci_child_request_id = c, ci_at = now\<rparr>))"

definition write_bridge_cancel_cascade_intent ::
  "'db node \<Rightarrow> instant \<Rightarrow> tool_call \<Rightarrow> 'db \<Rightarrow> (tc_error + unit) \<times> 'db" where
  "write_bridge_cancel_cascade_intent N at tc db =
     (case tc_doc_id tc of
        None \<Rightarrow> (Inl (NoPersistedRow ''bridge_cancel_cascade_dispatch''), db)
      | Some d \<Rightarrow>
          (case tc_started_at tc of
             None \<Rightarrow> (Inl (NoStartedAt ''bridge_cancel_cascade_dispatch''), db)
           | Some started_at \<Rightarrow>
               (case nd_update N ATC [(''_docID'', Is (GStr d))]
                   ([(''started_at'', GTime (trunc_secs started_at)),
                     (''deadline_at'', GTime (trunc_secs (tc_deadline_at tc))),
                     (''completed_at'', GTime (trunc_secs at)),
                     (''cancel_cascade_intent_at'', GTime (trunc_secs at)),
                     (''cancel_pending_remote_ack'', GBool True)] @
                    clear_unclaimed_deadline tc) db of
                  (Inl e, db') \<Rightarrow> (Inl (MutationFailed ''write_bridge_cancel_cascade_intent'' e), db')
                | (Inr _, db') \<Rightarrow> (Inr (), db'))))"

definition bridge_cancel_cascade_dispatch ::
  "'db node \<Rightarrow> instant \<Rightarrow> ustring \<Rightarrow> tool_call \<Rightarrow> 'db \<Rightarrow>
   (tc_error + cascade_dispatch option) \<times> 'db" where
  "bridge_cancel_cascade_dispatch N now local_did tc db =
     (case bridge_cancel_cascade now tc of
        Inl e \<Rightarrow> (Inl e, db)
      | Inr None \<Rightarrow> (Inr None, db)
      | Inr (Some intent) \<Rightarrow>
          (case child_request_is_locally_owned N local_did (ci_child_request_id intent) db of
             Inl e \<Rightarrow> (Inl e, db)
           | Inr True \<Rightarrow> (Inr (Some (LocalIntent intent)), db)
           | Inr False \<Rightarrow>
               (case write_bridge_cancel_cascade_intent N (ci_at intent) tc db of
                  (Inl e, db') \<Rightarrow> (Inl e, db')
                | (Inr _, db') \<Rightarrow> (Inr (Some RemoteIntentWritten), db'))))"

definition cancel_during_run_with_cascade_dispatch ::
  "'db node \<Rightarrow> instant \<Rightarrow> instant \<Rightarrow> cancel_cause \<Rightarrow> ustring \<Rightarrow> tool_call \<Rightarrow> 'db \<Rightarrow>
   (tc_error + cascade_dispatch option) \<times> tool_call \<times> 'db" where
  "cancel_during_run_with_cascade_dispatch N at now cause local_did tc db =
     (case ensure_state [Running] ''cancel_during_run_with_cascade_dispatch'' tc of
        Inl e \<Rightarrow> (Inl e, tc, db)
      | Inr _ \<Rightarrow>
          (case tc_child_request_id tc of
             None \<Rightarrow> apfst (map_sum id (\<lambda>_. None)) (cancel_during_run_inner N now cause None None tc db)
           | Some c \<Rightarrow>
               if tc_cancel_policy tc \<noteq> Cascade
               then apfst (map_sum id (\<lambda>_. None)) (cancel_during_run_inner N now cause None None tc db)
               else (case child_request_is_locally_owned N local_did c db of
                   Inl e \<Rightarrow> (Inl e, tc, db)
                 | Inr True \<Rightarrow>
                     apfst (map_sum id (\<lambda>won. if won
                         then Some (LocalIntent \<lparr>ci_child_request_id = c, ci_at = at\<rparr>) else None))
                       (cancel_during_run_inner N now cause None None tc db)
                 | Inr False \<Rightarrow>
                     apfst (map_sum id (\<lambda>won. if won then Some RemoteIntentWritten else None))
                       (cancel_during_run_inner N now cause (Some at) None tc db))))"

section \<open>Mode and policy flips\<close>

definition mode_flip ::
  "'db node \<Rightarrow> string \<Rightarrow> await_mode \<Rightarrow> await_mode \<Rightarrow> illegal_transition \<Rightarrow> tool_call \<Rightarrow> 'db \<Rightarrow>
   (tc_error + unit) \<times> tool_call \<times> 'db" where
  "mode_flip N method source_mode target_mode already tc db =
     (case ensure_state [Running] method tc of
        Inl e \<Rightarrow> (Inl e, tc, db)
      | Inr _ \<Rightarrow>
          if tc_await_mode tc = target_mode then (Inl (Illegal already), tc, db)
          else with_running method tc db (\<lambda>d started_at.
            drop_flag (cas_transition N method
              (running_filter d @ [(''await_mode'', Is (GStr (await_as_str source_mode)))])
              ([(''await_mode'', GStr (await_as_str target_mode)), (''started_at'', GTime started_at),
                (''deadline_at'', GTime (tc_deadline_at tc))] @ resupply_unclaimed_deadline tc)
              (sync_after_lost_mode_compare N method target_mode)
              (\<lambda>t. t\<lparr>tc_await_mode := target_mode\<rparr>) tc db)))"

definition background ::
  "'db node \<Rightarrow> tool_call \<Rightarrow> 'db \<Rightarrow> (tc_error + unit) \<times> tool_call \<times> 'db" where
  "background N = mode_flip N ''background'' Foreground Background ModeAlreadyBackground"

definition foreground ::
  "'db node \<Rightarrow> tool_call \<Rightarrow> 'db \<Rightarrow> (tc_error + unit) \<times> tool_call \<times> 'db" where
  "foreground N = mode_flip N ''foreground'' Background Foreground ModeAlreadyForeground"

definition detach ::
  "'db node \<Rightarrow> tool_call \<Rightarrow> 'db \<Rightarrow> (tc_error + unit) \<times> tool_call \<times> 'db" where
  "detach N tc db =
     (case ensure_state [Pending, Running] ''detach'' tc of
        Inl e \<Rightarrow> (Inl e, tc, db)
      | Inr _ \<Rightarrow>
          if tc_cancel_policy tc = Detach then (Inl (Illegal PolicyAlreadyDetach), tc, db)
          else if \<not> is_subagent_bridge tc then (Inl (Illegal DetachRequiresChildLink), tc, db)
          else case tc_doc_id tc of
              None \<Rightarrow> (Inl (NoPersistedRow ''detach''), tc, db)
            | Some d \<Rightarrow>
                (case nd_update N ATC [(''_docID'', Is (GStr d))]
                    ([(''cancel_policy'', GStr (lit ''detach'')),
                      (''deadline_at'', GTime (tc_deadline_at tc))] @
                     (case tc_started_at tc of
                        None \<Rightarrow> [] | Some t \<Rightarrow> [(''started_at'', GTime t)]) @
                     resupply_unclaimed_deadline tc) db of
                   (Inl e, db') \<Rightarrow> (Inl (MutationFailed ''detach'' e), tc, db')
                 | (Inr _, db') \<Rightarrow> (Inr (), tc\<lparr>tc_cancel_policy := Detach\<rparr>, db')))"

end
