(* ===== verification/Tool_Call_Props.thy ===== *)
theory Tool_Call_Props
  imports Tool_Call
begin

text \<open>
  What the tool-call lifecycle guarantees of the durable row and of the handles that act on it.
  The first part defines the legal moves of a row and shows, one transition method at a time, that
  every write is a legal move and that every handle that believes in a terminal outcome holds the
  durable one. The second part lifts both to any interleaving of any number of handles.
\<close>

section \<open>Legal moves of a durable row\<close>

definition row_state :: "row \<Rightarrow> tool_call_state option" where
  "row_state r = Option.bind (str_field r ''lifecycle_state'') tool_state_from_persisted"

definition tool_edge :: "tool_call_state \<Rightarrow> tool_call_state \<Rightarrow> bool" where
  "tool_edge s s' \<longleftrightarrow>
     s' = s \<or>
     s = AwaitingApproval \<and> s' \<in> {Running, Failed, Cancelled, TimedOut} \<or>
     s = Running \<and> s' \<in> {Completed, Failed, TimedOut, Cancelled}"

text \<open>The columns that record how a call ended.\<close>

definition outcome_fields :: "string list" where
  "outcome_fields = [''lifecycle_state'', ''result'', ''status'', ''tool_failure_class'',
     ''cancel_cause'', ''latency_ms'', ''denial_reason'', ''child_request_id'', ''tool_call_id'',
     ''session_id'', ''request_id'']"

definition row_moves :: "row \<Rightarrow> row \<Rightarrow> bool" where
  "row_moves r r' \<longleftrightarrow>
     (\<forall>s. row_state r = Some s \<longrightarrow>
        (\<exists>s'. row_state r' = Some s' \<and> tool_edge s s') \<and>
        (tool_state_is_terminal s \<longrightarrow> (\<forall>f \<in> set outcome_fields. r' f = r f)))"

definition store_moves :: "contents \<Rightarrow> contents \<Rightarrow> bool" where
  "store_moves v v' \<longleftrightarrow> (\<forall>d r. v ATC d = Some r \<longrightarrow> (\<exists>r'. v' ATC d = Some r' \<and> row_moves r r'))"

text \<open>A handle is truthful when a terminal state it carries is the one in the row it names.\<close>

definition truthful :: "contents \<Rightarrow> tool_call \<Rightarrow> bool" where
  "truthful v tc \<longleftrightarrow>
     (tool_state_is_terminal (tc_state tc) \<longrightarrow>
        (\<exists>d r. tc_doc_id tc = Some d \<and> v ATC d = Some r \<and> row_state r = Some (tc_state tc)))"

lemma row_state_upd [simp]:
  "row_state (r(''lifecycle_state'' \<mapsto> GStr (tool_state_as_str s))) = Some s"
  "f \<noteq> ''lifecycle_state'' \<Longrightarrow> row_state (r(f := x)) = row_state r"
  by (simp_all add: row_state_def str_field_def)

lemma row_state_lits [simp]:
  "row_state (r(''lifecycle_state'' \<mapsto> GStr (lit ''running''))) = Some Running"
  "row_state (r(''lifecycle_state'' \<mapsto> GStr (lit ''awaitingApproval''))) = Some AwaitingApproval"
  "row_state (r(''lifecycle_state'' \<mapsto> GStr (lit ''completed''))) = Some Completed"
  "row_state (r(''lifecycle_state'' \<mapsto> GStr (lit ''failed''))) = Some Failed"
  "row_state (r(''lifecycle_state'' \<mapsto> GStr (lit ''timedOut''))) = Some TimedOut"
  "row_state (r(''lifecycle_state'' \<mapsto> GStr (lit ''cancelled''))) = Some Cancelled"
  by (simp_all add: row_state_def str_field_def tool_state_from_persisted_def)

lemma row_state_of_filter:
  "r ''lifecycle_state'' = Some (GStr (lit ''running'')) \<Longrightarrow> row_state r = Some Running"
  "r ''lifecycle_state'' = Some (GStr (lit ''awaitingApproval'')) \<Longrightarrow>
     row_state r = Some AwaitingApproval"
  by (simp_all add: row_state_def str_field_def tool_state_from_persisted_def)

lemma row_state_apply_other:
  "''lifecycle_state'' \<notin> fst ` set inp \<Longrightarrow> row_state (apply_input inp r) = row_state r"
  by (simp add: row_state_def str_field_def apply_input_other)

lemma row_moves_refl [simp]: "row_moves r r"
  by (simp add: row_moves_def tool_edge_def)

lemma tool_edge_terminal: "tool_edge s s' \<Longrightarrow> tool_state_is_terminal s \<Longrightarrow> s' = s"
  by (auto simp: tool_edge_def tool_state_is_terminal_def)

lemma store_moves_refl [simp]: "store_moves v v"
  by (simp add: store_moves_def)

text \<open>Truth survives every legal move of the store: terminal rows do not change state.\<close>

lemma truthful_mono: "truthful v tc \<Longrightarrow> store_moves v v' \<Longrightarrow> truthful v' tc"
  unfolding truthful_def store_moves_def row_moves_def using tool_edge_terminal by blast

text \<open>Writes that are legal moves: those that leave a state a tool call may leave, and those
  that do not touch the outcome columns.\<close>

definition legal_write :: "eq_filter \<Rightarrow> input \<Rightarrow> bool" where
  "legal_write flt inp \<longleftrightarrow> (\<forall>d r. row_matches flt d r \<longrightarrow> row_moves r (apply_input inp r))"

lemma legal_write_frame:
  "set outcome_fields \<inter> fst ` set inp = {} \<Longrightarrow> legal_write flt inp"
proof -
  assume disj: "set outcome_fields \<inter> fst ` set inp = {}"
  then have "''lifecycle_state'' \<notin> fst ` set inp"
    by (auto simp: outcome_fields_def)
  moreover have "f \<in> set outcome_fields \<Longrightarrow> apply_input inp r f = r f" for f r
    using disj by (intro apply_input_other) blast
  ultimately show ?thesis
    by (simp add: legal_write_def row_moves_def row_state_apply_other tool_edge_def)
qed

lemma legal_write_running:
  assumes "\<And>r. row_state (apply_input inp r) = Some s"
    and "s \<in> {Completed, Failed, TimedOut, Cancelled}"
  shows "legal_write (running_filter d) inp"
  using assms
  by (auto simp: legal_write_def running_filter_def row_moves_def tool_edge_def
      tool_state_is_terminal_def dest: row_state_of_filter)

lemma legal_write_held:
  assumes "\<And>r. row_state (apply_input inp r) = Some s"
    and "s \<in> {Running, Failed, TimedOut, Cancelled}"
  shows "legal_write (held_filter d) inp"
  using assms
  by (auto simp: legal_write_def held_filter_def row_moves_def tool_edge_def
      tool_state_is_terminal_def dest: row_state_of_filter)

lemma store_moves_updated: "legal_write flt inp \<Longrightarrow> store_moves v (updated ATC flt inp v)"
  by (auto simp: store_moves_def updated_def legal_write_def)

lemma store_moves_added: "v ATC d = None \<Longrightarrow> store_moves v (added ATC d inp v)"
  by (auto simp: store_moves_def added_def)

section \<open>One method at a time\<close>

text \<open>What a method must do: only legal moves, and keep its handle truthful.\<close>

definition method_ok ::
  "('db \<Rightarrow> contents) \<Rightarrow> tool_call \<Rightarrow> 'db \<Rightarrow> 'r \<times> tool_call \<times> 'db \<Rightarrow> bool" where
  "method_ok view tc db out \<longleftrightarrow>
     (case out of (_, tc', db') \<Rightarrow>
        store_moves (view db) (view db') \<and>
        (truthful (view db) tc \<longrightarrow> truthful (view db') tc'))"

definition sync_ok :: "('db \<Rightarrow> contents) \<Rightarrow> (tool_call \<Rightarrow> 'db \<Rightarrow> tc_error + tool_call) \<Rightarrow> bool" where
  "sync_ok view sync \<longleftrightarrow> (\<forall>tc db tc'. sync tc db = Inr tc' \<longrightarrow> truthful (view db) tc')"

lemma method_ok_same [simp]: "method_ok view tc db (res, tc, db)"
  by (simp add: method_ok_def)

lemma method_ok_drop_flag [simp]: "method_ok view tc db (drop_flag x) = method_ok view tc db x"
  by (cases x) (simp add: method_ok_def drop_flag_def)

lemma method_ok_apfst [simp]: "method_ok view tc db (apfst f x) = method_ok view tc db x"
  by (cases x) (simp add: method_ok_def)

lemma method_ok_with_running:
  "(\<And>d t. tc_doc_id tc = Some d \<Longrightarrow> method_ok view tc db (k d t)) \<Longrightarrow>
   method_ok view tc db (with_running m tc db k)"
  by (simp add: with_running_def split: option.split)

lemma method_ok_with_held:
  "(\<And>d. tc_doc_id tc = Some d \<Longrightarrow> method_ok view tc db (k d)) \<Longrightarrow>
   method_ok view tc db (with_held m tc db k)"
  by (simp add: with_held_def split: option.split sum.split)

lemma method_ok_guard:
  "method_ok view tc db y \<Longrightarrow>
   method_ok view tc db (case ensure_state l m tc of Inl e \<Rightarrow> (Inl e, tc, db) | Inr _ \<Rightarrow> y)"
  by (simp split: sum.split)

lemmas method_intros = method_ok_guard method_ok_with_running method_ok_with_held

lemma tool_call_of_row_state:
  "tool_call_of_row sid tid d r = Inr tc \<Longrightarrow>
   tc_doc_id tc = Some d \<and> row_state r = Some (tc_state tc)"
  by (auto simp: tool_call_of_row_def bind_res_Inr row_state_def)

lemma fragment_state [simp]:
  "row_state (apply_input (clear_unclaimed_deadline tc) r) = row_state r"
  "row_state (apply_input (resupply_unclaimed_deadline tc) r) = row_state r"
  "row_state (apply_input (command_denial_fields den) r) = row_state r"
  "row_state (apply_input (selected_tool_fields tc) r) = row_state r"
  "row_state (apply_input (bridge_fields tc) r) = row_state r"
  by (auto simp: clear_unclaimed_deadline_def resupply_unclaimed_deadline_def
      command_denial_fields_def selected_tool_fields_def bridge_fields_def
      split: option.split prod.split)

context defra
begin

lemma load_row:
  assumes "tool_call_load N sid tid db = Inr (Some tc)"
  shows "\<exists>d r. tc_doc_id tc = Some d \<and> view db ATC d = Some r \<and> row_state r = Some (tc_state tc)"
proof -
  let ?flt = "[(''session_id'', Is (GStr sid)), (''tool_call_id'', Is (GStr tid))]"
  obtain rows d r where q: "nd_query N ATC ?flt db = Inr rows" and f: "first_of rows = Some (d, r)"
    and tc: "tool_call_of_row sid tid d r = Inr tc"
    using assms
    by (auto simp: tool_call_load_def bind_res_Inr split: sum.splits option.splits if_splits)
  from f have "(d, r) \<in> set rows"
    by (cases rows) auto
  with query_ok [OF q] have "view db ATC d = Some r" by blast
  with tool_call_of_row_state [OF tc] show ?thesis by blast
qed

lemma load_truthful: "tool_call_load N sid tid db = Inr (Some tc) \<Longrightarrow> truthful (view db) tc"
  using load_row by (auto simp: truthful_def)

lemma sync_running_ok: "sync_ok view (sync_after_lost_running_compare N m)"
  using load_row
  by (fastforce simp: sync_ok_def sync_after_lost_running_compare_def bind_res_Inr truthful_def
      adopt_row_def split: if_splits)

lemma sync_mode_ok: "sync_ok view (sync_after_lost_mode_compare N m target)"
  using load_row
  by (fastforce simp: sync_ok_def sync_after_lost_mode_compare_def bind_res_Inr truthful_def
      adopt_row_def split: if_splits)

lemma sync_held_ok: "sync_ok view (sync_after_lost_held_compare N m)"
  using load_row
  by (fastforce simp: sync_ok_def sync_after_lost_held_compare_def bind_res_Inr truthful_def
      split: if_splits)

lemma cas_transition_ok:
  assumes wr: "legal_write ((''_docID'', Is (GStr d)) # flt) inp"
    and sync: "sync_ok view sync"
    and won: "tool_state_is_terminal (tc_state (moved tc)) \<Longrightarrow> tc_doc_id (moved tc) = Some d"
      "\<And>r. tool_state_is_terminal (tc_state (moved tc)) \<Longrightarrow>
         row_state (apply_input inp r) = Some (tc_state (moved tc))"
  shows "method_ok view tc db
    (cas_transition N m ((''_docID'', Is (GStr d)) # flt) inp sync moved tc db)"
proof -
  obtain res db' where u: "nd_update N ATC ((''_docID'', Is (GStr d)) # flt) inp db = (res, db')"
    by force
  have moves: "store_moves (view db) (view db')"
    using update_view [OF u] store_moves_updated [OF wr] by auto
  show ?thesis
  proof (cases res)
    case (Inl e)
    with u moves show ?thesis
      by (auto simp: cas_transition_def method_ok_def dest: truthful_mono)
  next
    case (Inr resp)
    show ?thesis
    proof (cases "update_hit ATC resp")
      case True
      with u Inr obtain r where "view db' ATC d = Some (apply_input inp r)"
        using update_won by blast
      then have "truthful (view db') (moved tc)"
        using won by (auto simp: truthful_def)
      with u Inr True moves show ?thesis
        by (simp add: cas_transition_def method_ok_def)
    next
      case False
      with u Inr moves sync show ?thesis
        by (auto simp: cas_transition_def method_ok_def sync_ok_def dest: truthful_mono
            split: sum.split)
    qed
  qed
qed

lemma create_id:
  assumes "nd_create N ATC inp db = (Inr resp, db')"
    and "extract_doc_id_from_create_response resp = Some d"
  shows "view db ATC d = None \<and> view db' = added ATC d inp (view db)"
proof -
  from create_ok [OF assms(1)] obtain d' j where d': "view db ATC d' = None"
      "view db' = added ATC d' inp (view db)"
    and j: "j \<in> set (created_responses ATC d')" "resp = Some j"
    by blast
  from j assms(2) have "d' = d"
    by (auto simp: extract_doc_id_from_create_response_def created_responses_def id_object_def)
  with d' show ?thesis by simp
qed

lemma create_transition_ok:
  assumes "\<And>d. tool_state_is_terminal (tc_state (moved d tc)) \<Longrightarrow> tc_doc_id (moved d tc) = Some d"
    and "\<And>d. tool_state_is_terminal (tc_state (moved d tc)) \<Longrightarrow>
      row_state (apply_input inp Map.empty) = Some (tc_state (moved d tc))"
  shows "method_ok view tc db (create_transition N m inp moved tc db)"
proof -
  obtain res db' where c: "nd_create N ATC inp db = (res, db')" by force
  have moves: "store_moves (view db) (view db')"
    using create_view [OF c] store_moves_added by auto
  show ?thesis
  proof (cases "\<exists>resp d. res = Inr resp \<and> extract_doc_id_from_create_response resp = Some d")
    case True
    then obtain resp d where res: "res = Inr resp" "extract_doc_id_from_create_response resp = Some d"
      by blast
    with c create_id have "view db' = added ATC d inp (view db)" by blast
    then have "truthful (view db') (moved d tc)"
      using assms [of d] by (auto simp: truthful_def added_def)
    with c res moves show ?thesis
      by (simp add: create_transition_def method_ok_def)
  next
    case False
    with c moves show ?thesis
      by (auto simp: create_transition_def method_ok_def dest: truthful_mono
          split: sum.split option.split)
  qed
qed

lemmas running_cas = cas_transition_ok
  [where flt = "[(''lifecycle_state'', Is (GStr (lit ''running'')))]", folded running_filter_def]

lemmas held_cas = cas_transition_ok
  [where flt = "[(''lifecycle_state'', Is (GStr (lit ''awaitingApproval'')))]", folded held_filter_def]

lemma start_running_ok: "method_ok view tc db (start_running N now tc db)"
  by (auto simp: start_running_def tool_state_is_terminal_def
      intro!: method_intros create_transition_ok)

lemma complete_ok: "method_ok view tc db (complete N now result tc db)"
  by (auto simp: complete_def
      intro!: method_intros running_cas sync_running_ok legal_write_running [where s = Completed])

lemma fail_ok: "method_ok view tc db (fail_with_details N now result fc den tc db)"
  by (auto simp: fail_with_details_def
      intro!: method_intros running_cas sync_running_ok legal_write_running [where s = Failed])

lemma spawn_failed_ok: "method_ok view tc db (spawn_failed_with_details N now fc reason den tc db)"
  by (auto simp: spawn_failed_with_details_def intro!: method_intros create_transition_ok)

lemma timeout_ok: "method_ok view tc db (timeout fmt N now tc db)"
  by (auto simp: timeout_def
      intro!: method_intros running_cas sync_running_ok legal_write_running [where s = TimedOut])

lemma cancel_before_dispatch_ok: "method_ok view tc db (cancel_before_dispatch N now cause tc db)"
  by (auto simp: cancel_before_dispatch_def intro!: method_intros create_transition_ok)

lemma hold_for_approval_ok: "method_ok view tc db (hold_for_approval N tc db)"
  by (auto simp: hold_for_approval_def tool_state_is_terminal_def
      intro!: method_intros create_transition_ok)

lemma approve_and_start_ok: "method_ok view tc db (approve_and_start N now tc db)"
  by (auto simp: approve_and_start_def tool_state_is_terminal_def
      intro!: method_intros held_cas sync_held_ok legal_write_held [where s = Running])

lemma deny_approval_ok: "method_ok view tc db (deny_approval N now reason tc db)"
  by (auto simp: deny_approval_def
      intro!: method_intros held_cas sync_held_ok legal_write_held [where s = Failed])

lemma cancel_while_held_ok: "method_ok view tc db (cancel_while_held N now cause tc db)"
  by (auto simp: cancel_while_held_def
      intro!: method_intros held_cas sync_held_ok legal_write_held [where s = Cancelled])

lemma timeout_while_held_ok: "method_ok view tc db (timeout_while_held fmt N now tc db)"
  by (auto simp: timeout_while_held_def
      intro!: method_intros held_cas sync_held_ok legal_write_held [where s = TimedOut])

lemma bridge_complete_ok: "method_ok view tc db (bridge_complete N now res tc db)"
  by (auto simp: bridge_complete_def
      intro!: method_intros running_cas sync_running_ok legal_write_running [where s = Completed])

lemma bridge_failure_ok:
  "method_ok view tc db (bridge_failure_with_completion_reason N now child reason tc db)"
  by (auto simp: bridge_failure_with_completion_reason_def Let_def projected_state_def
      intro!: method_intros running_cas sync_running_ok
        legal_write_running [where s = "projected_state child"]
      split: child_terminal.split)

lemma cancel_during_run_inner_ok:
  "method_ok view tc db (cancel_during_run_inner N now cause remote reason tc db)"
  by (auto simp: cancel_during_run_inner_def Let_def
      intro!: method_intros running_cas sync_running_ok legal_write_running [where s = Cancelled]
      split: option.split)

lemma cancel_with_cascade_ok:
  "method_ok view tc db (cancel_during_run_with_cascade_dispatch N at now cause did tc db)"
  by (auto simp: cancel_during_run_with_cascade_dispatch_def cancel_during_run_inner_ok
      intro!: method_intros split: option.split sum.split bool.split)

lemma mode_flip_ok: "method_ok view tc db (mode_flip N m s t e tc db)"
  by (auto simp: mode_flip_def running_filter_def outcome_fields_def resupply_unclaimed_deadline_def
      tool_state_is_terminal_def ensure_state_def
      intro!: method_intros cas_transition_ok sync_mode_ok legal_write_frame
      split: option.split sum.split)

lemma frame_update_ok:
  assumes "set outcome_fields \<inter> fst ` set inp = {}" and "nd_update N ATC flt inp db = (res, db')"
  shows "store_moves (view db) (view db')"
  using update_view [OF assms(2)] store_moves_updated [OF legal_write_frame [OF assms(1)]] by auto

lemma write_intent_ok:
  "write_bridge_cancel_cascade_intent N at tc db = (res, db') \<Longrightarrow> store_moves (view db) (view db')"
  by (auto simp: write_bridge_cancel_cascade_intent_def clear_unclaimed_deadline_def
      outcome_fields_def dest: frame_update_ok [rotated]
      split: option.splits prod.splits sum.splits if_splits)

lemma cascade_dispatch_ok:
  "bridge_cancel_cascade_dispatch N now did tc db = (res, db') \<Longrightarrow> store_moves (view db) (view db')"
  by (auto simp: bridge_cancel_cascade_dispatch_def dest: write_intent_ok
      split: option.splits prod.splits sum.splits bool.splits)

lemma detach_ok: "method_ok view tc db (detach N tc db)"
  by (auto simp: detach_def method_ok_def resupply_unclaimed_deadline_def outcome_fields_def
      truthful_def ensure_state_def tool_state_is_terminal_def
      dest: frame_update_ok [rotated] split: option.splits prod.splits sum.splits)

end

section \<open>Any number of handles, any interleaving\<close>

text \<open>One call on a handle.\<close>

datatype tool_op =
    OStart
  | OComplete ustring
  | OFail ustring failure_class "command_denial option"
  | OSpawnFailed failure_class ustring "command_denial option"
  | OTimeout
  | OCancelBeforeDispatch cancel_cause
  | OHold
  | OApprove
  | ODeny ustring
  | OCancelHeld cancel_cause
  | OTimeoutHeld
  | OBridgeComplete ustring
  | OBridgeFailure child_terminal ustring
  | OCancelRun cancel_cause "ustring option"
  | OCancelRunCascade instant cancel_cause ustring
  | OCascadeDispatch ustring
  | OBackground
  | OForeground
  | ODetach

fun run_op ::
  "(instant \<Rightarrow> ustring) \<Rightarrow> 'db node \<Rightarrow> instant \<Rightarrow> tool_op \<Rightarrow> tool_call \<Rightarrow> 'db \<Rightarrow> tool_call \<times> 'db" where
  "run_op fmt N now OStart tc db = snd (start_running N now tc db)"
| "run_op fmt N now (OComplete r) tc db = snd (complete N now r tc db)"
| "run_op fmt N now (OFail r fc den) tc db = snd (fail_with_details N now r fc den tc db)"
| "run_op fmt N now (OSpawnFailed fc r den) tc db =
     snd (spawn_failed_with_details N now fc r den tc db)"
| "run_op fmt N now OTimeout tc db = snd (timeout fmt N now tc db)"
| "run_op fmt N now (OCancelBeforeDispatch c) tc db = snd (cancel_before_dispatch N now c tc db)"
| "run_op fmt N now OHold tc db = snd (hold_for_approval N tc db)"
| "run_op fmt N now OApprove tc db = snd (approve_and_start N now tc db)"
| "run_op fmt N now (ODeny r) tc db = snd (deny_approval N now r tc db)"
| "run_op fmt N now (OCancelHeld c) tc db = snd (cancel_while_held N now c tc db)"
| "run_op fmt N now OTimeoutHeld tc db = snd (timeout_while_held fmt N now tc db)"
| "run_op fmt N now (OBridgeComplete r) tc db = snd (bridge_complete N now r tc db)"
| "run_op fmt N now (OBridgeFailure t r) tc db =
     snd (bridge_failure_with_completion_reason N now t r tc db)"
| "run_op fmt N now (OCancelRun c r) tc db = snd (cancel_during_run_inner N now c None r tc db)"
| "run_op fmt N now (OCancelRunCascade at c did) tc db =
     snd (cancel_during_run_with_cascade_dispatch N at now c did tc db)"
| "run_op fmt N now (OCascadeDispatch did) tc db =
     (tc, snd (bridge_cancel_cascade_dispatch N now did tc db))"
| "run_op fmt N now OBackground tc db = snd (background N tc db)"
| "run_op fmt N now OForeground tc db = snd (foreground N tc db)"
| "run_op fmt N now ODetach tc db = snd (detach N tc db)"

text \<open>
  A system is a family of handles over one database. A step constructs a handle, reloads one from
  its row, or calls a method of one.
\<close>

inductive tool_step ::
  "(instant \<Rightarrow> ustring) \<Rightarrow> 'db node \<Rightarrow> (nat \<Rightarrow> tool_call) \<times> 'db \<Rightarrow> (nat \<Rightarrow> tool_call) \<times> 'db \<Rightarrow> bool"
  for fmt N where
  construct: "tc_state tc = Pending \<Longrightarrow> tool_step fmt N (H, db) (H(i := tc), db)"
| reload: "tool_call_load N sid tid db = Inr (Some tc) \<Longrightarrow> tool_step fmt N (H, db) (H(i := tc), db)"
| call: "run_op fmt N now op (H i) db = (tc, db') \<Longrightarrow> tool_step fmt N (H, db) (H(i := tc), db')"

inductive_cases tool_stepE: "tool_step fmt N (H, db) (H', db')"

abbreviation tool_steps where
  "tool_steps fmt N \<equiv> (tool_step fmt N)\<^sup>*\<^sup>*"

context defra
begin

lemma run_op_ok:
  assumes "run_op fmt N now op tc db = (tc', db')"
  shows "method_ok view tc db ((), tc', db')"
proof -
  have lift: "method_ok view tc db x \<Longrightarrow> method_ok view tc db ((), snd x)" for x :: "'r \<times> tool_call \<times> 'db"
    by (cases x) (simp add: method_ok_def)
  have "method_ok view tc db ((), run_op fmt N now op tc db)"
  proof (cases op)
    case (OCascadeDispatch did)
    obtain res db2 where "bridge_cancel_cascade_dispatch N now did tc db = (res, db2)"
      by force
    moreover from this have "store_moves (view db) (view db2)"
      by (rule cascade_dispatch_ok)
    ultimately show ?thesis
      using OCascadeDispatch truthful_mono by (auto simp: method_ok_def)
  qed (simp_all add: background_def foreground_def lift start_running_ok complete_ok fail_ok
      spawn_failed_ok timeout_ok cancel_before_dispatch_ok hold_for_approval_ok
      approve_and_start_ok deny_approval_ok cancel_while_held_ok timeout_while_held_ok
      bridge_complete_ok bridge_failure_ok cancel_during_run_inner_ok cancel_with_cascade_ok
      mode_flip_ok detach_ok)
  with assms show ?thesis by simp
qed

lemma tool_step_moves: "tool_step fmt N (H, db) (H', db') \<Longrightarrow> store_moves (view db) (view db')"
  by (erule tool_stepE) (auto dest!: run_op_ok simp: method_ok_def)

lemma tool_step_truthful:
  assumes "tool_step fmt N (H, db) (H', db')" and "\<And>i. truthful (view db) (H i)"
  shows "truthful (view db') (H' i)"
  using assms(1)
proof (cases rule: tool_step.cases)
  case (construct tc j)
  with assms(2) show ?thesis
    by (auto simp: truthful_def tool_state_is_terminal_def)
next
  case (reload sid tid tc j)
  with assms(2) load_truthful show ?thesis by auto
next
  case (call now op j tc)
  then have ok: "method_ok view (H j) db ((), tc, db')" using run_op_ok by blast
  then have "truthful (view db') (H i)"
    using assms(2) [of i] truthful_mono by (auto simp: method_ok_def)
  with ok assms(2) [of j] call show ?thesis
    by (auto simp: method_ok_def)
qed

lemma row_moves_terminal:
  assumes "row_moves r r'" and "row_state r = Some s" and "tool_state_is_terminal s"
  shows "row_state r' = Some s \<and> (\<forall>f \<in> set outcome_fields. r' f = r f)"
  using assms tool_edge_terminal by (auto simp: row_moves_def)

lemma tool_steps_terminal:
  assumes "tool_steps fmt N (H, db) (H', db')"
    and "view db ATC d = Some r" and "row_state r = Some s" and "tool_state_is_terminal s"
  shows "\<exists>r'. view db' ATC d = Some r' \<and> row_state r' = Some s \<and>
    (\<forall>f \<in> set outcome_fields. r' f = r f)"
  using assms
proof (induction "(H', db')" arbitrary: H' db' rule: rtranclp_induct)
  case base
  then show ?case by auto
next
  case (step y)
  obtain H1 db1 where y: "y = (H1, db1)" by force
  with step obtain r1 where r1: "view db1 ATC d = Some r1" "row_state r1 = Some s"
      "\<forall>f \<in> set outcome_fields. r1 f = r f"
    by blast
  have "store_moves (view db1) (view db')"
    using tool_step_moves step(2) y by blast
  then obtain r2 where "view db' ATC d = Some r2" "row_moves r1 r2"
    using r1(1) by (auto simp: store_moves_def)
  with row_moves_terminal [OF _ r1(2) assms(4)] r1(3) show ?case by metis
qed

lemma tool_steps_reach:
  assumes "tool_steps fmt N (H, db) (H', db')" and "view db ATC d = Some r" and "row_state r = Some s"
  shows "\<exists>r' s'. view db' ATC d = Some r' \<and> row_state r' = Some s' \<and> tool_edge\<^sup>*\<^sup>* s s'"
  using assms
proof (induction "(H', db')" arbitrary: H' db' rule: rtranclp_induct)
  case base
  then show ?case by auto
next
  case (step y)
  obtain H1 db1 where y: "y = (H1, db1)" by force
  with step obtain r1 s1 where r1: "view db1 ATC d = Some r1" "row_state r1 = Some s1"
      "tool_edge\<^sup>*\<^sup>* s s1"
    by blast
  have "store_moves (view db1) (view db')"
    using tool_step_moves step(2) y by blast
  then obtain r2 where "view db' ATC d = Some r2" "row_moves r1 r2"
    using r1(1) by (auto simp: store_moves_def)
  with r1 show ?case
    by (auto simp: row_moves_def intro: rtranclp.rtrancl_into_rtrancl)
qed

lemma tool_steps_truthful:
  assumes "tool_steps fmt N (H, db) (H', db')" and "\<And>i. truthful (view db) (H i)"
  shows "truthful (view db') (H' i)"
  using assms
proof (induction "(H', db')" arbitrary: H' db' i rule: rtranclp_induct)
  case base
  then show ?case by simp
next
  case (step y)
  obtain H1 db1 where "y = (H1, db1)" by force
  with step show ?case by (metis tool_step_truthful)
qed

end

end
