(* ===== verification/Tool_Call_Claims.thy ===== *)
theory Tool_Call_Claims
  imports Tool_Call_Props
begin

text \<open>
  The guarantees of the tool-call lifecycle as closed statements over any document store that
  satisfies \<open>defra\<close>, with witnesses on the in-memory store: terminal rows are final, states move
  along the legal edges only, handles never disagree with the durable outcome, a race has one
  winner, a running row reloads to the handle that wrote it, and a held row does not reload.
\<close>

section \<open>Races\<close>

text \<open>The methods that report whether this caller won the durable compare.\<close>

datatype race_op =
    RTimeout
  | RBridgeComplete ustring
  | RBridgeFailure child_terminal ustring
  | RCancelRun cancel_cause "instant option" "ustring option"
  | RApprove
  | RDeny ustring
  | RCancelHeld cancel_cause
  | RTimeoutHeld

fun race ::
  "(instant \<Rightarrow> ustring) \<Rightarrow> 'db node \<Rightarrow> instant \<Rightarrow> race_op \<Rightarrow> tool_call \<Rightarrow> 'db \<Rightarrow>
   (tc_error + bool) \<times> tool_call \<times> 'db" where
  "race fmt N now RTimeout tc db = timeout fmt N now tc db"
| "race fmt N now (RBridgeComplete r) tc db = bridge_complete N now r tc db"
| "race fmt N now (RBridgeFailure t r) tc db = bridge_failure_with_completion_reason N now t r tc db"
| "race fmt N now (RCancelRun c at r) tc db = cancel_during_run_inner N now c at r tc db"
| "race fmt N now RApprove tc db = approve_and_start N now tc db"
| "race fmt N now (RDeny r) tc db = deny_approval N now r tc db"
| "race fmt N now (RCancelHeld c) tc db = cancel_while_held N now c tc db"
| "race fmt N now RTimeoutHeld tc db = timeout_while_held fmt N now tc db"

definition race_source :: "race_op \<Rightarrow> tool_call_state" where
  "race_source op =
     (case op of
        RApprove \<Rightarrow> AwaitingApproval
      | RDeny _ \<Rightarrow> AwaitingApproval
      | RCancelHeld _ \<Rightarrow> AwaitingApproval
      | RTimeoutHeld \<Rightarrow> AwaitingApproval
      | _ \<Rightarrow> Running)"

text \<open>What winning means: the named row left the state the method leaves, and now carries the
  state the handle took.\<close>

definition won_row ::
  "('db \<Rightarrow> contents) \<Rightarrow> tool_call_state \<Rightarrow> tool_call \<Rightarrow> 'db \<Rightarrow> tool_call \<Rightarrow> 'db \<Rightarrow> bool" where
  "won_row view s tc db tc' db' \<longleftrightarrow>
     (\<exists>d r r'. tc_doc_id tc = Some d \<and> tc_doc_id tc' = Some d \<and>
        view db ATC d = Some r \<and> row_state r = Some s \<and>
        view db' ATC d = Some r' \<and> row_state r' = Some (tc_state tc'))"

lemma guard_won:
  "(case ensure_state l m tc of Inl e \<Rightarrow> (Inl e, tc, db) | Inr _ \<Rightarrow> y) = (Inr b, tc', db') \<Longrightarrow>
   y = (Inr b, tc', db')"
  by (simp split: sum.splits)

lemma with_running_won:
  "with_running m tc db k = (Inr b, tc', db') \<Longrightarrow>
   \<exists>d t. tc_doc_id tc = Some d \<and> k d t = (Inr b, tc', db')"
  by (auto simp: with_running_def split: option.splits)

lemma with_held_won:
  "with_held m tc db k = (Inr b, tc', db') \<Longrightarrow>
   \<exists>d. tc_doc_id tc = Some d \<and> k d = (Inr b, tc', db')"
  by (auto simp: with_held_def split: option.splits sum.splits)

context defra
begin

lemma cas_won:
  assumes "cas_transition N m ((''_docID'', Is (GStr d)) # flt) inp sync moved tc db = (Inr True, tc', db')"
  shows "tc' = moved tc \<and> (\<exists>r. view db ATC d = Some r \<and> row_matches flt d r \<and>
    view db' ATC d = Some (apply_input inp r))"
proof -
  obtain res db2 where u: "nd_update N ATC ((''_docID'', Is (GStr d)) # flt) inp db = (res, db2)"
    by force
  with assms obtain resp where "res = Inr resp" "update_hit ATC resp" "tc' = moved tc" "db2 = db'"
    by (auto simp: cas_transition_def split: sum.splits if_splits)
  with u update_won show ?thesis by blast
qed

lemma running_won:
  assumes "cas_transition N m (running_filter d) inp sync moved tc db = (Inr True, tc', db')"
    and "tc_doc_id tc = Some d" and "tc_doc_id (moved tc) = Some d"
    and "\<And>r. row_state (apply_input inp r) = Some (tc_state (moved tc))"
  shows "won_row view Running tc db tc' db'"
  using cas_won [OF assms(1) [unfolded running_filter_def]] assms(2-4)
  by (auto simp: won_row_def dest: row_state_of_filter)

lemma held_won:
  assumes "cas_transition N m (held_filter d) inp sync moved tc db = (Inr True, tc', db')"
    and "tc_doc_id tc = Some d" and "tc_doc_id (moved tc) = Some d"
    and "\<And>r. row_state (apply_input inp r) = Some (tc_state (moved tc))"
  shows "won_row view AwaitingApproval tc db tc' db'"
  using cas_won [OF assms(1) [unfolded held_filter_def]] assms(2-4)
  by (auto simp: won_row_def dest: row_state_of_filter)

lemma race_won:
  assumes "race fmt N now op tc db = (Inr True, tc', db')"
  shows "won_row view (race_source op) tc db tc' db'"
proof (cases op)
  case RTimeout
  with assms show ?thesis
    by (auto simp: race_source_def timeout_def
        dest!: guard_won with_running_won elim!: running_won)
next
  case (RBridgeComplete r)
  with assms show ?thesis
    by (auto simp: race_source_def bridge_complete_def split: if_splits
        dest!: guard_won with_running_won elim!: running_won)
next
  case (RBridgeFailure t r)
  with assms show ?thesis
    by (auto simp: race_source_def bridge_failure_with_completion_reason_def Let_def
        projected_state_def split: if_splits child_terminal.splits
        dest!: guard_won with_running_won elim!: running_won)
next
  case (RCancelRun c at r)
  with assms show ?thesis
    by (cases at) (auto simp: race_source_def cancel_during_run_inner_def Let_def
        dest!: guard_won with_running_won elim!: running_won)
next
  case RApprove
  with assms show ?thesis
    by (auto simp: race_source_def approve_and_start_def dest!: with_held_won elim!: held_won)
next
  case (RDeny r)
  with assms show ?thesis
    by (auto simp: race_source_def deny_approval_def dest!: with_held_won elim!: held_won)
next
  case (RCancelHeld c)
  with assms show ?thesis
    by (auto simp: race_source_def cancel_while_held_def dest!: with_held_won elim!: held_won)
next
  case RTimeoutHeld
  with assms show ?thesis
    by (auto simp: race_source_def timeout_while_held_def dest!: with_held_won elim!: held_won)
qed

end

section \<open>Rows written by the create transitions\<close>

lemma identity_fields:
  "f \<notin> {''tool_call_key'', ''request_id'', ''request_doc_id'', ''session_id'', ''agent_did'',
     ''requester_did'', ''message_sequence'', ''tool_name'', ''tool_call_id'', ''args''} \<Longrightarrow>
   apply_input (identity_columns tc) r f = r f"
  by (auto simp: identity_columns_def request_doc_id_create_field_def requester_did_create_field_def
      split: option.split)

lemma identity_values:
  "apply_input (identity_columns tc) r ''request_id'' = Some (GStr (tc_request_id tc))"
  "apply_input (identity_columns tc) r ''session_id'' = Some (GStr (tc_session_id tc))"
  "apply_input (identity_columns tc) r ''agent_did'' = Some (GStr (tc_agent_did tc))"
  "apply_input (identity_columns tc) r ''tool_call_id'' = Some (GStr (tc_tool_call_id tc))"
  "apply_input (identity_columns tc) r ''tool_name'' = Some (GStr (tc_tool_name tc))"
  "apply_input (identity_columns tc) r ''args'' = Some (GStr (tc_args tc))"
  "apply_input (identity_columns tc) r ''message_sequence'' =
     Some (GInt (int (tc_message_sequence tc)))"
  "apply_input (identity_columns tc) Map.empty ''request_doc_id'' =
     map_option GStr (nonblank (tc_request_doc_id tc))"
  "apply_input (identity_columns tc) Map.empty ''requester_did'' =
     map_option GStr (nonblank (tc_requester_did tc))"
  by (auto simp: identity_columns_def request_doc_id_create_field_def requester_did_create_field_def
      split: option.split)

lemma selected_other:
  "f \<notin> {''selected_service_id'', ''selected_tool_name''} \<Longrightarrow>
   apply_input (selected_tool_fields tc) r f = r f"
  by (auto simp: selected_tool_fields_def split: option.split)

lemma selected_values:
  "apply_input (selected_tool_fields tc) r ''selected_service_id'' =
     Some (case tc_selected_tool_identity tc of None \<Rightarrow> GNull | Some (s, t) \<Rightarrow> GStr s)"
  "apply_input (selected_tool_fields tc) r ''selected_tool_name'' =
     Some (case tc_selected_tool_identity tc of None \<Rightarrow> GNull | Some (s, t) \<Rightarrow> GStr t)"
  by (auto simp: selected_tool_fields_def split: option.split)

lemma bridge_other:
  "f \<notin> {''child_request_id'', ''spawn_target_did'', ''unclaimed_deadline_at'', ''await_mode'',
     ''cancel_policy''} \<Longrightarrow> apply_input (bridge_fields tc) r f = r f"
  by (auto simp: bridge_fields_def split: option.split)

lemma bridge_values:
  "apply_input (bridge_fields tc) r ''await_mode'' = Some (GStr (await_as_str (tc_await_mode tc)))"
  "apply_input (bridge_fields tc) r ''cancel_policy'' =
     Some (GStr (policy_as_str (tc_cancel_policy tc)))"
  "r ''child_request_id'' = None \<Longrightarrow> apply_input (bridge_fields tc) r ''child_request_id'' =
     map_option GStr (tc_child_request_id tc)"
  "r ''spawn_target_did'' = None \<Longrightarrow> apply_input (bridge_fields tc) r ''spawn_target_did'' =
     map_option GStr (tc_spawn_target_did tc)"
  "r ''unclaimed_deadline_at'' = None \<Longrightarrow> apply_input (bridge_fields tc) r ''unclaimed_deadline_at'' =
     map_option (\<lambda>t. GTime (trunc_secs t)) (tc_unclaimed_deadline_at tc)"
  by (auto simp: bridge_fields_def split: option.split)

lemmas column_simps = identity_fields identity_values selected_other selected_values
  bridge_other bridge_values str_field_def time_field_def int_field_def

definition started_row :: "tool_call \<Rightarrow> instant \<Rightarrow> row" where
  "started_row tc now = apply_input
     (identity_columns tc @
      [(''result'', GStr []), (''status'', GStr (lit ''called'')),
       (''lifecycle_state'', GStr (lit ''running'')), (''started_at'', GTime now),
       (''deadline_at'', GTime (tc_deadline_at tc))] @
      bridge_fields tc @ selected_tool_fields tc @
      [(''tool_failure_class'', GNull), (''latency_ms'', GNull)]) Map.empty"

definition held_row :: "tool_call \<Rightarrow> row" where
  "held_row tc = apply_input
     (identity_columns tc @
      [(''result'', GStr []), (''status'', GStr (lit ''called'')),
       (''lifecycle_state'', GStr (lit ''awaitingApproval'')), (''started_at'', GNull),
       (''deadline_at'', GTime (tc_deadline_at tc))] @
      selected_tool_fields tc @
      [(''tool_failure_class'', GNull), (''latency_ms'', GNull)]) Map.empty"

text \<open>A handle whose text fields are the ones the constructors and builders leave: present and not
  blank, or absent.\<close>

definition handle_wf :: "tool_call \<Rightarrow> bool" where
  "handle_wf tc \<longleftrightarrow>
     trim (tc_request_id tc) \<noteq> [] \<and> trim (tc_agent_did tc) \<noteq> [] \<and>
     tc_message_sequence tc < 2 ^ 32 \<and>
     nonblank (tc_requester_did tc) = tc_requester_did tc \<and>
     nonblank (tc_request_doc_id tc) = tc_request_doc_id tc \<and>
     tc_child_request_id tc \<noteq> Some [] \<and> tc_spawn_target_did tc \<noteq> Some [] \<and>
     (case tc_selected_tool_identity tc of
        None \<Rightarrow> True | Some (s, t) \<Rightarrow> trim s \<noteq> [] \<and> trim t \<noteq> []) \<and>
     tc_failure_class tc = None \<and> tc_cancel_cause tc = None"

lemma nonblank_filter:
  "nonblank x = x \<Longrightarrow> opt_filter (\<lambda>s. trim s \<noteq> []) x = x"
  by (cases x) (auto simp: nonblank_def split: if_splits)

lemma opt_filter_nonempty: "x \<noteq> Some [] \<Longrightarrow> opt_filter (\<lambda>s. s \<noteq> []) x = x"
  by (cases x) auto

lemma str_field_map: "r f = map_option GStr x \<Longrightarrow> str_field r f = x"
  by (cases x) (simp_all add: str_field_def)

lemma started_row_fields:
  "str_field (started_row tc now) ''lifecycle_state'' = Some (lit ''running'')"
  "time_field (started_row tc now) ''deadline_at'' = Some (tc_deadline_at tc)"
  "time_field (started_row tc now) ''started_at'' = Some now"
  "str_field (started_row tc now) ''await_mode'' = Some (await_as_str (tc_await_mode tc))"
  "str_field (started_row tc now) ''cancel_policy'' = Some (policy_as_str (tc_cancel_policy tc))"
  "str_field (started_row tc now) ''request_id'' = Some (tc_request_id tc)"
  "str_field (started_row tc now) ''session_id'' = Some (tc_session_id tc)"
  "str_field (started_row tc now) ''tool_call_id'' = Some (tc_tool_call_id tc)"
  "str_field (started_row tc now) ''agent_did'' = Some (tc_agent_did tc)"
  "str_field (started_row tc now) ''tool_name'' = Some (tc_tool_name tc)"
  "str_field (started_row tc now) ''args'' = Some (tc_args tc)"
  "int_field (started_row tc now) ''message_sequence'' = Some (int (tc_message_sequence tc))"
  "str_field (started_row tc now) ''tool_failure_class'' = None"
  "str_field (started_row tc now) ''cancel_cause'' = None"
  by (simp_all add: started_row_def column_simps)

lemma started_row_optional:
  "str_field (started_row tc now) ''request_doc_id'' = nonblank (tc_request_doc_id tc)"
  "str_field (started_row tc now) ''requester_did'' = nonblank (tc_requester_did tc)"
  "str_field (started_row tc now) ''child_request_id'' = tc_child_request_id tc"
  "str_field (started_row tc now) ''spawn_target_did'' = tc_spawn_target_did tc"
  by (rule str_field_map, simp add: started_row_def identity_fields identity_values selected_other
      bridge_other bridge_values)+

lemma started_row_unclaimed:
  "time_field (started_row tc now) ''unclaimed_deadline_at'' =
     map_option trunc_secs (tc_unclaimed_deadline_at tc)"
  by (cases "tc_unclaimed_deadline_at tc")
     (simp_all add: started_row_def time_field_def identity_fields selected_other bridge_values)

lemma started_row_selected:
  "handle_wf tc \<Longrightarrow>
   decode_selected_tool_identity (str_field (started_row tc now) ''selected_service_id'')
     (str_field (started_row tc now) ''selected_tool_name'') = Inr (tc_selected_tool_identity tc)"
  by (auto simp: started_row_def decode_selected_tool_identity_def column_simps handle_wf_def
      split: option.splits)

lemma started_row_loads:
  assumes "handle_wf tc" and "tc_state tc = Pending"
  shows "row_decodes (started_row tc now)"
    and "tool_call_of_row (tc_session_id tc) (tc_tool_call_id tc) d (started_row tc now) =
      Inr (tc\<lparr>tc_doc_id := Some d, tc_state := Running, tc_started_at := Some now,
            tc_unclaimed_deadline_at := map_option trunc_secs (tc_unclaimed_deadline_at tc)\<rparr>)"
proof -
  show "row_decodes (started_row tc now)"
    using assms by (simp add: row_decodes_def started_row_fields handle_wf_def)
  have state: "tool_state_from_persisted (lit ''running'') = Some Running"
    by (simp add: tool_state_from_persisted_def)
  show "tool_call_of_row (tc_session_id tc) (tc_tool_call_id tc) d (started_row tc now) =
      Inr (tc\<lparr>tc_doc_id := Some d, tc_state := Running, tc_started_at := Some now,
            tc_unclaimed_deadline_at := map_option trunc_secs (tc_unclaimed_deadline_at tc)\<rparr>)"
    using assms
    by (simp add: tool_call_of_row_def started_row_fields started_row_optional started_row_unclaimed
        started_row_selected state nonblank_filter opt_filter_nonempty handle_wf_def)
qed

lemma held_row_fields:
  "str_field (held_row tc) ''lifecycle_state'' = Some (lit ''awaitingApproval'')"
  "time_field (held_row tc) ''deadline_at'' = Some (tc_deadline_at tc)"
  "str_field (held_row tc) ''await_mode'' = None"
  "str_field (held_row tc) ''session_id'' = Some (tc_session_id tc)"
  "str_field (held_row tc) ''tool_call_id'' = Some (tc_tool_call_id tc)"
  "str_field (held_row tc) ''tool_name'' = Some (tc_tool_name tc)"
  "str_field (held_row tc) ''args'' = Some (tc_args tc)"
  "int_field (held_row tc) ''message_sequence'' = Some (int (tc_message_sequence tc))"
  by (simp_all add: held_row_def column_simps)

lemma held_row_does_not_load:
  assumes "tc_message_sequence tc < 2 ^ 32"
  shows "row_decodes (held_row tc)"
    and "tool_call_of_row sid tid d (held_row tc) = Inl MissingAwaitMode"
  using assms
  by (simp_all add: row_decodes_def tool_call_of_row_def held_row_fields
      tool_state_from_persisted_def)

text \<open>The query a reload makes, and what it finds after a create of a call the store did not
  hold yet.\<close>

abbreviation load_filter :: "tool_call \<Rightarrow> eq_filter" where
  "load_filter tc \<equiv> [(''session_id'', Is (GStr (tc_session_id tc))), (''tool_call_id'', Is (GStr (tc_tool_call_id tc)))]"

definition call_absent :: "contents \<Rightarrow> tool_call \<Rightarrow> bool" where
  "call_absent v tc \<longleftrightarrow> (\<forall>d r. v ATC d = Some r \<longrightarrow> \<not> row_matches (load_filter tc) d r)"

definition load_answers :: "'db node \<Rightarrow> tool_call \<Rightarrow> 'db \<Rightarrow> bool" where
  "load_answers N tc db \<longleftrightarrow> (case nd_query N ATC (load_filter tc) db of Inl _ \<Rightarrow> False | Inr _ \<Rightarrow> True)"

lemma create_transition_ok_result:
  assumes "create_transition N m inp moved tc db = (Inr (), tc', db')"
  shows "\<exists>d resp. nd_create N ATC inp db = (Inr resp, db') \<and>
    extract_doc_id_from_create_response resp = Some d \<and> tc' = moved d tc"
  using assms by (auto simp: create_transition_def split: prod.splits sum.splits option.splits)

context defra
begin

lemma created_is_found:
  assumes "nd_create N ATC inp db = (Inr resp, db')"
    and "extract_doc_id_from_create_response resp = Some d"
    and "row_matches (load_filter tc) d (apply_input inp Map.empty)"
    and "call_absent (view db) tc" and "load_answers N tc db'"
  shows "\<exists>rows. nd_query N ATC (load_filter tc) db' = Inr rows \<and>
    first_of rows = Some (d, apply_input inp Map.empty)"
proof -
  from assms(5) obtain rows where q: "nd_query N ATC (load_filter tc) db' = Inr rows"
    by (auto simp: load_answers_def split: sum.splits)
  from create_id [OF assms(1,2)] have v: "view db' = added ATC d inp (view db)" by simp
  have only: "x = (d, apply_input inp Map.empty)" if "x \<in> set rows" for x
  proof -
    obtain e r where x: "x = (e, r)" by force
    with query_ok [OF q] that have "view db' ATC e = Some r" "row_matches (load_filter tc) e r"
      by blast+
    with assms(4) v x show ?thesis
      unfolding call_absent_def added_def by (cases "e = d") auto
  qed
  have "view db' ATC d = Some (apply_input inp Map.empty)" by (simp add: v added_def)
  with query_ok [OF q] assms(3) have "rows \<noteq> []" by blast
  then obtain x xs where "rows = x # xs" by (cases rows) auto
  with only q show ?thesis by auto
qed

lemma started_reloads:
  assumes "handle_wf tc" and "tc_state tc = Pending"
    and "start_running N now tc db = (Inr (), tc', db')"
    and "call_absent (view db) tc" and "load_answers N tc db'"
  shows "tool_call_load N (tc_session_id tc) (tc_tool_call_id tc) db' =
    Inr (Some (tc'\<lparr>tc_unclaimed_deadline_at := map_option trunc_secs (tc_unclaimed_deadline_at tc)\<rparr>))"
proof -
  obtain d resp where c: "nd_create N ATC (identity_columns tc @
        [(''result'', GStr []), (''status'', GStr (lit ''called'')),
         (''lifecycle_state'', GStr (lit ''running'')), (''started_at'', GTime now),
         (''deadline_at'', GTime (tc_deadline_at tc))] @
        bridge_fields tc @ selected_tool_fields tc @
        [(''tool_failure_class'', GNull), (''latency_ms'', GNull)]) db = (Inr resp, db')"
      "extract_doc_id_from_create_response resp = Some d"
    and tc': "tc' = tc\<lparr>tc_doc_id := Some d, tc_state := Running, tc_started_at := Some now\<rparr>"
    using assms(2,3)
    by (auto simp: start_running_def ensure_state_def dest!: create_transition_ok_result)
  have "row_matches (load_filter tc) d (started_row tc now)"
    by (simp add: started_row_def column_simps)
  with created_is_found [OF c] assms(4,5) obtain rows where
      "nd_query N ATC (load_filter tc) db' = Inr rows" "first_of rows = Some (d, started_row tc now)"
    unfolding started_row_def by blast
  then show ?thesis
    using started_row_loads(1) [OF assms(1,2)] started_row_loads(2) [OF assms(1,2)] tc'
    by (simp add: tool_call_load_def)
qed

lemma held_not_reloaded:
  assumes "tc_message_sequence tc < 2 ^ 32" and "tc_state tc = Pending"
    and "hold_for_approval N tc db = (Inr (), tc', db')"
    and "call_absent (view db) tc" and "load_answers N tc db'"
  shows "tool_call_load N (tc_session_id tc) (tc_tool_call_id tc) db' = Inl MissingAwaitMode"
proof -
  obtain d resp where c: "nd_create N ATC (identity_columns tc @
        [(''result'', GStr []), (''status'', GStr (lit ''called'')),
         (''lifecycle_state'', GStr (lit ''awaitingApproval'')), (''started_at'', GNull),
         (''deadline_at'', GTime (tc_deadline_at tc))] @
        selected_tool_fields tc @
        [(''tool_failure_class'', GNull), (''latency_ms'', GNull)]) db = (Inr resp, db')"
      "extract_doc_id_from_create_response resp = Some d"
    using assms(2,3)
    by (auto simp: hold_for_approval_def ensure_state_def dest!: create_transition_ok_result)
  have "row_matches (load_filter tc) d (held_row tc)"
    by (simp add: held_row_def column_simps)
  with created_is_found [OF c] assms(4,5) obtain rows where
      "nd_query N ATC (load_filter tc) db' = Inr rows" "first_of rows = Some (d, held_row tc)"
    unfolding held_row_def by blast
  then show ?thesis
    using held_row_does_not_load [OF assms(1)] by (simp add: tool_call_load_def)
qed

end

section \<open>Guarantees\<close>

text \<open>C3. Terminal tool calls are final. Whatever any number of handles do, in any order, a row
  that is completed, failed, timed out or cancelled keeps its state and the columns that record how
  the call ended (\<open>outcome_fields\<close>: state, status, result, failure class, cause, latency, denial reason, child
  request and the identities; not the completion time and the other denial and policy columns).\<close>

theorem tool_terminal_absorbing:
  assumes "defra N view" and "tool_steps fmt N (H, db) (H', db')"
    and "view db ATC d = Some r" and "row_state r = Some s" and "tool_state_is_terminal s"
  shows "\<exists>r'. view db' ATC d = Some r' \<and> row_state r' = Some s \<and>
    (\<forall>f \<in> set outcome_fields. r' f = r f)"
  using assms by (rule defra.tool_steps_terminal)

text \<open>Only legal moves. From the moment a row exists, its state changes along the legal
  edges only: from awaiting approval to running or to a terminal state, from running to a terminal
  state.\<close>

theorem tool_state_follows_edges:
  assumes "defra N view" and "tool_steps fmt N (H, db) (H', db')"
    and "view db ATC d = Some r" and "row_state r = Some s"
  shows "\<exists>r' s'. view db' ATC d = Some r' \<and> row_state r' = Some s' \<and> tool_edge\<^sup>*\<^sup>* s s'"
  using assms by (rule defra.tool_steps_reach)

text \<open>Handles do not disagree with the store. When all handles were constructed in this
  run or reloaded, a handle that reports a terminal outcome names a row with that outcome, and two
  such handles on one row report the same outcome.\<close>

theorem terminal_handles_agree:
  assumes "defra N view" and "tool_steps fmt N (H, db) (H', db')"
    and "\<forall>i. tc_state (H i) = Pending" and "tool_state_is_terminal (tc_state (H' i))"
  shows "(\<exists>d r. tc_doc_id (H' i) = Some d \<and> view db' ATC d = Some r \<and>
            row_state r = Some (tc_state (H' i))) \<and>
    (\<forall>j. tool_state_is_terminal (tc_state (H' j)) \<and> tc_doc_id (H' j) = tc_doc_id (H' i) \<longrightarrow>
      tc_state (H' j) = tc_state (H' i))"
proof -
  have "truthful (view db) (H k)" for k
    using assms(3) by (simp add: truthful_def tool_state_is_terminal_def)
  then have "truthful (view db') (H' k)" for k
    using defra.tool_steps_truthful [OF assms(1,2)] by blast
  then have row: "tool_state_is_terminal (tc_state (H' k)) \<Longrightarrow>
      \<exists>d r. tc_doc_id (H' k) = Some d \<and> view db' ATC d = Some r \<and> row_state r = Some (tc_state (H' k))"
    for k
    unfolding truthful_def by blast
  then show ?thesis
    using assms(4) row by fastforce
qed

text \<open>C7. One winner. When a method that competes for a row reports a win and leaves it
  terminal, no competing method called later on that row reports a win, whatever happened in
  between.\<close>

theorem tool_race_single_winner:
  assumes "defra N view"
    and "race fmt N now op tc db = (Inr True, tc', db1)" and "tool_state_is_terminal (tc_state tc')"
    and "tool_steps fmt N (H, db1) (H', db2)"
    and "race fmt N now' op' tc2 db2 = (res, tc2', db3)" and "tc_doc_id tc2 = tc_doc_id tc"
  shows "res \<noteq> Inr True"
proof
  assume "res = Inr True"
  with assms(5) defra.race_won [OF assms(1)]
  have second: "won_row view (race_source op') tc2 db2 tc2' db3" by blast
  from defra.race_won [OF assms(1,2)] obtain d r where d: "tc_doc_id tc = Some d"
    and "view db1 ATC d = Some r" "row_state r = Some (tc_state tc')"
    by (auto simp: won_row_def)
  then obtain r2 where "view db2 ATC d = Some r2" "row_state r2 = Some (tc_state tc')"
    using defra.tool_steps_terminal [OF assms(1,4)] assms(3) by blast
  with second d assms(3,6) show False
    by (auto simp: won_row_def race_source_def tool_state_is_terminal_def split: race_op.splits)
qed

text \<open>A started call survives a restart. After \<open>start_running\<close> succeeds on a call the store did not
  hold, a reload by session and call id gives back the same handle, except that the unclaimed
  deadline is rounded down to whole seconds.\<close>

theorem start_running_reloads:
  assumes "defra N view" and "handle_wf tc" and "tc_state tc = Pending"
    and "start_running N now tc db = (Inr (), tc', db')"
    and "call_absent (view db) tc" and "load_answers N tc db'"
  shows "tool_call_load N (tc_session_id tc) (tc_tool_call_id tc) db' =
    Inr (Some (tc'\<lparr>tc_unclaimed_deadline_at := map_option trunc_secs (tc_unclaimed_deadline_at tc)\<rparr>))"
  using assms by (rule defra.started_reloads)

text \<open>A call held for approval does not survive a restart. \<open>hold_for_approval\<close> writes no await
  mode, so a reload of the row it creates is refused.\<close>

theorem held_call_not_reloadable:
  assumes "defra N view" and "tc_message_sequence tc < 2 ^ 32" and "tc_state tc = Pending"
    and "hold_for_approval N tc db = (Inr (), tc', db')"
    and "call_absent (view db) tc" and "load_answers N tc db'"
  shows "tool_call_load N (tc_session_id tc) (tc_tool_call_id tc) db' = Inl MissingAwaitMode"
  using assms by (rule defra.held_not_reloaded)

section \<open>Witnesses on the in-memory store\<close>

definition demo_call :: tool_call where
  "demo_call = tool_call_new (lit ''r'') (lit ''s'') (lit ''a'') (lit ''t'') 1 (lit ''bash'') (lit ''args'') 900"

definition demo_running :: tool_call where
  "demo_running = demo_call\<lparr>tc_doc_id := Some [120], tc_state := Running, tc_started_at := Some 10\<rparr>"

definition demo_db :: mem_db where
  "demo_db = [((ATC, [120]), started_row demo_call 10)]"

definition demo_done_row :: row where
  "demo_done_row = (started_row demo_call 10)
     (''result'' \<mapsto> GStr (lit ''ok''), ''lifecycle_state'' \<mapsto> GStr (lit ''completed''))"

definition demo_done_db :: mem_db where
  "demo_done_db = [((ATC, [120]), demo_done_row)]"

lemma demo_state [simp]: "row_state (started_row demo_call 10) = Some Running"
  by (simp add: row_state_def started_row_fields tool_state_from_persisted_def)

lemma demo_handle_wf: "handle_wf demo_call"
proof -
  have "trim (lit ''r'') \<noteq> []" by (simp add: lit_def str_simps is_ws_def)
  moreover have "trim (lit ''a'') \<noteq> []" by (simp add: lit_def str_simps is_ws_def)
  ultimately show ?thesis
    by (simp add: demo_call_def tool_call_new_def handle_wf_def nonblank_def)
qed

lemma demo_fresh: "mem_fresh [] = [120]"
  by (simp add: mem_fresh_def)

lemma demo_start: "start_running mem_node 10 demo_call [] = (Inr (), demo_running, demo_db)"
  by (simp add: start_running_def ensure_state_def create_transition_def mem_node_def mem_create_def
      Let_def demo_fresh extract_doc_id_from_create_response_def id_object_def started_row_def
      demo_running_def demo_db_def demo_call_def tool_call_new_def)

lemma demo_timeout:
  "\<exists>db'. timeout (\<lambda>_. []) mem_node 1000 demo_running demo_db =
     (Inr True, demo_running\<lparr>tc_state := TimedOut, tc_failure_class := Some External,
        tc_cancel_cause := Some Deadline\<rparr>, db')"
proof -
  have "(started_row demo_call 10) ''lifecycle_state'' = Some (GStr (lit ''running''))"
    by (simp add: started_row_def column_simps)
  then have "mem_hits ATC (running_filter [120]) demo_db = [([120], started_row demo_call 10)]"
    by (simp add: mem_hits_def demo_db_def running_filter_def)
  moreover have "tc_state demo_running = Running" "tc_doc_id demo_running = Some [120]"
    "tc_started_at demo_running = Some 10"
    by (simp_all add: demo_running_def)
  ultimately show ?thesis
    by (simp add: timeout_def ensure_state_def with_running_def cas_transition_def mem_node_def
        mem_update_def)
qed

lemma tool_steps_call:
  "run_op fmt N now op (H i) db = (tc, db') \<Longrightarrow> tool_steps fmt N (H, db) (H(i := tc), db')"
  by (intro r_into_rtranclp tool_step.call)

theorem tool_terminal_absorbing_witness:
  "\<exists>r'. mem_view (snd (run_op (\<lambda>_. []) mem_node 1000 OTimeout demo_running demo_done_db)) ATC [120] = Some r' \<and>
     row_state r' = Some Completed \<and> r' ''result'' = Some (GStr (lit ''ok''))"
proof -
  let ?out = "run_op (\<lambda>_. []) mem_node 1000 OTimeout demo_running demo_done_db"
  have "tool_steps (\<lambda>_. []) mem_node (\<lambda>_. demo_running, demo_done_db)
      ((\<lambda>_. demo_running)(0 := fst ?out), snd ?out)"
    by (rule tool_steps_call [where now = 1000 and op = OTimeout]) simp
  moreover have "mem_view demo_done_db ATC [120] = Some (demo_done_row)"
    by (simp add: mem_view_def demo_done_db_def)
  moreover have "row_state demo_done_row = Some Completed" and "tool_state_is_terminal Completed"
    by (simp_all add: demo_done_row_def tool_state_is_terminal_def)
  ultimately obtain r' where "mem_view (snd ?out) ATC [120] = Some r'" "row_state r' = Some Completed"
      "\<forall>f \<in> set outcome_fields. r' f = demo_done_row f"
    using tool_terminal_absorbing [OF mem.defra_axioms] by blast
  moreover have "demo_done_row ''result'' = Some (GStr (lit ''ok''))" "''result'' \<in> set outcome_fields"
    by (simp_all add: demo_done_row_def outcome_fields_def)
  ultimately show ?thesis by auto
qed

theorem tool_state_follows_edges_witness:
  "\<exists>r' s'. mem_view (snd (run_op (\<lambda>_. []) mem_node 1000 OTimeout demo_running demo_db)) ATC [120] = Some r' \<and>
     row_state r' = Some s' \<and> tool_edge\<^sup>*\<^sup>* Running s'"
proof -
  let ?out = "run_op (\<lambda>_. []) mem_node 1000 OTimeout demo_running demo_db"
  have "tool_steps (\<lambda>_. []) mem_node (\<lambda>_. demo_running, demo_db)
      ((\<lambda>_. demo_running)(0 := fst ?out), snd ?out)"
    by (rule tool_steps_call [where now = 1000 and op = OTimeout]) simp
  moreover have "mem_view demo_db ATC [120] = Some (started_row demo_call 10)"
    by (simp add: mem_view_def demo_db_def)
  ultimately show ?thesis
    using tool_state_follows_edges [OF mem.defra_axioms] demo_state by blast
qed

theorem terminal_handles_agree_witness:
  "\<exists>H' db'. tool_steps (\<lambda>_. []) mem_node (\<lambda>_. demo_call, []) (H', db') \<and>
     tc_state (H' (0::nat)) = TimedOut \<and>
     (\<exists>d r. tc_doc_id (H' 0) = Some d \<and> mem_view db' ATC d = Some r \<and> row_state r = Some TimedOut)"
proof -
  obtain db' where to: "timeout (\<lambda>_. []) mem_node 1000 demo_running demo_db =
      (Inr True, demo_running\<lparr>tc_state := TimedOut, tc_failure_class := Some External,
         tc_cancel_cause := Some Deadline\<rparr>, db')"
    using demo_timeout by blast
  let ?tc = "demo_running\<lparr>tc_state := TimedOut, tc_failure_class := Some External,
         tc_cancel_cause := Some Deadline\<rparr>"
  let ?H = "(\<lambda>_ :: nat. demo_call)(0 := demo_running)"
  have start: "tool_steps (\<lambda>_. []) mem_node (\<lambda>_. demo_call, []) (?H, demo_db)"
    by (rule tool_steps_call [where now = 10 and op = OStart]) (simp add: demo_start)
  have finish: "tool_steps (\<lambda>_. []) mem_node (?H, demo_db) (?H(0 := ?tc), db')"
    by (rule tool_steps_call [where now = 1000 and op = OTimeout]) (simp add: to)
  have steps: "tool_steps (\<lambda>_. []) mem_node (\<lambda>_. demo_call, []) (?H(0 := ?tc), db')"
    by (rule rtranclp_trans [OF start finish])
  have "\<forall>i. tc_state ((\<lambda>_ :: nat. demo_call) i) = Pending"
    by (simp add: demo_call_def tool_call_new_def)
  moreover have "tool_state_is_terminal (tc_state ((?H(0 := ?tc)) 0))"
    by (simp add: tool_state_is_terminal_def)
  ultimately have "\<exists>d r. tc_doc_id ((?H(0 := ?tc)) 0) = Some d \<and> mem_view db' ATC d = Some r \<and>
      row_state r = Some (tc_state ((?H(0 := ?tc)) 0))"
    using terminal_handles_agree [OF mem.defra_axioms steps] by blast
  then show ?thesis
    by (intro exI [of _ "?H(0 := ?tc)"] exI [of _ db'] conjI steps) simp_all
qed

theorem tool_race_single_winner_witness:
  "\<exists>tc' db1. race (\<lambda>_. []) mem_node 1000 RTimeout demo_running demo_db = (Inr True, tc', db1) \<and>
     fst (race (\<lambda>_. []) mem_node 1001 (RCancelRun UserCancelled None None) demo_running db1) \<noteq> Inr True"
proof -
  obtain db1 where to: "race (\<lambda>_. []) mem_node 1000 RTimeout demo_running demo_db =
      (Inr True, demo_running\<lparr>tc_state := TimedOut, tc_failure_class := Some External,
         tc_cancel_cause := Some Deadline\<rparr>, db1)"
    using demo_timeout by auto
  obtain res tc2 db3 where
    r2: "race (\<lambda>_. []) mem_node 1001 (RCancelRun UserCancelled None None) demo_running db1 = (res, tc2, db3)"
    by (metis prod_cases3)
  have "res \<noteq> Inr True"
    by (rule tool_race_single_winner [OF mem.defra_axioms to _ rtranclp.rtrancl_refl r2])
       (simp_all add: tool_state_is_terminal_def)
  with to r2 show ?thesis by simp
qed

lemma demo_absent: "call_absent (mem_view []) tc"
  by (simp add: call_absent_def mem_view_def)

lemma mem_answers: "load_answers mem_node tc db"
  by (simp add: load_answers_def mem_node_def mem_query_def)

theorem start_running_reloads_witness:
  "tool_call_load mem_node (lit ''s'') (lit ''t'') demo_db = Inr (Some demo_running)"
proof -
  have "tc_state demo_call = Pending" "tc_session_id demo_call = lit ''s''"
    "tc_tool_call_id demo_call = lit ''t''" "tc_unclaimed_deadline_at demo_call = None"
    by (simp_all add: demo_call_def tool_call_new_def)
  moreover have "demo_running\<lparr>tc_unclaimed_deadline_at := None\<rparr> = demo_running"
    by (simp add: demo_running_def demo_call_def tool_call_new_def)
  ultimately show ?thesis
    using start_running_reloads [OF mem.defra_axioms demo_handle_wf _ demo_start demo_absent mem_answers]
    by simp
qed

theorem held_call_not_reloadable_witness:
  "\<exists>tc' db'. hold_for_approval mem_node demo_call [] = (Inr (), tc', db') \<and>
     tool_call_load mem_node (lit ''s'') (lit ''t'') db' = Inl MissingAwaitMode"
proof -
  have demo: "tc_state demo_call = Pending" "tc_session_id demo_call = lit ''s''"
    "tc_tool_call_id demo_call = lit ''t''" "tc_message_sequence demo_call < 2 ^ 32"
    by (simp_all add: demo_call_def tool_call_new_def)
  then obtain tc' db' where h: "hold_for_approval mem_node demo_call [] = (Inr (), tc', db')"
    by (simp add: hold_for_approval_def ensure_state_def create_transition_def mem_node_def
        mem_create_def Let_def demo_fresh extract_doc_id_from_create_response_def id_object_def)
  with held_call_not_reloadable [OF mem.defra_axioms demo(4,1) h demo_absent mem_answers] demo
  show ?thesis by simp
qed

end
