(* ===== verification/Doc_Txn.thy ===== *)
theory Doc_Txn
  imports Doc_Store
begin

text \<open>
  Transactions on the document store and the bounded retry around them. A local transaction
  (\<^verbatim>\<open>ConfigApplyTxn::begin_local\<close>, \<^verbatim>\<open>commit\<close>, \<^verbatim>\<open>discard\<close>) runs its body on a working copy; the
  record \<open>txn\<close> stands for the database's begin and commit, and the locale \<open>defra_txn\<close> for what the
  runtime relies on: a commit that succeeds installs the working copy, and one that reports an
  error has installed it or changed nothing. \<open>retry_terminal_persistence_operation\<close> is the loop of
  \<^verbatim>\<open>gents/src/retry.rs\<close>; what the rest of the system does while it sleeps is an argument.
\<close>

section \<open>Transactions\<close>

record 'db txn =
  tx_begin :: "'db \<Rightarrow> ustring option"
  tx_commit :: "'db \<Rightarrow> 'db \<Rightarrow> (ustring + unit) \<times> 'db"

text \<open>Run a body in a transaction, commit the results that ask for it and discard the others.\<close>

definition txn_attempt ::
  "'db txn \<Rightarrow> (ustring \<Rightarrow> 'e) \<Rightarrow> ('a \<Rightarrow> bool) \<Rightarrow> ('db \<Rightarrow> ('e + 'a) \<times> 'db) \<Rightarrow> 'db \<Rightarrow> ('e + 'a) \<times> 'db" where
  "txn_attempt T err commits body db =
     (case tx_begin T db of
        Some e \<Rightarrow> (Inl (err e), db)
      | None \<Rightarrow>
          (case body db of
             (Inl e, _) \<Rightarrow> (Inl e, db)
           | (Inr v, db1) \<Rightarrow>
               if \<not> commits v then (Inr v, db)
               else (case tx_commit T db db1 of
                       (Inl e, db2) \<Rightarrow> (Inl (err e), db2)
                     | (Inr _, db2) \<Rightarrow> (Inr v, db2))))"

locale defra_txn = defra N view
  for N :: "'db node" and view :: "'db \<Rightarrow> contents" +
  fixes T :: "'db txn"
  assumes commit_ok: "tx_commit T db db1 = (Inr u, db2) \<Longrightarrow> view db2 = view db1"
    and commit_err: "tx_commit T db db1 = (Inl e, db2) \<Longrightarrow> view db2 = view db \<or> view db2 = view db1"
begin

text \<open>A transaction is all or nothing: afterwards the store is as before, or as the body left it
  with a result that was to be committed.\<close>

lemma txn_atomic:
  assumes "txn_attempt T err commits body db = (res, db')"
  shows "view db' = view db \<or>
    (\<exists>v db1. body db = (Inr v, db1) \<and> commits v \<and> view db' = view db1 \<and> (res = Inr v \<or> (\<exists>e. res = Inl e)))"
  using assms
  by (auto simp: txn_attempt_def dest: commit_ok commit_err
      split: option.splits prod.splits sum.splits if_splits)

lemma txn_result:
  assumes "txn_attempt T err commits body db = (Inr v, db')"
  shows "\<exists>db1. body db = (Inr v, db1) \<and> view db' = view (if commits v then db1 else db)"
  using assms
  by (auto simp: txn_attempt_def dest: commit_ok split: option.splits prod.splits sum.splits if_splits)

end

section \<open>Retry\<close>

definition terminal_persistence_max_retries :: nat where
  "terminal_persistence_max_retries = 3"

definition terminal_persistence_initial_backoff_ms :: nat where
  "terminal_persistence_initial_backoff_ms = 100"

definition persistence_backoff_ms :: "nat \<Rightarrow> nat \<Rightarrow> nat" where
  "persistence_backoff_ms initial_backoff retry_index = initial_backoff * 2 ^ min retry_index 10"

function retry_terminal_persistence_operation ::
  "nat \<Rightarrow> nat \<Rightarrow> (nat \<Rightarrow> 'db \<Rightarrow> ('e + 'a) \<times> 'db) \<Rightarrow> (nat \<Rightarrow> 'db \<Rightarrow> 'db) \<Rightarrow> nat \<Rightarrow> 'db \<Rightarrow> ('e + 'a) \<times> 'db" where
  "retry_terminal_persistence_operation max_retries initial attempt sleeping retry_index db =
     (case attempt retry_index db of
        (Inr v, db') \<Rightarrow> (Inr v, db')
      | (Inl e, db') \<Rightarrow>
          if retry_index < max_retries
          then retry_terminal_persistence_operation max_retries initial attempt sleeping
                 (Suc retry_index) (sleeping (persistence_backoff_ms initial retry_index) db')
          else (Inl e, db'))"
  by pat_completeness auto
termination
  by (relation "measure (\<lambda>(m, _, _, _, i, _). m - i)") auto

declare retry_terminal_persistence_operation.simps [simp del]

text \<open>What holds of every attempt, and of the sleeps in between, holds of the loop; and the loop
  ends with the outcome of one of at most \<open>max_retries + 1\<close> attempts.\<close>

lemma retry_invariant:
  assumes "retry_terminal_persistence_operation m b attempt sleeping i db = (res, db')"
    and "P db" and "i \<le> m"
    and "\<And>j db res db'. P db \<Longrightarrow> attempt j db = (res, db') \<Longrightarrow> P db'"
    and "\<And>j db. P db \<Longrightarrow> P (sleeping j db)"
  shows "P db' \<and> (\<exists>j db0. i \<le> j \<and> j \<le> m \<and> P db0 \<and> attempt j db0 = (res, db'))"
  using assms(1-3)
proof (induction "m - i" arbitrary: i db)
  case 0
  then show ?case
    using assms(4) [OF 0(3)]
    by (subst (asm) retry_terminal_persistence_operation.simps) (force split: prod.splits sum.splits)
next
  case (Suc n)
  obtain r db1 where a: "attempt i db = (r, db1)" by force
  show ?case
  proof (cases r)
    case (Inr v)
    with Suc.prems(1) a have "res = Inr v" "db' = db1"
      by (simp_all add: retry_terminal_persistence_operation.simps [of m b attempt sleeping i])
    with Inr a Suc.prems assms(4) show ?thesis by blast
  next
    case (Inl e)
    have "i < m" using Suc.hyps(2) by linarith
    with Suc.prems(1) a Inl have "retry_terminal_persistence_operation m b attempt sleeping (Suc i)
        (sleeping (persistence_backoff_ms b i) db1) = (res, db')"
      by (simp add: retry_terminal_persistence_operation.simps [of m b attempt sleeping i])
    moreover have "P (sleeping (persistence_backoff_ms b i) db1)"
      using assms(4,5) Suc.prems(2) a by blast
    moreover have "n = m - Suc i" using Suc.hyps(2) by linarith
    ultimately have "P db' \<and> (\<exists>j db0. Suc i \<le> j \<and> j \<le> m \<and> P db0 \<and> attempt j db0 = (res, db'))"
      using Suc.hyps(1) \<open>i < m\<close> by simp
    then show ?thesis by (meson Suc_leD)
  qed
qed

section \<open>An in-memory transaction\<close>

definition mem_txn :: "mem_db txn" where
  "mem_txn = \<lparr>tx_begin = \<lambda>_. None, tx_commit = \<lambda>_ db1. (Inr (), db1)\<rparr>"

interpretation mem_tx: defra_txn mem_node mem_view mem_txn
  by unfold_locales (auto simp: mem_txn_def)

end
