(* ===== verification/Execution_Lease.thy ===== *)
theory Execution_Lease
  imports Doc_Txn
begin

text \<open>
  Ownership of a running request: \<^verbatim>\<open>gents/src/lifecycle/execution_policy.rs\<close> (who may write),
  \<^verbatim>\<open>execution_lease.rs\<close> (fenced response writes, relinquishing, terminal transitions by the
  owner, by recovery and by revocation) and \<^verbatim>\<open>transition.rs\<close> (\<^verbatim>\<open>advance\<close>). The lease is four text and
  integer columns of the \<^verbatim>\<open>AgentRequest\<close> row; timestamps are kept as the RFC 3339 text they are
  stored as, and chrono's formatter and parser are the record \<open>rfc3339\<close>. Each attempt reads the
  clock once; a generation is a fresh UUID, an argument of the operations that draw one. Durations are naturals
  without an upper bound; the source converts them to 64-bit integers.
\<close>

section \<open>Authorization\<close>

record execution_observation =
  eo_request :: request_state
  eo_response_streaming :: "bool option"
  eo_generation :: ustring
  eo_deadline :: int
  eo_progress_seq :: nat

datatype execution_operation = OpBegin | OpProgress int | OpFinalize bool | OpObserve

definition authorize_live_execution ::
  "execution_observation \<Rightarrow> ustring \<Rightarrow> int \<Rightarrow> execution_operation \<Rightarrow> bool" where
  "authorize_live_execution observed expected_generation now operation =
     (if eo_generation observed \<noteq> expected_generation \<or> eo_deadline observed < now then False
      else
        let claimed = (eo_request observed = ReqClaimed \<and> eo_response_streaming observed = None);
            processing = (eo_request observed = ReqProcessing \<and> eo_response_streaming observed = Some True)
        in case operation of
             OpBegin \<Rightarrow> claimed
           | OpProgress new_deadline \<Rightarrow> processing \<and> eo_deadline observed < new_deadline
           | OpFinalize completed \<Rightarrow> processing \<or> (\<not> completed \<and> claimed)
           | OpObserve \<Rightarrow> processing)"

definition authorize_execution_revocation ::
  "execution_observation \<Rightarrow> execution_observation \<Rightarrow> ustring \<Rightarrow> request_state \<Rightarrow> bool" where
  "authorize_execution_revocation observed expected fresh_generation outcome \<longleftrightarrow>
     (eo_request observed = ReqClaimed \<and> eo_response_streaming observed = None \<or>
      eo_request observed = ReqProcessing \<and> eo_response_streaming observed = Some True) \<and>
     eo_generation observed = eo_generation expected \<and>
     eo_deadline observed = eo_deadline expected \<and>
     eo_progress_seq observed = eo_progress_seq expected \<and>
     fresh_generation \<noteq> eo_generation observed \<and>
     outcome \<in> {ReqDead, ReqSuperseded}"

definition provider_eof_is_failure :: "bool \<Rightarrow> bool" where
  "provider_eof_is_failure saw_explicit_final \<longleftrightarrow> \<not> saw_explicit_final"

section \<open>Rows and responses\<close>

record rfc3339 =
  rf_print :: "instant \<Rightarrow> ustring"
  rf_parse :: "ustring \<Rightarrow> instant option"

datatype lease_error =
    NodeError ustring
  | RequestDisappeared
  | RowUndecodable string
  | MissingColumn string
  | BadTimestamp ustring
  | BadProgress int
  | StaleExecution
  | LostResponseWrite
  | NoResponseDocument
  | ProgressOverflow
  | NoExecutionGeneration
  | BadLocalState string local_lifecycle_state
  | NoResponseDocId
  | PreviewNotPersisted ustring

text \<open>The columns of \<^verbatim>\<open>AgentRequestRow\<close> that the lease reads.\<close>

record lease_row =
  lr_doc_id :: doc_id
  lr_request_id :: ustring
  lr_state :: "request_state option"
  lr_generation :: "ustring option"
  lr_expiry :: "ustring option"
  lr_progress :: "int option"
  lr_agent_did :: "ustring option"
  lr_requester_did :: "ustring option"
  lr_behavior_id :: "ustring option"
  lr_session_id :: "ustring option"
  lr_interrupt_requested_at :: "ustring option"

definition decode_request_row :: "doc_id \<Rightarrow> row \<Rightarrow> lease_error + lease_row" where
  "decode_request_row d r =
     (case str_field r ''request_id'' of
        None \<Rightarrow> Inl (RowUndecodable AREQ)
      | Some rid \<Rightarrow>
          bind_res (case str_field r ''lifecycle_state'' of
               None \<Rightarrow> Inr None
             | Some s \<Rightarrow> (case request_parse s of
                 Inl _ \<Rightarrow> Inl (RowUndecodable AREQ) | Inr st \<Rightarrow> Inr (Some st))) (\<lambda>st.
          Inr \<lparr>lr_doc_id = d, lr_request_id = rid, lr_state = st,
               lr_generation = str_field r ''execution_generation'',
               lr_expiry = str_field r ''execution_lease_expires_at'',
               lr_progress = int_field r ''execution_progress_seq'',
               lr_agent_did = str_field r ''agent_did'',
               lr_requester_did = str_field r ''requester_did'',
               lr_behavior_id = str_field r ''behavior_id'',
               lr_session_id = str_field r ''session_id'',
               lr_interrupt_requested_at = str_field r ''interrupt_requested_at''\<rparr>))"

record response_view =
  rv_doc_id :: doc_id
  rv_status :: ustring
  rv_content :: ustring
  rv_interrupted_at :: "ustring option"

definition decode_response_row :: "doc_id \<Rightarrow> row \<Rightarrow> lease_error + response_view" where
  "decode_response_row d r =
     (case (str_field r ''status'', str_field r ''content'') of
        (Some s, Some c) \<Rightarrow>
          Inr \<lparr>rv_doc_id = d, rv_status = s, rv_content = c,
               rv_interrupted_at = str_field r ''interrupted_at''\<rparr>
      | _ \<Rightarrow> Inl (RowUndecodable ARSP))"

text \<open>\<^verbatim>\<open>first_row\<close> on a query with \<^verbatim>\<open>limit: 1\<close>.\<close>

definition first_row ::
  "'db node \<Rightarrow> string \<Rightarrow> eq_filter \<Rightarrow> (doc_id \<Rightarrow> row \<Rightarrow> lease_error + 'a) \<Rightarrow> 'db \<Rightarrow> lease_error + 'a option" where
  "first_row N c flt decode db =
     (case nd_query N c flt db of
        Inl e \<Rightarrow> Inl (NodeError e)
      | Inr rows \<Rightarrow>
          (case first_of rows of
             None \<Rightarrow> Inr None
           | Some (d, r) \<Rightarrow> bind_res (decode d r) (\<lambda>x. Inr (Some x))))"

definition read_request :: "'db node \<Rightarrow> doc_id \<Rightarrow> 'db \<Rightarrow> lease_error + lease_row" where
  "read_request N d db =
     bind_res (first_row N AREQ [(''_docID'', Is (GStr d))] decode_request_row db)
       (ok_or RequestDisappeared)"

text \<open>\<^verbatim>\<open>update_AgentResponse\<close> and \<^verbatim>\<open>create_AgentResponse\<close>, the two mutations a fenced write carries.\<close>

datatype response_mutation = RUpdate eq_filter input | RCreate input

fun run_response_mutation ::
  "'db node \<Rightarrow> response_mutation \<Rightarrow> 'db \<Rightarrow> (ustring + json option) \<times> 'db" where
  "run_response_mutation N (RUpdate flt inp) db = nd_update N ARSP flt inp db"
| "run_response_mutation N (RCreate inp) db = nd_create N ARSP inp db"

definition response_written :: "json option \<Rightarrow> bool" where
  "response_written resp_data \<longleftrightarrow>
     (case Option.bind resp_data (\<lambda>v. or_else (json_get (lit ''update_AgentResponse'') v)
         (json_get (lit ''create_AgentResponse'') v)) of
        None \<Rightarrow> False | Some x \<Rightarrow> response_has_documents x) \<or>
     extract_single_doc_id resp_data (lit ''create_AgentResponse'') \<noteq> None"

definition observe ::
  "request_state \<Rightarrow> response_view option \<Rightarrow> ustring \<Rightarrow> instant \<Rightarrow> int \<Rightarrow> lease_error + execution_observation" where
  "observe st rsp owner deadline progress =
     (if progress < 0 then Inl (BadProgress progress)
      else Inr \<lparr>eo_request = st,
             eo_response_streaming = map_option (\<lambda>v. rv_status v = lit ''streaming'') rsp,
             eo_generation = owner, eo_deadline = timestamp_millis deadline,
             eo_progress_seq = nat progress\<rparr>)"

text \<open>The filter that a lease write compares: everything it observed.\<close>

definition lease_filter ::
  "doc_id \<Rightarrow> request_state \<Rightarrow> ustring \<Rightarrow> ustring \<Rightarrow> int \<Rightarrow> eq_filter" where
  "lease_filter d st generation expiry seq =
     [(''_docID'', Is (GStr d)), (''lifecycle_state'', Is (GStr (request_as_str st))),
      (''execution_generation'', Is (GStr generation)),
      (''execution_lease_expires_at'', Is (GStr expiry)),
      (''execution_progress_seq'', Is (GInt seq))]"

section \<open>Fenced response writes\<close>

record execution_write_fence =
  wf_request_doc_id :: doc_id
  wf_execution_generation :: ustring
  wf_lease_duration_secs :: nat

datatype execution_write_kind = WBegin | WProgress | WObserve

definition renewed_deadline :: "nat \<Rightarrow> instant \<Rightarrow> instant \<Rightarrow> instant" where
  "renewed_deadline secs now deadline = max (now + int secs * 1000000000) (deadline + 1000000)"

definition write_input ::
  "rfc3339 \<Rightarrow> execution_write_kind \<Rightarrow> instant \<Rightarrow> ustring \<Rightarrow> int \<Rightarrow> lease_error + input" where
  "write_input F kind new_deadline owner seq =
     (case kind of
        WProgress \<Rightarrow>
          if seq = 2 ^ 63 - 1 then Inl ProgressOverflow
          else Inr [(''execution_lease_expires_at'', GStr (rf_print F new_deadline)),
                    (''execution_progress_seq'', GInt (seq + 1))]
      | WBegin \<Rightarrow> Inr [(''lifecycle_state'', GStr (request_as_str ReqProcessing))]
      | WObserve \<Rightarrow> Inr [(''execution_generation'', GStr owner)])"

text \<open>The reads and checks of one attempt: the compare filter and the fields to set.\<close>

definition plan_response_write ::
  "rfc3339 \<Rightarrow> 'db node \<Rightarrow> execution_write_fence \<Rightarrow> execution_write_kind \<Rightarrow> instant \<Rightarrow> 'db \<Rightarrow>
   lease_error + eq_filter \<times> input" where
  "plan_response_write F N fence kind now db =
     (let d = wf_request_doc_id fence in
      bind_res (read_request N d db) (\<lambda>row.
      bind_res (ok_or (MissingColumn ''execution_lease_expires_at'') (lr_expiry row)) (\<lambda>expiry.
      bind_res (ok_or (BadTimestamp expiry) (rf_parse F expiry)) (\<lambda>deadline.
      let new_deadline = renewed_deadline (wf_lease_duration_secs fence) now deadline in
      bind_res (ok_or (MissingColumn ''lifecycle_state'') (lr_state row)) (\<lambda>st.
      bind_res (ok_or (MissingColumn ''execution_generation'') (lr_generation row)) (\<lambda>owner.
      bind_res (first_row N ARSP [(''request_doc_id'', Is (GStr d))] decode_response_row db) (\<lambda>rsp.
      bind_res (ok_or (MissingColumn ''execution_progress_seq'') (lr_progress row)) (\<lambda>seq.
      bind_res (observe st rsp owner deadline seq) (\<lambda>observed.
        if \<not> authorize_live_execution observed (wf_execution_generation fence) (timestamp_millis now)
               (case kind of
                  WBegin \<Rightarrow> OpBegin
                | WProgress \<Rightarrow> OpProgress (timestamp_millis new_deadline)
                | WObserve \<Rightarrow> OpObserve)
        then Inl StaleExecution
        else
          bind_res (write_input F kind new_deadline owner seq) (\<lambda>inp.
          Inr (lease_filter d st owner expiry seq, inp)))))))))))"

definition response_write_body ::
  "rfc3339 \<Rightarrow> 'db node \<Rightarrow> execution_write_fence \<Rightarrow> response_mutation \<Rightarrow> execution_write_kind \<Rightarrow>
   instant \<Rightarrow> 'db \<Rightarrow> (lease_error + json option) \<times> 'db" where
  "response_write_body F N fence m kind now db =
     (case plan_response_write F N fence kind now db of
        Inl e \<Rightarrow> (Inl e, db)
      | Inr (flt, inp) \<Rightarrow>
          (case nd_update N AREQ flt inp db of
             (Inl e, db1) \<Rightarrow> (Inl (NodeError e), db1)
           | (Inr resp, db1) \<Rightarrow>
               if \<not> update_hit AREQ resp then (Inl LostResponseWrite, db1)
               else (case run_response_mutation N m db1 of
                       (Inl e, db2) \<Rightarrow> (Inl (NodeError e), db2)
                     | (Inr resp2, db2) \<Rightarrow>
                         if response_written resp2 then (Inr resp2, db2)
                         else (Inl NoResponseDocument, db2))))"

definition execute_response_write ::
  "rfc3339 \<Rightarrow> 'db node \<Rightarrow> 'db txn \<Rightarrow> (nat \<Rightarrow> instant) \<Rightarrow> (nat \<Rightarrow> 'db \<Rightarrow> 'db) \<Rightarrow>
   execution_write_fence \<Rightarrow> response_mutation \<Rightarrow> execution_write_kind \<Rightarrow> 'db \<Rightarrow>
   (lease_error + json option) \<times> 'db" where
  "execute_response_write F N T clock sleeping fence m kind db =
     retry_terminal_persistence_operation terminal_persistence_max_retries
       terminal_persistence_initial_backoff_ms
       (\<lambda>i. txn_attempt T NodeError (\<lambda>_. True) (response_write_body F N fence m kind (clock i)))
       sleeping 0 db"

section \<open>Relinquishing\<close>

text \<open>The write that dropping an unfinished owner spawns; its conflict retry is the node's own.\<close>

definition relinquish ::
  "rfc3339 \<Rightarrow> 'db node \<Rightarrow> instant \<Rightarrow> doc_id \<Rightarrow> ustring \<Rightarrow> 'db \<Rightarrow> 'db" where
  "relinquish F N now d generation db =
     snd (nd_update N AREQ
       [(''_docID'', Is (GStr d)), (''execution_generation'', Is (GStr generation)),
        (''lifecycle_state'', OneOf [GStr (request_as_str ReqClaimed), GStr (request_as_str ReqProcessing)])]
       [(''execution_lease_expires_at'', GStr (rf_print F (now - 1000000)))] db)"

section \<open>Terminal transitions\<close>

datatype terminal_outcome = OutCompleted | OutFailed | OutInterrupted | OutDead | OutSuperseded

fun outcome_request_state :: "terminal_outcome \<Rightarrow> request_state" where
  "outcome_request_state OutCompleted = ReqCompleted"
| "outcome_request_state OutFailed = ReqFailed"
| "outcome_request_state OutInterrupted = ReqInterrupted"
| "outcome_request_state OutDead = ReqDead"
| "outcome_request_state OutSuperseded = ReqSuperseded"

definition outcome_response_status :: "terminal_outcome \<Rightarrow> ustring" where
  "outcome_response_status o' = (case o' of OutCompleted \<Rightarrow> lit ''complete'' | _ \<Rightarrow> lit ''error'')"

definition outcome_conversation_status :: "terminal_outcome \<Rightarrow> ustring" where
  "outcome_conversation_status o' = (case o' of OutCompleted \<Rightarrow> lit ''completed'' | _ \<Rightarrow> lit ''active'')"

fun outcome_local_state :: "terminal_outcome \<Rightarrow> local_lifecycle_state" where
  "outcome_local_state OutCompleted = LCompleted"
| "outcome_local_state OutFailed = LFailed"
| "outcome_local_state OutDead = LFailed"
| "outcome_local_state OutSuperseded = LFailed"
| "outcome_local_state OutInterrupted = LInterrupted"

datatype terminalize_result = Won | AlreadySame | Lost

datatype terminal_authority =
    Owner ustring
  | Recovery ustring ustring int
  | Revocation ustring ustring int

text \<open>A failure of a request that was asked to stop counts as an interruption.\<close>

definition effective_outcome :: "terminal_outcome \<Rightarrow> lease_row \<Rightarrow> terminal_outcome" where
  "effective_outcome outcome row =
     (if outcome = OutFailed \<and> opt_filter (\<lambda>v. v \<noteq> []) (lr_interrupt_requested_at row) \<noteq> None
      then OutInterrupted else outcome)"

definition authorize_terminal ::
  "rfc3339 \<Rightarrow> terminal_authority \<Rightarrow> execution_observation \<Rightarrow> ustring \<Rightarrow> ustring \<Rightarrow> instant \<Rightarrow> int \<Rightarrow>
   instant \<Rightarrow> ustring \<Rightarrow> terminal_outcome \<Rightarrow> lease_error + bool" where
  "authorize_terminal F authority observed owner expiry deadline progress now fresh outcome =
     (case authority of
        Owner expected \<Rightarrow>
          Inr (authorize_live_execution observed expected (timestamp_millis now)
                 (OpFinalize (outcome = OutCompleted)))
      | Recovery generation expected_expiry expected_progress \<Rightarrow>
          Inr (owner = generation \<and> expiry = expected_expiry \<and> progress = expected_progress \<and>
               deadline < now \<and> eo_request observed \<in> {ReqClaimed, ReqProcessing})
      | Revocation generation expected_expiry expected_progress \<Rightarrow>
          bind_res (ok_or (BadTimestamp expected_expiry) (rf_parse F expected_expiry)) (\<lambda>t.
          if expected_progress < 0 then Inl (BadProgress expected_progress)
          else Inr (authorize_execution_revocation observed
                 (observed\<lparr>eo_generation := generation, eo_deadline := timestamp_millis t,
                           eo_progress_seq := nat expected_progress\<rparr>)
                 fresh (outcome_request_state outcome))))"

definition terminal_input ::
  "rfc3339 \<Rightarrow> ustring \<Rightarrow> terminal_authority \<Rightarrow> ustring \<Rightarrow> terminal_outcome \<Rightarrow> ustring \<Rightarrow> instant \<Rightarrow> input" where
  "terminal_input F fresh authority owner eff reason now =
     [(''lifecycle_state'', GStr (request_as_str (outcome_request_state eff))),
      (''execution_generation'', GStr (case authority of Owner _ \<Rightarrow> owner | _ \<Rightarrow> fresh)),
      (''execution_lease_expires_at'', GStr (rf_print F now)),
      (''failure_reason'', GStr reason),
      (''terminalized_at'', GStr (rf_print F now)),
      (''terminal_redrive_attempts'', GInt 0)]"

text \<open>What the reads of an attempt decide: settled without a write, or the row, the response
  and the outcome to write with the compare filter.\<close>

datatype terminal_plan =
    Settled terminalize_result
  | Write lease_row "response_view option" terminal_outcome ustring eq_filter input

definition plan_terminal ::
  "rfc3339 \<Rightarrow> 'db node \<Rightarrow> ustring \<Rightarrow> doc_id \<Rightarrow> terminal_authority \<Rightarrow> terminal_outcome \<Rightarrow> ustring \<Rightarrow>
   instant \<Rightarrow> 'db \<Rightarrow> lease_error + terminal_plan" where
  "plan_terminal F N fresh d authority outcome reason now db =
     bind_res (read_request N d db) (\<lambda>row.
     bind_res (ok_or (MissingColumn ''execution_generation'') (lr_generation row)) (\<lambda>owner.
     bind_res (ok_or (MissingColumn ''agent_did'') (lr_agent_did row)) (\<lambda>agent_did.
     bind_res (first_row N ARSP
       [(''request_doc_id'', Is (GStr d)), (''agent_did'', Is (GStr agent_did))]
       decode_response_row db) (\<lambda>rsp.
     bind_res (ok_or (MissingColumn ''lifecycle_state'') (lr_state row)) (\<lambda>st.
     let eff = effective_outcome outcome row in
     if request_is_terminal st
     then Inr (Settled
       (if authority = Owner owner \<and> st = outcome_request_state eff \<and>
           map_option rv_status rsp = Some (outcome_response_status eff)
        then AlreadySame else Lost))
     else
       bind_res (ok_or (MissingColumn ''execution_lease_expires_at'') (lr_expiry row)) (\<lambda>expiry.
       bind_res (ok_or (BadTimestamp expiry) (rf_parse F expiry)) (\<lambda>deadline.
       bind_res (ok_or (MissingColumn ''execution_progress_seq'') (lr_progress row)) (\<lambda>progress.
       bind_res (observe st rsp owner deadline progress) (\<lambda>observed.
       bind_res (authorize_terminal F authority observed owner expiry deadline progress now fresh eff)
         (\<lambda>authorized.
       if \<not> authorized \<or>
          (case rsp of
             None \<Rightarrow> False
           | Some v \<Rightarrow> rv_status v \<noteq> lit ''streaming'' \<and> rv_status v \<noteq> outcome_response_status eff)
       then Inr (Settled Lost)
       else Inr (Write row rsp eff agent_did
         (lease_filter d st owner expiry progress)
         (terminal_input F fresh authority owner eff reason now))))))))))))"

definition interrupted_field :: "rfc3339 \<Rightarrow> instant \<Rightarrow> terminal_outcome \<Rightarrow> response_view option \<Rightarrow> input" where
  "interrupted_field F now eff rsp =
     (if eff \<noteq> OutInterrupted then []
      else [(''interrupted_at'', GStr
        (case opt_filter (\<lambda>v. v \<noteq> []) (Option.bind rsp rv_interrupted_at) of
           Some at \<Rightarrow> at | None \<Rightarrow> rf_print F now))])"

text \<open>The text that recovery appends to a reply cut short; its dash is the em dash U+2014.\<close>

definition daemon_restarted_note :: ustring where
  "daemon_restarted_note =
     [10, 10] @ lit ''[Response interrupted '' @ [8212] @ lit '' daemon restarted]''"

definition recovered_content ::
  "terminal_authority \<Rightarrow> terminal_outcome \<Rightarrow> ustring \<Rightarrow> response_view \<Rightarrow> input" where
  "recovered_content authority eff reason rsp =
     (if (case authority of Recovery _ _ _ \<Rightarrow> True | _ \<Rightarrow> False) \<and>
         rv_status rsp = lit ''streaming'' \<and> eff \<noteq> OutCompleted
      then [(''content'', GStr (if trim (rv_content rsp) = [] then lit ''Error: '' @ reason
                              else rv_content rsp @ daemon_restarted_note))]
      else [])"

definition terminal_response_mutation ::
  "rfc3339 \<Rightarrow> terminal_authority \<Rightarrow> doc_id \<Rightarrow> ustring \<Rightarrow> ustring \<Rightarrow> instant \<Rightarrow> lease_row \<Rightarrow>
   response_view option \<Rightarrow> terminal_outcome \<Rightarrow> lease_error + response_mutation" where
  "terminal_response_mutation F authority d agent_did reason now row rsp eff =
     (let status = outcome_response_status eff; stamp = rf_print F now in
      case rsp of
        Some v \<Rightarrow>
          Inr (RUpdate [(''_docID'', Is (GStr (rv_doc_id v))), (''status'', Is (GStr (rv_status v)))]
            (recovered_content authority eff reason v @
             [(''status'', GStr status), (''error_message'', GStr reason)] @
             interrupted_field F now eff rsp @ [(''completed_at'', GStr stamp)]))
      | None \<Rightarrow>
          bind_res (ok_or (MissingColumn ''session_id'') (lr_session_id row)) (\<lambda>session.
          Inr (RCreate
            ([(''response_key'', GStr (lr_request_id row)), (''request_id'', GStr (lr_request_id row)),
              (''request_doc_id'', GStr d), (''agent_did'', GStr agent_did)] @
             requester_did_create_field (lr_requester_did row) @
             [(''behavior_id'', GStr (case lr_behavior_id row of None \<Rightarrow> [] | Some b \<Rightarrow> b)),
              (''session_id'', GStr session), (''content'', GStr (lit ''Error: '' @ reason)),
              (''reasoning'', GStr []), (''status'', GStr status), (''error_message'', GStr reason),
              (''token_count'', GInt 0), (''progress_seq'', GInt 0), (''reasoning_progress_seq'', GInt 0),
              (''created_at'', GStr stamp), (''completed_at'', GStr stamp)] @
             interrupted_field F now eff None))))"

definition terminal_response_written :: "bool \<Rightarrow> json option \<Rightarrow> bool" where
  "terminal_response_written existed resp_data \<longleftrightarrow>
     (let key = (if existed then lit ''update_AgentResponse'' else lit ''create_AgentResponse'') in
      (case Option.bind resp_data (json_get key) of
         None \<Rightarrow> False | Some x \<Rightarrow> response_has_documents x) \<or>
      extract_single_doc_id resp_data key \<noteq> None)"

definition terminalize_body ::
  "rfc3339 \<Rightarrow> 'db node \<Rightarrow> ustring \<Rightarrow> doc_id \<Rightarrow> terminal_authority \<Rightarrow> terminal_outcome \<Rightarrow> ustring \<Rightarrow>
   instant \<Rightarrow> 'db \<Rightarrow> (lease_error + terminalize_result) \<times> 'db" where
  "terminalize_body F N fresh d authority outcome reason now db =
     (case plan_terminal F N fresh d authority outcome reason now db of
        Inl e \<Rightarrow> (Inl e, db)
      | Inr (Settled res) \<Rightarrow> (Inr res, db)
      | Inr (Write row rsp eff agent_did flt inp) \<Rightarrow>
          (case nd_update N AREQ flt inp db of
             (Inl e, db1) \<Rightarrow> (Inl (NodeError e), db1)
           | (Inr resp, db1) \<Rightarrow>
               if \<not> update_hit AREQ resp then (Inr Lost, db1)
               else case terminal_response_mutation F authority d agent_did reason now row rsp eff of
                   Inl e \<Rightarrow> (Inl e, db1)
                 | Inr m \<Rightarrow>
                     (case run_response_mutation N m db1 of
                        (Inl e, db2) \<Rightarrow> (Inl (NodeError e), db2)
                      | (Inr resp2, db2) \<Rightarrow>
                          if \<not> terminal_response_written (rsp \<noteq> None) resp2
                          then (Inl NoResponseDocument, db2)
                          else case lr_session_id row of
                              None \<Rightarrow> (Inl (MissingColumn ''session_id''), db2)
                            | Some session \<Rightarrow>
                                (case nd_update N ''AgentConversation''
                                    [(''session_id'', Is (GStr session)),
                                     (''latest_request_id'', Is (GStr (lr_request_id row)))]
                                    [(''status'', GStr (outcome_conversation_status eff)),
                                     (''updated_at'', GStr (rf_print F now))] db2 of
                                   (Inl e, db3) \<Rightarrow> (Inl (NodeError e), db3)
                                 | (Inr _, db3) \<Rightarrow> (Inr Won, db3)))))"

definition terminalize_execution ::
  "rfc3339 \<Rightarrow> 'db node \<Rightarrow> 'db txn \<Rightarrow> (nat \<Rightarrow> instant) \<Rightarrow> (nat \<Rightarrow> 'db \<Rightarrow> 'db) \<Rightarrow> ustring \<Rightarrow> doc_id \<Rightarrow>
   terminal_authority \<Rightarrow> terminal_outcome \<Rightarrow> ustring \<Rightarrow> 'db \<Rightarrow> (lease_error + terminalize_result) \<times> 'db" where
  "terminalize_execution F N T clock sleeping fresh d authority outcome reason db =
     retry_terminal_persistence_operation terminal_persistence_max_retries
       terminal_persistence_initial_backoff_ms
       (\<lambda>i. txn_attempt T NodeError (\<lambda>res. res = Won)
          (terminalize_body F N fresh d authority outcome reason (clock i)))
       sleeping 0 db"

definition recover_execution_generation ::
  "rfc3339 \<Rightarrow> 'db node \<Rightarrow> 'db txn \<Rightarrow> (nat \<Rightarrow> instant) \<Rightarrow> (nat \<Rightarrow> 'db \<Rightarrow> 'db) \<Rightarrow> ustring \<Rightarrow> doc_id option \<Rightarrow>
   ustring \<Rightarrow> ustring \<Rightarrow> int \<Rightarrow> terminal_outcome \<Rightarrow> ustring \<Rightarrow> 'db \<Rightarrow>
   (lease_error + terminalize_result) \<times> 'db" where
  "recover_execution_generation F N T clock sleeping fresh row_doc_id expected_generation
     expected_expiry expected_progress outcome reason db =
     (case row_doc_id of
        None \<Rightarrow> (Inl (MissingColumn ''_docID''), db)
      | Some d \<Rightarrow> terminalize_execution F N T clock sleeping fresh d
          (Recovery expected_generation expected_expiry expected_progress) outcome reason db)"

definition revoke_execution_generation ::
  "rfc3339 \<Rightarrow> 'db node \<Rightarrow> 'db txn \<Rightarrow> (nat \<Rightarrow> instant) \<Rightarrow> (nat \<Rightarrow> 'db \<Rightarrow> 'db) \<Rightarrow> ustring \<Rightarrow> doc_id option \<Rightarrow>
   lease_row \<Rightarrow> terminal_outcome \<Rightarrow> ustring \<Rightarrow> 'db \<Rightarrow> (lease_error + terminalize_result) \<times> 'db" where
  "revoke_execution_generation F N T clock sleeping fresh row_doc_id row outcome reason db =
     (case row_doc_id of
        None \<Rightarrow> (Inl (MissingColumn ''_docID''), db)
      | Some d \<Rightarrow>
          (case (lr_generation row, lr_expiry row, lr_progress row) of
             (None, _, _) \<Rightarrow> (Inl (MissingColumn ''execution_generation''), db)
           | (_, None, _) \<Rightarrow> (Inl (MissingColumn ''execution_lease_expires_at''), db)
           | (_, _, None) \<Rightarrow> (Inl (MissingColumn ''execution_progress_seq''), db)
           | (Some g, Some e, Some p) \<Rightarrow>
               terminalize_execution F N T clock sleeping fresh d (Revocation g e p) outcome reason db))"

section \<open>The owner\<close>

text \<open>The fields of \<^verbatim>\<open>RequestLifecycle\<close> that ownership uses.\<close>

record request_owner =
  ro_request_doc_id :: doc_id
  ro_failure_reason :: "ustring option"
  ro_response_doc_id :: "doc_id option"
  ro_progress_seq :: nat
  ro_state :: local_lifecycle_state
  ro_generation :: "ustring option"
  ro_lease_duration_secs :: nat

definition owner_generation :: "request_owner \<Rightarrow> lease_error + ustring" where
  "owner_generation lc = ok_or NoExecutionGeneration (ro_generation lc)"

definition owner_ensure_state ::
  "local_lifecycle_state list \<Rightarrow> string \<Rightarrow> request_owner \<Rightarrow> lease_error + unit" where
  "owner_ensure_state expected action lc =
     (if ro_state lc \<in> set expected then Inr () else Inl (BadLocalState action (ro_state lc)))"

definition validate_owned_execution ::
  "rfc3339 \<Rightarrow> 'db node \<Rightarrow> instant \<Rightarrow> request_owner \<Rightarrow> 'db \<Rightarrow> lease_error + unit" where
  "validate_owned_execution F N now lc db =
     bind_res (read_request N (ro_request_doc_id lc) db) (\<lambda>row.
     bind_res (ok_or (MissingColumn ''execution_lease_expires_at'') (lr_expiry row)) (\<lambda>expiry.
     bind_res (ok_or (BadTimestamp expiry) (rf_parse F expiry)) (\<lambda>deadline.
     bind_res (ok_or (MissingColumn ''lifecycle_state'') (lr_state row)) (\<lambda>st.
     bind_res (ok_or (MissingColumn ''execution_generation'') (lr_generation row)) (\<lambda>generation.
     bind_res (ok_or (MissingColumn ''execution_progress_seq'') (lr_progress row)) (\<lambda>progress.
     if progress < 0 then Inl (BadProgress progress)
     else
       bind_res (owner_generation lc) (\<lambda>expected.
       if authorize_live_execution
            \<lparr>eo_request = st, eo_response_streaming = Some True, eo_generation = generation,
             eo_deadline = timestamp_millis deadline, eo_progress_seq = nat progress\<rparr>
            expected (timestamp_millis now) OpObserve
       then Inr () else Inl StaleExecution)))))))"

definition advance ::
  "rfc3339 \<Rightarrow> 'db node \<Rightarrow> 'db txn \<Rightarrow> (nat \<Rightarrow> instant) \<Rightarrow> (nat \<Rightarrow> 'db \<Rightarrow> 'db) \<Rightarrow> request_owner \<Rightarrow> 'db \<Rightarrow>
   (lease_error + unit) \<times> request_owner \<times> 'db" where
  "advance F N T clock sleeping lc db =
     (case bind_res (owner_ensure_state [LStreaming] ''advance'' lc) (\<lambda>_.
           bind_res (ok_or NoResponseDocId (ro_response_doc_id lc)) (\<lambda>rsp.
           bind_res (if ro_progress_seq lc = 2 ^ 32 - 1 then Inl ProgressOverflow
                     else Inr (ro_progress_seq lc + 1)) (\<lambda>next.
           bind_res (owner_generation lc) (\<lambda>generation. Inr (rsp, next, generation))))) of
        Inl e \<Rightarrow> (Inl e, lc, db)
      | Inr (rsp, next, generation) \<Rightarrow>
          (case execute_response_write F N T clock sleeping
              \<lparr>wf_request_doc_id = ro_request_doc_id lc, wf_execution_generation = generation,
               wf_lease_duration_secs = ro_lease_duration_secs lc\<rparr>
              (RUpdate [(''_docID'', Is (GStr rsp)), (''status'', Is (GStr (lit ''streaming'')))]
                 [(''progress_seq'', GInt (int next))])
              WProgress db of
             (Inl e, db') \<Rightarrow> (Inl e, lc, db')
           | (Inr _, db') \<Rightarrow> (Inr (), lc\<lparr>ro_progress_seq := next\<rparr>, db')))"

definition terminalize_owned_without_stream ::
  "rfc3339 \<Rightarrow> 'db node \<Rightarrow> 'db txn \<Rightarrow> (nat \<Rightarrow> instant) \<Rightarrow> (nat \<Rightarrow> 'db \<Rightarrow> 'db) \<Rightarrow> ustring \<Rightarrow>
   terminal_outcome \<Rightarrow> ustring option \<Rightarrow> request_owner \<Rightarrow> 'db \<Rightarrow>
   (lease_error + terminalize_result) \<times> request_owner \<times> 'db" where
  "terminalize_owned_without_stream F N T clock sleeping fresh outcome reason lc db =
     (case owner_generation lc of
        Inl e \<Rightarrow> (Inl e, lc, db)
      | Inr generation \<Rightarrow>
          (case terminalize_execution F N T clock sleeping fresh (ro_request_doc_id lc)
              (Owner generation) outcome
              (case or_else reason (ro_failure_reason lc) of None \<Rightarrow> [] | Some r \<Rightarrow> r) db of
             (Inl e, db') \<Rightarrow> (Inl e, lc, db')
           | (Inr res, db') \<Rightarrow>
               (Inr res,
                if res \<in> {Won, AlreadySame} then lc\<lparr>ro_state := outcome_local_state outcome\<rparr> else lc,
                db')))"

text \<open>\<open>flush\<close> stands for \<^verbatim>\<open>StreamWriter::flush_pending\<close> on the response's buffer; discarding the
  buffer afterwards changes nothing that the lifecycle or the store keeps.\<close>

definition terminalize_owned ::
  "rfc3339 \<Rightarrow> 'db node \<Rightarrow> 'db txn \<Rightarrow> (nat \<Rightarrow> instant) \<Rightarrow> (nat \<Rightarrow> 'db \<Rightarrow> 'db) \<Rightarrow> ustring \<Rightarrow>
   (doc_id \<Rightarrow> 'db \<Rightarrow> (ustring + unit) \<times> 'db) \<Rightarrow> terminal_outcome \<Rightarrow> ustring option \<Rightarrow> request_owner \<Rightarrow>
   'db \<Rightarrow> (lease_error + terminalize_result) \<times> request_owner \<times> 'db" where
  "terminalize_owned F N T clock sleeping fresh flush outcome reason lc db =
     (let finish = (\<lambda>db. terminalize_owned_without_stream F N T clock sleeping fresh outcome reason lc db) in
      case (ro_state lc, ro_response_doc_id lc) of
        (LStreaming, Some d) \<Rightarrow>
          (case flush d db of
             (Inr _, db1) \<Rightarrow> finish db1
           | (Inl error, db1) \<Rightarrow>
               (case terminalize_owned_without_stream F N T clock sleeping fresh
                   (if outcome = OutCompleted then OutFailed else outcome)
                   (or_else reason (Some (lit ''persisting final response preview: '' @ error)))
                   lc db1 of
                  (Inl e, lc', db2) \<Rightarrow> (Inl e, lc', db2)
                | (Inr res, lc', db2) \<Rightarrow>
                    (if outcome = OutCompleted then Inl (PreviewNotPersisted error) else Inr res,
                     lc', db2)))
      | _ \<Rightarrow> finish db)"

text \<open>Dropping an owner: an unfinished one gives its lease up when an async runtime is there to
  run the write.\<close>

definition drop_owner ::
  "rfc3339 \<Rightarrow> 'db node \<Rightarrow> instant \<Rightarrow> bool \<Rightarrow> request_owner \<Rightarrow> 'db \<Rightarrow> 'db" where
  "drop_owner F N now runtime_available lc db =
     (case ro_generation lc of
        None \<Rightarrow> db
      | Some generation \<Rightarrow>
          if ro_state lc \<in> {LCompleted, LFailed, LInterrupted} \<or> \<not> runtime_available then db
          else relinquish F N now (ro_request_doc_id lc) generation db)"

end
