(* ===== verification/Execution_Lease_Props.thy ===== *)
theory Execution_Lease_Props
  imports Execution_Lease
begin

text \<open>
  What the execution lease guarantees of a request row. Every attempt of every operation is one
  step; \<open>lease_steps\<close> interleaves the attempts of any number of owners, recoveries, revocations and
  drops. The operations with their retry loops are sequences of such steps.
\<close>

section \<open>Legal moves of a leased request\<close>

definition req_state :: "row \<Rightarrow> request_state option" where
  "req_state r = request_parse_opt (str_field r ''lifecycle_state'')"

definition progress_of :: "row \<Rightarrow> int option" where
  "progress_of r = int_field r ''execution_progress_seq''"

text \<open>While the same execution runs: same generation, progress not lost.\<close>

definition same_execution :: "row \<Rightarrow> row \<Rightarrow> bool" where
  "same_execution r r' \<longleftrightarrow>
     r' ''execution_generation'' = r ''execution_generation'' \<and>
     (\<forall>n. progress_of r = Some n \<longrightarrow> (\<exists>n'. progress_of r' = Some n' \<and> n \<le> n'))"

definition lease_moves :: "row \<Rightarrow> row \<Rightarrow> bool" where
  "lease_moves r r' \<longleftrightarrow> r' = r \<or>
     (\<exists>s s'. req_state r = Some s \<and> req_state r' = Some s' \<and> s \<in> {ReqClaimed, ReqProcessing} \<and>
        (request_is_terminal s' \<or> (s' = s \<or> s' = ReqProcessing) \<and> same_execution r r'))"

definition leases_move :: "contents \<Rightarrow> contents \<Rightarrow> bool" where
  "leases_move v v' \<longleftrightarrow>
     (\<forall>d r. v AREQ d = Some r \<longrightarrow> (\<exists>r'. v' AREQ d = Some r' \<and> lease_moves r r'))"

lemma active_not_terminal: "s \<in> {ReqClaimed, ReqProcessing} \<Longrightarrow> \<not> request_is_terminal s"
  by (auto simp: request_is_terminal_def)

lemma lease_moves_refl [simp]: "lease_moves r r"
  by (simp add: lease_moves_def)

lemma lease_moves_terminal:
  "lease_moves r r' \<Longrightarrow> req_state r = Some s \<Longrightarrow> request_is_terminal s \<Longrightarrow> r' = r"
  using active_not_terminal by (auto simp: lease_moves_def)

lemma same_execution_trans: "same_execution r r' \<Longrightarrow> same_execution r' r'' \<Longrightarrow> same_execution r r''"
  unfolding same_execution_def by (metis order_trans)

lemma lease_moves_trans:
  assumes "lease_moves r r'" and "lease_moves r' r''"
  shows "lease_moves r r''"
proof (cases "r' = r \<or> r'' = r'")
  case True
  with assms show ?thesis by auto
next
  case False
  with assms(1) obtain s s' where s: "req_state r = Some s" "req_state r' = Some s'"
      "s \<in> {ReqClaimed, ReqProcessing}"
      "request_is_terminal s' \<or> (s' = s \<or> s' = ReqProcessing) \<and> same_execution r r'"
    unfolding lease_moves_def by blast
  from False assms(2) s(2) obtain s'' where s'': "req_state r'' = Some s''"
      "s' \<in> {ReqClaimed, ReqProcessing}"
      "request_is_terminal s'' \<or> (s'' = s' \<or> s'' = ReqProcessing) \<and> same_execution r' r''"
    unfolding lease_moves_def by auto
  from s(4) active_not_terminal [OF s''(2)]
  have keep: "s' = s \<or> s' = ReqProcessing" "same_execution r r'" by blast+
  show ?thesis
  proof (cases "request_is_terminal s''")
    case True
    with s s'' show ?thesis unfolding lease_moves_def by blast
  next
    case False
    with s''(3) keep have "s'' = s \<or> s'' = ReqProcessing" "same_execution r r''"
      using same_execution_trans by blast+
    with s s'' show ?thesis unfolding lease_moves_def by blast
  qed
qed

lemma leases_move_refl [simp]: "leases_move v v"
  by (simp add: leases_move_def)

lemma leases_move_trans: "leases_move u v \<Longrightarrow> leases_move v w \<Longrightarrow> leases_move u w"
  unfolding leases_move_def using lease_moves_trans by blast

lemma leases_move_same: "v' AREQ = v AREQ \<Longrightarrow> leases_move v v'"
  by (simp add: leases_move_def)

text \<open>What a row must carry for a lease write to hit it.\<close>

definition leased :: "row \<Rightarrow> request_state \<Rightarrow> ustring \<Rightarrow> ustring \<Rightarrow> int \<Rightarrow> bool" where
  "leased r st g e n \<longleftrightarrow>
     r ''lifecycle_state'' = Some (GStr (request_as_str st)) \<and>
     r ''execution_generation'' = Some (GStr g) \<and>
     r ''execution_lease_expires_at'' = Some (GStr e) \<and>
     r ''execution_progress_seq'' = Some (GInt n)"

lemma lease_filter_matches:
  "row_matches (lease_filter d st g e n) d' r \<longleftrightarrow> d' = d \<and> leased r st g e n"
  by (auto simp: lease_filter_def leased_def)

lemma req_state_text [simp]:
  "r ''lifecycle_state'' = Some (GStr (request_as_str st)) \<Longrightarrow> req_state r = Some st"
  by (simp add: req_state_def str_field_def request_parse_opt_def)

lemma leased_req_state: "leased r st g e n \<Longrightarrow> req_state r = Some st"
  by (simp add: leased_def)

section \<open>What a write was allowed to see\<close>

text \<open>The state, the response and the fields written by each kind of fenced write.\<close>

definition write_terms ::
  "rfc3339 \<Rightarrow> execution_write_fence \<Rightarrow> execution_write_kind \<Rightarrow> instant \<Rightarrow>
   request_state \<Rightarrow> response_view option \<Rightarrow> ustring \<Rightarrow> instant \<Rightarrow> int \<Rightarrow> input \<Rightarrow> bool" where
  "write_terms F fence kind now st rsp owner deadline seq inp \<longleftrightarrow>
     owner = wf_execution_generation fence \<and>
     timestamp_millis now \<le> timestamp_millis deadline \<and> 0 \<le> seq \<and>
     (case kind of
        WBegin \<Rightarrow>
          st = ReqClaimed \<and> rsp = None \<and>
          inp = [(''lifecycle_state'', GStr (request_as_str ReqProcessing))]
      | WProgress \<Rightarrow>
          st = ReqProcessing \<and> map_option rv_status rsp = Some (lit ''streaming'') \<and>
          inp = [(''execution_lease_expires_at'',
                    GStr (rf_print F (renewed_deadline (wf_lease_duration_secs fence) now deadline))),
                 (''execution_progress_seq'', GInt (seq + 1))]
      | WObserve \<Rightarrow>
          st = ReqProcessing \<and> map_option rv_status rsp = Some (lit ''streaming'') \<and>
          inp = [(''execution_generation'', GStr owner)])"

lemma renewed_deadline_extends:
  "deadline + 1000000 \<le> renewed_deadline secs now deadline"
  "now + int secs * 1000000000 \<le> renewed_deadline secs now deadline"
  "timestamp_millis deadline < timestamp_millis (renewed_deadline secs now deadline)"
proof -
  show le: "deadline + 1000000 \<le> renewed_deadline secs now deadline"
    by (simp add: renewed_deadline_def)
  show "now + int secs * 1000000000 \<le> renewed_deadline secs now deadline"
    by (simp add: renewed_deadline_def)
  have "timestamp_millis (deadline + 1000000) = timestamp_millis deadline + 1"
    by (simp add: timestamp_millis_def)
  with timestamp_millis_mono [OF le]
  show "timestamp_millis deadline < timestamp_millis (renewed_deadline secs now deadline)"
    by linarith
qed

lemma observe_Inr:
  "observe st rsp owner deadline progress = Inr ob \<longleftrightarrow>
     0 \<le> progress \<and>
     ob = \<lparr>eo_request = st, eo_response_streaming = map_option (\<lambda>v. rv_status v = lit ''streaming'') rsp,
           eo_generation = owner, eo_deadline = timestamp_millis deadline,
           eo_progress_seq = nat progress\<rparr>"
  by (auto simp: observe_def)

lemma authorized_write:
  assumes "authorize_live_execution ob (wf_execution_generation fence) (timestamp_millis now)
      (case kind of
         WBegin \<Rightarrow> OpBegin
       | WProgress \<Rightarrow> OpProgress (timestamp_millis
           (renewed_deadline (wf_lease_duration_secs fence) now deadline))
       | WObserve \<Rightarrow> OpObserve)"
    and "observe st rsp owner deadline seq = Inr ob"
    and "write_input F kind (renewed_deadline (wf_lease_duration_secs fence) now deadline) owner seq
      = Inr inp"
  shows "write_terms F fence kind now st rsp owner deadline seq inp"
  using assms
  by (cases kind; cases rsp)
     (auto simp: observe_Inr write_terms_def write_input_def authorize_live_execution_def Let_def
       split: if_splits)

lemma plan_write_facts:
  assumes "plan_response_write F N fence kind now db = Inr (flt, inp)"
  shows "\<exists>st rsp owner expiry deadline seq.
    flt = lease_filter (wf_request_doc_id fence) st owner expiry seq \<and>
    rf_parse F expiry = Some deadline \<and>
    first_row N ARSP [(''request_doc_id'', Is (GStr (wf_request_doc_id fence)))]
      decode_response_row db = Inr rsp \<and>
    write_terms F fence kind now st rsp owner deadline seq inp"
  using assms unfolding plan_response_write_def Let_def
  by (elim bind_resE, split if_split_asm)
     (simp, elim bind_resE, simp, blast intro: authorized_write)

text \<open>On what ground each authority ends a request.\<close>

definition terminal_grounds ::
  "ustring \<Rightarrow> terminal_authority \<Rightarrow> terminal_outcome \<Rightarrow> instant \<Rightarrow> request_state \<Rightarrow> ustring \<Rightarrow> ustring \<Rightarrow>
   instant \<Rightarrow> int \<Rightarrow> bool" where
  "terminal_grounds fresh authority eff now st owner expiry deadline progress \<longleftrightarrow>
     st \<in> {ReqClaimed, ReqProcessing} \<and>
     (case authority of
        Owner g \<Rightarrow>
          owner = g \<and> timestamp_millis now \<le> timestamp_millis deadline \<and>
          (eff = OutCompleted \<longrightarrow> st = ReqProcessing)
      | Recovery g e p \<Rightarrow> owner = g \<and> expiry = e \<and> progress = p \<and> deadline < now
      | Revocation g e p \<Rightarrow>
          owner = g \<and> progress = p \<and> fresh \<noteq> owner \<and> eff \<in> {OutDead, OutSuperseded})"

lemma authorized_terminal:
  assumes "authorize_terminal F authority ob owner expiry deadline progress now fresh eff = Inr True"
    and "observe st rsp owner deadline progress = Inr ob"
  shows "terminal_grounds fresh authority eff now st owner expiry deadline progress"
  using assms
  by (cases authority; cases eff)
     (auto simp: observe_Inr authorize_terminal_def terminal_grounds_def bind_res_Inr
       authorize_live_execution_def authorize_execution_revocation_def Let_def split: if_splits)

lemma plan_terminal_facts:
  assumes "plan_terminal F N fresh d authority outcome reason now db = Inr (Write row rsp eff did flt inp)"
  shows "\<exists>st owner expiry deadline progress.
    flt = lease_filter d st owner expiry progress \<and> rf_parse F expiry = Some deadline \<and>
    inp = terminal_input F fresh authority owner eff reason now \<and>
    eff = effective_outcome outcome row \<and> read_request N d db = Inr row \<and>
    terminal_grounds fresh authority eff now st owner expiry deadline progress"
  using assms unfolding plan_terminal_def Let_def
  by (elim bind_resE, split if_split_asm, simp)
     (elim bind_resE, split if_split_asm, simp, simp, blast intro: authorized_terminal)

lemma plan_never_settles_won:
  "plan_terminal F N fresh d authority outcome reason now db \<noteq> Inr (Settled Won)"
  unfolding plan_terminal_def Let_def
  by (rule notI) (elim bind_resE; simp split: if_splits; elim bind_resE; simp split: if_splits)

section \<open>The writes on the store\<close>

context defra
begin

lemma update_other:
  "nd_update N c flt inp db = (res, db') \<Longrightarrow> c' \<noteq> c \<Longrightarrow> view db' c' = view db c'"
  using update_view by (fastforce simp: updated_def)

lemma create_other:
  "nd_create N c inp db = (res, db') \<Longrightarrow> c' \<noteq> c \<Longrightarrow> view db' c' = view db c'"
  using create_view by (fastforce simp: added_def)

lemma response_mutation_other:
  "run_response_mutation N m db = (res, db') \<Longrightarrow> c \<noteq> ARSP \<Longrightarrow> view db' c = view db c"
  by (cases m) (auto dest: update_other create_other)

lemma write_body_rows:
  assumes "response_write_body F N fence m kind now db = (Inr v, db1)"
  shows "\<exists>flt inp. plan_response_write F N fence kind now db = Inr (flt, inp) \<and>
    view db1 AREQ = updated AREQ flt inp (view db) AREQ \<and>
    (\<exists>d r. view db AREQ d = Some r \<and> row_matches flt d r)"
proof -
  obtain flt inp resp dbm where p: "plan_response_write F N fence kind now db = Inr (flt, inp)"
    and u: "nd_update N AREQ flt inp db = (Inr resp, dbm)" and hit: "update_hit AREQ resp"
    and m: "run_response_mutation N m dbm = (Inr v, db1)"
    using assms
    by (auto simp: response_write_body_def split: sum.splits prod.splits if_splits)
  from response_mutation_other [OF m] update_ok [OF u] p show ?thesis
    using update_hit_iff [OF u] hit by auto
qed

lemma terminal_body_rows:
  assumes "terminalize_body F N fresh d authority outcome reason now db = (Inr Won, db1)"
  shows "\<exists>row rsp eff did flt inp m resp dbm db2.
    plan_terminal F N fresh d authority outcome reason now db = Inr (Write row rsp eff did flt inp) \<and>
    view db1 AREQ = updated AREQ flt inp (view db) AREQ \<and>
    (\<exists>e r. view db AREQ e = Some r \<and> row_matches flt e r) \<and>
    terminal_response_mutation F authority d did reason now row rsp eff = Inr m \<and>
    view dbm ARSP = view db ARSP \<and> run_response_mutation N m dbm = (Inr resp, db2) \<and>
    terminal_response_written (rsp \<noteq> None) resp \<and> view db1 ARSP = view db2 ARSP"
proof -
  obtain row rsp eff did flt inp m resp resp' resp'' dbm db2 ses inp' where
    p: "plan_terminal F N fresh d authority outcome reason now db = Inr (Write row rsp eff did flt inp)"
    and u: "nd_update N AREQ flt inp db = (Inr resp', dbm)" "update_hit AREQ resp'"
    and m: "terminal_response_mutation F authority d did reason now row rsp eff = Inr m"
      "run_response_mutation N m dbm = (Inr resp, db2)" "terminal_response_written (rsp \<noteq> None) resp"
    and c: "nd_update N ''AgentConversation'' ses inp' db2 = (Inr resp'', db1)"
    using assms
    by (auto simp: terminalize_body_def plan_never_settles_won
        split: sum.splits prod.splits if_splits terminal_plan.splits option.splits)
  have "view db1 AREQ = updated AREQ flt inp (view db) AREQ"
    using update_other [OF c, of AREQ] response_mutation_other [OF m(2), of AREQ] update_ok [OF u(1)]
    by simp
  moreover have "view dbm ARSP = view db ARSP" "view db1 ARSP = view db2 ARSP"
    using update_other [OF u(1), of ARSP] update_other [OF c, of ARSP] by simp_all
  ultimately show ?thesis
    using p m update_hit_iff [OF u(1)] u(2) by auto
qed

end

section \<open>Every write is a legal move\<close>

lemma lease_moves_active:
  assumes "req_state r = Some s" and "s \<in> {ReqClaimed, ReqProcessing}"
    and "req_state r' = Some s'" and "s' = s \<or> s' = ReqProcessing" and "same_execution r r'"
  shows "lease_moves r r'"
  using assms unfolding lease_moves_def by blast

lemma req_state_upd [simp]:
  "req_state (r(''lifecycle_state'' \<mapsto> GStr (request_as_str s))) = Some s"
  "f \<noteq> ''lifecycle_state'' \<Longrightarrow> req_state (r(f := x)) = req_state r"
  by (simp_all add: req_state_def str_field_def request_parse_opt_def)

lemma write_moves:
  assumes "write_terms F fence kind now st rsp owner deadline seq inp"
    and "leased r st owner expiry seq"
  shows "lease_moves r (apply_input inp r)"
proof -
  have st: "req_state r = Some st" using assms(2) by (rule leased_req_state)
  have "st \<in> {ReqClaimed, ReqProcessing}"
    using assms(1) by (cases kind) (simp_all add: write_terms_def)
  moreover have "req_state (apply_input inp r) = Some ReqProcessing"
    using assms(1) st by (cases kind) (simp_all add: write_terms_def del: request_as_str.simps)
  moreover have "same_execution r (apply_input inp r)"
    using assms
    by (cases kind)
       (auto simp: write_terms_def same_execution_def leased_def progress_of_def int_field_def)
  ultimately show ?thesis
    using st lease_moves_active by blast
qed

lemma outcome_terminal: "request_is_terminal (outcome_request_state eff)"
  by (cases eff) (simp_all add: request_is_terminal_def)

lemma terminal_input_state:
  "req_state (apply_input (terminal_input F fresh authority owner eff reason now) r) =
     Some (outcome_request_state eff)"
  by (simp add: terminal_input_def del: request_as_str.simps)

lemma terminal_moves:
  assumes "terminal_grounds fresh authority eff now st owner expiry deadline progress"
    and "leased r st owner expiry progress"
  shows "lease_moves r (apply_input (terminal_input F fresh authority owner eff reason now) r)"
  using assms leased_req_state [OF assms(2)] terminal_input_state outcome_terminal
  unfolding lease_moves_def terminal_grounds_def by blast

lemma relinquish_moves:
  assumes "r ''lifecycle_state'' \<in> {Some (GStr (request_as_str ReqClaimed)), Some (GStr (request_as_str ReqProcessing))}"
  shows "lease_moves r (r(''execution_lease_expires_at'' \<mapsto> GStr e))"
proof -
  have "req_state r \<in> {Some ReqClaimed, Some ReqProcessing}"
    using assms by (auto simp del: request_as_str.simps)
  moreover have "req_state (r(''execution_lease_expires_at'' \<mapsto> GStr e)) = req_state r"
    by (simp add: req_state_def str_field_def)
  ultimately show ?thesis
    by (auto simp: lease_moves_def same_execution_def progress_of_def int_field_def)
qed

lemma filtered_update_moves:
  assumes "v' AREQ = updated AREQ flt inp v AREQ"
    and "\<And>d r. v AREQ d = Some r \<Longrightarrow> row_matches flt d r \<Longrightarrow> lease_moves r (apply_input inp r)"
  shows "leases_move v v'"
  using assms by (auto simp: leases_move_def updated_def)

text \<open>One attempt of one operation.\<close>

inductive lease_step :: "rfc3339 \<Rightarrow> 'db node \<Rightarrow> 'db txn \<Rightarrow> 'db \<Rightarrow> 'db \<Rightarrow> bool" for F N T where
  fenced: "txn_attempt T NodeError (\<lambda>_. True) (response_write_body F N fence m kind now) db = (res, db') \<Longrightarrow>
     lease_step F N T db db'"
| ending: "txn_attempt T NodeError (\<lambda>res. res = Won)
       (terminalize_body F N fresh d authority outcome reason now) db = (res, db') \<Longrightarrow>
     lease_step F N T db db'"
| dropped: "lease_step F N T db (drop_owner F N now runtime_available lc db)"

abbreviation lease_steps where
  "lease_steps F N T \<equiv> (lease_step F N T)\<^sup>*\<^sup>*"

context defra_txn
begin

lemma write_body_moves:
  assumes "response_write_body F N fence m kind now db = (Inr v, db1)"
  shows "leases_move (view db) (view db1)"
proof -
  obtain flt inp where p: "plan_response_write F N fence kind now db = Inr (flt, inp)"
    and v: "view db1 AREQ = updated AREQ flt inp (view db) AREQ"
    using write_body_rows [OF assms] by blast
  from plan_write_facts [OF p] show ?thesis
    using filtered_update_moves [where v = "view db" and v' = "view db1", OF v]
      write_moves lease_filter_matches by blast
qed

lemma terminal_body_moves:
  assumes "terminalize_body F N fresh d authority outcome reason now db = (Inr Won, db1)"
  shows "leases_move (view db) (view db1)"
proof -
  obtain row rsp eff did flt inp where
    p: "plan_terminal F N fresh d authority outcome reason now db = Inr (Write row rsp eff did flt inp)"
    and v: "view db1 AREQ = updated AREQ flt inp (view db) AREQ"
    using terminal_body_rows [OF assms] by blast
  from plan_terminal_facts [OF p] show ?thesis
    using filtered_update_moves [where v = "view db" and v' = "view db1", OF v]
      terminal_moves lease_filter_matches by blast
qed

lemma drop_owner_moves: "leases_move (view db) (view (drop_owner F N now rt lc db))"
proof -
  let ?flt = "\<lambda>g. [(''_docID'', Is (GStr (ro_request_doc_id lc))), (''execution_generation'', Is (GStr g)),
    (''lifecycle_state'', OneOf [GStr (request_as_str ReqClaimed), GStr (request_as_str ReqProcessing)])]"
  let ?inp = "[(''execution_lease_expires_at'', GStr (rf_print F (now - 1000000)))]"
  have "leases_move (view db) (view (snd (nd_update N AREQ (?flt g) ?inp db)))" for g
  proof -
    obtain res db' where u: "nd_update N AREQ (?flt g) ?inp db = (res, db')" by force
    have "row_matches (?flt g) d r \<Longrightarrow> lease_moves r (apply_input ?inp r)" for d r
      by (auto simp del: request_as_str.simps intro!: relinquish_moves split: option.splits)
    then have "leases_move (view db) (updated AREQ (?flt g) ?inp (view db))"
      by (intro filtered_update_moves) auto
    with u update_view [OF u] show ?thesis by auto
  qed
  then show ?thesis
    by (auto simp: drop_owner_def relinquish_def split: option.split)
qed

lemma lease_step_moves: "lease_step F N T db db' \<Longrightarrow> leases_move (view db) (view db')"
proof (induction rule: lease_step.induct)
  case (fenced fence m kind now db res db')
  from txn_atomic [OF fenced] show ?case using write_body_moves by fastforce
next
  case (ending fresh d authority outcome reason now db res db')
  from txn_atomic [OF ending] show ?case using terminal_body_moves by fastforce
next
  case (dropped db now runtime_available lc)
  show ?case by (rule drop_owner_moves)
qed

lemma lease_steps_move: "lease_steps F N T db db' \<Longrightarrow> leases_move (view db) (view db')"
  by (induction rule: rtranclp_induct) (auto dest: lease_step_moves leases_move_trans)

lemma lease_steps_terminal:
  assumes "lease_steps F N T db db'" and "view db AREQ d = Some r"
    and "req_state r = Some s" and "request_is_terminal s"
  shows "view db' AREQ d = Some r"
  using lease_steps_move [OF assms(1)] assms(2-4) lease_moves_terminal
  by (fastforce simp: leases_move_def)

end

end
