(* ===== verification/Execution_Lease_Claims.thy ===== *)
theory Execution_Lease_Claims
  imports Execution_Lease_Props
begin

text \<open>
  The guarantees of the execution lease as closed statements, for any store, transaction layer and
  timestamp format that satisfy their laws, with witnesses on the in-memory store.
\<close>

section \<open>From results to the attempt that produced them\<close>

text \<open>What happens while an operation sleeps between attempts is itself a run of lease steps.\<close>

definition quiet :: "rfc3339 \<Rightarrow> 'db node \<Rightarrow> 'db txn \<Rightarrow> (nat \<Rightarrow> 'db \<Rightarrow> 'db) \<Rightarrow> bool" where
  "quiet F N T sleeping \<longleftrightarrow> (\<forall>b x. lease_steps F N T x (sleeping b x))"

lemma write_steps:
  assumes "quiet F N T sleeping"
    and "execute_response_write F N T clock sleeping fence m kind db = (res, db')"
  shows "lease_steps F N T db db' \<and> (\<exists>i db0. i \<le> 3 \<and> lease_steps F N T db db0 \<and>
    txn_attempt T NodeError (\<lambda>_. True) (response_write_body F N fence m kind (clock i)) db0 = (res, db'))"
proof -
  have step: "txn_attempt T NodeError (\<lambda>_. True) (response_write_body F N fence m kind (clock j)) x = (res, y) \<Longrightarrow>
      lease_steps F N T db x \<Longrightarrow> lease_steps F N T db y" for j x res y
    by (rule rtranclp.rtrancl_into_rtrancl) (auto intro: lease_step.fenced)
  have sleep: "lease_steps F N T db x \<Longrightarrow> lease_steps F N T db (sleeping b x)" for b x
    using assms(1) rtranclp_trans unfolding quiet_def by metis
  show ?thesis
    using retry_invariant [OF assms(2) [unfolded execute_response_write_def],
        where P = "lease_steps F N T db", OF rtranclp.rtrancl_refl le0 step sleep]
    by (simp add: terminal_persistence_max_retries_def)
qed

lemma terminal_steps:
  assumes "quiet F N T sleeping"
    and "terminalize_execution F N T clock sleeping fresh d authority outcome reason db = (res, db')"
  shows "lease_steps F N T db db' \<and> (\<exists>i db0. i \<le> 3 \<and> lease_steps F N T db db0 \<and>
    txn_attempt T NodeError (\<lambda>res. res = Won)
      (terminalize_body F N fresh d authority outcome reason (clock i)) db0 = (res, db'))"
proof -
  have step: "txn_attempt T NodeError (\<lambda>res. res = Won)
      (terminalize_body F N fresh d authority outcome reason (clock j)) x = (res, y) \<Longrightarrow>
      lease_steps F N T db x \<Longrightarrow> lease_steps F N T db y" for j x res y
    by (rule rtranclp.rtrancl_into_rtrancl) (auto intro: lease_step.ending)
  have sleep: "lease_steps F N T db x \<Longrightarrow> lease_steps F N T db (sleeping b x)" for b x
    using assms(1) rtranclp_trans unfolding quiet_def by metis
  show ?thesis
    using retry_invariant [OF assms(2) [unfolded terminalize_execution_def],
        where P = "lease_steps F N T db", OF rtranclp.rtrancl_refl le0 step sleep]
    by (simp add: terminal_persistence_max_retries_def)
qed

text \<open>The row a successful write replaced, and what it put there.\<close>

definition write_effect ::
  "rfc3339 \<Rightarrow> execution_write_fence \<Rightarrow> execution_write_kind \<Rightarrow> instant \<Rightarrow> contents \<Rightarrow> contents \<Rightarrow> bool" where
  "write_effect F fence kind now v v' \<longleftrightarrow>
     (\<exists>r st rsp owner expiry deadline seq inp.
        v AREQ (wf_request_doc_id fence) = Some r \<and> leased r st owner expiry seq \<and>
        rf_parse F expiry = Some deadline \<and>
        write_terms F fence kind now st rsp owner deadline seq inp \<and>
        v' AREQ (wf_request_doc_id fence) = Some (apply_input inp r))"

text \<open>A response row of the agent for the request, and the row an ending writes: the request's own
  streaming row, or a new row where the request had none.\<close>

definition response_of :: "doc_id \<Rightarrow> ustring \<Rightarrow> row \<Rightarrow> bool" where
  "response_of d did q \<longleftrightarrow>
     str_field q ''request_doc_id'' = Some d \<and> str_field q ''agent_did'' = Some did"

definition response_ended :: "doc_id \<Rightarrow> ustring \<Rightarrow> ustring \<Rightarrow> contents \<Rightarrow> contents \<Rightarrow> bool" where
  "response_ended d did status v v' \<longleftrightarrow>
     (\<exists>e q. v' ARSP = (v ARSP)(e \<mapsto> q) \<and> response_of d did q \<and> str_field q ''status'' = Some status \<and>
        (case v ARSP e of
           None \<Rightarrow> \<forall>e' q'. v ARSP e' = Some q' \<longrightarrow> \<not> response_of d did q'
         | Some q0 \<Rightarrow> response_of d did q0 \<and>
             (str_field q0 ''status'' = Some (lit ''streaming'') \<or> str_field q0 ''status'' = Some status)))"

definition terminal_effect ::
  "rfc3339 \<Rightarrow> ustring \<Rightarrow> doc_id \<Rightarrow> terminal_authority \<Rightarrow> terminal_outcome \<Rightarrow> ustring \<Rightarrow> instant \<Rightarrow>
   contents \<Rightarrow> contents \<Rightarrow> bool" where
  "terminal_effect F fresh d authority eff reason now v v' \<longleftrightarrow>
     (\<exists>r st owner expiry deadline progress did.
        v AREQ d = Some r \<and> leased r st owner expiry progress \<and> rf_parse F expiry = Some deadline \<and>
        terminal_grounds fresh authority eff now st owner expiry deadline progress \<and>
        v' AREQ = (v AREQ)(d \<mapsto> apply_input (terminal_input F fresh authority owner eff reason now) r) \<and>
        str_field r ''agent_did'' = Some did \<and>
        response_ended d did (outcome_response_status eff) v v')"

lemma updated_at:
  "row_matches flt d r \<Longrightarrow> v c d = Some r \<Longrightarrow> updated c flt inp v c d = Some (apply_input inp r)"
  by (simp add: updated_def)

lemma terminal_update_columns:
  fixes authority eff reason v status F now rsp stamp r
  defines "r' \<equiv> apply_input (recovered_content authority eff reason v @
     [(''status'', GStr status), (''error_message'', GStr reason)] @
     interrupted_field F now eff rsp @ [(''completed_at'', GStr stamp)]) r"
  shows "str_field r' ''status'' = Some status" and "response_of d did r' \<longleftrightarrow> response_of d did r"
  by (simp_all add: r'_def recovered_content_def interrupted_field_def str_field_def response_of_def)

lemma terminal_written_updated:
  "terminal_response_written True (Some (updated_response ARSP ds)) \<longleftrightarrow> ds \<noteq> []"
proof -
  have "strip_prefix (lit ''create_'') (lit ''update_AgentResponse'') = None"
    by (simp add: lit_def)
  then show ?thesis
    by (auto simp: terminal_response_written_def updated_response_def response_has_documents_def
        extract_single_doc_id_def Let_def or_else_def)
qed

lemma terminal_create_columns:
  assumes "terminal_response_mutation F authority d did reason now row None eff = Inr m"
  shows "case m of
      RCreate inp \<Rightarrow> str_field (apply_input inp Map.empty) ''status'' = Some (outcome_response_status eff) \<and>
        response_of d did (apply_input inp Map.empty)
    | RUpdate _ _ \<Rightarrow> False"
  using assms
  by (cases "nonblank (lr_requester_did row)"; cases "eff = OutInterrupted"; cases "lr_session_id row")
     (auto simp: terminal_response_mutation_def Let_def bind_res_Inr interrupted_field_def
      requester_did_create_field_def str_field_def response_of_def ok_or_def)

text \<open>An update whose filter picks one row.\<close>

lemma updated_single:
  assumes "\<And>e' q'. v c e' = Some q' \<Longrightarrow> row_matches flt e' q' \<longleftrightarrow> e' = e" and "v c e = Some q"
  shows "updated c flt inp v c = (v c)(e \<mapsto> apply_input inp q)"
proof (rule ext)
  fix x
  show "updated c flt inp v c x = ((v c)(e \<mapsto> apply_input inp q)) x"
    using assms by (cases "v c x") (auto simp: updated_def)
qed

lemma response_filter_matches:
  "row_matches [(''request_doc_id'', Is (GStr d)), (''agent_did'', Is (GStr did))] e q \<longleftrightarrow> response_of d did q"
  by (auto simp: response_of_def str_field_def split: option.splits gval.splits)

lemma decode_response_Inr:
  "decode_response_row e q = Inr v \<Longrightarrow> rv_doc_id v = e \<and> str_field q ''status'' = Some (rv_status v)"
  by (auto simp: decode_response_row_def split: option.splits)

lemma plan_terminal_response:
  assumes "plan_terminal F N fresh d authority outcome reason now db = Inr (Write row rsp eff did flt inp)"
  shows "lr_agent_did row = Some did \<and>
    first_row N ARSP [(''request_doc_id'', Is (GStr d)), (''agent_did'', Is (GStr did))] decode_response_row db
      = Inr rsp \<and>
    (\<forall>v. rsp = Some v \<longrightarrow> rv_status v = lit ''streaming'' \<or> rv_status v = outcome_response_status eff)"
  using assms unfolding plan_terminal_def Let_def
  by (elim bind_resE, split if_split_asm, simp)
     (elim bind_resE, split if_split_asm, simp, auto split: option.splits)

context defra
begin

lemma first_row_found:
  assumes "first_row N c flt decode db = Inr res"
  shows "case res of
      None \<Rightarrow> \<forall>e q. view db c e = Some q \<longrightarrow> \<not> row_matches flt e q
    | Some x \<Rightarrow> \<exists>e q. view db c e = Some q \<and> row_matches flt e q \<and> decode e q = Inr x"
proof -
  obtain rows where q: "nd_query N c flt db = Inr rows"
    using assms by (auto simp: first_row_def split: sum.splits)
  show ?thesis
  proof (cases rows)
    case Nil
    then show ?thesis using assms query_rows [OF q] by (auto simp: first_row_def q)
  next
    case (Cons x xs)
    obtain e r where x: "x = (e, r)" by force
    have "view db c e = Some r" "row_matches flt e r"
      using query_rows [OF q] unfolding Cons x by auto
    moreover obtain y where "decode e r = Inr y" "res = Some y"
      using assms by (auto simp: first_row_def q Cons x bind_res_Inr)
    ultimately show ?thesis by auto
  qed
qed

lemma read_request_agent:
  assumes "read_request N d db = Inr row"
  shows "\<exists>r. view db AREQ d = Some r \<and> str_field r ''agent_did'' = lr_agent_did row"
proof -
  have "first_row N AREQ [(''_docID'', Is (GStr d))] decode_request_row db = Inr (Some row)"
    using assms by (auto simp: read_request_def bind_res_Inr ok_or_def split: option.splits)
  from first_row_found [OF this] obtain r where "view db AREQ d = Some r" "decode_request_row d r = Inr row"
    by auto
  then show ?thesis
    by (auto simp: decode_request_row_def bind_res_Inr split: option.splits sum.splits)
qed

end

context defra_txn
begin

lemma write_body_effect:
  assumes "response_write_body F N fence m kind now db = (Inr v, db1)"
  shows "write_effect F fence kind now (view db) (view db1)"
proof -
  obtain flt inp d r where p: "plan_response_write F N fence kind now db = Inr (flt, inp)"
    and v: "view db1 AREQ = updated AREQ flt inp (view db) AREQ"
    and hit: "view db AREQ d = Some r" "row_matches flt d r"
    using write_body_rows [OF assms] by blast
  obtain st rsp owner expiry deadline seq where
    f: "flt = lease_filter (wf_request_doc_id fence) st owner expiry seq"
    and rest: "rf_parse F expiry = Some deadline" "write_terms F fence kind now st rsp owner deadline seq inp"
    using plan_write_facts [OF p] by blast
  from hit(2) f have d: "d = wf_request_doc_id fence" and l: "leased r st owner expiry seq"
    by (auto simp: lease_filter_matches)
  have "view db1 AREQ d = Some (apply_input inp r)"
    using v hit by (simp add: updated_def)
  with d l rest hit(1) show ?thesis unfolding write_effect_def by blast
qed

lemma response_mutation_ends:
  assumes "run_response_mutation N m dbm = (Inr resp, db')" and "view dbm ARSP = view db ARSP"
    and "terminal_response_mutation F authority d did reason now row rsp eff = Inr m"
    and "terminal_response_written (rsp \<noteq> None) resp"
    and "first_row N ARSP [(''request_doc_id'', Is (GStr d)), (''agent_did'', Is (GStr did))] decode_response_row db
      = Inr rsp"
    and "\<And>v. rsp = Some v \<Longrightarrow> rv_status v = lit ''streaming'' \<or> rv_status v = outcome_response_status eff"
  shows "response_ended d did (outcome_response_status eff) (view db) (view db')"
proof (cases rsp)
  case None
  obtain inp where m: "m = RCreate inp"
    and s: "str_field (apply_input inp Map.empty) ''status'' = Some (outcome_response_status eff)"
      "response_of d did (apply_input inp Map.empty)"
    using terminal_create_columns [OF assms(3) [unfolded None]] by (cases m) auto
  then obtain e where e: "view dbm ARSP e = None" "view db' = added ARSP e inp (view dbm)"
    using assms(1) create_ok by (metis run_response_mutation.simps(2))
  have none: "\<not> response_of d did q'" if "view db ARSP e' = Some q'" for e' q'
    using first_row_found [OF assms(5)] None that by (simp add: response_filter_matches del: row_matches_simps)
  have "view db' ARSP = (view db ARSP)(e \<mapsto> apply_input inp Map.empty)"
    using e assms(2) by (auto simp: added_def fun_eq_iff)
  then show ?thesis
    unfolding response_ended_def using s none e(1) assms(2) by (intro exI conjI) (assumption | simp)+
next
  case (Some v)
  define flt where "flt = [(''_docID'', Is (GStr (rv_doc_id v))), (''status'', Is (GStr (rv_status v)))]"
  define inp where "inp = recovered_content authority eff reason v @
    [(''status'', GStr (outcome_response_status eff)), (''error_message'', GStr reason)] @
    interrupted_field F now eff rsp @ [(''completed_at'', GStr (rf_print F now))]"
  obtain e q where q: "view db ARSP e = Some q" "response_of d did q" "decode_response_row e q = Inr v"
    using first_row_found [OF assms(5)] Some by (auto simp: response_filter_matches simp del: row_matches_simps)
  have e: "rv_doc_id v = e" "str_field q ''status'' = Some (rv_status v)"
    using decode_response_Inr [OF q(3)] by simp_all
  from Some assms(3) have "m = RUpdate flt inp"
    by (simp add: terminal_response_mutation_def Let_def flt_def inp_def)
  with assms(1) have "nd_update N ARSP flt inp dbm = (Inr resp, db')" by simp
  from update_ok [OF this] have v': "view db' = updated ARSP flt inp (view dbm)" by blast
  have hit: "row_matches flt e' q' \<longleftrightarrow> e' = e" if "view db ARSP e' = Some q'" for e' q'
    using that q(1) e by (auto simp: flt_def str_field_def split: option.splits gval.splits)
  have "view db' ARSP = (view db ARSP)(e \<mapsto> apply_input inp q)"
    unfolding v' assms(2) [symmetric] by (rule updated_single) (use hit q(1) assms(2) in simp_all)
  moreover have "response_of d did (apply_input inp q)"
    "str_field (apply_input inp q) ''status'' = Some (outcome_response_status eff)"
    unfolding inp_def terminal_update_columns using q(2) by simp_all
  moreover have "str_field q ''status'' = Some (lit ''streaming'') \<or>
      str_field q ''status'' = Some (outcome_response_status eff)"
    using e(2) assms(6) [OF Some] by auto
  ultimately show ?thesis
    unfolding response_ended_def using q(1,2) by (intro exI [of _ e] exI [of _ "apply_input inp q"]) simp
qed

lemma terminal_body_effect:
  assumes "terminalize_body F N fresh d authority outcome reason now db = (Inr Won, db1)"
  shows "\<exists>row. read_request N d db = Inr row \<and>
    terminal_effect F fresh d authority (effective_outcome outcome row) reason now (view db) (view db1)"
proof -
  obtain row rsp eff did flt inp m resp dbm db2 e r where
    p: "plan_terminal F N fresh d authority outcome reason now db = Inr (Write row rsp eff did flt inp)"
    and v: "view db1 AREQ = updated AREQ flt inp (view db) AREQ"
    and hit: "view db AREQ e = Some r" "row_matches flt e r"
    and m: "terminal_response_mutation F authority d did reason now row rsp eff = Inr m"
      "run_response_mutation N m dbm = (Inr resp, db2)" "terminal_response_written (rsp \<noteq> None) resp"
      "view db1 ARSP = view db2 ARSP" "view dbm ARSP = view db ARSP"
    using terminal_body_rows [OF assms] by blast
  obtain st owner expiry deadline progress where
    f: "flt = lease_filter d st owner expiry progress" "rf_parse F expiry = Some deadline"
      "inp = terminal_input F fresh authority owner eff reason now"
      "eff = effective_outcome outcome row" "read_request N d db = Inr row"
      "terminal_grounds fresh authority eff now st owner expiry deadline progress"
    using plan_terminal_facts [OF p] by blast
  from hit(2) f(1) have d: "e = d" and l: "leased r st owner expiry progress"
    by (auto simp: lease_filter_matches)
  have single: "row_matches flt e' q \<longleftrightarrow> e' = d" if "view db AREQ e' = Some q" for e' q
    using that hit d by (auto simp: f(1) lease_filter_matches)
  have req: "view db1 AREQ = (view db AREQ)(d \<mapsto> apply_input inp r)"
    unfolding v by (rule updated_single [of "view db" AREQ, OF single]) (use hit(1) d in simp_all)
  have did: "str_field r ''agent_did'' = Some did"
    using read_request_agent [OF f(5)] hit(1) d plan_terminal_response [OF p] by auto
  have "response_ended d did (outcome_response_status eff) (view db) (view db2)"
    using plan_terminal_response [OF p] by (intro response_mutation_ends [OF m(2,5,1,3)]) blast+
  then have "response_ended d did (outcome_response_status eff) (view db) (view db1)"
    using m(4) by (simp add: response_ended_def)
  with hit(1) d l f req did show ?thesis unfolding terminal_effect_def by blast
qed

end

text \<open>Nothing of the kind is possible on a finished request.\<close>

lemma terminal_row_not_leased:
  "leased r st g e n \<Longrightarrow> st \<in> {ReqClaimed, ReqProcessing} \<Longrightarrow> req_state r = Some s \<Longrightarrow> \<not> request_is_terminal s"
  using leased_req_state active_not_terminal by fastforce

lemma terminal_no_effect:
  assumes "v AREQ d = Some r" and "req_state r = Some s" and "request_is_terminal s"
  shows "\<not> terminal_effect F fresh d authority eff reason now v v'"
    and "wf_request_doc_id fence = d \<Longrightarrow> \<not> write_effect F fence kind now v v'"
proof -
  show "\<not> terminal_effect F fresh d authority eff reason now v v'"
    using assms terminal_row_not_leased
    unfolding terminal_effect_def terminal_grounds_def by (metis option.inject)
  have "write_terms F fence kind now st rsp owner deadline seq inp \<Longrightarrow> st \<in> {ReqClaimed, ReqProcessing}"
    for st rsp owner deadline seq inp
    by (cases kind) (simp_all add: write_terms_def)
  then show "wf_request_doc_id fence = d \<Longrightarrow> \<not> write_effect F fence kind now v v'"
    using assms terminal_row_not_leased unfolding write_effect_def by (metis option.inject)
qed

lemma terminal_effect_terminal:
  "terminal_effect F fresh d authority eff reason now v v' \<Longrightarrow>
   \<exists>r s. v' AREQ d = Some r \<and> req_state r = Some s \<and> request_is_terminal s"
  unfolding terminal_effect_def using terminal_input_state outcome_terminal by (metis fun_upd_same)

context defra_txn
begin

lemma write_outcome:
  assumes "quiet F N T sleeping"
    and "execute_response_write F N T clock sleeping fence m kind db = (Inr resp, db')"
  shows "\<exists>i db0. i \<le> 3 \<and> lease_steps F N T db db0 \<and>
    write_effect F fence kind (clock i) (view db0) (view db')"
proof -
  obtain i db0 where i: "i \<le> 3" "lease_steps F N T db db0"
    and a: "txn_attempt T NodeError (\<lambda>_. True) (response_write_body F N fence m kind (clock i)) db0
      = (Inr resp, db')"
    using write_steps [OF assms] by blast
  from txn_result [OF a] obtain db1 where
    "response_write_body F N fence m kind (clock i) db0 = (Inr resp, db1)" "view db' = view db1"
    by auto
  with i write_body_effect show ?thesis by metis
qed

lemma won_outcome:
  assumes "quiet F N T sleeping"
    and "terminalize_execution F N T clock sleeping fresh d authority outcome reason db = (Inr Won, db')"
  shows "\<exists>i db0 eff. lease_steps F N T db db0 \<and>
    terminal_effect F fresh d authority eff reason (clock i) (view db0) (view db')"
proof -
  obtain i db0 where i: "lease_steps F N T db db0"
    and a: "txn_attempt T NodeError (\<lambda>res. res = Won)
      (terminalize_body F N fresh d authority outcome reason (clock i)) db0 = (Inr Won, db')"
    using terminal_steps [OF assms] by blast
  from txn_result [OF a] obtain db1 where
    "terminalize_body F N fresh d authority outcome reason (clock i) db0 = (Inr Won, db1)"
    "view db' = view db1"
    by auto
  with i terminal_body_effect show ?thesis by metis
qed

end

section \<open>Guarantees\<close>

text \<open>C4. A finished request stays as it finished. Whatever owners, recoveries, revocations and
  drops do afterwards, in any order, no column of a terminal request row changes.\<close>

theorem lease_terminal_absorbing:
  assumes "defra_txn N view T" and "lease_steps F N T db db'" and "view db AREQ d = Some r"
    and "req_state r = Some s" and "request_is_terminal s"
  shows "view db' AREQ d = Some r"
  using assms by (rule defra_txn.lease_steps_terminal)

text \<open>An execution keeps its identity. As long as a request is not terminal its execution
  generation is unchanged, its state never goes back and its progress counter never decreases.\<close>

theorem lease_keeps_execution:
  assumes "defra_txn N view T" and "lease_steps F N T db db'" and "view db AREQ d = Some r"
  shows "\<exists>r'. view db' AREQ d = Some r' \<and> (r' = r \<or>
    (\<exists>s s'. req_state r = Some s \<and> req_state r' = Some s' \<and> s \<in> {ReqClaimed, ReqProcessing} \<and>
       (request_is_terminal s' \<or>
        (s' = s \<or> s' = ReqProcessing) \<and>
        r' ''execution_generation'' = r ''execution_generation'' \<and>
        (\<forall>n. progress_of r = Some n \<longrightarrow> (\<exists>n'. progress_of r' = Some n' \<and> n \<le> n')))))"
  using defra_txn.lease_steps_move [OF assms(1,2)] assms(3)
  unfolding leases_move_def lease_moves_def same_execution_def by blast

text \<open>C6. Fencing. A response write succeeds only for the generation that owns the request, before
  its lease has run out, and in the state its kind requires; and then the request row changes
  exactly by that kind's fields. The attempt that succeeded is one of at most four.\<close>

theorem fenced_write_needs_live_owner:
  assumes "defra_txn N view T" and "quiet F N T sleeping"
    and "execute_response_write F N T clock sleeping fence m kind db = (Inr resp, db')"
  shows "\<exists>i db0. i \<le> 3 \<and> lease_steps F N T db db0 \<and>
    write_effect F fence kind (clock i) (view db0) (view db')"
  using assms by (rule defra_txn.write_outcome)

text \<open>A heartbeat extends the lease. A successful progress write leaves a deadline at least
  one millisecond after the previous one and at least a full lease duration away, counts one step
  of progress, and leaves the generation and the state alone.\<close>

theorem heartbeat_extends_lease:
  assumes "write_effect F fence WProgress now v v'" and "\<forall>t. rf_parse F (rf_print F t) = Some t"
  shows "\<exists>r r' e e' t t' n. v AREQ (wf_request_doc_id fence) = Some r \<and>
    v' AREQ (wf_request_doc_id fence) = Some r' \<and>
    str_field r ''execution_lease_expires_at'' = Some e \<and> rf_parse F e = Some t \<and>
    str_field r' ''execution_lease_expires_at'' = Some e' \<and> rf_parse F e' = Some t' \<and>
    t + 1000000 \<le> t' \<and> now + int (wf_lease_duration_secs fence) * 1000000000 \<le> t' \<and>
    progress_of r = Some n \<and> progress_of r' = Some (n + 1) \<and>
    r' ''execution_generation'' = r ''execution_generation'' \<and>
    r' ''lifecycle_state'' = r ''lifecycle_state''"
proof -
  obtain r st rsp owner expiry deadline seq inp where
    r: "v AREQ (wf_request_doc_id fence) = Some r" "leased r st owner expiry seq"
      "rf_parse F expiry = Some deadline"
    and w: "write_terms F fence WProgress now st rsp owner deadline seq inp"
    and r': "v' AREQ (wf_request_doc_id fence) = Some (apply_input inp r)"
    using assms(1) unfolding write_effect_def by blast
  let ?t' = "renewed_deadline (wf_lease_duration_secs fence) now deadline"
  from w have inp: "inp = [(''execution_lease_expires_at'', GStr (rf_print F ?t')),
      (''execution_progress_seq'', GInt (seq + 1))]"
    by (simp add: write_terms_def)
  define r' where "r' = apply_input inp r"
  have new: "str_field r' ''execution_lease_expires_at'' = Some (rf_print F ?t')"
    "progress_of r' = Some (seq + 1)" "r' ''execution_generation'' = r ''execution_generation''"
    "r' ''lifecycle_state'' = r ''lifecycle_state''"
    by (simp_all add: r'_def inp str_field_def progress_of_def int_field_def)
  have old: "str_field r ''execution_lease_expires_at'' = Some expiry" "progress_of r = Some seq"
    using r(2) by (simp_all add: leased_def str_field_def progress_of_def int_field_def)
  show ?thesis
    using r(1,3) r' [folded r'_def] new old assms(2) renewed_deadline_extends(1,2) by blast
qed

text \<open>C5. Request and response end together. After any attempt to finish a request, successful or
  not, either the store is as it was, or both of these happened: the request row, and no other request
  row, carries the terminal state and generation its authority and grounds allow; and one response row
  carries the matching final status. That row is the request's own: it names the request and the
  request's agent, it was the streaming (or already matching) row of the two, or it is new and they had
  none; no other response row changed.\<close>

theorem terminal_published_together:
  assumes "defra_txn N view T"
    and "txn_attempt T NodeError (\<lambda>res. res = Won)
      (terminalize_body F N fresh d authority outcome reason now) db = (res, db')"
  shows "view db' = view db \<and> res \<noteq> Inr Won \<or>
    (\<exists>eff. (eff = outcome \<or> outcome = OutFailed \<and> eff = OutInterrupted) \<and>
       terminal_effect F fresh d authority eff reason now (view db) (view db'))"
proof -
  have eff: "effective_outcome outcome row = outcome \<or>
      outcome = OutFailed \<and> effective_outcome outcome row = OutInterrupted" for row
    by (simp add: effective_outcome_def)
  show ?thesis
  proof (cases "\<exists>db1. terminalize_body F N fresh d authority outcome reason now db = (Inr Won, db1)
      \<and> view db' = view db1")
    case True
    with defra_txn.terminal_body_effect [OF assms(1)] eff show ?thesis by metis
  next
    case False
    have "res \<noteq> Inr Won"
      using defra_txn.txn_result [OF assms(1)] assms(2) False by fastforce
    with defra_txn.txn_atomic [OF assms] False show ?thesis by blast
  qed
qed

text \<open>C8. One terminal outcome. Once a request has been finished, by its owner, by recovery or by
  revocation, nobody finishes it again and no fenced write for it succeeds, whatever happened in
  between.\<close>

theorem terminal_outcome_is_final:
  assumes "defra_txn N view T" and "quiet F N T sleeping"
    and "terminalize_execution F N T clock sleeping fresh d authority outcome reason db = (Inr Won, db1)"
    and "lease_steps F N T db1 db2"
  shows "fst (terminalize_execution F N T clock' sleeping fresh' d authority' outcome' reason' db2) \<noteq> Inr Won \<and>
    (wf_request_doc_id fence = d \<longrightarrow>
       fst (execute_response_write F N T clock' sleeping fence m kind db2) \<noteq> Inr resp)"
proof -
  obtain r s where r: "view db1 AREQ d = Some r" "req_state r = Some s" "request_is_terminal s"
    using defra_txn.won_outcome [OF assms(1-3)] terminal_effect_terminal by blast
  have final: "view x AREQ d = Some r" if "lease_steps F N T db2 x" for x
    using assms(1) rtranclp_trans [OF assms(4) that] r by (rule defra_txn.lease_steps_terminal)
  have none: "\<not> terminal_effect F fresh' d authority' eff reason' now (view x) v'"
    "wf_request_doc_id fence = d \<Longrightarrow> \<not> write_effect F fence kind now (view x) v'"
    if "lease_steps F N T db2 x" for x eff now v'
    using terminal_no_effect [where v = "view x", OF final [OF that] r(2,3)] by blast+
  have "terminalize_execution F N T clock' sleeping fresh' d authority' outcome' reason' db2 \<noteq> (Inr Won, db3)"
    for db3
    using defra_txn.won_outcome [OF assms(1,2)] none(1) by blast
  moreover have "execute_response_write F N T clock' sleeping fence m kind db2 \<noteq> (Inr resp, db3)"
    if "wf_request_doc_id fence = d" for db3
    using defra_txn.write_outcome [OF assms(1,2)] none(2) [OF _ that] by blast
  ultimately show ?thesis by (metis prod.collapse)
qed

section \<open>Witnesses on the in-memory store\<close>

definition demo_rfc :: rfc3339 where
  "demo_rfc = \<lparr>rf_print = \<lambda>t. [if t < 0 then 1 else 0, nat \<bar>t\<bar>],
     rf_parse = \<lambda>s. case s of [g, n] \<Rightarrow> Some (if g = 1 then - int n else int n) | _ \<Rightarrow> None\<rparr>"

definition demo_request :: row where
  "demo_request = [''request_id'' \<mapsto> GStr (lit ''r''), ''agent_did'' \<mapsto> GStr (lit ''a''),
     ''session_id'' \<mapsto> GStr (lit ''s''), ''lifecycle_state'' \<mapsto> GStr (request_as_str ReqProcessing),
     ''execution_generation'' \<mapsto> GStr (lit ''g''),
     ''execution_lease_expires_at'' \<mapsto> GStr (rf_print demo_rfc 9000000),
     ''execution_progress_seq'' \<mapsto> GInt 4]"

definition demo_response :: row where
  "demo_response = [''request_doc_id'' \<mapsto> GStr [120], ''agent_did'' \<mapsto> GStr (lit ''a''),
     ''status'' \<mapsto> GStr (lit ''streaming''), ''content'' \<mapsto> GStr []]"

definition demo_lease_db :: mem_db where
  "demo_lease_db = [((AREQ, [120]), demo_request), ((ARSP, [121]), demo_response)]"

definition demo_fence :: execution_write_fence where
  "demo_fence = \<lparr>wf_request_doc_id = [120], wf_execution_generation = lit ''g'', wf_lease_duration_secs = 60\<rparr>"

definition demo_mutation :: response_mutation where
  "demo_mutation = RUpdate [(''_docID'', Is (GStr [121]))] [(''progress_seq'', GInt 1)]"

lemma demo_rfc_round: "\<forall>t. rf_parse demo_rfc (rf_print demo_rfc t) = Some t"
  by (simp add: demo_rfc_def)

lemma demo_quiet: "quiet F N T (\<lambda>_ x. x)"
  by (simp add: quiet_def)

lemma demo_hits_request: "mem_hits AREQ [(''_docID'', Is (GStr [120]))] demo_lease_db = [([120], demo_request)]"
  by (simp add: mem_hits_def demo_lease_db_def)

lemma demo_hits_response:
  "mem_hits ARSP [(''request_doc_id'', Is (GStr [120]))] demo_lease_db = [([121], demo_response)]"
  "mem_hits ARSP [(''request_doc_id'', Is (GStr [120])), (''agent_did'', Is (GStr (lit ''a'')))] demo_lease_db
     = [([121], demo_response)]"
  by (simp_all add: mem_hits_def demo_lease_db_def demo_response_def)

lemma demo_read:
  "read_request mem_node [120] demo_lease_db =
     Inr \<lparr>lr_doc_id = [120], lr_request_id = lit ''r'', lr_state = Some ReqProcessing,
          lr_generation = Some (lit ''g''), lr_expiry = Some (rf_print demo_rfc 9000000),
          lr_progress = Some 4, lr_agent_did = Some (lit ''a''), lr_requester_did = None,
          lr_behavior_id = None, lr_session_id = Some (lit ''s''), lr_interrupt_requested_at = None\<rparr>"
  by (simp add: read_request_def first_row_def mem_calls Let_def demo_hits_request
      decode_request_row_def demo_request_def str_field_def int_field_def del: request_as_str.simps)

lemma demo_leased: "leased demo_request ReqProcessing (lit ''g'') (rf_print demo_rfc 9000000) 4"
  by (simp add: leased_def demo_request_def)

lemma demo_lease_hits:
  "mem_hits AREQ (lease_filter [120] ReqProcessing (lit ''g'') (rf_print demo_rfc 9000000) 4) demo_lease_db
     = [([120], demo_request)]"
  by (simp add: mem_hits_def demo_lease_db_def lease_filter_matches demo_leased)

lemma demo_plan:
  "plan_response_write demo_rfc mem_node demo_fence WProgress 5000000 demo_lease_db =
     Inr (lease_filter [120] ReqProcessing (lit ''g'') (rf_print demo_rfc 9000000) 4,
       [(''execution_lease_expires_at'', GStr (rf_print demo_rfc 60005000000)),
        (''execution_progress_seq'', GInt 5)])"
  by (simp add: plan_response_write_def demo_fence_def demo_read demo_rfc_round first_row_def
      mem_calls Let_def demo_hits_response decode_response_row_def demo_response_def
      str_field_def observe_def authorize_live_execution_def timestamp_millis_def renewed_deadline_def
      write_input_def)

definition demo_mid :: "eq_filter \<Rightarrow> input \<Rightarrow> mem_db" where
  "demo_mid flt inp = snd (mem_update AREQ flt inp demo_lease_db)"

lemma demo_request_update:
  "mem_update AREQ flt inp demo_lease_db =
     (Inr (Some (updated_response AREQ (map fst (mem_hits AREQ flt demo_lease_db)))), demo_mid flt inp)"
  by (simp add: demo_mid_def mem_update_def)

lemma demo_mid_response:
  "mem_hits ARSP [(''_docID'', Is (GStr [121]))] (demo_mid flt inp) = [([121], demo_response)]"
  "mem_hits ARSP [(''_docID'', Is (GStr [121])), (''status'', Is (GStr (lit ''streaming'')))]
     (demo_mid flt inp) = [([121], demo_response)]"
  by (simp_all add: demo_mid_def mem_hits_def demo_lease_db_def mem_update_def demo_response_def)

lemma mem_retry:
  assumes "body 0 db = (Inr v, db1)" and "commits v"
  shows "retry_terminal_persistence_operation k b (\<lambda>i. txn_attempt mem_txn err commits (body i)) sleeping 0 db
    = (Inr v, db1)"
  using assms by (subst retry_terminal_persistence_operation.simps) (simp add: txn_attempt_def mem_txn_def)

lemma demo_write:
  "\<exists>resp db'. execute_response_write demo_rfc mem_node mem_txn (\<lambda>_. 5000000) (\<lambda>_ x. x) demo_fence
     demo_mutation WProgress demo_lease_db = (Inr resp, db')"
proof -
  have "response_written (Some (updated_response ARSP [[121]]))"
    by (simp add: response_written_def updated_response_def response_has_documents_def)
  then obtain resp db' where "response_write_body demo_rfc mem_node demo_fence demo_mutation WProgress
      5000000 demo_lease_db = (Inr resp, db')"
    by (simp add: response_write_body_def demo_plan mem_calls demo_request_update demo_lease_hits
        demo_mutation_def mem_update_def [of ARSP] demo_mid_response)
  from mem_retry [where body = "\<lambda>_. response_write_body demo_rfc mem_node demo_fence demo_mutation
      WProgress 5000000" and commits = "\<lambda>_. True", OF this]
  show ?thesis unfolding execute_response_write_def by blast
qed

lemma demo_terminal_plan:
  "plan_terminal demo_rfc mem_node (lit ''h'') [120] (Owner (lit ''g'')) OutFailed (lit ''why'') 5000000
     demo_lease_db =
     Inr (Write (\<lparr>lr_doc_id = [120], lr_request_id = lit ''r'', lr_state = Some ReqProcessing,
          lr_generation = Some (lit ''g''), lr_expiry = Some (rf_print demo_rfc 9000000),
          lr_progress = Some 4, lr_agent_did = Some (lit ''a''), lr_requester_did = None,
          lr_behavior_id = None, lr_session_id = Some (lit ''s''), lr_interrupt_requested_at = None\<rparr>)
       (Some \<lparr>rv_doc_id = [121], rv_status = lit ''streaming'', rv_content = [], rv_interrupted_at = None\<rparr>)
       OutFailed (lit ''a'') (lease_filter [120] ReqProcessing (lit ''g'') (rf_print demo_rfc 9000000) 4)
       (terminal_input demo_rfc (lit ''h'') (Owner (lit ''g'')) (lit ''g'') OutFailed (lit ''why'') 5000000))"
  by (simp add: plan_terminal_def demo_read demo_rfc_round first_row_def mem_calls Let_def
      demo_hits_response decode_response_row_def demo_response_def str_field_def observe_def
      authorize_terminal_def authorize_live_execution_def timestamp_millis_def
      effective_outcome_def request_is_terminal_def)

lemma demo_terminal_body:
  "\<exists>db'. terminalize_body demo_rfc mem_node (lit ''h'') [120] (Owner (lit ''g'')) OutFailed (lit ''why'')
     5000000 demo_lease_db = (Inr Won, db')"
  by (simp add: terminalize_body_def demo_terminal_plan mem_calls demo_request_update demo_lease_hits
      terminal_response_mutation_def mem_update_def [of ARSP] mem_update_def [of "''AgentConversation''"]
      demo_mid_response terminal_written_updated)

lemma demo_terminal:
  "\<exists>db'. terminalize_execution demo_rfc mem_node mem_txn (\<lambda>_. 5000000) (\<lambda>_ x. x) (lit ''h'') [120]
     (Owner (lit ''g'')) OutFailed (lit ''why'') demo_lease_db = (Inr Won, db')"
proof -
  obtain db' where "terminalize_body demo_rfc mem_node (lit ''h'') [120] (Owner (lit ''g'')) OutFailed
      (lit ''why'') 5000000 demo_lease_db = (Inr Won, db')"
    using demo_terminal_body by blast
  from mem_retry [where body = "\<lambda>_. terminalize_body demo_rfc mem_node (lit ''h'') [120]
      (Owner (lit ''g'')) OutFailed (lit ''why'') 5000000" and commits = "\<lambda>res. res = Won", OF this]
  show ?thesis unfolding terminalize_execution_def by blast
qed

definition demo_owner :: request_owner where
  "demo_owner = \<lparr>ro_request_doc_id = [120], ro_failure_reason = None, ro_response_doc_id = None,
     ro_progress_seq = 0, ro_state = LStreaming, ro_generation = Some (lit ''g''), ro_lease_duration_secs = 60\<rparr>"

definition demo_failed :: row where
  "demo_failed = demo_request(''lifecycle_state'' \<mapsto> GStr (request_as_str ReqFailed))"

theorem lease_terminal_absorbing_witness:
  "mem_view (drop_owner demo_rfc mem_node 5 True demo_owner [((AREQ, [120]), demo_failed)]) AREQ [120]
     = Some demo_failed"
proof (rule lease_terminal_absorbing [OF mem_tx.defra_txn_axioms])
  show "lease_steps demo_rfc mem_node mem_txn [((AREQ, [120]), demo_failed)]
      (drop_owner demo_rfc mem_node 5 True demo_owner [((AREQ, [120]), demo_failed)])"
    by (rule r_into_rtranclp, rule lease_step.dropped)
  show "mem_view [((AREQ, [120]), demo_failed)] AREQ [120] = Some demo_failed"
    by (simp add: mem_view_def)
  show "req_state demo_failed = Some ReqFailed"
    by (simp add: demo_failed_def del: request_as_str.simps)
  show "request_is_terminal ReqFailed"
    by (simp add: request_is_terminal_def)
qed

theorem lease_keeps_execution_witness:
  "\<exists>db' r'. lease_steps demo_rfc mem_node mem_txn demo_lease_db db' \<and> mem_view db' AREQ [120] = Some r'"
proof -
  obtain resp db' where w: "execute_response_write demo_rfc mem_node mem_txn (\<lambda>_. 5000000) (\<lambda>_ x. x)
      demo_fence demo_mutation WProgress demo_lease_db = (Inr resp, db')"
    using demo_write by blast
  have steps: "lease_steps demo_rfc mem_node mem_txn demo_lease_db db'"
    by (rule write_steps [OF demo_quiet w, THEN conjunct1])
  have "mem_view demo_lease_db AREQ [120] = Some demo_request"
    by (simp add: mem_view_def demo_lease_db_def)
  from lease_keeps_execution [OF mem_tx.defra_txn_axioms, OF steps this] obtain r' where
    "mem_view db' AREQ [120] = Some r'"
    by (elim exE conjE) (rule that)
  with steps show ?thesis by blast
qed

theorem fenced_write_needs_live_owner_witness:
  "\<exists>db0 db'. write_effect demo_rfc demo_fence WProgress 5000000 (mem_view db0) (mem_view db')"
proof -
  obtain resp db' where w: "execute_response_write demo_rfc mem_node mem_txn (\<lambda>_. 5000000) (\<lambda>_ x. x)
      demo_fence demo_mutation WProgress demo_lease_db = (Inr resp, db')"
    using demo_write by blast
  from fenced_write_needs_live_owner [OF mem_tx.defra_txn_axioms demo_quiet w] show ?thesis by blast
qed

lemma demo_effect: "\<exists>v v'. write_effect demo_rfc demo_fence WProgress 5000000 v v'"
proof -
  obtain resp db' where w: "execute_response_write demo_rfc mem_node mem_txn (\<lambda>_. 5000000) (\<lambda>_ x. x)
      demo_fence demo_mutation WProgress demo_lease_db = (Inr resp, db')"
    using demo_write by blast
  from mem_tx.write_outcome [OF demo_quiet w] show ?thesis by blast
qed

theorem heartbeat_extends_lease_witness:
  "\<exists>v v' r r' n. write_effect demo_rfc demo_fence WProgress 5000000 v v' \<and>
     v AREQ [120] = Some r \<and> v' AREQ [120] = Some r' \<and> progress_of r = Some n \<and> progress_of r' = Some (n + 1)"
proof -
  obtain v v' where e: "write_effect demo_rfc demo_fence WProgress 5000000 v v'"
    using demo_effect by blast
  have "wf_request_doc_id demo_fence = [120]" by (simp add: demo_fence_def)
  with e heartbeat_extends_lease [OF e demo_rfc_round] show ?thesis by metis
qed

theorem terminal_published_together_witness:
  "\<exists>db' eff. terminal_effect demo_rfc (lit ''h'') [120] (Owner (lit ''g'')) eff (lit ''why'') 5000000
     (mem_view demo_lease_db) (mem_view db')"
proof -
  obtain db1 where b: "terminalize_body demo_rfc mem_node (lit ''h'') [120] (Owner (lit ''g'')) OutFailed
      (lit ''why'') 5000000 demo_lease_db = (Inr Won, db1)"
    using demo_terminal_body by blast
  have a: "txn_attempt mem_txn NodeError (\<lambda>res. res = Won) (terminalize_body demo_rfc mem_node (lit ''h'')
      [120] (Owner (lit ''g'')) OutFailed (lit ''why'') 5000000) demo_lease_db = (Inr Won, db1)"
    by (simp add: txn_attempt_def mem_txn_def b)
  from terminal_published_together [OF mem_tx.defra_txn_axioms a] show ?thesis by blast
qed

theorem terminal_outcome_is_final_witness:
  "\<exists>db'. terminalize_execution demo_rfc mem_node mem_txn (\<lambda>_. 5000000) (\<lambda>_ x. x) (lit ''h'')
      [120] (Owner (lit ''g'')) OutFailed (lit ''why'') demo_lease_db = (Inr Won, db') \<and>
     fst (terminalize_execution demo_rfc mem_node mem_txn (\<lambda>_. 5000000) (\<lambda>_ x. x) (lit ''i'')
      [120] (Owner (lit ''g'')) OutCompleted [] db') \<noteq> Inr Won"
proof -
  obtain db' where t: "terminalize_execution demo_rfc mem_node mem_txn (\<lambda>_. 5000000) (\<lambda>_ x. x) (lit ''h'')
      [120] (Owner (lit ''g'')) OutFailed (lit ''why'') demo_lease_db = (Inr Won, db')"
    using demo_terminal by blast
  from terminal_outcome_is_final [OF mem_tx.defra_txn_axioms demo_quiet t rtranclp.rtrancl_refl] t
  show ?thesis by blast
qed
end
