(* ===== verification/Completion_Retry.thy ===== *)
theory Completion_Retry
  imports Request_State
begin

text \<open>
  Retrying completions: \<^verbatim>\<open>gents/src/error.rs\<close> (the inference errors, their text and the
  classification of provider errors), \<^verbatim>\<open>gents/src/agent/completion_retry.rs\<close> (policy, ledger and the
  two decisions) and the backoff of \<^verbatim>\<open>gents/src/retry.rs\<close>. Durations are whole milliseconds, the only
  unit the sources build them from. \<^verbatim>\<open>rng.random_range(0..=n)\<close> is the argument \<open>random_range\<close> applied
  to \<open>n\<close>. Provider errors of the completion library carry the text they display.
\<close>

section \<open>Inference errors\<close>

datatype inference_error =
    ModelUnreachable ustring
  | TransientFailure ustring
  | PermanentFailure ustring
  | InferenceTimeout nat
  | RateLimited nat
  | ContextLengthExceeded ustring
  | RetriesExhausted nat ustring

fun inference_error_text :: "inference_error \<Rightarrow> ustring" where
  "inference_error_text (ModelUnreachable endpoint) = lit ''model unreachable at '' @ endpoint"
| "inference_error_text (TransientFailure reason) = lit ''transient inference failure: '' @ reason"
| "inference_error_text (PermanentFailure reason) = lit ''permanent inference failure: '' @ reason"
| "inference_error_text (InferenceTimeout secs) =
     lit ''inference timed out after '' @ dec_of_nat secs @ lit ''s''"
| "inference_error_text (RateLimited secs) =
     lit ''rate limited, retry after '' @ dec_of_nat secs @ lit ''s''"
| "inference_error_text (ContextLengthExceeded reason) = lit ''context length exceeded: '' @ reason"
| "inference_error_text (RetriesExhausted n e) =
     lit ''retries exhausted ('' @ dec_of_nat n @ lit '' attempts): '' @ e"

definition is_retryable :: "inference_error \<Rightarrow> bool" where
  "is_retryable e =
     (case e of
        ModelUnreachable _ \<Rightarrow> True
      | TransientFailure _ \<Rightarrow> True
      | InferenceTimeout _ \<Rightarrow> True
      | RateLimited _ \<Rightarrow> True
      | _ \<Rightarrow> False)"

definition error_message_has_status :: "ustring \<Rightarrow> nat \<Rightarrow> bool" where
  "error_message_has_status message status \<longleftrightarrow>
     (let n = dec_of_nat status in
      str_contains message (lit ''InvalidStatusCodeWithMessage('' @ n) \<or>
      str_contains message (lit ''Invalid status code '' @ n) \<or>
      str_contains message (lit ''Invalid status code: '' @ n) \<or>
      str_contains message (lit ''status code '' @ n) \<or>
      str_contains message (lit ''HTTP status '' @ n))"

definition provider_message_has_any_status :: "ustring \<Rightarrow> nat list \<Rightarrow> bool" where
  "provider_message_has_any_status message statuses =
     list_ex (error_message_has_status message) statuses"

definition provider_message_is_tool_call_json_parse_failure :: "ustring \<Rightarrow> bool" where
  "provider_message_is_tool_call_json_parse_failure message \<longleftrightarrow>
     str_contains message (lit ''BadRequestError'') \<and> str_contains message (lit '' line '') \<and>
     str_contains message (lit '' column '') \<and> str_contains message (lit ''(char '')"

definition provider_message_is_transport_failure :: "ustring \<Rightarrow> bool" where
  "provider_message_is_transport_failure message_lower =
     list_ex (str_contains message_lower)
       (map lit [''error sending request'', ''connection refused'', ''connection reset'',
          ''connection closed'', ''connection aborted'', ''operation timed out'',
          ''request timed out'', ''timed out'', ''timeout'', ''deadline has elapsed'',
          ''temporary failure in name resolution'', ''dns error''])"

text \<open>The errors of the completion library, each with the text it displays.\<close>

datatype completion_error =
    HttpError ustring
  | ProviderError ustring ustring
  | JsonError ustring
  | UrlError ustring
  | OtherCompletionError ustring

datatype streaming_error =
    StreamCompletion completion_error ustring
  | StreamTool ustring
  | StreamPrompt ustring

fun streaming_error_text :: "streaming_error \<Rightarrow> ustring" where
  "streaming_error_text (StreamCompletion _ msg) = msg"
| "streaming_error_text (StreamTool msg) = msg"
| "streaming_error_text (StreamPrompt msg) = msg"

definition classify_http :: "ustring \<Rightarrow> inference_error" where
  "classify_http reason =
     (if error_message_has_status reason 429 then RateLimited 60
      else if error_message_has_status reason 400 \<or> error_message_has_status reason 401 \<or>
              error_message_has_status reason 403 \<or> error_message_has_status reason 404 \<or>
              error_message_has_status reason 422
      then PermanentFailure reason
      else TransientFailure reason)"

definition classify_provider :: "ustring \<Rightarrow> ustring \<Rightarrow> inference_error" where
  "classify_provider provider_msg reason =
     (let lower = to_ascii_lowercase provider_msg in
      if str_contains lower (lit ''rate_limit'') \<or> str_contains lower (lit ''rate limit'') \<or>
         error_message_has_status provider_msg 429
      then RateLimited 60
      else if provider_message_is_tool_call_json_parse_failure provider_msg then TransientFailure reason
      else if provider_message_has_any_status provider_msg [400, 401, 403, 404, 422]
      then PermanentFailure reason
      else if str_contains lower (lit ''invalid_api_key'') \<or> str_contains lower (lit ''invalid api key'') \<or>
              str_contains lower (lit ''authentication'') \<or> str_contains lower (lit ''unauthorized'')
      then PermanentFailure reason
      else if str_contains lower (lit ''invalid_request'') \<or> str_contains lower (lit ''invalid request'')
      then PermanentFailure reason
      else if provider_message_has_any_status provider_msg [408, 500, 502, 503, 504] \<or>
              provider_message_is_transport_failure lower \<or> str_contains lower (lit ''overloaded'') \<or>
              str_contains lower (lit ''temporarily unavailable'')
      then TransientFailure reason
      else TransientFailure reason)"

definition classify_completion_error :: "streaming_error \<Rightarrow> inference_error" where
  "classify_completion_error error =
     (let msg = streaming_error_text error in
      if str_contains msg (lit ''context_length_exceeded'') \<or>
         str_contains msg (lit ''maximum context length'')
      then ContextLengthExceeded msg
      else case error of
          StreamCompletion (HttpError reason) _ \<Rightarrow> classify_http reason
        | StreamCompletion (ProviderError provider_msg reason) _ \<Rightarrow> classify_provider provider_msg reason
        | StreamCompletion (JsonError reason) _ \<Rightarrow> PermanentFailure reason
        | StreamCompletion (UrlError reason) _ \<Rightarrow> PermanentFailure reason
        | StreamCompletion (OtherCompletionError reason) _ \<Rightarrow> TransientFailure reason
        | StreamTool _ \<Rightarrow> PermanentFailure msg
        | StreamPrompt _ \<Rightarrow> PermanentFailure msg)"

definition is_retryable_streaming_error :: "streaming_error \<Rightarrow> bool" where
  "is_retryable_streaming_error error = is_retryable (classify_completion_error error)"

section \<open>Backoff with jitter\<close>

text \<open>\<^verbatim>\<open>as i64\<close> and the wrapping addition on it.\<close>

definition wrap_i64 :: "int \<Rightarrow> int" where
  "wrap_i64 x = (x + 2 ^ 63) mod 2 ^ 64 - 2 ^ 63"

definition jittered :: "(nat \<Rightarrow> nat) \<Rightarrow> nat \<Rightarrow> nat" where
  "jittered random_range base_ms =
     (let jitter_range = base_ms div 4;
          delta = (if 0 < jitter_range
                   then wrap_i64 (int (random_range (jitter_range * 2))) - int jitter_range else 0)
      in nat (max (wrap_i64 (wrap_i64 (int base_ms) + delta)) 100))"

definition jitter :: "(nat \<Rightarrow> nat) \<Rightarrow> nat \<Rightarrow> nat" where
  "jitter random_range base_delay = jittered random_range (min base_delay (2 ^ 64 - 1))"

record retry_policy =
  rp_max_retries :: nat
  rp_base_delay_ms :: nat
  rp_max_delay_ms :: nat

definition default_retry_policy :: retry_policy where
  "default_retry_policy = \<lparr>rp_max_retries = 3, rp_base_delay_ms = 1000, rp_max_delay_ms = 30000\<rparr>"

definition delay_for_attempt :: "(nat \<Rightarrow> nat) \<Rightarrow> retry_policy \<Rightarrow> nat \<Rightarrow> nat" where
  "delay_for_attempt random_range p attempt =
     (let exponential = min (rp_base_delay_ms p * 2 ^ min attempt 10) (2 ^ 64 - 1);
          capped = min exponential (rp_max_delay_ms p)
      in jittered random_range capped)"

definition has_retries :: "retry_policy \<Rightarrow> bool" where
  "has_retries p \<longleftrightarrow> 0 < rp_max_retries p"

definition retries_exhausted :: "retry_policy \<Rightarrow> inference_error \<Rightarrow> inference_error" where
  "retries_exhausted p last_error = RetriesExhausted (rp_max_retries p) (inference_error_text last_error)"

section \<open>Policy\<close>

record retry_profile_fields =
  pf_max_transport :: "int option"
  pf_backoff_ms :: "int list option"
  pf_max_resample :: "int option"
  pf_allow_repair :: "bool option"
  pf_interactive_max :: "int option"

datatype retry_failure_class = TransportFailure | ParseBadRequest | PermanentClass

definition failure_class_of :: "inference_error \<Rightarrow> ustring \<Rightarrow> retry_failure_class" where
  "failure_class_of error error_text =
     (if provider_message_is_tool_call_json_parse_failure error_text \<or>
         provider_message_is_tool_call_json_parse_failure (inference_error_text error)
      then ParseBadRequest
      else case error of
          ModelUnreachable _ \<Rightarrow> TransportFailure
        | TransientFailure _ \<Rightarrow> TransportFailure
        | InferenceTimeout _ \<Rightarrow> TransportFailure
        | RateLimited _ \<Rightarrow> TransportFailure
        | PermanentFailure _ \<Rightarrow> PermanentClass
        | ContextLengthExceeded _ \<Rightarrow> PermanentClass
        | RetriesExhausted _ _ \<Rightarrow> PermanentClass)"

record completion_retry_policy =
  cp_transport_backoff :: "nat list"
  cp_max_resample :: nat
  cp_allow_repair :: bool

definition scheduled_default :: completion_retry_policy where
  "scheduled_default =
     \<lparr>cp_transport_backoff = [5000, 30000, 120000], cp_max_resample = 1, cp_allow_repair = True\<rparr>"

definition interactive_default :: completion_retry_policy where
  "interactive_default =
     \<lparr>cp_transport_backoff = [2000], cp_max_resample = 0, cp_allow_repair = True\<rparr>"

definition default_for_origin :: "execution_origin \<Rightarrow> completion_retry_policy" where
  "default_for_origin origin =
     (case origin of Interactive \<Rightarrow> interactive_default | Scheduled \<Rightarrow> scheduled_default)"

definition no_retry :: completion_retry_policy where
  "no_retry = \<lparr>cp_transport_backoff = [], cp_max_resample = 0, cp_allow_repair = False\<rparr>"

definition internal_immediate :: completion_retry_policy where
  "internal_immediate =
     \<lparr>cp_transport_backoff = [0, 1000, 2000], cp_max_resample = 0, cp_allow_repair = False\<rparr>"

definition backoff_from_profile :: "int list \<Rightarrow> nat list option" where
  "backoff_from_profile values =
     (if values = [] then None
      else
        let backoff = filter (\<lambda>v. 0 < v) (map nat (filter (\<lambda>v. 0 \<le> v) values))
        in if backoff = [] then None else Some backoff)"

definition resize_backoff :: "nat list \<Rightarrow> nat \<Rightarrow> nat list" where
  "resize_backoff backoff target_len =
     (if target_len = 0 then []
      else
        let b = (if backoff = [] then [1000] else backoff)
        in if target_len < length b then take target_len b
           else b @ replicate (target_len - length b) (last b))"

definition nonnegative_usize :: "int \<Rightarrow> nat option" where
  "nonnegative_usize v = (if 0 \<le> v then Some (nat v) else None)"

definition nonnegative_u32 :: "int \<Rightarrow> nat option" where
  "nonnegative_u32 v = (if 0 \<le> v \<and> v < 2 ^ 32 then Some (nat v) else None)"

definition resolve_policy ::
  "retry_profile_fields \<Rightarrow> execution_origin \<Rightarrow> completion_retry_policy" where
  "resolve_policy pf origin =
     (let default = default_for_origin origin;
          backoff = (case Option.bind (pf_backoff_ms pf) backoff_from_profile of
              None \<Rightarrow> cp_transport_backoff default | Some b \<Rightarrow> b);
          max_transport = (case origin of
              Interactive \<Rightarrow>
                Option.bind (or_else (pf_interactive_max pf) (pf_max_transport pf)) nonnegative_usize
            | Scheduled \<Rightarrow> Option.bind (pf_max_transport pf) nonnegative_usize)
      in \<lparr>cp_transport_backoff =
             (case max_transport of None \<Rightarrow> backoff | Some n \<Rightarrow> resize_backoff backoff n),
          cp_max_resample =
             (case Option.bind (pf_max_resample pf) nonnegative_u32 of
                None \<Rightarrow> cp_max_resample default | Some n \<Rightarrow> n),
          cp_allow_repair =
             (case pf_allow_repair pf of None \<Rightarrow> cp_allow_repair default | Some b \<Rightarrow> b)\<rparr>)"

section \<open>The ledger and its decisions\<close>

datatype retry_kind = KTransport | KResample

datatype fail_reason =
    PermanentReason inference_error
  | TransportExhausted nat
  | PastDeadline nat
  | ParseUnresolved

datatype pre_stream_directive = RetryAfter nat retry_kind | Repair | PreFail fail_reason

datatype mid_stream_directive = RetractAndResample nat | CloseAndContinue nat | MidFail fail_reason

record retry_ledger =
  rl_policy :: completion_retry_policy
  rl_transport_used :: nat
  rl_resample_used :: nat
  rl_repair_used :: bool
  rl_last_parse_error :: "ustring option"

definition ledger_new :: "completion_retry_policy \<Rightarrow> retry_ledger" where
  "ledger_new p =
     \<lparr>rl_policy = p, rl_transport_used = 0, rl_resample_used = 0, rl_repair_used = False,
      rl_last_parse_error = None\<rparr>"

definition retry_count :: "retry_ledger \<Rightarrow> nat" where
  "retry_count l = rl_transport_used l + rl_resample_used l"

definition mark_repair_used :: "retry_ledger \<Rightarrow> retry_ledger" where
  "mark_repair_used l = l\<lparr>rl_repair_used := True\<rparr>"

definition ladder_delay :: "nat list \<Rightarrow> nat \<Rightarrow> nat option" where
  "ladder_delay backoff used = (if used < length backoff then Some (backoff ! used) else None)"

definition resample_delay :: "nat list \<Rightarrow> nat \<Rightarrow> nat option" where
  "resample_delay backoff used =
     (if used < length backoff then Some (backoff ! used)
      else if backoff = [] then None else Some (last backoff))"

definition exceeds_deadline :: "instant \<Rightarrow> nat \<Rightarrow> instant option \<Rightarrow> bool" where
  "exceeds_deadline now delay deadline =
     (case deadline of
        None \<Rightarrow> False
      | Some d \<Rightarrow> d < now + min (int delay) (2 ^ 63 - 1) * 1000000)"

definition on_pre_stream_failure ::
  "(nat \<Rightarrow> nat) \<Rightarrow> inference_error \<Rightarrow> ustring \<Rightarrow> instant \<Rightarrow> instant option \<Rightarrow> retry_ledger \<Rightarrow>
   pre_stream_directive \<times> retry_ledger" where
  "on_pre_stream_failure rnd error error_text now deadline l =
     (case failure_class_of error error_text of
        PermanentClass \<Rightarrow> (PreFail (PermanentReason error), l)
      | TransportFailure \<Rightarrow>
          (case ladder_delay (cp_transport_backoff (rl_policy l)) (rl_transport_used l) of
             None \<Rightarrow> (PreFail (TransportExhausted (rl_transport_used l)), l)
           | Some base \<Rightarrow>
               let base_delay = (case error of RateLimited secs \<Rightarrow> max base (secs * 1000) | _ \<Rightarrow> base);
                   delay = jitter rnd base_delay
               in if exceeds_deadline now delay deadline then (PreFail (PastDeadline delay), l)
                  else (RetryAfter delay KTransport,
                        l\<lparr>rl_transport_used := rl_transport_used l + 1\<rparr>))
      | ParseBadRequest \<Rightarrow>
          let is_fresh = rl_last_parse_error l \<noteq> Some error_text;
              budget_spent = cp_max_resample (rl_policy l) \<le> rl_resample_used l;
              pacing = resample_delay (cp_transport_backoff (rl_policy l)) (rl_resample_used l)
          in case pacing of
               Some base \<Rightarrow>
                 if is_fresh \<and> \<not> budget_spent
                 then let delay = jitter rnd base
                      in if exceeds_deadline now delay deadline then (PreFail (PastDeadline delay), l)
                         else (RetryAfter delay KResample,
                               l\<lparr>rl_resample_used := rl_resample_used l + 1,
                                 rl_last_parse_error := Some error_text\<rparr>)
                 else if cp_allow_repair (rl_policy l) \<and> \<not> rl_repair_used l
                 then (Repair, l\<lparr>rl_last_parse_error := Some error_text\<rparr>)
                 else (PreFail ParseUnresolved, l)
             | None \<Rightarrow>
                 if cp_allow_repair (rl_policy l) \<and> \<not> rl_repair_used l
                 then (Repair, l\<lparr>rl_last_parse_error := Some error_text\<rparr>)
                 else (PreFail ParseUnresolved, l))"

definition on_mid_stream_failure ::
  "(nat \<Rightarrow> nat) \<Rightarrow> bool \<Rightarrow> instant \<Rightarrow> instant option \<Rightarrow> retry_ledger \<Rightarrow>
   mid_stream_directive \<times> retry_ledger" where
  "on_mid_stream_failure rnd effects_this_turn now deadline l =
     (case ladder_delay (cp_transport_backoff (rl_policy l)) (rl_transport_used l) of
        None \<Rightarrow> (MidFail (TransportExhausted (rl_transport_used l)), l)
      | Some base \<Rightarrow>
          let delay = jitter rnd base
          in if exceeds_deadline now delay deadline then (MidFail (PastDeadline delay), l)
             else (if effects_this_turn then CloseAndContinue delay else RetractAndResample delay,
                   l\<lparr>rl_transport_used := rl_transport_used l + 1\<rparr>))"

section \<open>The loop around the decisions\<close>

text \<open>How \<^verbatim>\<open>agent/loop_stream.rs\<close> uses them: a failure before the stream or in it asks the ledger; a
  retry sleeps, a repair is marked used, a failure ends the loop.\<close>

datatype attempt_failure =
    BeforeStream inference_error ustring instant
  | InStream bool instant

definition pre_stream_step ::
  "(nat \<Rightarrow> nat) \<Rightarrow> instant option \<Rightarrow> inference_error \<Rightarrow> ustring \<Rightarrow> instant \<Rightarrow> retry_ledger \<Rightarrow>
   nat option \<times> retry_ledger" where
  "pre_stream_step rnd deadline error error_text now l =
     (case on_pre_stream_failure rnd error error_text now deadline l of
        (RetryAfter delay _, l') \<Rightarrow> (Some delay, l')
      | (Repair, l') \<Rightarrow> (Some 0, mark_repair_used l')
      | (PreFail _, l') \<Rightarrow> (None, l'))"

definition mid_stream_step ::
  "(nat \<Rightarrow> nat) \<Rightarrow> instant option \<Rightarrow> bool \<Rightarrow> instant \<Rightarrow> retry_ledger \<Rightarrow> nat option \<times> retry_ledger" where
  "mid_stream_step rnd deadline effects now l =
     (case on_mid_stream_failure rnd effects now deadline l of
        (RetractAndResample delay, l') \<Rightarrow> (Some delay, l')
      | (CloseAndContinue delay, l') \<Rightarrow> (Some delay, l')
      | (MidFail _, l') \<Rightarrow> (None, l'))"

fun retry_step ::
  "(nat \<Rightarrow> nat) \<Rightarrow> instant option \<Rightarrow> attempt_failure \<Rightarrow> retry_ledger \<Rightarrow> nat option \<times> retry_ledger" where
  "retry_step rnd deadline (BeforeStream error error_text now) l =
     pre_stream_step rnd deadline error error_text now l"
| "retry_step rnd deadline (InStream effects now) l = mid_stream_step rnd deadline effects now l"

fun delays_until_failure ::
  "(nat \<Rightarrow> nat \<Rightarrow> nat) \<Rightarrow> instant option \<Rightarrow> attempt_failure list \<Rightarrow> retry_ledger \<Rightarrow> nat list" where
  "delays_until_failure rnd deadline [] l = []"
| "delays_until_failure rnd deadline (e # es) l =
     (case retry_step (rnd (length es)) deadline e l of
        (None, _) \<Rightarrow> []
      | (Some delay, l') \<Rightarrow> delay # delays_until_failure rnd deadline es l')"

section \<open>Facts\<close>

lemma wrap_i64_small:
  "- 9223372036854775808 \<le> x \<Longrightarrow> x < 9223372036854775808 \<Longrightarrow> wrap_i64 x = x"
  by (simp add: wrap_i64_def)

lemma jittered_exact:
  assumes "base < 2 ^ 62" and "rnd (base div 4 * 2) \<le> base div 4 * 2"
  shows "int (jittered rnd base) =
    max 100 (int base + (if base div 4 = 0 then 0 else int (rnd (base div 4 * 2)) - int (base div 4)))"
proof (cases "base div 4 = 0")
  case True
  then have "base < 4" by simp
  with True show ?thesis
    by (simp add: jittered_def wrap_i64_small)
next
  case False
  let ?d = "int (rnd (base div 4 * 2)) - int (base div 4)"
  have b: "int base < 4611686018427387904" "0 \<le> int base" using assms(1) by simp_all
  have q: "4 * int (base div 4) \<le> int base" by simp
  have r: "int (rnd (base div 4 * 2)) \<le> 2 * int (base div 4)" using assms(2) by linarith
  have "wrap_i64 (int (rnd (base div 4 * 2))) = int (rnd (base div 4 * 2))"
    by (rule wrap_i64_small) (use q r b in linarith)+
  moreover have "wrap_i64 (int base) = int base"
    by (rule wrap_i64_small) (use b in linarith)+
  moreover have "wrap_i64 (int base + ?d) = int base + ?d"
    by (rule wrap_i64_small) (use q r b in linarith)+
  ultimately show ?thesis
    using False by (simp add: jittered_def Let_def max_def)
qed

lemma jittered_bounds:
  assumes "base < 2 ^ 62" and "rnd (base div 4 * 2) \<le> base div 4 * 2"
  shows "100 \<le> jittered rnd base \<and> 3 * base \<le> 4 * jittered rnd base \<and>
    4 * jittered rnd base \<le> max 400 (5 * base)"
proof -
  have q: "4 * int (base div 4) \<le> int base" by simp
  have r: "0 \<le> int (rnd (base div 4 * 2))" "int (rnd (base div 4 * 2)) \<le> 2 * int (base div 4)"
    using assms(2) by linarith+
  show ?thesis
    using jittered_exact [where rnd = rnd and base = base, OF assms] q r by (auto split: if_splits)
qed

text \<open>The budget that is left, and what a decision costs.\<close>

definition ledger_wf :: "retry_ledger \<Rightarrow> bool" where
  "ledger_wf l \<longleftrightarrow>
     rl_transport_used l \<le> length (cp_transport_backoff (rl_policy l)) \<and>
     rl_resample_used l \<le> cp_max_resample (rl_policy l)"

definition budget_left :: "retry_ledger \<Rightarrow> nat" where
  "budget_left l =
     (length (cp_transport_backoff (rl_policy l)) - rl_transport_used l) +
     (cp_max_resample (rl_policy l) - rl_resample_used l) +
     (if cp_allow_repair (rl_policy l) \<and> \<not> rl_repair_used l then 1 else 0)"

lemma ladder_delay_Some: "ladder_delay b u = Some d \<longleftrightarrow> u < length b \<and> d = b ! u"
  by (auto simp: ladder_delay_def)

lemma pre_stream_cases:
  assumes "on_pre_stream_failure rnd error msg now deadline l = (dir, l')"
  shows "(\<exists>r. dir = PreFail r \<and> l' = l) \<or>
    (\<exists>d. dir = RetryAfter d KTransport \<and> \<not> exceeds_deadline now d deadline \<and>
       rl_transport_used l < length (cp_transport_backoff (rl_policy l)) \<and>
       l' = l\<lparr>rl_transport_used := rl_transport_used l + 1\<rparr>) \<or>
    (\<exists>d. dir = RetryAfter d KResample \<and> \<not> exceeds_deadline now d deadline \<and>
       rl_resample_used l < cp_max_resample (rl_policy l) \<and>
       l' = l\<lparr>rl_resample_used := rl_resample_used l + 1, rl_last_parse_error := Some msg\<rparr>) \<or>
    (dir = Repair \<and> cp_allow_repair (rl_policy l) \<and> \<not> rl_repair_used l \<and>
       l' = l\<lparr>rl_last_parse_error := Some msg\<rparr>)"
  using assms
  by (auto simp: on_pre_stream_failure_def Let_def ladder_delay_Some
      split: retry_failure_class.splits option.splits if_splits)

lemma mid_stream_cases:
  assumes "on_mid_stream_failure rnd effects now deadline l = (dir, l')"
  shows "(\<exists>r. dir = MidFail r \<and> l' = l) \<or>
    (\<exists>d. dir = (if effects then CloseAndContinue d else RetractAndResample d) \<and>
       \<not> exceeds_deadline now d deadline \<and>
       rl_transport_used l < length (cp_transport_backoff (rl_policy l)) \<and>
       l' = l\<lparr>rl_transport_used := rl_transport_used l + 1\<rparr>)"
  using assms
  by (auto simp: on_mid_stream_failure_def Let_def ladder_delay_Some split: option.splits if_splits)

lemma retry_step_budget:
  assumes "retry_step rnd deadline e l = (Some d, l')" and "ledger_wf l"
  shows "ledger_wf l' \<and> Suc (budget_left l') = budget_left l"
proof (cases e)
  case (BeforeStream error msg now)
  then obtain dir l1 where "on_pre_stream_failure rnd error msg now deadline l = (dir, l1)"
    by force
  from pre_stream_cases [OF this] this BeforeStream assms show ?thesis
    by (auto simp: pre_stream_step_def ledger_wf_def budget_left_def mark_repair_used_def)
next
  case (InStream effects now)
  then obtain dir l1 where "on_mid_stream_failure rnd effects now deadline l = (dir, l1)"
    by force
  from mid_stream_cases [OF this] this InStream assms show ?thesis
    by (auto simp: mid_stream_step_def ledger_wf_def budget_left_def split: if_splits)
qed

lemma delays_bounded:
  "ledger_wf l \<Longrightarrow> length (delays_until_failure rnd deadline es l) \<le> budget_left l"
proof (induction es arbitrary: l)
  case Nil
  then show ?case by simp
next
  case (Cons e es)
  show ?case
  proof (cases "retry_step (rnd (length es)) deadline e l")
    case (Pair d l')
    show ?thesis
    proof (cases d)
      case None
      with Pair show ?thesis by simp
    next
      case (Some delay)
      with Pair retry_step_budget Cons.prems
      have "ledger_wf l' \<and> Suc (budget_left l') = budget_left l" by blast
      with Cons.IH [of l'] Pair Some show ?thesis by simp
    qed
  qed
qed

section \<open>Guarantees\<close>

text \<open>C22. Retrying ends. However failures arrive, a request that starts with a policy survives at
  most as many of them as the policy's transport ladder has entries, plus its resamples, plus one
  repair when it allows repair.\<close>

theorem retries_bounded_by_policy:
  "length (delays_until_failure rnd deadline failures (ledger_new p)) \<le>
     length (cp_transport_backoff p) + cp_max_resample p + (if cp_allow_repair p then 1 else 0)"
proof -
  have "ledger_wf (ledger_new p)" by (simp add: ledger_wf_def ledger_new_def)
  from delays_bounded [OF this] show ?thesis
    by (simp add: budget_left_def ledger_new_def)
qed

text \<open>No sleep past the deadline. Every delay that either decision asks for ends at or before
  the request's deadline, and a decision to fail consumes nothing of the ledger.\<close>

theorem retry_delay_fits_deadline:
  "(on_pre_stream_failure rnd error msg now (Some t) l = (RetryAfter d k, l1) \<longrightarrow>
      now + min (int d) (2 ^ 63 - 1) * 1000000 \<le> t) \<and>
   (on_mid_stream_failure rnd effects now (Some t) l \<in>
        {(RetractAndResample d, l2), (CloseAndContinue d, l2)} \<longrightarrow>
      now + min (int d) (2 ^ 63 - 1) * 1000000 \<le> t) \<and>
   (on_pre_stream_failure rnd error msg now deadline l = (PreFail r, l1) \<longrightarrow> l1 = l) \<and>
   (on_mid_stream_failure rnd effects now deadline l = (MidFail r, l2) \<longrightarrow> l2 = l)"
proof (intro conjI impI)
  assume "on_pre_stream_failure rnd error msg now (Some t) l = (RetryAfter d k, l1)"
  from pre_stream_cases [OF this] show "now + min (int d) (2 ^ 63 - 1) * 1000000 \<le> t"
    by (auto simp: exceeds_deadline_def not_less)
next
  assume "on_mid_stream_failure rnd effects now (Some t) l \<in>
    {(RetractAndResample d, l2), (CloseAndContinue d, l2)}"
  then obtain dir where "on_mid_stream_failure rnd effects now (Some t) l = (dir, l2)"
      "dir \<in> {RetractAndResample d, CloseAndContinue d}"
    by auto
  from mid_stream_cases [OF this(1)] this(2) show "now + min (int d) (2 ^ 63 - 1) * 1000000 \<le> t"
    by (auto simp: exceeds_deadline_def not_less split: if_splits)
next
  assume "on_pre_stream_failure rnd error msg now deadline l = (PreFail r, l1)"
  from pre_stream_cases [OF this] show "l1 = l" by auto
next
  assume "on_mid_stream_failure rnd effects now deadline l = (MidFail r, l2)"
  from mid_stream_cases [OF this] show "l2 = l" by (auto split: if_splits)
qed

theorem retry_delay_fits_deadline_witness:
  "on_mid_stream_failure (\<lambda>n. n) False 0 (Some 9000000000) (ledger_new interactive_default) =
     (RetractAndResample 2500, (ledger_new interactive_default)\<lparr>rl_transport_used := 1\<rparr>) \<and>
   (0 :: int) + min (int 2500) (2 ^ 63 - 1) * 1000000 \<le> 9000000000"
proof -
  have m: "on_mid_stream_failure (\<lambda>n. n) False 0 (Some 9000000000) (ledger_new interactive_default) =
     (RetractAndResample 2500, (ledger_new interactive_default)\<lparr>rl_transport_used := 1\<rparr>)"
    by (simp add: on_mid_stream_failure_def ledger_new_def interactive_default_def ladder_delay_def
        jitter_def jittered_def wrap_i64_def exceeds_deadline_def)
  have "on_mid_stream_failure (\<lambda>n. n) False 0 (Some 9000000000) (ledger_new interactive_default) \<in>
      {(RetractAndResample 2500, (ledger_new interactive_default)\<lparr>rl_transport_used := 1\<rparr>),
       (CloseAndContinue 2500, (ledger_new interactive_default)\<lparr>rl_transport_used := 1\<rparr>)}"
    by (simp add: m)
  with retry_delay_fits_deadline [THEN conjunct2, THEN conjunct1] m show ?thesis by blast
qed

text \<open>Jitter stays near its base. For a base below two to the 62 milliseconds and a random
  draw within its range, the delay is at least 100 ms, at least three quarters of the base and at
  most the larger of 100 ms and five quarters of the base.\<close>

theorem retry_jitter_bounds:
  assumes "base < 2 ^ 62" and "\<forall>n. rnd n \<le> n"
  shows "100 \<le> jitter rnd base \<and> 3 * base \<le> 4 * jitter rnd base \<and>
    4 * jitter rnd base \<le> max 400 (5 * base)"
proof -
  have "min base (2 ^ 64 - 1) = base" using assms(1) by simp
  then show ?thesis
    unfolding jitter_def using jittered_bounds [of base rnd] assms by simp
qed

theorem retry_jitter_bounds_witness:
  "100 \<le> jitter (\<lambda>n. n) 8000 \<and> 3 * 8000 \<le> 4 * jitter (\<lambda>n. n) 8000 \<and>
    4 * jitter (\<lambda>n. n) 8000 \<le> max 400 (5 * 8000)"
  by (rule retry_jitter_bounds) simp_all

text \<open>A configured transport budget is exact. When the profile sets a valid budget for the
  origin, the resolved ladder has exactly that many entries, and a budget of zero means no transport
  retries; a profile that sets nothing gets the origin's default policy.\<close>

theorem resolved_ladder_length:
  "(\<forall>n. (case origin of
           Interactive \<Rightarrow> Option.bind (or_else (pf_interactive_max pf) (pf_max_transport pf)) nonnegative_usize
         | Scheduled \<Rightarrow> Option.bind (pf_max_transport pf) nonnegative_usize) = Some n \<longrightarrow>
      length (cp_transport_backoff (resolve_policy pf origin)) = n) \<and>
   resolve_policy \<lparr>pf_max_transport = None, pf_backoff_ms = None, pf_max_resample = None,
     pf_allow_repair = None, pf_interactive_max = None\<rparr> origin = default_for_origin origin"
proof -
  have "length (resize_backoff b n) = n" for b n
    by (auto simp: resize_backoff_def Let_def)
  then show ?thesis
    by (auto simp: resolve_policy_def Let_def split: execution_origin.splits)
qed

theorem resolved_ladder_length_witness:
  "length (cp_transport_backoff (resolve_policy \<lparr>pf_max_transport = Some 4, pf_backoff_ms = Some [10, -3],
     pf_max_resample = None, pf_allow_repair = None, pf_interactive_max = None\<rparr> Interactive)) = 4"
  using resolved_ladder_length [where origin = Interactive and pf = "\<lparr>pf_max_transport = Some 4,
     pf_backoff_ms = Some [10, -3], pf_max_resample = None, pf_allow_repair = None,
     pf_interactive_max = None\<rparr>"]
  by (simp add: nonnegative_usize_def)

text \<open>The retry class agrees with the error's own verdict. Unless the text carries the
  tool-call parse signature, an error is retried as a transport failure exactly when it is
  retryable; and repair is chosen only for a parse failure that is a repeat, has no resample
  budget left, or has no ladder to pace a resample.\<close>

theorem retry_class_agrees:
  "(failure_class_of e msg = TransportFailure \<longleftrightarrow>
      is_retryable e \<and> \<not> provider_message_is_tool_call_json_parse_failure msg \<and>
      \<not> provider_message_is_tool_call_json_parse_failure (inference_error_text e)) \<and>
   (failure_class_of e msg = PermanentClass \<longrightarrow> \<not> is_retryable e) \<and>
   (fst (on_pre_stream_failure rnd e msg now deadline l) = Repair \<longrightarrow>
      failure_class_of e msg = ParseBadRequest \<and> cp_allow_repair (rl_policy l) \<and> \<not> rl_repair_used l \<and>
      (rl_last_parse_error l = Some msg \<or> cp_max_resample (rl_policy l) \<le> rl_resample_used l \<or>
       cp_transport_backoff (rl_policy l) = []))"
proof (intro conjI impI)
  show "failure_class_of e msg = TransportFailure \<longleftrightarrow>
      is_retryable e \<and> \<not> provider_message_is_tool_call_json_parse_failure msg \<and>
      \<not> provider_message_is_tool_call_json_parse_failure (inference_error_text e)"
    by (cases e) (simp_all add: failure_class_of_def is_retryable_def del: inference_error_text.simps)
  show "failure_class_of e msg = PermanentClass \<Longrightarrow> \<not> is_retryable e"
    by (cases e) (auto simp: failure_class_of_def is_retryable_def split: if_splits)
  assume r: "fst (on_pre_stream_failure rnd e msg now deadline l) = Repair"
  show "failure_class_of e msg = ParseBadRequest"
    using r by (auto simp: on_pre_stream_failure_def Let_def
        split: retry_failure_class.splits option.splits if_splits)
  then show "rl_last_parse_error l = Some msg \<or> cp_max_resample (rl_policy l) \<le> rl_resample_used l \<or>
       cp_transport_backoff (rl_policy l) = []"
    using r by (auto simp: on_pre_stream_failure_def Let_def resample_delay_def
        split: option.splits if_splits)
  obtain l' where "on_pre_stream_failure rnd e msg now deadline l = (Repair, l')"
    using r by (metis prod.collapse)
  from pre_stream_cases [OF this] show "cp_allow_repair (rl_policy l)" "\<not> rl_repair_used l"
    by auto
qed

lemma lit_no_parse_signature:
  "\<not> str_contains s (lit ''(char '') \<Longrightarrow> \<not> provider_message_is_tool_call_json_parse_failure s"
  by (simp add: provider_message_is_tool_call_json_parse_failure_def)

theorem retry_class_agrees_witness:
  "failure_class_of (TransientFailure []) [] = TransportFailure"
proof -
  have "str_contains s n \<Longrightarrow> set n \<subseteq> set s" for s n
    by (induction s) (auto simp: starts_with_iff dest!: set_mono_prefix)
  moreover have "\<not> set (lit ''(char '') \<subseteq> set (lit ''transient inference failure: '')"
    by (simp add: lit_def)
  ultimately have "\<not> str_contains (lit ''transient inference failure: '') (lit ''(char '')" by blast
  then have "\<not> provider_message_is_tool_call_json_parse_failure (inference_error_text (TransientFailure []))"
    by (simp add: lit_no_parse_signature)
  moreover have "\<not> provider_message_is_tool_call_json_parse_failure []"
    by (simp add: provider_message_is_tool_call_json_parse_failure_def lit_def)
  ultimately show ?thesis
    using retry_class_agrees [THEN conjunct1] by (simp add: is_retryable_def)
qed

end
