(* ===== verification/Cron.thy ===== *)
theory Cron
  imports Gents_Prelude
begin

text \<open>
  Cron schedules: \<^verbatim>\<open>gents/src/schedule_cron.rs\<close>. A field parses to the set of values it admits; the
  next run is found by stepping minute by minute over at most five years of them. Time zones come
  from the zone database: \<open>tz_parse\<close> reads a zone name and \<open>local\<close> gives the civil fields of an instant
  in a zone; both are arguments.
\<close>

section \<open>Fields\<close>

datatype field_kind = Minute | Hour | DayOfMonth | Month | DayOfWeek

fun kind_min :: "field_kind \<Rightarrow> nat" where
  "kind_min Minute = 0"
| "kind_min Hour = 0"
| "kind_min DayOfMonth = 1"
| "kind_min Month = 1"
| "kind_min DayOfWeek = 0"

fun kind_max :: "field_kind \<Rightarrow> nat" where
  "kind_max Minute = 59"
| "kind_max Hour = 23"
| "kind_max DayOfMonth = 31"
| "kind_max Month = 12"
| "kind_max DayOfWeek = 7"

definition kind_normalize :: "field_kind \<Rightarrow> nat \<Rightarrow> nat" where
  "kind_normalize kind v = (if kind = DayOfWeek \<and> v = 7 then 0 else v)"

definition to_ascii_uppercase :: "ustring \<Rightarrow> ustring" where
  "to_ascii_uppercase s = map (\<lambda>c. if 97 \<le> c \<and> c \<le> 122 then c - 32 else c) s"

definition named_value :: "field_kind \<Rightarrow> ustring \<Rightarrow> nat option" where
  "named_value kind raw =
     (let upper = to_ascii_uppercase raw in
      case kind of
        Month \<Rightarrow> map_of
          [(lit ''JAN'', 1), (lit ''FEB'', 2), (lit ''MAR'', 3), (lit ''APR'', 4), (lit ''MAY'', 5),
           (lit ''JUN'', 6), (lit ''JUL'', 7), (lit ''AUG'', 8), (lit ''SEP'', 9), (lit ''OCT'', 10),
           (lit ''NOV'', 11), (lit ''DEC'', 12)] upper
      | DayOfWeek \<Rightarrow> map_of
          [(lit ''SUN'', 0), (lit ''MON'', 1), (lit ''TUE'', 2), (lit ''WED'', 3), (lit ''THU'', 4),
           (lit ''FRI'', 5), (lit ''SAT'', 6)] upper
      | _ \<Rightarrow> None)"

datatype cron_error =
    FieldCount nat
  | EmptyField field_kind
  | EmptyListItem field_kind
  | InvalidStep field_kind ustring
  | ZeroStep field_kind
  | RangeReversed field_kind nat nat
  | EmptyValue field_kind
  | InvalidValue field_kind ustring
  | OutsideRange field_kind nat
  | InvalidTimezone ustring
  | UnsupportedMissedRunPolicy ustring
  | NoRunWithinFiveYears ustring ustring

definition parse_value :: "field_kind \<Rightarrow> ustring \<Rightarrow> cron_error + nat" where
  "parse_value kind raw0 =
     (let raw = trim raw0 in
      if raw = [] then Inl (EmptyValue kind)
      else bind_res (case named_value kind raw of
               Some v \<Rightarrow> Inr v
             | None \<Rightarrow> ok_or (InvalidValue kind raw) (parse_u32 raw)) (\<lambda>v.
           if v < kind_min kind \<or> kind_max kind < v then Inl (OutsideRange kind v) else Inr v))"

text \<open>The loop over a range: \<^verbatim>\<open>checked_add\<close> on \<^verbatim>\<open>u32\<close> ends it at the top. Its step is positive.\<close>

function step_values :: "nat \<Rightarrow> nat \<Rightarrow> nat \<Rightarrow> nat list" where
  "step_values v stop step =
     (if v \<le> stop \<and> 0 < step
      then v # (if v + step < 2 ^ 32 then step_values (v + step) stop step else [])
      else [])"
  by pat_completeness auto
termination
  by (relation "measure (\<lambda>(v, stop, step). Suc stop - v)") auto

declare step_values.simps [simp del]

text \<open>The base of a list item, its step, and whether it has one; then the range the base denotes.\<close>

definition part_step :: "field_kind \<Rightarrow> ustring \<Rightarrow> cron_error + ustring \<times> nat \<times> bool" where
  "part_step kind part =
     (case split_once 47 part of
        Some (base, step_text) \<Rightarrow>
          bind_res (ok_or (InvalidStep kind step_text) (parse_u32 step_text)) (\<lambda>step.
          if step = 0 then Inl (ZeroStep kind) else Inr (base, step, True))
      | None \<Rightarrow> Inr (part, 1, False))"

definition part_range :: "field_kind \<Rightarrow> ustring \<Rightarrow> bool \<Rightarrow> cron_error + nat \<times> nat" where
  "part_range kind base has_step =
     (if base = lit ''*'' then Inr (kind_min kind, kind_max kind)
      else case split_once 45 base of
          Some (a, b) \<Rightarrow>
            bind_res (parse_value kind a) (\<lambda>start.
            bind_res (parse_value kind b) (\<lambda>stop. Inr (start, stop)))
        | None \<Rightarrow>
            bind_res (parse_value kind base) (\<lambda>v.
            Inr (if has_step then (v, kind_max kind) else (v, v))))"

definition extend_part_values :: "ustring \<Rightarrow> field_kind \<Rightarrow> nat set \<Rightarrow> cron_error + nat set" where
  "extend_part_values part kind vals =
     bind_res (part_step kind part) (\<lambda>(base, step, has_step).
     bind_res (part_range kind base has_step) (\<lambda>(start, stop).
     if stop < start then Inl (RangeReversed kind start stop)
     else Inr (vals \<union> kind_normalize kind ` set (step_values start stop step))))"

record cron_field =
  cf_values :: "nat set"
  cf_wildcard :: bool

fun parse_parts :: "field_kind \<Rightarrow> ustring list \<Rightarrow> nat set \<Rightarrow> bool \<Rightarrow> cron_error + cron_field" where
  "parse_parts kind [] vals wildcard = Inr \<lparr>cf_values = vals, cf_wildcard = wildcard\<rparr>"
| "parse_parts kind (p # ps) vals wildcard =
     (let part = trim p in
      if part = [] then Inl (EmptyListItem kind)
      else bind_res (extend_part_values part kind vals) (\<lambda>vals'.
           parse_parts kind ps vals' (wildcard \<or> starts_with (lit ''*'') part)))"

definition cron_field_parse :: "field_kind \<Rightarrow> ustring \<Rightarrow> cron_error + cron_field" where
  "cron_field_parse kind raw0 =
     (let raw = trim raw0 in
      if raw = [] then Inl (EmptyField kind)
      else parse_parts kind (split_on 44 raw) {} False)"

section \<open>Schedules\<close>

record cron_spec =
  cs_minutes :: cron_field
  cs_hours :: cron_field
  cs_days_of_month :: cron_field
  cs_months :: cron_field
  cs_days_of_week :: cron_field

definition cron_spec_parse :: "ustring \<Rightarrow> cron_error + cron_spec" where
  "cron_spec_parse expression =
     (let fs = split_whitespace expression in
      if length fs \<noteq> 5 then Inl (FieldCount (length fs))
      else
        bind_res (cron_field_parse Minute (fs ! 0)) (\<lambda>minutes.
        bind_res (cron_field_parse Hour (fs ! 1)) (\<lambda>hours.
        bind_res (cron_field_parse DayOfMonth (fs ! 2)) (\<lambda>dom.
        bind_res (cron_field_parse Month (fs ! 3)) (\<lambda>months.
        bind_res (cron_field_parse DayOfWeek (fs ! 4)) (\<lambda>dow.
        Inr \<lparr>cs_minutes = minutes, cs_hours = hours, cs_days_of_month = dom, cs_months = months,
             cs_days_of_week = dow\<rparr>))))))"

text \<open>The civil fields of a local time that a schedule looks at; the weekday counts from Sunday.\<close>

record civil =
  cv_minute :: nat
  cv_hour :: nat
  cv_day :: nat
  cv_month :: nat
  cv_weekday :: nat

definition cron_matches :: "cron_spec \<Rightarrow> civil \<Rightarrow> bool" where
  "cron_matches spec t =
     (if cv_minute t \<notin> cf_values (cs_minutes spec) then False
      else if cv_hour t \<notin> cf_values (cs_hours spec) then False
      else if cv_month t \<notin> cf_values (cs_months spec) then False
      else
        let dom = (cv_day t \<in> cf_values (cs_days_of_month spec));
            dow = (cv_weekday t \<in> cf_values (cs_days_of_week spec))
        in if \<not> cf_wildcard (cs_days_of_month spec) \<and> \<not> cf_wildcard (cs_days_of_week spec)
           then dom \<or> dow else dom \<and> dow)"

definition minute_ns :: int where
  "minute_ns = 60 * 1000000000"

definition max_cron_lookahead_minutes :: nat where
  "max_cron_lookahead_minutes = 366 * 24 * 60 * 5"

definition truncate_to_next_minute :: "instant \<Rightarrow> instant" where
  "truncate_to_next_minute t = (t + minute_ns) div minute_ns * minute_ns"

fun scan_minutes :: "(instant \<Rightarrow> bool) \<Rightarrow> nat \<Rightarrow> instant \<Rightarrow> instant option" where
  "scan_minutes hit 0 candidate = None"
| "scan_minutes hit (Suc n) candidate =
     (if hit candidate then Some candidate else scan_minutes hit n (candidate + minute_ns))"

definition parse_timezone :: "(ustring \<Rightarrow> 'tz option) \<Rightarrow> ustring \<Rightarrow> cron_error + 'tz" where
  "parse_timezone tz_parse timezone = ok_or (InvalidTimezone timezone) (tz_parse (trim timezone))"

definition next_cron_run_after ::
  "(ustring \<Rightarrow> 'tz option) \<Rightarrow> ('tz \<Rightarrow> instant \<Rightarrow> civil) \<Rightarrow> ustring \<Rightarrow> ustring \<Rightarrow> instant \<Rightarrow>
   cron_error + instant" where
  "next_cron_run_after tz_parse local expression timezone after_utc =
     bind_res (cron_spec_parse expression) (\<lambda>spec.
     bind_res (parse_timezone tz_parse timezone) (\<lambda>tz.
     ok_or (NoRunWithinFiveYears expression timezone)
       (scan_minutes (\<lambda>t. cron_matches spec (local tz t)) max_cron_lookahead_minutes
          (truncate_to_next_minute after_utc))))"

datatype missed_run_policy = LatestOnly

definition default_cron_missed_run_policy :: ustring where
  "default_cron_missed_run_policy = lit ''latest_only''"

definition missed_run_policy_parse :: "ustring option \<Rightarrow> cron_error + missed_run_policy" where
  "missed_run_policy_parse v =
     (let value = (case nonblank v of None \<Rightarrow> default_cron_missed_run_policy | Some s \<Rightarrow> s)
      in if value = default_cron_missed_run_policy then Inr LatestOnly
         else Inl (UnsupportedMissedRunPolicy value))"

definition validate_cron_schedule ::
  "(ustring \<Rightarrow> 'tz option) \<Rightarrow> ustring \<Rightarrow> ustring \<Rightarrow> ustring option \<Rightarrow> cron_error + unit" where
  "validate_cron_schedule tz_parse expression timezone missed_run_policy =
     bind_res (cron_spec_parse expression) (\<lambda>_.
     bind_res (parse_timezone tz_parse timezone) (\<lambda>_.
     bind_res (missed_run_policy_parse missed_run_policy) (\<lambda>_. Inr ())))"

section \<open>Facts\<close>

lemma step_values_set:
  assumes "0 < step" and "stop < 2 ^ 32"
  shows "set (step_values v stop step) = {v + i * step | i. v + i * step \<le> stop}"
  using assms
proof (induction v stop step rule: step_values.induct)
  case (1 v stop step)
  show ?case
  proof (cases "v \<le> stop")
    case False
    then show ?thesis by (auto simp: step_values.simps [of v])
  next
    case True
    have tail: "(if v + step < 2 ^ 32 then set (step_values (v + step) stop step) else {}) =
        {v + i * step | i. 0 < i \<and> v + i * step \<le> stop}"
    proof (cases "v + step < 2 ^ 32")
      case True
      have "{v + step + i * step | i. v + step + i * step \<le> stop} =
          {v + i * step | i. 0 < i \<and> v + i * step \<le> stop}"
        by (auto, metis add.assoc mult_Suc zero_less_Suc, metis Suc_pred add.assoc mult_Suc)
      with 1 True \<open>v \<le> stop\<close> show ?thesis by simp
    next
      case False
      have "v + i * step \<le> stop \<Longrightarrow> 0 < i \<Longrightarrow> v + step \<le> stop" for i
        by (metis One_nat_def Suc_leI add_le_cancel_left mult.commute mult_le_mono2 nat_mult_1_right order_trans)
      with False 1(3) show ?thesis by fastforce
    qed
    have split: "{v + i * step | i. v + i * step \<le> stop} =
        insert v {v + i * step | i. 0 < i \<and> v + i * step \<le> stop}"
    proof -
      have "x \<in> insert v {v + i * step | i. 0 < i \<and> v + i * step \<le> stop}"
        if "x = v + i * step" "v + i * step \<le> stop" for x i
        using that by (cases "i = 0") auto
      moreover have "v \<in> {v + i * step | i. v + i * step \<le> stop}"
        using True by (auto intro!: exI [of _ 0])
      ultimately show ?thesis by blast
    qed
    show ?thesis
      unfolding split tail [symmetric] using True 1(2) by (auto simp: step_values.simps [of v])
  qed
qed

lemma kind_max_small: "kind_max kind < 2 ^ 32" "kind_min kind \<le> kind_max kind"
  by (cases kind, simp_all)+

lemma parse_value_range:
  "parse_value kind raw = Inr v \<Longrightarrow> kind_min kind \<le> v \<and> v \<le> kind_max kind"
  by (auto simp: parse_value_def Let_def bind_res_Inr split: if_splits)

definition admissible :: "field_kind \<Rightarrow> nat set" where
  "admissible kind = kind_normalize kind ` {kind_min kind..kind_max kind}"

lemma part_step_positive: "part_step kind part = Inr (base, step, has) \<Longrightarrow> 0 < step"
  by (auto simp: part_step_def elim!: bind_resE split: option.splits if_splits)

lemma part_range_bounds:
  "part_range kind base has = Inr (start, stop) \<Longrightarrow> kind_min kind \<le> start \<and> stop \<le> kind_max kind"
  using kind_max_small(2) [of kind]
  by (auto simp: part_range_def elim!: bind_resE dest!: parse_value_range split: option.splits if_splits)

lemma part_bounds:
  assumes "extend_part_values part kind vals = Inr vals'"
  shows "\<exists>start stop step. kind_min kind \<le> start \<and> start \<le> stop \<and> stop \<le> kind_max kind \<and> 0 < step \<and>
    vals' = vals \<union> kind_normalize kind ` set (step_values start stop step)"
proof -
  obtain base step has start stop where "part_step kind part = Inr (base, step, has)"
      "part_range kind base has = Inr (start, stop)"
    and "start \<le> stop" "vals' = vals \<union> kind_normalize kind ` set (step_values start stop step)"
    using assms unfolding extend_part_values_def by (auto elim!: bind_resE split: if_splits)
  then show ?thesis using part_step_positive part_range_bounds by blast
qed

lemma part_admissible:
  assumes "extend_part_values part kind vals = Inr vals'"
  shows "vals \<subseteq> vals' \<and> vals' \<subseteq> vals \<union> admissible kind \<and> vals' \<noteq> {}"
proof -
  obtain start stop step where b: "kind_min kind \<le> start" "start \<le> stop" "stop \<le> kind_max kind"
      "0 < step" "vals' = vals \<union> kind_normalize kind ` set (step_values start stop step)"
    using part_bounds [OF assms] by blast
  have "stop < 2 ^ 32" using b(3) kind_max_small(1) [of kind] by linarith
  from step_values_set [OF b(4) this]
  have s: "set (step_values start stop step) = {start + i * step | i. start + i * step \<le> stop}" .
  have "set (step_values start stop step) \<subseteq> {kind_min kind..kind_max kind}"
    using b(1,3) by (auto simp: s)
  moreover have "start \<in> set (step_values start stop step)"
    using b(2) by (auto simp: s intro!: exI [of _ 0])
  ultimately show ?thesis
    using b(5) by (auto simp: admissible_def)
qed

lemma parse_parts_admissible:
  assumes "parse_parts kind ps vals w = Inr f" and "vals \<subseteq> admissible kind"
  shows "vals \<subseteq> cf_values f \<and> cf_values f \<subseteq> admissible kind \<and> (ps \<noteq> [] \<longrightarrow> cf_values f \<noteq> {})"
  using assms
proof (induction ps arbitrary: vals w)
  case Nil
  then show ?case by auto
next
  case (Cons p ps)
  then obtain vals' where e: "extend_part_values (trim p) kind vals = Inr vals'"
    and r: "parse_parts kind ps vals' (w \<or> starts_with (lit ''*'') (trim p)) = Inr f"
    by (auto simp: Let_def bind_res_Inr split: if_splits)
  from part_admissible [OF e] Cons.prems(2) Cons.IH [OF r] show ?case by blast
qed

lemma scan_minutes_Some:
  assumes "scan_minutes hit n c = Some t"
  shows "\<exists>k < n. t = c + int k * minute_ns \<and> hit t \<and> (\<forall>j < k. \<not> hit (c + int j * minute_ns))"
  using assms
proof (induction n arbitrary: c)
  case 0
  then show ?case by simp
next
  case (Suc n)
  show ?case
  proof (cases "hit c")
    case True
    with Suc.prems show ?thesis by (intro exI [of _ 0]) simp
  next
    case False
    have shift: "c + minute_ns + int j * minute_ns = c + int (Suc j) * minute_ns" for j
      by (simp add: algebra_simps)
    from False Suc obtain k where "k < n" "t = c + int (Suc k) * minute_ns" "hit t"
        "\<forall>j < k. \<not> hit (c + int (Suc j) * minute_ns)"
      using Suc.IH [of "c + minute_ns"] unfolding shift by auto
    moreover from this(4) False have "\<forall>j < Suc k. \<not> hit (c + int j * minute_ns)"
      by (auto simp only: All_less_Suc2) simp
    ultimately show ?thesis by blast
  qed
qed

lemma scan_minutes_None:
  "scan_minutes hit n c = None \<longleftrightarrow> (\<forall>k < n. \<not> hit (c + int k * minute_ns))"
proof (induction n arbitrary: c)
  case 0
  then show ?case by simp
next
  case (Suc n)
  have shift: "c + minute_ns + int j * minute_ns = c + int (Suc j) * minute_ns" for j
    by (simp add: algebra_simps)
  have "scan_minutes hit (Suc n) c = None \<longleftrightarrow>
      \<not> hit c \<and> (\<forall>k < n. \<not> hit (c + int (Suc k) * minute_ns))"
    by (simp add: Suc.IH shift del: of_nat_Suc)
  then show ?case by (simp only: All_less_Suc2) simp
qed

lemma truncate_next:
  "t < truncate_to_next_minute t" "truncate_to_next_minute t \<le> t + minute_ns"
  "truncate_to_next_minute t mod minute_ns = 0"
proof -
  have m: "0 < minute_ns" by (simp add: minute_ns_def)
  have split: "truncate_to_next_minute t + (t + minute_ns) mod minute_ns = t + minute_ns"
    unfolding truncate_to_next_minute_def by (rule div_mult_mod_eq)
  moreover have "0 \<le> (t + minute_ns) mod minute_ns" "(t + minute_ns) mod minute_ns < minute_ns"
    using m by simp_all
  ultimately show "t < truncate_to_next_minute t" "truncate_to_next_minute t \<le> t + minute_ns"
    by linarith+
  show "truncate_to_next_minute t mod minute_ns = 0"
    by (simp add: truncate_to_next_minute_def)
qed

text \<open>Every whole minute after an instant is reached by counting on from the next one.\<close>

lemma minute_index:
  assumes "u mod minute_ns = 0" and "after < u"
  shows "\<exists>k. u = truncate_to_next_minute after + int k * minute_ns"
proof -
  let ?c = "truncate_to_next_minute after"
  have m: "0 < minute_ns" by (simp add: minute_ns_def)
  have "(u - ?c) mod minute_ns = 0"
    using assms(1) truncate_next(3) by (simp add: mod_diff_eq [symmetric])
  then have d: "u - ?c = (u - ?c) div minute_ns * minute_ns" by (simp add: minus_mod_eq_div_mult [symmetric])
  have "- minute_ns < u - ?c" using assms(2) truncate_next(2) [of after] by linarith
  with d have "0 \<le> (u - ?c) div minute_ns"
    using m by (smt (verit) mult_le_cancel_right1 mult_minus_left)
  then have "int (nat ((u - ?c) div minute_ns)) = (u - ?c) div minute_ns" by simp
  moreover have "u = ?c + (u - ?c) div minute_ns * minute_ns" using d by linarith
  ultimately have "u = ?c + int (nat ((u - ?c) div minute_ns)) * minute_ns" by presburger
  then show ?thesis by blast
qed

text \<open>Numbers in schedules are plain digits.\<close>

lemma dec_of_nat_trim [simp]: "trim (dec_of_nat n) = dec_of_nat n"
proof -
  have nw: "\<forall>c \<in> set (dec_of_nat n). \<not> is_ws c"
    using dec_of_nat_digits by (fastforce simp: is_ws_def)
  have "dropWhile is_ws xs = xs" if "\<forall>c \<in> set xs. \<not> is_ws c" for xs
    using that by (cases xs) auto
  from this [of "dec_of_nat n"] this [of "rev (dec_of_nat n)"] nw show ?thesis
    by (simp add: str_simps)
qed

lemma split_once_append: "c \<notin> set a \<Longrightarrow> split_once c (a @ c # b) = Some (a, b)"
  by (induction a) auto

lemma named_value_dec: "named_value kind (dec_of_nat n) = None"
proof -
  obtain c cs where d: "dec_of_nat n = c # cs" using dec_of_nat_hd by (cases "dec_of_nat n") auto
  have c: "48 \<le> c" "c \<le> 57" using dec_of_nat_digits [of c n] d by auto
  have up: "to_ascii_uppercase (dec_of_nat n) = c # to_ascii_uppercase cs"
    using c by (simp add: d to_ascii_uppercase_def)
  show ?thesis
    using c by (cases kind) (auto simp: named_value_def up lit_def Let_def)
qed

lemma parse_value_dec:
  assumes "n < 2 ^ 32" and "kind_min kind \<le> n" and "n \<le> kind_max kind"
  shows "parse_value kind (dec_of_nat n) = Inr n"
  using assms dec_of_nat_hd [of n] by (simp add: parse_value_def named_value_dec parse_u32_dec)

lemma star_field:
  "cron_field_parse kind (lit ''*'') = Inr \<lparr>cf_values = admissible kind, cf_wildcard = True\<rparr>"
proof -
  have "{v + i * 1 | i. v + i * 1 \<le> stop} = {v..stop}" for v stop :: nat
    by (auto intro: le_Suc_ex) (metis le_add_diff_inverse)
  then have "set (step_values (kind_min kind) (kind_max kind) 1) = {kind_min kind..kind_max kind}"
    using step_values_set [of 1 "kind_max kind" "kind_min kind"] kind_max_small(1) by simp
  then have "extend_part_values (lit ''*'') kind {} = Inr (admissible kind)"
    using kind_max_small(2) [of kind]
    by (simp add: extend_part_values_def part_step_def part_range_def lit_def admissible_def)
  then show ?thesis
    by (simp add: cron_field_parse_def split_on_def lit_def str_simps is_ws_def starts_with_def)
qed

section \<open>Guarantees\<close>

text \<open>A parsed field is usable. It admits at least one value, and only values that the clock
  field can take; day seven has become Sunday.\<close>

theorem cron_field_values:
  assumes "cron_field_parse kind raw = Inr f"
  shows "cf_values f \<noteq> {} \<and>
    cf_values f \<subseteq> {kind_min kind..(if kind = DayOfWeek then 6 else kind_max kind)}"
proof -
  have "parse_parts kind (split_on 44 (trim raw)) {} False = Inr f"
    using assms by (auto simp: cron_field_parse_def Let_def split: if_splits)
  from parse_parts_admissible [OF this] have "cf_values f \<noteq> {}" "cf_values f \<subseteq> admissible kind"
    by simp_all
  moreover have "admissible kind \<subseteq> {kind_min kind..(if kind = DayOfWeek then 6 else kind_max kind)}"
    by (cases kind) (auto simp: admissible_def kind_normalize_def)
  ultimately show ?thesis by blast
qed

text \<open>C39. The next run is the first one. It lies strictly after the given instant, on a whole
  minute, satisfies the schedule in the zone's local time, and no whole minute in between does.\<close>

theorem next_run_is_first:
  assumes "next_cron_run_after tz_parse local expression timezone after = Inr t"
  shows "\<exists>spec tz. cron_spec_parse expression = Inr spec \<and> tz_parse (trim timezone) = Some tz \<and>
    after < t \<and> t mod minute_ns = 0 \<and> cron_matches spec (local tz t) \<and>
    (\<forall>u. after < u \<and> u < t \<and> u mod minute_ns = 0 \<longrightarrow> \<not> cron_matches spec (local tz u))"
proof -
  let ?c = "truncate_to_next_minute after"
  have m: "0 < minute_ns" by (simp add: minute_ns_def)
  obtain spec tz where p: "cron_spec_parse expression = Inr spec" "tz_parse (trim timezone) = Some tz"
    and s: "scan_minutes (\<lambda>t. cron_matches spec (local tz t)) max_cron_lookahead_minutes ?c = Some t"
    using assms by (auto simp: next_cron_run_after_def parse_timezone_def bind_res_Inr)
  obtain k where k: "t = ?c + int k * minute_ns" "cron_matches spec (local tz t)"
      "\<forall>j < k. \<not> cron_matches spec (local tz (?c + int j * minute_ns))"
    using scan_minutes_Some [OF s] by blast
  have "0 \<le> int k * minute_ns" using m by simp
  then have "after < t" using k(1) truncate_next(1) [of after] by linarith
  moreover have "t mod minute_ns = 0" using k(1) truncate_next(3) [of after] by simp
  moreover have "\<not> cron_matches spec (local tz u)"
    if u: "after < u" "u < t" "u mod minute_ns = 0" for u
  proof -
    obtain j where j: "u = ?c + int j * minute_ns" using minute_index [OF u(3,1)] by blast
    with u(2) k(1) m have "j < k" by simp
    with j k(3) show ?thesis by blast
  qed
  ultimately show ?thesis
    using p k(2) by (intro exI [of _ spec] exI [of _ tz]) simp
qed

text \<open>A run within five years is found. If the schedule and the zone parse and some whole
  minute within the lookahead satisfies the schedule, the search returns a run no later than it.\<close>

theorem next_run_found:
  assumes "cron_spec_parse expression = Inr spec" and "tz_parse (trim timezone) = Some tz"
    and "after < u" and "u \<le> after + int max_cron_lookahead_minutes * minute_ns"
    and "u mod minute_ns = 0" and "cron_matches spec (local tz u)"
  shows "\<exists>t. next_cron_run_after tz_parse local expression timezone after = Inr t \<and> t \<le> u"
proof -
  let ?c = "truncate_to_next_minute after"
  let ?hit = "\<lambda>t. cron_matches spec (local tz t)"
  have m: "0 < minute_ns" by (simp add: minute_ns_def)
  obtain k where k: "u = ?c + int k * minute_ns" using minute_index [OF assms(5,3)] by blast
  have "int k * minute_ns < int max_cron_lookahead_minutes * minute_ns"
    using assms(4) k truncate_next(1) [of after] by linarith
  then have kn: "k < max_cron_lookahead_minutes" using m by simp
  obtain t where t: "scan_minutes ?hit max_cron_lookahead_minutes ?c = Some t"
    using kn assms(6) k scan_minutes_None [of ?hit max_cron_lookahead_minutes ?c]
    by (cases "scan_minutes ?hit max_cron_lookahead_minutes ?c") auto
  obtain i where i: "t = ?c + int i * minute_ns" "\<forall>j < i. \<not> ?hit (?c + int j * minute_ns)"
    using scan_minutes_Some [OF t] by blast
  have "i \<le> k" using i(2) assms(6) k by (meson not_less)
  then have "t \<le> u" using i(1) k m by simp
  with t assms(1,2) show ?thesis
    by (simp add: next_cron_run_after_def parse_timezone_def)
qed

text \<open>A range with a step reads as it is written. The text of a range \<open>a-b/s\<close> with bounds the
  field admits parses to the arithmetic progression from \<open>a\<close> in steps of \<open>s\<close> up to \<open>b\<close>.\<close>

theorem cron_range_text:
  assumes "kind_min kind \<le> a" and "a \<le> b" and "b \<le> kind_max kind" and "0 < s" and "s < 2 ^ 32"
  shows "extend_part_values (dec_of_nat a @ lit ''-'' @ dec_of_nat b @ lit ''/'' @ dec_of_nat s) kind {} =
    Inr (kind_normalize kind ` {a + i * s | i. a + i * s \<le> b})"
proof -
  let ?base = "dec_of_nat a @ 45 # dec_of_nat b"
  have shape: "dec_of_nat a @ lit ''-'' @ dec_of_nat b @ lit ''/'' @ dec_of_nat s = ?base @ 47 # dec_of_nat s"
    by (simp add: lit_def)
  have small: "a < 2 ^ 32" "b < 2 ^ 32" using assms(2,3) kind_max_small(1) [of kind] by linarith+
  have "47 \<notin> set ?base" using dec_of_nat_digits by fastforce
  then have step: "part_step kind (?base @ 47 # dec_of_nat s) = Inr (?base, s, True)"
    using assms(4,5) by (simp add: part_step_def split_once_append parse_u32_dec del: append_assoc)
  have "45 \<notin> set (dec_of_nat a)" using dec_of_nat_digits by fastforce
  moreover have "?base \<noteq> lit ''*''"
    using dec_of_nat_digits [of a] dec_of_nat_hd [of a] by (cases "dec_of_nat a") (auto simp: lit_def)
  ultimately have "part_range kind ?base True = Inr (a, b)"
    using assms small by (simp add: part_range_def split_once_append parse_value_dec)
  then show ?thesis
    using step assms(2,4) small(2)
    by (simp add: shape extend_part_values_def step_values_set del: append_assoc append.simps)
qed

section \<open>Witnesses\<close>

theorem cron_field_values_witness:
  "\<exists>f. cron_field_parse Minute (lit ''*'') = Inr f \<and> cf_values f \<noteq> {} \<and> cf_values f \<subseteq> {0..59}"
  using cron_field_values [OF star_field [of Minute]] star_field [of Minute] by auto

text \<open>A zone with a clock of sixty-minute hours that always reads the same day.\<close>

definition demo_local :: "unit \<Rightarrow> instant \<Rightarrow> civil" where
  "demo_local tz t =
     \<lparr>cv_minute = nat (t div minute_ns mod 60), cv_hour = 0, cv_day = 1, cv_month = 1, cv_weekday = 0\<rparr>"

definition demo_spec :: cron_spec where
  "demo_spec = \<lparr>cs_minutes = \<lparr>cf_values = admissible Minute, cf_wildcard = True\<rparr>,
     cs_hours = \<lparr>cf_values = admissible Hour, cf_wildcard = True\<rparr>,
     cs_days_of_month = \<lparr>cf_values = admissible DayOfMonth, cf_wildcard = True\<rparr>,
     cs_months = \<lparr>cf_values = admissible Month, cf_wildcard = True\<rparr>,
     cs_days_of_week = \<lparr>cf_values = admissible DayOfWeek, cf_wildcard = True\<rparr>\<rparr>"

lemma demo_spec_parse: "cron_spec_parse (lit ''* * * * *'') = Inr demo_spec"
proof -
  have "split_whitespace (lit ''* * * * *'') = [lit ''*'', lit ''*'', lit ''*'', lit ''*'', lit ''*'']"
    by (simp add: split_whitespace_def lit_def is_ws_def)
  then show ?thesis
    by (simp add: cron_spec_parse_def star_field demo_spec_def)
qed

lemma demo_matches: "cron_matches demo_spec (demo_local () t)"
proof -
  have "nat (t div minute_ns mod 60) < 60"
    by (simp add: nat_less_iff)
  then have "nat (t div minute_ns mod 60) \<in> admissible Minute"
    by (auto simp: admissible_def kind_normalize_def image_iff)
  then show ?thesis
    by (simp add: cron_matches_def demo_spec_def demo_local_def admissible_def kind_normalize_def image_iff)
qed

theorem next_run_found_witness:
  "\<exists>t. next_cron_run_after (\<lambda>_. Some ()) demo_local (lit ''* * * * *'') (lit ''UTC'') 0 = Inr t \<and> t \<le> minute_ns"
  by (rule next_run_found [OF demo_spec_parse, where tz = "()"])
     (simp_all add: demo_matches minute_ns_def max_cron_lookahead_minutes_def)

lemma demo_run:
  "\<exists>t. next_cron_run_after (\<lambda>_. Some ()) demo_local (lit ''* * * * *'') (lit ''UTC'') 0 = Inr t"
proof -
  obtain n where n: "max_cron_lookahead_minutes = Suc n"
    by (cases max_cron_lookahead_minutes) (simp_all add: max_cron_lookahead_minutes_def)
  show ?thesis
    unfolding next_cron_run_after_def n
    by (simp add: demo_spec_parse parse_timezone_def demo_matches)
qed

theorem next_run_is_first_witness:
  "\<exists>t. next_cron_run_after (\<lambda>_. Some ()) demo_local (lit ''* * * * *'') (lit ''UTC'') 0 = Inr t \<and>
     0 < t \<and> t mod minute_ns = 0"
proof -
  obtain t where t: "next_cron_run_after (\<lambda>_. Some ()) demo_local (lit ''* * * * *'') (lit ''UTC'') 0 = Inr t"
    using demo_run by blast
  have "0 < t \<and> t mod minute_ns = 0"
    using next_run_is_first [OF t] by (elim exE conjE) (rule conjI)
  with t show ?thesis by (intro exI [of _ t] conjI) simp_all
qed

theorem cron_range_text_witness:
  "extend_part_values (dec_of_nat 5 @ lit ''-'' @ dec_of_nat 50 @ lit ''/'' @ dec_of_nat 15) Minute {} =
     Inr (kind_normalize Minute ` {5 + i * 15 | i. 5 + i * 15 \<le> 50})"
  by (rule cron_range_text) simp_all

end
