(* ===== verification/Watcher.thy ===== *)
theory Watcher
  imports Doc_Txn "HOL-Library.Option_ord" "HOL-Library.List_Lexorder" "HOL-Library.Product_Lexorder"
begin

text \<open>
  How a runtime finds work: \<^verbatim>\<open>gents/src/watcher.rs\<close>, \<^verbatim>\<open>watcher/query.rs\<close>, \<^verbatim>\<open>watcher/query/rows.rs\<close> and
  \<^verbatim>\<open>watcher/cooldown.rs\<close>. One scan reads the active request rows of the agent, fails the ones that can
  never run, selects the claimable ones and hands out the first that is not cooling down. Arguments
  stand for the libraries: \<open>J\<close> parses JSON text, \<open>Q\<close> deserializes queue metadata, \<open>P\<close> reads RFC 3339
  text. The subscription that triggers a scan is not modelled.
\<close>

section \<open>Request rows\<close>

text \<open>A decoded \<^verbatim>\<open>AgentRequestRow\<close>: its identifier, its two checked columns, and the optional columns,
  which keep the types of the schema.\<close>

record request_row =
  rw_doc_id :: doc_id
  rw_request_id :: ustring
  rw_state :: "request_state option"
  rw_cols :: row

abbreviation rw_str :: "request_row \<Rightarrow> string \<Rightarrow> ustring option" where
  "rw_str r f \<equiv> str_field (rw_cols r) f"

abbreviation rw_int :: "request_row \<Rightarrow> string \<Rightarrow> int option" where
  "rw_int r f \<equiv> int_field (rw_cols r) f"

definition float_field :: "row \<Rightarrow> string \<Rightarrow> nat option" where
  "float_field r f = (case r f of Some (GFloat b) \<Rightarrow> Some b | _ \<Rightarrow> None)"

definition request_row_of :: "doc_id \<times> row \<Rightarrow> request_row option" where
  "request_row_of x =
     (case x of (d, r) \<Rightarrow>
        Option.bind (str_field r ''request_id'') (\<lambda>rid.
        case str_field r ''lifecycle_state'' of
          None \<Rightarrow> Some \<lparr>rw_doc_id = d, rw_request_id = rid, rw_state = None, rw_cols = r\<rparr>
        | Some s \<Rightarrow>
            (case request_parse s of
               Inl _ \<Rightarrow> None
             | Inr st \<Rightarrow> Some \<lparr>rw_doc_id = d, rw_request_id = rid, rw_state = Some st, rw_cols = r\<rparr>)))"

definition is_pending :: "request_row \<Rightarrow> bool" where
  "is_pending r \<longleftrightarrow> rw_state r = Some ReqPending"

text \<open>The order clause \<^verbatim>\<open>[{ created_at: ASC }, { request_id: ASC }]\<close> of the queue queries, on strings.\<close>

definition queue_key :: "row \<Rightarrow> ustring option \<times> ustring option" where
  "queue_key r = (str_field r ''created_at'', str_field r ''request_id'')"

definition in_queue_order :: "(doc_id \<times> row) list \<Rightarrow> (doc_id \<times> row) list" where
  "in_queue_order rows = sort_key (\<lambda>x. queue_key (snd x)) rows"

section \<open>Requests\<close>

record agent_request =
  ag_doc_id :: doc_id
  ag_request_id :: ustring
  ag_agent_did :: ustring
  ag_requester_did :: "ustring option"
  ag_behavior_id :: "ustring option"
  ag_session_id :: ustring
  ag_content :: ustring
  ag_temperature :: "nat option"
  ag_top_p :: "nat option"
  ag_top_k :: "int option"
  ag_seed :: "int option"
  ag_max_tokens :: "int option"
  ag_max_total_tokens :: "int option"
  ag_metadata :: "ustring option"
  ag_execution_origin :: "ustring option"
  ag_created_at :: ustring
  ag_deadline :: "ustring option"
  ag_execution_generation :: "ustring option"
  ag_execution_lease_expires_at :: "ustring option"
  ag_execution_progress_seq :: nat
  ag_subagent_depth :: nat
  ag_parent_request_id :: "ustring option"
  ag_parent_request_doc_id :: "ustring option"
  ag_parent_tool_call_id :: "ustring option"
  ag_parent_tool_call_doc_id :: "ustring option"
  ag_trigger_id :: "ustring option"
  ag_trigger_kind :: "ustring option"
  ag_source_doc_id :: "ustring option"
  ag_correlation :: "ustring option"
  ag_trigger_context :: "ustring option"
  ag_workspace_id :: "ustring option"
  ag_workspace_authority :: "ustring option"
  ag_workspace_owner_deployment_id :: "ustring option"
  ag_workspace_seal_hash :: "ustring option"

datatype request_error =
    MissingRequestColumn string
  | DepthOutOfRange int
  | ProgressOutOfRange int
  | NegativeSeed
  | NonPositiveTokenLimit
  | ParentLinkageIncoherent

type_synonym json_reader = "ustring \<Rightarrow> json option"
type_synonym queue_reader = "ustring \<Rightarrow> request_queue_metadata option"

definition has_automated_trigger_lineage :: "agent_request \<Rightarrow> bool" where
  "has_automated_trigger_lineage a \<longleftrightarrow>
     (case ag_trigger_id a of None \<Rightarrow> False | Some v \<Rightarrow> trim v \<noteq> []) \<and>
     map_option trim (ag_trigger_kind a) \<in> {Some (lit ''event''), Some (lit ''schedule'')}"

definition is_steering_queue :: "json_reader \<Rightarrow> ustring option \<Rightarrow> bool" where
  "is_steering_queue J metadata =
     (case nonblank metadata of
        None \<Rightarrow> False
      | Some m \<Rightarrow>
          (case J m of
             None \<Rightarrow> False
           | Some v \<Rightarrow>
               Option.bind (Option.bind (json_get (lit ''queue'') v) (json_get (lit ''source''))) json_as_str
                 = Some (lit ''steering'')))"

definition validate_agent_request ::
  "json_reader \<Rightarrow> queue_reader \<Rightarrow> agent_request \<Rightarrow> request_error + unit" where
  "validate_agent_request J Q a =
     (if (case ag_seed a of None \<Rightarrow> False | Some s \<Rightarrow> s < 0) then Inl NegativeSeed
      else if (case ag_max_total_tokens a of None \<Rightarrow> False | Some n \<Rightarrow> n \<le> 0) then Inl NonPositiveTokenLimit
      else
        let has_parent_req = (ag_parent_request_id a \<noteq> None);
            has_parent_tc = (ag_parent_tool_call_id a \<noteq> None);
            has_parent_req_doc = (ag_parent_request_doc_id a \<noteq> None);
            has_parent_tc_doc = (ag_parent_tool_call_doc_id a \<noteq> None);
            request_only_control_link =
              (has_parent_req \<and> \<not> has_parent_tc \<and>
               (is_steering_queue J (ag_metadata a) \<or> is_goal_queue Q (ag_metadata a) \<or>
                is_automated_wakeup Q (ag_metadata a)))
        in if has_parent_req \<noteq> has_parent_req_doc \<or> has_parent_tc \<noteq> has_parent_tc_doc
           then Inl ParentLinkageIncoherent
           else if has_parent_req \<noteq> has_parent_tc \<and> \<not> request_only_control_link
           then Inl ParentLinkageIncoherent
           else if 0 < ag_subagent_depth a \<and> \<not> request_only_control_link \<and>
                \<not> (has_parent_req \<and> has_parent_tc \<and> has_parent_req_doc \<and> has_parent_tc_doc)
           then Inl ParentLinkageIncoherent
           else if \<not> has_parent_req \<and> ag_subagent_depth a \<noteq> 0 then Inl ParentLinkageIncoherent
           else if has_parent_req \<and> ag_subagent_depth a = 0 \<and> \<not> request_only_control_link
           then Inl ParentLinkageIncoherent
           else Inr ())"

text \<open>\<^verbatim>\<open>u32::try_from\<close> and \<^verbatim>\<open>u64::try_from\<close> on an optional signed column, missing as zero.\<close>

definition unsigned_column :: "(int \<Rightarrow> 'e) \<Rightarrow> nat \<Rightarrow> int option \<Rightarrow> 'e + nat" where
  "unsigned_column err width v =
     (case v of
        None \<Rightarrow> Inr 0
      | Some n \<Rightarrow> if 0 \<le> n \<and> n < 2 ^ width then Inr (nat n) else Inl (err n))"

definition agent_request_of_row ::
  "json_reader \<Rightarrow> queue_reader \<Rightarrow> request_row \<Rightarrow> request_error + agent_request" where
  "agent_request_of_row J Q r =
     bind_res (unsigned_column DepthOutOfRange 32 (rw_int r ''subagent_depth'')) (\<lambda>depth.
     bind_res (ok_or (MissingRequestColumn ''agent_did'') (rw_str r ''agent_did'')) (\<lambda>did.
     bind_res (ok_or (MissingRequestColumn ''session_id'') (rw_str r ''session_id'')) (\<lambda>session.
     bind_res (ok_or (MissingRequestColumn ''content'') (rw_str r ''content'')) (\<lambda>content.
     bind_res (ok_or (MissingRequestColumn ''created_at'') (rw_str r ''created_at'')) (\<lambda>created.
     bind_res (unsigned_column ProgressOutOfRange 64 (rw_int r ''execution_progress_seq'')) (\<lambda>progress.
     let a = \<lparr>ag_doc_id = rw_doc_id r, ag_request_id = rw_request_id r, ag_agent_did = did,
        ag_requester_did = nonblank (rw_str r ''requester_did''),
        ag_behavior_id = nonblank (rw_str r ''behavior_id''),
        ag_session_id = session, ag_content = content,
        ag_temperature = float_field (rw_cols r) ''temperature'',
        ag_top_p = float_field (rw_cols r) ''top_p'',
        ag_top_k = rw_int r ''top_k'', ag_seed = rw_int r ''seed'',
        ag_max_tokens = rw_int r ''max_tokens'', ag_max_total_tokens = rw_int r ''max_total_tokens'',
        ag_metadata = rw_str r ''metadata'',
        ag_execution_origin = nonblank (rw_str r ''execution_origin''),
        ag_created_at = created, ag_deadline = nonblank (rw_str r ''deadline''),
        ag_execution_generation = nonblank (rw_str r ''execution_generation''),
        ag_execution_lease_expires_at = nonblank (rw_str r ''execution_lease_expires_at''),
        ag_execution_progress_seq = progress, ag_subagent_depth = depth,
        ag_parent_request_id = rw_str r ''caused_by_parent_request_id'',
        ag_parent_request_doc_id = rw_str r ''caused_by_parent_request_doc_id'',
        ag_parent_tool_call_id = rw_str r ''caused_by_parent_tool_call_id'',
        ag_parent_tool_call_doc_id = rw_str r ''caused_by_parent_tool_call_doc_id'',
        ag_trigger_id = nonblank (rw_str r ''caused_by_trigger_id''),
        ag_trigger_kind = nonblank (rw_str r ''caused_by_trigger_kind''),
        ag_source_doc_id = nonblank (rw_str r ''caused_by_source_doc_id''),
        ag_correlation = nonblank (rw_str r ''caused_by_correlation''),
        ag_trigger_context = nonblank (rw_str r ''caused_by_trigger_context''),
        ag_workspace_id = nonblank (rw_str r ''workspace_id''),
        ag_workspace_authority = nonblank (rw_str r ''workspace_authority''),
        ag_workspace_owner_deployment_id = nonblank (rw_str r ''workspace_owner_deployment_id''),
        ag_workspace_seal_hash = nonblank (rw_str r ''workspace_seal_hash'')\<rparr>
     in bind_res (validate_agent_request J Q a) (\<lambda>_. Inr a)))))))"

text \<open>A workspace-bound request runs only on the deployment that owns the workspace.\<close>

definition workspace_bound_request_claimable ::
  "ustring option \<Rightarrow> ustring option \<Rightarrow> ustring option \<Rightarrow> bool" where
  "workspace_bound_request_claimable local_deployment_id workspace_id owner_deployment_id =
     (let owner = nonblank owner_deployment_id in
      if nonblank workspace_id = None \<and> owner = None then True
      else case (owner, nonblank local_deployment_id) of
          (Some o', Some l) \<Rightarrow> o' = l
        | _ \<Rightarrow> False)"

section \<open>Selection\<close>

datatype preclaim_signal = SigNone | SigTerminal | SigMalformed

definition preclaim_signal_of ::
  "(ustring \<Rightarrow> instant option) \<Rightarrow> instant \<Rightarrow> request_row \<Rightarrow> preclaim_signal" where
  "preclaim_signal_of P now r =
     (if nonblank (rw_str r ''interrupt_requested_at'') \<noteq> None then SigTerminal
      else case parse_valid_until (\<lambda>s. ok_or s (P s)) (rw_str r ''valid_until'') now of
          Expired _ \<Rightarrow> SigTerminal
        | Malformed _ \<Rightarrow> SigMalformed
        | NotSet \<Rightarrow> SigNone
        | Live _ \<Rightarrow> SigNone)"

definition background_completion_aging_threshold :: int where
  "background_completion_aging_threshold = 30 * 1000000000"

definition is_aged_background_completion_wakeup ::
  "queue_reader \<Rightarrow> (ustring \<Rightarrow> instant option) \<Rightarrow> instant \<Rightarrow> request_row \<Rightarrow> bool" where
  "is_aged_background_completion_wakeup Q P now r =
     (if rw_str r ''execution_origin'' \<noteq> Some (lit ''scheduled'') \<or>
         \<not> is_automated_wakeup Q (rw_str r ''metadata'') then False
      else case Option.bind (rw_str r ''created_at'') P of
          None \<Rightarrow> False
        | Some created_at \<Rightarrow> background_completion_aging_threshold \<le> now - created_at)"

definition prioritize_aged_background_wakes ::
  "queue_reader \<Rightarrow> (ustring \<Rightarrow> instant option) \<Rightarrow> instant \<Rightarrow> request_row list \<Rightarrow> request_row list" where
  "prioritize_aged_background_wakes Q P now rows =
     sort_key (\<lambda>r. \<not> is_aged_background_completion_wakeup Q P now r) rows"

definition row_session :: "request_row \<Rightarrow> ustring" where
  "row_session r = (case rw_str r ''session_id'' of None \<Rightarrow> [] | Some s \<Rightarrow> s)"

text \<open>The loop over the coherent rows, with the sessions in which a pending row was seen. The code reads the clock
  once for every row it tests, so \<open>clock\<close> is a function of the row.\<close>

fun claimable_loop ::
  "(ustring \<Rightarrow> instant option) \<Rightarrow> (request_row \<Rightarrow> instant) \<Rightarrow> ustring set \<Rightarrow> ustring set \<Rightarrow> request_row list \<Rightarrow> request_row list" where
  "claimable_loop P clock blocked seen [] = []"
| "claimable_loop P clock blocked seen (r # rows) =
     (let s = row_session r in
      if is_pending r then
        (case preclaim_signal_of P (clock r) r of
           SigTerminal \<Rightarrow> [r]
         | SigMalformed \<Rightarrow> []
         | SigNone \<Rightarrow> if s \<notin> blocked \<and> s \<notin> seen then [r] else [])
        @ claimable_loop P clock blocked (insert s seen) rows
      else claimable_loop P clock blocked seen rows)"

definition coherent :: "json_reader \<Rightarrow> queue_reader \<Rightarrow> request_row \<Rightarrow> bool" where
  "coherent J Q r = (case agent_request_of_row J Q r of Inl _ \<Rightarrow> False | Inr _ \<Rightarrow> True)"

definition claimable_pending_rows_from_rows ::
  "json_reader \<Rightarrow> queue_reader \<Rightarrow> (ustring \<Rightarrow> instant option) \<Rightarrow> (request_row \<Rightarrow> instant) \<Rightarrow> request_row list \<Rightarrow> request_row list" where
  "claimable_pending_rows_from_rows J Q P clock rows =
     (let blocked = set (List.map_filter (\<lambda>r. if is_pending r then None else rw_str r ''session_id'') rows)
      in claimable_loop P clock blocked {} (filter (coherent J Q) rows))"

section \<open>Rejection at ingest\<close>

definition terminalize_pending_request_rejection ::
  "(instant \<Rightarrow> ustring) \<Rightarrow> 'db node \<Rightarrow> (nat \<Rightarrow> 'db \<Rightarrow> 'db) \<Rightarrow> instant \<Rightarrow> doc_id \<Rightarrow> ustring \<Rightarrow> ustring \<Rightarrow> 'db \<Rightarrow>
   (ustring + unit) \<times> 'db" where
  "terminalize_pending_request_rejection print N sleeping now d agent_did reason db =
     (case retry_terminal_persistence_operation terminal_persistence_max_retries
         terminal_persistence_initial_backoff_ms
         (\<lambda>_. nd_update N AREQ
            [(''_docID'', Is (GStr d)), (''agent_did'', Is (GStr agent_did)),
             (''lifecycle_state'', Is (GStr (lit ''pending'')))]
            [(''lifecycle_state'', GStr (lit ''failed'')), (''failure_reason'', GStr reason),
             (''terminalized_at'', GStr (print now)), (''terminal_redrive_attempts'', GInt 0)])
         sleeping 0 db of
        (Inl e, db') \<Rightarrow> (Inl e, db')
      | (Inr _, db') \<Rightarrow> (Inr (), db'))"

text \<open>What parsing leaves of a row that does not decode, when it can be attributed.\<close>

record malformed_pending_row =
  mp_doc_id :: doc_id
  mp_agent_did :: ustring
  mp_state :: "ustring option"

fun parse_active_runtime_rows :: "(doc_id \<times> row) list \<Rightarrow> request_row list \<times> malformed_pending_row list" where
  "parse_active_runtime_rows [] = ([], [])"
| "parse_active_runtime_rows ((d, r) # xs) =
     (let (rows, malformed) = parse_active_runtime_rows xs in
      case request_row_of (d, r) of
        Some row \<Rightarrow> (row # rows, malformed)
      | None \<Rightarrow>
          (case str_field r ''agent_did'' of
             None \<Rightarrow> (rows, malformed)
           | Some did \<Rightarrow>
               (rows, \<lparr>mp_doc_id = d, mp_agent_did = did, mp_state = str_field r ''lifecycle_state''\<rparr> # malformed)))"

record watcher =
  wt_agent_did :: ustring
  wt_local_deployment_id :: "ustring option"
  wt_processed :: "(ustring \<times> instant) list"

definition with_local_deployment_id :: "watcher \<Rightarrow> ustring \<Rightarrow> watcher" where
  "with_local_deployment_id w deployment_id =
     (if trim deployment_id \<noteq> [] then w\<lparr>wt_local_deployment_id := Some deployment_id\<rparr> else w)"

definition request_is_locally_claimable :: "watcher \<Rightarrow> agent_request \<Rightarrow> bool" where
  "request_is_locally_claimable w a =
     workspace_bound_request_claimable (wt_local_deployment_id w) (ag_workspace_id a)
       (ag_workspace_owner_deployment_id a)"

text \<open>The libraries and the environment a scan uses, and the two rejections; a rejection that
  cannot be persisted is logged and the scan goes on.\<close>

record 'db scan_env =
  se_json :: json_reader
  se_queue :: queue_reader
  se_parse :: "ustring \<Rightarrow> instant option"
  se_print :: "instant \<Rightarrow> ustring"
  se_error_text :: "request_error \<Rightarrow> ustring"
  se_node :: "'db node"
  se_sleeping :: "nat \<Rightarrow> 'db \<Rightarrow> 'db"
  se_now :: instant
  se_row_now :: "request_row \<Rightarrow> instant"

definition terminalize_incoherent_pending_request ::
  "'db scan_env \<Rightarrow> watcher \<Rightarrow> request_row \<Rightarrow> request_error \<Rightarrow> 'db \<Rightarrow> 'db" where
  "terminalize_incoherent_pending_request E w r e db =
     snd (terminalize_pending_request_rejection (se_print E) (se_node E) (se_sleeping E) (se_now E)
       (rw_doc_id r) (wt_agent_did w)
       (lit ''request rejected at ingest: incoherent durable lineage ('' @ se_error_text E e @ lit '')'') db)"

definition terminalize_malformed_pending_request ::
  "'db scan_env \<Rightarrow> watcher \<Rightarrow> malformed_pending_row \<Rightarrow> 'db \<Rightarrow> 'db" where
  "terminalize_malformed_pending_request E w m db =
     (if mp_agent_did m \<noteq> wt_agent_did w \<or> mp_state m \<noteq> Some (lit ''pending'') then db
      else snd (terminalize_pending_request_rejection (se_print E) (se_node E) (se_sleeping E) (se_now E)
        (mp_doc_id m) (wt_agent_did w)
        (lit ''request rejected at ingest: malformed durable AgentRequest row'') db))"

section \<open>Scans\<close>

definition active_runtime_values :: "gval list" where
  "active_runtime_values = map (\<lambda>s. GStr (request_as_str s)) (filter request_is_active_runtime request_all)"

definition reject_incoherent :: "'db scan_env \<Rightarrow> watcher \<Rightarrow> request_row \<Rightarrow> 'db \<Rightarrow> 'db" where
  "reject_incoherent E w r db =
     (if is_pending r then
        (case agent_request_of_row (se_json E) (se_queue E) r of
           Inl e \<Rightarrow> terminalize_incoherent_pending_request E w r e db
         | Inr _ \<Rightarrow> db)
      else db)"

fun collect_res :: "('e + 'a) list \<Rightarrow> 'e + 'a list" where
  "collect_res [] = Inr []"
| "collect_res (x # xs) = bind_res x (\<lambda>a. bind_res (collect_res xs) (\<lambda>rest. Inr (a # rest)))"

datatype scan_error = ScanQuery ustring | ScanUndecodable | ScanRow request_error

definition pending_requests ::
  "'db scan_env \<Rightarrow> watcher \<Rightarrow> 'db \<Rightarrow> (scan_error + agent_request list) \<times> 'db" where
  "pending_requests E w db =
     (case nd_query (se_node E) AREQ
         [(''agent_did'', Is (GStr (wt_agent_did w))), (''lifecycle_state'', OneOf active_runtime_values)] db of
        Inl e \<Rightarrow> (Inl (ScanQuery e), db)
      | Inr found \<Rightarrow>
          (let (rows, malformed) = parse_active_runtime_rows (in_queue_order found);
               db1 = fold (terminalize_malformed_pending_request E w) malformed db;
               db2 = fold (reject_incoherent E w) rows db1;
               chosen = prioritize_aged_background_wakes (se_queue E) (se_parse E) (se_now E)
                 (claimable_pending_rows_from_rows (se_json E) (se_queue E) (se_parse E) (se_row_now E) rows);
               results = filter (\<lambda>x. case x of Inl _ \<Rightarrow> True | Inr a \<Rightarrow> request_is_locally_claimable w a)
                 (map (agent_request_of_row (se_json E) (se_queue E)) chosen)
           in (case collect_res results of Inl e \<Rightarrow> Inl (ScanRow e) | Inr as \<Rightarrow> Inr as, db2)))"

definition row_is_claimable ::
  "'db scan_env \<Rightarrow> request_row \<Rightarrow> agent_request \<Rightarrow> 'db \<Rightarrow> scan_error + bool" where
  "row_is_claimable E row a db =
     (if \<not> is_pending row then Inr False
      else case preclaim_signal_of (se_parse E) (se_now E) row of
          SigTerminal \<Rightarrow> Inr True
        | SigMalformed \<Rightarrow> Inr False
        | SigNone \<Rightarrow>
            (case nd_query (se_node E) AREQ
                [(''session_id'', Is (GStr (ag_session_id a))),
                 (''lifecycle_state'', OneOf active_runtime_values)] db of
               Inl e \<Rightarrow> Inl (ScanQuery e)
             | Inr found \<Rightarrow>
                 (case those (map request_row_of (in_queue_order found)) of
                    None \<Rightarrow> Inl ScanUndecodable
                  | Some rows \<Rightarrow>
                      if list_ex (\<lambda>c. rw_doc_id c \<noteq> ag_doc_id a \<and> \<not> is_pending c) rows then Inr False
                      else Inr (case List.find is_pending rows of
                          None \<Rightarrow> False | Some c \<Rightarrow> rw_doc_id c = ag_doc_id a))))"

definition try_fetch_request ::
  "'db scan_env \<Rightarrow> watcher \<Rightarrow> doc_id \<Rightarrow> 'db \<Rightarrow> (scan_error + agent_request option) \<times> 'db" where
  "try_fetch_request E w d db =
     (case nd_query (se_node E) AREQ
         [(''_docID'', Is (GStr d)), (''agent_did'', Is (GStr (wt_agent_did w))),
          (''lifecycle_state'', Is (GStr (lit ''pending'')))] db of
        Inl e \<Rightarrow> (Inl (ScanQuery e), db)
      | Inr found \<Rightarrow>
          (let (rows, malformed) = parse_active_runtime_rows (take 1 found);
               db1 = fold (terminalize_malformed_pending_request E w) malformed db
           in case rows of
                [] \<Rightarrow> (Inr None, db1)
              | row # _ \<Rightarrow>
                  (case agent_request_of_row (se_json E) (se_queue E) row of
                     Inl e \<Rightarrow> (Inr None, terminalize_incoherent_pending_request E w row e db1)
                   | Inr a \<Rightarrow>
                       (case row_is_claimable E row a db1 of
                          Inl e \<Rightarrow> (Inl e, db1)
                        | Inr ok \<Rightarrow>
                            (Inr (if ok \<and> request_is_locally_claimable w a then Some a else None), db1)))))"

section \<open>Cooldown\<close>

definition max_processed_ids :: nat where
  "max_processed_ids = 10000"

definition processed_request_cooldown :: int where
  "processed_request_cooldown = 30 * 1000000000"

text \<open>\<^verbatim>\<open>Instant::saturating_duration_since\<close>.\<close>

definition duration_since :: "instant \<Rightarrow> instant \<Rightarrow> int" where
  "duration_since now earlier = max 0 (now - earlier)"

definition prune_processed_requests :: "(ustring \<times> instant) list \<Rightarrow> instant \<Rightarrow> (ustring \<times> instant) list" where
  "prune_processed_requests processed now =
     (let kept = filter (\<lambda>(_, at). duration_since now at < processed_request_cooldown) processed
      in if max_processed_ids < length kept then [] else kept)"

definition request_is_cooling_down ::
  "(ustring \<times> instant) list \<Rightarrow> ustring \<Rightarrow> instant \<Rightarrow> bool \<times> (ustring \<times> instant) list" where
  "request_is_cooling_down processed request_id now =
     (case map_of processed request_id of
        None \<Rightarrow> (False, processed)
      | Some at \<Rightarrow>
          if duration_since now at < processed_request_cooldown then (True, processed)
          else (False, filter (\<lambda>(k, _). k \<noteq> request_id) processed))"

definition mark_processed ::
  "(ustring \<times> instant) list \<Rightarrow> ustring \<Rightarrow> instant \<Rightarrow> (ustring \<times> instant) list" where
  "mark_processed processed request_id now =
     (request_id, now) # filter (\<lambda>(k, _). k \<noteq> request_id) processed"

fun take_next_eligible_pending_request ::
  "(ustring \<times> instant) list \<Rightarrow> agent_request list \<Rightarrow> instant \<Rightarrow>
   agent_request option \<times> (ustring \<times> instant) list" where
  "take_next_eligible_pending_request processed [] now = (None, processed)"
| "take_next_eligible_pending_request processed (a # as) now =
     (case request_is_cooling_down processed (ag_request_id a) now of
        (True, processed') \<Rightarrow> take_next_eligible_pending_request processed' as now
      | (False, processed') \<Rightarrow> (Some a, mark_processed processed' (ag_request_id a) now))"

text \<open>One pass of the loop in \<^verbatim>\<open>next_request\<close>: \<open>tick\<close> is the monotonic clock.\<close>

definition watch_scan ::
  "'db scan_env \<Rightarrow> instant \<Rightarrow> watcher \<Rightarrow> 'db \<Rightarrow> (scan_error + agent_request option) \<times> watcher \<times> 'db" where
  "watch_scan E tick w db =
     (let w1 = w\<lparr>wt_processed := prune_processed_requests (wt_processed w) tick\<rparr> in
      case pending_requests E w1 db of
        (Inl e, db') \<Rightarrow> (Inl e, w1, db')
      | (Inr as, db') \<Rightarrow>
          (let (next, processed) = take_next_eligible_pending_request (wt_processed w1) as tick
           in (Inr next, w1\<lparr>wt_processed := processed\<rparr>, db')))"

section \<open>Selection: facts\<close>

lemma coherent_session: "coherent J Q r \<Longrightarrow> rw_str r ''session_id'' = Some (row_session r)"
  by (auto simp: coherent_def agent_request_of_row_def row_session_def split: sum.splits
      elim!: bind_resE)

lemma claimable_loop_iff:
  assumes "distinct rows" and "rows = pre @ r # post"
  shows "r \<in> set (claimable_loop P clock blocked seen rows) \<longleftrightarrow>
    is_pending r \<and>
    (case preclaim_signal_of P (clock r) r of
       SigTerminal \<Rightarrow> True
     | SigMalformed \<Rightarrow> False
     | SigNone \<Rightarrow> row_session r \<notin> blocked \<and> row_session r \<notin> seen \<and>
         (\<forall>q \<in> set pre. is_pending q \<longrightarrow> row_session q \<noteq> row_session r))"
  using assms
proof (induction rows arbitrary: seen pre)
  case Nil
  then show ?case by simp
next
  case (Cons x rows)
  have sub: "set (claimable_loop P clock blocked sn ys) \<subseteq> set ys" for sn ys
    by (induction ys arbitrary: sn) (auto simp: Let_def split: preclaim_signal.splits if_splits)
  show ?case
  proof (cases pre)
    case Nil
    then have "r = x" "r \<notin> set rows" using Cons.prems by auto
    with sub have "r \<notin> set (claimable_loop P clock blocked sn rows)" for sn by blast
    with \<open>r = x\<close> Nil show ?thesis
      by (auto simp: Let_def split: preclaim_signal.splits)
  next
    case (Cons y pre')
    then have "y = x" "rows = pre' @ r # post" "r \<noteq> x" "distinct rows" using Cons.prems by auto
    with Cons.IH [of pre'] Cons show ?thesis
      by (auto simp: Let_def split: preclaim_signal.splits)
  qed
qed

lemma sort_key_bool: "sort_key (\<lambda>x. \<not> p x) xs = filter p xs @ filter (\<lambda>x. \<not> p x) xs"
proof -
  have "insort_key (\<lambda>x. \<not> p x) x (filter p ys @ filter (\<lambda>x. \<not> p x) ys) =
      filter p (x # ys) @ filter (\<lambda>x. \<not> p x) (x # ys)" for x ys
  proof (cases "p x")
    case True
    then show ?thesis
      by (cases "filter p ys @ filter (\<lambda>x. \<not> p x) ys") auto
  next
    case False
    have "insort_key (\<lambda>x. \<not> p x) x (as @ bs) = as @ x # bs"
      if "\<forall>a \<in> set as. p a" "\<forall>b \<in> set bs. \<not> p b" for as bs
      using that False by (induction as) (cases bs; auto)+
    then show ?thesis using False by simp
  qed
  then show ?thesis
    by (induction xs) (auto simp del: insort_key.simps)
qed

text \<open>The first pending coherent row of a session, with nothing of the session running.\<close>

definition heads_session :: "json_reader \<Rightarrow> queue_reader \<Rightarrow> request_row list \<Rightarrow> request_row list \<Rightarrow> request_row \<Rightarrow> bool" where
  "heads_session J Q rows pre r \<longleftrightarrow>
     (\<forall>q \<in> set rows. rw_str q ''session_id'' = rw_str r ''session_id'' \<longrightarrow> is_pending q) \<and>
     (\<forall>q \<in> set pre. coherent J Q q \<and> is_pending q \<longrightarrow> rw_str q ''session_id'' \<noteq> rw_str r ''session_id'')"

lemma map_filter_member: "y \<in> set (List.map_filter f xs) \<longleftrightarrow> (\<exists>x \<in> set xs. f x = Some y)"
  by (induction xs) (auto simp: List.map_filter_simps split: option.splits)

lemma blocked_iff:
  assumes "rw_str r ''session_id'' = Some (row_session r)"
  shows "row_session r \<notin> set (List.map_filter (\<lambda>q. if is_pending q then None else rw_str q ''session_id'') rows) \<longleftrightarrow>
    (\<forall>q \<in> set rows. rw_str q ''session_id'' = rw_str r ''session_id'' \<longrightarrow> is_pending q)"
  using assms by (auto simp: map_filter_member split: if_splits)

lemma claimable_rows_iff:
  assumes "distinct rows" and "rows = pre @ r # post" and "coherent J Q r"
  shows "r \<in> set (claimable_pending_rows_from_rows J Q P clock rows) \<longleftrightarrow>
    is_pending r \<and>
    (case preclaim_signal_of P (clock r) r of
       SigTerminal \<Rightarrow> True | SigMalformed \<Rightarrow> False | SigNone \<Rightarrow> heads_session J Q rows pre r)"
proof -
  let ?f = "filter (coherent J Q)"
  have "?f rows = ?f pre @ r # ?f post" using assms(2,3) by simp
  moreover have "distinct (?f rows)" using assms(1) by (rule distinct_filter)
  ultimately have "?f rows = ?f pre @ r # ?f post" "distinct (?f rows)" .
  note iff = claimable_loop_iff [OF this(2,1)]
  have same: "coherent J Q q \<Longrightarrow> rw_str q ''session_id'' = rw_str r ''session_id'' \<longleftrightarrow> row_session q = row_session r" for q
    using coherent_session [OF assms(3)] coherent_session [of J Q q] by simp
  have seen: "(\<forall>q \<in> set (?f pre). is_pending q \<longrightarrow> row_session q \<noteq> row_session r) \<longleftrightarrow>
      (\<forall>q \<in> set pre. coherent J Q q \<and> is_pending q \<longrightarrow> rw_str q ''session_id'' \<noteq> rw_str r ''session_id'')"
    using same by auto
  show ?thesis
    unfolding claimable_pending_rows_from_rows_def Let_def iff heads_session_def seen
      blocked_iff [OF coherent_session [OF assms(3)]]
    by (auto split: preclaim_signal.splits)
qed

lemma claimable_rows_coherent:
  assumes "r \<in> set (claimable_pending_rows_from_rows J Q P clock rows)"
  shows "r \<in> set rows \<and> coherent J Q r"
proof -
  have "set (claimable_loop P clock blocked sn ys) \<subseteq> set ys" for blocked sn ys
    by (induction ys arbitrary: sn) (auto simp: Let_def split: preclaim_signal.splits if_splits)
  with assms show ?thesis
    by (fastforce simp: claimable_pending_rows_from_rows_def Let_def)
qed

section \<open>Cooldown: facts\<close>

text \<open>The table after a scan, and what a hand-out says of the table before.\<close>

definition cooling :: "(ustring \<times> instant) list \<Rightarrow> ustring \<Rightarrow> instant \<Rightarrow> bool" where
  "cooling processed k now \<longleftrightarrow>
     (\<exists>at. map_of processed k = Some at \<and> duration_since now at < processed_request_cooldown)"

lemma cooling_check:
  assumes "request_is_cooling_down ps k now = (b, ps')"
  shows "b \<longleftrightarrow> cooling ps k now" and "b \<Longrightarrow> ps' = ps" and "length ps' \<le> length ps"
    and "distinct (map fst ps) \<Longrightarrow> distinct (map fst ps')"
    and "cooling ps k' now \<Longrightarrow> map_of ps' k' = map_of ps k'"
  using assms
  by (auto simp: request_is_cooling_down_def cooling_def map_of_filter_key distinct_map_filter
      split: option.splits if_splits)

lemma mark_processed_facts:
  "map_of (mark_processed ps k now) k = Some now"
  "k' \<noteq> k \<Longrightarrow> map_of (mark_processed ps k now) k' = map_of ps k'"
  "length (mark_processed ps k now) \<le> Suc (length ps)"
  "distinct (map fst ps) \<Longrightarrow> distinct (map fst (mark_processed ps k now))"
  by (auto simp: mark_processed_def map_of_filter_key distinct_map_filter)

lemma take_next_facts:
  assumes "take_next_eligible_pending_request ps as now = (res, ps')"
  shows "length ps' \<le> Suc (length ps) \<and> (distinct (map fst ps) \<longrightarrow> distinct (map fst ps')) \<and>
    (\<forall>k. cooling ps k now \<longrightarrow> map_of ps' k = map_of ps k) \<and>
    (\<forall>a. res = Some a \<longrightarrow> \<not> cooling ps (ag_request_id a) now \<and> map_of ps' (ag_request_id a) = Some now)"
  using assms
proof (induction as arbitrary: ps)
  case Nil
  then show ?case by simp
next
  case (Cons a as)
  obtain b qs where q: "request_is_cooling_down ps (ag_request_id a) now = (b, qs)" by force
  note c = cooling_check [OF q]
  show ?case
  proof (cases b)
    case True
    with Cons.prems q c(2) have "take_next_eligible_pending_request ps as now = (res, ps')" by simp
    then show ?thesis by (rule Cons.IH)
  next
    case False
    then have r: "res = Some a" "ps' = mark_processed qs (ag_request_id a) now"
      using Cons.prems q by auto
    have len: "length ps' \<le> Suc (length ps)"
      using r(2) c(3) mark_processed_facts(3) [of qs "ag_request_id a" now] by simp
    have keep: "map_of ps' k = map_of ps k" if "cooling ps k now" for k
    proof -
      have "k \<noteq> ag_request_id a" using that False c(1) by blast
      then show ?thesis using r(2) c(5) [OF that] mark_processed_facts(2) by simp
    qed
    show ?thesis
      using len keep r False c(1) c(4) mark_processed_facts(1,4) by simp
  qed
qed

lemma prune_facts:
  assumes "length ps \<le> max_processed_ids"
  shows "map_of ps k = Some at \<Longrightarrow> distinct (map fst ps) \<Longrightarrow> duration_since now at < processed_request_cooldown \<Longrightarrow>
      map_of (prune_processed_requests ps now) k = Some at"
    and "length (prune_processed_requests ps now) \<le> length ps"
proof -
  let ?kept = "filter (\<lambda>(_, at). duration_since now at < processed_request_cooldown) ps"
  have len: "length ?kept \<le> length ps" by simp
  with assms have "\<not> max_processed_ids < length ?kept" by linarith
  then have p: "prune_processed_requests ps now = ?kept"
    by (simp add: prune_processed_requests_def)
  show "length (prune_processed_requests ps now) \<le> length ps" using p len by simp
  assume k: "map_of ps k = Some at" "distinct (map fst ps)" "duration_since now at < processed_request_cooldown"
  then have "(k, at) \<in> set ?kept" by (auto dest: map_of_SomeD)
  moreover have "distinct (map fst ?kept)" using k(2) by (simp add: distinct_map_filter)
  ultimately show "map_of (prune_processed_requests ps now) k = Some at" unfolding p by simp
qed

text \<open>A run of scans, each on whatever the store then holds, and the requests it hands out.\<close>

fun hand_outs :: "('db scan_env \<times> instant \<times> 'db) list \<Rightarrow> watcher \<Rightarrow> (instant \<times> ustring) list" where
  "hand_outs [] w = []"
| "hand_outs ((E, tick, db) # scans) w =
     (case watch_scan E tick w db of
        (Inr (Some a), w', _) \<Rightarrow> (tick, ag_request_id a) # hand_outs scans w'
      | (_, w', _) \<Rightarrow> hand_outs scans w')"

lemma watch_scan_table:
  assumes "watch_scan E tick w db = (res, w', db')" and "length (wt_processed w) < max_processed_ids"
    and "distinct (map fst (wt_processed w))"
  shows "length (wt_processed w') \<le> Suc (length (wt_processed w))" (is ?len)
    and "distinct (map fst (wt_processed w'))" (is ?dist)
    and "cooling (wt_processed w) k tick \<Longrightarrow> map_of (wt_processed w') k = map_of (wt_processed w) k"
    and "res = Inr (Some a) \<Longrightarrow> \<not> cooling (wt_processed w) (ag_request_id a) tick"
    and "res = Inr (Some a) \<Longrightarrow> map_of (wt_processed w') (ag_request_id a) = Some tick"
proof -
  define ps where "ps = prune_processed_requests (wt_processed w) tick"
  have le: "length (wt_processed w) \<le> max_processed_ids" using assms(2) by simp
  note p = prune_facts [OF le]
  have len: "length ps \<le> length (wt_processed w)" unfolding ps_def by (rule p(2))
  have cool: "cooling (wt_processed w) k tick \<Longrightarrow> map_of ps k = map_of (wt_processed w) k \<and> cooling ps k tick" for k
    using p(1) [OF _ assms(3)] unfolding ps_def cooling_def by fastforce
  have dist: "distinct (map fst ps)"
    using assms(3) by (simp add: ps_def prune_processed_requests_def Let_def distinct_map_filter)
  consider (err) e where "res = Inl e" "wt_processed w' = ps"
    | (ok) as nxt where "take_next_eligible_pending_request ps as tick = (nxt, wt_processed w')" "res = Inr nxt"
    using assms(1) unfolding watch_scan_def ps_def
    by (auto simp: Let_def split: prod.splits sum.splits)
  note cases' = this
  have "?len \<and> ?dist \<and>
    (\<forall>k. cooling (wt_processed w) k tick \<longrightarrow> map_of (wt_processed w') k = map_of (wt_processed w) k) \<and>
    (\<forall>a. res = Inr (Some a) \<longrightarrow> \<not> cooling (wt_processed w) (ag_request_id a) tick \<and>
      map_of (wt_processed w') (ag_request_id a) = Some tick)"
  proof (cases rule: cases')
    case err
    then show ?thesis using len dist cool by simp
  next
    case ok
    note f = take_next_facts [OF ok(1)]
    have "length (wt_processed w') \<le> Suc (length (wt_processed w))" using f len by linarith
    moreover have "\<not> cooling (wt_processed w) k tick" if "\<not> cooling ps k tick" for k
      using cool that by blast
    ultimately show ?thesis using f ok(2) dist cool by simp
  qed
  then show ?len ?dist
    and "cooling (wt_processed w) k tick \<Longrightarrow> map_of (wt_processed w') k = map_of (wt_processed w) k"
    and "res = Inr (Some a) \<Longrightarrow> \<not> cooling (wt_processed w) (ag_request_id a) tick"
    and "res = Inr (Some a) \<Longrightarrow> map_of (wt_processed w') (ag_request_id a) = Some tick"
    by blast+
qed

lemma hand_outs_step:
  assumes "watch_scan E tick w db = (res, w', db')"
  shows "hand_outs ((E, tick, db) # scans) w =
    (case res of Inr (Some a) \<Rightarrow> [(tick, ag_request_id a)] | _ \<Rightarrow> []) @ hand_outs scans w'"
  using assms by (auto split: sum.splits option.splits)

lemma hand_out_ticks: "(t, k) \<in> set (hand_outs scans w) \<Longrightarrow> t \<in> set (map (\<lambda>x. fst (snd x)) scans)"
proof (induction scans arbitrary: w)
  case Nil
  then show ?case by simp
next
  case (Cons x scans)
  obtain E tick db where x: "x = (E, tick, db)" by (cases x)
  obtain res w' db' where s: "watch_scan E tick w db = (res, w', db')" by (metis prod_cases3)
  from Cons.prems consider "t = tick" | "(t, k) \<in> set (hand_outs scans w')"
    unfolding x hand_outs_step [OF s] by (auto split: sum.splits option.splits)
  then show ?case using Cons.IH x by cases auto
qed

lemma cooling_not_handed:
  assumes "map_of (wt_processed w) k = Some at" and "sorted (at # map (\<lambda>x. fst (snd x)) scans)"
    and "length (wt_processed w) + length scans \<le> max_processed_ids" and "distinct (map fst (wt_processed w))"
    and "(t, k) \<in> set (hand_outs scans w)"
  shows "at + processed_request_cooldown \<le> t"
  using assms
proof (induction scans arbitrary: w)
  case Nil
  then show ?case by simp
next
  case (Cons x scans)
  obtain E tick db where x: "x = (E, tick, db)" by (cases x)
  obtain res w' db' where s: "watch_scan E tick w db = (res, w', db')" by (metis prod_cases3)
  have lt: "length (wt_processed w) < max_processed_ids" using Cons.prems(3) by simp
  note sc = watch_scan_table [OF s lt Cons.prems(4)]
  show ?case
  proof (cases "tick < at + processed_request_cooldown")
    case True
    have le: "at \<le> tick" using Cons.prems(2) x by simp
    with True have c: "cooling (wt_processed w) k tick"
      using Cons.prems(1) by (auto simp: cooling_def duration_since_def)
    then have "(t, k) \<in> set (hand_outs scans w')"
      using Cons.prems(5) sc(4) unfolding x hand_outs_step [OF s] by (auto split: sum.splits option.splits)
    moreover have "map_of (wt_processed w') k = Some at" using sc(3) [OF c] Cons.prems(1) by simp
    moreover have "sorted (at # map (\<lambda>x. fst (snd x)) scans)" using Cons.prems(2) by simp
    ultimately show ?thesis
      using Cons.IH [of w'] Cons.prems(3) sc(1,2) by simp
  next
    case False
    have "t \<in> set (map (\<lambda>x. fst (snd x)) (x # scans))"
      using Cons.prems(5) by (rule hand_out_ticks)
    then have "tick \<le> t" using Cons.prems(2) x by auto
    with False show ?thesis by simp
  qed
qed

section \<open>Guarantees\<close>

text \<open>C23. The scan selects the head of each session. A coherent row is selected exactly when it is
  pending and either already asks to be ended (an interrupt or an expired time-to-live), or carries no
  malformed time-to-live, is the first pending coherent row of its session in queue order, and no row
  of the session, coherent or not, is running.\<close>

theorem scan_selects_session_heads:
  assumes "distinct rows" and "rows = pre @ r # post"
  shows "r \<in> set (claimable_pending_rows_from_rows J Q P clock rows) \<longleftrightarrow>
    coherent J Q r \<and> is_pending r \<and>
    (case preclaim_signal_of P (clock r) r of
       SigTerminal \<Rightarrow> True | SigMalformed \<Rightarrow> False | SigNone \<Rightarrow> heads_session J Q rows pre r)"
  using claimable_rows_iff [OF assms] claimable_rows_coherent by blast

text \<open>Aged wake-ups go first and nothing else is reordered: the ranking is the aged wake-ups in
  queue order followed by the other rows in queue order.\<close>

theorem aged_wakes_first:
  "prioritize_aged_background_wakes Q P now rows =
     filter (is_aged_background_completion_wakeup Q P now) rows @
     filter (\<lambda>r. \<not> is_aged_background_completion_wakeup Q P now r) rows"
  unfolding prioritize_aged_background_wakes_def by (rule sort_key_bool)

text \<open>C24. Hand-outs are spaced. In any run of at most ten thousand scans of a fresh watcher, on whatever
  the store holds at each of them, the same request is handed out again only after the cooldown.\<close>

theorem hand_outs_spaced:
  assumes "sorted (map (\<lambda>x. fst (snd x)) scans)" and "length scans \<le> max_processed_ids"
    and "wt_processed w = []" and "hand_outs scans w = as @ (t, k) # bs" and "(u, k) \<in> set bs"
  shows "t + processed_request_cooldown \<le> u"
proof -
  have "t + processed_request_cooldown \<le> u"
    if "sorted (map (\<lambda>x. fst (snd x)) ys)" "length (wt_processed v) + length ys \<le> max_processed_ids"
      "distinct (map fst (wt_processed v))" "hand_outs ys v = as @ (t, k) # bs" for ys v as
    using that
  proof (induction ys arbitrary: v as)
    case Nil
    then show ?case by simp
  next
    case (Cons x ys)
    obtain E tick db where x: "x = (E, tick, db)" by (cases x)
    obtain res v' db' where s: "watch_scan E tick v db = (res, v', db')" by (metis prod_cases3)
    have lt: "length (wt_processed v) < max_processed_ids" using Cons.prems(2) by simp
    note sc = watch_scan_table [OF s lt Cons.prems(3)]
    have rest: "sorted (map (\<lambda>x. fst (snd x)) ys)" "length (wt_processed v') + length ys \<le> max_processed_ids"
      "distinct (map fst (wt_processed v'))" using Cons.prems(1,2) sc(1,2) by auto
    note h = Cons.prems(4) [unfolded x hand_outs_step [OF s]]
    show ?case
    proof (cases "\<exists>a. res = Inr (Some a)")
      case False
      with h have "hand_outs ys v' = as @ (t, k) # bs" by (auto split: sum.splits option.splits)
      with Cons.IH rest show ?thesis by blast
    next
      case True
      then obtain a where a: "res = Inr (Some a)" by blast
      show ?thesis
      proof (cases as)
        case Nil
        with h a have "t = tick" "k = ag_request_id a" "bs = hand_outs ys v'" by auto
        moreover have "sorted (tick # map (\<lambda>x. fst (snd x)) ys)" using Cons.prems(1) x by simp
        ultimately show ?thesis
          using cooling_not_handed [of v' k t ys u] sc(5) [OF a] rest assms(5) by simp
      next
        case (Cons y as')
        with h a have "hand_outs ys v' = as' @ (t, k) # bs" by auto
        with Cons.IH rest show ?thesis by blast
      qed
    qed
  qed
  from this [of scans w as] assms show ?thesis by simp
qed

text \<open>A pending row that carries no interrupt and whose time-to-live does not parse is not selected, and it
  keeps its place in the session: a later request of the session is not selected either, unless it asks to be
  ended itself.\<close>

theorem malformed_ttl_blocks_session:
  assumes "distinct rows" and "rows = pre @ r # post" and "q \<in> set pre"
    and "coherent J Q q" and "is_pending q" and "preclaim_signal_of P (clock q) q = SigMalformed"
    and "rw_str q ''session_id'' = rw_str r ''session_id''" and "preclaim_signal_of P (clock r) r = SigNone"
  shows "q \<notin> set (claimable_pending_rows_from_rows J Q P clock rows) \<and>
         r \<notin> set (claimable_pending_rows_from_rows J Q P clock rows)"
proof -
  obtain a b where "pre = a @ q # b" using assms(3) by (meson split_list)
  then have "rows = a @ q # (b @ r # post)" using assms(2) by simp
  from claimable_rows_iff [OF assms(1) this assms(4)] assms(6)
  have q: "q \<notin> set (claimable_pending_rows_from_rows J Q P clock rows)" by simp
  have "\<not> heads_session J Q rows pre r"
    using assms(3-5,7) unfolding heads_session_def by blast
  then have r: "r \<notin> set (claimable_pending_rows_from_rows J Q P clock rows)"
    using claimable_rows_iff [OF assms(1,2), of J Q P clock]
      claimable_rows_coherent [of r J Q P clock rows] assms(8) by auto
  from q r show ?thesis ..
qed

section \<open>Witnesses\<close>

definition demo_cols :: row where
  "demo_cols = [''request_id'' \<mapsto> GStr (lit ''r1''), ''agent_did'' \<mapsto> GStr (lit ''did:a''),
     ''session_id'' \<mapsto> GStr (lit ''s1''), ''content'' \<mapsto> GStr (lit ''hi''),
     ''created_at'' \<mapsto> GStr (lit ''2026''), ''lifecycle_state'' \<mapsto> GStr (lit ''pending'')]"

definition demo_row :: request_row where
  "demo_row = \<lparr>rw_doc_id = lit ''d1'', rw_request_id = lit ''r1'', rw_state = Some ReqPending,
     rw_cols = demo_cols\<rparr>"

definition demo_env :: "mem_db scan_env" where
  "demo_env = \<lparr>se_json = \<lambda>_. None, se_queue = \<lambda>_. None, se_parse = \<lambda>_. None, se_print = \<lambda>_. [],
     se_error_text = \<lambda>_. [], se_node = mem_node, se_sleeping = \<lambda>_ db. db, se_now = 0, se_row_now = \<lambda>_. 0\<rparr>"

definition demo_watcher :: watcher where
  "demo_watcher = \<lparr>wt_agent_did = lit ''did:a'', wt_local_deployment_id = None, wt_processed = []\<rparr>"

definition demo_db :: mem_db where
  "demo_db = [((AREQ, lit ''d1''), demo_cols)]"

lemmas demo_simps = demo_cols_def demo_row_def demo_env_def demo_watcher_def demo_db_def

lemma demo_request:
  "\<exists>a. agent_request_of_row (\<lambda>_. None) (\<lambda>_. None) demo_row = Inr a \<and> ag_request_id a = lit ''r1'' \<and>
     ag_workspace_id a = None \<and> ag_workspace_owner_deployment_id a = None"
  by (simp add: agent_request_of_row_def demo_row_def demo_cols_def str_field_def int_field_def
      unsigned_column_def validate_agent_request_def nonblank_def)

theorem scan_selects_session_heads_witness:
  "demo_row \<in> set (claimable_pending_rows_from_rows (\<lambda>_. None) (\<lambda>_. None) (\<lambda>_. None) (\<lambda>_. 0) [demo_row])"
proof -
  have "coherent (\<lambda>_. None) (\<lambda>_. None) demo_row"
    using demo_request by (auto simp: coherent_def)
  moreover have "preclaim_signal_of (\<lambda>_. None) 0 demo_row = SigNone"
    by (simp add: preclaim_signal_of_def demo_row_def demo_cols_def str_field_def nonblank_def parse_valid_until_def)
  moreover have "is_pending demo_row" by (simp add: is_pending_def demo_row_def)
  ultimately show ?thesis
    using scan_selects_session_heads [of "[demo_row]" "[]" demo_row "[]" "\<lambda>_. None" "\<lambda>_. None" "\<lambda>_. None" "\<lambda>_. 0"]
    by (simp add: heads_session_def)
qed

definition demo_bad_row :: request_row where
  "demo_bad_row = \<lparr>rw_doc_id = lit ''d0'', rw_request_id = lit ''r0'', rw_state = Some ReqPending,
     rw_cols = demo_cols(''request_id'' \<mapsto> GStr (lit ''r0''), ''valid_until'' \<mapsto> GStr (lit ''soon''))\<rparr>"

theorem malformed_ttl_blocks_session_witness:
  "demo_bad_row \<notin> set (claimable_pending_rows_from_rows (\<lambda>_. None) (\<lambda>_. None) (\<lambda>_. None) (\<lambda>_. 0) [demo_bad_row, demo_row]) \<and>
   demo_row \<notin> set (claimable_pending_rows_from_rows (\<lambda>_. None) (\<lambda>_. None) (\<lambda>_. None) (\<lambda>_. 0) [demo_bad_row, demo_row])"
proof (rule malformed_ttl_blocks_session [where pre = "[demo_bad_row]" and q = demo_bad_row and r = demo_row and post = "[]"])
  show "distinct [demo_bad_row, demo_row]" by (simp add: demo_bad_row_def demo_row_def)
  show "coherent (\<lambda>_. None) (\<lambda>_. None) demo_bad_row"
    by (simp add: coherent_def agent_request_of_row_def demo_bad_row_def demo_cols_def str_field_def int_field_def
        unsigned_column_def validate_agent_request_def nonblank_def)
  show "preclaim_signal_of (\<lambda>_. None) 0 demo_bad_row = SigMalformed"
    by (simp add: preclaim_signal_of_def demo_bad_row_def demo_cols_def str_field_def nonblank_def parse_valid_until_def)
  show "preclaim_signal_of (\<lambda>_. None) 0 demo_row = SigNone"
    by (simp add: preclaim_signal_of_def demo_row_def demo_cols_def str_field_def nonblank_def parse_valid_until_def)
qed (simp_all add: is_pending_def demo_bad_row_def demo_row_def demo_cols_def str_field_def)

lemma demo_pending: "\<exists>a. pending_requests demo_env (demo_watcher\<lparr>wt_processed := ps\<rparr>) demo_db = (Inr [a], demo_db) \<and> ag_request_id a = lit ''r1''"
proof -
  obtain a where a: "agent_request_of_row (\<lambda>_. None) (\<lambda>_. None) demo_row = Inr a" "ag_request_id a = lit ''r1''"
      "ag_workspace_id a = None" "ag_workspace_owner_deployment_id a = None"
    using demo_request by blast
  let ?flt = "[(''agent_did'', Is (GStr (lit ''did:a''))), (''lifecycle_state'', OneOf active_runtime_values)]"
  have q: "mem_hits AREQ ?flt demo_db = [(lit ''d1'', demo_cols)]"
    by (simp add: mem_hits_def demo_db_def demo_cols_def active_runtime_values_def request_all_def
        request_is_active_runtime_def)
  have row: "request_row_of (lit ''d1'', demo_cols) = Some demo_row"
    by (simp add: request_row_of_def demo_row_def demo_cols_def str_field_def request_parse_def)
  have rows: "parse_active_runtime_rows (in_queue_order [(lit ''d1'', demo_cols)]) = ([demo_row], [])"
    by (simp add: in_queue_order_def row)
  have sel: "claimable_pending_rows_from_rows (\<lambda>_. None) (\<lambda>_. None) (\<lambda>_. None) (\<lambda>_. 0) [demo_row] = [demo_row]"
  proof -
    have "preclaim_signal_of (\<lambda>_. None) 0 demo_row = SigNone"
      by (simp add: preclaim_signal_of_def demo_row_def demo_cols_def str_field_def nonblank_def parse_valid_until_def)
    moreover have "is_pending demo_row" by (simp add: is_pending_def demo_row_def)
    ultimately show ?thesis
      using a(1) by (simp add: claimable_pending_rows_from_rows_def coherent_def List.map_filter_def)
  qed
  have pr: "prioritize_aged_background_wakes (\<lambda>_. None) (\<lambda>_. None) 0 [demo_row] = [demo_row]"
    by (simp add: prioritize_aged_background_wakes_def)
  have rej: "reject_incoherent demo_env (demo_watcher\<lparr>wt_processed := ps\<rparr>) demo_row demo_db = demo_db"
    by (simp add: reject_incoherent_def demo_env_def a(1))
  have loc: "request_is_locally_claimable (demo_watcher\<lparr>wt_processed := ps\<rparr>) a"
    by (simp add: request_is_locally_claimable_def workspace_bound_request_claimable_def a nonblank_def)
  show ?thesis
    unfolding pending_requests_def
    using rows sel pr rej loc a
    by (simp add: demo_env_def demo_watcher_def mem_calls q)
qed

lemma demo_hand_outs:
  "hand_outs [(demo_env, 0, demo_db), (demo_env, 31 * 1000000000, demo_db)] demo_watcher =
     [(0, lit ''r1''), (31 * 1000000000, lit ''r1'')]"
proof -
  obtain a where a: "pending_requests demo_env (demo_watcher\<lparr>wt_processed := []\<rparr>) demo_db = (Inr [a], demo_db)"
    "ag_request_id a = lit ''r1''" using demo_pending by blast
  have "watch_scan demo_env t (demo_watcher\<lparr>wt_processed := ps\<rparr>) demo_db =
      (Inr (Some a), demo_watcher\<lparr>wt_processed := [(lit ''r1'', t)]\<rparr>, demo_db)"
    if "prune_processed_requests ps t = []" for ps t
    using that a by (simp add: watch_scan_def request_is_cooling_down_def mark_processed_def)
  from this [of "[]" 0] this [of "[(lit ''r1'', 0)]" "31 * 1000000000"]
  show ?thesis
    using a(2)
    by (simp add: prune_processed_requests_def duration_since_def processed_request_cooldown_def demo_watcher_def)
qed

theorem hand_outs_spaced_witness:
  "hand_outs [(demo_env, 0, demo_db), (demo_env, 31 * 1000000000, demo_db)] demo_watcher =
     [(0, lit ''r1''), (31 * 1000000000, lit ''r1'')] \<and>
   0 + processed_request_cooldown \<le> 31 * 1000000000"
proof
  show h: "hand_outs [(demo_env, 0, demo_db), (demo_env, 31 * 1000000000, demo_db)] demo_watcher =
     [(0, lit ''r1''), (31 * 1000000000, lit ''r1'')]" by (rule demo_hand_outs)
  show "0 + processed_request_cooldown \<le> 31 * 1000000000"
    by (rule hand_outs_spaced [where as = "[]" and bs = "[(31 * 1000000000, lit ''r1'')]" and k = "lit ''r1''" and
          scans = "[(demo_env, 0, demo_db), (demo_env, 31 * 1000000000, demo_db)]" and w = demo_watcher])
       (simp_all only: h append_Nil, simp_all add: max_processed_ids_def demo_watcher_def)
qed

end
