(* ===== verification/Request_Claim.thy ===== *)
theory Request_Claim
  imports Watcher Execution_Lease
begin

text \<open>
  Claiming a request: \<^verbatim>\<open>gents/src/lifecycle/claim.rs\<close>, the queries of \<^verbatim>\<open>lifecycle/query.rs\<close> and the
  session projection of \<^verbatim>\<open>lifecycle/materialize.rs\<close>. A claim reads the interrupt and time-to-live
  columns, checks that the request heads its session's queue, and then takes it in one transaction
  that also projects the session. Reads and the transaction are separate calls: \<open>ce_meanwhile\<close> is what
  the rest of the system does in between. The fields that a mutation's response selects are read
  from the store it has just written; \<open>ce_commits\<close> is the commit history the database keeps.
\<close>

section \<open>The handle\<close>

record request_lifecycle =
  rq_agent_name :: ustring
  rq_agent_did :: ustring
  rq_behavior_id :: ustring
  rq_execution_origin :: execution_origin
  rq_backend_id :: ustring
  rq_failure_reason :: "ustring option"
  rq_request :: agent_request
  rq_request_commit_cid :: "ustring option"
  rq_response_doc_id :: "doc_id option"
  rq_progress_seq :: nat
  rq_deadline_duration_secs :: nat
  rq_claimed_deadline_at :: "instant option"
  rq_input_through_sequence :: "nat option"
  rq_state :: local_lifecycle_state
  rq_valid_until_at_claim :: "instant option"
  rq_generation :: "ustring option"
  rq_lease_duration_secs :: nat

definition default_stream_liveness_timeout_secs :: nat where
  "default_stream_liveness_timeout_secs = 1800"

definition new_with_execution_binding ::
  "ustring \<Rightarrow> ustring \<Rightarrow> agent_request \<Rightarrow> nat \<Rightarrow> execution_origin \<Rightarrow> ustring \<Rightarrow> request_lifecycle" where
  "new_with_execution_binding agent_name agent_did request deadline_secs origin backend_id =
     \<lparr>rq_agent_name = agent_name, rq_agent_did = agent_did,
      rq_behavior_id = resolve_behavior_id agent_name (ag_behavior_id request),
      rq_execution_origin = origin, rq_backend_id = backend_id, rq_failure_reason = None,
      rq_request = request, rq_request_commit_cid = None, rq_response_doc_id = None,
      rq_progress_seq = 0, rq_deadline_duration_secs = deadline_secs, rq_claimed_deadline_at = None,
      rq_input_through_sequence = None, rq_state = LPending, rq_valid_until_at_claim = None,
      rq_generation = None, rq_lease_duration_secs = default_stream_liveness_timeout_secs\<rparr>"

text \<open>The part of the handle that the execution lease works on.\<close>

definition owner_of :: "request_lifecycle \<Rightarrow> request_owner" where
  "owner_of lc =
     \<lparr>ro_request_doc_id = ag_doc_id (rq_request lc), ro_failure_reason = rq_failure_reason lc,
      ro_response_doc_id = rq_response_doc_id lc, ro_progress_seq = rq_progress_seq lc,
      ro_state = rq_state lc, ro_generation = rq_generation lc,
      ro_lease_duration_secs = rq_lease_duration_secs lc\<rparr>"

datatype claim_error =
    ClaimStore ustring
  | ClaimUndecodable
  | ClaimRow request_error
  | ClaimBadState string local_lifecycle_state
  | ClaimNotFound
  | ClaimBadValidUntil ustring
  | CannotTransition request_state "request_state option"
  | ClaimManyDocuments nat
  | ClaimNotPending
  | ClaimNoVersion
  | ClaimAmbiguousVersion
  | ClaimWrongDocument doc_id
  | SessionBehaviorMismatch ustring ustring ustring
  | NoAdmissionResponse

definition rq_ensure_state ::
  "local_lifecycle_state list \<Rightarrow> string \<Rightarrow> request_lifecycle \<Rightarrow> claim_error + unit" where
  "rq_ensure_state expected action lc =
     (if rq_state lc \<in> set expected then Inr () else Inl (ClaimBadState action (rq_state lc)))"

record 'db claim_env =
  ce_json :: json_reader
  ce_queue :: queue_reader
  ce_time :: rfc3339
  ce_node :: "'db node"
  ce_txn :: "'db txn"
  ce_commits :: "doc_id \<Rightarrow> 'db \<Rightarrow> (ustring \<times> int \<times> ustring) list"
  ce_sleeping :: "nat \<Rightarrow> 'db \<Rightarrow> 'db"
  ce_meanwhile :: "nat \<Rightarrow> 'db \<Rightarrow> 'db"

section \<open>Reads\<close>

definition find_request_row :: "'db node \<Rightarrow> doc_id \<Rightarrow> 'db \<Rightarrow> claim_error + request_row option" where
  "find_request_row N d db =
     (case nd_query N AREQ [(''_docID'', Is (GStr d))] db of
        Inl e \<Rightarrow> Inl (ClaimStore e)
      | Inr rows \<Rightarrow>
          (case first_of rows of
             None \<Rightarrow> Inr None
           | Some x \<Rightarrow> bind_res (ok_or ClaimUndecodable (request_row_of x)) (\<lambda>r. Inr (Some r))))"

definition request_view :: "'db node \<Rightarrow> request_lifecycle \<Rightarrow> 'db \<Rightarrow> claim_error + request_row option" where
  "request_view N lc db = find_request_row N (ag_doc_id (rq_request lc)) db"

definition fetch_interrupt_and_ttl ::
  "'db node \<Rightarrow> doc_id \<Rightarrow> 'db \<Rightarrow> claim_error + (ustring option \<times> ustring option)" where
  "fetch_interrupt_and_ttl N d db =
     bind_res (find_request_row N d db) (\<lambda>row.
     bind_res (ok_or ClaimNotFound row) (\<lambda>r.
     Inr (opt_filter (\<lambda>s. s \<noteq> []) (rw_str r ''interrupt_requested_at''),
          opt_filter (\<lambda>s. s \<noteq> []) (rw_str r ''valid_until''))))"

record dedup_plan =
  dp_is_earliest :: bool
  dp_blocking_request_id :: "ustring option"

definition dedup_of_rows :: "doc_id \<Rightarrow> request_row list \<Rightarrow> dedup_plan" where
  "dedup_of_rows d rows =
     (let active_blocker = List.find (\<lambda>r. rw_doc_id r \<noteq> d \<and> rw_state r \<noteq> Some ReqPending) rows;
          first_pending = List.find (\<lambda>r. rw_state r = Some ReqPending) rows
      in \<lparr>dp_is_earliest =
            (active_blocker = None \<and>
             (case first_pending of None \<Rightarrow> False | Some r \<Rightarrow> rw_doc_id r = d)),
          dp_blocking_request_id =
            map_option rw_request_id
              (or_else active_blocker (opt_filter (\<lambda>r. rw_doc_id r \<noteq> d) first_pending))\<rparr>)"

definition check_deduplication ::
  "'db node \<Rightarrow> request_lifecycle \<Rightarrow> 'db \<Rightarrow> claim_error + dedup_plan" where
  "check_deduplication N lc db =
     (case nd_query N AREQ
         [(''session_id'', Is (GStr (ag_session_id (rq_request lc)))),
          (''lifecycle_state'', OneOf active_runtime_values)] db of
        Inl e \<Rightarrow> Inl (ClaimStore e)
      | Inr found \<Rightarrow>
          bind_res (ok_or ClaimUndecodable (those (map request_row_of (in_queue_order found)))) (\<lambda>rows.
          Inr (dedup_of_rows (ag_doc_id (rq_request lc)) rows)))"

section \<open>Ending a pending request\<close>

text \<open>The compare-and-set on a pending row and, when it misses, the look at what the row has become.\<close>

definition end_pending ::
  "'db claim_env \<Rightarrow> input \<Rightarrow> request_state \<Rightarrow> request_lifecycle \<Rightarrow> 'db \<Rightarrow> (claim_error + bool) \<times> 'db" where
  "end_pending E inp target lc db =
     (case retry_terminal_persistence_operation terminal_persistence_max_retries
         terminal_persistence_initial_backoff_ms
         (\<lambda>_. nd_update (ce_node E) AREQ
            [(''_docID'', Is (GStr (ag_doc_id (rq_request lc)))),
             (''agent_did'', Is (GStr (ag_agent_did (rq_request lc)))),
             (''lifecycle_state'', Is (GStr (lit ''pending'')))] inp)
         (ce_sleeping E) 0 db of
        (Inl e, db1) \<Rightarrow> (Inl (ClaimStore e), db1)
      | (Inr resp, db1) \<Rightarrow>
          if update_hit AREQ resp then (Inr True, db1)
          else (case request_view (ce_node E) lc db1 of
                  Inl e \<Rightarrow> (Inl e, db1)
                | Inr v \<Rightarrow>
                    if Option.bind v rw_state = Some target then (Inr False, db1)
                    else (Inl (CannotTransition target (Option.bind v rw_state)), db1)))"

definition interrupted_input :: "rfc3339 \<Rightarrow> instant \<Rightarrow> input" where
  "interrupted_input F now =
     [(''lifecycle_state'', GStr (lit ''interrupted'')), (''terminalized_at'', GStr (rf_print F now)),
      (''terminal_redrive_attempts'', GInt 0)]"

definition stale_input :: "rfc3339 \<Rightarrow> instant \<Rightarrow> input" where
  "stale_input F now =
     [(''lifecycle_state'', GStr (lit ''dead'')), (''failure_reason'', GStr (lit ''Stale'')),
      (''terminalized_at'', GStr (rf_print F now)), (''terminal_redrive_attempts'', GInt 0)]"

definition transition_pending_to_interrupted ::
  "'db claim_env \<Rightarrow> instant \<Rightarrow> request_lifecycle \<Rightarrow> 'db \<Rightarrow> (claim_error + unit) \<times> request_lifecycle \<times> 'db" where
  "transition_pending_to_interrupted E now lc db =
     (case end_pending E (interrupted_input (ce_time E) now) ReqInterrupted lc db of
        (Inl e, db1) \<Rightarrow> (Inl e, lc, db1)
      | (Inr _, db1) \<Rightarrow> (Inr (), lc, db1))"

definition transition_pending_to_dead_stale ::
  "'db claim_env \<Rightarrow> instant \<Rightarrow> request_lifecycle \<Rightarrow> 'db \<Rightarrow> (claim_error + unit) \<times> request_lifecycle \<times> 'db" where
  "transition_pending_to_dead_stale E now lc db =
     (case end_pending E (stale_input (ce_time E) now) ReqDead lc db of
        (Inl e, db1) \<Rightarrow> (Inl e, lc, db1)
      | (Inr won, db1) \<Rightarrow>
          (Inr (), if won then lc\<lparr>rq_failure_reason := Some (lit ''Stale'')\<rparr> else lc, db1))"

text \<open>Refusing a request at admission: the request fails and an error response is created with it.\<close>

definition rejection_input :: "rfc3339 \<Rightarrow> instant \<Rightarrow> ustring \<Rightarrow> input" where
  "rejection_input F now reason =
     [(''lifecycle_state'', GStr (lit ''failed'')), (''failure_reason'', GStr reason),
      (''terminalized_at'', GStr (rf_print F now)), (''terminal_redrive_attempts'', GInt 0)]"

definition rejection_response :: "rfc3339 \<Rightarrow> instant \<Rightarrow> ustring \<Rightarrow> request_lifecycle \<Rightarrow> input" where
  "rejection_response F now reason lc =
     (let a = rq_request lc; stamp = rf_print F now in
      [(''response_key'', GStr (ag_request_id a)), (''request_id'', GStr (ag_request_id a)),
       (''request_doc_id'', GStr (ag_doc_id a)), (''agent_did'', GStr (ag_agent_did a))] @
      requester_did_create_field (ag_requester_did a) @
      [(''behavior_id'', GStr (rq_behavior_id lc)), (''session_id'', GStr (ag_session_id a)),
       (''content'', GStr (lit ''Error: '' @ reason)), (''reasoning'', GStr []),
       (''status'', GStr (lit ''error'')), (''error_message'', GStr reason), (''token_count'', GInt 0),
       (''progress_seq'', GInt 0), (''created_at'', GStr stamp), (''completed_at'', GStr stamp)])"

definition reject_body ::
  "'db claim_env \<Rightarrow> instant \<Rightarrow> ustring \<Rightarrow> request_lifecycle \<Rightarrow> 'db \<Rightarrow> (claim_error + doc_id option) \<times> 'db" where
  "reject_body E now reason lc db =
     (case nd_update (ce_node E) AREQ
         [(''_docID'', Is (GStr (ag_doc_id (rq_request lc)))),
          (''agent_did'', Is (GStr (ag_agent_did (rq_request lc)))),
          (''lifecycle_state'', Is (GStr (lit ''pending'')))]
         (rejection_input (ce_time E) now reason) db of
        (Inl e, db1) \<Rightarrow> (Inl (ClaimStore e), db1)
      | (Inr resp, db1) \<Rightarrow>
          if \<not> update_hit AREQ resp then (Inr None, db1)
          else (case nd_create (ce_node E) ARSP (rejection_response (ce_time E) now reason lc) db1 of
                  (Inl e, db2) \<Rightarrow> (Inl (ClaimStore e), db2)
                | (Inr resp2, db2) \<Rightarrow>
                    (case extract_single_doc_id resp2 (lit ''create_AgentResponse'') of
                       None \<Rightarrow> (Inl NoAdmissionResponse, db2)
                     | Some rsp \<Rightarrow> (Inr (Some rsp), db2))))"

definition reject_admission ::
  "'db claim_env \<Rightarrow> instant \<Rightarrow> ustring \<Rightarrow> request_lifecycle \<Rightarrow> 'db \<Rightarrow>
   (claim_error + unit) \<times> request_lifecycle \<times> 'db" where
  "reject_admission E now reason lc db =
     (case rq_ensure_state [LPending] ''reject_admission'' lc of
        Inl e \<Rightarrow> (Inl e, lc, db)
      | Inr _ \<Rightarrow>
          (let finish = (\<lambda>rsp. lc\<lparr>rq_response_doc_id := rsp, rq_failure_reason := Some reason, rq_state := LFailed\<rparr>) in
           case retry_terminal_persistence_operation terminal_persistence_max_retries
               terminal_persistence_initial_backoff_ms
               (\<lambda>_. txn_attempt (ce_txn E) ClaimStore (\<lambda>_. True) (reject_body E now reason lc))
               (ce_sleeping E) 0 db of
             (Inl e, db1) \<Rightarrow> (Inl e, lc, db1)
           | (Inr (Some rsp), db1) \<Rightarrow> (Inr (), finish (Some rsp), db1)
           | (Inr None, db1) \<Rightarrow>
               (case request_view (ce_node E) lc db1 of
                  Inl e \<Rightarrow> (Inl e, lc, db1)
                | Inr v \<Rightarrow>
                    if Option.bind v rw_state = Some ReqFailed then (Inr (), finish None, db1)
                    else (Inl (CannotTransition ReqFailed (Option.bind v rw_state)), lc, db1))))"

section \<open>The session projection\<close>

definition conversation_title_from_metadata :: "json_reader \<Rightarrow> ustring option \<Rightarrow> ustring option" where
  "conversation_title_from_metadata J metadata =
     nonblank (Option.bind (Option.bind (Option.bind metadata J) (json_get (lit ''conversation_title''))) json_as_str)"

definition derive_conversation_preview :: "ustring \<Rightarrow> ustring" where
  "derive_conversation_preview content = take 240 (join_with (lit '' '') (split_whitespace content))"

record request_session_projection =
  sp_session_id :: ustring
  sp_behavior_id :: ustring
  sp_session_update :: input
  sp_session_create :: input
  sp_conversation_update :: input
  sp_conversation_create :: input

definition request_session_projection_of ::
  "json_reader \<Rightarrow> agent_request \<Rightarrow> ustring \<Rightarrow> ustring \<Rightarrow> ustring \<Rightarrow> ustring \<Rightarrow> request_session_projection" where
  "request_session_projection_of J a agent_name agent_did behavior_id started =
     (let requester = requester_did_create_field (ag_requester_did a);
          title = conversation_title_from_metadata J (ag_metadata a);
          preview = derive_conversation_preview (ag_content a);
          (title_text, title_source) =
            (case title of None \<Rightarrow> ([], lit ''placeholder'') | Some t \<Rightarrow> (t, lit ''task''))
      in \<lparr>sp_session_id = ag_session_id a, sp_behavior_id = behavior_id,
          sp_session_update =
            [(''agent_name'', GStr agent_name), (''behavior_id'', GStr behavior_id),
             (''status'', GStr (lit ''active'')), (''ended'', GNull)],
          sp_session_create =
            [(''session_id'', GStr (ag_session_id a)), (''agent_name'', GStr agent_name),
             (''agent_did'', GStr agent_did)] @ requester @
            [(''behavior_id'', GStr behavior_id), (''started'', GStr started),
             (''status'', GStr (lit ''active''))],
          sp_conversation_update =
            [(''agent_name'', GStr agent_name), (''preview_text'', GStr preview),
             (''status'', GStr (lit ''processing'')), (''updated_at'', GStr started),
             (''latest_request_id'', GStr (ag_request_id a))],
          sp_conversation_create =
            [(''session_id'', GStr (ag_session_id a)), (''agent_name'', GStr agent_name),
             (''agent_did'', GStr agent_did)] @ requester @
            [(''behavior_id'', GStr behavior_id), (''title'', GStr title_text),
             (''title_source'', GStr title_source), (''preview_text'', GStr preview),
             (''status'', GStr (lit ''processing'')), (''created_at'', GStr started),
             (''updated_at'', GStr started), (''latest_request_id'', GStr (ag_request_id a))]\<rparr>)"

definition existing_other_behavior :: "ustring \<Rightarrow> (doc_id \<times> row) list \<Rightarrow> ustring option" where
  "existing_other_behavior behavior_id sessions =
     List.find (\<lambda>b. b \<noteq> [] \<and> b \<noteq> behavior_id)
       (List.map_filter (\<lambda>(_, r). map_option trim (str_field r ''behavior_id'')) sessions)"

definition apply_request_session_projection ::
  "'db node \<Rightarrow> request_session_projection \<Rightarrow> 'db \<Rightarrow> (claim_error + unit) \<times> 'db" where
  "apply_request_session_projection N p db =
     (let flt = [(''session_id'', Is (GStr (sp_session_id p)))] in
      case nd_query N ''AgentSession'' flt db of
        Inl e \<Rightarrow> (Inl (ClaimStore e), db)
      | Inr sessions \<Rightarrow>
          (case existing_other_behavior (sp_behavior_id p) sessions of
             Some existing \<Rightarrow> (Inl (SessionBehaviorMismatch (sp_session_id p) existing (sp_behavior_id p)), db)
           | None \<Rightarrow>
               (case (if sessions = [] then nd_create N ''AgentSession'' (sp_session_create p) db
                      else nd_update N ''AgentSession'' flt (sp_session_update p) db) of
                  (Inl e, db1) \<Rightarrow> (Inl (ClaimStore e), db1)
                | (Inr _, db1) \<Rightarrow>
                    (case nd_update N ''AgentConversation'' flt (sp_conversation_update p) db1 of
                       (Inl e, db2) \<Rightarrow> (Inl (ClaimStore e), db2)
                     | (Inr resp, db2) \<Rightarrow>
                         if update_hit ''AgentConversation'' resp then (Inr (), db2)
                         else (case nd_create N ''AgentConversation'' (sp_conversation_create p) db2 of
                                 (Inl e, db3) \<Rightarrow> (Inl (ClaimStore e), db3)
                               | (Inr _, db3) \<Rightarrow> (Inr (), db3))))))"

section \<open>The claim transaction\<close>

record background_completion_claim_snapshot =
  bs_through_sequence :: "nat option"
  bs_notification_keys :: "ustring list"

definition snapshot_mutation_fields :: "background_completion_claim_snapshot \<Rightarrow> input" where
  "snapshot_mutation_fields s =
     (case bs_through_sequence s of
        None \<Rightarrow> [] | Some n \<Rightarrow> [(''background_completion_input_through_sequence'', GInt (int n))]) @
     [(''background_completion_notification_keys_json'', GStrs (bs_notification_keys s))]"

text \<open>The last message of the session that fits 32 bits, and the keys of the notifications up to it.\<close>

definition row_sequence :: "doc_id \<times> row \<Rightarrow> nat option" where
  "row_sequence x = Option.bind (int_field (snd x) ''sequence'') (\<lambda>n. if 0 \<le> n then Some (nat n) else None)"

definition take_snapshot ::
  "'db node \<Rightarrow> ustring \<Rightarrow> 'db \<Rightarrow> claim_error + background_completion_claim_snapshot" where
  "take_snapshot N session_id db =
     (case nd_query N ''AgentMessage'' [(''session_id'', Is (GStr session_id))] db of
        Inl e \<Rightarrow> Inl (ClaimStore e)
      | Inr messages \<Rightarrow>
          (case nd_query N ''AgentMessage''
              [(''session_id'', Is (GStr session_id)),
               (''message_key'', StartsWith (lit ''background-completion-notification:''))] db of
             Inl e \<Rightarrow> Inl (ClaimStore e)
           | Inr notifications \<Rightarrow>
               (let through = Option.bind
                      (Option.bind (first_of (rev (sort_key (\<lambda>x. int_field (snd x) ''sequence'') messages)))
                        row_sequence)
                      (\<lambda>n. if n < 2 ^ 32 then Some n else None);
                    covered = filter (\<lambda>x. case (row_sequence x, through) of
                        (Some n, Some cutoff) \<Rightarrow> n \<le> cutoff | _ \<Rightarrow> False)
                      (sort_key (\<lambda>x. int_field (snd x) ''sequence'') notifications)
                in Inr \<lparr>bs_through_sequence = through,
                        bs_notification_keys =
                          List.map_filter (\<lambda>x. str_field (snd x) ''message_key'') covered\<rparr>)))"

text \<open>A commit is its identifier, its height and the field it belongs to; \<^verbatim>\<open>_C\<close> marks the composite
  ones, and the newest must be alone at its height.\<close>

definition unique_newest_composite_commit ::
  "(ustring \<times> int \<times> ustring) list \<Rightarrow> claim_error + ustring option" where
  "unique_newest_composite_commit commits =
     (case sort_key (\<lambda>(cid, height, _). (- height, cid)) commits of
        [] \<Rightarrow> Inr None
      | [c] \<Rightarrow> Inr (Some (fst c))
      | c # c' # _ \<Rightarrow>
          if fst (snd c') = fst (snd c) then Inl ClaimAmbiguousVersion else Inr (Some (fst c)))"

definition document_composite_version ::
  "(ustring \<times> int \<times> ustring) list \<Rightarrow> claim_error + ustring option" where
  "document_composite_version versions =
     unique_newest_composite_commit (filter (\<lambda>(_, _, field). field = lit ''_C'') versions)"

record claim_response =
  cr_documents :: "(doc_id \<times> row) list"
  cr_versions :: "(ustring \<times> int \<times> ustring) list"
  cr_snapshot :: background_completion_claim_snapshot

definition claim_body ::
  "'db claim_env \<Rightarrow> bool \<Rightarrow> request_session_projection \<Rightarrow> doc_id \<Rightarrow> ustring \<Rightarrow> (input \<Rightarrow> input) \<Rightarrow> 'db \<Rightarrow>
   (claim_error + claim_response) \<times> 'db" where
  "claim_body E capture p d session_id build db =
     (let N = ce_node E in
      case (if capture then take_snapshot N session_id db
            else Inr \<lparr>bs_through_sequence = None, bs_notification_keys = []\<rparr>) of
        Inl e \<Rightarrow> (Inl e, db)
      | Inr snap \<Rightarrow>
          (case nd_update N AREQ
              [(''_docID'', Is (GStr d)), (''lifecycle_state'', Is (GStr (lit ''pending'')))]
              (build (if capture then snapshot_mutation_fields snap else [])) db of
             (Inl e, db1) \<Rightarrow> (Inl (ClaimStore e), db1)
           | (Inr resp, db1) \<Rightarrow>
               if \<not> update_hit AREQ resp
               then (Inr \<lparr>cr_documents = [], cr_versions = [], cr_snapshot = snap\<rparr>, db1)
               else (case nd_query N AREQ [(''_docID'', Is (GStr d))] db1 of
                       Inl e \<Rightarrow> (Inl (ClaimStore e), db1)
                     | Inr docs \<Rightarrow>
                         (case apply_request_session_projection N p db1 of
                            (Inl e, db2) \<Rightarrow> (Inl e, db2)
                          | (Inr _, db2) \<Rightarrow>
                              (Inr \<lparr>cr_documents = docs, cr_versions = ce_commits E d db1, cr_snapshot = snap\<rparr>,
                               db2)))))"

definition defra_db_conflict_max_retries :: nat where
  "defra_db_conflict_max_retries = 3"

definition is_defradb_transaction_conflict_text :: "ustring \<Rightarrow> bool" where
  "is_defradb_transaction_conflict_text t \<longleftrightarrow> str_contains (to_ascii_lowercase t) (lit ''transaction conflict'')"

definition is_claim_conflict :: "claim_error \<Rightarrow> bool" where
  "is_claim_conflict e =
     (case e of ClaimStore t \<Rightarrow> is_defradb_transaction_conflict_text (to_ascii_lowercase t) | _ \<Rightarrow> False)"

definition defradb_conflict_retry_backoff :: "nat \<Rightarrow> nat" where
  "defradb_conflict_retry_backoff retry_index = 100 * 2 ^ min retry_index 10"

text \<open>An attempt begins a transaction, and a failure to begin ends the loop; the body, the commit and the retry
  come after that.\<close>

function claim_attempts ::
  "('db \<Rightarrow> ustring option) \<Rightarrow> ('db \<Rightarrow> (claim_error + 'a) \<times> 'db) \<Rightarrow> (nat \<Rightarrow> 'db \<Rightarrow> 'db) \<Rightarrow> nat \<Rightarrow> 'db \<Rightarrow>
   (claim_error + 'a) \<times> 'db" where
  "claim_attempts begins attempt sleeping retry_index db =
     (case begins db of
        Some e \<Rightarrow> (Inl (ClaimStore e), db)
      | None \<Rightarrow>
          (case attempt db of
             (Inr v, db') \<Rightarrow> (Inr v, db')
           | (Inl e, db') \<Rightarrow>
               if retry_index < defra_db_conflict_max_retries \<and> is_claim_conflict e
               then claim_attempts begins attempt sleeping (Suc retry_index)
                      (sleeping (defradb_conflict_retry_backoff retry_index) db')
               else (Inl e, db')))"
  by pat_completeness auto
termination
  by (relation "measure (\<lambda>(_, _, _, i, _). defra_db_conflict_max_retries - i)") auto

declare claim_attempts.simps [simp del]

definition claim_request_with_projection ::
  "'db claim_env \<Rightarrow> bool \<Rightarrow> request_session_projection \<Rightarrow> doc_id \<Rightarrow> ustring \<Rightarrow> (input \<Rightarrow> input) \<Rightarrow> 'db \<Rightarrow>
   (claim_error + claim_response) \<times> 'db" where
  "claim_request_with_projection E capture p d session_id build db =
     claim_attempts (tx_begin (ce_txn E)) (txn_attempt (ce_txn E) ClaimStore (\<lambda>_. True) (claim_body E capture p d session_id build))
       (ce_sleeping E) 0 db"

section \<open>The claim\<close>

definition claim_deadline :: "rfc3339 \<Rightarrow> instant \<Rightarrow> request_lifecycle \<Rightarrow> instant" where
  "claim_deadline F now lc =
     (case Option.bind (ag_deadline (rq_request lc)) (rf_parse F) of
        Some t \<Rightarrow> t
      | None \<Rightarrow> now + int (rq_deadline_duration_secs lc) * 1000000000)"

definition claim_input ::
  "rfc3339 \<Rightarrow> instant \<Rightarrow> ustring \<Rightarrow> request_lifecycle \<Rightarrow> input \<Rightarrow> input" where
  "claim_input F now generation lc snapshot_fields =
     [(''lifecycle_state'', GStr (request_as_str ReqClaimed)), (''backend_id'', GStr (rq_backend_id lc)),
      (''claimed_at'', GStr (rf_print F now)), (''execution_generation'', GStr generation),
      (''execution_lease_expires_at'',
         GStr (rf_print F (now + int (rq_lease_duration_secs lc) * 1000000000))),
      (''execution_progress_seq'', GInt 0)] @ snapshot_fields @
     [(''deadline'', GStr (rf_print F (claim_deadline F now lc)))]"

text \<open>What the response of the claim must be: one decodable document, the one asked for, with one
  newest version.\<close>

definition claimed_request ::
  "'db claim_env \<Rightarrow> doc_id \<Rightarrow> claim_response \<Rightarrow> claim_error + agent_request \<times> ustring" where
  "claimed_request E d resp =
     (case cr_documents resp of
        [] \<Rightarrow> Inl ClaimNotPending
      | [x] \<Rightarrow>
          bind_res (ok_or ClaimUndecodable (request_row_of x)) (\<lambda>row.
          bind_res (case agent_request_of_row (ce_json E) (ce_queue E) row of
              Inl e \<Rightarrow> Inl (ClaimRow e) | Inr a \<Rightarrow> Inr a) (\<lambda>a.
          bind_res (document_composite_version (cr_versions resp)) (\<lambda>v.
          bind_res (ok_or ClaimNoVersion v) (\<lambda>cid.
          if ag_doc_id a \<noteq> d then Inl (ClaimWrongDocument (ag_doc_id a)) else Inr (a, cid)))))
      | xs \<Rightarrow> Inl (ClaimManyDocuments (length xs)))"

definition claim_take ::
  "'db claim_env \<Rightarrow> instant \<Rightarrow> ustring \<Rightarrow> instant option \<Rightarrow> request_lifecycle \<Rightarrow> 'db \<Rightarrow>
   (claim_error + claim_outcome) \<times> request_lifecycle \<times> 'db" where
  "claim_take E now generation valid_until lc db =
     (let a = rq_request lc; F = ce_time E;
          p = request_session_projection_of (ce_json E) a (rq_agent_name lc) (rq_agent_did lc)
                (rq_behavior_id lc) (rf_print F now) in
      case claim_request_with_projection E (is_automated_wakeup (ce_queue E) (ag_metadata a)) p
          (ag_doc_id a) (ag_session_id a) (claim_input F now generation lc) db of
        (Inl e, db1) \<Rightarrow> (Inl e, lc, db1)
      | (Inr resp, db1) \<Rightarrow>
          (case claimed_request E (ag_doc_id a) resp of
             Inl e \<Rightarrow> (Inl e, lc, db1)
           | Inr (a', cid) \<Rightarrow>
               (Inr ClaimClaimed,
                lc\<lparr>rq_request := a', rq_request_commit_cid := Some cid, rq_state := LClaimed,
                   rq_claimed_deadline_at := Some (claim_deadline F now lc),
                   rq_input_through_sequence := bs_through_sequence (cr_snapshot resp),
                   rq_valid_until_at_claim := valid_until, rq_generation := Some generation\<rparr>,
                db1)))"

definition claim_inner ::
  "'db claim_env \<Rightarrow> instant \<Rightarrow> instant \<Rightarrow> ustring \<Rightarrow> request_lifecycle \<Rightarrow> 'db \<Rightarrow>
   (claim_error + claim_outcome) \<times> request_lifecycle \<times> 'db" where
  "claim_inner E now now' generation lc db =
     (case rq_ensure_state [LPending] ''claim'' lc of
        Inl e \<Rightarrow> (Inl e, lc, db)
      | Inr _ \<Rightarrow>
          (case fetch_interrupt_and_ttl (ce_node E) (ag_doc_id (rq_request lc)) db of
             Inl e \<Rightarrow> (Inl e, lc, db)
           | Inr (Some _, _) \<Rightarrow>
               (case transition_pending_to_interrupted E now lc (ce_meanwhile E 0 db) of
                  (Inl e, lc1, db1) \<Rightarrow> (Inl e, lc1, db1)
                | (Inr _, lc1, db1) \<Rightarrow> (Inr ClaimInterrupted, lc1\<lparr>rq_state := LInterrupted\<rparr>, db1))
           | Inr (None, valid_until) \<Rightarrow>
               (let go = (\<lambda>until.
                  let db1 = ce_meanwhile E 1 db in
                  case check_deduplication (ce_node E) lc db1 of
                    Inl e \<Rightarrow> (Inl e, lc, db1)
                  | Inr plan \<Rightarrow>
                      if \<not> dp_is_earliest plan then (Inr ClaimQueued, lc, db1)
                      else claim_take E now' generation until lc (ce_meanwhile E 2 db1)) in
                case parse_valid_until (\<lambda>s. ok_or s (rf_parse (ce_time E) s)) valid_until now of
                  Malformed s \<Rightarrow> (Inl (ClaimBadValidUntil s), lc, db)
                | Expired _ \<Rightarrow>
                    (case transition_pending_to_dead_stale E now lc (ce_meanwhile E 0 db) of
                       (Inl e, lc1, db1) \<Rightarrow> (Inl e, lc1, db1)
                     | (Inr _, lc1, db1) \<Rightarrow> (Inr ClaimExpired, lc1\<lparr>rq_state := LDead\<rparr>, db1))
                | NotSet \<Rightarrow> go None
                | Live t \<Rightarrow> go (Some t))))"

end
