(* ===== verification/Session_Queue.thy ===== *)
theory Session_Queue
  imports Request_Claim Execution_Lease_Props
begin

text \<open>
  What claiming guarantees of a session: its requests run one at a time and in queue order. The check
  of a claim and its transaction are separate steps, so a claimer holds what it has read while others
  act. \<open>queue_step\<close> interleaves the checks and transactions of any number of claimers with anything
  else the system does that starts no request and lets new requests enter behind the waiting ones.
\<close>

section \<open>Waiting and running requests\<close>

definition session_of :: "row \<Rightarrow> ustring option" where
  "session_of r = str_field r ''session_id''"

definition waiting :: "row \<Rightarrow> bool" where
  "waiting r \<longleftrightarrow> req_state r = Some ReqPending"

definition running :: "row \<Rightarrow> bool" where
  "running r \<longleftrightarrow> req_state r \<in> {Some ReqClaimed, Some ReqProcessing}"

text \<open>At most one request of a session runs; waiting requests of a session have distinct places.\<close>

definition session_exclusive :: "contents \<Rightarrow> bool" where
  "session_exclusive v \<longleftrightarrow>
     (\<forall>d e r q. v AREQ d = Some r \<and> v AREQ e = Some q \<and> running r \<and> running q \<and>
        session_of r = session_of q \<and> session_of r \<noteq> None \<longrightarrow> d = e)"

definition places_distinct :: "contents \<Rightarrow> bool" where
  "places_distinct v \<longleftrightarrow>
     (\<forall>d e r q. v AREQ d = Some r \<and> v AREQ e = Some q \<and> waiting r \<and> waiting q \<and>
        session_of r = session_of q \<and> queue_key r = queue_key q \<longrightarrow> d = e)"

text \<open>A request that heads its session, if it is still waiting.\<close>

definition heads :: "contents \<Rightarrow> doc_id \<Rightarrow> bool" where
  "heads v d \<longleftrightarrow>
     (\<forall>r. v AREQ d = Some r \<and> waiting r \<longrightarrow>
        session_of r \<noteq> None \<and>
        (\<forall>e q. v AREQ e = Some q \<and> session_of q = session_of r \<longrightarrow>
           \<not> running q \<and> (waiting q \<and> e \<noteq> d \<longrightarrow> queue_key r < queue_key q)))"

text \<open>What the rest of the system may do: a request that waits or runs afterwards did so before, in
  the same session and place, or enters the queue, from nothing or from the binding of its workspace,
  behind everything that waits in its session. A request that has entered the queue stays in the
  store and never goes back before it.\<close>

definition entered :: "row \<Rightarrow> bool" where
  "entered r \<longleftrightarrow> req_state r \<noteq> Some WorkspaceBindingPending"

definition carried_over :: "contents \<Rightarrow> doc_id \<Rightarrow> row \<Rightarrow> bool" where
  "carried_over v d r' \<longleftrightarrow>
     (\<exists>r. v AREQ d = Some r \<and> session_of r' = session_of r \<and> queue_key r' = queue_key r \<and>
        (waiting r \<and> waiting r' \<or> running r \<and> running r'))"

definition arrives_behind :: "contents \<Rightarrow> doc_id \<Rightarrow> row \<Rightarrow> bool" where
  "arrives_behind v d r' \<longleftrightarrow>
     waiting r' \<and> (\<forall>r. v AREQ d = Some r \<longrightarrow> \<not> entered r) \<and>
     (\<forall>e q. v AREQ e = Some q \<and> waiting q \<and> session_of q = session_of r' \<longrightarrow> queue_key q < queue_key r')"

definition keeps_queue :: "contents \<Rightarrow> contents \<Rightarrow> bool" where
  "keeps_queue v v' \<longleftrightarrow>
     (\<forall>d r'. v' AREQ d = Some r' \<and> (waiting r' \<or> running r') \<longrightarrow> carried_over v d r' \<or> arrives_behind v d r') \<and>
     (\<forall>d r. v AREQ d = Some r \<and> entered r \<longrightarrow> (\<exists>r'. v' AREQ d = Some r' \<and> entered r')) \<and>
     places_distinct v'"

lemma not_waiting_running: "waiting r \<Longrightarrow> \<not> running r"
  by (auto simp: waiting_def running_def)

lemma active_entered: "waiting r \<or> running r \<Longrightarrow> entered r"
  by (auto simp: waiting_def running_def entered_def)

lemma exclusive_kept:
  assumes "keeps_queue v v'" and "session_exclusive v"
  shows "session_exclusive v'"
proof -
  have before: "\<exists>r. v AREQ d = Some r \<and> session_of r' = session_of r \<and> running r"
    if "v' AREQ d = Some r'" "running r'" for d r'
    using assms(1) that not_waiting_running
    unfolding keeps_queue_def carried_over_def arrives_behind_def by meson
  show ?thesis
    unfolding session_exclusive_def
  proof (intro allI impI, elim conjE)
    fix d e r q
    assume a: "v' AREQ d = Some r" "v' AREQ e = Some q" "running r" "running q"
      "session_of r = session_of q" "session_of r \<noteq> None"
    obtain r0 where "v AREQ d = Some r0" "session_of r = session_of r0" "running r0"
      using before [OF a(1,3)] by blast
    moreover obtain q0 where "v AREQ e = Some q0" "session_of q = session_of q0" "running q0"
      using before [OF a(2,4)] by blast
    ultimately show "d = e"
      using assms(2) a(5,6) unfolding session_exclusive_def by metis
  qed
qed

lemma heads_kept:
  assumes "keeps_queue v v'" and "heads v d" and "v AREQ d = Some r0" and "entered r0"
  shows "heads v' d"
  unfolding heads_def
proof (intro allI impI, elim conjE)
  fix r
  assume r: "v' AREQ d = Some r" "waiting r"
  from assms(1) r have "carried_over v d r \<or> arrives_behind v d r"
    unfolding keeps_queue_def by blast
  with assms(3,4) have "carried_over v d r" unfolding arrives_behind_def by blast
  with assms(3) r(2) not_waiting_running have r0: "session_of r = session_of r0" "queue_key r = queue_key r0" "waiting r0"
    unfolding carried_over_def by auto
  note h = assms(2) [unfolded heads_def, rule_format, OF conjI [OF assms(3) r0(3)]]
  have "\<not> running q \<and> (waiting q \<and> e \<noteq> d \<longrightarrow> queue_key r < queue_key q)"
    if q: "v' AREQ e = Some q" "session_of q = session_of r" for e q
  proof (cases "waiting q \<or> running q")
    case False
    then show ?thesis by blast
  next
    case True
    with assms(1) q(1) have "carried_over v e q \<or> arrives_behind v e q"
      unfolding keeps_queue_def by blast
    then show ?thesis
    proof
      assume "carried_over v e q"
      then obtain q0 where q0: "v AREQ e = Some q0" "session_of q = session_of q0"
          "queue_key q = queue_key q0" "waiting q0 \<and> waiting q \<or> running q0 \<and> running q"
        unfolding carried_over_def by blast
      with h q(2) r0(1) have "\<not> running q0" "waiting q0 \<and> e \<noteq> d \<longrightarrow> queue_key r0 < queue_key q0"
        by simp_all
      with q0 r0(2) show ?thesis using not_waiting_running by auto
    next
      assume "arrives_behind v e q"
      then show ?thesis
        using assms(3) r0 q(2) not_waiting_running unfolding arrives_behind_def by auto
    qed
  qed
  with h r0(1) show "session_of r \<noteq> None \<and> (\<forall>e q. v' AREQ e = Some q \<and> session_of q = session_of r \<longrightarrow>
      \<not> running q \<and> (waiting q \<and> e \<noteq> d \<longrightarrow> queue_key r < queue_key q))"
    by auto
qed

section \<open>Taking a request\<close>

text \<open>The head of a session starts to run: nothing else of the row that places it changes.\<close>

definition starts :: "contents \<Rightarrow> contents \<Rightarrow> doc_id \<Rightarrow> bool" where
  "starts v v' d \<longleftrightarrow>
     (\<exists>r r'. v AREQ d = Some r \<and> waiting r \<and> running r' \<and> session_of r' = session_of r \<and>
        queue_key r' = queue_key r \<and> v' AREQ = (v AREQ)(d \<mapsto> r'))"

lemma start_exclusive:
  assumes "starts v v' d" and "heads v d" and "session_exclusive v"
  shows "session_exclusive v'"
proof -
  obtain r r' where s: "v AREQ d = Some r" "waiting r" "running r'" "session_of r' = session_of r"
      "v' AREQ = (v AREQ)(d \<mapsto> r')"
    using assms(1) unfolding starts_def by blast
  have none: "\<not> running q" if "v AREQ e = Some q" "session_of q = session_of r" for e q
    using assms(2) s(1,2) that unfolding heads_def by blast
  show ?thesis
    unfolding session_exclusive_def
  proof (intro allI impI, elim conjE)
    fix a b p q
    assume h: "v' AREQ a = Some p" "v' AREQ b = Some q" "running p" "running q"
      "session_of p = session_of q" "session_of p \<noteq> None"
    show "a = b"
    proof (cases "a = d \<or> b = d")
      case True
      then show ?thesis using h s none by (auto split: if_splits)
    next
      case False
      then show ?thesis using h s(5) assms(3) unfolding session_exclusive_def by auto
    qed
  qed
qed

lemma start_places: "starts v v' d \<Longrightarrow> places_distinct v \<Longrightarrow> places_distinct v'"
  using not_waiting_running unfolding starts_def places_distinct_def
  by (auto split: if_splits)

lemma start_heads:
  assumes "starts v v' d" and "heads v d" and "heads v e" and "v AREQ e = Some r0" and "entered r0"
  shows "heads v' e"
proof -
  obtain r r' where s: "v AREQ d = Some r" "waiting r" "running r'" "session_of r' = session_of r"
      "v' AREQ = (v AREQ)(d \<mapsto> r')"
    using assms(1) unfolding starts_def by blast
  show ?thesis
  proof (cases "e = d")
    case True
    with s not_waiting_running show ?thesis by (auto simp: heads_def)
  next
    case False
    have diff: "session_of r0 \<noteq> session_of r" if "waiting r0"
    proof
      assume "session_of r0 = session_of r"
      then have "queue_key r < queue_key r0" "queue_key r0 < queue_key r"
        using assms(2-4) s(1,2) that False unfolding heads_def by auto
      then show False by simp
    qed
    show ?thesis
      using assms(3,4) False s diff unfolding heads_def
      by (auto split: if_splits)
  qed
qed

section \<open>The check\<close>

lemma active_value_iff:
  "GStr t \<in> set active_runtime_values \<longleftrightarrow>
     request_parse t \<in> {Inr ReqPending, Inr ReqClaimed, Inr ReqProcessing}"
  by (auto simp: active_runtime_values_def request_all_def request_is_active_runtime_def request_parse_def
      split: if_splits)

lemma active_row_iff:
  "cond_holds (OneOf active_runtime_values) (r ''lifecycle_state'') \<longleftrightarrow> waiting r \<or> running r"
proof (cases "r ''lifecycle_state''")
  case None
  then show ?thesis by (simp add: waiting_def running_def req_state_def str_field_def request_parse_opt_def)
next
  case (Some x)
  then show ?thesis
    using active_value_iff
    by (cases x) (auto simp: waiting_def running_def req_state_def str_field_def request_parse_opt_def
        active_runtime_values_def split: sum.splits)
qed

lemma session_filter_iff: "cond_holds (Is (GStr s)) (r ''session_id'') \<longleftrightarrow> session_of r = Some s"
  by (auto simp: session_of_def str_field_def split: option.splits gval.splits)

lemma request_row_of_facts:
  assumes "request_row_of (d, r) = Some w"
  shows "rw_doc_id w = d" and "rw_cols w = r" and "rw_state w = req_state r"
  using assms
  by (auto simp: request_row_of_def req_state_def request_parse_opt_def split: option.splits sum.splits bind_splits)

lemma those_member: "those xs = Some ys \<Longrightarrow> set ys = {y. Some y \<in> set xs} \<and> map Some ys = xs"
  by (induction xs arbitrary: ys) (fastforce split: option.splits)+

lemma those_cols: "those (map request_row_of xs) = Some rows \<Longrightarrow> map rw_cols rows = map snd xs"
  by (induction xs arbitrary: rows) (auto split: option.splits dest: request_row_of_facts(2))

lemma find_sorted:
  assumes "sorted_wrt (\<lambda>x y. f x \<le> (f y :: 'k :: linorder)) xs" and "List.find p xs = Some x" and "y \<in> set xs" and "p y"
  shows "f x \<le> f y"
  using assms by (induction xs) (auto split: if_splits)

lemma dedup_earliest:
  assumes "dp_is_earliest (dedup_of_rows d rows)"
    and "sorted_wrt (\<lambda>x y. queue_key (rw_cols x) \<le> queue_key (rw_cols y)) rows"
  shows "\<exists>w \<in> set rows. rw_doc_id w = d \<and> rw_state w = Some ReqPending \<and>
    (\<forall>q \<in> set rows. rw_doc_id q \<noteq> d \<longrightarrow> rw_state q = Some ReqPending) \<and>
    (\<forall>q \<in> set rows. rw_state q = Some ReqPending \<longrightarrow> queue_key (rw_cols w) \<le> queue_key (rw_cols q))"
proof -
  from assms(1) obtain w where f: "List.find (\<lambda>r. rw_state r = Some ReqPending) rows = Some w"
    and d: "rw_doc_id w = d"
    and n: "List.find (\<lambda>r. rw_doc_id r \<noteq> d \<and> rw_state r \<noteq> Some ReqPending) rows = None"
    by (auto simp: dedup_of_rows_def Let_def split: option.splits)
  from f have "w \<in> set rows" "rw_state w = Some ReqPending"
    by (auto simp: find_Some_iff)
  moreover have "queue_key (rw_cols w) \<le> queue_key (rw_cols q)"
    if "q \<in> set rows" "rw_state q = Some ReqPending" for q
    using find_sorted [OF assms(2) f that] .
  moreover have "\<forall>q \<in> set rows. rw_doc_id q \<noteq> d \<longrightarrow> rw_state q = Some ReqPending"
    using n by (auto simp: find_None_iff)
  ultimately show ?thesis using d by blast
qed

lemma check_rows:
  assumes "check_deduplication N lc db = Inr plan"
  shows "\<exists>found rows. nd_query N AREQ [(''session_id'', Is (GStr (ag_session_id (rq_request lc)))),
      (''lifecycle_state'', OneOf active_runtime_values)] db = Inr found \<and>
    those (map request_row_of (in_queue_order found)) = Some rows \<and>
    plan = dedup_of_rows (ag_doc_id (rq_request lc)) rows"
  using assms unfolding check_deduplication_def
  by (simp split: sum.splits) (elim bind_resE, simp)

lemma queue_rows_sorted:
  assumes "those (map request_row_of (in_queue_order found)) = Some rows"
  shows "sorted_wrt (\<lambda>x y. queue_key (rw_cols x) \<le> queue_key (rw_cols y)) rows"
proof -
  have "map (\<lambda>w. queue_key (rw_cols w)) rows = map queue_key (map rw_cols rows)" by simp
  also have "\<dots> = map (\<lambda>x. queue_key (snd x)) (in_queue_order found)"
    unfolding those_cols [OF assms] by simp
  finally have "sorted (map (\<lambda>w. queue_key (rw_cols w)) rows)"
    by (simp add: in_queue_order_def)
  then show ?thesis by (simp add: sorted_wrt_map)
qed

lemma queue_rows_image:
  assumes "those (map request_row_of (in_queue_order found)) = Some rows"
  shows "Some ` set rows = request_row_of ` set found"
proof -
  have "Some ` set rows = set (map Some rows)" by simp
  also have "\<dots> = set (map request_row_of (in_queue_order found))"
    using those_member [OF assms] by simp
  finally show ?thesis by (simp add: in_queue_order_def)
qed

context defra
begin

lemma check_heads:
  assumes "check_deduplication N lc db = Inr plan" and "dp_is_earliest plan" and "places_distinct (view db)"
  shows "heads (view db) (ag_doc_id (rq_request lc)) \<and>
    (\<exists>r. view db AREQ (ag_doc_id (rq_request lc)) = Some r \<and> waiting r \<and>
       session_of r = Some (ag_session_id (rq_request lc)))"
proof -
  define d where "d = ag_doc_id (rq_request lc)"
  define sid where "sid = ag_session_id (rq_request lc)"
  let ?flt = "[(''session_id'', Is (GStr sid)), (''lifecycle_state'', OneOf active_runtime_values)]"
  obtain found rows where q: "nd_query N AREQ ?flt db = Inr found"
    and t: "those (map request_row_of (in_queue_order found)) = Some rows"
    and e: "dp_is_earliest (dedup_of_rows d rows)"
    using check_rows [OF assms(1)] assms(2) unfolding d_def sid_def by blast
  note image = queue_rows_image [OF t]
  have m: "row_matches ?flt e q \<longleftrightarrow> session_of q = Some sid \<and> (waiting q \<or> running q)" for e q
    using active_row_iff [of q] session_filter_iff [of sid q] by simp
  have decoded: "\<exists>w \<in> set rows. rw_doc_id w = e \<and> rw_cols w = q \<and> rw_state w = req_state q"
    if "view db AREQ e = Some q" "session_of q = Some sid" "waiting q \<or> running q" for e q
  proof -
    have "(e, q) \<in> set found" using that query_rows [OF q] m by simp
    then have "request_row_of (e, q) \<in> Some ` set rows" unfolding image by blast
    then show ?thesis using request_row_of_facts [of e q] by auto
  qed
  have origin: "\<exists>q. view db AREQ (rw_doc_id w) = Some q \<and> rw_cols w = q \<and> rw_state w = req_state q \<and>
      session_of q = Some sid" if w: "w \<in> set rows" for w
  proof -
    have "Some w \<in> request_row_of ` set found" using w unfolding image [symmetric] by blast
    then obtain e q where "(e, q) \<in> set found" "request_row_of (e, q) = Some w"
      by (metis imageE surj_pair)
    then show ?thesis using query_rows [OF q] m request_row_of_facts [of e q w] by auto
  qed
  from dedup_earliest [OF e queue_rows_sorted [OF t]] obtain w where w: "w \<in> set rows" "rw_doc_id w = d" "rw_state w = Some ReqPending"
    and others: "\<forall>q \<in> set rows. rw_doc_id q \<noteq> d \<longrightarrow> rw_state q = Some ReqPending"
    and first: "\<forall>q \<in> set rows. rw_state q = Some ReqPending \<longrightarrow> queue_key (rw_cols w) \<le> queue_key (rw_cols q)"
    by blast
  obtain r where r: "view db AREQ d = Some r" "rw_cols w = r" "waiting r" "session_of r = Some sid"
    using origin [OF w(1)] w(2,3) by (auto simp: waiting_def)
  have "\<not> running q \<and> (waiting q \<and> e \<noteq> d \<longrightarrow> queue_key r < queue_key q)"
    if q: "view db AREQ e = Some q" "session_of q = session_of r" for e q
  proof (cases "waiting q \<or> running q")
    case False
    then show ?thesis by blast
  next
    case True
    then obtain x where x: "x \<in> set rows" "rw_doc_id x = e" "rw_cols x = q" "rw_state x = req_state q"
      using decoded [OF q(1)] q(2) r(4) by auto
    show ?thesis
    proof (cases "e = d")
      case True
      with q r not_waiting_running show ?thesis by auto
    next
      case False
      with others x have wq: "waiting q" by (auto simp: waiting_def)
      with first x r(2) have "queue_key r \<le> queue_key q" by (auto simp: waiting_def)
      moreover have "queue_key r \<noteq> queue_key q"
        using assms(3) q r wq False unfolding places_distinct_def by metis
      ultimately show ?thesis using wq not_waiting_running by auto
    qed
  qed
  then show ?thesis
    using r unfolding heads_def d_def [symmetric] sid_def [symmetric] by auto
qed

lemma projection_other:
  assumes "apply_request_session_projection N p db = (res, db')"
    and "c \<noteq> ''AgentSession''" and "c \<noteq> ''AgentConversation''"
  shows "view db' c = view db c"
  using assms
  by (auto simp: apply_request_session_projection_def Let_def dest!: update_other create_other
      split: sum.splits option.splits prod.splits if_splits)

lemma update_single:
  assumes "nd_update N c ((''_docID'', Is (GStr d)) # flt) inp db = (Inr resp, db')" and "update_hit c resp"
  shows "\<exists>r. view db c d = Some r \<and> row_matches flt d r \<and> view db' c = (view db c)(d \<mapsto> apply_input inp r)"
proof -
  obtain r where r: "view db c d = Some r" "row_matches flt d r"
    using update_won [OF assms] by blast
  moreover have "view db' c = (view db c)(d \<mapsto> apply_input inp r)"
  proof
    fix e
    show "view db' c e = ((view db c)(d \<mapsto> apply_input inp r)) e"
      using update_ok [OF assms(1)] r by (cases "view db c e") (auto simp: updated_def)
  qed
  ultimately show ?thesis by blast
qed

end

definition snapshot_fields_only :: "input \<Rightarrow> bool" where
  "snapshot_fields_only sf \<longleftrightarrow>
     fst ` set sf \<subseteq> {''background_completion_input_through_sequence'', ''background_completion_notification_keys_json''}"

lemma snapshot_fields: "snapshot_fields_only (if capture then snapshot_mutation_fields s else [])"
  by (auto simp: snapshot_fields_only_def snapshot_mutation_fields_def split: option.splits)

text \<open>What a claim writes: the row is leased to the new generation and keeps its session and place.\<close>

lemma claimed_row:
  assumes "snapshot_fields_only sf"
  shows "leased (apply_input (claim_input F now g lc sf) r) ReqClaimed g
      (rf_print F (now + int (rq_lease_duration_secs lc) * 1000000000)) 0"
    and "session_of (apply_input (claim_input F now g lc sf) r) = session_of r"
    and "queue_key (apply_input (claim_input F now g lc sf) r) = queue_key r"
    and "running (apply_input (claim_input F now g lc sf) r)"
proof -
  have keep: "apply_input sf x f = x f" if "f \<noteq> ''background_completion_input_through_sequence''"
    "f \<noteq> ''background_completion_notification_keys_json''" for x f
    using that assms apply_input_other [of f sf x] by (auto simp: snapshot_fields_only_def)
  show l: "leased (apply_input (claim_input F now g lc sf) r) ReqClaimed g
      (rf_print F (now + int (rq_lease_duration_secs lc) * 1000000000)) 0"
    by (simp add: leased_def claim_input_def keep)
  show "session_of (apply_input (claim_input F now g lc sf) r) = session_of r"
    "queue_key (apply_input (claim_input F now g lc sf) r) = queue_key r"
    by (simp_all add: session_of_def queue_key_def str_field_def claim_input_def keep)
  show "running (apply_input (claim_input F now g lc sf) r)"
    using leased_req_state [OF l] by (simp add: running_def)
qed

lemma pending_filter_waiting:
  "row_matches [(''lifecycle_state'', Is (GStr (lit ''pending'')))] d r \<Longrightarrow> waiting r"
  by (simp add: waiting_def req_state_def str_field_def request_parse_opt_def request_parse_def)

context defra
begin

lemma claim_body_rows:
  assumes "claim_body E capture p d sid build db = (Inr resp, db1)" and "ce_node E = N"
  shows "view db1 AREQ = view db AREQ \<and> cr_documents resp = [] \<or>
    (\<exists>r sf. view db AREQ d = Some r \<and> waiting r \<and> snapshot_fields_only sf \<and>
       view db1 AREQ = (view db AREQ)(d \<mapsto> apply_input (build sf) r) \<and>
       set (cr_documents resp) = {(d, apply_input (build sf) r)})"
proof -
  define flt where "flt = [(''_docID'', Is (GStr d)), (''lifecycle_state'', Is (GStr (lit ''pending'')))]"
  obtain snap u dbu where u: "nd_update N AREQ flt (build (if capture then snapshot_mutation_fields snap else [])) db = (Inr u, dbu)"
    and cases': "\<not> update_hit AREQ u \<and> dbu = db1 \<and> cr_documents resp = [] \<or>
      update_hit AREQ u \<and> (\<exists>docs x. nd_query N AREQ [(''_docID'', Is (GStr d))] dbu = Inr docs \<and>
        apply_request_session_projection N p dbu = (Inr x, db1) \<and> cr_documents resp = docs)"
    using assms unfolding claim_body_def flt_def Let_def
    by (auto split: sum.splits prod.splits if_splits)
  note u = u [unfolded flt_def]
  from cases' show ?thesis
  proof
    assume "\<not> update_hit AREQ u \<and> dbu = db1 \<and> cr_documents resp = []"
    with update_lost [OF u] show ?thesis by auto
  next
    assume h: "update_hit AREQ u \<and> (\<exists>docs x. nd_query N AREQ [(''_docID'', Is (GStr d))] dbu = Inr docs \<and>
        apply_request_session_projection N p dbu = (Inr x, db1) \<and> cr_documents resp = docs)"
    then obtain docs x where q: "nd_query N AREQ [(''_docID'', Is (GStr d))] dbu = Inr docs"
      and pr: "apply_request_session_projection N p dbu = (Inr x, db1)" and c: "cr_documents resp = docs" by blast
    let ?sf = "if capture then snapshot_mutation_fields snap else []"
    obtain r where r: "view db AREQ d = Some r" "row_matches [(''lifecycle_state'', Is (GStr (lit ''pending'')))] d r"
      "view dbu AREQ = (view db AREQ)(d \<mapsto> apply_input (build ?sf) r)"
      using update_single [OF u] h by blast
    have "view db1 AREQ = view dbu AREQ" using projection_other [OF pr] by simp
    moreover have "set docs = {(d, apply_input (build ?sf) r)}"
      using query_rows [OF q] r(3) by auto
    ultimately show ?thesis
      using r c snapshot_fields pending_filter_waiting [OF r(2)] by metis
  qed
qed

end

section \<open>The other operations keep the queue\<close>

text \<open>A write that leaves alone the columns which place a request, and the two ways it can act on
  states: as the lease does, or by ending a waiting request.\<close>

definition rows_framed :: "contents \<Rightarrow> contents \<Rightarrow> bool" where
  "rows_framed v v' \<longleftrightarrow>
     (\<forall>d. rel_option (\<lambda>r r'. session_of r' = session_of r \<and> queue_key r' = queue_key r) (v AREQ d) (v' AREQ d))"

definition place_columns :: "string set" where
  "place_columns = {''session_id'', ''created_at'', ''request_id''}"

lemma apply_input_place:
  assumes "fst ` set inp \<inter> place_columns = {}"
  shows "session_of (apply_input inp r) = session_of r" and "queue_key (apply_input inp r) = queue_key r"
proof -
  have "apply_input inp r f = r f" if "f \<in> place_columns" for f
    using apply_input_other [of f inp r] assms that by blast
  then show "session_of (apply_input inp r) = session_of r" "queue_key (apply_input inp r) = queue_key r"
    by (simp_all add: session_of_def queue_key_def str_field_def place_columns_def)
qed

lemma updated_framed:
  assumes "v' AREQ = updated AREQ flt inp v AREQ" and "fst ` set inp \<inter> place_columns = {}"
  shows "rows_framed v v'"
  using assms apply_input_place [OF assms(2)]
  by (simp add: rows_framed_def updated_def option.rel_map option.rel_refl)

lemma same_framed: "v' AREQ = v AREQ \<Longrightarrow> rows_framed v v'"
  by (simp add: rows_framed_def option.rel_refl)

lemma lease_moves_states:
  assumes "lease_moves r r'"
  shows "waiting r' \<Longrightarrow> r = r'" and "running r' \<Longrightarrow> running r" and "entered r \<Longrightarrow> entered r'"
proof -
  consider "r' = r" | s s' where "req_state r = Some s" "req_state r' = Some s'" "s \<in> {ReqClaimed, ReqProcessing}"
      "request_is_terminal s' \<or> s' \<in> {ReqClaimed, ReqProcessing}"
    using assms unfolding lease_moves_def by auto
  note cases' = this
  show "waiting r' \<Longrightarrow> r = r'" using cases' by cases (auto simp: waiting_def request_is_terminal_def)
  show "running r' \<Longrightarrow> running r" using cases' by cases (auto simp: running_def)
  show "entered r \<Longrightarrow> entered r'" using cases' by cases (auto simp: entered_def request_is_terminal_def)
qed

lemma moves_keep_queue:
  assumes "rows_framed v v'" and "leases_move v v'" and "places_distinct v"
  shows "keeps_queue v v'"
proof -
  have row: "\<exists>r. v AREQ d = Some r \<and> session_of r' = session_of r \<and> queue_key r' = queue_key r \<and> lease_moves r r'"
    if "v' AREQ d = Some r'" for d r'
  proof -
    have "rel_option (\<lambda>r r'. session_of r' = session_of r \<and> queue_key r' = queue_key r) (v AREQ d) (Some r')"
      using assms(1) [unfolded rows_framed_def, THEN spec, of d] that by simp
    then obtain r where r: "v AREQ d = Some r" "session_of r' = session_of r" "queue_key r' = queue_key r"
      by (cases "v AREQ d") auto
    have "\<exists>r'. v' AREQ d = Some r' \<and> lease_moves r r'" using assms(2) r(1) unfolding leases_move_def by blast
    then have "lease_moves r r'" using that by simp
    with r show ?thesis by blast
  qed
  have carried: "carried_over v d r'" if h: "v' AREQ d = Some r'" "waiting r' \<or> running r'" for d r'
  proof -
    obtain r where r: "v AREQ d = Some r" "session_of r' = session_of r" "queue_key r' = queue_key r" "lease_moves r r'"
      using row [OF h(1)] by blast
    have "waiting r \<and> waiting r' \<or> running r \<and> running r'"
      using h(2) lease_moves_states(1,2) [OF r(4)] by auto
    with r show ?thesis unfolding carried_over_def by blast
  qed
  have "places_distinct v'"
    unfolding places_distinct_def
  proof (intro allI impI, elim conjE)
    fix d e r q
    assume a: "v' AREQ d = Some r" "v' AREQ e = Some q" "waiting r" "waiting q"
      "session_of r = session_of q" "queue_key r = queue_key q"
    obtain r0 where r0: "v AREQ d = Some r0" "lease_moves r0 r" using row [OF a(1)] by blast
    obtain q0 where q0: "v AREQ e = Some q0" "lease_moves q0 q" using row [OF a(2)] by blast
    have "v AREQ d = Some r" "v AREQ e = Some q"
      using r0(1) q0(1) lease_moves_states(1) [OF r0(2) a(3)] lease_moves_states(1) [OF q0(2) a(4)] by simp_all
    with a(3-6) assms(3) show "d = e" unfolding places_distinct_def by blast
  qed
  moreover have "\<exists>r'. v' AREQ d = Some r' \<and> entered r'" if h: "v AREQ d = Some r" "entered r" for d r
  proof -
    obtain r' where "v' AREQ d = Some r'" "lease_moves r r'" using assms(2) h(1) unfolding leases_move_def by blast
    with lease_moves_states(3) h(2) show ?thesis by blast
  qed
  ultimately show ?thesis using carried unfolding keeps_queue_def by (intro conjI) blast+
qed

lemma write_terms_place:
  "write_terms F fence kind now st rsp owner deadline seq inp \<Longrightarrow> fst ` set inp \<inter> place_columns = {}"
  by (cases kind) (auto simp: write_terms_def place_columns_def)

context defra_txn
begin

lemma update_framed:
  assumes "nd_update N AREQ flt inp db = (res, db')" and "fst ` set inp \<inter> place_columns = {}"
  shows "rows_framed (view db) (view db')"
  using update_view [OF assms(1)] same_framed [of "view db'" "view db"]
    updated_framed [OF _ assms(2), of "view db'" flt "view db"] by auto

lemma drop_owner_framed: "rows_framed (view db) (view (drop_owner F N now rt lc db))"
proof (cases "drop_owner F N now rt lc db = db")
  case True
  then show ?thesis by (simp add: same_framed)
next
  case False
  then obtain g where d: "drop_owner F N now rt lc db = relinquish F N now (ro_request_doc_id lc) g db"
    unfolding drop_owner_def by (auto split: option.splits if_splits)
  show ?thesis
    unfolding d relinquish_def
    by (rule update_framed [OF surjective_pairing]) (simp add: place_columns_def)
qed

lemma lease_step_framed: "lease_step F N T db db' \<Longrightarrow> rows_framed (view db) (view db')"
proof (induction rule: lease_step.induct)
  case (fenced fence m kind now db res db')
  have "rows_framed (view db) (view db1)" if b: "response_write_body F N fence m kind now db = (Inr x, db1)" for x db1
  proof -
    obtain flt inp where p: "plan_response_write F N fence kind now db = Inr (flt, inp)"
      and v: "view db1 AREQ = updated AREQ flt inp (view db) AREQ"
      using write_body_rows [OF b] by blast
    from plan_write_facts [OF p] have "fst ` set inp \<inter> place_columns = {}"
      using write_terms_place by blast
    with v show ?thesis by (rule updated_framed)
  qed
  with txn_atomic [OF fenced] show ?case by (auto intro: same_framed)
next
  case (ending fresh d authority outcome reason now db res db')
  have "rows_framed (view db) (view db1)"
    if b: "terminalize_body F N fresh d authority outcome reason now db = (Inr Won, db1)" for db1
  proof -
    obtain row rsp eff did flt inp where
      p: "plan_terminal F N fresh d authority outcome reason now db = Inr (Write row rsp eff did flt inp)"
      and v: "view db1 AREQ = updated AREQ flt inp (view db) AREQ"
      using terminal_body_rows [OF b] by blast
    from plan_terminal_facts [OF p] have "fst ` set inp \<inter> place_columns = {}"
      by (auto simp: terminal_input_def place_columns_def)
    with v show ?thesis by (rule updated_framed)
  qed
  with txn_atomic [OF ending] show ?case by (auto intro: same_framed)
next
  case (dropped db now rt lc)
  show ?case by (rule drop_owner_framed)
qed

lemma lease_step_keeps_queue:
  "lease_step F N T db db' \<Longrightarrow> places_distinct (view db) \<Longrightarrow> keeps_queue (view db) (view db')"
  by (intro moves_keep_queue lease_step_framed lease_step_moves)

end

text \<open>Ending a waiting request, and entering the queue at its end.\<close>

definition pending_filter :: "doc_id \<Rightarrow> ustring \<Rightarrow> eq_filter" where
  "pending_filter d did =
     [(''_docID'', Is (GStr d)), (''agent_did'', Is (GStr did)), (''lifecycle_state'', Is (GStr (lit ''pending'')))]"

definition ends_request :: "input \<Rightarrow> bool" where
  "ends_request inp \<longleftrightarrow> fst ` set inp \<inter> place_columns = {} \<and>
     (\<forall>r. \<exists>s. req_state (apply_input inp r) = Some s \<and> request_is_terminal s)"

lemma ending_inputs:
  "ends_request (interrupted_input F now)" "ends_request (stale_input F now)"
  "ends_request (rejection_input F now reason)"
  by (simp_all add: ends_request_def interrupted_input_def stale_input_def rejection_input_def place_columns_def
      req_state_def str_field_def request_parse_opt_def request_parse_def request_is_terminal_def)

lemma ending_states:
  assumes "ends_request inp"
  shows "\<not> waiting (apply_input inp r)" and "\<not> running (apply_input inp r)" and "entered (apply_input inp r)"
proof -
  obtain s where "req_state (apply_input inp r) = Some s" "request_is_terminal s"
    using assms unfolding ends_request_def by blast
  then show "\<not> waiting (apply_input inp r)" "\<not> running (apply_input inp r)" "entered (apply_input inp r)"
    by (auto simp: waiting_def running_def entered_def request_is_terminal_def)
qed

lemma keeps_queue_same:
  assumes "v' AREQ = v AREQ" and "places_distinct v"
  shows "keeps_queue v v'"
  using moves_keep_queue [OF same_framed leases_move_same] assms by blast

lemma ending_keeps_queue:
  assumes "v' AREQ = updated AREQ flt inp v AREQ" and "ends_request inp" and "places_distinct v"
  shows "keeps_queue v v'"
proof -
  have row: "v AREQ d = Some r'" if "v' AREQ d = Some r'" "waiting r' \<or> running r'" for d r'
    using that assms(1) ending_states [OF assms(2)] by (cases "v AREQ d") (auto simp: updated_def split: if_splits)
  then have "carried_over v d r'" if "v' AREQ d = Some r'" "waiting r' \<or> running r'" for d r'
    using that unfolding carried_over_def by blast
  moreover have "places_distinct v'"
    using row assms(3) unfolding places_distinct_def by meson
  moreover have "\<exists>r'. v' AREQ d = Some r' \<and> entered r'" if "v AREQ d = Some r" "entered r" for d r
    using that assms(1) ending_states(3) [OF assms(2)] by (auto simp: updated_def)
  ultimately show ?thesis unfolding keeps_queue_def by blast
qed

lemma arrival_keeps_queue:
  assumes "v AREQ d = None" and "v' AREQ = (v AREQ)(d \<mapsto> r)" and "arrives_behind v d r" and "places_distinct v"
  shows "keeps_queue v v'"
proof -
  have "carried_over v e r'" if "v' AREQ e = Some r'" "waiting r' \<or> running r'" "e \<noteq> d" for e r'
    using that assms(2) unfolding carried_over_def by auto
  moreover have "places_distinct v'"
    unfolding places_distinct_def
  proof (intro allI impI, elim conjE)
    fix a b p q
    assume h: "v' AREQ a = Some p" "v' AREQ b = Some q" "waiting p" "waiting q"
      "session_of p = session_of q" "queue_key p = queue_key q"
    have behind: "queue_key x < queue_key r" if "v AREQ c = Some x" "waiting x" "session_of x = session_of r" for c x
      using assms(3) that unfolding arrives_behind_def by blast
    show "a = b"
    proof (cases "a = d \<or> b = d")
      case True
      then show ?thesis using h assms(2) behind [of a p] behind [of b q] by (auto split: if_splits)
    next
      case False
      then show ?thesis using h assms(2,4) unfolding places_distinct_def by auto
    qed
  qed
  ultimately show ?thesis
    using assms(1-3) unfolding keeps_queue_def by auto
qed

section \<open>Interleavings\<close>

inductive queue_step ::
  "'db claim_env \<Rightarrow> ('db \<Rightarrow> contents) \<Rightarrow> 'db \<times> doc_id set \<Rightarrow> 'db \<times> doc_id set \<Rightarrow> bool" for E view where
  checked: "check_deduplication (ce_node E) lc db = Inr plan \<Longrightarrow> dp_is_earliest plan \<Longrightarrow>
     queue_step E view (db, K) (db, insert (ag_doc_id (rq_request lc)) K)"
| taken: "ag_doc_id (rq_request lc) \<in> K \<Longrightarrow>
     txn_attempt (ce_txn E) ClaimStore (\<lambda>_. True)
       (claim_body E capture p (ag_doc_id (rq_request lc)) sid (claim_input (ce_time E) now g lc)) db = (res, db') \<Longrightarrow>
     queue_step E view (db, K) (db', K)"
| leased: "lease_step (ce_time E) (ce_node E) (ce_txn E) db db' \<Longrightarrow> queue_step E view (db, K) (db', K)"
| ended: "ends_request inp \<Longrightarrow> nd_update (ce_node E) AREQ (pending_filter d did) inp db = (res, db') \<Longrightarrow>
     queue_step E view (db, K) (db', K)"
| refused: "txn_attempt (ce_txn E) ClaimStore (\<lambda>_. True) (reject_body E now reason lc) db = (res, db') \<Longrightarrow>
     queue_step E view (db, K) (db', K)"
| other: "keeps_queue (view db) (view db') \<Longrightarrow> queue_step E view (db, K) (db', K)"

abbreviation queue_steps where
  "queue_steps E view \<equiv> (queue_step E view)\<^sup>*\<^sup>*"

definition queue_inv :: "contents \<Rightarrow> doc_id set \<Rightarrow> bool" where
  "queue_inv v K \<longleftrightarrow> session_exclusive v \<and> places_distinct v \<and>
     (\<forall>d \<in> K. heads v d \<and> (\<exists>r. v AREQ d = Some r \<and> entered r))"

lemma queue_invI:
  assumes "session_exclusive v" and "places_distinct v"
    and "\<And>d. d \<in> K \<Longrightarrow> heads v d" and "\<And>d. d \<in> K \<Longrightarrow> \<exists>r. v AREQ d = Some r \<and> entered r"
  shows "queue_inv v K"
  using assms unfolding queue_inv_def by simp

lemma queue_invD:
  assumes "queue_inv v K"
  shows "session_exclusive v" and "places_distinct v"
    and "d \<in> K \<Longrightarrow> heads v d" and "d \<in> K \<Longrightarrow> \<exists>r. v AREQ d = Some r \<and> entered r"
  using assms unfolding queue_inv_def by simp_all

lemma keeps_queueD:
  assumes "keeps_queue v v'"
  shows "places_distinct v'" and "v AREQ d = Some r \<Longrightarrow> entered r \<Longrightarrow> \<exists>r'. v' AREQ d = Some r' \<and> entered r'"
  using assms unfolding keeps_queue_def by simp_all

lemma queue_inv_kept:
  assumes "queue_inv v K" and "keeps_queue v v'"
  shows "queue_inv v' K"
proof (rule queue_invI)
  show "session_exclusive v'" by (rule exclusive_kept [OF assms(2) queue_invD(1) [OF assms(1)]])
  show "places_distinct v'" by (rule keeps_queueD(1) [OF assms(2)])
next
  fix d
  assume d: "d \<in> K"
  then obtain r where r: "v AREQ d = Some r" "entered r" using queue_invD(4) [OF assms(1)] by blast
  show "heads v' d" by (rule heads_kept [OF assms(2) queue_invD(3) [OF assms(1) d] r])
  show "\<exists>r. v' AREQ d = Some r \<and> entered r" by (rule keeps_queueD(2) [OF assms(2) r])
qed

lemma start_entered:
  assumes "starts v v' d" and "v AREQ e = Some r" and "entered r"
  shows "\<exists>r. v' AREQ e = Some r \<and> entered r"
proof -
  obtain r' where "running r'" "v' AREQ = (v AREQ)(d \<mapsto> r')" using assms(1) unfolding starts_def by blast
  with assms(2,3) active_entered [of r'] show ?thesis by (cases "e = d") simp_all
qed

lemma queue_inv_start:
  assumes "queue_inv v K" and "starts v v' d" and "d \<in> K"
  shows "queue_inv v' K"
proof (rule queue_invI)
  note hd = queue_invD(3) [OF assms(1,3)]
  show "session_exclusive v'" by (rule start_exclusive [OF assms(2) hd queue_invD(1) [OF assms(1)]])
  show "places_distinct v'" by (rule start_places [OF assms(2) queue_invD(2) [OF assms(1)]])
  fix e
  assume e: "e \<in> K"
  then obtain r where r: "v AREQ e = Some r" "entered r" using queue_invD(4) [OF assms(1)] by blast
  show "heads v' e" by (rule start_heads [OF assms(2) hd queue_invD(3) [OF assms(1) e] r])
  show "\<exists>r. v' AREQ e = Some r \<and> entered r" by (rule start_entered [OF assms(2) r])
qed

context defra_txn
begin

lemma txn_view:
  assumes "txn_attempt T err commits body db = (res, db')"
  shows "view db' = view db \<or> (\<exists>v db1. body db = (Inr v, db1) \<and> view db' = view db1)"
  using txn_atomic [OF assms] by blast

lemma claim_body_starts:
  assumes "claim_body E capture p d sid (claim_input F now g lc) db = (Inr x, db1)" and "ce_node E = N"
  shows "view db1 AREQ = view db AREQ \<or> starts (view db) (view db1) d"
  using claim_body_rows [OF assms]
proof
  assume "\<exists>r sf. view db AREQ d = Some r \<and> waiting r \<and> snapshot_fields_only sf \<and>
       view db1 AREQ = (view db AREQ)(d \<mapsto> apply_input (claim_input F now g lc sf) r) \<and>
       set (cr_documents x) = {(d, apply_input (claim_input F now g lc sf) r)}"
  then obtain r sf where r: "view db AREQ d = Some r" "waiting r" "snapshot_fields_only sf"
    "view db1 AREQ = (view db AREQ)(d \<mapsto> apply_input (claim_input F now g lc sf) r)" by blast
  show ?thesis
    unfolding starts_def
    using r(1,2,4) claimed_row(2-4) [OF r(3)] by (intro disjI2 exI [of _ r] exI conjI) auto
qed simp

lemma claim_attempt_starts:
  assumes "txn_attempt T ClaimStore (\<lambda>_. True) (claim_body E capture p d sid (claim_input F now g lc)) db = (res, db')"
    and "ce_node E = N"
  shows "view db' AREQ = view db AREQ \<or> starts (view db) (view db') d"
  using txn_view [OF assms(1)]
proof (elim disjE exE conjE)
  fix x db1
  assume b: "claim_body E capture p d sid (claim_input F now g lc) db = (Inr x, db1)" and v: "view db' = view db1"
  from claim_body_starts [OF b assms(2)] show ?thesis unfolding v .
qed simp

lemma reject_body_rows:
  assumes "reject_body E now reason lc db = (Inr x, db1)" and "ce_node E = N"
  shows "view db1 AREQ = updated AREQ (pending_filter (ag_doc_id (rq_request lc)) (ag_agent_did (rq_request lc)))
    (rejection_input (ce_time E) now reason) (view db) AREQ"
proof -
  let ?flt = "pending_filter (ag_doc_id (rq_request lc)) (ag_agent_did (rq_request lc))"
  obtain res db2 where u: "nd_update N AREQ ?flt (rejection_input (ce_time E) now reason) db = (res, db2)" by force
  with assms obtain resp where res: "res = Inr resp"
    by (cases res) (auto simp: reject_body_def pending_filter_def)
  note b = assms(1) [unfolded reject_body_def assms(2), folded pending_filter_def, unfolded u res, simplified]
  have "view db1 AREQ = view db2 AREQ"
  proof (cases "update_hit AREQ resp")
    case False
    with b show ?thesis by simp
  next
    case True
    obtain res' db3 where c: "nd_create N ARSP (rejection_response (ce_time E) now reason lc) db2 = (res', db3)" by force
    have "db3 = db1" using b True c by (cases res') (auto split: option.splits)
    with create_other [OF c, of AREQ] show ?thesis by simp
  qed
  with update_ok [OF u [unfolded res]] show ?thesis by simp
qed

lemma reject_attempt_keeps_queue:
  assumes "txn_attempt T ClaimStore (\<lambda>_. True) (reject_body E now reason lc) db = (res, db')"
    and "ce_node E = N" and "places_distinct (view db)"
  shows "keeps_queue (view db) (view db')"
  using txn_view [OF assms(1)]
proof (elim disjE exE conjE)
  assume "view db' = view db"
  with assms(3) show ?thesis by (simp add: keeps_queue_same)
next
  fix x db1
  assume b: "reject_body E now reason lc db = (Inr x, db1)" and v: "view db' = view db1"
  show ?thesis
    unfolding v
    by (rule ending_keeps_queue [where v = "view db" and v' = "view db1", OF reject_body_rows [OF b assms(2)] ending_inputs(3) assms(3)])
qed

lemma ended_keeps_queue:
  assumes "nd_update N AREQ flt inp db = (res, db')" and "ends_request inp" and "places_distinct (view db)"
  shows "keeps_queue (view db) (view db')"
  using update_view [OF assms(1)] ending_keeps_queue [OF _ assms(2,3), of "view db'" flt]
    keeps_queue_same [OF _ assms(3), of "view db'"] by auto

text \<open>To the session queues a step either keeps them or starts a request that a claimer holds as the
  head of its session; what claimers hold grows by checked heads only.\<close>

lemma queue_step_kinds:
  assumes "queue_step E view x y" and "ce_node E = N" and "ce_txn E = T"
    and "queue_inv (view (fst x)) (snd x)"
  shows "keeps_queue (view (fst x)) (view (fst y)) \<or>
    (\<exists>d \<in> snd x. snd y = snd x \<and> starts (view (fst x)) (view (fst y)) d)"
  using assms
proof (induction rule: queue_step.induct)
  case (checked lc db plan K)
  then have "places_distinct (view db)" by (simp add: queue_inv_def)
  then show ?case using keeps_queue_same [of "view db" "view db"] by simp
next
  case (taken lc K capture p sid now g db res db')
  have "view db' AREQ = view db AREQ \<or> starts (view db) (view db') (ag_doc_id (rq_request lc))"
    using claim_attempt_starts taken by simp
  moreover have "places_distinct (view db)" using taken by (simp add: queue_inv_def)
  ultimately show ?case using keeps_queue_same [of "view db'" "view db"] taken(1) by auto
next
  case (leased db db' K)
  then show ?case using lease_step_keeps_queue by (simp add: queue_inv_def)
next
  case (ended inp d did db res db' K)
  then show ?case using ended_keeps_queue by (simp add: queue_inv_def)
next
  case (refused now reason lc db res db' K)
  then show ?case using reject_attempt_keeps_queue by (simp add: queue_inv_def)
qed simp

lemma queue_step_held:
  assumes "queue_step E view x y" and "ce_node E = N" and "queue_inv (view (fst x)) (snd x)"
  shows "snd y = snd x \<or> (\<exists>d. fst y = fst x \<and> snd y = insert d (snd x) \<and>
    heads (view (fst x)) d \<and> (\<exists>r. view (fst x) AREQ d = Some r \<and> entered r))"
  using assms
proof (induction rule: queue_step.induct)
  case (checked lc db plan K)
  then have "places_distinct (view db)" and "check_deduplication N lc db = Inr plan"
    by (simp_all add: queue_inv_def)
  then have "heads (view db) (ag_doc_id (rq_request lc))"
    "\<exists>r. view db AREQ (ag_doc_id (rq_request lc)) = Some r \<and> entered r"
    using check_heads checked(2) active_entered by blast+
  then show ?case by auto
qed auto

lemma queue_step_inv:
  assumes "queue_step E view x y" and "ce_node E = N" and "ce_txn E = T"
    and inv: "queue_inv (view (fst x)) (snd x)"
  shows "queue_inv (view (fst y)) (snd y)"
  using queue_step_held [OF assms(1,2) inv]
proof (elim disjE exE conjE)
  assume K: "snd y = snd x"
  from queue_step_kinds [OF assms] show ?thesis
    unfolding K using queue_inv_kept [OF inv] queue_inv_start [OF inv] by blast
next
  fix d r
  assume "fst y = fst x" "snd y = insert d (snd x)" "heads (view (fst x)) d"
    "view (fst x) AREQ d = Some r" "entered r"
  then show ?thesis using inv by (simp add: queue_inv_def)
qed

lemma queue_steps_inv:
  assumes "queue_steps E view x y" and "ce_node E = N" and "ce_txn E = T"
    and "queue_inv (view (fst x)) (snd x)"
  shows "queue_inv (view (fst y)) (snd y)"
  using assms by (induction rule: rtranclp_induct) (auto dest: queue_step_inv)

end

section \<open>What a claim leaves behind\<close>

text \<open>One attempt of the transaction, and the loop around it. The row was waiting in the store the
  attempt began with, and is the only request row that changed.\<close>

definition claim_effect ::
  "rfc3339 \<Rightarrow> instant \<Rightarrow> ustring \<Rightarrow> request_lifecycle \<Rightarrow> contents \<Rightarrow> contents \<Rightarrow> bool" where
  "claim_effect F now g lc v v' \<longleftrightarrow>
     (\<exists>r r'. v AREQ (ag_doc_id (rq_request lc)) = Some r \<and> waiting r \<and>
        v' AREQ = (v AREQ)(ag_doc_id (rq_request lc) \<mapsto> r') \<and>
        leased r' ReqClaimed g (rf_print F (now + int (rq_lease_duration_secs lc) * 1000000000)) 0 \<and>
        session_of r' = session_of r \<and> queue_key r' = queue_key r)"

lemma claim_attempts_result:
  assumes "claim_attempts begins attempt sleeping i db = (Inr v, db')"
  shows "\<exists>db0. attempt db0 = (Inr v, db')"
  using assms
proof (induction begins attempt sleeping i db rule: claim_attempts.induct)
  case (1 begins attempt sleeping i db)
  have b: "begins db = None"
    using 1(2) by (cases "begins db") (simp_all add: claim_attempts.simps [of begins attempt sleeping i db])
  obtain r db1 where a: "attempt db = (r, db1)" by force
  show ?case
  proof (cases r)
    case (Inr x)
    with a b 1(2) show ?thesis by (auto simp: claim_attempts.simps [of begins attempt sleeping i db])
  next
    case (Inl e)
    with a b 1(2) have "i < defra_db_conflict_max_retries \<and> is_claim_conflict e"
      and "claim_attempts begins attempt sleeping (Suc i) (sleeping (defradb_conflict_retry_backoff i) db1) = (Inr v, db')"
      by (auto simp: claim_attempts.simps [of begins attempt sleeping i db] split: if_splits)
    then show ?thesis by (rule 1(1) [OF b a [symmetric] Inl])
  qed
qed

context defra_txn
begin

lemma claim_body_effect:
  assumes "claim_body E capture p (ag_doc_id (rq_request lc)) sid (claim_input F now g lc) db = (Inr resp, db1)"
    and "ce_node E = N" and "cr_documents resp \<noteq> []"
  shows "claim_effect F now g lc (view db) (view db1)"
proof -
  obtain r sf where r: "view db AREQ (ag_doc_id (rq_request lc)) = Some r" "waiting r" "snapshot_fields_only sf"
    "view db1 AREQ = (view db AREQ)(ag_doc_id (rq_request lc) \<mapsto> apply_input (claim_input F now g lc sf) r)"
    using claim_body_rows [OF assms(1,2)] assms(3) by blast
  show ?thesis
    unfolding claim_effect_def
    using r(1,2,4) claimed_row(1-3) [OF r(3)] by (intro exI [of _ r] exI conjI) assumption+
qed

lemma claim_take_effect:
  assumes "claim_take E now g until lc db = (Inr out, lc', db')" and "ce_node E = N" and "ce_txn E = T"
  shows "out = ClaimClaimed \<and> rq_state lc' = LClaimed \<and> rq_generation lc' = Some g \<and>
    ag_doc_id (rq_request lc') = ag_doc_id (rq_request lc) \<and> rq_valid_until_at_claim lc' = until \<and>
    (\<exists>db0. claim_effect (ce_time E) now g lc (view db0) (view db'))"
proof -
  define a where "a = rq_request lc"
  define p where "p = request_session_projection_of (ce_json E) a (rq_agent_name lc) (rq_agent_did lc)
    (rq_behavior_id lc) (rf_print (ce_time E) now)"
  define att where "att = txn_attempt T ClaimStore (\<lambda>_. True) (claim_body E (is_automated_wakeup (ce_queue E) (ag_metadata a)) p
    (ag_doc_id a) (ag_session_id a) (claim_input (ce_time E) now g lc))"
  obtain res db1 where c: "claim_attempts (tx_begin T) att (ce_sleeping E) 0 db = (res, db1)" by force
  note t = assms(1) [unfolded claim_take_def Let_def claim_request_with_projection_def, folded a_def, folded p_def,
      unfolded assms(3), folded att_def, unfolded c]
  obtain resp where res: "res = Inr resp" using t by (cases res) auto
  obtain a' cid where cl: "claimed_request E (ag_doc_id a) resp = Inr (a', cid)"
    using t res by (cases "claimed_request E (ag_doc_id a) resp") auto
  have lc': "out = ClaimClaimed" "db' = db1" "rq_state lc' = LClaimed" "rq_generation lc' = Some g"
    "rq_valid_until_at_claim lc' = until" "rq_request lc' = a'"
    using t res cl by auto
  have docs: "cr_documents resp \<noteq> []" "ag_doc_id a' = ag_doc_id a"
    using cl by (auto simp: claimed_request_def split: list.splits if_splits elim!: bind_resE)
  obtain db0 where "att db0 = (Inr resp, db1)" using claim_attempts_result [OF c [unfolded res]] by blast
  from txn_result [OF this [unfolded att_def]] obtain db2 where
    b: "claim_body E (is_automated_wakeup (ce_queue E) (ag_metadata a)) p (ag_doc_id a) (ag_session_id a)
      (claim_input (ce_time E) now g lc) db0 = (Inr resp, db2)" and v: "view db1 = view db2" by auto
  have "claim_effect (ce_time E) now g lc (view db0) (view db1)"
    unfolding v by (rule claim_body_effect [OF b [unfolded a_def] assms(2) docs(1)])
  with lc' docs(2) show ?thesis unfolding a_def by blast
qed

end

end
