(* ===== verification/Session_Queue_Claims.thy ===== *)
theory Session_Queue_Claims
  imports Session_Queue
begin

text \<open>
  The guarantees of claiming as closed statements, for any store and transaction layer that satisfy
  their laws, with witnesses on the in-memory store.
\<close>

section \<open>Ending a pending request: facts\<close>

lemma retry_success:
  assumes "retry_terminal_persistence_operation m b attempt sleeping 0 db = (Inr v, db')"
  shows "\<exists>j db0. attempt j db0 = (Inr v, db')"
  using retry_invariant [OF assms, where P = "\<lambda>_. True"] by auto

lemma claim_inner_claimed:
  assumes "claim_inner E now now' g lc db = (Inr ClaimClaimed, lc', db')"
  shows "\<exists>valid until plan. rq_state lc = LPending \<and>
    fetch_interrupt_and_ttl (ce_node E) (ag_doc_id (rq_request lc)) db = Inr (None, valid) \<and>
    (parse_valid_until (\<lambda>s. ok_or s (rf_parse (ce_time E) s)) valid now = NotSet \<and> until = None \<or>
     (\<exists>t. parse_valid_until (\<lambda>s. ok_or s (rf_parse (ce_time E) s)) valid now = Live t \<and> until = Some t)) \<and>
    check_deduplication (ce_node E) lc (ce_meanwhile E 1 db) = Inr plan \<and> dp_is_earliest plan \<and>
    claim_take E now' g until lc (ce_meanwhile E 2 (ce_meanwhile E 1 db)) = (Inr ClaimClaimed, lc', db')"
proof -
  have st: "rq_state lc = LPending"
    using assms by (auto simp: claim_inner_def rq_ensure_state_def split: if_splits)
  note c = assms [unfolded claim_inner_def Let_def]
  obtain valid where f: "fetch_interrupt_and_ttl (ce_node E) (ag_doc_id (rq_request lc)) db = Inr (None, valid)"
    using c st
    by (cases "fetch_interrupt_and_ttl (ce_node E) (ag_doc_id (rq_request lc)) db")
       (auto simp: rq_ensure_state_def split: option.splits prod.splits sum.splits)
  show ?thesis
    using c st f
    by (cases "parse_valid_until (\<lambda>s. ok_or s (rf_parse (ce_time E) s)) valid now")
       (auto simp: rq_ensure_state_def split: sum.splits prod.splits if_splits)
qed

context defra
begin

lemma find_request_row_state:
  assumes "find_request_row N d db = Inr (Some w)"
  shows "\<exists>r. view db AREQ d = Some r \<and> req_state r = rw_state w \<and> rw_cols w = r"
proof -
  obtain rows x where q: "nd_query N AREQ [(''_docID'', Is (GStr d))] db = Inr rows"
    and x: "first_of rows = Some x" "request_row_of x = Some w"
    using assms unfolding find_request_row_def
    by (auto split: sum.splits option.splits elim!: bind_resE)
  obtain e r where e: "x = (e, r)" by force
  have "x \<in> set rows" using x(1) by (cases rows) auto
  with query_rows [OF q] e have "e = d" "view db AREQ d = Some r" by auto
  with request_row_of_facts [of e r w] x(2) e show ?thesis by auto
qed

lemma end_pending_result:
  assumes "end_pending E inp target lc db = (Inr won, db')" and "ce_node E = N"
    and "\<And>r. req_state (apply_input inp r) = Some target"
  shows "\<exists>r. view db' AREQ (ag_doc_id (rq_request lc)) = Some r \<and> req_state r = Some target"
proof -
  define flt where "flt = [(''agent_did'', Is (GStr (ag_agent_did (rq_request lc)))), (''lifecycle_state'', Is (GStr (lit ''pending'')))]"
  define att where "att = (\<lambda>_ :: nat. nd_update N AREQ ((''_docID'', Is (GStr (ag_doc_id (rq_request lc)))) # flt) inp)"
  obtain res db1 where r: "retry_terminal_persistence_operation terminal_persistence_max_retries
      terminal_persistence_initial_backoff_ms att (ce_sleeping E) 0 db = (res, db1)" by force
  note e = assms(1) [unfolded end_pending_def assms(2), folded flt_def, folded att_def, unfolded r]
  obtain resp where res: "res = Inr resp" using e by (cases res) auto
  show ?thesis
  proof (cases "update_hit AREQ resp")
    case True
    obtain j db0 where "att j db0 = (Inr resp, db1)" using retry_success [OF r [unfolded res]] by blast
    from update_won [OF this [unfolded att_def] True] assms(3) have
      "\<exists>r. view db1 AREQ (ag_doc_id (rq_request lc)) = Some r \<and> req_state r = Some target" by blast
    with e res True show ?thesis by simp
  next
    case False
    then obtain w where "find_request_row N (ag_doc_id (rq_request lc)) db1 = Inr (Some w)"
      "rw_state w = Some target" "db' = db1"
      using e res unfolding request_view_def
      by (auto split: sum.splits if_splits simp: bind_eq_Some_conv)
    with find_request_row_state show ?thesis by metis
  qed
qed

end

lemma ending_targets:
  "req_state (apply_input (interrupted_input F now) r) = Some ReqInterrupted"
  "req_state (apply_input (stale_input F now) r) = Some ReqDead"
  "req_state (apply_input (rejection_input F now reason) r) = Some ReqFailed"
  by (simp_all add: interrupted_input_def stale_input_def rejection_input_def req_state_def str_field_def
      request_parse_opt_def request_parse_def)

section \<open>Guarantees\<close>

text \<open>C2. A session runs one request at a time. However the checks and transactions of any number of
  claimers interleave with lease operations, endings, rejections and requests entering the queue behind
  the waiting ones, no session ever has two running requests.\<close>

theorem session_runs_one_at_a_time:
  assumes "defra_txn (ce_node E) view (ce_txn E)" and "queue_steps E view (db, {}) (db', K)"
    and "session_exclusive (view db)" and "places_distinct (view db)"
  shows "session_exclusive (view db')"
proof -
  have "queue_inv (view (fst (db, {}))) (snd (db, {}))"
    using assms(3,4) by (simp add: queue_inv_def)
  from defra_txn.queue_steps_inv [OF assms(1,2) refl refl this] show ?thesis
    by (simp add: queue_inv_def)
qed

text \<open>Requests are taken in queue order. At the moment a claim transaction changes a request row, that
  request was waiting, no request of its session was running, and every other waiting request of the
  session has a later place.\<close>

theorem claims_follow_queue_order:
  assumes "defra_txn (ce_node E) view (ce_txn E)" and "queue_steps E view (db, {}) (db', K)"
    and "session_exclusive (view db)" and "places_distinct (view db)"
    and "ag_doc_id (rq_request lc) \<in> K"
    and "txn_attempt (ce_txn E) ClaimStore (\<lambda>_. True)
      (claim_body E capture p (ag_doc_id (rq_request lc)) sid (claim_input (ce_time E) now g lc)) db' = (res, db'')"
    and "view db'' AREQ \<noteq> view db' AREQ"
  shows "\<exists>r. view db' AREQ (ag_doc_id (rq_request lc)) = Some r \<and> waiting r \<and>
    (\<forall>e q. view db' AREQ e = Some q \<and> session_of q = session_of r \<longrightarrow>
       \<not> running q \<and> (waiting q \<and> e \<noteq> ag_doc_id (rq_request lc) \<longrightarrow> queue_key r < queue_key q))"
proof -
  have "queue_inv (view (fst (db, {}))) (snd (db, {}))"
    using assms(3,4) by (simp add: queue_inv_def)
  from defra_txn.queue_steps_inv [OF assms(1,2) refl refl this] assms(5)
  have h: "heads (view db') (ag_doc_id (rq_request lc))" by (simp add: queue_inv_def)
  have "starts (view db') (view db'') (ag_doc_id (rq_request lc))"
    using defra_txn.claim_attempt_starts [OF assms(1,6) refl] assms(7) by blast
  with h show ?thesis unfolding starts_def heads_def by blast
qed

text \<open>C9. A successful claim owns the request. It found no interrupt and no expired or malformed
  time-to-live, the request headed its session when it looked, and the row it found waiting is now
  claimed with the claim's own generation, a full lease and no progress; no other request row changed.\<close>

theorem claim_owns_the_request:
  assumes "defra_txn (ce_node E) view (ce_txn E)"
    and "claim_inner E now now' g lc db = (Inr ClaimClaimed, lc', db')"
  shows "\<exists>valid plan db0.
    fetch_interrupt_and_ttl (ce_node E) (ag_doc_id (rq_request lc)) db = Inr (None, valid) \<and>
    parse_valid_until (\<lambda>s. ok_or s (rf_parse (ce_time E) s)) valid now =
      (case rq_valid_until_at_claim lc' of None \<Rightarrow> NotSet | Some t \<Rightarrow> Live t) \<and>
    check_deduplication (ce_node E) lc (ce_meanwhile E 1 db) = Inr plan \<and> dp_is_earliest plan \<and>
    claim_effect (ce_time E) now' g lc (view db0) (view db') \<and>
    rq_state lc' = LClaimed \<and> owner_generation (owner_of lc') = Inr g \<and>
    ro_request_doc_id (owner_of lc') = ag_doc_id (rq_request lc)"
proof -
  obtain valid until plan where c:
    "fetch_interrupt_and_ttl (ce_node E) (ag_doc_id (rq_request lc)) db = Inr (None, valid)"
    "parse_valid_until (\<lambda>s. ok_or s (rf_parse (ce_time E) s)) valid now = NotSet \<and> until = None \<or>
     (\<exists>t. parse_valid_until (\<lambda>s. ok_or s (rf_parse (ce_time E) s)) valid now = Live t \<and> until = Some t)"
    "check_deduplication (ce_node E) lc (ce_meanwhile E 1 db) = Inr plan" "dp_is_earliest plan"
    "claim_take E now' g until lc (ce_meanwhile E 2 (ce_meanwhile E 1 db)) = (Inr ClaimClaimed, lc', db')"
    using claim_inner_claimed [OF assms(2)] by blast
  from defra_txn.claim_take_effect [OF assms(1) c(5) refl refl] obtain db0 where
    t: "rq_state lc' = LClaimed" "rq_generation lc' = Some g"
      "ag_doc_id (rq_request lc') = ag_doc_id (rq_request lc)" "rq_valid_until_at_claim lc' = until"
      "claim_effect (ce_time E) now' g lc (view db0) (view db')" by blast
  have v: "parse_valid_until (\<lambda>s. ok_or s (rf_parse (ce_time E) s)) valid now =
      (case rq_valid_until_at_claim lc' of None \<Rightarrow> NotSet | Some t \<Rightarrow> Live t)"
    using c(2) t(4) by auto
  have o: "owner_generation (owner_of lc') = Inr g" "ro_request_doc_id (owner_of lc') = ag_doc_id (rq_request lc)"
    using t by (simp_all add: owner_generation_def owner_of_def)
  show ?thesis
    using c(1,3,4) v t(1,5) o by (intro exI conjI)
qed

text \<open>A claim that reports an interrupted or expired request leaves it ended. The row is interrupted,
  or dead, when such a claim returns, whoever ended it.\<close>

theorem settled_claims_end_the_request:
  assumes "defra_txn (ce_node E) view (ce_txn E)"
    and "claim_inner E now now' g lc db = (Inr out, lc', db')" and "out \<in> {ClaimInterrupted, ClaimExpired}"
  shows "\<exists>r. view db' AREQ (ag_doc_id (rq_request lc)) = Some r \<and>
    req_state r = Some (if out = ClaimInterrupted then ReqInterrupted else ReqDead)"
proof -
  have d: "defra (ce_node E) view" using assms(1) by (rule defra_txn.axioms(1))
  have take: "claim_take E now' g until lc x = (Inr out, lc', db') \<Longrightarrow> False" for until x
    using defra_txn.claim_take_effect [OF assms(1) _ refl refl] assms(3) by blast
  from assms(2,3) take consider
      (i) won where "out = ClaimInterrupted"
        "end_pending E (interrupted_input (ce_time E) now) ReqInterrupted lc (ce_meanwhile E 0 db) = (Inr won, db')"
    | (x) won where "out = ClaimExpired"
        "end_pending E (stale_input (ce_time E) now) ReqDead lc (ce_meanwhile E 0 db) = (Inr won, db')"
    unfolding claim_inner_def Let_def transition_pending_to_interrupted_def transition_pending_to_dead_stale_def
    by (auto split: sum.splits prod.splits option.splits ttl_outcome.splits if_splits)
  then show ?thesis
  proof cases
    case i
    with defra.end_pending_result [OF d i(2) refl ending_targets(1)] show ?thesis by simp
  next
    case x
    with defra.end_pending_result [OF d x(2) refl ending_targets(2)] show ?thesis by simp
  qed
qed

section \<open>Witnesses\<close>

text \<open>A store with one waiting request, claimed by a runtime with fixed clocks.\<close>

definition demo_claim_env :: "mem_db claim_env" where
  "demo_claim_env = \<lparr>ce_json = \<lambda>_. None, ce_queue = \<lambda>_. None, ce_time = \<lparr>rf_print = \<lambda>_. lit ''t'', rf_parse = \<lambda>_. None\<rparr>,
     ce_node = mem_node, ce_txn = mem_txn, ce_commits = \<lambda>_ _. [(lit ''cid'', 1, lit ''_C'')],
     ce_sleeping = \<lambda>_ db. db, ce_meanwhile = \<lambda>_ db. db\<rparr>"

definition demo_agent_request :: agent_request where
  "demo_agent_request = projr (agent_request_of_row (\<lambda>_. None) (\<lambda>_. None) demo_row)"

definition demo_claimer :: request_lifecycle where
  "demo_claimer = new_with_execution_binding (lit ''agent'') (lit ''did:a'') demo_agent_request 60 Interactive (lit ''b'')"

definition demo_claim_input :: input where
  "demo_claim_input = claim_input (ce_time demo_claim_env) 0 (lit ''g'') demo_claimer []"

lemma demo_claimer_fields:
  "ag_doc_id (rq_request demo_claimer) = lit ''d1''" "ag_session_id (rq_request demo_claimer) = lit ''s1''"
  "ag_metadata (rq_request demo_claimer) = None" "ag_deadline (rq_request demo_claimer) = None"
  "ag_agent_did (rq_request demo_claimer) = lit ''did:a''" "rq_state demo_claimer = LPending"
  "rq_behavior_id demo_claimer = lit ''agent''"
  by (simp_all add: demo_claimer_def new_with_execution_binding_def demo_agent_request_def agent_request_of_row_def
      demo_row_def demo_cols_def str_field_def int_field_def unsigned_column_def validate_agent_request_def nonblank_def
      resolve_behavior_id_def)

lemma demo_check:
  "\<exists>plan. check_deduplication mem_node demo_claimer demo_db = Inr plan \<and> dp_is_earliest plan"
proof -
  let ?flt = "[(''session_id'', Is (GStr (lit ''s1''))), (''lifecycle_state'', OneOf active_runtime_values)]"
  have q: "mem_hits AREQ ?flt demo_db = [(lit ''d1'', demo_cols)]"
    by (simp add: mem_hits_def demo_db_def demo_cols_def active_runtime_values_def request_all_def
        request_is_active_runtime_def)
  have row: "request_row_of (lit ''d1'', demo_cols) = Some demo_row"
    by (simp add: request_row_of_def demo_row_def demo_cols_def str_field_def request_parse_def)
  show ?thesis
    unfolding check_deduplication_def demo_claimer_fields mem_calls q
    by (simp add: in_queue_order_def row dedup_of_rows_def) (simp add: demo_row_def)
qed

lemma demo_invariants: "session_exclusive (mem_view demo_db)" "places_distinct (mem_view demo_db)"
  by (auto simp: session_exclusive_def places_distinct_def mem_view_def demo_db_def split: if_splits)

definition demo_projection :: request_session_projection where
  "demo_projection = request_session_projection_of (\<lambda>_. None) (rq_request demo_claimer) (rq_agent_name demo_claimer)
     (rq_agent_did demo_claimer) (rq_behavior_id demo_claimer) (lit ''t'')"

lemma demo_projection_fields: "sp_session_id demo_projection = lit ''s1''" "sp_behavior_id demo_projection = lit ''agent''"
  by (simp_all add: demo_projection_def request_session_projection_of_def demo_claimer_fields Let_def conversation_title_from_metadata_def
      nonblank_def)

definition demo_claimed_row :: row where
  "demo_claimed_row = apply_input demo_claim_input demo_cols"

lemma demo_body:
  "\<exists>db1. claim_body demo_claim_env False demo_projection (lit ''d1'') (lit ''s1'')
      (claim_input (ce_time demo_claim_env) 0 (lit ''g'') demo_claimer) demo_db =
     (Inr \<lparr>cr_documents = [(lit ''d1'', demo_claimed_row)], cr_versions = [(lit ''cid'', 1, lit ''_C'')],
          cr_snapshot = \<lparr>bs_through_sequence = None, bs_notification_keys = []\<rparr>\<rparr>, db1)"
proof -
  let ?flt = "[(''_docID'', Is (GStr (lit ''d1''))), (''lifecycle_state'', Is (GStr (lit ''pending'')))]"
  define db1 where "db1 = [((AREQ, lit ''d1''), demo_claimed_row)]"
  have m: "row_matches ?flt (lit ''d1'') demo_cols" by (simp add: demo_cols_def)
  have u: "mem_update AREQ ?flt demo_claim_input demo_db = (Inr (Some (updated_response AREQ [lit ''d1''])), db1)"
    using m by (simp add: mem_update_def mem_hits_def demo_db_def db1_def demo_claimed_row_def)
  have q: "mem_hits AREQ [(''_docID'', Is (GStr (lit ''d1'')))] db1 = [(lit ''d1'', demo_claimed_row)]"
    by (simp add: mem_hits_def db1_def)
  have n: "mem_hits ''AgentSession'' flt db1 = []" for flt by (simp add: mem_hits_def db1_def)
  have p: "\<exists>db2. apply_request_session_projection mem_node demo_projection db1 = (Inr (), db2)"
    by (simp add: apply_request_session_projection_def mem_calls n existing_other_behavior_def List.map_filter_def
        mem_create_def mem_update_def Let_def mem_hits_def db1_def)
  then show ?thesis
    using u q by (auto simp: claim_body_def demo_claim_env_def mem_calls demo_claim_input_def Let_def)
qed

lemma demo_attempt:
  "\<exists>db1. txn_attempt mem_txn ClaimStore (\<lambda>_. True) (claim_body demo_claim_env False demo_projection (lit ''d1'') (lit ''s1'')
      (claim_input (ce_time demo_claim_env) 0 (lit ''g'') demo_claimer)) demo_db =
     (Inr \<lparr>cr_documents = [(lit ''d1'', demo_claimed_row)], cr_versions = [(lit ''cid'', 1, lit ''_C'')],
          cr_snapshot = \<lparr>bs_through_sequence = None, bs_notification_keys = []\<rparr>\<rparr>, db1)"
  using demo_body by (auto simp: txn_attempt_def mem_txn_def)

lemma demo_env_fields:
  "ce_node demo_claim_env = mem_node" "ce_txn demo_claim_env = mem_txn" "ce_json demo_claim_env = (\<lambda>_. None)"
  "ce_queue demo_claim_env = (\<lambda>_. None)" "ce_sleeping demo_claim_env = (\<lambda>_ db. db)"
  "ce_meanwhile demo_claim_env = (\<lambda>_ db. db)" "rf_print (ce_time demo_claim_env) = (\<lambda>_. lit ''t'')"
  "rf_parse (ce_time demo_claim_env) = (\<lambda>_. None)"
  by (simp_all add: demo_claim_env_def)

lemma demo_defra: "defra_txn (ce_node demo_claim_env) mem_view (ce_txn demo_claim_env)"
  unfolding demo_env_fields by (rule mem_tx.defra_txn_axioms)

lemma demo_checked: "queue_step demo_claim_env mem_view (demo_db, {}) (demo_db, {lit ''d1''})"
  using demo_check queue_step.checked [of demo_claim_env demo_claimer demo_db _ mem_view "{}"]
  by (auto simp: demo_env_fields demo_claimer_fields)

lemma demo_steps: "\<exists>db'. queue_steps demo_claim_env mem_view (demo_db, {}) (db', {lit ''d1''})"
proof -
  obtain db1 res where a: "txn_attempt (ce_txn demo_claim_env) ClaimStore (\<lambda>_. True)
      (claim_body demo_claim_env False demo_projection (ag_doc_id (rq_request demo_claimer)) (lit ''s1'')
        (claim_input (ce_time demo_claim_env) 0 (lit ''g'') demo_claimer)) demo_db = (res, db1)"
    using demo_attempt unfolding demo_env_fields demo_claimer_fields by blast
  have "ag_doc_id (rq_request demo_claimer) \<in> {lit ''d1''}" by (simp add: demo_claimer_fields)
  from queue_step.taken [OF this a]
  have "queue_steps demo_claim_env mem_view (demo_db, {}) (db1, {lit ''d1''})"
    using demo_checked by (meson converse_rtranclp_into_rtranclp r_into_rtranclp)
  then show ?thesis ..
qed

theorem session_runs_one_at_a_time_witness:
  "\<exists>db'. queue_steps demo_claim_env mem_view (demo_db, {}) (db', {lit ''d1''}) \<and> session_exclusive (mem_view db')"
proof -
  obtain db1 where steps: "queue_steps demo_claim_env mem_view (demo_db, {}) (db1, {lit ''d1''})"
    using demo_steps by blast
  from session_runs_one_at_a_time [OF demo_defra steps demo_invariants] steps show ?thesis by blast
qed

lemma demo_taken_changes:
  assumes "txn_attempt mem_txn ClaimStore (\<lambda>_. True) (claim_body demo_claim_env False demo_projection (lit ''d1'') (lit ''s1'')
      (claim_input (ce_time demo_claim_env) 0 (lit ''g'') demo_claimer)) demo_db =
    (Inr \<lparr>cr_documents = [(lit ''d1'', demo_claimed_row)], cr_versions = vs, cr_snapshot = sn\<rparr>, db1)"
  shows "mem_view db1 AREQ \<noteq> mem_view demo_db AREQ"
proof -
  obtain db2 where b: "claim_body demo_claim_env False demo_projection (ag_doc_id (rq_request demo_claimer)) (lit ''s1'')
      (claim_input (ce_time demo_claim_env) 0 (lit ''g'') demo_claimer) demo_db =
      (Inr \<lparr>cr_documents = [(lit ''d1'', demo_claimed_row)], cr_versions = vs, cr_snapshot = sn\<rparr>, db2)"
    and v: "mem_view db1 = mem_view db2"
    using mem_tx.txn_result [OF assms] by (auto simp: demo_claimer_fields)
  have "claim_effect (ce_time demo_claim_env) 0 (lit ''g'') demo_claimer (mem_view demo_db) (mem_view db2)"
    by (rule mem_tx.claim_body_effect [OF b demo_env_fields(1)]) simp
  then obtain r r' where "mem_view demo_db AREQ (lit ''d1'') = Some r" "waiting r"
    "mem_view db2 AREQ (lit ''d1'') = Some r'"
    "leased r' ReqClaimed (lit ''g'') (rf_print (ce_time demo_claim_env) (0 + int (rq_lease_duration_secs demo_claimer) * 1000000000)) 0"
    unfolding claim_effect_def demo_claimer_fields by fastforce
  with leased_req_state show ?thesis unfolding v waiting_def by fastforce
qed

theorem claims_follow_queue_order_witness:
  "\<exists>r. mem_view demo_db AREQ (lit ''d1'') = Some r \<and> waiting r \<and>
    (\<forall>e q. mem_view demo_db AREQ e = Some q \<and> session_of q = session_of r \<longrightarrow>
       \<not> running q \<and> (waiting q \<and> e \<noteq> lit ''d1'' \<longrightarrow> queue_key r < queue_key q))"
proof -
  obtain db1 where a: "txn_attempt mem_txn ClaimStore (\<lambda>_. True) (claim_body demo_claim_env False demo_projection (lit ''d1'') (lit ''s1'')
      (claim_input (ce_time demo_claim_env) 0 (lit ''g'') demo_claimer)) demo_db =
     (Inr \<lparr>cr_documents = [(lit ''d1'', demo_claimed_row)], cr_versions = [(lit ''cid'', 1, lit ''_C'')],
          cr_snapshot = \<lparr>bs_through_sequence = None, bs_notification_keys = []\<rparr>\<rparr>, db1)"
    using demo_attempt by blast
  have steps: "queue_steps demo_claim_env mem_view (demo_db, {}) (demo_db, {lit ''d1''})"
    using demo_checked by blast
  have k: "ag_doc_id (rq_request demo_claimer) \<in> {lit ''d1''}" by (simp add: demo_claimer_fields)
  from claims_follow_queue_order [OF demo_defra steps demo_invariants k, unfolded demo_env_fields demo_claimer_fields,
      OF a demo_taken_changes [OF a]]
  show ?thesis .
qed

lemma demo_claimed_request:
  "\<exists>a. claimed_request demo_claim_env (lit ''d1'')
     \<lparr>cr_documents = [(lit ''d1'', demo_claimed_row)], cr_versions = [(lit ''cid'', 1, lit ''_C'')], cr_snapshot = sn\<rparr> = Inr (a, lit ''cid'')"
proof -
  have r: "request_row_of (lit ''d1'', demo_claimed_row) =
      Some \<lparr>rw_doc_id = lit ''d1'', rw_request_id = lit ''r1'', rw_state = Some ReqClaimed, rw_cols = demo_claimed_row\<rparr>"
    by (simp add: request_row_of_def demo_claimed_row_def demo_claim_input_def claim_input_def demo_cols_def
        str_field_def request_parse_def)
  have "\<exists>a. agent_request_of_row (\<lambda>_. None) (\<lambda>_. None)
      \<lparr>rw_doc_id = lit ''d1'', rw_request_id = lit ''r1'', rw_state = Some ReqClaimed, rw_cols = demo_claimed_row\<rparr> = Inr a \<and>
      ag_doc_id a = lit ''d1''"
    by (simp add: agent_request_of_row_def demo_claimed_row_def demo_claim_input_def claim_input_def demo_cols_def
        str_field_def int_field_def unsigned_column_def validate_agent_request_def)
  then show ?thesis
    using r by (auto simp: claimed_request_def demo_env_fields document_composite_version_def
        unique_newest_composite_commit_def)
qed

lemma demo_claim:
  "\<exists>lc' db'. claim_inner demo_claim_env 0 0 (lit ''g'') demo_claimer demo_db = (Inr ClaimClaimed, lc', db')"
proof -
  obtain db1 where a: "txn_attempt mem_txn ClaimStore (\<lambda>_. True) (claim_body demo_claim_env False demo_projection (lit ''d1'') (lit ''s1'')
      (claim_input (ce_time demo_claim_env) 0 (lit ''g'') demo_claimer)) demo_db =
     (Inr \<lparr>cr_documents = [(lit ''d1'', demo_claimed_row)], cr_versions = [(lit ''cid'', 1, lit ''_C'')],
          cr_snapshot = \<lparr>bs_through_sequence = None, bs_notification_keys = []\<rparr>\<rparr>, db1)"
    using demo_attempt by blast
  have w: "is_automated_wakeup (\<lambda>_. None) None = False"
    by (simp add: is_automated_wakeup_def parse_queue_hints_def parse_queue_metadata_def)
  obtain r where "claimed_request demo_claim_env (lit ''d1'')
     \<lparr>cr_documents = [(lit ''d1'', demo_claimed_row)], cr_versions = [(lit ''cid'', 1, lit ''_C'')],
      cr_snapshot = \<lparr>bs_through_sequence = None, bs_notification_keys = []\<rparr>\<rparr> = Inr (r, lit ''cid'')"
    using demo_claimed_request by blast
  then have "\<exists>lc' db'. claim_take demo_claim_env 0 (lit ''g'') None demo_claimer demo_db = (Inr ClaimClaimed, lc', db')"
    using a
    unfolding claim_take_def claim_request_with_projection_def Let_def demo_env_fields demo_claimer_fields w demo_projection_def
    by (auto simp: claim_attempts.simps demo_claimer_fields mem_txn_def [THEN arg_cong [where f = tx_begin], simplified])
  moreover have "mem_hits AREQ [(''_docID'', Is (GStr (lit ''d1'')))] demo_db = [(lit ''d1'', demo_cols)]"
    by (simp add: mem_hits_def demo_db_def)
  then have "fetch_interrupt_and_ttl mem_node (lit ''d1'') demo_db = Inr (None, None)"
    by (simp add: fetch_interrupt_and_ttl_def find_request_row_def mem_calls request_row_of_def demo_cols_def
        str_field_def request_parse_def)
  ultimately show ?thesis
    using demo_check
    by (auto simp: claim_inner_def rq_ensure_state_def demo_claimer_fields demo_env_fields parse_valid_until_def Let_def)
qed

theorem claim_owns_the_request_witness:
  "\<exists>lc' db' db0. claim_inner demo_claim_env 0 0 (lit ''g'') demo_claimer demo_db = (Inr ClaimClaimed, lc', db') \<and>
     claim_effect (ce_time demo_claim_env) 0 (lit ''g'') demo_claimer (mem_view db0) (mem_view db')"
proof -
  obtain lc' db' where c: "claim_inner demo_claim_env 0 0 (lit ''g'') demo_claimer demo_db = (Inr ClaimClaimed, lc', db')"
    using demo_claim by blast
  from claim_owns_the_request [OF demo_defra c] obtain db0 where
    "claim_effect (ce_time demo_claim_env) 0 (lit ''g'') demo_claimer (mem_view db0) (mem_view db')"
    by (elim exE conjE)
  with c show ?thesis by blast
qed

definition demo_interrupted_db :: mem_db where
  "demo_interrupted_db = [((AREQ, lit ''d1''), demo_cols(''interrupt_requested_at'' \<mapsto> GStr (lit ''t'')))]"

lemma demo_interrupted_claim:
  "\<exists>lc' db'. claim_inner demo_claim_env 0 0 (lit ''g'') demo_claimer demo_interrupted_db = (Inr ClaimInterrupted, lc', db')"
proof -
  have "mem_hits AREQ [(''_docID'', Is (GStr (lit ''d1'')))] demo_interrupted_db =
      [(lit ''d1'', demo_cols(''interrupt_requested_at'' \<mapsto> GStr (lit ''t'')))]"
    by (simp add: mem_hits_def demo_interrupted_db_def)
  then have f: "fetch_interrupt_and_ttl mem_node (lit ''d1'') demo_interrupted_db = Inr (Some (lit ''t''), None)"
    by (simp add: fetch_interrupt_and_ttl_def find_request_row_def mem_calls request_row_of_def demo_cols_def
        str_field_def request_parse_def)
  have "row_matches [(''_docID'', Is (GStr (lit ''d1''))), (''agent_did'', Is (GStr (lit ''did:a''))),
      (''lifecycle_state'', Is (GStr (lit ''pending'')))] (lit ''d1'') (demo_cols(''interrupt_requested_at'' \<mapsto> GStr (lit ''t'')))"
    by (simp add: demo_cols_def)
  then have "\<exists>resp db1. mem_update AREQ [(''_docID'', Is (GStr (lit ''d1''))), (''agent_did'', Is (GStr (lit ''did:a''))),
      (''lifecycle_state'', Is (GStr (lit ''pending'')))] (interrupted_input (ce_time demo_claim_env) 0) demo_interrupted_db = (Inr resp, db1) \<and>
      update_hit AREQ resp"
    by (simp add: mem_update_def mem_hits_def demo_interrupted_db_def)
  then obtain resp db1 where u: "mem_update AREQ [(''_docID'', Is (GStr (lit ''d1''))), (''agent_did'', Is (GStr (lit ''did:a''))),
      (''lifecycle_state'', Is (GStr (lit ''pending'')))] (interrupted_input (ce_time demo_claim_env) 0) demo_interrupted_db = (Inr resp, db1)"
    "update_hit AREQ resp" by blast
  then have "end_pending demo_claim_env (interrupted_input (ce_time demo_claim_env) 0) ReqInterrupted demo_claimer demo_interrupted_db = (Inr True, db1)"
    unfolding end_pending_def demo_env_fields demo_claimer_fields mem_calls
    by (subst retry_terminal_persistence_operation.simps) simp
  then show ?thesis
    using f by (simp add: claim_inner_def rq_ensure_state_def demo_claimer_fields demo_env_fields
        transition_pending_to_interrupted_def)
qed

theorem settled_claims_end_the_request_witness:
  "\<exists>lc' db' r. claim_inner demo_claim_env 0 0 (lit ''g'') demo_claimer demo_interrupted_db = (Inr ClaimInterrupted, lc', db') \<and>
     mem_view db' AREQ (lit ''d1'') = Some r \<and> req_state r = Some ReqInterrupted"
proof -
  obtain lc' db' where c: "claim_inner demo_claim_env 0 0 (lit ''g'') demo_claimer demo_interrupted_db = (Inr ClaimInterrupted, lc', db')"
    using demo_interrupted_claim by blast
  from settled_claims_end_the_request [OF demo_defra c] c show ?thesis
    by (auto simp: demo_claimer_fields)
qed

end
