(* ===== verification/Session_Refinement.thy ===== *)
theory Session_Refinement
  imports Session_Queue_Claims
begin

text \<open>
  The contract of a session towards its users: a first-in first-out queue with one server. The
  specification knows only which requests wait, in order, and which one runs; \<open>queue_abs\<close> reads that off
  the store, and every interleaving of the claim protocol is a run of the specification.
\<close>

section \<open>The specification\<close>

text \<open>The third part of a state are the requests that have joined a queue so far: nobody joins twice, so
  a request that waits behind another cannot get ahead of it by leaving and coming back.\<close>

type_synonym session_state = "doc_id list \<times> doc_id option \<times> doc_id set"

inductive fifo_step :: "session_state \<Rightarrow> session_state \<Rightarrow> bool" where
  start: "fifo_step (d # ws, None, S) (ws, Some d, S)"
| move: "run' = run \<or> run' = None \<Longrightarrow> set new \<inter> S = {} \<Longrightarrow> S \<union> set new \<subseteq> S' \<Longrightarrow>
    fifo_step (ws, run, S) (filter keep ws @ new, run', S')"

text \<open>The specification forbids overtaking: once \<open>d\<close> waits before \<open>e\<close>, every run keeps \<open>e\<close> from being served
  while \<open>d\<close> still waits.\<close>

definition kept_behind :: "'a \<Rightarrow> 'a \<Rightarrow> 'a list \<times> 'a option \<times> 'a set \<Rightarrow> bool" where
  "kept_behind d e a \<longleftrightarrow> (case a of (ws, run, S) \<Rightarrow>
     distinct ws \<and> set ws \<subseteq> S \<and> d \<in> S \<and> e \<in> S \<and>
     (d \<in> set ws \<longrightarrow> run \<noteq> Some e \<and> e \<notin> set (takeWhile (\<lambda>x. x \<noteq> d) ws)))"

lemma takeWhile_filter_subset:
  "d \<in> set (filter keep ws) \<Longrightarrow>
   set (takeWhile (\<lambda>x. x \<noteq> d) (filter keep ws @ new)) \<subseteq> set (takeWhile (\<lambda>x. x \<noteq> d) ws)"
  by (induction ws) (auto split: if_splits)

lemma kept_behind_start:
  "kept_behind d e (x # ws, None, S) \<Longrightarrow> d \<noteq> e \<Longrightarrow> kept_behind d e (ws, Some x, S)"
  by (cases "x = d") (auto simp: kept_behind_def)

lemma kept_behind_move:
  assumes "kept_behind d e (ws, run, S)" and "run' = run \<or> run' = None" and "set new \<inter> S = {}"
    and "S \<union> set new \<subseteq> S'" and "distinct new"
  shows "kept_behind d e (filter keep ws @ new, run', S')"
proof -
  have h: "distinct ws" "set ws \<subseteq> S" "d \<in> S" "e \<in> S"
    and k: "d \<in> set ws \<Longrightarrow> run \<noteq> Some e" "d \<in> set ws \<Longrightarrow> e \<notin> set (takeWhile (\<lambda>x. x \<noteq> d) ws)"
    using assms(1) by (simp_all add: kept_behind_def)
  have d: "d \<in> set (filter keep ws)" "d \<in> set ws" if "d \<in> set (filter keep ws @ new)"
    using that h(3) assms(3) by auto
  have "run' \<noteq> Some e \<and> e \<notin> set (takeWhile (\<lambda>x. x \<noteq> d) (filter keep ws @ new))"
    if "d \<in> set (filter keep ws @ new)"
    using takeWhile_filter_subset [OF d(1) [OF that], of new] k [OF d(2) [OF that]] assms(2) by auto
  moreover have "distinct (filter keep ws @ new)" "set (filter keep ws @ new) \<subseteq> S'" "d \<in> S'" "e \<in> S'"
    using h assms(3-5) by auto
  ultimately show ?thesis unfolding kept_behind_def prod.case by blast
qed

lemma fifo_step_kept_behind:
  assumes "fifo_step a b" and "kept_behind d e a" and "d \<noteq> e" and "distinct (fst b)"
  shows "kept_behind d e b"
  using assms(1)
proof (cases rule: fifo_step.cases)
  case (start x ws S)
  from assms(2) show ?thesis unfolding start(1,2) by (rule kept_behind_start) (rule assms(3))
next
  case (move run' run new S S' ws keep)
  have new: "distinct new" using assms(4) unfolding move(2) by simp
  from assms(2) show ?thesis unfolding move(1,2) by (rule kept_behind_move) (rule move(3-5) new)+
qed

lemma fifo_run_kept_behind:
  assumes "successively fifo_step as" and "\<forall>a \<in> set as. distinct (fst a)" and "d \<noteq> e"
    and "i \<le> j" and "j < length as" and "kept_behind d e (as ! i)"
  shows "kept_behind d e (as ! j)"
  using assms(4,5)
proof (induction j rule: dec_induct)
  case base
  show ?case by (rule assms(6))
next
  case (step n)
  have n: "n < length as" using step.prems by (rule Suc_lessD)
  have fs: "fifo_step (as ! n) (as ! Suc n)" using assms(1) step.prems unfolding successively_conv_nth by blast
  have "as ! Suc n \<in> set as" using step.prems by (rule nth_mem)
  with assms(2) have "distinct (fst (as ! Suc n))" by (rule bspec)
  then show ?case by (rule fifo_step_kept_behind [OF fs step.IH [OF n] assms(3)])
qed

section \<open>The abstraction\<close>

definition waiting_in :: "contents \<Rightarrow> ustring \<Rightarrow> doc_id set" where
  "waiting_in v s = {d. \<exists>r. v AREQ d = Some r \<and> waiting r \<and> session_of r = Some s}"

definition running_in :: "contents \<Rightarrow> ustring \<Rightarrow> doc_id set" where
  "running_in v s = {d. \<exists>r. v AREQ d = Some r \<and> running r \<and> session_of r = Some s}"

definition entered_in :: "contents \<Rightarrow> doc_id set" where
  "entered_in v = {d. \<exists>r. v AREQ d = Some r \<and> entered r}"

definition place :: "contents \<Rightarrow> doc_id \<Rightarrow> ustring option \<times> ustring option" where
  "place v d = queue_key (the (v AREQ d))"

definition queue_abs :: "contents \<Rightarrow> ustring \<Rightarrow> session_state \<Rightarrow> bool" where
  "queue_abs v s a \<longleftrightarrow>
     set (fst a) = waiting_in v s \<and> sorted_wrt (\<lambda>d e. place v d < place v e) (fst a) \<and>
     running_in v s = set_option (fst (snd a)) \<and> snd (snd a) = entered_in v"

lemma waiting_inI: "v AREQ d = Some r \<Longrightarrow> waiting r \<Longrightarrow> session_of r = Some s \<Longrightarrow> d \<in> waiting_in v s"
  by (auto simp: waiting_in_def)

lemma finite_waiting: "finite (dom (v AREQ)) \<Longrightarrow> finite (waiting_in v s)"
  by (rule finite_subset [of _ "dom (v AREQ)"]) (auto simp: waiting_in_def)

text \<open>Any set of requests with distinct places can be listed in their order.\<close>

lemma ordered_listing:
  assumes "finite A" and "inj_on (f :: 'a \<Rightarrow> 'b :: linorder) A"
  shows "\<exists>xs. set xs = A \<and> sorted_wrt (\<lambda>x y. f x < f y) xs"
proof -
  obtain ys where ys: "set ys = A" "distinct ys" using finite_distinct_list [OF assms(1)] by blast
  let ?xs = "sort_key f ys"
  have "sorted (map f ?xs)" by simp
  moreover have "distinct (map f ?xs)" using assms(2) ys by (simp add: distinct_map)
  ultimately have "sorted_wrt (<) (map f ?xs)" by (simp add: strict_sorted_iff)
  then have "sorted_wrt (\<lambda>x y. f x < f y) ?xs" by (simp add: sorted_wrt_map)
  with ys show ?thesis by (intro exI [of _ ?xs]) simp
qed

lemma places_inj:
  assumes "places_distinct v"
  shows "inj_on (place v) (waiting_in v s)"
proof (rule inj_onI)
  fix d e
  assume "d \<in> waiting_in v s" "e \<in> waiting_in v s" "place v d = place v e"
  then obtain r q where "v AREQ d = Some r" "waiting r" "session_of r = Some s"
    "v AREQ e = Some q" "waiting q" "session_of q = Some s" "queue_key r = queue_key q"
    by (auto simp: waiting_in_def place_def)
  with assms show "d = e" unfolding places_distinct_def by (metis (no_types))
qed

lemma running_at_most_one:
  assumes "session_exclusive v"
  shows "\<exists>run. running_in v s = set_option run"
proof (cases "running_in v s = {}")
  case True
  then show ?thesis by (intro exI [of _ None]) simp
next
  case False
  then obtain d where d: "d \<in> running_in v s" by blast
  have "e = d" if e: "e \<in> running_in v s" for e
  proof -
    obtain r where "v AREQ e = Some r" "running r" "session_of r = Some s"
      using e by (auto simp: running_in_def)
    moreover obtain q where "v AREQ d = Some q" "running q" "session_of q = Some s"
      using d by (auto simp: running_in_def)
    ultimately have "running r \<and> running q \<and> session_of r = session_of q \<and> session_of r \<noteq> None \<and>
        v AREQ e = Some r \<and> v AREQ d = Some q" by simp
    with assms show ?thesis unfolding session_exclusive_def by blast
  qed
  with d have "running_in v s = {d}" by blast
  then show ?thesis by (intro exI [of _ "Some d"]) simp
qed

lemma queue_abs_exists:
  assumes "queue_inv v K" and "finite (dom (v AREQ))"
  shows "\<exists>a. queue_abs v s a"
proof -
  obtain ws where "set ws = waiting_in v s" "sorted_wrt (\<lambda>d e. place v d < place v e) ws"
    using ordered_listing [OF finite_waiting [of v s, OF assms(2)] places_inj [OF queue_invD(2) [OF assms(1)]]] by blast
  moreover obtain run where "running_in v s = set_option run"
    using running_at_most_one [OF queue_invD(1) [OF assms(1)]] by blast
  ultimately show ?thesis by (intro exI [of _ "(ws, run, entered_in v)"]) (simp add: queue_abs_def)
qed

section \<open>Steps that keep the queues\<close>

lemma kept_running:
  assumes "keeps_queue v v'" and "d \<in> running_in v' s"
  shows "d \<in> running_in v s"
proof -
  obtain r' where r': "v' AREQ d = Some r'" "running r'" "session_of r' = Some s"
    using assms(2) by (auto simp: running_in_def)
  then have "carried_over v d r'"
    using assms(1) not_waiting_running unfolding keeps_queue_def arrives_behind_def by blast
  then show ?thesis
    using r' not_waiting_running unfolding carried_over_def running_in_def by auto
qed

text \<open>A request that waits afterwards waited before in the same place, or is new and behind.\<close>

lemma kept_waiting:
  assumes "keeps_queue v v'" and "d \<in> waiting_in v' s"
  shows "d \<in> waiting_in v s \<and> place v' d = place v d \<or>
    d \<notin> waiting_in v s \<and> (\<forall>e \<in> waiting_in v s. place v e < place v' d)"
proof -
  obtain r' where r': "v' AREQ d = Some r'" "waiting r'" "session_of r' = Some s"
    using assms(2) by (auto simp: waiting_in_def)
  then consider "carried_over v d r'" | "arrives_behind v d r'"
    using assms(1) unfolding keeps_queue_def by blast
  then show ?thesis
  proof cases
    case 1
    then obtain r where "v AREQ d = Some r" "session_of r' = session_of r" "queue_key r' = queue_key r" "waiting r"
      using r'(2) not_waiting_running unfolding carried_over_def by blast
    then show ?thesis using r' by (auto simp: waiting_in_def place_def)
  next
    case 2
    then have "d \<notin> waiting_in v s" using active_entered unfolding arrives_behind_def waiting_in_def by blast
    moreover have "place v e < place v' d" if "e \<in> waiting_in v s" for e
      using that 2 r' unfolding arrives_behind_def waiting_in_def place_def by auto
    ultimately show ?thesis by blast
  qed
qed

lemma waiting_entered: "waiting_in v s \<subseteq> entered_in v"
  using active_entered by (auto simp: waiting_in_def entered_in_def)

lemma kept_entered: "keeps_queue v v' \<Longrightarrow> entered_in v \<subseteq> entered_in v'"
  using keeps_queueD(2) by (fastforce simp: entered_in_def)

lemma new_not_entered:
  assumes "keeps_queue v v'" and "d \<in> waiting_in v' s" and "d \<notin> waiting_in v s"
  shows "d \<notin> entered_in v"
proof -
  obtain r' where r': "v' AREQ d = Some r'" "waiting r'" "session_of r' = Some s"
    using assms(2) by (auto simp: waiting_in_def)
  then consider "carried_over v d r'" | "arrives_behind v d r'"
    using assms(1) unfolding keeps_queue_def by blast
  then show ?thesis
  proof cases
    case 1
    then obtain r where "v AREQ d = Some r" "session_of r' = session_of r" "waiting r"
      using r'(2) not_waiting_running unfolding carried_over_def by blast
    then show ?thesis using r'(3) assms(3) by (auto simp: waiting_in_def)
  qed (auto simp: arrives_behind_def entered_in_def)
qed

lemma keeps_queue_fifo:
  assumes kq: "keeps_queue v v'" and abs: "queue_abs v s (ws, run, S)" and fin: "finite (dom (v' AREQ))"
  shows "\<exists>a. queue_abs v' s a \<and> fifo_step (ws, run, S) a"
proof -
  let ?W = "waiting_in v s" and ?W' = "waiting_in v' s"
  have ws: "set ws = ?W" "sorted_wrt (\<lambda>d e. place v d < place v e) ws" and R: "running_in v s = set_option run"
    using abs by (simp_all add: queue_abs_def)
  have old: "place v' d = place v d" if "d \<in> ?W" "d \<in> ?W'" for d
    using kept_waiting [OF kq that(2)] that(1) by blast
  have behind: "place v e < place v' d" if "d \<in> ?W' - ?W" "e \<in> ?W" for d e
    using kept_waiting [OF kq, of d s] that by blast
  have "inj_on (place v') (?W' - ?W)"
    using places_inj [OF keeps_queueD(1) [OF kq], of s] by (rule inj_on_subset) blast
  then obtain new where new: "set new = ?W' - ?W" "sorted_wrt (\<lambda>d e. place v' d < place v' e) new"
    using ordered_listing [of "?W' - ?W" "place v'"] finite_waiting [of v' s, OF fin] by blast
  let ?ws = "filter (\<lambda>d. d \<in> ?W') ws @ new"
  have "sorted_wrt (\<lambda>d e. place v' d < place v' e) (filter (\<lambda>d. d \<in> ?W') ws)"
    using sorted_wrt_filter [OF ws(2), of "\<lambda>d. d \<in> ?W'"] by (rule sorted_wrt_mono_rel [rotated]) (use ws(1) old in auto)
  then have "sorted_wrt (\<lambda>d e. place v' d < place v' e) ?ws"
    using new old behind ws(1) by (auto simp: sorted_wrt_append)
  moreover have "set ?ws = ?W'" using ws(1) new(1) by auto
  moreover obtain run' where run': "running_in v' s = set_option run'" "run' = run \<or> run' = None"
  proof (cases "running_in v' s = {}")
    case True
    then show ?thesis using that [of None] by simp
  next
    case False
    then obtain x where x: "x \<in> running_in v' s" by blast
    have sub: "running_in v' s \<subseteq> set_option run" using kept_running [OF kq] R by blast
    then have "running_in v' s = set_option run" using x by (cases run) auto
    then show ?thesis using that [of run] by simp
  qed
  ultimately have "queue_abs v' s (?ws, run', entered_in v')" by (simp add: queue_abs_def)
  moreover have "fifo_step (ws, run, S) (?ws, run', entered_in v')"
    using abs new(1) kept_entered [OF kq] waiting_entered [of v' s]
    by (intro fifo_step.move [OF run'(2)]) (auto simp: queue_abs_def dest: new_not_entered [OF kq])
  ultimately show ?thesis by blast
qed

section \<open>Starting a request\<close>

lemma start_fifo:
  assumes st: "starts v v' d" and hd: "heads v d" and abs: "queue_abs v s (ws, run, S)"
  shows "\<exists>a. queue_abs v' s a \<and> fifo_step (ws, run, S) a"
proof -
  obtain r r' where r: "v AREQ d = Some r" "waiting r" "running r'" "session_of r' = session_of r"
    "queue_key r' = queue_key r" "v' AREQ = (v AREQ)(d \<mapsto> r')"
    using st unfolding starts_def by blast
  have ws: "set ws = waiting_in v s" "sorted_wrt (\<lambda>d e. place v d < place v e) ws"
    and R: "running_in v s = set_option run"
    using abs by (simp_all add: queue_abs_def)
  have place: "place v' = place v"
    using r by (auto simp: place_def fun_eq_iff)
  have ent: "entered_in v' = entered_in v"
    using r active_entered by (auto simp: entered_in_def split: if_splits)
  show ?thesis
  proof (cases "session_of r = Some s")
    case False
    have "waiting_in v' s = waiting_in v s" "running_in v' s = running_in v s"
      using r False not_waiting_running by (auto simp: waiting_in_def running_in_def split: if_splits)
    then have "queue_abs v' s (ws, run, S)" using abs ent by (simp add: queue_abs_def place)
    moreover have "fifo_step (ws, run, S) (filter (\<lambda>_. True) ws @ [], run, S)" by (rule fifo_step.move) simp_all
    ultimately show ?thesis by auto
  next
    case True
    have head: "\<not> running q \<and> (waiting q \<and> e \<noteq> d \<longrightarrow> queue_key r < queue_key q)"
      if "v AREQ e = Some q" "session_of q = Some s" for e q
      using hd r(1,2) that True unfolding heads_def by auto
    have "running_in v s = {}" using head by (auto simp: running_in_def)
    then have run: "run = None" using R by (cases run) auto
    have dw: "d \<in> set ws" using r True ws(1) by (auto simp: waiting_in_def)
    obtain w rest where w: "ws = w # rest" using dw by (cases ws) auto
    have "w = d"
    proof (rule ccontr)
      assume ne: "w \<noteq> d"
      then have "place v w < place v d" using w dw ws(2) by auto
      moreover have "w \<in> waiting_in v s" using ws(1) w by auto
      then have "place v d < place v w" using head ne r(1) by (auto simp: waiting_in_def place_def)
      ultimately show False by simp
    qed
    have "distinct ws" using ws(2) by (induction ws) auto
    then have "d \<notin> set rest" using w \<open>w = d\<close> by simp
    have "waiting_in v' s = waiting_in v s - {d}" "running_in v' s = insert d (running_in v s)"
      using r True not_waiting_running by (auto simp: waiting_in_def running_in_def split: if_splits)
    then have "queue_abs v' s (rest, Some d, S)"
      using ws w \<open>w = d\<close> \<open>d \<notin> set rest\<close> \<open>running_in v s = {}\<close> abs ent by (auto simp: queue_abs_def place)
    moreover have "fifo_step (ws, run, S) (rest, Some d, S)" unfolding w \<open>w = d\<close> run by (rule fifo_step.start)
    ultimately show ?thesis by blast
  qed
qed

section \<open>Every interleaving is a run of the queue\<close>

context defra_txn
begin

lemma queue_step_refines:
  assumes "queue_step E view x y" and "ce_node E = N" and "ce_txn E = T"
    and "queue_inv (view (fst x)) (snd x)" and "queue_abs (view (fst x)) s a"
    and "finite (dom (view (fst y) AREQ))"
  shows "\<exists>a'. queue_abs (view (fst y)) s a' \<and> fifo_step a a'"
proof -
  obtain ws run S where a: "a = (ws, run, S)" by (cases a)
  from queue_step_kinds [OF assms(1-4)] show ?thesis
  proof (elim disjE bexE conjE)
    assume "keeps_queue (view (fst x)) (view (fst y))"
    from keeps_queue_fifo [OF this assms(5) [unfolded a] assms(6)] show ?thesis unfolding a .
  next
    fix d
    assume d: "d \<in> snd x" and st: "starts (view (fst x)) (view (fst y)) d"
    from start_fifo [OF st queue_invD(3) [OF assms(4) d] assms(5) [unfolded a]] show ?thesis unfolding a .
  qed
qed

lemma queue_run_refines:
  assumes "successively (queue_step E view) (x # tr)" and "ce_node E = N" and "ce_txn E = T"
    and "queue_inv (view (fst x)) (snd x)" and "queue_abs (view (fst x)) s a"
    and "\<And>db. finite (dom (view db AREQ))"
  shows "\<exists>as. list_all2 (\<lambda>y b. queue_abs (view (fst y)) s b) tr as \<and> successively fifo_step (a # as)"
  using assms(1,4,5)
proof (induction tr arbitrary: x a)
  case Nil
  show ?case by (intro exI [of _ "[]"]) simp
next
  case (Cons y tr)
  have step: "queue_step E view x y" and run: "successively (queue_step E view) (y # tr)"
    using Cons.prems(1) by simp_all
  obtain b where b: "queue_abs (view (fst y)) s b" "fifo_step a b"
    using queue_step_refines [OF step assms(2,3) Cons.prems(2,3) assms(6)] by blast
  have "queue_inv (view (fst y)) (snd y)"
    by (rule queue_steps_inv [OF r_into_rtranclp [of "queue_step E view", OF step] assms(2,3) Cons.prems(2)])
  from Cons.IH [OF run this b(1)] obtain as where
    "list_all2 (\<lambda>y b. queue_abs (view (fst y)) s b) tr as" "successively fifo_step (b # as)" by blast
  with b show ?case by (intro exI [of _ "b # as"]) simp
qed

end

section \<open>What the queue promises of the stores\<close>

lemma sorted_wrt_less_distinct: "sorted_wrt (\<lambda>x y. (f x :: 'b :: linorder) < f y) ws \<Longrightarrow> distinct ws"
  by (induction ws) auto

lemma queue_abs_distinct: "queue_abs v s a \<Longrightarrow> distinct (fst a)"
  unfolding queue_abs_def using sorted_wrt_less_distinct by blast

lemma sorted_behind:
  assumes "sorted_wrt (\<lambda>x y. (f x :: 'b :: linorder) < f y) ws" and "f d < f e" and "d \<in> set ws"
  shows "e \<notin> set (takeWhile (\<lambda>x. x \<noteq> d) ws)"
  using assms by (induction ws) (auto split: if_splits dest: set_takeWhileD)

lemma queue_abs_kept_behind:
  assumes "queue_abs v s a" and "d \<in> waiting_in v s" and "e \<in> waiting_in v s" and "place v d < place v e"
  shows "kept_behind d e a"
proof -
  obtain ws run S where a: "a = (ws, run, S)" by (cases a)
  have ws: "set ws = waiting_in v s" "sorted_wrt (\<lambda>d e. place v d < place v e) ws" "S = entered_in v"
    "running_in v s = set_option run" using assms(1) by (simp_all add: a queue_abs_def)
  have "e \<notin> running_in v s"
    using assms(3) not_waiting_running unfolding waiting_in_def running_in_def mem_Collect_eq by fastforce
  then have "run \<noteq> Some e" unfolding ws(4) by simp
  moreover have "e \<notin> set (takeWhile (\<lambda>x. x \<noteq> d) ws)"
    using sorted_behind [OF ws(2) assms(4)] assms(2) ws(1) by simp
  moreover have "distinct ws" "set ws \<subseteq> S" "d \<in> S" "e \<in> S"
    using queue_abs_distinct [OF assms(1)] ws(1,3) assms(2,3) waiting_entered [of v s] by (auto simp: a)
  ultimately show ?thesis unfolding a kept_behind_def prod.case by blast
qed

lemma kept_behind_served:
  "queue_abs v s a \<Longrightarrow> kept_behind d e a \<Longrightarrow> e \<in> running_in v s \<Longrightarrow> d \<notin> waiting_in v s"
  unfolding queue_abs_def kept_behind_def split_beta by (metis elem_set)

lemma rtranclp_run: "R\<^sup>*\<^sup>* x y \<Longrightarrow> \<exists>tr. successively R (x # tr) \<and> last (x # tr) = y"
proof (induction rule: converse_rtranclp_induct)
  case base
  show ?case by (intro exI [of _ "[]"]) simp
next
  case (step x z)
  then obtain tr where "successively R (z # tr)" "last (z # tr) = y" by blast
  with step(1) show ?case by (intro exI [of _ "z # tr"]) simp
qed

text \<open>C1. A session is a first-in first-out queue with one server. Take any interleaving of claim checks,
  claim transactions, lease operations, endings and arrivals, listed store by store. The requests of a
  session form a run of the queue specification along it: at every store they are a state of the
  specification, and every step is one step of it: the front request of an idle session starts, or
  requests leave, the server becomes free and requests that never joined a queue before join at the back.
  So nobody overtakes: when \<open>d\<close> and \<open>e\<close> both wait and \<open>d\<close> has the earlier place, \<open>e\<close> does not run at any
  later point while \<open>d\<close> still waits.\<close>

theorem session_refines_fifo:
  assumes "defra_txn (ce_node E) view (ce_txn E)" and "\<forall>db. finite (dom (view db AREQ))"
    and "successively (queue_step E view) ((db, {}) # tr)"
    and "session_exclusive (view db)" and "places_distinct (view db)"
  shows "(\<exists>as. list_all2 (\<lambda>x a. queue_abs (view (fst x)) s a) ((db, {}) # tr) as \<and> successively fifo_step as) \<and>
    (\<forall>i j d e. i \<le> j \<and> j \<le> length tr \<and>
       d \<in> waiting_in (view (fst (((db, {}) # tr) ! i))) s \<and> e \<in> waiting_in (view (fst (((db, {}) # tr) ! i))) s \<and>
       place (view (fst (((db, {}) # tr) ! i))) d < place (view (fst (((db, {}) # tr) ! i))) e \<and>
       e \<in> running_in (view (fst (((db, {}) # tr) ! j))) s \<longrightarrow>
       d \<notin> waiting_in (view (fst (((db, {}) # tr) ! j))) s)"
proof -
  let ?tr = "(db, {}) # tr"
  have inv: "queue_inv (view db) {}" using assms(4,5) by (simp add: queue_inv_def)
  have fin: "finite (dom (view x AREQ))" for x using assms(2) by blast
  obtain a where a: "queue_abs (view db) s a"
    using queue_abs_exists [of "view db" "{}" s, OF inv] fin by blast
  have "\<exists>as. list_all2 (\<lambda>x a. queue_abs (view (fst x)) s a) tr as \<and> successively fifo_step (a # as)"
    by (rule defra_txn.queue_run_refines [OF assms(1,3) refl refl]) (simp_all add: inv a fin)
  then obtain as where as: "list_all2 (\<lambda>x a. queue_abs (view (fst x)) s a) ?tr as" "successively fifo_step as"
    using a by (metis fst_conv list_all2_Cons)
  have abs: "queue_abs (view (fst (?tr ! i))) s (as ! i)" if "i \<le> length tr" for i
    using list_all2_nthD [OF as(1), of i] that by simp
  have len: "length as = Suc (length tr)" using list_all2_lengthD [OF as(1)] by simp
  have dist: "\<forall>b \<in> set as. distinct (fst b)"
    using queue_abs_distinct [OF abs] len by (metis in_set_conv_nth less_Suc_eq_le)
  have "d \<notin> waiting_in (view (fst (?tr ! j))) s"
    if "i \<le> j" "j \<le> length tr" "d \<in> waiting_in (view (fst (?tr ! i))) s" "e \<in> waiting_in (view (fst (?tr ! i))) s"
      "place (view (fst (?tr ! i))) d < place (view (fst (?tr ! i))) e" "e \<in> running_in (view (fst (?tr ! j))) s"
    for i j d e
  proof (rule kept_behind_served [OF abs [OF that(2)] _ that(6)])
    have "kept_behind d e (as ! i)"
      by (rule queue_abs_kept_behind [OF abs that(3-5)]) (use that(1,2) in simp)
    then show "kept_behind d e (as ! j)"
      by (rule fifo_run_kept_behind [OF as(2) dist _ that(1), rotated 2]) (use that(2,5) len in auto)
  qed
  with as show ?thesis by blast
qed

section \<open>Witness\<close>

lemma mem_finite: "finite (dom (mem_view db AREQ))"
proof (rule finite_subset)
  show "dom (mem_view db AREQ) \<subseteq> (snd \<circ> fst) ` set db"
    by (force simp: mem_view_def dest: map_of_SomeD)
qed simp

theorem session_refines_fifo_witness:
  "\<exists>db' tr as. successively (queue_step demo_claim_env mem_view) ((demo_db, {}) # tr) \<and>
     last ((demo_db, {}) # tr) = (db', {lit ''d1''}) \<and>
     list_all2 (\<lambda>x a. queue_abs (mem_view (fst x)) (lit ''s1'') a) ((demo_db, {}) # tr) as \<and>
     successively fifo_step as"
proof -
  obtain db1 where steps: "queue_steps demo_claim_env mem_view (demo_db, {}) (db1, {lit ''d1''})"
    using demo_steps by blast
  obtain tr where tr: "successively (queue_step demo_claim_env mem_view) ((demo_db, {}) # tr)"
    "last ((demo_db, {}) # tr) = (db1, {lit ''d1''})"
    using rtranclp_run [OF steps] by blast
  from session_refines_fifo [OF demo_defra _ tr(1) demo_invariants, of "lit ''s1''"] mem_finite tr(2) tr(1)
  show ?thesis by blast
qed

end
