(* ===== verification/Edit_Match.thy ===== *)
theory Edit_Match
  imports Gents_Prelude
begin

text \<open>
  The matcher behind the \<^verbatim>\<open>edit_file\<close> tool (\<^verbatim>\<open>crates/gents/src/toolset/edit_match.rs\<close>): line
  endings, the ladder of match strategies with its ambiguity gate, the splice of the replacement,
  the rendered diff and the closest-match hint.

  Rust slices strings by byte offset; every offset the matcher slices at is the offset of a match or
  of a newline and therefore a character boundary, so positions here count scalar values. The one
  place that cuts at an arbitrary byte (\<^verbatim>\<open>floor_char_boundary\<close>) is modelled on byte counts. The
  \<^verbatim>\<open>regex\<close> crate and the arithmetic of \<^verbatim>\<open>f64\<close> are arguments.
\<close>

section \<open>Searching and replacing\<close>

text \<open>\<^verbatim>\<open>str::match_indices\<close>: the disjoint matches from the left. An empty pattern matches at every
  boundary.\<close>

function matches_from :: "ustring \<Rightarrow> nat \<Rightarrow> ustring \<Rightarrow> nat list" where
  "matches_from pat i s =
     (if pat = [] then [i..<Suc (i + length s)]
      else case s of
          [] \<Rightarrow> []
        | c # t \<Rightarrow>
            (if starts_with pat s
             then i # matches_from pat (i + length pat) (drop (length pat) s)
             else matches_from pat (Suc i) t))"
  by pat_completeness auto
termination
  by (relation "measure (\<lambda>(pat, i, s). length s)") auto

declare matches_from.simps [simp del]

definition match_indices :: "ustring \<Rightarrow> ustring \<Rightarrow> nat list" where
  "match_indices s pat = matches_from pat 0 s"

text \<open>\<^verbatim>\<open>str::replace\<close> and \<^verbatim>\<open>str::replacen\<close>: copy up to each match, then the replacement.\<close>

fun replace_at :: "ustring \<Rightarrow> ustring \<Rightarrow> nat \<Rightarrow> ustring \<Rightarrow> nat \<Rightarrow> nat list \<Rightarrow> ustring" where
  "replace_at s to w acc last_end [] = acc @ drop last_end s"
| "replace_at s to w acc last_end (i # is) =
     replace_at s to w (acc @ drop last_end (take i s) @ to) (i + w) is"

definition str_replace :: "ustring \<Rightarrow> ustring \<Rightarrow> ustring \<Rightarrow> ustring" where
  "str_replace s pat to = replace_at s to (length pat) [] 0 (match_indices s pat)"

definition str_replacen :: "ustring \<Rightarrow> ustring \<Rightarrow> ustring \<Rightarrow> nat \<Rightarrow> ustring" where
  "str_replacen s pat to n = replace_at s to (length pat) [] 0 (take n (match_indices s pat))"

section \<open>Data\<close>

datatype strategy = SExact | STrailingWs | STrim | SUnicode | SRegex

definition strategy_as_str :: "strategy \<Rightarrow> ustring" where
  "strategy_as_str s =
     (case s of
        SExact \<Rightarrow> lit ''exact''
      | STrailingWs \<Rightarrow> lit ''trailing_whitespace''
      | STrim \<Rightarrow> lit ''trim''
      | SUnicode \<Rightarrow> lit ''unicode''
      | SRegex \<Rightarrow> lit ''regex'')"

datatype operation = Replace | InsertAfter | InsertBefore | Delete

datatype match_mode = Ladder | RegexMode

record edit_request =
  er_old_text :: ustring
  er_new_text :: ustring
  er_replace_all :: bool
  er_operation :: operation
  er_match_mode :: match_mode

record closest_hint =
  cm_line :: nat
  cm_similarity_pct :: nat
  cm_first_diff :: "(ustring \<times> ustring) option"

record occurrence_preview =
  op_line :: nat
  op_text :: ustring

datatype edit_outcome =
    Applied (eo_result: ustring) (eo_strategy: strategy) (eo_replacements: nat)
      (eo_first_changed_line: nat) (eo_diff: ustring)
  | NotFound "closest_hint option"
  | Ambiguous strategy nat "occurrence_preview list"
  | Noop strategy
  | InvalidRegex ustring

datatype line_ending = Lf | CrLf

record normalized_content =
  nc_text :: ustring
  nc_ending :: line_ending
  nc_had_bom :: bool

abbreviation nl :: uchar where "nl \<equiv> 10"
abbreviation crlf :: ustring where "crlf \<equiv> [13, 10]"
abbreviation bom :: uchar where "bom \<equiv> 65279"

text \<open>The \<^verbatim>\<open>regex\<close> crate: compiling, the spans of the disjoint matches, and replacement of the first
  \<open>n\<close> matches (all of them for \<open>0\<close>) by a function of the captures.\<close>

record ('re, 'caps) regex_engine =
  rx_build :: "ustring \<Rightarrow> ustring + 're"
  rx_find_iter :: "'re \<Rightarrow> ustring \<Rightarrow> (nat \<times> nat) list"
  rx_replacen :: "'re \<Rightarrow> ustring \<Rightarrow> nat \<Rightarrow> ('caps \<Rightarrow> ustring) \<Rightarrow> ustring"
  rx_expand :: "'caps \<Rightarrow> ustring \<Rightarrow> ustring"
  rx_group0 :: "'caps \<Rightarrow> ustring"

text \<open>The double-precision arithmetic of the closest-match hint: the mean of \<open>1 - d / m\<close> over pairs
  of a distance and a length (with \<open>1\<close> for length zero), comparison, and rounding to a percentage.\<close>

record 'f float_score =
  fs_mean :: "(nat \<times> nat) list \<Rightarrow> 'f"
  fs_greater :: "'f \<Rightarrow> 'f \<Rightarrow> bool"
  fs_percent :: "'f \<Rightarrow> nat"

section \<open>Line endings\<close>

definition normalize_content :: "ustring \<Rightarrow> normalized_content" where
  "normalize_content raw =
     (let (had_bom, rest) = (case strip_prefix [bom] raw of
                               Some r \<Rightarrow> (True, r)
                             | None \<Rightarrow> (False, raw));
          n_crlf = length (match_indices rest crlf);
          lf_total = length (match_indices rest [nl])
      in \<lparr>nc_text = str_replace rest crlf [nl],
          nc_ending = (if 0 < n_crlf \<and> lf_total \<le> n_crlf * 2 then CrLf else Lf),
          nc_had_bom = had_bom\<rparr>)"

definition restore_content :: "ustring \<Rightarrow> line_ending \<Rightarrow> bool \<Rightarrow> ustring" where
  "restore_content txt ending had_bom =
     (let body = (case ending of Lf \<Rightarrow> txt | CrLf \<Rightarrow> str_replace txt [nl] crlf)
      in if had_bom then bom # body else body)"

section \<open>Lines\<close>

text \<open>\<^verbatim>\<open>content.split('\n')\<close> and \<^verbatim>\<open>lines.join("\n")\<close>.\<close>

abbreviation lines_of :: "ustring \<Rightarrow> ustring list" where
  "lines_of s \<equiv> split_on nl s"

abbreviation join_lines :: "ustring list \<Rightarrow> ustring" where
  "join_lines ls \<equiv> join_with [nl] ls"

definition normalize_char :: "uchar \<Rightarrow> uchar" where
  "normalize_char c =
     (if 8208 \<le> c \<and> c \<le> 8213 \<or> c = 8722 then 45
      else if 8216 \<le> c \<and> c \<le> 8219 then 39
      else if 8220 \<le> c \<and> c \<le> 8223 then 34
      else if c = 160 \<or> 8194 \<le> c \<and> c \<le> 8202 \<or> c = 8239 \<or> c = 8287 \<or> c = 12288 then 32
      else c)"

definition normalize_unicode :: "ustring \<Rightarrow> ustring" where
  "normalize_unicode line = map normalize_char line"

definition line_matches :: "strategy \<Rightarrow> ustring \<Rightarrow> ustring \<Rightarrow> bool" where
  "line_matches s file_line pattern_line \<longleftrightarrow>
     (case s of
        SExact \<Rightarrow> file_line = pattern_line
      | SRegex \<Rightarrow> file_line = pattern_line
      | STrailingWs \<Rightarrow> trim_end file_line = trim_end pattern_line
      | STrim \<Rightarrow> trim file_line = trim pattern_line
      | SUnicode \<Rightarrow> normalize_unicode (trim file_line) = normalize_unicode (trim pattern_line))"

definition window_matches :: "strategy \<Rightarrow> ustring list \<Rightarrow> ustring list \<Rightarrow> nat \<Rightarrow> bool" where
  "window_matches s content_lines pattern_lines i \<longleftrightarrow>
     (\<forall>k < length pattern_lines. line_matches s (content_lines ! (i + k)) (pattern_lines ! k))"

fun window_scan :: "strategy \<Rightarrow> ustring list \<Rightarrow> ustring list \<Rightarrow> nat \<Rightarrow> nat list \<Rightarrow> nat list" where
  "window_scan s cl pl next_free [] = []"
| "window_scan s cl pl next_free (i # is) =
     (if i < next_free then window_scan s cl pl next_free is
      else if window_matches s cl pl i then i # window_scan s cl pl (i + length pl) is
      else window_scan s cl pl next_free is)"

definition window_occurrences :: "ustring list \<Rightarrow> ustring list \<Rightarrow> strategy \<Rightarrow> nat list" where
  "window_occurrences content_lines pattern_lines s =
     (if pattern_lines = [] \<or> length content_lines < length pattern_lines then []
      else window_scan s content_lines pattern_lines 0
             [0..<Suc (length content_lines - length pattern_lines)])"

section \<open>The replacement\<close>

definition leading_whitespace :: "ustring \<Rightarrow> ustring" where
  "leading_whitespace line = take (length line - length (trim_start line)) line"

definition reindent_replacement :: "ustring list \<Rightarrow> strategy \<Rightarrow> ustring \<Rightarrow> ustring \<Rightarrow> ustring list" where
  "reindent_replacement replacement_lines s matched_first pattern_first =
     (if s \<in> {STrim, SUnicode}
      then map (\<lambda>l. case strip_prefix (leading_whitespace pattern_first) l of
                       Some rest \<Rightarrow> leading_whitespace matched_first @ rest
                     | None \<Rightarrow> l) replacement_lines
      else replacement_lines)"

text \<open>One round of the loop in \<^verbatim>\<open>splice_windows\<close>, and the loop from the last window to the first.\<close>

definition splice_window ::
  "ustring list \<Rightarrow> ustring list \<Rightarrow> ustring list \<Rightarrow> strategy \<Rightarrow> bool \<Rightarrow> nat \<Rightarrow> ustring list \<Rightarrow> ustring list" where
  "splice_window cl pl rl s merge_tail i lines =
     (let repl = reindent_replacement rl s (cl ! i) (case pl of [] \<Rightarrow> [] | p # _ \<Rightarrow> p);
          stop = i + length pl
      in if merge_tail \<and> repl \<noteq> [] \<and> stop < length lines
         then take i lines @ butlast repl @ [List.last repl @ lines ! stop] @ drop (stop + 1) lines
         else take i lines @ repl @ drop stop lines)"

definition splice_windows ::
  "ustring list \<Rightarrow> ustring list \<Rightarrow> ustring list \<Rightarrow> strategy \<Rightarrow> nat list \<Rightarrow> bool \<Rightarrow> ustring" where
  "splice_windows cl pl rl s occ merge_tail =
     join_lines (fold (splice_window cl pl rl s merge_tail) (rev occ) cl)"

section \<open>The diff\<close>

fun common_prefix_len :: "'a list \<Rightarrow> 'a list \<Rightarrow> nat" where
  "common_prefix_len (x # xs) (y # ys) = (if x = y then Suc (common_prefix_len xs ys) else 0)"
| "common_prefix_len _ _ = 0"

definition pad_left :: "nat \<Rightarrow> ustring \<Rightarrow> ustring" where
  "pad_left w s = replicate (w - length s) 32 @ s"

definition diff_line :: "string \<Rightarrow> nat \<Rightarrow> ustring \<Rightarrow> ustring" where
  "diff_line mark idx line = lit mark @ pad_left 5 (dec_of_nat (idx + 1)) @ lit '' | '' @ line @ [nl]"

definition diff_lines :: "string \<Rightarrow> ustring list \<Rightarrow> nat \<Rightarrow> nat \<Rightarrow> ustring" where
  "diff_lines mark lines from until =
     concat (map (\<lambda>idx. diff_line mark idx (lines ! idx)) [from..<min until (length lines)])"

definition render_diff :: "ustring \<Rightarrow> ustring \<Rightarrow> ustring" where
  "render_diff original result =
     (let old = lines_of original; new = lines_of result;
          pre = common_prefix_len old new;
          suf = common_prefix_len (rev (drop pre old)) (rev (drop pre new));
          ctx_start = pre - 2;
          ctx_end = min (length old - suf + 2) (length old)
      in trim_end
           (lit ''@@ line '' @ dec_of_nat (ctx_start + 1) @ [nl] @
            diff_lines '' '' old ctx_start pre @
            diff_lines ''-'' old pre (length old - suf) @
            diff_lines ''+'' new pre (length new - suf) @
            diff_lines '' '' old (length old - suf) ctx_end))"

definition first_changed_line :: "ustring \<Rightarrow> ustring \<Rightarrow> nat" where
  "first_changed_line original result =
     (let old = lines_of original; new = lines_of result; i = common_prefix_len old new
      in if i < length old \<and> i < length new then i + 1 else min (length old) (length new))"

definition finish :: "ustring \<Rightarrow> ustring \<Rightarrow> strategy \<Rightarrow> nat \<Rightarrow> edit_outcome" where
  "finish original result s replacements =
     (if result = original then Noop s
      else Applied result s replacements (first_changed_line original result) (render_diff original result))"

section \<open>The closest match\<close>

text \<open>Two rows of the table: \<open>lev_cells\<close> fills the current row from the left, given its last cell
  and the cells of the previous row from the same column on.\<close>

fun lev_cells :: "uchar \<Rightarrow> nat \<Rightarrow> nat list \<Rightarrow> ustring \<Rightarrow> nat list" where
  "lev_cells ca left (p # q # prev) (cb # b) =
     (let cell = min (min (p + of_bool (ca \<noteq> cb)) (q + 1)) (left + 1)
      in cell # lev_cells ca cell (q # prev) b)"
| "lev_cells ca left _ _ = []"

fun lev_rows :: "nat \<Rightarrow> nat list \<Rightarrow> ustring \<Rightarrow> ustring \<Rightarrow> nat list" where
  "lev_rows i prev [] b = prev"
| "lev_rows i prev (ca # a) b = lev_rows (Suc i) ((i + 1) # lev_cells ca (i + 1) prev b) a b"

definition levenshtein :: "ustring \<Rightarrow> ustring \<Rightarrow> nat" where
  "levenshtein a b =
     (if a = [] then length b else lev_rows 0 [0..<Suc (length b)] a b ! length b)"

definition similarity :: "ustring \<Rightarrow> ustring \<Rightarrow> nat \<times> nat" where
  "similarity a b =
     (let m = max (length a) (length b) in if m = 0 then (0, 0) else (levenshtein a b, m))"

fun best_window :: "'f float_score \<Rightarrow> (nat \<times> 'f) option \<Rightarrow> (nat \<times> 'f) list \<Rightarrow> (nat \<times> 'f) option" where
  "best_window F best [] = best"
| "best_window F best ((i, score) # rest) =
     best_window F
       (case best of
          None \<Rightarrow> Some (i, score)
        | Some (_, b) \<Rightarrow> if fs_greater F score b then Some (i, score) else best) rest"

definition max_closest_windows :: nat where
  "max_closest_windows = 20000"

definition closest_match :: "'f float_score \<Rightarrow> ustring list \<Rightarrow> ustring list \<Rightarrow> closest_hint option" where
  "closest_match F cl pl =
     (if pl = [] \<or> length cl < length pl then None
      else
        let windows = min (length cl - length pl + 1) max_closest_windows;
            score = (\<lambda>i. fs_mean F (map (\<lambda>k. similarity (trim (cl ! (i + k))) (trim (pl ! k))) [0..<length pl]))
        in case best_window F None (map (\<lambda>i. (i, score i)) [0..<windows]) of
             None \<Rightarrow> None
           | Some (i, sc) \<Rightarrow>
               Some \<lparr>cm_line = i + 1, cm_similarity_pct = fs_percent F sc,
                     cm_first_diff =
                       map_option (\<lambda>k. (pl ! k, cl ! (i + k)))
                         (List.find (\<lambda>k. trim (cl ! (i + k)) \<noteq> trim (pl ! k)) [0..<length pl])\<rparr>)"

section \<open>The decision\<close>

definition desugar :: "edit_request \<Rightarrow> ustring \<times> ustring" where
  "desugar req =
     (case er_operation req of
        Replace \<Rightarrow> (er_old_text req, er_new_text req)
      | InsertAfter \<Rightarrow> (er_old_text req, er_old_text req @ er_new_text req)
      | InsertBefore \<Rightarrow> (er_old_text req, er_new_text req @ er_old_text req)
      | Delete \<Rightarrow> (er_old_text req, []))"

definition count_newlines :: "ustring \<Rightarrow> nat" where
  "count_newlines s = length (match_indices s [nl])"

definition line_at_offset :: "ustring \<Rightarrow> nat \<Rightarrow> ustring" where
  "line_at_offset content offset =
     rev (takeWhile (\<lambda>c. c \<noteq> nl) (rev (take offset content))) @ takeWhile (\<lambda>c. c \<noteq> nl) (drop offset content)"

definition is_char_boundary :: "ustring \<Rightarrow> nat \<Rightarrow> bool" where
  "is_char_boundary s n \<longleftrightarrow> n \<in> set (map (\<lambda>k. utf8_len (take k s)) [0..<Suc (length s)])"

fun floor_char_boundary :: "ustring \<Rightarrow> nat \<Rightarrow> nat" where
  "floor_char_boundary s 0 = 0"
| "floor_char_boundary s (Suc n) =
     (if is_char_boundary s (Suc n) then Suc n else floor_char_boundary s n)"

text \<open>The characters of \<open>s\<close> that fit into its first \<open>n\<close> bytes.\<close>

fun byte_prefix :: "nat \<Rightarrow> ustring \<Rightarrow> ustring" where
  "byte_prefix n [] = []"
| "byte_prefix n (c # s) = (if utf8_width c \<le> n then c # byte_prefix (n - utf8_width c) s else [])"

definition regex_preview :: "ustring \<Rightarrow> nat \<times> nat \<Rightarrow> occurrence_preview" where
  "regex_preview content m =
     (let matched = drop (fst m) (take (snd m) content)
      in \<lparr>op_line = 1 + count_newlines (take (fst m) content),
          op_text = byte_prefix (floor_char_boundary matched (min (utf8_len matched) 120)) matched\<rparr>)"

definition regex_render :: "('re, 'caps) regex_engine \<Rightarrow> operation \<Rightarrow> ustring \<Rightarrow> 'caps \<Rightarrow> ustring" where
  "regex_render R op new_text caps =
     (let expanded = rx_expand R caps new_text
      in case op of
           Replace \<Rightarrow> expanded
         | InsertAfter \<Rightarrow> rx_group0 R caps @ expanded
         | InsertBefore \<Rightarrow> expanded @ rx_group0 R caps
         | Delete \<Rightarrow> [])"

definition decide_regex ::
  "('re, 'caps) regex_engine \<Rightarrow> ustring \<Rightarrow> ustring \<Rightarrow> ustring \<Rightarrow> bool \<Rightarrow> operation \<Rightarrow> edit_outcome" where
  "decide_regex R content pat new_text replace_all op =
     (case rx_build R pat of
        Inl e \<Rightarrow> InvalidRegex e
      | Inr re \<Rightarrow>
          let spans = rx_find_iter R re content; count = length spans
          in if count = 0 then NotFound None
             else if 1 < count \<and> \<not> replace_all
             then Ambiguous SRegex count (map (regex_preview content) (take 5 spans))
             else finish content
                    (rx_replacen R re content (if replace_all then 0 else 1) (regex_render R op new_text))
                    SRegex (max count 1))"

definition exact_preview :: "ustring \<Rightarrow> nat \<Rightarrow> occurrence_preview" where
  "exact_preview content i =
     \<lparr>op_line = 1 + count_newlines (take i content), op_text = line_at_offset content i\<rparr>"

text \<open>The pattern's and the replacement's lines, and whether the text after the window is merged with
  the last line of the replacement.\<close>

definition window_lines :: "ustring \<Rightarrow> ustring \<Rightarrow> ustring list \<times> ustring list \<times> bool" where
  "window_lines pat repl =
     (let pl = lines_of pat; rl = lines_of repl
      in if 1 < length pl \<and> List.last pl = [] then
           (if List.last rl = [] then (butlast pl, butlast rl, False) else (butlast pl, rl, True))
         else (pl, rl, False))"

fun decide_windows ::
  "ustring \<Rightarrow> ustring list \<times> ustring list \<times> bool \<Rightarrow> bool \<Rightarrow> strategy list \<Rightarrow> edit_outcome option" where
  "decide_windows content w replace_all [] = None"
| "decide_windows content (pl, rl, merge_tail) replace_all (s # ss) =
     (let cl = lines_of content; occ = window_occurrences cl pl s
      in if occ = [] then decide_windows content (pl, rl, merge_tail) replace_all ss
         else if 1 < length occ \<and> \<not> replace_all
         then Some (Ambiguous s (length occ) (map (\<lambda>i. \<lparr>op_line = i + 1, op_text = cl ! i\<rparr>) (take 5 occ)))
         else Some (finish content (splice_windows cl pl rl s occ merge_tail) s (length occ)))"

definition decide_ladder ::
  "'f float_score \<Rightarrow> ustring \<Rightarrow> ustring \<Rightarrow> ustring \<Rightarrow> bool \<Rightarrow> edit_outcome" where
  "decide_ladder F content pat repl replace_all =
     (let exact = match_indices content pat
      in if exact \<noteq> [] then
           (if 1 < length exact \<and> \<not> replace_all
            then Ambiguous SExact (length exact) (map (exact_preview content) (take 5 exact))
            else finish content
                   (if replace_all then str_replace content pat repl else str_replacen content pat repl 1)
                   SExact (length exact))
         else
           let w = window_lines pat repl
           in case decide_windows content w replace_all [STrailingWs, STrim, SUnicode] of
                Some out \<Rightarrow> out
              | None \<Rightarrow> NotFound (closest_match F (lines_of content) (fst w)))"

definition decide ::
  "'f float_score \<Rightarrow> ('re, 'caps) regex_engine \<Rightarrow> ustring \<Rightarrow> edit_request \<Rightarrow> edit_outcome" where
  "decide F R content req =
     (if er_old_text req = [] then NotFound None
      else case er_match_mode req of
          RegexMode \<Rightarrow>
            decide_regex R content (er_old_text req) (er_new_text req) (er_replace_all req) (er_operation req)
        | Ladder \<Rightarrow>
            (case desugar req of
               (pat, repl) \<Rightarrow> decide_ladder F content pat repl (er_replace_all req)))"

end
