(* ===== verification/Edit_Match_Props.thy ===== *)
theory Edit_Match_Props
  imports Edit_Match
begin

text \<open>
  What the matcher promises: the search finds the leftmost disjoint matches, a replacement changes
  nothing but the matches, line endings survive an edit exactly when they were uniform, and the
  distance behind the closest-match hint is the least number of single-character edits.
\<close>

section \<open>Search\<close>

lemma matches_from_Nil:
  "pat \<noteq> [] \<Longrightarrow> matches_from pat k s = [] \<longleftrightarrow> (\<forall>j. \<not> prefix pat (drop j s))"
proof (induction s arbitrary: k)
  case Nil
  then show ?case by (simp add: matches_from.simps)
next
  case (Cons c t)
  show ?case
  proof (cases "starts_with pat (c # t)")
    case True
    then have "prefix pat (drop 0 (c # t))" by (simp add: starts_with_iff)
    moreover have "matches_from pat k (c # t) \<noteq> []"
      using Cons.prems True by (simp add: matches_from.simps)
    ultimately show ?thesis by blast
  next
    case False
    then have np: "\<not> prefix pat (c # t)" by (simp add: starts_with_iff)
    have "matches_from pat k (c # t) = [] \<longleftrightarrow> (\<forall>j. \<not> prefix pat (drop j t))"
      using False Cons by (simp add: matches_from.simps [of pat k])
    also have "\<dots> \<longleftrightarrow> (\<forall>j. \<not> prefix pat (drop j (c # t)))"
      using np by (auto simp: drop_Cons split: nat.splits)
    finally show ?thesis .
  qed
qed

lemma matches_from_Cons:
  "pat \<noteq> [] \<Longrightarrow> matches_from pat k s = i # is \<Longrightarrow>
   \<exists>j. i = k + j \<and> prefix pat (drop j s) \<and> (\<forall>j' < j. \<not> prefix pat (drop j' s)) \<and>
       is = matches_from pat (i + length pat) (drop (j + length pat) s)"
proof (induction s arbitrary: k)
  case Nil
  then show ?case by (simp add: matches_from.simps)
next
  case (Cons c t)
  show ?case
  proof (cases "starts_with pat (c # t)")
    case True
    then show ?thesis
      using Cons.prems by (intro exI [of _ 0]) (auto simp: matches_from.simps [of pat k] starts_with_iff)
  next
    case False
    then have np: "\<not> prefix pat (c # t)" by (simp add: starts_with_iff)
    have "matches_from pat (Suc k) t = i # is"
      using False Cons.prems by (simp add: matches_from.simps [of pat k])
    then obtain j where j: "i = Suc k + j" "prefix pat (drop j t)" "\<forall>j' < j. \<not> prefix pat (drop j' t)"
        "is = matches_from pat (i + length pat) (drop (j + length pat) t)"
      using Cons.IH [OF Cons.prems(1)] by blast
    have "\<forall>j' < Suc j. \<not> prefix pat (drop j' (c # t))"
      using np j(3) by (auto simp: drop_Cons split: nat.splits)
    then show ?thesis
      using j by (intro exI [of _ "Suc j"]) simp
  qed
qed

section \<open>Replacement\<close>

text \<open>The text between the matches, as \<^verbatim>\<open>str::split\<close> gives it.\<close>

function pieces :: "ustring \<Rightarrow> ustring \<Rightarrow> ustring list" where
  "pieces pat s =
     (if pat = [] then [s]
      else case s of
          [] \<Rightarrow> [[]]
        | c # t \<Rightarrow>
            (if starts_with pat s then [] # pieces pat (drop (length pat) s)
             else case pieces pat t of [] \<Rightarrow> [] | p # ps \<Rightarrow> (c # p) # ps))"
  by pat_completeness auto
termination
  by (relation "measure (\<lambda>(pat, s). length s)") auto

declare pieces.simps [simp del]

lemma pieces_Nil [simp]: "pieces pat [] = [[]]"
  by (simp add: pieces.simps)

lemma pieces_match: "pat \<noteq> [] \<Longrightarrow> starts_with pat s \<Longrightarrow> pieces pat s = [] # pieces pat (drop (length pat) s)"
  by (subst pieces.simps) (auto simp: starts_with_iff split: list.splits)

lemma pieces_skip:
  "pat \<noteq> [] \<Longrightarrow> \<not> starts_with pat (c # t) \<Longrightarrow>
   pieces pat (c # t) = (case pieces pat t of [] \<Rightarrow> [] | p # ps \<Rightarrow> (c # p) # ps)"
  by (subst pieces.simps) simp

text \<open>Induction along the search.\<close>

lemma search_induct [consumes 1, case_names Nil Match Skip]:
  assumes "pat \<noteq> []" and nil: "P []"
    and match: "\<And>r. P r \<Longrightarrow> P (pat @ r)"
    and skip: "\<And>c t. \<not> prefix pat (c # t) \<Longrightarrow> P t \<Longrightarrow> P (c # t)"
  shows "P s"
proof (induction "length s" arbitrary: s rule: less_induct)
  case less
  show ?case
  proof (cases "prefix pat s")
    case True
    then obtain r where "s = pat @ r" by (auto elim: prefixE)
    then show ?thesis using less match assms(1) by simp
  next
    case False
    then show ?thesis using less nil skip by (cases s) auto
  qed
qed

lemma pieces_append [simp]: "pat \<noteq> [] \<Longrightarrow> pieces pat (pat @ r) = [] # pieces pat r"
  using pieces_match [of pat "pat @ r"] by (simp add: starts_with_iff)

lemma pieces_not_Nil [simp]: "pieces pat s \<noteq> []"
proof (cases "pat = []")
  case False
  then show ?thesis
    by (induction s rule: search_induct) (auto simp: False pieces_skip starts_with_iff split: list.splits)
qed (simp add: pieces.simps)

lemma pieces_skip_Cons:
  assumes "pat \<noteq> []" and "\<not> prefix pat (c # t)"
  shows "pieces pat (c # t) = (c # hd (pieces pat t)) # tl (pieces pat t)"
  using assms pieces_skip [of pat c t] by (cases "pieces pat t") (auto simp: starts_with_iff)

lemma join_with_hd:
  "ps \<noteq> [] \<Longrightarrow> join_with sep ((c # hd ps) # tl ps) = c # join_with sep ps"
  by (cases ps) (auto simp: join_with_Cons)

lemma join_pieces:
  assumes ne: "pat \<noteq> []"
  shows "join_with pat (pieces pat s) = s"
  using ne by (induction s rule: search_induct) (simp_all add: ne pieces_skip_Cons join_with_hd, simp add: join_with_Cons)

lemma matches_from_append:
  assumes "pat \<noteq> []"
  shows "matches_from pat k (pat @ r) = k # matches_from pat (k + length pat) r"
proof -
  obtain c t where ct: "pat @ r = c # t" using assms by (cases "pat @ r") auto
  then have "starts_with pat (c # t)" by (metis prefixI starts_with_iff)
  moreover have "drop (length pat) (c # t) = r" using ct by (metis append_eq_conv_conj)
  ultimately show ?thesis using assms by (simp add: ct matches_from.simps [of pat k])
qed

lemma matches_from_skip:
  "pat \<noteq> [] \<Longrightarrow> \<not> prefix pat (c # t) \<Longrightarrow> matches_from pat k (c # t) = matches_from pat (Suc k) t"
  by (subst matches_from.simps) (auto simp: starts_with_iff)

lemma matches_from_empty [simp]: "pat \<noteq> [] \<Longrightarrow> matches_from pat k [] = []"
  by (simp add: matches_from.simps)

lemma length_matches_pieces:
  assumes ne: "pat \<noteq> []"
  shows "Suc (length (matches_from pat k s)) = length (pieces pat s)"
  using ne
proof (induction s arbitrary: k rule: search_induct)
  case (Skip c t)
  then show ?case by (cases "pieces pat t") (auto simp: ne pieces_skip_Cons matches_from_skip)
qed (simp_all add: ne matches_from_append)

lemma replace_at_acc: "replace_at s to w acc e is = acc @ replace_at s to w [] e is"
proof (induction "is" arbitrary: acc e)
  case (Cons i "is")
  from Cons [of "acc @ drop e (take i s) @ to"] Cons [of "drop e (take i s) @ to"] show ?case by simp
qed simp

lemma replace_at_pieces:
  assumes ne: "pat \<noteq> []"
  shows "replace_at (v @ u @ s) to (length pat) [] (length v) (matches_from pat (length v + length u) s) =
     u @ join_with to (pieces pat s)"
  using ne
proof (induction s arbitrary: v u rule: search_induct)
  case Nil
  show ?case by (simp add: ne)
next
  case (Match r)
  have "replace_at (v @ u @ pat @ r) to (length pat) [] (length v) (matches_from pat (length v + length u) (pat @ r)) =
      u @ to @ replace_at ((v @ u @ pat) @ [] @ r) to (length pat) [] (length (v @ u @ pat))
        (matches_from pat (length (v @ u @ pat) + length ([] :: ustring)) r)"
    by (simp add: matches_from_append ne replace_at_acc [of _ _ _ "u @ to"] add.assoc)
  also have "\<dots> = u @ to @ join_with to (pieces pat r)"
    unfolding Match.IH by simp
  finally show ?case by (simp add: join_with_Cons ne)
next
  case (Skip c t)
  have "replace_at (v @ (u @ [c]) @ t) to (length pat) [] (length v) (matches_from pat (length v + length (u @ [c])) t) =
      (u @ [c]) @ join_with to (pieces pat t)"
    by (rule Skip.IH)
  then show ?case using Skip.hyps by (simp add: ne matches_from_skip pieces_skip_Cons join_with_hd)
qed

lemma str_replace_pieces: "pat \<noteq> [] \<Longrightarrow> str_replace s pat to = join_with to (pieces pat s)"
  using replace_at_pieces [of pat "[]" "[]" s to] by (simp add: str_replace_def match_indices_def)

lemma match_indices_pieces: "pat \<noteq> [] \<Longrightarrow> Suc (length (match_indices s pat)) = length (pieces pat s)"
  by (simp add: match_indices_def length_matches_pieces)

section \<open>Line endings\<close>

lemma prefix_drop_iff: "(\<exists>j. prefix pat (drop j s)) \<longleftrightarrow> (\<exists>p q. s = p @ pat @ q)"
proof
  assume "\<exists>j. prefix pat (drop j s)"
  then obtain j q where "drop j s = pat @ q" by (auto elim: prefixE)
  then show "\<exists>p q. s = p @ pat @ q" by (metis append_take_drop_id)
next
  assume "\<exists>p q. s = p @ pat @ q"
  then obtain p q where "s = p @ pat @ q" by blast
  then show "\<exists>j. prefix pat (drop j s)" by (intro exI [of _ "length p"]) simp
qed

lemma match_indices_Nil: "pat \<noteq> [] \<Longrightarrow> match_indices s pat = [] \<longleftrightarrow> (\<forall>p q. s \<noteq> p @ pat @ q)"
  using matches_from_Nil [of pat 0 s] prefix_drop_iff [of pat s] by (auto simp: match_indices_def)

lemma pieces_char: "pieces [c] s = split_on c s"
proof -
  have "pieces [c] s = split_pred (\<lambda>d. d = c) s"
  proof (induction s)
    case (Cons d t)
    show ?case
    proof (cases "d = c")
      case True
      then show ?thesis using Cons pieces_append [of "[c]" t] by simp
    next
      case False
      then have "pieces [c] (d # t) = (d # hd (pieces [c] t)) # tl (pieces [c] t)"
        by (intro pieces_skip_Cons) auto
      then show ?thesis using Cons False by (cases "split_pred (\<lambda>d. d = c) t") auto
    qed
  qed simp
  then show ?thesis by (simp add: split_on_def)
qed

lemma length_split_on: "length (split_on c s) = Suc (count_list s c)"
proof -
  have "length (split_pred (\<lambda>d. d = c) s) = Suc (count_list s c)"
  proof (induction s)
    case (Cons d t)
    then show ?case by (cases "split_pred (\<lambda>d. d = c) t") auto
  qed simp
  then show ?thesis by (simp add: split_on_def)
qed

lemma count_matches: "length (match_indices s [c]) = count_list s c"
  using match_indices_pieces [of "[c]" s] by (simp add: pieces_char length_split_on)

lemma split_join_free:
  "ps \<noteq> [] \<Longrightarrow> \<forall>p \<in> set ps. c \<notin> set p \<Longrightarrow> split_on c (join_with [c] ps) = ps"
proof (induction ps)
  case (Cons p ps)
  have free: "split_pred (\<lambda>d. d = c) (p @ t) =
      (p @ hd (split_pred (\<lambda>d. d = c) t)) # tl (split_pred (\<lambda>d. d = c) t)" if "c \<notin> set p" for p t
    using that
  proof (induction p)
    case Nil
    then show ?case by (cases "split_pred (\<lambda>d. d = c) t") auto
  qed auto
  from Cons free [of p] free [of p "[]"] show ?case
    by (cases ps) (auto simp: split_on_def)
qed simp

lemma count_join_with:
  "ps \<noteq> [] \<Longrightarrow> count_list (join_with sep ps) x =
     sum_list (map (\<lambda>p. count_list p x) ps) + (length ps - 1) * count_list sep x"
proof (induction ps)
  case (Cons p ps)
  then show ?case by (cases ps) (auto simp: algebra_simps)
qed simp

lemma length_join_with:
  "ps \<noteq> [] \<Longrightarrow> length (join_with sep ps) = sum_list (map length ps) + (length ps - 1) * length sep"
proof (induction ps)
  case (Cons p ps)
  then show ?case by (cases ps) (auto simp: algebra_simps)
qed simp

text \<open>A text has no \<^verbatim>\<open>\r\n\<close>, or nothing else.\<close>

definition no_crlf :: "ustring \<Rightarrow> bool" where
  "no_crlf s \<longleftrightarrow> (\<forall>p q. s \<noteq> p @ crlf @ q)"

definition only_crlf :: "ustring \<Rightarrow> bool" where
  "only_crlf s \<longleftrightarrow> (\<forall>p q. s = p @ nl # q \<longrightarrow> p \<noteq> [] \<and> List.last p = 13)"

lemma only_crlf_Nil [simp]: "only_crlf []"
  by (simp add: only_crlf_def)

lemma only_crlf_match: "only_crlf (13 # nl # r) \<longleftrightarrow> only_crlf r"
proof
  assume h: "only_crlf (13 # nl # r)"
  show "only_crlf r"
    unfolding only_crlf_def
  proof (intro allI impI)
    fix p q assume "r = p @ nl # q"
    then have "13 # nl # r = (13 # nl # p) @ nl # q" by simp
    then have "List.last (13 # nl # p) = 13" using h unfolding only_crlf_def by blast
    then show "p \<noteq> [] \<and> List.last p = 13" by (cases "p = []") auto
  qed
next
  assume h: "only_crlf r"
  show "only_crlf (13 # nl # r)"
    unfolding only_crlf_def
  proof (intro allI impI)
    fix p q assume eq: "13 # nl # r = p @ nl # q"
    then consider "p = [13]" | p' where "p = 13 # nl # p'" "r = p' @ nl # q"
      by (cases p; cases "tl p") auto
    then show "p \<noteq> [] \<and> List.last p = 13"
      using h unfolding only_crlf_def by cases (auto)
  qed
qed

lemma only_crlf_skip:
  assumes "\<not> prefix crlf (c # t)"
  shows "only_crlf (c # t) \<longleftrightarrow> c \<noteq> nl \<and> only_crlf t"
proof
  assume h: "only_crlf (c # t)"
  have "c \<noteq> nl" using h unfolding only_crlf_def by (metis append_Nil)
  moreover have "only_crlf t"
    unfolding only_crlf_def
  proof (intro allI impI)
    fix p q assume t: "t = p @ nl # q"
    then have "c # t = (c # p) @ nl # q" by simp
    then have l: "List.last (c # p) = 13" using h unfolding only_crlf_def by blast
    show "p \<noteq> [] \<and> List.last p = 13"
      using l t assms by (cases "p = []") auto
  qed
  ultimately show "c \<noteq> nl \<and> only_crlf t" ..
next
  assume h: "c \<noteq> nl \<and> only_crlf t"
  show "only_crlf (c # t)"
    unfolding only_crlf_def
  proof (intro allI impI)
    fix p q assume "c # t = p @ nl # q"
    then obtain p' where "p = c # p'" "t = p' @ nl # q" using h by (cases p) auto
    then show "p \<noteq> [] \<and> List.last p = 13" using h unfolding only_crlf_def by auto
  qed
qed

lemma only_crlf_pieces: "only_crlf s \<longleftrightarrow> (\<forall>p \<in> set (pieces crlf s). nl \<notin> set p)"
proof -
  have ne: "crlf \<noteq> []" by simp
  then show ?thesis
  proof (induction s rule: search_induct)
    case (Match r)
    then show ?case using pieces_append [of crlf r] by (simp add: only_crlf_match)
  next
    case (Skip c t)
    then show ?case
      using pieces_skip_Cons [OF ne Skip.hyps] pieces_not_Nil [of crlf t]
      by (cases "pieces crlf t") (auto simp: only_crlf_skip)
  qed simp
qed

lemma only_crlf_count: "only_crlf s \<longleftrightarrow> count_list s nl = length (match_indices s crlf)"
proof -
  let ?ps = "pieces crlf s"
  have m: "Suc (length (match_indices s crlf)) = length ?ps" by (rule match_indices_pieces) simp
  have "count_list s nl = count_list (join_with crlf ?ps) nl" using join_pieces [of crlf s] by simp
  also have "\<dots> = sum_list (map (\<lambda>p. count_list p nl) ?ps) + length (match_indices s crlf)"
    using count_join_with [of ?ps crlf nl] m by simp
  finally have "count_list s nl = length (match_indices s crlf) \<longleftrightarrow> (\<forall>p \<in> set ?ps. count_list p nl = 0)"
    by auto
  then show ?thesis by (simp add: only_crlf_pieces count_list_0_iff)
qed

lemma length_str_replace:
  assumes "pat \<noteq> []"
  shows "length (str_replace s pat to) + length (match_indices s pat) * length pat =
    length s + length (match_indices s pat) * length to"
proof -
  let ?ps = "pieces pat s"
  have m: "length ?ps - Suc 0 = length (match_indices s pat)"
    using match_indices_pieces [OF assms, of s] by simp
  have "length s = sum_list (map length ?ps) + length (match_indices s pat) * length pat"
    using length_join_with [of ?ps pat] by (simp add: join_pieces assms m)
  moreover have "length (str_replace s pat to) = sum_list (map length ?ps) + length (match_indices s pat) * length to"
    using length_join_with [of ?ps to] by (simp add: str_replace_pieces assms m)
  ultimately show ?thesis by simp
qed

lemma str_replace_none: "pat \<noteq> [] \<Longrightarrow> match_indices s pat = [] \<Longrightarrow> str_replace s pat to = s"
  by (simp add: str_replace_def)

lemma count_str_replace_crlf: "count_list (str_replace s crlf [nl]) nl = count_list s nl"
proof -
  have "count_list (str_replace s crlf [nl]) nl = count_list (join_with crlf (pieces crlf s)) nl"
    by (simp add: str_replace_pieces count_join_with)
  then show ?thesis by (simp add: join_pieces)
qed

lemma restore_only_crlf:
  assumes "only_crlf s"
  shows "str_replace (str_replace s crlf [nl]) [nl] crlf = s"
  using assms by (simp add: str_replace_pieces pieces_char only_crlf_pieces split_join_free join_pieces)

text \<open>The text behind the byte order mark, taken through both directions.\<close>

definition restored :: "ustring \<Rightarrow> ustring" where
  "restored s =
     (if 0 < length (match_indices s crlf) \<and> count_list s nl \<le> length (match_indices s crlf) * 2
      then str_replace (str_replace s crlf [nl]) [nl] crlf else str_replace s crlf [nl])"

lemma length_to_lf: "length (str_replace s crlf [nl]) + length (match_indices s crlf) = length s"
  using length_str_replace [of crlf s "[nl]"] by simp

lemma length_to_crlf:
  "length (str_replace (str_replace s crlf [nl]) [nl] crlf) = length (str_replace s crlf [nl]) + count_list s nl"
  using length_str_replace [of "[nl]" "str_replace s crlf [nl]" crlf]
  by (simp add: count_matches count_str_replace_crlf)

lemma restored_length:
  assumes "0 < length (match_indices s crlf)" and "count_list s nl \<noteq> length (match_indices s crlf)"
  shows "length (restored s) \<noteq> length s"
  using assms length_to_lf [of s] length_to_crlf [of s] unfolding restored_def by (auto split: if_split)

lemma restored_iff: "restored s = s \<longleftrightarrow> no_crlf s \<or> only_crlf s"
proof -
  have no: "no_crlf s \<longleftrightarrow> length (match_indices s crlf) = 0"
    using match_indices_Nil [of crlf s] by (simp add: no_crlf_def)
  note only = only_crlf_count [of s]
  consider "length (match_indices s crlf) = 0"
    | "0 < length (match_indices s crlf)" "count_list s nl = length (match_indices s crlf)"
    | "0 < length (match_indices s crlf)" "count_list s nl \<noteq> length (match_indices s crlf)" by blast
  then show ?thesis
  proof cases
    case 1
    then have "restored s = s" using str_replace_none [of crlf s "[nl]"] by (simp add: restored_def)
    then show ?thesis using 1 no by simp
  next
    case 2
    then have "only_crlf s" using only by simp
    then show ?thesis using 2 restore_only_crlf [of s] by (simp add: restored_def)
  next
    case 3
    then have "restored s \<noteq> s" using restored_length by metis
    then show ?thesis using 3 no only by simp
  qed
qed

lemma no_crlf_Cons: "c \<noteq> 13 \<Longrightarrow> no_crlf (c # s) \<longleftrightarrow> no_crlf s"
proof -
  assume c: "c \<noteq> 13"
  have "(\<exists>p q. c # s = p @ crlf @ q) \<longleftrightarrow> (\<exists>p q. s = p @ crlf @ q)"
  proof
    assume "\<exists>p q. c # s = p @ crlf @ q"
    then obtain p q where "c # s = p @ crlf @ q" by blast
    then show "\<exists>p q. s = p @ crlf @ q" using c by (cases p) auto
  next
    assume "\<exists>p q. s = p @ crlf @ q"
    then show "\<exists>p q. c # s = p @ crlf @ q" by (metis append_Cons)
  qed
  then show ?thesis by (auto simp: no_crlf_def)
qed

text \<open>C26. Taking a file's text apart for editing and putting it back together unchanged gives the file
  again exactly when its line endings are uniform: it has no \<^verbatim>\<open>\r\n\<close>, or a carriage return comes
  before every newline. A leading byte order mark is kept.\<close>

theorem line_endings_roundtrip:
  "restore_content (nc_text (normalize_content raw)) (nc_ending (normalize_content raw))
     (nc_had_bom (normalize_content raw)) = raw \<longleftrightarrow> no_crlf raw \<or> only_crlf raw"
proof (cases "strip_prefix [bom] raw")
  case None
  then have "restore_content (nc_text (normalize_content raw)) (nc_ending (normalize_content raw))
     (nc_had_bom (normalize_content raw)) = restored raw"
    by (simp add: normalize_content_def restore_content_def count_matches restored_def)
  then show ?thesis by (simp only: restored_iff)
next
  case (Some r)
  then have raw: "raw = bom # r" by (simp add: strip_prefix_Some)
  have same: "no_crlf raw \<longleftrightarrow> no_crlf r" "only_crlf raw \<longleftrightarrow> only_crlf r"
    using raw no_crlf_Cons [of bom r] only_crlf_skip [of bom r] by auto
  have "restore_content (nc_text (normalize_content raw)) (nc_ending (normalize_content raw))
     (nc_had_bom (normalize_content raw)) = bom # restored r"
    by (simp add: raw normalize_content_def restore_content_def count_matches restored_def)
  then show ?thesis by (simp add: same restored_iff) (simp add: raw restored_iff)
qed

section \<open>The site of an edit\<close>

lemma drop_prefix: "prefix pat (drop j s) \<Longrightarrow> j \<le> length s \<Longrightarrow> s = take j s @ pat @ drop (j + length pat) s"
  by (metis append_eq_conv_conj append_take_drop_id drop_drop add.commute prefixE)

text \<open>A single match: the text splits around it and every occurrence overlaps it from the right.\<close>

lemma single_match:
  assumes "pat \<noteq> []" and "match_indices s pat = [i]"
  shows "s = take i s @ pat @ drop (i + length pat) s" and "i \<le> length s"
    and "s = p @ pat @ q \<Longrightarrow> i \<le> length p \<and> length p < i + length pat"
proof -
  from matches_from_Cons [OF assms(1), of 0 s i "[]"] assms(2)
  have pre: "prefix pat (drop i s)" and first: "\<And>j. j < i \<Longrightarrow> \<not> prefix pat (drop j s)"
    and none: "matches_from pat (i + length pat) (drop (i + length pat) s) = []"
    by (auto simp: match_indices_def)
  show "i \<le> length s" using pre assms(1) by (cases "i \<le> length s") auto
  with pre show "s = take i s @ pat @ drop (i + length pat) s" by (rule drop_prefix)
  assume s: "s = p @ pat @ q"
  then have here: "prefix pat (drop (length p) s)" by simp
  have "i \<le> length p" using first here by (meson not_le)
  moreover have "length p < i + length pat"
  proof (rule ccontr)
    assume "\<not> length p < i + length pat"
    then have "drop (length p) s = drop (length p - (i + length pat)) (drop (i + length pat) s)" by simp
    then show False using here none matches_from_Nil [OF assms(1)] by metis
  qed
  ultimately show "i \<le> length p \<and> length p < i + length pat" ..
qed

lemma str_replacen_one:
  assumes "match_indices s pat = [i]"
  shows "str_replacen s pat to 1 = take i s @ to @ drop (i + length pat) s"
  using assms by (simp add: str_replacen_def)

subsection \<open>Windows of lines\<close>

text \<open>The lines a window covers match the pattern's lines.\<close>

lemma window_matches_split:
  assumes "i + length pl \<le> length cl"
  shows "window_matches s cl pl i \<longleftrightarrow> list_all2 (line_matches s) (take (length pl) (drop i cl)) pl"
  using assms by (auto simp: window_matches_def list_all2_conv_all_nth)

lemma window_scan_sound: "i \<in> set (window_scan s cl pl f is) \<Longrightarrow> i \<in> set is \<and> window_matches s cl pl i"
  by (induction s cl pl f "is" rule: window_scan.induct) (auto split: if_splits)

lemma window_scan_complete:
  "sorted is \<Longrightarrow> pl \<noteq> [] \<Longrightarrow> j \<in> set is \<Longrightarrow> f \<le> j \<Longrightarrow> window_matches s cl pl j \<Longrightarrow>
   \<exists>i \<in> set (window_scan s cl pl f is). i \<le> j \<and> j < i + length pl"
proof (induction s cl pl f "is" rule: window_scan.induct)
  case (2 s cl pl f i "is")
  consider "i < f" | "f \<le> i" "window_matches s cl pl i" | "f \<le> i" "\<not> window_matches s cl pl i" by linarith
  then show ?case
  proof cases
    case 1
    then show ?thesis using 2 by auto
  next
    case c2: 2
    show ?thesis
    proof (cases "j < i + length pl")
      case True
      then show ?thesis using c2 2 by auto
    next
      case False
      then have "j \<noteq> i" using 2 by auto
      then show ?thesis using 2 c2 False by (auto simp: not_less)
    qed
  next
    case 3
    then have "j \<in> set is" using "2.prems" by auto
    then show ?thesis using 2 3 by (auto simp: not_less)
  qed
qed simp

lemma window_occurrences_sound:
  assumes "i \<in> set (window_occurrences cl pl s)"
  shows "i + length pl \<le> length cl" and "pl \<noteq> []"
    and "list_all2 (line_matches s) (take (length pl) (drop i cl)) pl"
proof -
  show le: "i + length pl \<le> length cl" and "pl \<noteq> []"
    using assms window_scan_sound by (fastforce simp: window_occurrences_def split: if_splits)+
  have "window_matches s cl pl i"
    using assms window_scan_sound by (fastforce simp: window_occurrences_def split: if_splits)
  with le show "list_all2 (line_matches s) (take (length pl) (drop i cl)) pl"
    by (simp add: window_matches_split)
qed

lemma window_occurrences_complete:
  assumes "cl = A @ W @ B" and "list_all2 (line_matches s) W pl" and "pl \<noteq> []"
  shows "\<exists>i \<in> set (window_occurrences cl pl s). i \<le> length A \<and> length A < i + length pl"
proof -
  have len: "length W = length pl" using assms(2) by (rule list_all2_lengthD)
  have le: "length A + length pl \<le> length cl" using assms(1) len by simp
  have "window_matches s cl pl (length A)"
    using window_matches_split [OF le] assms(1,2) len by simp
  moreover have "length A \<in> set [0..<Suc (length cl - length pl)]" using le by auto
  ultimately show ?thesis
    using window_scan_complete [of "[0..<Suc (length cl - length pl)]" pl "length A" 0 s cl] assms(3) le
    by (simp add: window_occurrences_def del: upt_Suc)
qed

text \<open>The lines after an edit of one window \<open>W\<close> between \<open>A\<close> and \<open>B\<close>.\<close>

definition window_edit ::
  "strategy \<Rightarrow> ustring list \<times> ustring list \<times> bool \<Rightarrow> ustring list \<Rightarrow> ustring list \<Rightarrow> ustring list \<Rightarrow> ustring list" where
  "window_edit s w A W B =
     (case w of (pl, rl, merge_tail) \<Rightarrow>
        let R = reindent_replacement rl s (hd W) (hd pl)
        in if merge_tail \<and> R \<noteq> [] \<and> B \<noteq> [] then A @ butlast R @ [List.last R @ hd B] @ tl B
           else A @ R @ B)"

lemma splice_window_edit:
  assumes "i + length pl \<le> length cl" and "pl \<noteq> []"
  shows "splice_window cl pl rl s mt i cl =
    window_edit s (pl, rl, mt) (take i cl) (take (length pl) (drop i cl)) (drop (i + length pl) cl)"
proof -
  have hd: "hd (take (length pl) (drop i cl)) = cl ! i"
    using assms by (cases pl) (auto simp: hd_drop_conv_nth)
  have B: "drop (i + length pl) cl \<noteq> [] \<longleftrightarrow> i + length pl < length cl" by auto
  show ?thesis
    using assms by (cases pl) (auto simp: splice_window_def window_edit_def hd B Let_def hd_drop_conv_nth
        drop_Suc tl_drop nth_tl)
qed

text \<open>A site the ladder may edit: what it looked for, the only place of it, and the result.\<close>

definition exact_site :: "ustring \<Rightarrow> ustring \<Rightarrow> ustring \<Rightarrow> ustring \<Rightarrow> bool" where
  "exact_site content pat repl result \<longleftrightarrow>
     (\<exists>pre post. content = pre @ pat @ post \<and> result = pre @ repl @ post \<and>
        (\<forall>p q. content = p @ pat @ q \<longrightarrow> length pre \<le> length p \<and> length p < length pre + length pat))"

definition window_site ::
  "strategy \<Rightarrow> ustring \<Rightarrow> ustring list \<times> ustring list \<times> bool \<Rightarrow> ustring \<Rightarrow> bool" where
  "window_site s content w result \<longleftrightarrow>
     (\<exists>A W B. lines_of content = A @ W @ B \<and> list_all2 (line_matches s) W (fst w) \<and>
        result = join_lines (window_edit s w A W B) \<and>
        (\<forall>A' W' B'. lines_of content = A' @ W' @ B' \<and> list_all2 (line_matches s) W' (fst w) \<longrightarrow>
           length A \<le> length A' \<and> length A' < length A + length W))"

lemma single_window_site:
  assumes occ: "window_occurrences (lines_of content) pl s = [i]"
  shows "window_site s content (pl, rl, mt) (splice_windows (lines_of content) pl rl s [i] mt)"
proof -
  let ?cl = "lines_of content"
  let ?A = "take i ?cl" and ?W = "take (length pl) (drop i ?cl)" and ?B = "drop (i + length pl) ?cl"
  have i: "i \<in> set (window_occurrences ?cl pl s)" by (simp add: occ)
  note sound = window_occurrences_sound [OF i]
  have len: "length ?A = i" "length ?W = length pl" using sound(1) by auto
  have "?cl = ?A @ ?W @ ?B" by (metis append_take_drop_id drop_drop add.commute)
  moreover have "splice_windows ?cl pl rl s [i] mt = join_lines (window_edit s (pl, rl, mt) ?A ?W ?B)"
    using splice_window_edit [OF sound(1,2)] by (simp add: splice_windows_def)
  moreover have "length ?A \<le> length A' \<and> length A' < length ?A + length ?W"
    if h: "?cl = A' @ W' @ B'" "list_all2 (line_matches s) W' pl" for A' W' B'
    using window_occurrences_complete [OF h sound(2)] occ len by simp
  ultimately show ?thesis
    using sound(3) unfolding window_site_def by (intro exI [of _ ?A] exI [of _ ?W] exI [of _ ?B]) simp
qed

lemma finish_Applied:
  assumes "finish original r s n = Applied result s' n' l d"
  shows "result = r" "s' = s" "n' = n" "result \<noteq> original"
  using assms by (auto simp: finish_def split: if_splits)

lemma decide_windows_site:
  assumes "decide_windows content w False ss = Some (Applied result s n l d)"
  shows "n = 1" and "s \<in> set ss" and "window_site s content w result"
proof -
  have "n = 1 \<and> s \<in> set ss \<and> window_site s content w result"
    using assms
  proof (induction content w False ss rule: decide_windows.induct)
    case (2 content pl rl mt t ss)
    let ?occ = "window_occurrences (lines_of content) pl t"
    consider "?occ = []" | i where "?occ = [i]" | "1 < length ?occ"
      by (cases ?occ; cases "tl ?occ") auto
    then show ?case
    proof cases
      case 1
      then show ?thesis using 2 by simp
    next
      case c: (2 i)
      then have "finish content (splice_windows (lines_of content) pl rl t [i] mt) t 1 = Applied result s n l d"
        using "2.prems" by simp
      from finish_Applied [OF this] single_window_site [OF c, of rl mt] show ?thesis by simp
    next
      case 3
      then have "?occ \<noteq> []" by auto
      then show ?thesis using "2.prems" 3 by (simp add: Let_def)
    qed
  qed simp
  then show "n = 1" and "s \<in> set ss" and "window_site s content w result" by simp_all
qed

text \<open>C25. An edit that is not asked to replace every match changes one place. Either the old text
  occurs there literally and every other occurrence overlaps it, or it occurs nowhere and a window of
  whole lines matches it under the reported relaxation, with every other matching window
  overlapping; the text before and after the place is kept. This is for the literal and relaxed matching
  mode; the regular-expression mode is another branch.\<close>

theorem single_edit_changes_one_site:
  assumes "decide F R content req = Applied result s n l d"
    and "er_match_mode req = Ladder" and "\<not> er_replace_all req"
  shows "n = 1 \<and>
    (s = SExact \<and> exact_site content (er_old_text req) (snd (desugar req)) result \<or>
     s \<in> {STrailingWs, STrim, SUnicode} \<and> (\<forall>p q. content \<noteq> p @ er_old_text req @ q) \<and>
     window_site s content (window_lines (er_old_text req) (snd (desugar req))) result)"
proof -
  let ?pat = "er_old_text req" and ?repl = "snd (desugar req)"
  let ?ms = "match_indices content ?pat"
  have ne: "?pat \<noteq> []" using assms(1) by (auto simp: decide_def)
  have fst: "fst (desugar req) = ?pat" by (simp add: desugar_def split: operation.split)
  have lad: "decide_ladder F content ?pat ?repl False = Applied result s n l d"
    using assms ne fst by (simp add: decide_def split: prod.splits)
  consider i where "?ms = [i]" | "1 < length ?ms" | "?ms = []" by (cases ?ms; cases "tl ?ms") auto
  then show ?thesis
  proof cases
    case (1 i)
    then have "finish content (str_replacen content ?pat ?repl 1) SExact 1 = Applied result s n l d"
      using lad by (simp add: decide_ladder_def)
    note f = finish_Applied [OF this]
    have "i \<le> length content" by (rule single_match(2) [OF ne 1])
    then have "exact_site content ?pat ?repl result"
      unfolding exact_site_def
      using single_match [OF ne 1] str_replacen_one [OF 1, of ?repl] f(1)
      by (intro exI [of _ "take i content"] exI [of _ "drop (i + length ?pat) content"]) auto
    then show ?thesis using f by simp
  next
    case 2
    then have "?ms \<noteq> []" by auto
    then show ?thesis using lad 2 by (simp add: decide_ladder_def Let_def)
  next
    case 3
    then have "decide_windows content (window_lines ?pat ?repl) False [STrailingWs, STrim, SUnicode] =
        Some (Applied result s n l d)"
      using lad by (simp add: decide_ladder_def Let_def split: option.splits)
    from decide_windows_site [OF this] 3 match_indices_Nil [OF ne] show ?thesis by simp
  qed
qed

section \<open>Replacing every match\<close>

lemma pieces_hd_prefix: "pat \<noteq> [] \<Longrightarrow> prefix (hd (pieces pat t)) t"
proof -
  assume "pat \<noteq> []"
  then have "t = join_with pat (hd (pieces pat t) # tl (pieces pat t))" by (simp add: join_pieces)
  then show ?thesis by (metis join_with_Cons prefixI append_Nil2)
qed

lemma pieces_free:
  assumes ne: "pat \<noteq> []" and "p \<in> set (pieces pat s)"
  shows "p \<noteq> a @ pat @ b"
proof -
  have "\<forall>p \<in> set (pieces pat s). \<forall>a b. p \<noteq> a @ pat @ b"
    using ne
  proof (induction s rule: search_induct)
    case (Skip c t)
    have "c # hd (pieces pat t) \<noteq> a @ pat @ b" for a b
    proof (cases a)
      case Nil
      show ?thesis
      proof
        assume "c # hd (pieces pat t) = a @ pat @ b"
        then have "prefix pat (c # hd (pieces pat t))" using Nil by simp
        moreover have "prefix (c # hd (pieces pat t)) (c # t)" using pieces_hd_prefix [OF ne] by simp
        ultimately show False using Skip.hyps prefix_order.trans by blast
      qed
    next
      case (Cons a' as)
      then show ?thesis using Skip.IH by auto
    qed
    then show ?case
      using Skip.IH pieces_skip_Cons [OF ne Skip.hyps] by (cases "pieces pat t") auto
  qed (use ne in auto)
  then show ?thesis using assms(2) by blast
qed

text \<open>An edit asked to replace every literal match does so: the text is cut at the reported number
  of matches into pieces that hold no further match, and the pieces are joined by the
  replacement.\<close>

theorem replace_all_is_complete:
  assumes "decide F R content req = Applied result SExact n l d"
    and "er_match_mode req = Ladder" and "er_replace_all req"
  shows "\<exists>ps. content = join_with (er_old_text req) ps \<and> result = join_with (snd (desugar req)) ps \<and>
    length ps = n + 1 \<and> (\<forall>p \<in> set ps. \<forall>a b. p \<noteq> a @ er_old_text req @ b)"
proof -
  let ?pat = "er_old_text req" and ?repl = "snd (desugar req)"
  let ?ms = "match_indices content ?pat"
  have ne: "?pat \<noteq> []" using assms(1) by (auto simp: decide_def)
  have fst: "fst (desugar req) = ?pat" by (simp add: desugar_def split: operation.split)
  have lad: "decide_ladder F content ?pat ?repl True = Applied result SExact n l d"
    using assms ne fst by (simp add: decide_def split: prod.splits)
  have win: "decide_windows content w True ss \<noteq> Some (Applied result SExact n l d)" if "SExact \<notin> set ss" for w ss
    using that
  proof (induction ss)
    case (Cons t ss)
    then show ?case by (cases w) (auto simp: finish_def Let_def)
  qed simp
  have "?ms \<noteq> []"
  proof
    assume "?ms = []"
    then show False using lad win [of "[STrailingWs, STrim, SUnicode]" "window_lines ?pat ?repl"]
      by (auto simp: decide_ladder_def Let_def split: option.splits)
  qed
  then have "finish content (str_replace content ?pat ?repl) SExact (length ?ms) = Applied result SExact n l d"
    using lad by (simp add: decide_ladder_def Let_def)
  note f = finish_Applied [OF this]
  show ?thesis
    using f str_replace_pieces [OF ne] join_pieces [OF ne] match_indices_pieces [OF ne, of content]
      pieces_free [OF ne] by (intro exI [of _ "pieces ?pat content"]) auto
qed

section \<open>Edit distance\<close>

text \<open>An alignment of two texts by copying, changing, dropping and inserting single characters, with
  the number of edits.\<close>

inductive aligned :: "ustring \<Rightarrow> ustring \<Rightarrow> nat \<Rightarrow> bool" where
  none: "aligned [] [] 0"
| copy: "aligned a b n \<Longrightarrow> aligned (a @ [c]) (b @ [c]) n"
| change: "aligned a b n \<Longrightarrow> c \<noteq> d \<Longrightarrow> aligned (a @ [c]) (b @ [d]) (n + 1)"
| drop: "aligned a b n \<Longrightarrow> aligned (a @ [c]) b (n + 1)"
| insert: "aligned a b n \<Longrightarrow> aligned a (b @ [d]) (n + 1)"

definition least_edits :: "ustring \<Rightarrow> ustring \<Rightarrow> nat \<Rightarrow> bool" where
  "least_edits a b n \<longleftrightarrow> aligned a b n \<and> (\<forall>m. aligned a b m \<longrightarrow> n \<le> m)"

lemma aligned_length: "aligned a b n \<Longrightarrow> length a \<le> length b + n \<and> length b \<le> length a + n"
  by (induction rule: aligned.induct) auto

lemma aligned_Nil: "aligned [] b (length b)"
proof (induction b rule: rev_induct)
  case (snoc d b)
  then show ?case using aligned.insert [of "[]" b "length b" d] by simp
qed (simp add: aligned.none)

lemma aligned_Nil2: "aligned a [] (length a)"
proof (induction a rule: rev_induct)
  case (snoc d a)
  then show ?case using aligned.drop [of a "[]" "length a" d] by simp
qed (simp add: aligned.none)

lemma least_edits_Nil: "least_edits [] b (length b)"
  using aligned_Nil aligned_length by (fastforce simp: least_edits_def)

lemma least_edits_Nil2: "least_edits a [] (length a)"
  using aligned_Nil2 aligned_length by (fastforce simp: least_edits_def)

lemma least_edits_snoc:
  assumes p: "least_edits a b p" and q: "least_edits a (b @ [d]) q" and r: "least_edits (a @ [c]) b r"
  shows "least_edits (a @ [c]) (b @ [d]) (min (min (p + of_bool (c \<noteq> d)) (q + 1)) (r + 1))"
  (is "least_edits _ _ ?n")
  unfolding least_edits_def
proof
  have "aligned (a @ [c]) (b @ [d]) (p + of_bool (c \<noteq> d))"
    using p by (cases "c = d") (auto simp: least_edits_def intro: aligned.copy aligned.change [of _ _ p, simplified])
  moreover have "aligned (a @ [c]) (b @ [d]) (q + 1)"
    using q unfolding least_edits_def by (blast intro: aligned.drop)
  moreover have "aligned (a @ [c]) (b @ [d]) (r + 1)"
    using r unfolding least_edits_def by (blast intro: aligned.insert)
  ultimately show "aligned (a @ [c]) (b @ [d]) ?n" by (simp add: min_def)
next
  show "\<forall>m. aligned (a @ [c]) (b @ [d]) m \<longrightarrow> ?n \<le> m"
  proof (intro allI impI)
    fix m assume "aligned (a @ [c]) (b @ [d]) m"
    then show "?n \<le> m"
    proof (cases rule: aligned.cases)
      case (copy a' b' c')
      then show ?thesis using p by (auto simp: least_edits_def)
    next
      case (change a' b' n' c' d')
      then have "p \<le> n'" using p by (auto simp: least_edits_def)
      then show ?thesis using change by auto
    next
      case (drop a' n' c')
      then have "q \<le> n'" using q by (auto simp: least_edits_def)
      then show ?thesis using drop by auto
    next
      case (insert b' n' d')
      then have "r \<le> n'" using r by (auto simp: least_edits_def)
      then show ?thesis using insert by auto
    qed simp
  qed
qed

text \<open>A row of the table holds the distances from one prefix of the first text to every prefix of the
  second.\<close>

definition lev_row :: "ustring \<Rightarrow> ustring \<Rightarrow> ustring \<Rightarrow> nat list \<Rightarrow> bool" where
  "lev_row a b0 b row \<longleftrightarrow>
     length row = Suc (length b) \<and> (\<forall>j \<le> length b. least_edits a (b0 @ take j b) (row ! j))"

lemma lev_row_Cons:
  "lev_row a b0 b (p # row) \<longleftrightarrow>
     least_edits a b0 p \<and> (case b of [] \<Rightarrow> row = [] | d # b' \<Rightarrow> lev_row a (b0 @ [d]) b' row)"
  (is "?L \<longleftrightarrow> ?R")
proof (cases b)
  case Nil
  then show ?thesis by (auto simp: lev_row_def)
next
  case (Cons d b')
  have "(\<forall>j \<le> Suc (length b'). least_edits a (b0 @ take j (d # b')) ((p # row) ! j)) \<longleftrightarrow>
      least_edits a b0 p \<and> (\<forall>j \<le> length b'. least_edits a (b0 @ d # take j b') (row ! j))"
    by (auto simp: All_less_Suc2 le_imp_less_Suc less_Suc_eq_le [symmetric])
  then show ?thesis using Cons by (auto simp: lev_row_def)
qed

lemma lev_cells_row:
  "lev_row a b0 b prev \<Longrightarrow> least_edits (a @ [c]) b0 left \<Longrightarrow>
   lev_row (a @ [c]) b0 b (left # lev_cells c left prev b)"
proof (induction b arbitrary: b0 left prev)
  case Nil
  then show ?case by (simp add: lev_row_Cons)
next
  case (Cons d b)
  obtain p prev' where pp: "prev = p # prev'" using Cons.prems(1) by (cases prev) (auto simp: lev_row_def)
  then have p: "least_edits a b0 p" and row': "lev_row a (b0 @ [d]) b prev'"
    using Cons.prems(1) by (auto simp: lev_row_Cons)
  obtain q prev'' where qq: "prev' = q # prev''" using row' by (cases prev') (auto simp: lev_row_def)
  then have q: "least_edits a (b0 @ [d]) q" using row' by (simp add: lev_row_Cons)
  note cell = least_edits_snoc [OF p q Cons.prems(2)]
  from Cons.IH [OF row' cell] Cons.prems(2) show ?case
    by (simp add: lev_row_Cons pp qq Let_def)
qed

lemma lev_rows_row:
  "lev_row a0 [] b prev \<Longrightarrow> length a0 = i \<Longrightarrow> lev_row (a0 @ a) [] b (lev_rows i prev a b)"
proof (induction a arbitrary: a0 i prev)
  case (Cons c a)
  have "least_edits (a0 @ [c]) [] (i + 1)" using least_edits_Nil2 [of "a0 @ [c]"] Cons.prems(2) by simp
  from lev_cells_row [OF Cons.prems(1) this] Cons.IH [of "a0 @ [c]" _ "Suc i"] Cons.prems(2)
  show ?case by simp
qed simp

lemma levenshtein_least_edits: "least_edits a b (levenshtein a b)"
proof (cases "a = []")
  case True
  then show ?thesis by (simp add: levenshtein_def least_edits_Nil)
next
  case False
  have "lev_row [] [] b [0..<Suc (length b)]"
    unfolding lev_row_def
  proof (intro conjI allI impI)
    fix j assume "j \<le> length b"
    then show "least_edits [] ([] @ take j b) ([0..<Suc (length b)] ! j)"
      using least_edits_Nil [of "take j b"] by (simp del: upt_Suc)
  qed simp
  then have "lev_row a [] b (lev_rows 0 [0..<Suc (length b)] a b)"
    using lev_rows_row [of "[]" b _ 0 a] by simp
  then show ?thesis using False by (auto simp: lev_row_def levenshtein_def simp del: upt_Suc)
qed

text \<open>The two-row table computes the edit distance: some alignment of the two texts has that many
  single-character edits, and none has fewer.\<close>

theorem levenshtein_is_edit_distance:
  "aligned a b (levenshtein a b) \<and> (\<forall>m. aligned a b m \<longrightarrow> levenshtein a b \<le> m)"
  using levenshtein_least_edits [of a b] by (simp add: least_edits_def)

section \<open>Witnesses\<close>

definition demo_score :: "nat float_score" where
  "demo_score = \<lparr>fs_mean = \<lambda>_. 0, fs_greater = \<lambda>a b. b < a, fs_percent = \<lambda>n. n\<rparr>"

definition demo_regex :: "(unit, unit) regex_engine" where
  "demo_regex = \<lparr>rx_build = \<lambda>p. Inl p, rx_find_iter = \<lambda>_ _. [], rx_replacen = \<lambda>_ s _ _. s,
     rx_expand = \<lambda>_ s. s, rx_group0 = \<lambda>_. []\<rparr>"

definition demo_req :: "bool \<Rightarrow> edit_request" where
  "demo_req every = \<lparr>er_old_text = lit ''aa'', er_new_text = lit ''b'', er_replace_all = every,
     er_operation = Replace, er_match_mode = Ladder\<rparr>"

lemma demo_single:
  "decide demo_score demo_regex (lit ''xaay'') (demo_req False) =
     Applied (lit ''xby'') SExact 1 1 (render_diff (lit ''xaay'') (lit ''xby''))"
proof -
  have m: "match_indices (lit ''xaay'') (lit ''aa'') = [1]" by code_simp
  have r: "str_replacen (lit ''xaay'') (lit ''aa'') (lit ''b'') 1 = lit ''xby''" by code_simp
  have l: "first_changed_line (lit ''xaay'') (lit ''xby'') = 1" by code_simp
  show ?thesis
    using r l by (simp add: decide_def decide_ladder_def desugar_def demo_req_def m finish_def)
qed

theorem single_edit_changes_one_site_witness:
  "exact_site (lit ''xaay'') (lit ''aa'') (lit ''b'') (lit ''xby'')"
  using single_edit_changes_one_site [OF demo_single] by (simp add: demo_req_def desugar_def)

lemma demo_every:
  "decide demo_score demo_regex (lit ''xaaaa'') (demo_req True) =
     Applied (lit ''xbb'') SExact 2 1 (render_diff (lit ''xaaaa'') (lit ''xbb''))"
proof -
  have m: "match_indices (lit ''xaaaa'') (lit ''aa'') = [1, 3]" by code_simp
  have r: "str_replace (lit ''xaaaa'') (lit ''aa'') (lit ''b'') = lit ''xbb''" by code_simp
  have l: "first_changed_line (lit ''xaaaa'') (lit ''xbb'') = 1" by code_simp
  show ?thesis
    using r l by (simp add: decide_def decide_ladder_def desugar_def demo_req_def m finish_def)
qed

theorem replace_all_is_complete_witness:
  "\<exists>ps. lit ''xaaaa'' = join_with (lit ''aa'') ps \<and> lit ''xbb'' = join_with (lit ''b'') ps \<and>
    length ps = 2 + 1 \<and> (\<forall>p \<in> set ps. \<forall>a b. p \<noteq> a @ lit ''aa'' @ b)"
  using replace_all_is_complete [OF demo_every] by (simp add: demo_req_def desugar_def)

theorem levenshtein_is_edit_distance_witness:
  "aligned (lit ''kitten'') (lit ''sitting'') 3 \<and> \<not> aligned (lit ''kitten'') (lit ''sitting'') 2"
proof -
  have "levenshtein (lit ''kitten'') (lit ''sitting'') = 3" by code_simp
  with levenshtein_is_edit_distance [of "lit ''kitten''" "lit ''sitting''"] show ?thesis by fastforce
qed

end
