(* ===== verification/Request_Recovery.thy ===== *)
theory Request_Recovery
  imports Execution_Lease_Claims "HOL-Library.Option_ord" "HOL-Library.List_Lexorder"
    "HOL-Library.Product_Lexorder"
begin

text \<open>
  Recovery of requests whose execution was lost (\<^verbatim>\<open>crates/gents/src/lifecycle/recovery.rs\<close>): the
  sweep that ends every active request whose lease has run out, and the bounded re-assertion of
  terminal states towards replicas. Ending one request is \<open>recover_execution_generation\<close> of the
  lease component.
\<close>

section \<open>The sweep\<close>

record recovery_response =
  rr_status :: ustring
  rr_error_message :: "ustring option"
  rr_interrupted_at :: "ustring option"

definition decode_recovery_response :: "doc_id \<Rightarrow> row \<Rightarrow> lease_error + recovery_response" where
  "decode_recovery_response d r =
     (case str_field r ''status'' of
        None \<Rightarrow> Inl (RowUndecodable ARSP)
      | Some s \<Rightarrow> Inr \<lparr>rr_status = s, rr_error_message = str_field r ''error_message'',
                       rr_interrupted_at = str_field r ''interrupted_at''\<rparr>)"

definition load_recovery_response ::
  "'db node \<Rightarrow> ustring \<Rightarrow> doc_id \<Rightarrow> 'db \<Rightarrow> lease_error + recovery_response option" where
  "load_recovery_response N agent_did d db =
     first_row N ARSP [(''agent_did'', Is (GStr agent_did)), (''request_doc_id'', Is (GStr d))]
       decode_recovery_response db"

record terminal_repair_report =
  tr_scanned :: nat
  tr_repaired :: nat
  tr_awaiting_outcome :: nat
  tr_failed :: nat

record active_recovery_report =
  ar_requests :: terminal_repair_report
  ar_responses_recovered :: nat

definition not_blank :: "ustring option \<Rightarrow> ustring option" where
  "not_blank v = opt_filter (\<lambda>s. trim s \<noteq> []) v"

definition recovery_outcome :: "recovery_response option \<Rightarrow> ustring option \<Rightarrow> terminal_outcome" where
  "recovery_outcome rsp interrupt_requested_at =
     (let interrupted = not_blank (Option.bind rsp rr_interrupted_at) \<noteq> None;
          requested = not_blank interrupt_requested_at \<noteq> None;
          status = map_option rr_status rsp
      in if status = Some (lit ''complete'') then OutCompleted
         else if status = Some (lit ''error'') \<and> interrupted then OutInterrupted
         else if status = Some (lit ''error'') then OutFailed
         else if requested then OutInterrupted
         else OutFailed)"

definition recovery_reason :: "recovery_response option \<Rightarrow> terminal_outcome \<Rightarrow> ustring" where
  "recovery_reason rsp outcome =
     (case outcome of
        OutCompleted \<Rightarrow> []
      | OutInterrupted \<Rightarrow> lit ''interrupted''
      | _ \<Rightarrow>
          (case not_blank (Option.bind rsp rr_error_message) of
             Some reason \<Rightarrow> reason
           | None \<Rightarrow>
               if rsp \<noteq> None then lit ''daemon restarted before response could be finalized''
               else lit ''daemon restarted before response could be generated''))"

text \<open>What a sweep uses: the time format, the store, the clock and the fresh generation of the attempts on one
  request, and what the rest of the system does while an attempt sleeps.\<close>

record 'db recovery_env =
  re_time :: rfc3339
  re_node :: "'db node"
  re_txn :: "'db txn"
  re_clock :: "doc_id \<Rightarrow> nat \<Rightarrow> instant"
  re_fresh :: "doc_id \<Rightarrow> ustring"
  re_sleeping :: "nat \<Rightarrow> 'db \<Rightarrow> 'db"

definition bump_failed :: "active_recovery_report \<Rightarrow> active_recovery_report" where
  "bump_failed rep = rep\<lparr>ar_requests := (ar_requests rep)\<lparr>tr_failed := tr_failed (ar_requests rep) + 1\<rparr>\<rparr>"

definition bump_awaiting :: "active_recovery_report \<Rightarrow> active_recovery_report" where
  "bump_awaiting rep =
     rep\<lparr>ar_requests := (ar_requests rep)\<lparr>tr_awaiting_outcome := tr_awaiting_outcome (ar_requests rep) + 1\<rparr>\<rparr>"

definition bump_repaired :: "active_recovery_report \<Rightarrow> active_recovery_report" where
  "bump_repaired rep =
     rep\<lparr>ar_requests := (ar_requests rep)\<lparr>tr_repaired := tr_repaired (ar_requests rep) + 1\<rparr>,
         ar_responses_recovered := ar_responses_recovered rep + 1\<rparr>"

text \<open>The columns a recovery needs, in the order the sweep tests them: generation, expiry text and
  instant, progress.\<close>

definition recovery_lease :: "rfc3339 \<Rightarrow> lease_row \<Rightarrow> (ustring \<times> ustring \<times> instant \<times> int) option" where
  "recovery_lease F row =
     Option.bind (not_blank (lr_generation row)) (\<lambda>generation.
     Option.bind (not_blank (lr_expiry row)) (\<lambda>expiry_text.
     Option.bind (rf_parse F expiry_text) (\<lambda>expiry.
     Option.bind (opt_filter (\<lambda>n. 0 \<le> n) (lr_progress row)) (\<lambda>progress.
     Some (generation, expiry_text, expiry, progress)))))"

definition recover_row ::
  "'db recovery_env \<Rightarrow> ustring \<Rightarrow> instant \<Rightarrow> lease_row \<Rightarrow> active_recovery_report \<Rightarrow> 'db \<Rightarrow>
   (lease_error + active_recovery_report) \<times> 'db" where
  "recover_row E agent_did now row rep db =
     (if lr_session_id row = None then (Inr (bump_failed rep), db)
      else case load_recovery_response (re_node E) agent_did (lr_doc_id row) db of
          Inl e \<Rightarrow> (Inl e, db)
        | Inr rsp \<Rightarrow>
            (case recovery_lease (re_time E) row of
               None \<Rightarrow> (Inr (bump_failed rep), db)
             | Some (generation, expiry_text, expiry, progress) \<Rightarrow>
                 if now < expiry then (Inr (bump_awaiting rep), db)
                 else
                   let outcome = recovery_outcome rsp (lr_interrupt_requested_at row)
                   in case recover_execution_generation (re_time E) (re_node E) (re_txn E)
                          (re_clock E (lr_doc_id row)) (re_sleeping E) (re_fresh E (lr_doc_id row))
                          (Some (lr_doc_id row)) generation expiry_text progress outcome
                          (recovery_reason rsp outcome) db of
                        (Inr Won, db') \<Rightarrow> (Inr (bump_repaired rep), db')
                      | (Inr _, db') \<Rightarrow> (Inr rep, db')
                      | (Inl _, db') \<Rightarrow> (Inr (bump_failed rep), db')))"

fun recover_rows ::
  "'db recovery_env \<Rightarrow> ustring \<Rightarrow> instant \<Rightarrow> lease_row list \<Rightarrow> active_recovery_report \<Rightarrow> 'db \<Rightarrow>
   (lease_error + active_recovery_report) \<times> 'db" where
  "recover_rows E agent_did now [] rep db = (Inr rep, db)"
| "recover_rows E agent_did now (row # rows) rep db =
     (case recover_row E agent_did now row rep db of
        (Inl e, db') \<Rightarrow> (Inl e, db')
      | (Inr rep', db') \<Rightarrow> recover_rows E agent_did now rows rep' db')"

fun decode_rows :: "(doc_id \<Rightarrow> row \<Rightarrow> 'e + 'a) \<Rightarrow> (doc_id \<times> row) list \<Rightarrow> 'e + 'a list" where
  "decode_rows decode [] = Inr []"
| "decode_rows decode ((d, r) # rest) =
     bind_res (decode d r) (\<lambda>x. bind_res (decode_rows decode rest) (\<lambda>xs. Inr (x # xs)))"

definition active_filter :: "ustring \<Rightarrow> eq_filter" where
  "active_filter agent_did =
     [(''agent_did'', Is (GStr agent_did)),
      (''lifecycle_state'', OneOf [GStr (request_as_str ReqClaimed), GStr (request_as_str ReqProcessing)])]"

definition recover_active_requests ::
  "'db recovery_env \<Rightarrow> ustring \<Rightarrow> instant \<Rightarrow> 'db \<Rightarrow> (lease_error + active_recovery_report) \<times> 'db" where
  "recover_active_requests E agent_did now db =
     (case nd_query (re_node E) AREQ (active_filter agent_did) db of
        Inl e \<Rightarrow> (Inl (NodeError e), db)
      | Inr found \<Rightarrow>
          (case decode_rows decode_request_row found of
             Inl e \<Rightarrow> (Inl e, db)
           | Inr rows \<Rightarrow>
               recover_rows E agent_did now rows
                 \<lparr>ar_requests = \<lparr>tr_scanned = length rows, tr_repaired = 0, tr_awaiting_outcome = 0, tr_failed = 0\<rparr>,
                  ar_responses_recovered = 0\<rparr> db))"

definition repair_terminal_requests ::
  "'db recovery_env \<Rightarrow> ustring \<Rightarrow> instant \<Rightarrow> 'db \<Rightarrow> (lease_error + terminal_repair_report) \<times> 'db" where
  "repair_terminal_requests E agent_did now db =
     (case recover_active_requests E agent_did now db of
        (Inl e, db') \<Rightarrow> (Inl e, db')
      | (Inr rep, db') \<Rightarrow> (Inr (ar_requests rep), db'))"

section \<open>Re-assertion of terminal states\<close>

definition terminal_redrive_cap :: nat where
  "terminal_redrive_cap = 3"

definition terminal_redrive_batch_limit :: nat where
  "terminal_redrive_batch_limit = 64"

record terminal_redrive_report =
  td_reasserted :: nat
  td_scanned :: nat
  td_failed :: nat

definition redrive_filter :: "ustring \<Rightarrow> eq_filter" where
  "redrive_filter agent_did =
     [(''agent_did'', Is (GStr agent_did)), (''requester_did'', NotNull),
      (''lifecycle_state'', OneOf (map (\<lambda>s. GStr (request_as_str s)) (filter request_is_terminal request_all))),
      (''terminal_redrive_attempts'', Below (int terminal_redrive_cap))]"

definition terminal_order :: "(doc_id \<times> row) list \<Rightarrow> (doc_id \<times> row) list" where
  "terminal_order rows =
     sort_key (\<lambda>x. (str_field (snd x) ''terminalized_at'', str_field (snd x) ''request_id'')) rows"

record redrive_candidate =
  rc_doc_id :: doc_id
  rc_state :: request_state
  rc_attempts :: nat

definition redrive_candidate_of :: "doc_id \<Rightarrow> row \<Rightarrow> lease_error + redrive_candidate" where
  "redrive_candidate_of d r =
     bind_res (decode_request_row d r) (\<lambda>row.
     bind_res (ok_or (MissingColumn ''lifecycle_state'') (lr_state row)) (\<lambda>st.
     bind_res (ok_or (MissingColumn ''terminal_redrive_attempts'') (int_field r ''terminal_redrive_attempts'')) (\<lambda>n.
     if n < 0 \<or> 2 ^ 32 \<le> n then Inl (BadProgress n)
     else Inr \<lparr>rc_doc_id = d, rc_state = st, rc_attempts = nat n\<rparr>)))"

definition reassert_filter :: "ustring \<Rightarrow> redrive_candidate \<Rightarrow> eq_filter" where
  "reassert_filter agent_did c =
     [(''_docID'', Is (GStr (rc_doc_id c))), (''agent_did'', Is (GStr agent_did)),
      (''requester_did'', NotNull), (''lifecycle_state'', Is (GStr (request_as_str (rc_state c)))),
      (''terminal_redrive_attempts'', Is (GInt (int (rc_attempts c))))]"

definition reassert_input :: "redrive_candidate \<Rightarrow> input" where
  "reassert_input c =
     [(''lifecycle_state'', GStr (request_as_str (rc_state c))),
      (''terminal_redrive_attempts'', GInt (int (min (rc_attempts c + 1) (2 ^ 32 - 1))))]"

definition reassert_one ::
  "'db node \<Rightarrow> ustring \<Rightarrow> redrive_candidate \<Rightarrow> terminal_redrive_report \<times> 'db \<Rightarrow> terminal_redrive_report \<times> 'db" where
  "reassert_one N agent_did c x =
     (case x of (rep, db) \<Rightarrow>
        (case nd_update N AREQ (reassert_filter agent_did c) (reassert_input c) db of
           (Inl _, db') \<Rightarrow> (rep\<lparr>td_failed := td_failed rep + 1\<rparr>, db')
         | (Inr resp, db') \<Rightarrow>
             (if update_hit AREQ resp then rep\<lparr>td_reasserted := td_reasserted rep + 1\<rparr> else rep, db')))"

definition redrive_terminal_convergence ::
  "'db node \<Rightarrow> ustring \<Rightarrow> 'db \<Rightarrow> (lease_error + terminal_redrive_report) \<times> 'db" where
  "redrive_terminal_convergence N agent_did db =
     (case nd_query N AREQ (redrive_filter agent_did) db of
        Inl e \<Rightarrow> (Inl (NodeError e), db)
      | Inr found \<Rightarrow>
          (case decode_rows redrive_candidate_of (take terminal_redrive_batch_limit (terminal_order found)) of
             Inl e \<Rightarrow> (Inl e, db)
           | Inr cands \<Rightarrow>
               (case fold (reassert_one N agent_did) cands
                   (\<lparr>td_reasserted = 0, td_scanned = length cands, td_failed = 0\<rparr>, db) of
                  (rep, db') \<Rightarrow> (Inr rep, db'))))"

end
