(* ===== verification/Request_Recovery_Claims.thy ===== *)
theory Request_Recovery_Claims
  imports Request_Recovery
begin

text \<open>
  The sweep ends every request whose lease has run out and leaves the others alone; a terminal
  state is re-asserted a bounded number of times and never changed by it.
\<close>

section \<open>Re-assertion\<close>

abbreviation attempts_col :: string where
  "attempts_col \<equiv> ''terminal_redrive_attempts''"

text \<open>What one pass may do to a request: count one more attempt on a terminal, routed request of the
  agent that has attempts left, and nothing else.\<close>

definition reasserted :: "ustring \<Rightarrow> row \<Rightarrow> row \<Rightarrow> bool" where
  "reasserted agent_did r r' \<longleftrightarrow>
     (\<exists>n st. r attempts_col = Some (GInt n) \<and> 0 \<le> n \<and> n < int terminal_redrive_cap \<and>
        request_is_terminal st \<and> r ''lifecycle_state'' = Some (GStr (request_as_str st)) \<and>
        r ''agent_did'' = Some (GStr agent_did) \<and> r ''requester_did'' \<notin> {None, Some GNull} \<and>
        r' = r(attempts_col \<mapsto> GInt (n + 1)))"

lemma decode_rows_mem:
  assumes "decode_rows f found = Inr xs" and "x \<in> set xs"
  obtains d r where "(d, r) \<in> set found" "f d r = Inr x"
proof -
  have "\<exists>d r. (d, r) \<in> set found \<and> f d r = Inr x"
    using assms by (induction f found arbitrary: xs rule: decode_rows.induct) (auto simp: bind_res_Inr, blast+)
  with that show thesis by blast
qed

text \<open>A candidate describes a row it was read from.\<close>

definition describes :: "redrive_candidate \<Rightarrow> row \<Rightarrow> bool" where
  "describes c r \<longleftrightarrow> r ''lifecycle_state'' = Some (GStr (request_as_str (rc_state c))) \<and>
     r attempts_col = Some (GInt (int (rc_attempts c)))"

lemma decoded_state:
  assumes "decode_request_row d r = Inr row" and "lr_state row = Some st"
  shows "r ''lifecycle_state'' = Some (GStr (request_as_str st))"
proof (cases "str_field r ''lifecycle_state''")
  case None
  then show ?thesis using assms by (simp add: decode_request_row_def split: option.splits) auto
next
  case (Some t)
  then have "request_parse t = Inr st"
    using assms by (cases "request_parse t") (auto simp: decode_request_row_def split: option.splits)
  then show ?thesis using Some request_parse_Inr [of t st]
    by (simp add: str_field_def split: option.splits gval.splits)
qed

lemma candidate_describes:
  assumes "redrive_candidate_of d r = Inr c"
  shows "rc_doc_id c = d" and "describes c r"
  using assms decoded_state [of d r]
  by (auto simp: redrive_candidate_of_def describes_def int_field_def elim!: bind_resE
      split: if_splits option.splits gval.splits)

lemma reassert_matches:
  assumes "row_matches (reassert_filter agent_did c) d r"
  shows "d = rc_doc_id c" and "describes c r" and "r ''agent_did'' = Some (GStr agent_did)"
    and "r ''requester_did'' \<notin> {None, Some GNull}"
  using assms by (auto simp: reassert_filter_def describes_def)

lemma reassert_applied:
  assumes "describes c r" and "rc_attempts c < terminal_redrive_cap"
  shows "apply_input (reassert_input c) r = r(attempts_col \<mapsto> GInt (int (rc_attempts c) + 1))"
proof -
  have "min (rc_attempts c + 1) (2 ^ 32 - 1) = rc_attempts c + 1"
    using assms(2) by (simp add: terminal_redrive_cap_def)
  moreover have "r(''lifecycle_state'' \<mapsto> GStr (request_as_str (rc_state c))) = r"
    using assms(1) by (simp add: describes_def fun_upd_idem)
  ultimately show ?thesis by (simp add: reassert_input_def add.commute)
qed

text \<open>The fields of a candidate for a document, against the row at the start of a pass.\<close>

definition fits :: "redrive_candidate \<Rightarrow> doc_id \<Rightarrow> row \<Rightarrow> bool" where
  "fits c d r \<longleftrightarrow> (rc_doc_id c = d \<longrightarrow> describes c r \<and> request_is_terminal (rc_state c) \<and>
     rc_attempts c < terminal_redrive_cap)"

context defra
begin

lemma reassert_one_row:
  assumes "reassert_one N agent_did c (rep, db) = (rep', db')"
    and "view db AREQ d = Some s" and "s = r \<or> reasserted agent_did r s" and "fits c d r"
  shows "\<exists>s'. view db' AREQ d = Some s' \<and> (s' = r \<or> reasserted agent_did r s')"
proof -
  obtain res where up: "nd_update N AREQ (reassert_filter agent_did c) (reassert_input c) db = (res, db')"
    using assms(1) by (auto simp: reassert_one_def split: prod.splits sum.splits)
  from update_keeps [OF up assms(2)] consider "view db' AREQ d = Some s"
    | "row_matches (reassert_filter agent_did c) d s" "view db' AREQ d = Some (apply_input (reassert_input c) s)"
    by blast
  then show ?thesis
  proof cases
    case 1
    then show ?thesis using assms(3) by blast
  next
    case 2
    note m = reassert_matches [OF 2(1)]
    have f: "describes c r" "request_is_terminal (rc_state c)" "rc_attempts c < terminal_redrive_cap"
      using assms(4) m(1) by (simp_all add: fits_def)
    have "s = r" using assms(3) m(2) f(1) by (auto simp: reasserted_def describes_def)
    then have "reasserted agent_did r (apply_input (reassert_input c) s)"
      using m(2-4) f reassert_applied [OF m(2) f(3)] unfolding reasserted_def describes_def
      by (intro exI [of _ "int (rc_attempts c)"] exI [of _ "rc_state c"]) auto
    then show ?thesis using 2(2) by blast
  qed
qed

lemma reassert_all_rows:
  assumes "\<forall>c \<in> set cands. fits c d r"
    and "view db AREQ d = Some s" and "s = r \<or> reasserted agent_did r s"
  shows "\<exists>s'. view (snd (fold (reassert_one N agent_did) cands (rep, db))) AREQ d = Some s' \<and>
    (s' = r \<or> reasserted agent_did r s')"
  using assms
proof (induction cands arbitrary: rep db s)
  case (Cons c cands)
  obtain rep' db' where one: "reassert_one N agent_did c (rep, db) = (rep', db')" by force
  from reassert_one_row [OF one Cons.prems(2,3)] Cons.prems(1)
  obtain s' where "view db' AREQ d = Some s'" "s' = r \<or> reasserted agent_did r s'" by auto
  with Cons.IH [of db' s' rep'] Cons.prems(1) one show ?case by simp
qed auto

lemma redrive_fits:
  assumes "nd_query N AREQ (redrive_filter agent_did) db = Inr found"
    and "decode_rows redrive_candidate_of (take k (terminal_order found)) = Inr cands"
    and "view db AREQ d = Some r" and "c \<in> set cands"
  shows "fits c d r"
  unfolding fits_def
proof
  assume d: "rc_doc_id c = d"
  obtain d' r' where mem: "(d', r') \<in> set (take k (terminal_order found))" and c: "redrive_candidate_of d' r' = Inr c"
    using decode_rows_mem [OF assms(2,4)] by blast
  note desc = candidate_describes [OF c]
  have "(d', r') \<in> set found" using in_set_takeD [OF mem] by (simp add: terminal_order_def)
  then have "view db AREQ d' = Some r'" and m: "row_matches (redrive_filter agent_did) d' r'"
    using query_rows [OF assms(1)] by auto
  then have r: "r' = r" using d desc(1) assms(3) by simp
  have "request_is_terminal (rc_state c)" "rc_attempts c < terminal_redrive_cap"
    using m desc(2) by (auto simp: redrive_filter_def describes_def request_vocab.as_str_inject)
  with desc(2) r show "describes c r \<and> request_is_terminal (rc_state c) \<and> rc_attempts c < terminal_redrive_cap"
    by simp
qed

lemma redrive_row:
  assumes "view db AREQ d = Some r"
  shows "\<exists>r'. view (snd (redrive_terminal_convergence N agent_did db)) AREQ d = Some r' \<and>
    (r' = r \<or> reasserted agent_did r r')"
proof (cases "nd_query N AREQ (redrive_filter agent_did) db")
  case (Inl e)
  then show ?thesis using assms by (simp add: redrive_terminal_convergence_def)
next
  case (Inr found)
  show ?thesis
  proof (cases "decode_rows redrive_candidate_of (take terminal_redrive_batch_limit (terminal_order found))")
    case (Inl e)
    then show ?thesis using assms Inr by (simp add: redrive_terminal_convergence_def)
  next
    case c: (Inr cands)
    have fits: "\<forall>c \<in> set cands. fits c d r" using redrive_fits [OF Inr c assms] by blast
    have "snd (redrive_terminal_convergence N agent_did db) =
        snd (fold (reassert_one N agent_did) cands (\<lparr>td_reasserted = 0, td_scanned = length cands, td_failed = 0\<rparr>, db))"
      using Inr c by (simp add: redrive_terminal_convergence_def split: prod.split)
    with reassert_all_rows [OF fits assms, of agent_did] show ?thesis by simp
  qed
qed

end

text \<open>Passes with other activity between them.\<close>

fun redrive_trace :: "'db node \<Rightarrow> ustring \<Rightarrow> ('db \<Rightarrow> 'db) list \<Rightarrow> 'db \<Rightarrow> ('db \<times> 'db) list" where
  "redrive_trace N agent_did [] db = []"
| "redrive_trace N agent_did (other # others) db =
     (let before = other db; after = snd (redrive_terminal_convergence N agent_did before)
      in (before, after) # redrive_trace N agent_did others after)"

definition attempts_left :: "row \<Rightarrow> nat" where
  "attempts_left r =
     (case r attempts_col of Some (GInt n) \<Rightarrow> if 0 \<le> n then terminal_redrive_cap - nat n else 0 | _ \<Rightarrow> 0)"

lemma reasserted_uses_attempt: "reasserted did r r' \<Longrightarrow> attempts_left r = Suc (attempts_left r')"
  by (auto simp: reasserted_def attempts_left_def nat_add_distrib)

definition writes_to :: "('db \<Rightarrow> contents) \<Rightarrow> doc_id \<Rightarrow> ('db \<times> 'db) list \<Rightarrow> nat" where
  "writes_to view d trace = length (filter (\<lambda>(a, b). view b AREQ d \<noteq> view a AREQ d) trace)"

lemma writes_to_simps [simp]:
  "writes_to view d [] = 0"
  "writes_to view d ((a, b) # trace) = of_bool (view b AREQ d \<noteq> view a AREQ d) + writes_to view d trace"
  by (simp_all add: writes_to_def)

definition only_reasserts :: "('db \<Rightarrow> contents) \<Rightarrow> ustring \<Rightarrow> doc_id \<Rightarrow> 'db \<times> 'db \<Rightarrow> bool" where
  "only_reasserts view did d x \<longleftrightarrow>
     (\<exists>ra rb. view (fst x) AREQ d = Some ra \<and> view (snd x) AREQ d = Some rb \<and> (rb = ra \<or> reasserted did ra rb))"

lemma redrive_trace_rows:
  assumes "defra N view" and "\<forall>f \<in> set others. \<forall>x. view (f x) AREQ d = view x AREQ d"
    and "view db AREQ d = Some r"
  shows "writes_to view d (redrive_trace N did others db) \<le> attempts_left r \<and>
    list_all (only_reasserts view did d) (redrive_trace N did others db)"
  using assms(2,3)
proof (induction others arbitrary: db r)
  case (Cons f fs)
  define a where "a = f db"
  define b where "b = snd (redrive_terminal_convergence N did a)"
  have before: "view a AREQ d = Some r" using Cons.prems by (simp add: a_def)
  obtain r' where after: "view b AREQ d = Some r'" and step: "r' = r \<or> reasserted did r r'"
    unfolding b_def using defra.redrive_row [where view = view and d = d and r = r and db = a and agent_did = did, OF assms(1) before] by blast
  have trace: "redrive_trace N did (f # fs) db = (a, b) # redrive_trace N did fs b"
    by (simp add: a_def b_def Let_def)
  have ih: "writes_to view d (redrive_trace N did fs b) \<le> attempts_left r' \<and>
      list_all (only_reasserts view did d) (redrive_trace N did fs b)"
    by (rule Cons.IH [of b r']) (use Cons.prems(1) after in simp_all)
  have one: "only_reasserts view did d (a, b)" using before after step by (simp add: only_reasserts_def)
  have "of_bool (view b AREQ d \<noteq> view a AREQ d) + attempts_left r' \<le> attempts_left r"
    using step reasserted_uses_attempt [of did r r'] before after by (cases "r' = r") auto
  with ih one show ?case unfolding trace by simp
qed simp

text \<open>C15. However often the re-assertion pass runs, with whatever else happens in between that leaves the
  request alone, it writes a request at most \<^verbatim>\<open>TERMINAL_REDRIVE_CAP\<close> times, and each write only counts
  an attempt on a terminal request of the agent that was routed from elsewhere.\<close>

theorem redrive_bounded:
  assumes "defra N view" and "\<forall>f \<in> set others. \<forall>x. view (f x) AREQ d = view x AREQ d"
    and "view db AREQ d = Some r"
  shows "writes_to view d (redrive_trace N did others db) \<le> terminal_redrive_cap \<and>
    list_all (only_reasserts view did d) (redrive_trace N did others db)"
proof -
  have "attempts_left r \<le> terminal_redrive_cap"
    by (simp add: attempts_left_def split: option.splits gval.splits)
  with redrive_trace_rows [where view = view and d = d and r = r and db = db and others = others and did = did, OF assms] show ?thesis by simp
qed

section \<open>A store without failures\<close>

text \<open>The sweep makes progress when the calls of the database succeed.\<close>

locale calm_store = defra_txn N view T
  for N :: "'db node" and view :: "'db \<Rightarrow> contents" and T :: "'db txn" +
  assumes query_calm: "\<exists>rows. nd_query N c flt db = Inr rows"
    and query_distinct: "nd_query N c flt db = Inr rows \<Longrightarrow> distinct (map fst rows)"
    and update_calm: "\<exists>resp db'. nd_update N c flt inp db = (Inr resp, db')"
    and create_calm: "\<exists>resp db'. nd_create N c inp db = (Inr resp, db')"
    and begin_calm: "tx_begin T db = None"
    and commit_calm: "\<exists>u db2. tx_commit T db db1 = (Inr u, db2)"

interpretation mem_calm: calm_store mem_node mem_view mem_txn
  by unfold_locales (auto simp: mem_calls mem_hits_def mem_update_def mem_create_def mem_txn_def Let_def comp_def)

text \<open>The responses an agent keeps for a request, and that there is at most one, with a known
  status.\<close>

definition responses :: "contents \<Rightarrow> ustring \<Rightarrow> doc_id \<Rightarrow> (doc_id \<times> row) set" where
  "responses v did d =
     {(e, q). v ARSP e = Some q \<and> q ''agent_did'' = Some (GStr did) \<and> q ''request_doc_id'' = Some (GStr d)}"

definition response_ok :: "row \<Rightarrow> bool" where
  "response_ok q \<longleftrightarrow> str_field q ''content'' \<noteq> None \<and>
     str_field q ''status'' \<in> {Some (lit ''streaming''), Some (lit ''complete''), Some (lit ''error'')}"

definition one_response :: "contents \<Rightarrow> ustring \<Rightarrow> doc_id \<Rightarrow> bool" where
  "one_response v did d \<longleftrightarrow>
     responses v did d = {} \<or> (\<exists>e q. responses v did d = {(e, q)} \<and> response_ok q)"

lemma first_of_set: "set xs = {x} \<Longrightarrow> first_of xs = Some x"
  by (cases xs) auto

lemma responses_match:
  "{(e, q). v ARSP e = Some q \<and>
      row_matches [(''agent_did'', Is (GStr did)), (''request_doc_id'', Is (GStr d))] e q} = responses v did d"
  "{(e, q). v ARSP e = Some q \<and>
      row_matches [(''request_doc_id'', Is (GStr d)), (''agent_did'', Is (GStr did))] e q} = responses v did d"
  by (auto simp: responses_def)

context calm_store
begin

lemma first_row_empty:
  assumes "{(e, q). view db c e = Some q \<and> row_matches flt e q} = {}"
  shows "first_row N c flt decode db = Inr None"
proof -
  obtain rows where q: "nd_query N c flt db = Inr rows" using query_calm by blast
  then have "rows = []" using query_rows [OF q] assms by auto
  with q show ?thesis by (simp add: first_row_def)
qed

lemma first_row_single:
  assumes "{(e, q). view db c e = Some q \<and> row_matches flt e q} = {(e, q)}"
  shows "first_row N c flt decode db = bind_res (decode e q) (\<lambda>x. Inr (Some x))"
proof -
  obtain rows where q: "nd_query N c flt db = Inr rows" using query_calm by blast
  then have "first_of rows = Some (e, q)" using query_rows [OF q] assms first_of_set by metis
  with q show ?thesis by (simp add: first_row_def)
qed

lemma read_request_calm:
  assumes "view db AREQ d = Some r" and "decode_request_row d r = Inr row"
  shows "read_request N d db = Inr row"
proof -
  have "{(e, q). view db AREQ e = Some q \<and> row_matches [(''_docID'', Is (GStr d))] e q} = {(d, r)}"
    using assms(1) by auto
  from first_row_single [OF this, of decode_request_row] assms(2) show ?thesis
    by (simp add: read_request_def)
qed

end

text \<open>The response as the sweep and as the ending of a request see it.\<close>

definition seen_response :: "contents \<Rightarrow> ustring \<Rightarrow> doc_id \<Rightarrow> recovery_response option \<Rightarrow> response_view option \<Rightarrow> bool" where
  "seen_response v did d rr rv \<longleftrightarrow>
     responses v did d = {} \<and> rr = None \<and> rv = None \<or>
     (\<exists>e q x y. responses v did d = {(e, q)} \<and> rr = Some x \<and> rv = Some y \<and>
        decode_recovery_response e q = Inr x \<and> decode_response_row e q = Inr y)"

lemma one_response_seen:
  assumes "one_response v did d"
  shows "\<exists>rr rv. seen_response v did d rr rv"
proof (cases "responses v did d = {}")
  case True
  then show ?thesis by (auto simp: seen_response_def)
next
  case False
  then obtain e q where q: "responses v did d = {(e, q)}" "response_ok q"
    using assms by (auto simp: one_response_def)
  then obtain s c where "str_field q ''status'' = Some s" "str_field q ''content'' = Some c"
    by (auto simp: response_ok_def)
  then have "\<exists>x. decode_recovery_response e q = Inr x" "\<exists>y. decode_response_row e q = Inr y"
    by (simp_all add: decode_recovery_response_def decode_response_row_def)
  with q(1) show ?thesis unfolding seen_response_def by blast
qed

lemma seen_response_status:
  assumes "seen_response v did d rr rv"
  shows "map_option rv_status rv = map_option rr_status rr"
  using assms by (auto simp: seen_response_def decode_recovery_response_def decode_response_row_def
      split: option.splits)

context calm_store
begin

lemma load_response_calm:
  assumes "seen_response (view db) did d rr rv"
  shows "load_recovery_response N did d db = Inr rr"
proof -
  note rows = first_row_empty [of db ARSP "[(''agent_did'', Is (GStr did)), (''request_doc_id'', Is (GStr d))]"
      decode_recovery_response, unfolded responses_match]
    first_row_single [of db ARSP "[(''agent_did'', Is (GStr did)), (''request_doc_id'', Is (GStr d))]"
      _ _ decode_recovery_response, unfolded responses_match]
  show ?thesis using assms unfolding seen_response_def load_recovery_response_def by (elim disjE exE conjE) (simp_all add: rows)
qed

lemma load_view_calm:
  assumes "seen_response (view db) did d rr rv"
  shows "first_row N ARSP [(''request_doc_id'', Is (GStr d)), (''agent_did'', Is (GStr did))]
    decode_response_row db = Inr rv"
proof -
  note rows = first_row_empty [of db ARSP "[(''request_doc_id'', Is (GStr d)), (''agent_did'', Is (GStr did))]"
      decode_response_row, unfolded responses_match]
    first_row_single [of db ARSP "[(''request_doc_id'', Is (GStr d)), (''agent_did'', Is (GStr did))]"
      _ _ decode_response_row, unfolded responses_match]
  show ?thesis using assms unfolding seen_response_def by (elim disjE exE conjE) (simp_all add: rows)
qed

end

section \<open>The sweep ends lost executions\<close>

text \<open>A request of the agent that is still active although its lease has run out, both when the sweep
  looks and when it acts.\<close>

definition lost_execution ::
  "rfc3339 \<Rightarrow> ustring \<Rightarrow> instant \<Rightarrow> instant \<Rightarrow> doc_id \<Rightarrow> row \<Rightarrow> bool" where
  "lost_execution F did now tick d r \<longleftrightarrow>
     (\<exists>row g et e p. decode_request_row d r = Inr row \<and> lr_agent_did row = Some did \<and>
        lr_state row \<in> {Some ReqClaimed, Some ReqProcessing} \<and> lr_session_id row \<noteq> None \<and>
        recovery_lease F row = Some (g, et, e, p) \<and> e \<le> now \<and> e < tick)"

lemma recovery_leaseD:
  assumes "recovery_lease F row = Some (g, et, e, p)"
  shows "lr_generation row = Some g" "lr_expiry row = Some et" "rf_parse F et = Some e"
    "lr_progress row = Some p" "0 \<le> p"
  using assms by (auto simp: recovery_lease_def not_blank_def bind_eq_Some_conv)

text \<open>The state the sweep gives to a lost execution.\<close>

definition recovered_state :: "recovery_response option \<Rightarrow> ustring option \<Rightarrow> request_state" where
  "recovered_state rr interrupt_requested_at =
     (if map_option rr_status rr = Some (lit ''complete'') then ReqCompleted
      else if map_option rr_status rr = Some (lit ''error'') \<and> not_blank (Option.bind rr rr_interrupted_at) \<noteq> None \<or>
              interrupt_requested_at \<notin> {None, Some []} then ReqInterrupted
      else ReqFailed)"

lemma recovered_state_effective:
  "outcome_request_state (effective_outcome (recovery_outcome rr (lr_interrupt_requested_at row)) row) =
     recovered_state rr (lr_interrupt_requested_at row)"
  by (cases "lr_interrupt_requested_at row")
     (auto simp: recovered_state_def recovery_outcome_def effective_outcome_def not_blank_def Let_def)

lemma effective_status:
  assumes "seen_response v did d rr rv" and "one_response v did d"
  shows "case rv of None \<Rightarrow> True | Some y \<Rightarrow>
    rv_status y = lit ''streaming'' \<or>
    rv_status y = outcome_response_status (effective_outcome (recovery_outcome rr i) row)"
proof (cases rv)
  case (Some y)
  then obtain e q x where q: "responses v did d = {(e, q)}" "rr = Some x" "decode_response_row e q = Inr y"
    using assms(1) by (auto simp: seen_response_def)
  then have st: "rv_status y \<in> {lit ''streaming'', lit ''complete'', lit ''error''}"
    using assms(2) by (auto simp: one_response_def response_ok_def decode_response_row_def split: option.splits)
  have "rr_status x = rv_status y" using seen_response_status [OF assms(1)] Some q(2) by simp
  then show ?thesis using st Some q(2)
    by (auto simp: recovery_outcome_def effective_outcome_def outcome_response_status_def Let_def
        split: terminal_outcome.splits)
qed simp

lemma decoded_columns:
  assumes "decode_request_row d r = Inr row"
  shows "lr_doc_id row = d" "lr_generation row = str_field r ''execution_generation''"
    "lr_expiry row = str_field r ''execution_lease_expires_at''"
    "lr_progress row = int_field r ''execution_progress_seq''" "lr_agent_did row = str_field r ''agent_did''"
  using assms by (auto simp: decode_request_row_def bind_res_Inr split: option.splits)

lemma str_field_SomeD: "str_field r f = Some s \<Longrightarrow> r f = Some (GStr s)"
  by (simp add: str_field_def split: option.splits gval.splits)

lemma int_field_SomeD: "int_field r f = Some n \<Longrightarrow> r f = Some (GInt n)"
  by (simp add: int_field_def split: option.splits gval.splits)

lemma decoded_leased:
  assumes "decode_request_row d r = Inr row" and "lr_state row = Some st"
    and "recovery_lease F row = Some (g, et, e, p)"
  shows "leased r st g et p"
  using decoded_state [OF assms(1,2)] recovery_leaseD [OF assms(3)] decoded_columns [OF assms(1)]
  by (auto simp: leased_def dest: str_field_SomeD int_field_SomeD)

lemma created_written: "j \<in> set (created_responses ARSP e) \<Longrightarrow> terminal_response_written False (Some j)"
proof -
  assume "j \<in> set (created_responses ARSP e)"
  moreover have "strip_prefix (lit ''create_'') (lit ''create_AgentResponse'') = Some (lit ''AgentResponse'')"
    by (simp add: lit_def)
  ultimately show ?thesis
    by (auto simp: terminal_response_written_def created_responses_def response_has_documents_def
        extract_single_doc_id_def id_object_def Let_def lit_append [symmetric])
qed

context calm_store
begin

lemma recovery_plan:
  assumes "view db AREQ d = Some r" and "decode_request_row d r = Inr row"
    and "lr_agent_did row = Some did" and "lr_state row = Some st" and "st \<in> {ReqClaimed, ReqProcessing}"
    and "recovery_lease F row = Some (g, et, e, p)" and "e < tick"
    and "seen_response (view db) did d rr rv" and "one_response (view db) did d"
  defines "eff \<equiv> effective_outcome (recovery_outcome rr (lr_interrupt_requested_at row)) row"
  shows "plan_terminal F N fresh d (Recovery g et p) (recovery_outcome rr (lr_interrupt_requested_at row))
      reason tick db =
    Inr (Write row rv eff did (lease_filter d st g et p)
      (terminal_input F fresh (Recovery g et p) g eff reason tick))"
proof -
  note lease = recovery_leaseD [OF assms(6)]
  have nt: "\<not> request_is_terminal st" by (rule active_not_terminal [OF assms(5)])
  have ok: "\<not> (case rv of None \<Rightarrow> False | Some v \<Rightarrow> rv_status v \<noteq> lit ''streaming'' \<and>
      rv_status v \<noteq> outcome_response_status eff)"
    using effective_status [OF assms(8,9), of "lr_interrupt_requested_at row" row]
    by (auto simp: eff_def split: option.splits)
  show ?thesis
    unfolding plan_terminal_def
    using lease ok nt assms(5,7)
    by (simp add: read_request_calm [OF assms(1,2)] assms(3,4) load_view_calm [OF assms(8)] observe_def
        authorize_terminal_def eff_def [symmetric])
qed

end

text \<open>Writes to a request's own response leave the responses of every other request alone.\<close>

definition other_responses_kept :: "doc_id \<Rightarrow> contents \<Rightarrow> contents \<Rightarrow> bool" where
  "other_responses_kept d v v' \<longleftrightarrow> (\<forall>did d'. d' \<noteq> d \<longrightarrow> responses v' did d' = responses v did d')"

lemma other_kept_refl: "v' ARSP = v ARSP \<Longrightarrow> other_responses_kept d v v'"
  by (simp add: other_responses_kept_def responses_def)

lemma other_kept_trans:
  "other_responses_kept d u v \<Longrightarrow> other_responses_kept d v w \<Longrightarrow> other_responses_kept d u w"
  by (simp add: other_responses_kept_def)

lemma other_kept_added:
  assumes "v ARSP e = None" and "apply_input inp Map.empty ''request_doc_id'' = Some (GStr d)"
  shows "other_responses_kept d v (added ARSP e inp v)"
  unfolding other_responses_kept_def
proof (intro allI impI)
  fix did d' assume "d' \<noteq> d"
  then show "responses (added ARSP e inp v) did d' = responses v did d'"
    using assms by (auto simp: responses_def added_def split: if_splits)
qed

lemma other_kept_updated:
  assumes "v ARSP e = Some q" and "q ''request_doc_id'' = Some (GStr d)"
    and "''request_doc_id'' \<notin> fst ` set inp" and "\<And>x r. row_matches flt x r \<Longrightarrow> x = e"
  shows "other_responses_kept d v (updated ARSP flt inp v)"
  unfolding other_responses_kept_def
proof (intro allI impI set_eqI)
  fix did d' and x :: "doc_id \<times> row" assume d': "d' \<noteq> d"
  obtain y r where x: "x = (y, r)" by (cases x)
  show "x \<in> responses (updated ARSP flt inp v) did d' \<longleftrightarrow> x \<in> responses v did d'"
  proof (cases "y = e")
    case True
    then show ?thesis
      using assms(1,2) d' apply_input_other [OF assms(3)]
      by (auto simp: x responses_def updated_def split: if_splits)
  next
    case False
    then have "updated ARSP flt inp v ARSP y = v ARSP y"
      using assms(4) by (cases "v ARSP y") (auto simp: updated_def)
    then show ?thesis by (simp add: x responses_def)
  qed
qed

context calm_store
begin

lemma response_mutation_calm:
  assumes "seen_response (view db) did d rr rv"
    and "terminal_response_mutation F authority d did reason now row rv eff = Inr m"
  shows "\<exists>resp db'. run_response_mutation N m db = (Inr resp, db') \<and> terminal_response_written (rv \<noteq> None) resp \<and>
    other_responses_kept d (view db) (view db')"
proof (cases rv)
  case None
  then obtain inp where m: "m = RCreate inp" and own: "apply_input inp Map.empty ''request_doc_id'' = Some (GStr d)"
    using assms(2) by (auto simp: terminal_response_mutation_def Let_def bind_res_Inr interrupted_field_def
        requester_did_create_field_def split: option.splits)
  obtain resp db' where c: "nd_create N ARSP inp db = (Inr resp, db')" using create_calm by blast
  from create_ok [OF c] obtain e j where e: "view db ARSP e = None" "view db' = added ARSP e inp (view db)"
    and j: "j \<in> set (created_responses ARSP e)" "resp = Some j" by blast
  have "other_responses_kept d (view db) (view db')"
    unfolding e(2) by (rule other_kept_added [where v = "view db" and e = e, OF e(1) own])
  with None m c created_written [OF j(1)] j(2) show ?thesis by simp
next
  case (Some y)
  then obtain e q where q: "responses (view db) did d = {(e, q)}" and y: "decode_response_row e q = Inr y"
    using assms(1) by (auto simp: seen_response_def)
  have e: "rv_doc_id y = e" "q ''status'' = Some (GStr (rv_status y))"
    using y by (auto simp: decode_response_row_def dest: str_field_SomeD split: option.splits)
  have v: "view db ARSP e = Some q" "q ''request_doc_id'' = Some (GStr d)"
    using q by (auto simp: responses_def)
  let ?flt = "[(''_docID'', Is (GStr e)), (''status'', Is (GStr (rv_status y)))]"
  define inp where "inp = recovered_content authority eff reason y @
    [(''status'', GStr (outcome_response_status eff)), (''error_message'', GStr reason)] @
    interrupted_field F now eff rv @ [(''completed_at'', GStr (rf_print F now))]"
  have m: "m = RUpdate ?flt inp"
    using assms(2) Some e(1) by (simp add: terminal_response_mutation_def Let_def inp_def)
  have keep: "''request_doc_id'' \<notin> fst ` set inp"
    by (auto simp: inp_def recovered_content_def interrupted_field_def split: if_splits)
  obtain resp db' where u: "nd_update N ARSP ?flt inp db = (Inr resp, db')" using update_calm by blast
  from update_ok [OF u] obtain ds where ds: "resp = Some (updated_response ARSP ds)"
    "set ds = {x. \<exists>r. view db ARSP x = Some r \<and> row_matches ?flt x r}"
    and v': "view db' = updated ARSP ?flt inp (view db)" by blast
  have "e \<in> set ds" using ds(2) v(1) e(2) by simp
  then have "ds \<noteq> []" by auto
  moreover have "other_responses_kept d (view db) (view db')"
    unfolding v' by (rule other_kept_updated [where v = "view db" and e = e, OF v keep]) simp
  ultimately show ?thesis using Some m u ds(1) by (simp add: terminal_written_updated)
qed

lemma other_kept_seen:
  "view db' ARSP = view db ARSP \<Longrightarrow> seen_response (view db) did d rr rv \<Longrightarrow> seen_response (view db') did d rr rv"
  by (simp add: seen_response_def responses_def)

lemma recovery_body:
  assumes "view db AREQ d = Some r" and "decode_request_row d r = Inr row"
    and "lr_agent_did row = Some did" and "lr_state row = Some st" and "st \<in> {ReqClaimed, ReqProcessing}"
    and "recovery_lease F row = Some (g, et, e, p)" and "e < tick"
    and "seen_response (view db) did d rr rv" and "one_response (view db) did d"
    and "lr_session_id row = Some session"
  defines "eff \<equiv> effective_outcome (recovery_outcome rr (lr_interrupt_requested_at row)) row"
  shows "\<exists>db1. terminalize_body F N fresh d (Recovery g et p)
      (recovery_outcome rr (lr_interrupt_requested_at row)) reason tick db = (Inr Won, db1) \<and>
    view db1 AREQ = (view db AREQ)
      (d \<mapsto> apply_input (terminal_input F fresh (Recovery g et p) g eff reason tick) r) \<and>
    other_responses_kept d (view db) (view db1)"
proof -
  let ?flt = "lease_filter d st g et p" and ?inp = "terminal_input F fresh (Recovery g et p) g eff reason tick"
  have plan: "plan_terminal F N fresh d (Recovery g et p) (recovery_outcome rr (lr_interrupt_requested_at row))
      reason tick db = Inr (Write row rv eff did ?flt ?inp)"
    unfolding eff_def by (rule recovery_plan [OF assms(1-9)])
  have l: "leased r st g et p" by (rule decoded_leased [OF assms(2,4,6)])
  obtain resp dbm where u: "nd_update N AREQ ?flt ?inp db = (Inr resp, dbm)" using update_calm by blast
  have hit: "update_hit AREQ resp"
    using update_hit_iff [OF u] assms(1) l by (auto simp: lease_filter_matches)
  have areq: "view dbm AREQ = (view db AREQ)(d \<mapsto> apply_input ?inp r)"
  proof
    fix x
    show "view dbm AREQ x = ((view db AREQ)(d \<mapsto> apply_input ?inp r)) x"
      using update_ok [OF u] assms(1) l
      by (cases "view db AREQ x") (auto simp: updated_def lease_filter_matches)
  qed
  have arsp: "view dbm ARSP = view db ARSP" using update_other [OF u, of ARSP] by simp
  obtain m where m: "terminal_response_mutation F (Recovery g et p) d did reason tick row rv eff = Inr m"
    using assms(10) by (cases rv) (auto simp: terminal_response_mutation_def Let_def)
  obtain resp2 db2 where r2: "run_response_mutation N m dbm = (Inr resp2, db2)"
    "terminal_response_written (rv \<noteq> None) resp2" "other_responses_kept d (view dbm) (view db2)"
    using response_mutation_calm [OF other_kept_seen [OF arsp assms(8)] m] by blast
  obtain resp3 db3 where c: "nd_update N ''AgentConversation''
      [(''session_id'', Is (GStr session)), (''latest_request_id'', Is (GStr (lr_request_id row)))]
      [(''status'', GStr (outcome_conversation_status eff)), (''updated_at'', GStr (rf_print F tick))] db2 =
      (Inr resp3, db3)" using update_calm by blast
  have "terminalize_body F N fresh d (Recovery g et p)
      (recovery_outcome rr (lr_interrupt_requested_at row)) reason tick db = (Inr Won, db3)"
    using plan u hit m r2 c assms(10) by (simp add: terminalize_body_def)
  moreover have "view db3 AREQ = (view db AREQ)(d \<mapsto> apply_input ?inp r)"
    using update_other [OF c, of AREQ] response_mutation_other [OF r2(1), of AREQ] areq by simp
  moreover have "other_responses_kept d (view db) (view db3)"
  proof (rule other_kept_trans)
    show "other_responses_kept d (view db) (view dbm)" by (rule other_kept_refl) (rule arsp)
    show "other_responses_kept d (view dbm) (view db3)"
      by (rule other_kept_trans [OF r2(3)], rule other_kept_refl) (use update_other [OF c, of ARSP] in simp)
  qed
  ultimately show ?thesis by blast
qed

end

text \<open>What the sweep makes of one request.\<close>

definition swept ::
  "'db recovery_env \<Rightarrow> ustring \<Rightarrow> instant \<Rightarrow> contents \<Rightarrow> doc_id \<Rightarrow> row \<Rightarrow> row option \<Rightarrow> bool" where
  "swept E did now v d r after \<longleftrightarrow>
     (if lost_execution (re_time E) did now (re_clock E d 0) d r
      then \<exists>r' rr rv row. after = Some r' \<and> seen_response v did d rr rv \<and> decode_request_row d r = Inr row \<and>
        req_state r' = Some (recovered_state rr (lr_interrupt_requested_at row))
      else after = Some r)"

lemma sweptI:
  assumes "lost_execution (re_time E) did now (re_clock E d 0) d r" and "after = Some r'"
    and "seen_response v did d rr rv" and "decode_request_row d r = Inr row"
    and "req_state r' = Some (recovered_state rr (lr_interrupt_requested_at row))"
  shows "swept E did now v d r after"
  unfolding swept_def using assms by (simp only: if_True) blast

lemma swept_idle: "\<not> lost_execution (re_time E) did now (re_clock E d 0) d r \<Longrightarrow> swept E did now v d r (Some r)"
  by (simp add: swept_def)

definition sweepable :: "ustring \<Rightarrow> contents \<Rightarrow> lease_row \<Rightarrow> bool" where
  "sweepable did v row \<longleftrightarrow>
     (\<exists>r. v AREQ (lr_doc_id row) = Some r \<and> decode_request_row (lr_doc_id row) r = Inr row) \<and>
     lr_agent_did row = Some did \<and> lr_state row \<in> {Some ReqClaimed, Some ReqProcessing} \<and>
     one_response v did (lr_doc_id row)"

lemma lost_execution_decoded:
  assumes "decode_request_row d r = Inr row" and "lr_agent_did row = Some did"
    and "lr_state row \<in> {Some ReqClaimed, Some ReqProcessing}"
  shows "lost_execution F did now tick d r \<longleftrightarrow>
    lr_session_id row \<noteq> None \<and> (case recovery_lease F row of None \<Rightarrow> False | Some (g, et, e, p) \<Rightarrow> e \<le> now \<and> e < tick)"
  using assms by (auto simp: lost_execution_def split: option.splits)

lemma recovered_input_state:
  "req_state (apply_input (terminal_input F fresh authority owner eff reason now) r) =
     Some (outcome_request_state eff)"
  by (simp add: terminal_input_def)

context calm_store
begin

lemma txn_won:
  assumes "body db = (Inr v, db1)" and "commits v"
  shows "\<exists>db2. txn_attempt T err commits body db = (Inr v, db2) \<and> view db2 = view db1"
proof -
  obtain u db2 where c: "tx_commit T db db1 = (Inr u, db2)" using commit_calm by blast
  then show ?thesis using assms begin_calm [of db] commit_ok [OF c] by (simp add: txn_attempt_def)
qed

lemma too_early_lost:
  assumes "view db AREQ d = Some r" and "decode_request_row d r = Inr row"
    and "lr_agent_did row = Some did" and "lr_state row = Some st" and "st \<in> {ReqClaimed, ReqProcessing}"
    and "recovery_lease F row = Some (g, et, e, p)" and "\<not> e < tick"
    and "seen_response (view db) did d rr rv"
  shows "terminalize_body F N fresh d (Recovery g et p) outcome reason tick db = (Inr Lost, db)"
proof -
  note lease = recovery_leaseD [OF assms(6)]
  have nt: "\<not> request_is_terminal st" by (rule active_not_terminal [OF assms(5)])
  have "plan_terminal F N fresh d (Recovery g et p) outcome reason tick db = Inr (Settled Lost)"
    unfolding plan_terminal_def
    using lease nt assms(7)
    by (simp add: read_request_calm [OF assms(1,2)] assms(3,4) load_view_calm [OF assms(8)] observe_def
        authorize_terminal_def)
  then show ?thesis by (simp add: terminalize_body_def)
qed

lemma recover_row_calm:
  assumes E: "re_node E = N" "re_txn E = T" and ok: "sweepable did (view db) row" "view db AREQ (lr_doc_id row) = Some r"
  shows "\<exists>rep' db'. recover_row E did now row rep db = (Inr rep', db') \<and>
    (\<forall>d. d \<noteq> lr_doc_id row \<longrightarrow> view db' AREQ d = view db AREQ d) \<and>
    other_responses_kept (lr_doc_id row) (view db) (view db') \<and>
    swept E did now (view db) (lr_doc_id row) r (view db' AREQ (lr_doc_id row))"
proof -
  let ?d = "lr_doc_id row" and ?tick = "re_clock E (lr_doc_id row) 0"
  have dec: "decode_request_row ?d r = Inr row" and did: "lr_agent_did row = Some did"
    and act: "lr_state row \<in> {Some ReqClaimed, Some ReqProcessing}" and one: "one_response (view db) did ?d"
    using ok by (auto simp: sweepable_def)
  obtain rr rv where seen: "seen_response (view db) did ?d rr rv" using one_response_seen [OF one] by blast
  note lost = lost_execution_decoded [OF dec did act, of "re_time E" now ?tick]
  note load = load_response_calm [OF seen]
  obtain st where st: "lr_state row = Some st" "st \<in> {ReqClaimed, ReqProcessing}" using act by auto
  have idle: ?thesis if "recover_row E did now row rep db = (Inr rep', db)"
    and "\<not> lost_execution (re_time E) did now ?tick ?d r" for rep'
  proof (intro exI conjI)
    show "recover_row E did now row rep db = (Inr rep', db)" by (rule that(1))
    show "other_responses_kept ?d (view db) (view db)" by (rule other_kept_refl) simp
    show "swept E did now (view db) ?d r (view db AREQ ?d)" unfolding ok(2) by (rule swept_idle [OF that(2)])
  qed simp
  consider "lr_session_id row = None" | session where "lr_session_id row = Some session" "recovery_lease (re_time E) row = None"
    | session g et e p where "lr_session_id row = Some session" "recovery_lease (re_time E) row = Some (g, et, e, p)"
    by (cases "lr_session_id row"; cases "recovery_lease (re_time E) row") auto
  then show ?thesis
  proof cases
    case 1
    then have "recover_row E did now row rep db = (Inr (bump_failed rep), db)" by (simp add: recover_row_def)
    moreover have "\<not> lost_execution (re_time E) did now ?tick ?d r" using 1 by (simp add: lost)
    ultimately show ?thesis by (rule idle)
  next
    case 2
    then have "recover_row E did now row rep db = (Inr (bump_failed rep), db)"
      using load by (simp add: recover_row_def E)
    moreover have "\<not> lost_execution (re_time E) did now ?tick ?d r" using 2 by (simp add: lost)
    ultimately show ?thesis by (rule idle)
  next
    case (3 session g et e p)
    let ?out = "recovery_outcome rr (lr_interrupt_requested_at row)"
    let ?att = "\<lambda>i. txn_attempt T NodeError (\<lambda>res. res = Won)
      (terminalize_body (re_time E) N (re_fresh E ?d) ?d (Recovery g et p) ?out (recovery_reason rr ?out) (re_clock E ?d i))"
    have run: "recover_execution_generation (re_time E) N T (re_clock E ?d) (re_sleeping E) (re_fresh E ?d)
        (Some ?d) g et p ?out (recovery_reason rr ?out) db = (Inr res, db')"
      if "?att 0 db = (Inr res, db')" for res db'
      using that by (simp add: recover_execution_generation_def terminalize_execution_def
          retry_terminal_persistence_operation.simps [of _ _ _ _ 0])
    consider "now < e" | "e \<le> now" "\<not> e < ?tick" | "e \<le> now" "e < ?tick" by linarith
    then show ?thesis
    proof cases
      case c1: 1
      then have "recover_row E did now row rep db = (Inr (bump_awaiting rep), db)"
        using 3 load by (simp add: recover_row_def E)
      moreover have "\<not> lost_execution (re_time E) did now ?tick ?d r" using 3 c1 by (simp add: lost)
      ultimately show ?thesis by (rule idle)
    next
      case c2: 2
      have "?att 0 db = (Inr Lost, db)"
        using too_early_lost [OF ok(2) dec did st 3(2) c2(2) seen] begin_calm by (simp add: txn_attempt_def)
      from run [OF this] have "recover_row E did now row rep db = (Inr rep, db)"
        using 3 c2 load by (simp add: recover_row_def E Let_def)
      moreover have "\<not> lost_execution (re_time E) did now ?tick ?d r" using 3 c2 by (simp add: lost)
      ultimately show ?thesis by (rule idle)
    next
      case c3: 3
      let ?eff = "effective_outcome ?out row"
      obtain db1 where body: "terminalize_body (re_time E) N (re_fresh E ?d) ?d (Recovery g et p) ?out
          (recovery_reason rr ?out) ?tick db = (Inr Won, db1)"
        and v1: "view db1 AREQ = (view db AREQ)(?d \<mapsto> apply_input (terminal_input (re_time E) (re_fresh E ?d)
            (Recovery g et p) g ?eff (recovery_reason rr ?out) ?tick) r)"
        and kept: "other_responses_kept ?d (view db) (view db1)"
        using recovery_body [OF ok(2) dec did st 3(2) c3(2) seen one 3(1)] by blast
      obtain db2 where att: "?att 0 db = (Inr Won, db2)" and v2: "view db2 = view db1"
        using txn_won [where body = "terminalize_body (re_time E) N (re_fresh E ?d) ?d (Recovery g et p) ?out
            (recovery_reason rr ?out) ?tick" and db = db and v = Won and ?db1.0 = db1
            and commits = "\<lambda>res. res = Won" and err = NodeError, OF body refl] by blast
      have res: "recover_row E did now row rep db = (Inr (bump_repaired rep), db2)"
        using run [OF att] 3 c3 load by (simp add: recover_row_def E Let_def)
      have "req_state (apply_input (terminal_input (re_time E) (re_fresh E ?d)
            (Recovery g et p) g ?eff (recovery_reason rr ?out) ?tick) r) =
          Some (recovered_state rr (lr_interrupt_requested_at row))"
        by (simp only: recovered_input_state recovered_state_effective)
      moreover have "lost_execution (re_time E) did now ?tick ?d r"
        using 3 c3 by (simp add: lost)
      moreover have "view db2 AREQ ?d = Some (apply_input (terminal_input (re_time E) (re_fresh E ?d)
            (Recovery g et p) g ?eff (recovery_reason rr ?out) ?tick) r)"
        by (simp add: v2 v1)
      ultimately have "swept E did now (view db) ?d r (view db2 AREQ ?d)"
        by (intro sweptI [OF _ _ seen dec])
      moreover have "\<forall>d. d \<noteq> ?d \<longrightarrow> view db2 AREQ d = view db AREQ d" by (simp add: v2 v1)
      moreover have "other_responses_kept ?d (view db) (view db2)" using kept by (simp only: v2)
      ultimately show ?thesis using res by blast
    qed
  qed
qed

end

text \<open>Over the rows of a sweep, each read before the sweep began.\<close>

lemma sweepable_kept:
  assumes "sweepable did v row" and "lr_doc_id row \<noteq> d" and "\<forall>x. x \<noteq> d \<longrightarrow> v' AREQ x = v AREQ x"
    and "other_responses_kept d v v'"
  shows "sweepable did v' row"
  using assms unfolding sweepable_def one_response_def other_responses_kept_def by simp

lemma swept_kept:
  assumes "swept E did now v' x r after" and "x \<noteq> d" and "other_responses_kept d v v'"
  shows "swept E did now v x r after"
proof -
  have "responses v' did x = responses v did x" using assms(2,3) by (simp add: other_responses_kept_def)
  then have "seen_response v' did x = seen_response v did x" by (simp add: seen_response_def fun_eq_iff)
  with assms(1) show ?thesis by (simp only: swept_def)
qed

context calm_store
begin

lemma recover_rows_calm:
  assumes "re_node E = N" "re_txn E = T" and "distinct (map lr_doc_id rows)"
    and "\<forall>row \<in> set rows. sweepable did (view db) row"
  shows "\<exists>rep' db'. recover_rows E did now rows rep db = (Inr rep', db') \<and>
    (\<forall>d r. view db AREQ d = Some r \<longrightarrow>
       (if d \<in> lr_doc_id ` set rows then swept E did now (view db) d r (view db' AREQ d)
        else view db' AREQ d = Some r))"
  using assms(3,4)
proof (induction rows arbitrary: rep db)
  case (Cons row rows)
  let ?d = "lr_doc_id row"
  obtain r where r: "view db AREQ ?d = Some r" using Cons.prems(2) by (auto simp: sweepable_def)
  obtain rep1 db1 where step: "recover_row E did now row rep db = (Inr rep1, db1)"
    and others: "\<forall>d. d \<noteq> ?d \<longrightarrow> view db1 AREQ d = view db AREQ d"
    and kept: "other_responses_kept ?d (view db) (view db1)"
    and fin: "swept E did now (view db) ?d r (view db1 AREQ ?d)"
    using recover_row_calm [OF assms(1,2) _ r, of did now rep] Cons.prems(2) by auto
  have new: "?d \<notin> lr_doc_id ` set rows" using Cons.prems(1) by simp
  have "\<forall>row' \<in> set rows. sweepable did (view db1) row'"
  proof
    fix row' assume "row' \<in> set rows"
    moreover from this have "lr_doc_id row' \<noteq> ?d" using new by (metis image_eqI)
    ultimately show "sweepable did (view db1) row'"
      using Cons.prems(2) sweepable_kept [OF _ _ others kept] by simp
  qed
  with Cons.IH [of db1 rep1] Cons.prems(1) obtain rep' db' where
    rest: "recover_rows E did now rows rep1 db1 = (Inr rep', db')"
    and ih: "\<forall>d r. view db1 AREQ d = Some r \<longrightarrow>
       (if d \<in> lr_doc_id ` set rows then swept E did now (view db1) d r (view db' AREQ d)
        else view db' AREQ d = Some r)" by auto
  have "if d \<in> lr_doc_id ` set (row # rows) then swept E did now (view db) d s (view db' AREQ d)
        else view db' AREQ d = Some s" if s: "view db AREQ d = Some s" for d s
  proof (cases "d = ?d")
    case True
    obtain s1 where s1: "view db1 AREQ ?d = Some s1" using fin by (auto simp: swept_def split: if_splits)
    then have "view db' AREQ ?d = view db1 AREQ ?d" using ih new by simp
    then show ?thesis using True fin s r by simp
  next
    case False
    then have "view db1 AREQ d = Some s" using others s by simp
    with ih have d: "if d \<in> lr_doc_id ` set rows then swept E did now (view db1) d s (view db' AREQ d)
        else view db' AREQ d = Some s" by blast
    show ?thesis
    proof (cases "d \<in> lr_doc_id ` set rows")
      case True
      then have "swept E did now (view db) d s (view db' AREQ d)" using d swept_kept [OF _ False kept] by simp
      then show ?thesis using True by simp
    qed (use d False in simp)
  qed
  then show ?case using step rest by auto
qed auto

end

lemma decode_rows_all:
  "decode_rows f found = Inr xs \<Longrightarrow> list_all2 (\<lambda>x y. f (fst x) (snd x) = Inr y) found xs"
  by (induction f found arbitrary: xs rule: decode_rows.induct) (auto simp: bind_res_Inr)

lemma decode_rows_ok:
  "\<forall>(d, r) \<in> set found. \<exists>x. f d r = Inr x \<Longrightarrow> \<exists>xs. decode_rows f found = Inr xs"
  by (induction f found rule: decode_rows.induct) auto

lemma active_row_decodes:
  assumes "row_matches (active_filter did) d r" and "str_field r ''request_id'' \<noteq> None"
  shows "\<exists>row. decode_request_row d r = Inr row \<and> lr_agent_did row = Some did \<and>
    lr_state row \<in> {Some ReqClaimed, Some ReqProcessing}"
proof -
  have "(\<exists>st \<in> {ReqClaimed, ReqProcessing}. str_field r ''lifecycle_state'' = Some (request_as_str st)) \<and>
      str_field r ''agent_did'' = Some did"
    using assms(1) by (auto simp: active_filter_def str_field_def split: option.splits)
  then obtain st where "st \<in> {ReqClaimed, ReqProcessing}" "str_field r ''lifecycle_state'' = Some (request_as_str st)"
    and "str_field r ''agent_did'' = Some did" by blast
  then show ?thesis using assms(2) by (auto simp: decode_request_row_def simp del: request_as_str.simps)
qed

lemma lost_is_active:
  assumes "lost_execution F did now tick d r"
  shows "row_matches (active_filter did) d r"
proof -
  obtain row where row: "decode_request_row d r = Inr row" "lr_agent_did row = Some did"
    "lr_state row \<in> {Some ReqClaimed, Some ReqProcessing}"
    using assms by (auto simp: lost_execution_def)
  then obtain st where "lr_state row = Some st" "st \<in> {ReqClaimed, ReqProcessing}" by auto
  moreover have "r ''agent_did'' = Some (GStr did)"
    using decoded_columns(5) [OF row(1)] row(2) str_field_SomeD by simp
  ultimately show ?thesis using decoded_state [OF row(1)] by (auto simp: active_filter_def)
qed

text \<open>C10. One recovery sweep over a store whose calls succeed ends exactly the executions of the agent that
  were lost: a claimed or processing request whose lease ran out becomes completed when its response was
  complete, interrupted when it or its response had been asked to stop, failed otherwise; every other
  request row, in particular one whose lease is still running, is left as it was. Each active row of the
  agent names its request and has at most one response, which decodes.\<close>

theorem sweep_ends_lost_executions:
  assumes "calm_store N view T" and E: "re_node E = N" "re_txn E = T"
    and rows: "\<forall>d r. view db AREQ d = Some r \<and> row_matches (active_filter did) d r \<longrightarrow>
      str_field r ''request_id'' \<noteq> None \<and> one_response (view db) did d"
  shows "\<exists>rep db'. recover_active_requests E did now db = (Inr rep, db') \<and>
    (\<forall>d r. view db AREQ d = Some r \<longrightarrow> swept E did now (view db) d r (view db' AREQ d))"
proof -
  note calm = assms(1)
  have d0: "defra N view" using calm by (simp add: calm_store_def defra_txn_def)
  obtain found where q: "nd_query N AREQ (active_filter did) db = Inr found"
    using calm_store.query_calm [OF calm] by blast
  have found: "set found = {(d, r). view db AREQ d = Some r \<and> row_matches (active_filter did) d r}"
    by (rule defra.query_rows [OF d0 q])
  have act: "row_matches (active_filter did) d r" "str_field r ''request_id'' \<noteq> None"
      "one_response (view db) did d" "view db AREQ d = Some r" if "(d, r) \<in> set found" for d r
    using that found rows by auto
  obtain lrs where dec: "decode_rows decode_request_row found = Inr lrs"
    using decode_rows_ok [of found decode_request_row] active_row_decodes [OF act(1,2)] by fastforce
  note all = decode_rows_all [OF dec]
  have ids: "map lr_doc_id lrs = map fst found"
    using all by (induction rule: list_all2_induct) (auto dest: decoded_columns(1))
  have sweep: "\<forall>row \<in> set lrs. sweepable did (view db) row"
  proof
    fix row assume "row \<in> set lrs"
    then obtain d r where m: "(d, r) \<in> set found" and dr: "decode_request_row d r = Inr row"
      using decode_rows_mem [OF dec] by blast
    from active_row_decodes [OF act(1,2) [OF m]] dr act(3,4) [OF m] decoded_columns(1) [OF dr]
    show "sweepable did (view db) row" by (simp add: sweepable_def)
  qed
  have dist: "distinct (map lr_doc_id lrs)" using calm_store.query_distinct [OF calm q] ids by simp
  define rep0 where "rep0 = \<lparr>ar_requests = \<lparr>tr_scanned = length lrs, tr_repaired = 0, tr_awaiting_outcome = 0,
    tr_failed = 0\<rparr>, ar_responses_recovered = 0\<rparr>"
  obtain rep db' where run: "recover_rows E did now lrs rep0 db = (Inr rep, db')"
    and res: "\<forall>d r. view db AREQ d = Some r \<longrightarrow>
       (if d \<in> lr_doc_id ` set lrs then swept E did now (view db) d r (view db' AREQ d)
        else view db' AREQ d = Some r)"
    using calm_store.recover_rows_calm [OF calm E dist sweep] by blast
  have "swept E did now (view db) d r (view db' AREQ d)" if r: "view db AREQ d = Some r" for d r
  proof (cases "d \<in> lr_doc_id ` set lrs")
    case True
    then show ?thesis using res r by simp
  next
    case False
    have "d \<notin> fst ` set found" using False ids by (metis list.set_map)
    then have "\<not> lost_execution (re_time E) did now (re_clock E d 0) d r"
      using found r lost_is_active by force
    moreover have "view db' AREQ d = Some r" using res r False by simp
    ultimately show ?thesis using swept_idle by simp
  qed
  then show ?thesis
    using q dec run E by (intro exI [of _ rep] exI [of _ db']) (simp add: recover_active_requests_def rep0_def)
qed

section \<open>Witnesses\<close>

definition demo_terminal_row :: row where
  "demo_terminal_row = [''request_id'' \<mapsto> GStr (lit ''r''), ''agent_did'' \<mapsto> GStr (lit ''a''),
     ''requester_did'' \<mapsto> GStr (lit ''b''), ''lifecycle_state'' \<mapsto> GStr (request_as_str ReqCompleted),
     attempts_col \<mapsto> GInt 0]"

theorem redrive_bounded_witness:
  "writes_to mem_view [120]
     (redrive_trace mem_node (lit ''a'') [\<lambda>x. x, \<lambda>x. x, \<lambda>x. x, \<lambda>x. x] [((AREQ, [120]), demo_terminal_row)]) \<le> 3 \<and>
   list_all (only_reasserts mem_view (lit ''a'') [120])
     (redrive_trace mem_node (lit ''a'') [\<lambda>x. x, \<lambda>x. x, \<lambda>x. x, \<lambda>x. x] [((AREQ, [120]), demo_terminal_row)])"
  using redrive_bounded [OF mem.defra_axioms, of "[\<lambda>x. x, \<lambda>x. x, \<lambda>x. x, \<lambda>x. x]" "[120]"
      "[((AREQ, [120]), demo_terminal_row)]" demo_terminal_row "lit ''a''"]
  by (simp only: terminal_redrive_cap_def) (simp add: mem_view_def)

definition demo_recovery :: "mem_db recovery_env" where
  "demo_recovery = \<lparr>re_time = demo_rfc, re_node = mem_node, re_txn = mem_txn, re_clock = \<lambda>_ _. 20000000,
     re_fresh = \<lambda>_. lit ''h'', re_sleeping = \<lambda>_ x. x\<rparr>"

lemma demo_responses: "responses (mem_view demo_lease_db) (lit ''a'') [120] = {([121], demo_response)}"
  by (auto simp: responses_def mem_view_def demo_lease_db_def demo_response_def split: if_splits)

lemma demo_decoded:
  "decode_request_row [120] demo_request =
     Inr \<lparr>lr_doc_id = [120], lr_request_id = lit ''r'', lr_state = Some ReqProcessing,
          lr_generation = Some (lit ''g''), lr_expiry = Some (rf_print demo_rfc 9000000),
          lr_progress = Some 4, lr_agent_did = Some (lit ''a''), lr_requester_did = None,
          lr_behavior_id = None, lr_session_id = Some (lit ''s''), lr_interrupt_requested_at = None\<rparr>"
  by (simp add: decode_request_row_def demo_request_def str_field_def int_field_def del: request_as_str.simps)

lemma demo_lost: "lost_execution demo_rfc (lit ''a'') 20000000 20000000 [120] demo_request"
proof -
  have "trim (lit ''g'') \<noteq> []" "trim (rf_print demo_rfc 9000000) \<noteq> []"
    by (simp_all add: trim_defs is_ws_def demo_rfc_def lit_def)
  then show ?thesis
    by (simp add: lost_execution_def demo_decoded recovery_lease_def not_blank_def demo_rfc_round)
qed

theorem sweep_ends_lost_executions_witness:
  "\<exists>rep db' r'. recover_active_requests demo_recovery (lit ''a'') 20000000 demo_lease_db = (Inr rep, db') \<and>
     mem_view db' AREQ [120] = Some r' \<and> req_state r' = Some ReqFailed"
proof -
  have ok: "response_ok demo_response" by (simp add: response_ok_def demo_response_def str_field_def)
  have rows: "\<forall>d r. mem_view demo_lease_db AREQ d = Some r \<and> row_matches (active_filter (lit ''a'')) d r \<longrightarrow>
      str_field r ''request_id'' \<noteq> None \<and> one_response (mem_view demo_lease_db) (lit ''a'') d"
    using demo_responses ok
    by (auto simp: one_response_def mem_view_def demo_lease_db_def demo_request_def str_field_def split: if_splits)
  have E: "re_node demo_recovery = mem_node" "re_txn demo_recovery = mem_txn" by (simp_all add: demo_recovery_def)
  have r: "mem_view demo_lease_db AREQ [120] = Some demo_request" by (simp add: mem_view_def demo_lease_db_def)
  obtain rep db' where run: "recover_active_requests demo_recovery (lit ''a'') 20000000 demo_lease_db = (Inr rep, db')"
    and sw: "swept demo_recovery (lit ''a'') 20000000 (mem_view demo_lease_db) [120] demo_request (mem_view db' AREQ [120])"
    using sweep_ends_lost_executions [where view = mem_view and db = demo_lease_db and now = 20000000,
        OF mem_calm.calm_store_axioms E rows] r by blast
  have "lost_execution (re_time demo_recovery) (lit ''a'') 20000000 (re_clock demo_recovery [120] 0) [120] demo_request"
    using demo_lost by (simp add: demo_recovery_def)
  then obtain r' rr rv row where r': "mem_view db' AREQ [120] = Some r'"
    and seen: "seen_response (mem_view demo_lease_db) (lit ''a'') [120] rr rv"
    and row: "decode_request_row [120] demo_request = Inr row"
    and st: "req_state r' = Some (recovered_state rr (lr_interrupt_requested_at row))"
    using sw by (simp only: swept_def if_True) blast
  have "map_option rr_status rr = Some (lit ''streaming'')"
    using seen demo_responses
    by (auto simp: seen_response_def decode_recovery_response_def demo_response_def str_field_def)
  then have "recovered_state rr (lr_interrupt_requested_at row) = ReqFailed"
    using row demo_decoded by (auto simp: recovered_state_def)
  with run r' st show ?thesis by auto
qed

end
