(* ===== verification/Command_Denial.thy ===== *)
theory Command_Denial
  imports Gents_Prelude
begin

text \<open>
  The vocabulary of the command tools: the execution, network and workspace modes of
  \<^verbatim>\<open>toolset/shared/command.rs\<close>, each with its restrictiveness rank, and the typed denials
  of \<^verbatim>\<open>toolset/denial.rs\<close> with the JSON payload a denied call hands back to the dispatcher.
\<close>

section \<open>Modes\<close>

datatype command_execution_mode = XM_ReadOnly | XM_WorkspaceWrite | XM_Unrestricted

datatype command_network_mode = NM_Inherit | NM_Disabled | NM_Enabled

datatype workspace_authority = WA_ReadOnly | WA_ReadWrite | WA_Integrate

definition one_of :: "ustring \<Rightarrow> string list \<Rightarrow> bool" where
  "one_of s names \<longleftrightarrow> s \<in> set (map lit names)"

lemma one_of_simps [simp]:
  "one_of s [] \<longleftrightarrow> False"
  "one_of s (n # ns) \<longleftrightarrow> s = lit n \<or> one_of s ns"
  by (auto simp: one_of_def)

datatype mode_error = UnknownMode ustring

definition command_execution_mode_parse :: "ustring \<Rightarrow> mode_error + command_execution_mode" where
  "command_execution_mode_parse value =
     (let v = trim value in
      if one_of v ['''', ''read_only'', ''ReadOnly''] then Inr XM_ReadOnly
      else if one_of v [''workspace_write'', ''WorkspaceWrite'', ''managed_write'', ''ManagedWrite'']
        then Inr XM_WorkspaceWrite
      else if one_of v [''unrestricted'', ''Unrestricted''] then Inr XM_Unrestricted
      else Inl (UnknownMode v))"

fun command_execution_mode_as_str :: "command_execution_mode \<Rightarrow> ustring" where
  "command_execution_mode_as_str XM_ReadOnly = lit ''read_only''"
| "command_execution_mode_as_str XM_WorkspaceWrite = lit ''workspace_write''"
| "command_execution_mode_as_str XM_Unrestricted = lit ''unrestricted''"

fun command_execution_mode_rank :: "command_execution_mode \<Rightarrow> nat" where
  "command_execution_mode_rank XM_ReadOnly = 0"
| "command_execution_mode_rank XM_WorkspaceWrite = 1"
| "command_execution_mode_rank XM_Unrestricted = 2"

definition command_execution_mode_meet ::
  "command_execution_mode \<Rightarrow> command_execution_mode \<Rightarrow> command_execution_mode" where
  "command_execution_mode_meet a b =
     (if command_execution_mode_rank a \<le> command_execution_mode_rank b then a else b)"

definition command_network_mode_parse :: "ustring \<Rightarrow> mode_error + command_network_mode" where
  "command_network_mode_parse value =
     (let v = trim value in
      if one_of v ['''', ''inherit'', ''Inherit''] then Inr NM_Inherit
      else if one_of v [''disabled'', ''Disabled'', ''off'', ''Off''] then Inr NM_Disabled
      else if one_of v [''enabled'', ''Enabled'', ''on'', ''On''] then Inr NM_Enabled
      else Inl (UnknownMode v))"

fun command_network_mode_as_str :: "command_network_mode \<Rightarrow> ustring" where
  "command_network_mode_as_str NM_Inherit = lit ''inherit''"
| "command_network_mode_as_str NM_Disabled = lit ''disabled''"
| "command_network_mode_as_str NM_Enabled = lit ''enabled''"

definition allows_network :: "command_network_mode \<Rightarrow> bool" where
  "allows_network m \<longleftrightarrow> m \<noteq> NM_Disabled"

fun command_network_mode_rank :: "command_network_mode \<Rightarrow> nat" where
  "command_network_mode_rank NM_Disabled = 0"
| "command_network_mode_rank NM_Inherit = 1"
| "command_network_mode_rank NM_Enabled = 2"

definition command_network_mode_meet ::
  "command_network_mode \<Rightarrow> command_network_mode \<Rightarrow> command_network_mode" where
  "command_network_mode_meet a b =
     (if command_network_mode_rank a \<le> command_network_mode_rank b then a else b)"

definition workspace_authority_parse :: "ustring \<Rightarrow> mode_error + workspace_authority" where
  "workspace_authority_parse value =
     (let v = trim value in
      if one_of v [''readOnly'', ''ReadOnly'', ''read_only''] then Inr WA_ReadOnly
      else if one_of v [''readWrite'', ''ReadWrite'', ''read_write''] then Inr WA_ReadWrite
      else if one_of v [''integrate'', ''Integrate''] then Inr WA_Integrate
      else Inl (UnknownMode v))"

fun workspace_authority_as_str :: "workspace_authority \<Rightarrow> ustring" where
  "workspace_authority_as_str WA_ReadOnly = lit ''readOnly''"
| "workspace_authority_as_str WA_ReadWrite = lit ''readWrite''"
| "workspace_authority_as_str WA_Integrate = lit ''integrate''"

fun command_mode :: "workspace_authority \<Rightarrow> command_execution_mode" where
  "command_mode WA_ReadOnly = XM_ReadOnly"
| "command_mode WA_Integrate = XM_ReadOnly"
| "command_mode WA_ReadWrite = XM_WorkspaceWrite"

definition allows_file_writes :: "workspace_authority \<Rightarrow> bool" where
  "allows_file_writes a \<longleftrightarrow> a = WA_ReadWrite"

fun workspace_authority_rank :: "workspace_authority \<Rightarrow> nat" where
  "workspace_authority_rank WA_ReadOnly = 0"
| "workspace_authority_rank WA_Integrate = 1"
| "workspace_authority_rank WA_ReadWrite = 2"

definition workspace_authority_infimum ::
  "workspace_authority \<Rightarrow> workspace_authority \<Rightarrow> workspace_authority" where
  "workspace_authority_infimum a b =
     (if workspace_authority_rank a \<le> workspace_authority_rank b then a else b)"

definition normalize_workspace_lifecycle_state :: "ustring \<Rightarrow> ustring option" where
  "normalize_workspace_lifecycle_state value =
     (let v = trim value in
      if one_of v [''provisioning'', ''Provisioning''] then Some (lit ''provisioning'')
      else if one_of v [''ready'', ''Ready''] then Some (lit ''ready'')
      else if one_of v [''provisionFailed'', ''provision_failed'', ''ProvisionFailed'']
        then Some (lit ''provisionFailed'')
      else if one_of v [''sealed'', ''Sealed''] then Some (lit ''sealed'')
      else if one_of v [''cleaning'', ''Cleaning''] then Some (lit ''cleaning'')
      else if one_of v [''cleaned'', ''Cleaned''] then Some (lit ''cleaned'')
      else None)"

definition bindable_lifecycle_state :: "workspace_authority \<Rightarrow> ustring \<Rightarrow> bool" where
  "bindable_lifecycle_state a state =
     (case normalize_workspace_lifecycle_state state of
        None \<Rightarrow> False
      | Some s \<Rightarrow> (case a of
            WA_ReadWrite \<Rightarrow> s = lit ''ready''
          | WA_ReadOnly \<Rightarrow> one_of s [''ready'', ''sealed'']
          | WA_Integrate \<Rightarrow> s = lit ''sealed''))"

section \<open>Denials\<close>

datatype denial_reason =
    ForbiddenPrefix "ustring list"
  | AllowedPrefixRequired "ustring list"
  | ReadOnlyCommandNotAllowlisted ustring
  | ReadOnlyArgumentNotAllowed ustring ustring
  | ReadOnlySubcommandRequired ustring
  | ReadOnlySubcommandNotAllowlisted ustring ustring
  | ReadOnlyUrlRequired ustring
  | DisabledNetworkUnenforceable
  | DisabledNetworkCommand ustring
  | WorkspaceWriteSandboxUnavailable
  | WorkspaceExecutable
  | GitMetadataWriteDenied ustring ustring

fun to_contract :: "denial_reason \<Rightarrow> ustring" where
  "to_contract (ForbiddenPrefix _) = lit ''forbiddenPrefix''"
| "to_contract (AllowedPrefixRequired _) = lit ''allowedPrefixRequired''"
| "to_contract (ReadOnlyCommandNotAllowlisted _) = lit ''readOnlyCommandNotAllowlisted''"
| "to_contract (ReadOnlyArgumentNotAllowed _ _) = lit ''readOnlyArgumentNotAllowed''"
| "to_contract (ReadOnlySubcommandRequired _) = lit ''readOnlySubcommandRequired''"
| "to_contract (ReadOnlySubcommandNotAllowlisted _ _) = lit ''readOnlySubcommandNotAllowlisted''"
| "to_contract (ReadOnlyUrlRequired _) = lit ''readOnlyUrlRequired''"
| "to_contract DisabledNetworkUnenforceable = lit ''disabledNetworkUnenforceable''"
| "to_contract (DisabledNetworkCommand _) = lit ''disabledNetworkCommand''"
| "to_contract WorkspaceWriteSandboxUnavailable = lit ''workspaceWriteSandboxUnavailable''"
| "to_contract WorkspaceExecutable = lit ''workspaceExecutable''"
| "to_contract (GitMetadataWriteDenied _ _) = lit ''gitMetadataWriteDenied''"

fun matched_prefix :: "denial_reason \<Rightarrow> ustring list option" where
  "matched_prefix (ForbiddenPrefix m) = Some m"
| "matched_prefix _ = None"

fun denied_argv :: "denial_reason \<Rightarrow> ustring list option" where
  "denied_argv (AllowedPrefixRequired argv) = Some argv"
| "denied_argv _ = None"

fun denied_command :: "denial_reason \<Rightarrow> ustring option" where
  "denied_command (ReadOnlyCommandNotAllowlisted c) = Some c"
| "denied_command (ReadOnlyArgumentNotAllowed c _) = Some c"
| "denied_command (ReadOnlySubcommandRequired c) = Some c"
| "denied_command (ReadOnlySubcommandNotAllowlisted c _) = Some c"
| "denied_command (ReadOnlyUrlRequired c) = Some c"
| "denied_command (DisabledNetworkCommand c) = Some c"
| "denied_command (GitMetadataWriteDenied c _) = Some c"
| "denied_command _ = None"

fun denied_argument :: "denial_reason \<Rightarrow> ustring option" where
  "denied_argument (ReadOnlyArgumentNotAllowed _ a) = Some a"
| "denied_argument _ = None"

fun denied_subcommand :: "denial_reason \<Rightarrow> ustring option" where
  "denied_subcommand (ReadOnlySubcommandNotAllowlisted _ s) = Some s"
| "denied_subcommand (GitMetadataWriteDenied _ s) = Some s"
| "denied_subcommand _ = None"

text \<open>
  The diagnostic text of a denial. \<open>macos\<close> is the build target
  (\<^verbatim>\<open>cfg!(target_os = "macos")\<close>).
\<close>

definition ends_with :: "ustring \<Rightarrow> ustring \<Rightarrow> bool" where
  "ends_with p s \<longleftrightarrow> starts_with (rev p) (rev s)"

definition read_only_argument_diagnostic :: "ustring \<Rightarrow> ustring \<Rightarrow> ustring" where
  "read_only_argument_diagnostic c a =
     (if c = lit ''sed'' \<and> (one_of a [''-i'', ''--in-place''] \<or> starts_with (lit ''-i'') a \<or>
           starts_with (lit ''--in-place='') a)
        then lit ''sed in-place edits are not allowed''
      else if c = lit ''find''
        then lit ''find arguments that can write or execute are not allowed''
      else if c = lit ''sudo'' \<and> ends_with (lit ''launchctl'') a
        then lit ''sudo launchctl must use the absolute /bin/launchctl path''
      else if c = lit ''git'' \<and> (one_of a [''-C'', ''-c''] \<or> starts_with (lit ''-C'') a \<or>
           starts_with (lit ''-c'') a \<or> starts_with (lit ''--config-env'') a \<or>
           starts_with (lit ''--exec-path'') a \<or> starts_with (lit ''--git-dir'') a \<or>
           starts_with (lit ''--namespace'') a \<or> starts_with (lit ''--super-prefix'') a \<or>
           starts_with (lit ''--work-tree'') a)
        then lit ''git global options that redirect config or helper lookup are not allowed''
      else if c = lit ''git'' \<and> (a = lit ''-D'' \<or> starts_with (lit ''--format='') a)
        then lit ''git branch argument is not read-only: '' @ a
      else if c = lit ''git''
        then lit ''git argument is not allowed by the read-only bash tool: '' @ a
      else if c = lit ''rg''
        then lit ''rg argument is not allowed by the read-only bash tool: '' @ a
      else if c = lit ''curl''
        then lit ''curl argument is not allowed by the read-only bash tool: '' @ a
      else c @ lit '' argument is not allowed by the read-only bash tool: '' @ a)"

fun diagnostic :: "bool \<Rightarrow> denial_reason \<Rightarrow> ustring" where
  "diagnostic macos (ForbiddenPrefix m) =
     lit ''command is forbidden by command execution policy prefix: '' @ join_with (lit '' '') m"
| "diagnostic macos (AllowedPrefixRequired argv) =
     lit ''command is not allowed by command execution policy prefixes: '' @ join_with (lit '' '') argv"
| "diagnostic macos (ReadOnlyCommandNotAllowlisted c) =
     lit ''command is not allowed by the read-only bash tool: '' @ c"
| "diagnostic macos (ReadOnlyArgumentNotAllowed c a) = read_only_argument_diagnostic c a"
| "diagnostic macos (ReadOnlySubcommandRequired c) =
     (if c = lit ''sudo'' then lit ''sudo requires an approved command''
      else c @ lit '' requires a read-only subcommand'')"
| "diagnostic macos (ReadOnlySubcommandNotAllowlisted c s) =
     (if c = lit ''sudo'' then lit ''sudo command is not allowed by the read-only bash tool: '' @ s
      else c @ lit '' subcommand is not allowed by the read-only bash tool: '' @ s)"
| "diagnostic macos (ReadOnlyUrlRequired c) =
     c @ lit '' requires an http:// or https:// URL in the read-only bash tool''"
| "diagnostic macos DisabledNetworkUnenforceable =
     lit ''command_network_mode=disabled cannot be enforced for unrestricted bash''"
| "diagnostic macos (DisabledNetworkCommand c) =
     (if c = lit ''tailscale''
      then lit ''tailscale network probes are not allowed when command_network_mode=disabled''
      else c @ lit '' is not allowed when command_network_mode=disabled'')"
| "diagnostic macos WorkspaceWriteSandboxUnavailable =
     (if macos
      then lit ''macOS sandbox-exec is required for workspace_write bash but was not found''
      else lit ''workspace_write bash requires macOS seatbelt sandbox enforcement on this build'')"
| "diagnostic macos WorkspaceExecutable =
     lit ''language-server executable is not admitted (workspace-local or missing)''"
| "diagnostic macos (GitMetadataWriteDenied c s) =
     c @ lit '' '' @ s @
     lit '' is denied under WorkspaceWrite+git_worktree_diff (shared Git metadata is integrator-only)''"

definition from_contract_fields ::
  "ustring \<Rightarrow> ustring list option \<Rightarrow> ustring list option \<Rightarrow> ustring option \<Rightarrow> ustring option \<Rightarrow>
   ustring option \<Rightarrow> denial_reason option" where
  "from_contract_fields reason pfx argv cmd arg sub =
     (if reason = lit ''forbiddenPrefix'' then map_option ForbiddenPrefix pfx
      else if reason = lit ''allowedPrefixRequired'' then map_option AllowedPrefixRequired argv
      else if reason = lit ''readOnlyCommandNotAllowlisted''
        then map_option ReadOnlyCommandNotAllowlisted cmd
      else if reason = lit ''readOnlyArgumentNotAllowed''
        then Option.bind cmd (\<lambda>c. map_option (ReadOnlyArgumentNotAllowed c) arg)
      else if reason = lit ''readOnlySubcommandRequired''
        then map_option ReadOnlySubcommandRequired cmd
      else if reason = lit ''readOnlySubcommandNotAllowlisted''
        then Option.bind cmd (\<lambda>c. map_option (ReadOnlySubcommandNotAllowlisted c) sub)
      else if reason = lit ''readOnlyUrlRequired'' then map_option ReadOnlyUrlRequired cmd
      else if reason = lit ''disabledNetworkUnenforceable'' then Some DisabledNetworkUnenforceable
      else if reason = lit ''disabledNetworkCommand'' then map_option DisabledNetworkCommand cmd
      else if reason = lit ''workspaceWriteSandboxUnavailable''
        then Some WorkspaceWriteSandboxUnavailable
      else if reason = lit ''workspaceExecutable'' then Some WorkspaceExecutable
      else if reason = lit ''gitMetadataWriteDenied''
        then Option.bind cmd (\<lambda>c. map_option (GitMetadataWriteDenied c) sub)
      else None)"

record command_policy_denial =
  cpd_reason :: denial_reason
  cpd_policy_mode :: ustring
  cpd_policy_network :: ustring

definition command_policy_denial_new ::
  "denial_reason \<Rightarrow> command_execution_mode \<Rightarrow> command_network_mode \<Rightarrow> command_policy_denial" where
  "command_policy_denial_new reason mode network =
     \<lparr>cpd_reason = reason, cpd_policy_mode = command_execution_mode_as_str mode,
      cpd_policy_network = command_network_mode_as_str network\<rparr>"

definition json_opt_str :: "ustring option \<Rightarrow> json" where
  "json_opt_str v = (case v of None \<Rightarrow> JNull | Some s \<Rightarrow> JStr s)"

definition json_opt_strs :: "ustring list option \<Rightarrow> json" where
  "json_opt_strs v = (case v of None \<Rightarrow> JNull | Some ss \<Rightarrow> JArr (map JStr ss))"

definition payload_value :: "bool \<Rightarrow> command_policy_denial \<Rightarrow> json" where
  "payload_value macos d =
     JObj [(lit ''ok'', JBool False),
           (lit ''failure_class'', JStr (lit ''policyDenied'')),
           (lit ''denial_reason'', JStr (to_contract (cpd_reason d))),
           (lit ''denied_argv'', json_opt_strs (denied_argv (cpd_reason d))),
           (lit ''denied_command'', json_opt_str (denied_command (cpd_reason d))),
           (lit ''denied_argument'', json_opt_str (denied_argument (cpd_reason d))),
           (lit ''denied_subcommand'', json_opt_str (denied_subcommand (cpd_reason d))),
           (lit ''denied_prefix'', json_opt_strs (matched_prefix (cpd_reason d))),
           (lit ''policy_mode'', JStr (cpd_policy_mode d)),
           (lit ''policy_network'', JStr (cpd_policy_network d)),
           (lit ''message'', JStr (diagnostic macos (cpd_reason d)))]"

definition string_field :: "json \<Rightarrow> string \<Rightarrow> ustring option" where
  "string_field v key = opt_filter (\<lambda>s. s \<noteq> []) (Option.bind (json_get (lit key) v) json_as_str)"

definition string_vec_field :: "json \<Rightarrow> string \<Rightarrow> ustring list option" where
  "string_vec_field v key =
     map_option (\<lambda>items. List.map_filter json_as_str items)
       (Option.bind (json_get (lit key) v) json_as_array)"

definition from_payload_value :: "json \<Rightarrow> command_policy_denial option" where
  "from_payload_value v =
     Option.bind (Option.bind (json_get (lit ''denial_reason'') v) json_as_str) (\<lambda>reason.
       map_option (\<lambda>r. \<lparr>cpd_reason = r,
            cpd_policy_mode = (case string_field v ''policy_mode'' of None \<Rightarrow> [] | Some s \<Rightarrow> s),
            cpd_policy_network = (case string_field v ''policy_network'' of None \<Rightarrow> [] | Some s \<Rightarrow> s)\<rparr>)
         (from_contract_fields reason (string_vec_field v ''denied_prefix'')
            (string_vec_field v ''denied_argv'') (string_field v ''denied_command'')
            (string_field v ''denied_argument'') (string_field v ''denied_subcommand'')))"

section \<open>Payloads read back\<close>

text \<open>A denial none of whose named parts is the empty string.\<close>

definition names_present :: "denial_reason \<Rightarrow> bool" where
  "names_present r \<longleftrightarrow> denied_command r \<noteq> Some [] \<and> denied_argument r \<noteq> Some [] \<and>
     denied_subcommand r \<noteq> Some []"

lemma map_filter_JStr [simp]: "List.map_filter json_as_str (map JStr ss) = ss"
  by (induction ss) (auto simp: List.map_filter_simps)

lemma json_opt_simps [simp]:
  "json_opt_str None = JNull" "json_opt_str (Some s) = JStr s"
  "json_opt_strs None = JNull" "json_opt_strs (Some ss) = JArr (map JStr ss)"
  by (simp_all add: json_opt_str_def json_opt_strs_def)

lemma json_opt_back:
  "json_as_str (json_opt_str v) = v"
  "map_option (List.map_filter json_as_str) (json_as_array (json_opt_strs vs)) = vs"
  by (cases v; simp) (cases vs; simp)

lemmas payload_get = payload_value_def string_field_def string_vec_field_def json_get_def json_opt_back

lemma payload_vec_fields [simp]:
  "string_vec_field (payload_value macos d) ''denied_prefix'' = matched_prefix (cpd_reason d)"
  "string_vec_field (payload_value macos d) ''denied_argv'' = denied_argv (cpd_reason d)"
  by (simp_all add: payload_get del: json_as_str_def json_as_array_def)

lemma payload_str_fields [simp]:
  "string_field (payload_value macos d) ''denied_command''
     = opt_filter (\<lambda>s. s \<noteq> []) (denied_command (cpd_reason d))"
  "string_field (payload_value macos d) ''denied_argument''
     = opt_filter (\<lambda>s. s \<noteq> []) (denied_argument (cpd_reason d))"
  "string_field (payload_value macos d) ''denied_subcommand''
     = opt_filter (\<lambda>s. s \<noteq> []) (denied_subcommand (cpd_reason d))"
  by (simp_all add: payload_get del: json_as_str_def json_as_array_def)

lemma payload_mode_fields [simp]:
  "string_field (payload_value macos d) ''policy_mode''
     = opt_filter (\<lambda>s. s \<noteq> []) (Some (cpd_policy_mode d))"
  "string_field (payload_value macos d) ''policy_network''
     = opt_filter (\<lambda>s. s \<noteq> []) (Some (cpd_policy_network d))"
  by (simp_all add: payload_get)

lemma payload_reason [simp]:
  "Option.bind (json_get (lit ''denial_reason'') (payload_value macos d)) json_as_str
     = Some (to_contract (cpd_reason d))"
  by (simp add: payload_value_def)

lemma contract_fields_back:
  "from_contract_fields (to_contract r) (matched_prefix r) (denied_argv r)
     (opt_filter (\<lambda>s. s \<noteq> []) (denied_command r)) (opt_filter (\<lambda>s. s \<noteq> []) (denied_argument r))
     (opt_filter (\<lambda>s. s \<noteq> []) (denied_subcommand r)) = (if names_present r then Some r else None)"
  by (cases r) (auto simp: from_contract_fields_def names_present_def)

lemma denial_payload_back:
  "from_payload_value (payload_value macos d) =
     (if names_present (cpd_reason d) then Some d else None)"
  by (auto simp: from_payload_value_def contract_fields_back simp del: json_simps)

end
