(* ===== verification/Command_Policy.thy ===== *)
theory Command_Policy
  imports Command_Denial
begin

text \<open>
  The command tools' gate, \<^verbatim>\<open>toolset/shared/command.rs\<close>: the executable policy a bash tool
  holds, its narrowing by a request's workspace authority, the argv validation with its
  per-command read-only rules and Git guards, and the calls of \<^verbatim>\<open>toolset/bash_tools.rs\<close> up
  to the process they spawn. The spawned process itself, the capture of its output and the
  rendering of the result are outside the model.
\<close>

section \<open>The executable policy\<close>

record command_execution_policy =
  cep_mode :: command_execution_mode
  cep_allowed_argv_prefixes :: "ustring list list"
  cep_forbidden_argv_prefixes :: "ustring list list"
  cep_network_mode :: command_network_mode
  cep_read_only_allowlist :: "ustring list"
  cep_deny_all_argv :: bool
  cep_deny_git_metadata_writes :: bool

definition cep_read_only :: "ustring list \<Rightarrow> command_execution_policy" where
  "cep_read_only allowlist =
     \<lparr>cep_mode = XM_ReadOnly, cep_allowed_argv_prefixes = [], cep_forbidden_argv_prefixes = [],
      cep_network_mode = NM_Inherit, cep_read_only_allowlist = allowlist,
      cep_deny_all_argv = False, cep_deny_git_metadata_writes = False\<rparr>"

text \<open>\<open>macos\<close> is the build target: only there is a seatbelt available.\<close>

definition write_capable :: "bool \<Rightarrow> command_execution_policy" where
  "write_capable macos =
     \<lparr>cep_mode = (if macos then XM_WorkspaceWrite else XM_Unrestricted),
      cep_allowed_argv_prefixes = [], cep_forbidden_argv_prefixes = [],
      cep_network_mode = NM_Inherit, cep_read_only_allowlist = [],
      cep_deny_all_argv = False, cep_deny_git_metadata_writes = False\<rparr>"

definition with_mode ::
  "command_execution_mode \<Rightarrow> command_execution_policy \<Rightarrow> command_execution_policy" where
  "with_mode m p = p\<lparr>cep_mode := m\<rparr>"

definition with_allowed_argv_prefixes ::
  "ustring list list \<Rightarrow> command_execution_policy \<Rightarrow> command_execution_policy" where
  "with_allowed_argv_prefixes ps p = p\<lparr>cep_allowed_argv_prefixes := ps\<rparr>"

definition with_forbidden_argv_prefixes ::
  "ustring list list \<Rightarrow> command_execution_policy \<Rightarrow> command_execution_policy" where
  "with_forbidden_argv_prefixes ps p = p\<lparr>cep_forbidden_argv_prefixes := ps\<rparr>"

definition with_read_only_allowlist ::
  "ustring list \<Rightarrow> command_execution_policy \<Rightarrow> command_execution_policy" where
  "with_read_only_allowlist l p = p\<lparr>cep_read_only_allowlist := l\<rparr>"

definition with_deny_all_argv :: "bool \<Rightarrow> command_execution_policy \<Rightarrow> command_execution_policy" where
  "with_deny_all_argv b p = p\<lparr>cep_deny_all_argv := b\<rparr>"

definition with_network_mode ::
  "command_network_mode \<Rightarrow> command_execution_policy \<Rightarrow> command_execution_policy" where
  "with_network_mode m p = p\<lparr>cep_network_mode := m\<rparr>"

definition with_deny_git_metadata_writes ::
  "bool \<Rightarrow> command_execution_policy \<Rightarrow> command_execution_policy" where
  "with_deny_git_metadata_writes b p = p\<lparr>cep_deny_git_metadata_writes := b\<rparr>"

definition with_git_worktree_diff :: "command_execution_policy \<Rightarrow> command_execution_policy" where
  "with_git_worktree_diff p = with_deny_git_metadata_writes True p"

lemmas with_defs [simp] = with_mode_def with_allowed_argv_prefixes_def
  with_forbidden_argv_prefixes_def with_read_only_allowlist_def with_deny_all_argv_def
  with_network_mode_def with_deny_git_metadata_writes_def with_git_worktree_diff_def

definition default_read_only_commands :: "ustring list" where
  "default_read_only_commands = map lit
     [''pwd'', ''ls'', ''find'', ''cat'', ''head'', ''tail'', ''sed'', ''grep'', ''rg'', ''wc'',
      ''stat'', ''file'', ''git'', ''date'', ''hostname'', ''uptime'', ''df'', ''vm_stat'', ''ps'',
      ''lsof'', ''curl'', ''launchctl'', ''tailscale'', ''sudo'']"

definition default_read_only_command_policy :: command_execution_policy where
  "default_read_only_command_policy = cep_read_only default_read_only_commands"

definition apply_workspace_authority ::
  "command_execution_policy \<Rightarrow> workspace_authority \<Rightarrow> command_execution_policy" where
  "apply_workspace_authority policy authority =
     (let met = with_mode (command_execution_mode_meet (cep_mode policy) (command_mode authority))
                  policy;
          met = (if authority = WA_ReadWrite then with_git_worktree_diff met else met)
      in if cep_mode met = XM_ReadOnly \<and> cep_read_only_allowlist met = []
         then with_read_only_allowlist
                (cep_read_only_allowlist default_read_only_command_policy) met
         else met)"

text \<open>The task-local runtime scope's workspace authority is the first argument.\<close>

definition effective_command_policy ::
  "workspace_authority option \<Rightarrow> command_execution_policy \<Rightarrow> command_execution_policy" where
  "effective_command_policy scope policy =
     (case scope of None \<Rightarrow> policy | Some a \<Rightarrow> apply_workspace_authority policy a)"

section \<open>Argv prefixes\<close>

datatype prefix_error = EmptyPrefix | MalformedJson ustring | EmptyToken

text \<open>
  \<^verbatim>\<open>split_ascii_whitespace\<close> splits at the five ASCII white-space characters. A prefix written
  as JSON is decoded by serde, the argument \<open>from_json\<close>.
\<close>

definition is_ascii_ws :: "uchar \<Rightarrow> bool" where
  "is_ascii_ws c \<longleftrightarrow> c \<in> {9, 10, 12, 13, 32}"

definition split_ascii_whitespace :: "ustring \<Rightarrow> ustring list" where
  "split_ascii_whitespace s = filter (\<lambda>w. w \<noteq> []) (split_pred is_ascii_ws s)"

definition parse_argv_prefix ::
  "(ustring \<Rightarrow> ustring list option) \<Rightarrow> ustring \<Rightarrow> prefix_error + ustring list" where
  "parse_argv_prefix from_json value =
     (let t = trim value in
      if t = [] then Inl EmptyPrefix
      else if starts_with (lit ''['') t then
        (case from_json t of
           None \<Rightarrow> Inl (MalformedJson t)
         | Some pfx \<Rightarrow>
             if pfx = [] \<or> list_ex (\<lambda>token. trim token = []) pfx then Inl EmptyToken else Inr pfx)
      else (let pfx = split_ascii_whitespace t in
            if pfx = [] then Inl EmptyPrefix else Inr pfx))"

fun parse_argv_prefixes ::
  "(ustring \<Rightarrow> ustring list option) \<Rightarrow> ustring list \<Rightarrow> prefix_error + ustring list list" where
  "parse_argv_prefixes from_json [] = Inr []"
| "parse_argv_prefixes from_json (v # vs) =
     bind_res (parse_argv_prefix from_json v) (\<lambda>p.
       bind_res (parse_argv_prefixes from_json vs) (\<lambda>ps. Inr (p # ps)))"

definition matches_prefix :: "ustring list \<Rightarrow> ustring list \<Rightarrow> bool" where
  "matches_prefix argv pfx \<longleftrightarrow>
     length pfx \<le> length argv \<and> list_all (\<lambda>(a, b). a = b) (zip argv pfx)"

definition first_matching_prefix ::
  "ustring list \<Rightarrow> ustring list list \<Rightarrow> ustring list option" where
  "first_matching_prefix argv pfxs = List.find (matches_prefix argv) pfxs"

section \<open>Validation\<close>

type_synonym verdict = "command_policy_denial + unit"

definition policy_denial :: "command_execution_policy \<Rightarrow> denial_reason \<Rightarrow> command_policy_denial" where
  "policy_denial policy reason =
     command_policy_denial_new reason (cep_mode policy) (cep_network_mode policy)"

definition read_only_argument_denial ::
  "command_execution_policy \<Rightarrow> ustring \<Rightarrow> ustring \<Rightarrow> command_policy_denial" where
  "read_only_argument_denial policy c a = policy_denial policy (ReadOnlyArgumentNotAllowed c a)"

text \<open>
  \<^verbatim>\<open>Path::file_name\<close> on a Unix path: the last component, none when the path ends in
  \<^verbatim>\<open>..\<close> or has no named component. A trailing slash and \<^verbatim>\<open>.\<close> components are skipped.
\<close>

definition executable_name_lookup_key :: "ustring \<Rightarrow> ustring option" where
  "executable_name_lookup_key raw =
     (let comps = filter (\<lambda>c. c \<noteq> [] \<and> c \<noteq> lit ''.'') (split_on 47 raw) in
      if comps = [] \<or> last comps = lit ''..'' then None else Some (last comps))"

definition command_key_of :: "ustring \<Rightarrow> ustring" where
  "command_key_of command =
     (case executable_name_lookup_key command of None \<Rightarrow> command | Some k \<Rightarrow> k)"

definition validate_read_only_network_disabled ::
  "ustring \<Rightarrow> ustring list \<Rightarrow> command_execution_policy \<Rightarrow> verdict" where
  "validate_read_only_network_disabled command args policy =
     (let key = command_key_of command in
      if key = lit ''curl'' then Inl (policy_denial policy (DisabledNetworkCommand (lit ''curl'')))
      else if key = lit ''tailscale'' then
        (case args of
           a # _ \<Rightarrow> if one_of a [''ping'', ''netcheck'']
             then Inl (policy_denial policy (DisabledNetworkCommand (lit ''tailscale'')))
             else Inr ()
         | [] \<Rightarrow> Inr ())
      else Inr ())"

definition validate_network_mode ::
  "ustring \<Rightarrow> ustring list \<Rightarrow> command_execution_policy \<Rightarrow> verdict" where
  "validate_network_mode command args policy =
     (if cep_network_mode policy \<noteq> NM_Disabled then Inr ()
      else case cep_mode policy of
          XM_WorkspaceWrite \<Rightarrow> Inr ()
        | XM_Unrestricted \<Rightarrow> Inl (policy_denial policy DisabledNetworkUnenforceable)
        | XM_ReadOnly \<Rightarrow> validate_read_only_network_disabled command args policy)"

definition git_option_with_value :: "ustring \<Rightarrow> bool" where
  "git_option_with_value arg \<longleftrightarrow>
     one_of arg [''-C'', ''-c'', ''--config-env'', ''--exec-path'', ''--git-dir'', ''--namespace'',
                 ''--super-prefix'', ''--work-tree'']"

definition git_global_option_requires_denial :: "ustring \<Rightarrow> bool" where
  "git_global_option_requires_denial arg \<longleftrightarrow>
     git_option_with_value arg \<or>
     (starts_with (lit ''-C'') arg \<or> starts_with (lit ''-c'') arg) \<and> 2 < utf8_len arg \<or>
     starts_with (lit ''--config-env='') arg \<or> starts_with (lit ''--exec-path='') arg \<or>
     starts_with (lit ''--git-dir='') arg \<or> starts_with (lit ''--namespace='') arg \<or>
     starts_with (lit ''--super-prefix='') arg \<or> starts_with (lit ''--work-tree='') arg"

fun find_git_subcommand_from :: "nat \<Rightarrow> bool \<Rightarrow> ustring list \<Rightarrow> (nat \<times> ustring) option" where
  "find_git_subcommand_from idx skip_next [] = None"
| "find_git_subcommand_from idx skip_next (arg # args) =
     (if skip_next then find_git_subcommand_from (idx + 1) False args
      else if git_option_with_value arg then find_git_subcommand_from (idx + 1) True args
      else if arg = lit ''--'' \<or> starts_with (lit ''-'') arg
        then find_git_subcommand_from (idx + 1) False args
      else Some (idx, arg))"

definition find_git_subcommand :: "ustring list \<Rightarrow> (nat \<times> ustring) option" where
  "find_git_subcommand args = find_git_subcommand_from 0 False args"

definition unsafe_git_flag :: "ustring \<Rightarrow> bool" where
  "unsafe_git_flag arg \<longleftrightarrow>
     one_of arg [''--output'', ''--ext-diff'', ''--textconv'', ''--exec'', ''--paginate''] \<or>
     starts_with (lit ''--output='') arg \<or> starts_with (lit ''--exec='') arg"

text \<open>A loop that refuses the first argument satisfying a test.\<close>

definition refuse_first ::
  "(ustring \<Rightarrow> bool) \<Rightarrow> (ustring \<Rightarrow> command_policy_denial) \<Rightarrow> ustring list \<Rightarrow> verdict" where
  "refuse_first bad deny args =
     (case List.find bad args of Some a \<Rightarrow> Inl (deny a) | None \<Rightarrow> Inr ())"

definition validate_git_read_only_flags ::
  "ustring list \<Rightarrow> command_execution_policy \<Rightarrow> verdict" where
  "validate_git_read_only_flags args policy =
     refuse_first unsafe_git_flag (read_only_argument_denial policy (lit ''git'')) args"

definition git_branch_flag_allowed :: "ustring \<Rightarrow> bool" where
  "git_branch_flag_allowed arg \<longleftrightarrow>
     one_of arg [''--list'', ''-l'', ''--show-current'', ''-a'', ''--all'', ''-r'', ''--remotes'',
                 ''-v'', ''-vv'', ''--verbose''] \<or> starts_with (lit ''--format='') arg"

definition validate_git_branch_args :: "ustring list \<Rightarrow> command_execution_policy \<Rightarrow> verdict" where
  "validate_git_branch_args args policy =
     (if args = [] then Inr ()
      else refuse_first (\<lambda>a. \<not> git_branch_flag_allowed a)
             (read_only_argument_denial policy (lit ''git'')) args)"

definition validate_git_args :: "ustring list \<Rightarrow> command_execution_policy \<Rightarrow> verdict" where
  "validate_git_args args policy =
     bind_res (refuse_first git_global_option_requires_denial
                 (read_only_argument_denial policy (lit ''git'')) args) (\<lambda>_.
     bind_res (ok_or (policy_denial policy (ReadOnlySubcommandRequired (lit ''git'')))
                 (find_git_subcommand args)) (\<lambda>(idx, subcommand).
       let subcommand_args = drop (idx + 1) args in
       bind_res (validate_git_read_only_flags subcommand_args policy) (\<lambda>_.
         if one_of subcommand
              [''status'', ''diff'', ''show'', ''log'', ''ls-files'', ''grep'', ''rev-parse'']
           then Inr ()
         else if subcommand = lit ''branch'' then validate_git_branch_args subcommand_args policy
         else Inl (policy_denial policy
                (ReadOnlySubcommandNotAllowlisted (lit ''git'') subcommand)))))"

definition git_metadata_write_denial ::
  "command_execution_policy \<Rightarrow> ustring \<Rightarrow> command_policy_denial" where
  "git_metadata_write_denial policy s =
     policy_denial policy (GitMetadataWriteDenied (lit ''git'') s)"

definition git_read_subcommand_allowed_under_worktree_diff :: "ustring \<Rightarrow> bool" where
  "git_read_subcommand_allowed_under_worktree_diff s \<longleftrightarrow>
     one_of s [''status'', ''diff'', ''show'', ''log'', ''ls-files'', ''grep'', ''rev-parse'',
               ''branch'']"

definition deny_git_metadata_write_args ::
  "ustring list \<Rightarrow> command_execution_policy \<Rightarrow> verdict" where
  "deny_git_metadata_write_args args policy =
     bind_res (refuse_first git_global_option_requires_denial
                 (git_metadata_write_denial policy) args) (\<lambda>_.
     bind_res (ok_or (policy_denial policy (ReadOnlySubcommandRequired (lit ''git'')))
                 (find_git_subcommand args)) (\<lambda>(idx, subcommand).
       let subcommand_args = drop (idx + 1) args in
       bind_res (validate_git_read_only_flags subcommand_args policy) (\<lambda>_.
         if git_read_subcommand_allowed_under_worktree_diff subcommand then
           (if subcommand = lit ''branch'' then validate_git_branch_args subcommand_args policy
            else Inr ())
         else Inl (git_metadata_write_denial policy subcommand))))"

fun scan_shell_script :: "bool \<Rightarrow> ustring option \<Rightarrow> ustring list \<Rightarrow> ustring option" where
  "scan_shell_script expect script [] = (if expect then script else None)"
| "scan_shell_script expect script (arg # args) =
     (if expect then Some arg
      else if one_of arg [''-c'', ''-lc'', ''-cl''] then scan_shell_script True script args
      else scan_shell_script
             (starts_with (lit ''-'') arg \<and> \<not> starts_with (lit ''--'') arg \<and>
              str_contains arg (lit ''c'')) (Some arg) args)"

definition shell_command_script :: "ustring \<Rightarrow> ustring list \<Rightarrow> ustring option" where
  "shell_command_script command args =
     Option.bind (executable_name_lookup_key command) (\<lambda>name.
       if one_of name [''sh'', ''bash'', ''zsh'', ''dash'', ''ksh'']
       then scan_shell_script False None args else None)"

text \<open>The arguments that follow the first word named \<^verbatim>\<open>git\<close>, if there is one.\<close>

fun after_git_word :: "ustring list \<Rightarrow> ustring list option" where
  "after_git_word [] = None"
| "after_git_word (w # ws) =
     (if executable_name_lookup_key w = Some (lit ''git'') then Some ws else after_git_word ws)"

definition git_invocations_in_script :: "ustring \<Rightarrow> ustring list list" where
  "git_invocations_in_script script =
     List.map_filter (\<lambda>segment. after_git_word (split_whitespace segment))
       (split_pred (\<lambda>ch. ch \<in> {59, 10, 124, 38}) script)"

fun deny_each_git_invocation ::
  "ustring list list \<Rightarrow> command_execution_policy \<Rightarrow> verdict" where
  "deny_each_git_invocation [] policy = Inr ()"
| "deny_each_git_invocation (g # gs) policy =
     bind_res (deny_git_metadata_write_args g policy) (\<lambda>_. deny_each_git_invocation gs policy)"

definition validate_git_worktree_diff_policy ::
  "ustring \<Rightarrow> ustring list \<Rightarrow> command_execution_policy \<Rightarrow> verdict" where
  "validate_git_worktree_diff_policy command args policy =
     (if command_key_of command = lit ''git'' then deny_git_metadata_write_args args policy
      else case shell_command_script command args of
          Some script \<Rightarrow> deny_each_git_invocation (git_invocations_in_script script) policy
        | None \<Rightarrow> Inr ())"

definition validate_ripgrep_args :: "ustring list \<Rightarrow> command_execution_policy \<Rightarrow> verdict" where
  "validate_ripgrep_args args policy =
     refuse_first
       (\<lambda>a. one_of a [''--search-zip'', ''-z''] \<or> one_of a [''--pre'', ''--hostname-bin''] \<or>
            starts_with (lit ''--pre='') a \<or> starts_with (lit ''--hostname-bin='') a)
       (read_only_argument_denial policy (lit ''rg'')) args"

text \<open>The first argument as a subcommand out of a fixed list.\<close>

definition require_subcommand ::
  "string \<Rightarrow> string list \<Rightarrow> ustring list \<Rightarrow> command_execution_policy \<Rightarrow> verdict" where
  "require_subcommand tool names args policy =
     (case args of
        [] \<Rightarrow> Inl (policy_denial policy (ReadOnlySubcommandRequired (lit tool)))
      | s # _ \<Rightarrow> if one_of s names then Inr ()
          else Inl (policy_denial policy (ReadOnlySubcommandNotAllowlisted (lit tool) s)))"

definition validate_launchctl_args :: "ustring list \<Rightarrow> command_execution_policy \<Rightarrow> verdict" where
  "validate_launchctl_args args policy =
     require_subcommand ''launchctl'' [''list'', ''print'', ''print-disabled'', ''blame''] args policy"

definition validate_tailscale_args :: "ustring list \<Rightarrow> command_execution_policy \<Rightarrow> verdict" where
  "validate_tailscale_args args policy =
     require_subcommand ''tailscale'' [''status'', ''ip'', ''netcheck'', ''version'', ''ping'']
       args policy"

definition curl_mutating :: "ustring \<Rightarrow> bool" where
  "curl_mutating arg \<longleftrightarrow>
     one_of arg [''-d'', ''--data'', ''--data-raw'', ''--data-binary'', ''--data-urlencode'', ''-F'',
       ''--form'', ''-T'', ''--upload-file'', ''-X'', ''--request'', ''-o'', ''--output'', ''-O'',
       ''--remote-name'', ''--remote-header-name'', ''-K'', ''--config'', ''--next''] \<or>
     list_ex (\<lambda>p. starts_with (lit p) arg)
       [''-d'', ''--data='', ''-F'', ''--form='', ''-T'', ''--upload-file='', ''-X'',
        ''--request='', ''-o'', ''--output='', ''-O'', ''-K'', ''--config='']"

fun scan_curl_args :: "bool \<Rightarrow> ustring list \<Rightarrow> command_execution_policy \<Rightarrow> verdict" where
  "scan_curl_args has_http_url [] policy =
     (if has_http_url then Inr ()
      else Inl (policy_denial policy (ReadOnlyUrlRequired (lit ''curl''))))"
| "scan_curl_args has_http_url (arg # args) policy =
     (if curl_mutating arg then Inl (read_only_argument_denial policy (lit ''curl'') arg)
      else scan_curl_args (has_http_url \<or> starts_with (lit ''http://'') arg \<or>
             starts_with (lit ''https://'') arg) args policy)"

definition validate_curl_args :: "ustring list \<Rightarrow> command_execution_policy \<Rightarrow> verdict" where
  "validate_curl_args args policy = scan_curl_args False args policy"

definition validate_sudo_args :: "ustring list \<Rightarrow> command_execution_policy \<Rightarrow> verdict" where
  "validate_sudo_args args policy =
     (case args of
        [] \<Rightarrow> Inl (policy_denial policy (ReadOnlySubcommandRequired (lit ''sudo'')))
      | command # rest \<Rightarrow>
          (let name = command_key_of command in
           if name = lit ''launchctl'' then
             (if command = lit ''/bin/launchctl'' then validate_launchctl_args rest policy
              else Inl (read_only_argument_denial policy (lit ''sudo'') command))
           else Inl (policy_denial policy
                  (ReadOnlySubcommandNotAllowlisted (lit ''sudo'') name))))"

definition sed_in_place :: "ustring \<Rightarrow> bool" where
  "sed_in_place a \<longleftrightarrow> one_of a [''-i'', ''--in-place''] \<or> starts_with (lit ''-i'') a \<or>
     starts_with (lit ''--in-place='') a"

definition find_side_effect :: "ustring \<Rightarrow> bool" where
  "find_side_effect a \<longleftrightarrow>
     one_of a [''-delete'', ''-exec'', ''-execdir'', ''-ok'', ''-okdir'', ''-fprint'', ''-fprint0'',
               ''-fprintf'', ''-fls'']"

definition built_in_allowlisted :: "ustring \<Rightarrow> ustring list \<Rightarrow> bool" where
  "built_in_allowlisted command allowlist \<longleftrightarrow>
     list_ex (\<lambda>allowed. allowed = command \<or>
        executable_name_lookup_key allowed = Some (command_key_of command)) allowlist"

definition validate_read_only_arguments ::
  "ustring \<Rightarrow> ustring list \<Rightarrow> command_execution_policy \<Rightarrow> verdict" where
  "validate_read_only_arguments key args policy =
     (if key = lit ''sed'' then
        refuse_first sed_in_place (read_only_argument_denial policy (lit ''sed'')) args
      else if key = lit ''find'' then
        refuse_first find_side_effect (read_only_argument_denial policy (lit ''find'')) args
      else if key = lit ''git'' then validate_git_args args policy
      else if key = lit ''rg'' then validate_ripgrep_args args policy
      else if key = lit ''launchctl'' then validate_launchctl_args args policy
      else if key = lit ''tailscale'' then validate_tailscale_args args policy
      else if key = lit ''curl'' then validate_curl_args args policy
      else if key = lit ''sudo'' then validate_sudo_args args policy
      else Inr ())"

definition validate_read_only_command_inner ::
  "ustring \<Rightarrow> ustring list \<Rightarrow> ustring list \<Rightarrow> bool \<Rightarrow> command_execution_policy \<Rightarrow> verdict" where
  "validate_read_only_command_inner command args allowlist allowed_prefix_matched policy =
     (if \<not> built_in_allowlisted command allowlist \<and> \<not> allowed_prefix_matched
      then Inl (policy_denial policy (ReadOnlyCommandNotAllowlisted (command_key_of command)))
      else validate_read_only_arguments (command_key_of command) args policy)"

text \<open>\<open>resolved\<close> is the executable's path once looked up on the host, for the language servers.\<close>

definition any_matching_prefix ::
  "ustring list \<Rightarrow> ustring list option \<Rightarrow> ustring list list \<Rightarrow> ustring list option" where
  "any_matching_prefix argv resolved_argv pfxs =
     or_else (first_matching_prefix argv pfxs)
       (Option.bind resolved_argv (\<lambda>r. first_matching_prefix r pfxs))"

definition validate_command_policy_inner ::
  "ustring \<Rightarrow> ustring list \<Rightarrow> ustring option \<Rightarrow> command_execution_policy \<Rightarrow> verdict" where
  "validate_command_policy_inner command args resolved policy =
     (let argv = command # args;
          resolved_argv = map_option (\<lambda>r. r # args) resolved
      in case any_matching_prefix argv resolved_argv (cep_forbidden_argv_prefixes policy) of
           Some pfx \<Rightarrow> Inl (policy_denial policy (ForbiddenPrefix pfx))
         | None \<Rightarrow>
             if cep_deny_all_argv policy
             then Inl (policy_denial policy (AllowedPrefixRequired argv))
             else
               (let allowed_prefix_matched =
                      any_matching_prefix argv resolved_argv (cep_allowed_argv_prefixes policy)
                        \<noteq> None
                in if cep_allowed_argv_prefixes policy \<noteq> [] \<and> \<not> allowed_prefix_matched
                   then Inl (policy_denial policy (AllowedPrefixRequired argv))
                   else bind_res (validate_network_mode command args policy) (\<lambda>_.
                     if cep_mode policy = XM_ReadOnly
                     then validate_read_only_command_inner command args
                            (cep_read_only_allowlist policy) allowed_prefix_matched policy
                     else if cep_deny_git_metadata_writes policy
                     then validate_git_worktree_diff_policy command args policy
                     else Inr ())))"

definition validate_command_policy ::
  "ustring \<Rightarrow> ustring list \<Rightarrow> command_execution_policy \<Rightarrow> verdict" where
  "validate_command_policy command args policy =
     validate_command_policy_inner command args None policy"

section \<open>From a call to a spawned process\<close>

text \<open>
  What the host gives a call: the tool root, the build target, whether
  \<^verbatim>\<open>/usr/bin/sandbox-exec\<close> exists, and the resolution of the working directory
  (\<^verbatim>\<open>ToolContext::resolve_existing_dir\<close>, a file-system walk, an error being its message).
\<close>

record command_host =
  ch_root :: ustring
  ch_macos :: bool
  ch_sandbox_exec :: bool
  ch_resolve_dir :: "ustring option \<Rightarrow> ustring + ustring"

datatype command_tool_error = TE_Denied command_policy_denial | TE_Failure ustring

record spawn_request =
  sr_argv :: "ustring list"
  sr_cwd :: ustring
  sr_sandbox :: ustring

definition workspace_write_sandbox_enforced :: "command_host \<Rightarrow> bool" where
  "workspace_write_sandbox_enforced host \<longleftrightarrow> ch_macos host \<and> ch_sandbox_exec host"

definition select_sandbox_for_execution ::
  "command_host \<Rightarrow> command_execution_policy \<Rightarrow> command_policy_denial + ustring" where
  "select_sandbox_for_execution host policy =
     (case cep_mode policy of
        XM_ReadOnly \<Rightarrow> Inr (lit ''policy_read_only'')
      | XM_Unrestricted \<Rightarrow> Inr (lit ''unsandboxed_unrestricted'')
      | XM_WorkspaceWrite \<Rightarrow>
          if workspace_write_sandbox_enforced host then Inr (lit ''macos_seatbelt'')
          else Inl (policy_denial policy WorkspaceWriteSandboxUnavailable))"

definition macos_workspace_write_policy :: "command_network_mode \<Rightarrow> ustring" where
  "macos_workspace_write_policy network =
     join_with [10] (map lit
       ([''(version 1)'', ''(deny default)'', ''(allow process-exec)'', ''(allow process-fork)'',
         ''(allow signal (target same-sandbox))'', ''(allow process-info* (target same-sandbox))'',
         ''(allow sysctl-read)'', ''(allow mach-lookup)'', ''(allow ipc-posix-sem)'',
         ''(allow ipc-posix-shm-read*)'', ''(allow ipc-posix-shm-write*)'', ''(allow file-read*)'',
         ''(allow file-write-data (literal \"/dev/null\"))'',
         ''(allow file-write* (subpath (param \"WRITABLE_ROOT\")))''] @
        (if allows_network network
         then [''(allow network-outbound)'', ''(allow network-inbound)'', ''''] else [''''])))"

definition sandboxed_workspace_write_command ::
  "command_host \<Rightarrow> ustring \<Rightarrow> ustring list \<Rightarrow> command_network_mode \<Rightarrow> ustring \<Rightarrow>
   command_tool_error + (ustring \<times> ustring list \<times> ustring)" where
  "sandboxed_workspace_write_command host command args network sandbox =
     (if ch_macos host then
        Inr (lit ''/usr/bin/sandbox-exec'',
             [lit ''-p'', macos_workspace_write_policy network,
              lit ''-DWRITABLE_ROOT='' @ ch_root host, lit ''--'', command] @ args, sandbox)
      else Inl (TE_Failure
        (lit ''workspace_write bash requires macOS seatbelt sandbox enforcement on this build'')))"

definition sandboxed_command_for_policy ::
  "command_host \<Rightarrow> ustring \<Rightarrow> ustring list \<Rightarrow> command_execution_policy \<Rightarrow>
   command_tool_error + (ustring \<times> ustring list \<times> ustring)" where
  "sandboxed_command_for_policy host command args policy =
     (case select_sandbox_for_execution host policy of
        Inl d \<Rightarrow> Inl (TE_Denied d)
      | Inr sandbox \<Rightarrow> (case cep_mode policy of
            XM_ReadOnly \<Rightarrow> Inr (command, args, sandbox)
          | XM_Unrestricted \<Rightarrow> Inr (command, args, sandbox)
          | XM_WorkspaceWrite \<Rightarrow>
              sandboxed_workspace_write_command host command args (cep_network_mode policy)
                sandbox))"

text \<open>\<^verbatim>\<open>run_command\<close> up to the \<^verbatim>\<open>ManagedExecRequest\<close> it hands to the executor.\<close>

definition run_command ::
  "command_host \<Rightarrow> workspace_authority option \<Rightarrow> ustring \<Rightarrow> ustring list \<Rightarrow> ustring option \<Rightarrow>
   command_execution_policy \<Rightarrow> command_tool_error + spawn_request" where
  "run_command host scope command args cwd policy =
     (let policy = effective_command_policy scope policy in
      case ch_resolve_dir host cwd of
        Inl e \<Rightarrow> Inl (TE_Failure e)
      | Inr dir \<Rightarrow>
          bind_res (sandboxed_command_for_policy host command args policy)
            (\<lambda>(program, command_args, sandbox).
               Inr \<lparr>sr_argv = program # command_args, sr_cwd = dir, sr_sandbox = sandbox\<rparr>))"

record bash_args =
  ba_command :: ustring
  ba_args :: "ustring list"
  ba_cwd :: "ustring option"

definition validated_run ::
  "command_host \<Rightarrow> workspace_authority option \<Rightarrow> command_execution_policy \<Rightarrow> ustring \<Rightarrow>
   ustring list \<Rightarrow> ustring option \<Rightarrow> command_tool_error + spawn_request" where
  "validated_run host scope self_policy command args cwd =
     (let policy = effective_command_policy scope self_policy in
      case validate_command_policy command args policy of
        Inl d \<Rightarrow> Inl (TE_Denied d)
      | Inr _ \<Rightarrow> run_command host scope command args cwd policy)"

definition read_only_bash_call ::
  "command_host \<Rightarrow> workspace_authority option \<Rightarrow> command_execution_policy \<Rightarrow> bash_args \<Rightarrow>
   command_tool_error + spawn_request" where
  "read_only_bash_call host scope self_policy a =
     validated_run host scope self_policy (ba_command a) (ba_args a) (ba_cwd a)"

definition unrestricted_bash_argv :: "bash_args \<Rightarrow> ustring \<times> ustring list" where
  "unrestricted_bash_argv a =
     (if ba_args a = [] then (lit ''/bin/sh'', [lit ''-lc'', ba_command a])
      else (ba_command a, ba_args a))"

definition unrestricted_bash_call ::
  "command_host \<Rightarrow> workspace_authority option \<Rightarrow> command_execution_policy \<Rightarrow> bash_args \<Rightarrow>
   command_tool_error + spawn_request" where
  "unrestricted_bash_call host scope self_policy a =
     (case unrestricted_bash_argv a of (command, args) \<Rightarrow>
        validated_run host scope self_policy command args (ba_cwd a))"

end
