(* ===== verification/Ordered_Map.thy ===== *)
theory Ordered_Map
  imports Gents_Prelude "HOL-Library.List_Lexorder" "HOL-Library.Product_Lexorder"
begin

text \<open>
  The ordered maps and sets of the standard library (\<^verbatim>\<open>BTreeMap\<close>, \<^verbatim>\<open>BTreeSet\<close>), as the components
  that iterate over them use them.
\<close>

section \<open>Ordered maps and sets\<close>

text \<open>
  A \<^verbatim>\<open>BTreeMap\<close> is its list of entries in ascending key order, a \<^verbatim>\<open>BTreeSet\<close> its ascending
  list of elements. Strings are ordered as lists of scalar values, the order of their UTF-8 bytes.
\<close>

fun bt_insert :: "'k::linorder \<Rightarrow> 'v \<Rightarrow> ('k \<times> 'v) list \<Rightarrow> ('k \<times> 'v) list" where
  "bt_insert k v [] = [(k, v)]"
| "bt_insert k v ((k', v') # m) =
     (if k < k' then (k, v) # (k', v') # m
      else if k = k' then (k, v) # m
      else (k', v') # bt_insert k v m)"

definition bt_collect :: "('k::linorder \<times> 'v) list \<Rightarrow> ('k \<times> 'v) list" where
  "bt_collect entries = fold (\<lambda>(k, v). bt_insert k v) entries []"

definition bs_collect :: "'a::linorder list \<Rightarrow> 'a list" where
  "bs_collect xs = map fst (bt_collect (map (\<lambda>x. (x, ())) xs))"

definition bs_union :: "'a::linorder list \<Rightarrow> 'a list \<Rightarrow> 'a list" where
  "bs_union a b = bs_collect (a @ b)"

definition bs_inter :: "'a list \<Rightarrow> 'a list \<Rightarrow> 'a list" where
  "bs_inter a b = filter (\<lambda>x. x \<in> set b) a"

definition bt_wf :: "('k::linorder \<times> 'v) list \<Rightarrow> bool" where
  "bt_wf m \<longleftrightarrow> sorted_wrt (<) (map fst m)"

section \<open>Lookup, keys and order\<close>

lemma map_of_bt_insert [simp]: "map_of (bt_insert k v m) = (map_of m)(k \<mapsto> v)"
  by (induction m) (auto simp: fun_eq_iff)

lemma map_of_fold_bt_insert:
  "map_of (fold (\<lambda>(k, v). bt_insert k v) es m) = map_of m ++ map_of (rev es)"
  by (induction es arbitrary: m) (auto simp: fun_eq_iff map_add_def split: option.splits)

lemma map_of_bt_collect: "map_of (bt_collect es) = map_of (rev es)"
  by (simp add: bt_collect_def map_of_fold_bt_insert)

lemma keys_bt_collect [simp]: "fst ` set (bt_collect es) = fst ` set es"
proof -
  have "fst ` set (bt_collect es) = dom (map_of (bt_collect es))"
    by (rule dom_map_of_conv_image_fst [symmetric])
  also have "\<dots> = fst ` set es"
    unfolding map_of_bt_collect by (simp add: dom_map_of_conv_image_fst)
  finally show ?thesis .
qed

lemma bt_insert_keys: "fst ` set (bt_insert k v m) = insert k (fst ` set m)"
  by (induction k v m rule: bt_insert.induct) (simp_all, blast)

lemma bt_wf_insert: "bt_wf m \<Longrightarrow> bt_wf (bt_insert k v m)"
proof (induction m)
  case Nil
  then show ?case by (simp add: bt_wf_def)
next
  case (Cons e m)
  obtain k' v' where e: "e = (k', v')" by (cases e)
  have "\<forall>x \<in> fst ` set (bt_insert k v m). k' < x" if "k' < k"
    using Cons.prems that by (auto simp: bt_insert_keys bt_wf_def e)
  then show ?case
    using Cons by (auto simp: bt_wf_def e)
qed

lemma bt_wf_collect: "bt_wf (bt_collect es)"
proof -
  have "bt_wf m \<Longrightarrow> bt_wf (fold (\<lambda>(k, v). bt_insert k v) es m)" for m
    by (induction es arbitrary: m) (auto simp: bt_wf_insert)
  then show ?thesis
    by (simp add: bt_collect_def bt_wf_def)
qed

lemma set_bs_collect [simp]: "set (bs_collect xs) = set xs"
proof -
  have "set (bs_collect xs) = fst ` set (bt_collect (map (\<lambda>x. (x, ())) xs))"
    by (simp add: bs_collect_def)
  then show ?thesis
    by (simp add: image_image)
qed

lemma set_bs_union [simp]: "set (bs_union a b) = set a \<union> set b"
  by (simp add: bs_union_def)

lemma set_bs_inter [simp]: "set (bs_inter a b) = set a \<inter> set b"
  by (auto simp: bs_inter_def)

lemma bs_collect_Nil [simp]: "bs_collect xs = [] \<longleftrightarrow> xs = []"
  by (metis set_bs_collect set_empty)

lemma bt_insert_last: "\<forall>x \<in> fst ` set m. x < k \<Longrightarrow> bt_insert k v m = m @ [(k, v)]"
  by (induction m) auto

lemma sorted_bs_collect: "sorted_wrt (<) (bs_collect xs)"
  using bt_wf_collect [of "map (\<lambda>x. (x, ())) xs"] by (simp add: bs_collect_def bt_wf_def)

lemma distinct_bs_collect [simp]: "distinct (bs_collect xs)"
  using sorted_bs_collect [of xs] by (simp add: strict_sorted_iff)

lemma distinct_bs_union [simp]: "distinct (bs_union xs ys)"
  by (simp add: bs_union_def)

lemma bt_wf_distinct: "bt_wf m \<Longrightarrow> distinct (map fst m)"
  by (simp add: bt_wf_def strict_sorted_iff)

end
