(* ===== verification/Tool_Policy.thy ===== *)
theory Tool_Policy
  imports Command_Policy Ordered_Map
begin

text \<open>
  The tool policy of \<^verbatim>\<open>tool_surface/policy.rs\<close> and \<^verbatim>\<open>tool_surface/modes.rs\<close>: the surface a
  behavior asks for, the operator's ceiling and the runtime's availability are values of one
  record, combined by a meet. The order on policies and the laws of the meet are stated by the
  locale \<open>policy_meet\<close>, interpreted on every component the code meets and on the whole surface.
\<close>

section \<open>Endpoint scopes\<close>

datatype ('k, 'v) endpoint_scope = SNone | SOnly "('k \<times> 'v) list" | SAll

definition only_units :: "'k::linorder list \<Rightarrow> ('k, unit) endpoint_scope" where
  "only_units ks = SOnly (bt_collect (map (\<lambda>k. (k, ())) ks))"

fun is_deny_all :: "('k, 'v) endpoint_scope \<Rightarrow> bool" where
  "is_deny_all SNone \<longleftrightarrow> True"
| "is_deny_all (SOnly m) \<longleftrightarrow> m = []"
| "is_deny_all SAll \<longleftrightarrow> False"

fun scope_kind :: "('k, 'v) endpoint_scope \<Rightarrow> ustring" where
  "scope_kind SNone = lit ''none''"
| "scope_kind (SOnly _) = lit ''only''"
| "scope_kind SAll = lit ''all''"

fun scope_keys :: "('k, 'v) endpoint_scope \<Rightarrow> 'k list" where
  "scope_keys (SOnly m) = map fst m"
| "scope_keys SNone = []"
| "scope_keys SAll = []"

fun permits :: "('k, 'v) endpoint_scope \<Rightarrow> 'k \<Rightarrow> bool" where
  "permits SNone k \<longleftrightarrow> False"
| "permits (SOnly m) k \<longleftrightarrow> k \<in> fst ` set m"
| "permits SAll k \<longleftrightarrow> True"

fun scope_lookup :: "('k, 'v) endpoint_scope \<Rightarrow> 'k \<Rightarrow> 'v option" where
  "scope_lookup (SOnly m) k = map_of m k"
| "scope_lookup SNone k = None"
| "scope_lookup SAll k = None"

text \<open>
  \<^verbatim>\<open>meet_with\<close>. The code walks the left map in key order and inserts the shared keys into an
  empty map; \<open>meet_entries\<close> is the list that walk produces (see \<open>meet_entries_insert_loop\<close>).
\<close>

definition meet_entries ::
  "('v \<Rightarrow> 'v \<Rightarrow> 'v) \<Rightarrow> ('k \<times> 'v) list \<Rightarrow> ('k \<times> 'v) list \<Rightarrow> ('k \<times> 'v) list" where
  "meet_entries meet_value left right =
     List.map_filter (\<lambda>(k, lv). map_option (\<lambda>rv. (k, meet_value lv rv)) (map_of right k)) left"

fun meet_with ::
  "('v \<Rightarrow> 'v \<Rightarrow> 'v) \<Rightarrow> ('k, 'v) endpoint_scope \<Rightarrow> ('k, 'v) endpoint_scope \<Rightarrow>
   ('k, 'v) endpoint_scope" where
  "meet_with f SNone other = SNone"
| "meet_with f self SNone = SNone"
| "meet_with f SAll right = right"
| "meet_with f left SAll = left"
| "meet_with f (SOnly left) (SOnly right) = SOnly (meet_entries f left right)"

abbreviation meet_unit_value :: "unit \<Rightarrow> unit \<Rightarrow> unit" where
  "meet_unit_value \<equiv> \<lambda>_ _. ()"

section \<open>Modes of the host tools\<close>

datatype file_tool_mode = FM_Off | FM_ReadOnly | FM_ReadWrite

datatype bash_mode = BM_Off | BM_ReadOnly | BM_Unrestricted

definition file_tool_mode_parse :: "ustring \<Rightarrow> mode_error + file_tool_mode" where
  "file_tool_mode_parse value =
     (let v = trim value in
      if one_of v ['''', ''Off''] then Inr FM_Off
      else if v = lit ''ReadOnly'' then Inr FM_ReadOnly
      else if v = lit ''ReadWrite'' then Inr FM_ReadWrite
      else Inl (UnknownMode v))"

definition bash_mode_parse :: "ustring \<Rightarrow> mode_error + bash_mode" where
  "bash_mode_parse value =
     (let v = trim value in
      if one_of v ['''', ''Off''] then Inr BM_Off
      else if v = lit ''ReadOnly'' then Inr BM_ReadOnly
      else if v = lit ''Unrestricted'' then Inr BM_Unrestricted
      else Inl (UnknownMode v))"

fun file_tool_mode_rank :: "file_tool_mode \<Rightarrow> nat" where
  "file_tool_mode_rank FM_Off = 0"
| "file_tool_mode_rank FM_ReadOnly = 1"
| "file_tool_mode_rank FM_ReadWrite = 2"

fun bash_mode_rank :: "bash_mode \<Rightarrow> nat" where
  "bash_mode_rank BM_Off = 0"
| "bash_mode_rank BM_ReadOnly = 1"
| "bash_mode_rank BM_Unrestricted = 2"

definition meet_file_mode :: "file_tool_mode \<Rightarrow> file_tool_mode \<Rightarrow> file_tool_mode" where
  "meet_file_mode l r = (if file_tool_mode_rank l \<le> file_tool_mode_rank r then l else r)"

definition meet_bash_mode :: "bash_mode \<Rightarrow> bash_mode \<Rightarrow> bash_mode" where
  "meet_bash_mode l r = (if bash_mode_rank l \<le> bash_mode_rank r then l else r)"

definition meet_execution_mode ::
  "command_execution_mode \<Rightarrow> command_execution_mode \<Rightarrow> command_execution_mode" where
  "meet_execution_mode l r = command_execution_mode_meet l r"

fun network_mode_rank :: "command_network_mode \<Rightarrow> nat" where
  "network_mode_rank NM_Disabled = 0"
| "network_mode_rank NM_Inherit = 1"
| "network_mode_rank NM_Enabled = 2"

definition meet_network_mode ::
  "command_network_mode \<Rightarrow> command_network_mode \<Rightarrow> command_network_mode" where
  "meet_network_mode l r = (if network_mode_rank l \<le> network_mode_rank r then l else r)"

fun default_execution_mode :: "bash_mode \<Rightarrow> command_execution_mode" where
  "default_execution_mode BM_Off = XM_ReadOnly"
| "default_execution_mode BM_ReadOnly = XM_ReadOnly"
| "default_execution_mode BM_Unrestricted = XM_Unrestricted"

section \<open>Policies\<close>

record tool_policy_bash =
  pb_tool :: bash_mode
  pb_execution_mode :: command_execution_mode
  pb_network_mode :: command_network_mode
  pb_sandbox :: bool
  pb_allowed :: "(ustring list, unit) endpoint_scope"
  pb_forbidden :: "ustring list list"
  pb_read_only_allowlist :: "(ustring, unit) endpoint_scope"
  pb_deny_git :: bool

definition bash_off :: tool_policy_bash where
  "bash_off = \<lparr>pb_tool = BM_Off, pb_execution_mode = XM_ReadOnly, pb_network_mode = NM_Inherit,
     pb_sandbox = True, pb_allowed = SAll, pb_forbidden = [], pb_read_only_allowlist = SAll,
     pb_deny_git = False\<rparr>"

definition bash_unrestricted :: tool_policy_bash where
  "bash_unrestricted = \<lparr>pb_tool = BM_Unrestricted, pb_execution_mode = XM_Unrestricted,
     pb_network_mode = NM_Enabled, pb_sandbox = True, pb_allowed = SAll, pb_forbidden = [],
     pb_read_only_allowlist = SAll, pb_deny_git = False\<rparr>"

definition bash_meet :: "tool_policy_bash \<Rightarrow> tool_policy_bash \<Rightarrow> tool_policy_bash" where
  "bash_meet a b =
     \<lparr>pb_tool = meet_bash_mode (pb_tool a) (pb_tool b),
      pb_execution_mode = meet_execution_mode (pb_execution_mode a) (pb_execution_mode b),
      pb_network_mode = meet_network_mode (pb_network_mode a) (pb_network_mode b),
      pb_sandbox = (pb_sandbox a \<and> pb_sandbox b),
      pb_allowed = meet_with meet_unit_value (pb_allowed a) (pb_allowed b),
      pb_forbidden = bs_union (pb_forbidden a) (pb_forbidden b),
      pb_read_only_allowlist =
        meet_with meet_unit_value (pb_read_only_allowlist a) (pb_read_only_allowlist b),
      pb_deny_git = (pb_deny_git a \<or> pb_deny_git b)\<rparr>"

type_synonym unit_scope = "(ustring, unit) endpoint_scope"
type_synonym field_scope = "(ustring \<times> ustring, ustring list) endpoint_scope"

record tool_policy_surface =
  ps_file :: file_tool_mode
  ps_bash :: tool_policy_bash
  ps_meta :: bool
  ps_goal_tools :: bool
  ps_goal_create :: bool
  ps_defra_query :: bool
  ps_self_config :: bool
  ps_memory :: bool
  ps_session_history :: bool
  ps_context_budget :: bool
  ps_spawn :: bool
  ps_steering :: bool
  ps_background :: bool
  ps_cross_deployment :: bool
  ps_skills :: bool
  ps_lsp :: bool
  ps_cli_tools :: "(ustring, ustring list) endpoint_scope"
  ps_mcp_services :: unit_scope
  ps_defra_collections :: unit_scope
  ps_self_config_categories :: unit_scope
  ps_subagent_targets :: "(ustring \<times> ustring, unit) endpoint_scope"
  ps_background_tools :: unit_scope
  ps_write_tools :: field_scope
  ps_query_tools :: field_scope
  ps_eth_query_methods :: unit_scope
  ps_eth_call_tools :: unit_scope

definition secure_minimal :: tool_policy_surface where
  "secure_minimal =
     \<lparr>ps_file = FM_Off, ps_bash = bash_off, ps_meta = False, ps_goal_tools = False,
      ps_goal_create = False, ps_defra_query = False, ps_self_config = False, ps_memory = False,
      ps_session_history = False, ps_context_budget = False, ps_spawn = False,
      ps_steering = False, ps_background = False, ps_cross_deployment = False,
      ps_skills = False, ps_lsp = False, ps_cli_tools = SNone, ps_mcp_services = SNone,
      ps_defra_collections = SNone, ps_self_config_categories = SNone,
      ps_subagent_targets = SNone, ps_background_tools = SNone, ps_write_tools = SNone,
      ps_query_tools = SNone, ps_eth_query_methods = SNone, ps_eth_call_tools = SNone\<rparr>"

definition runtime_all :: tool_policy_surface where
  "runtime_all =
     \<lparr>ps_file = FM_ReadWrite, ps_bash = bash_unrestricted, ps_meta = True, ps_goal_tools = True,
      ps_goal_create = True, ps_defra_query = True, ps_self_config = True, ps_memory = True,
      ps_session_history = True, ps_context_budget = True, ps_spawn = True,
      ps_steering = True, ps_background = True, ps_cross_deployment = True,
      ps_skills = True, ps_lsp = True, ps_cli_tools = SAll, ps_mcp_services = SAll,
      ps_defra_collections = SAll, ps_self_config_categories = SAll,
      ps_subagent_targets = SAll, ps_background_tools = SAll, ps_write_tools = SAll,
      ps_query_tools = SAll, ps_eth_query_methods = SAll, ps_eth_call_tools = SAll\<rparr>"

definition ceiling_with_host_modes ::
  "file_tool_mode \<Rightarrow> bash_mode \<Rightarrow> tool_policy_surface" where
  "ceiling_with_host_modes file bash =
     runtime_all\<lparr>ps_file := file,
       ps_bash := (ps_bash runtime_all)
         \<lparr>pb_tool := bash, pb_execution_mode := default_execution_mode bash\<rparr>,
       ps_cli_tools := SOnly []\<rparr>"

definition surface_meet ::
  "tool_policy_surface \<Rightarrow> tool_policy_surface \<Rightarrow> tool_policy_surface" where
  "surface_meet a b =
     \<lparr>ps_file = meet_file_mode (ps_file a) (ps_file b),
      ps_bash = bash_meet (ps_bash a) (ps_bash b),
      ps_meta = (ps_meta a \<and> ps_meta b),
      ps_goal_tools = (ps_goal_tools a \<and> ps_goal_tools b),
      ps_goal_create = (ps_goal_create a \<and> ps_goal_create b),
      ps_defra_query = (ps_defra_query a \<and> ps_defra_query b),
      ps_self_config = (ps_self_config a \<and> ps_self_config b),
      ps_memory = (ps_memory a \<and> ps_memory b),
      ps_session_history = (ps_session_history a \<and> ps_session_history b),
      ps_context_budget = (ps_context_budget a \<and> ps_context_budget b),
      ps_spawn = (ps_spawn a \<and> ps_spawn b),
      ps_steering = (ps_steering a \<and> ps_steering b),
      ps_background = (ps_background a \<and> ps_background b),
      ps_cross_deployment = (ps_cross_deployment a \<and> ps_cross_deployment b),
      ps_skills = (ps_skills a \<and> ps_skills b),
      ps_lsp = (ps_lsp a \<and> ps_lsp b),
      ps_cli_tools = meet_with bs_inter (ps_cli_tools a) (ps_cli_tools b),
      ps_mcp_services = meet_with meet_unit_value (ps_mcp_services a) (ps_mcp_services b),
      ps_defra_collections =
        meet_with meet_unit_value (ps_defra_collections a) (ps_defra_collections b),
      ps_self_config_categories =
        meet_with meet_unit_value (ps_self_config_categories a) (ps_self_config_categories b),
      ps_subagent_targets =
        meet_with meet_unit_value (ps_subagent_targets a) (ps_subagent_targets b),
      ps_background_tools =
        meet_with meet_unit_value (ps_background_tools a) (ps_background_tools b),
      ps_write_tools = meet_with bs_inter (ps_write_tools a) (ps_write_tools b),
      ps_query_tools = meet_with bs_inter (ps_query_tools a) (ps_query_tools b),
      ps_eth_query_methods =
        meet_with meet_unit_value (ps_eth_query_methods a) (ps_eth_query_methods b),
      ps_eth_call_tools =
        meet_with meet_unit_value (ps_eth_call_tools a) (ps_eth_call_tools b)\<rparr>"

definition effective ::
  "tool_policy_surface \<Rightarrow> tool_policy_surface \<Rightarrow> tool_policy_surface \<Rightarrow> tool_policy_surface" where
  "effective behavior ceil runtime = surface_meet (surface_meet behavior ceil) runtime"

definition include_meta_tools :: "tool_policy_surface \<Rightarrow> bool" where
  "include_meta_tools p \<longleftrightarrow> ps_meta p \<and> \<not> is_deny_all (ps_mcp_services p)"

definition include_goal_tools :: "tool_policy_surface \<Rightarrow> bool" where
  "include_goal_tools p \<longleftrightarrow> ps_goal_tools p"

definition include_goal_creation :: "tool_policy_surface \<Rightarrow> bool" where
  "include_goal_creation p \<longleftrightarrow> ps_goal_tools p \<and> ps_goal_create p"

definition include_defra_query :: "tool_policy_surface \<Rightarrow> bool" where
  "include_defra_query p \<longleftrightarrow> ps_defra_query p \<and> \<not> is_deny_all (ps_defra_collections p)"

definition include_self_config :: "tool_policy_surface \<Rightarrow> bool" where
  "include_self_config p \<longleftrightarrow>
     ps_self_config p \<and> \<not> is_deny_all (ps_self_config_categories p)"

datatype collection_scope = CS_None | CS_Only "ustring list" | CS_All

fun ensure_allowed :: "collection_scope \<Rightarrow> ustring \<Rightarrow> bool" where
  "ensure_allowed CS_All c \<longleftrightarrow> True"
| "ensure_allowed (CS_Only allowed) c \<longleftrightarrow> c \<in> set allowed"
| "ensure_allowed CS_None c \<longleftrightarrow> False"

definition defra_query_collection_scope :: "tool_policy_surface \<Rightarrow> collection_scope" where
  "defra_query_collection_scope p =
     (case ps_defra_collections p of
        SAll \<Rightarrow> CS_All
      | SNone \<Rightarrow> CS_None
      | SOnly m \<Rightarrow> if m = [] then CS_None
          else CS_Only (bs_collect (scope_keys (ps_defra_collections p))))"

definition self_config_categories_all :: "ustring list" where
  "self_config_categories_all = map lit
     [''automation'', ''backend'', ''behavior'', ''mcp_service'', ''persona'', ''profile'', ''tools'']"

definition self_config_category_set :: "tool_policy_surface \<Rightarrow> ustring list" where
  "self_config_category_set p =
     (case ps_self_config_categories p of
        SAll \<Rightarrow> bs_collect self_config_categories_all
      | SNone \<Rightarrow> []
      | SOnly m \<Rightarrow> bs_collect (scope_keys (ps_self_config_categories p)))"

definition mcp_service_ids_for_runtime :: "tool_policy_surface \<Rightarrow> ustring list" where
  "mcp_service_ids_for_runtime p =
     (case ps_mcp_services p of SOnly m \<Rightarrow> scope_keys (ps_mcp_services p) | _ \<Rightarrow> [])"

definition defra_query_collections_for_runtime :: "tool_policy_surface \<Rightarrow> ustring list" where
  "defra_query_collections_for_runtime p =
     (case ps_defra_collections p of SOnly m \<Rightarrow> scope_keys (ps_defra_collections p) | _ \<Rightarrow> [])"

section \<open>Declared datastore tools\<close>

datatype write_tool_field_fill = Correlation | SourceField ustring

record write_tool_field =
  wf_name :: ustring
  wf_required :: bool
  wf_fill :: "write_tool_field_fill option"

datatype obligation_scope = ObligationRequest | ObligationTrigger

record output_obligation =
  oo_scope :: obligation_scope
  oo_minimum_writes :: nat
  oo_expected_count_field :: "ustring option"

record write_tool_decl =
  wd_tool_name :: ustring
  wd_collection :: ustring
  wd_description :: ustring
  wd_fields :: "write_tool_field list"
  wd_output_obligation :: "output_obligation option"

record query_tool_decl =
  qd_tool_name :: ustring
  qd_collection :: ustring
  qd_description :: ustring
  qd_fields :: "ustring list"
  qd_filter_fields :: "write_tool_field list"

definition query_is_well_formed :: "query_tool_decl \<Rightarrow> bool" where
  "query_is_well_formed d \<longleftrightarrow> trim (qd_tool_name d) \<noteq> [] \<and> trim (qd_collection d) \<noteq> [] \<and>
     qd_fields d \<noteq> []"

definition narrow_write_decl :: "ustring list \<Rightarrow> write_tool_decl \<Rightarrow> write_tool_decl" where
  "narrow_write_decl granted d =
     d\<lparr>wd_fields := filter (\<lambda>f. trim (wf_name f) \<in> set granted) (wd_fields d)\<rparr>"

definition write_decls_for_runtime ::
  "tool_policy_surface \<Rightarrow> write_tool_decl list \<Rightarrow> write_tool_decl list" where
  "write_decls_for_runtime p decls =
     List.map_filter (\<lambda>d. case ps_write_tools p of
         SNone \<Rightarrow> None
       | SAll \<Rightarrow> Some d
       | SOnly grants \<Rightarrow>
           map_option (\<lambda>fs. narrow_write_decl fs d)
             (map_of grants (trim (wd_tool_name d), trim (wd_collection d)))) decls"

definition narrow_query_decl :: "ustring list \<Rightarrow> query_tool_decl \<Rightarrow> query_tool_decl option" where
  "narrow_query_decl granted d =
     (if list_ex (\<lambda>f. wf_fill f \<noteq> None \<and> trim (wf_name f) \<notin> set granted) (qd_filter_fields d)
      then None
      else Some (d\<lparr>qd_fields := filter (\<lambda>f. trim f \<in> set granted) (qd_fields d),
                   qd_filter_fields :=
                     filter (\<lambda>f. trim (wf_name f) \<in> set granted) (qd_filter_fields d)\<rparr>))"

definition query_decls_for_runtime ::
  "tool_policy_surface \<Rightarrow> query_tool_decl list \<Rightarrow> query_tool_decl list" where
  "query_decls_for_runtime p decls =
     filter query_is_well_formed
       (List.map_filter (\<lambda>d. case ps_query_tools p of
           SNone \<Rightarrow> None
         | SAll \<Rightarrow> Some d
         | SOnly grants \<Rightarrow>
             Option.bind (map_of grants (trim (qd_tool_name d), trim (qd_collection d)))
               (\<lambda>fs. narrow_query_decl fs d)) decls)"

definition write_scope_from_decls :: "write_tool_decl list \<Rightarrow> field_scope" where
  "write_scope_from_decls decls =
     SOnly (bt_collect (map (\<lambda>d.
       ((trim (wd_tool_name d), trim (wd_collection d)),
        bs_collect (filter (\<lambda>n. n \<noteq> []) (map (\<lambda>f. trim (wf_name f)) (wd_fields d))))) decls))"

definition query_scope_from_decls :: "query_tool_decl list \<Rightarrow> field_scope" where
  "query_scope_from_decls decls =
     SOnly (bt_collect (map (\<lambda>d.
       ((trim (qd_tool_name d), trim (qd_collection d)),
        bs_collect (filter (\<lambda>n. n \<noteq> []) (map trim (qd_fields d)) @
                    filter (\<lambda>n. n \<noteq> []) (map (\<lambda>f. trim (wf_name f)) (qd_filter_fields d)))))
       decls))"

definition filter_unit_scope :: "'k list \<Rightarrow> ('k, unit) endpoint_scope \<Rightarrow> 'k list" where
  "filter_unit_scope names scope =
     (case scope of SNone \<Rightarrow> [] | SAll \<Rightarrow> names
      | SOnly m \<Rightarrow> filter (\<lambda>n. n \<in> fst ` set m) names)"

definition filter_background_tools :: "tool_policy_surface \<Rightarrow> ustring list \<Rightarrow> ustring list" where
  "filter_background_tools p names = filter_unit_scope names (ps_background_tools p)"

definition filter_cli_names :: "tool_policy_surface \<Rightarrow> ustring list \<Rightarrow> ustring list" where
  "filter_cli_names p names =
     (case ps_cli_tools p of SNone \<Rightarrow> [] | SAll \<Rightarrow> names
      | SOnly tools \<Rightarrow> filter (\<lambda>n. trim n \<in> fst ` set tools) names)"

section \<open>Runtime availability\<close>

definition from_online_mcp_services :: "ustring list \<Rightarrow> tool_policy_surface" where
  "from_online_mcp_services service_ids =
     (let ids = bs_collect (filter (\<lambda>s. s \<noteq> []) (map trim service_ids)) in
      runtime_all\<lparr>ps_mcp_services := (if ids = [] then SNone else only_units ids)\<rparr>)"

definition for_mcp_presence :: "bool \<Rightarrow> tool_policy_surface" where
  "for_mcp_presence online = runtime_all\<lparr>ps_mcp_services := (if online then SAll else SNone)\<rparr>"

section \<open>The operator's ceiling\<close>

record cli_tool_config =
  ct_name :: ustring
  ct_binary_path :: ustring
  ct_description :: ustring
  ct_allowed_argv_prefixes :: "ustring list list"
  ct_env_vars :: "(ustring \<times> ustring) list"
  ct_working_dir :: "ustring option"
  ct_timeout_secs :: nat

record tool_ceiling =
  cl_file_tools :: file_tool_mode
  cl_bash :: bash_mode
  cl_cli_tools :: "cli_tool_config list"
  cl_command_timeout :: nat
  cl_command_timeout_max :: "nat option"
  cl_root :: "ustring option"
  cl_policy :: tool_policy_surface

definition default_command_timeout_secs :: nat where
  "default_command_timeout_secs = 120"

definition ceiling_of :: "file_tool_mode \<Rightarrow> bash_mode \<Rightarrow> ustring option \<Rightarrow> tool_ceiling" where
  "ceiling_of file bash root =
     \<lparr>cl_file_tools = file, cl_bash = bash, cl_cli_tools = [],
      cl_command_timeout = default_command_timeout_secs, cl_command_timeout_max = None,
      cl_root = root, cl_policy = ceiling_with_host_modes file bash\<rparr>"

definition ceiling_meta_only :: tool_ceiling where
  "ceiling_meta_only = ceiling_of FM_Off BM_Off None"

definition ceiling_readonly :: tool_ceiling where
  "ceiling_readonly = ceiling_of FM_ReadOnly BM_ReadOnly None"

definition ceiling_readonly_at :: "ustring \<Rightarrow> tool_ceiling" where
  "ceiling_readonly_at root = ceiling_of FM_ReadOnly BM_ReadOnly (Some root)"

definition ceiling_readwrite :: "ustring \<Rightarrow> tool_ceiling" where
  "ceiling_readwrite root = ceiling_of FM_ReadWrite BM_Unrestricted (Some root)"

definition refresh_cli_policy :: "tool_ceiling \<Rightarrow> tool_ceiling" where
  "refresh_cli_policy c =
     c\<lparr>cl_policy := (cl_policy c)\<lparr>ps_cli_tools :=
        SOnly (bt_collect (map (\<lambda>t. (trim (ct_name t), [])) (cl_cli_tools c)))\<rparr>\<rparr>"

definition with_cli_tool :: "cli_tool_config \<Rightarrow> tool_ceiling \<Rightarrow> tool_ceiling" where
  "with_cli_tool t c = refresh_cli_policy (c\<lparr>cl_cli_tools := cl_cli_tools c @ [t]\<rparr>)"

definition with_cli_tools :: "cli_tool_config list \<Rightarrow> tool_ceiling \<Rightarrow> tool_ceiling" where
  "with_cli_tools ts c = refresh_cli_policy (c\<lparr>cl_cli_tools := cl_cli_tools c @ ts\<rparr>)"

definition with_command_timeout_secs :: "nat \<Rightarrow> tool_ceiling \<Rightarrow> tool_ceiling" where
  "with_command_timeout_secs s c = c\<lparr>cl_command_timeout := max s 1\<rparr>"

definition with_command_timeout_max_secs :: "nat \<Rightarrow> tool_ceiling \<Rightarrow> tool_ceiling" where
  "with_command_timeout_max_secs s c = c\<lparr>cl_command_timeout_max := Some (max s 1)\<rparr>"

definition with_policy :: "tool_policy_surface \<Rightarrow> tool_ceiling \<Rightarrow> tool_ceiling" where
  "with_policy p c =
     refresh_cli_policy (c\<lparr>cl_file_tools := ps_file p, cl_bash := pb_tool (ps_bash p),
       cl_policy := p\<rparr>)"

definition command_timeout_max :: "tool_ceiling \<Rightarrow> nat" where
  "command_timeout_max c =
     max (case cl_command_timeout_max c of None \<Rightarrow> cl_command_timeout c | Some m \<Rightarrow> m)
       (cl_command_timeout c)"

end
