(* ===== verification/Tool_Policy_Props.thy ===== *)
theory Tool_Policy_Props
  imports Tool_Policy
begin

text \<open>
  The order on tool policies and the laws of their meet. \<open>policy_meet\<close> states what the code
  relies on when it combines a behavior, a ceiling and a runtime: the meet is the greatest policy
  that grants no more than either operand. It is interpreted on the ranked modes, on endpoint
  scopes over any value order, on the bash policy and on the whole surface.
\<close>

section \<open>Entries of a meet\<close>

text \<open>Walking the left map of a meet and inserting the shared keys gives \<open>meet_entries\<close>.\<close>

lemma meet_entries_keys: "fst ` set (meet_entries f l r) \<subseteq> fst ` set l"
  by (induction l) (auto simp: meet_entries_def List.map_filter_simps split: option.splits)

lemma meet_entries_Cons:
  "meet_entries f ((k, v) # l) r =
     (case map_of r k of None \<Rightarrow> meet_entries f l r | Some w \<Rightarrow> (k, f v w) # meet_entries f l r)"
  by (simp add: meet_entries_def List.map_filter_simps split: option.split)

lemma meet_entries_insert_loop:
  assumes "bt_wf l"
  shows "fold (\<lambda>(k, lv) out. case map_of r k of None \<Rightarrow> out | Some rv \<Rightarrow> bt_insert k (f lv rv) out) l []
           = meet_entries f l r"
proof -
  have "bt_wf l \<Longrightarrow> (\<forall>x \<in> fst ` set out. \<forall>y \<in> fst ` set l. x < y) \<Longrightarrow>
      fold (\<lambda>(k, lv) out. case map_of r k of None \<Rightarrow> out | Some rv \<Rightarrow> bt_insert k (f lv rv) out) l out
        = out @ meet_entries f l r" for out
  proof (induction l arbitrary: out)
    case Nil
    then show ?case by (simp add: meet_entries_def List.map_filter_simps)
  next
    case (Cons e l)
    obtain k v where e: "e = (k, v)" by (cases e)
    have wf: "bt_wf l" and gt: "\<forall>y \<in> fst ` set l. k < y"
      using Cons.prems(1) by (auto simp: bt_wf_def e)
    show ?case
    proof (cases "map_of r k")
      case None
      then show ?thesis
        using Cons.IH [OF wf, of out] Cons.prems(2) by (simp add: e meet_entries_Cons)
    next
      case (Some w)
      have "bt_insert k (f v w) out = out @ [(k, f v w)]"
        using Cons.prems(2) by (intro bt_insert_last) (auto simp: e)
      then show ?thesis
        using Cons.IH [OF wf, of "out @ [(k, f v w)]"] Cons.prems(2) gt Some
        by (auto simp: e meet_entries_Cons)
    qed
  qed
  from this [OF assms, of "[]"] show ?thesis by simp
qed

lemma map_of_meet_entries:
  "map_of (meet_entries f l r) k =
     (case (map_of l k, map_of r k) of (Some v, Some w) \<Rightarrow> Some (f v w) | _ \<Rightarrow> None)"
proof (induction l)
  case Nil
  then show ?case by (simp add: meet_entries_def List.map_filter_simps)
next
  case (Cons e l)
  then show ?case
    by (cases e) (auto simp: meet_entries_Cons split: option.splits)
qed

section \<open>The interface: a meet of policies\<close>

locale policy_meet =
  fixes le :: "'p \<Rightarrow> 'p \<Rightarrow> bool"
    and meet :: "'p \<Rightarrow> 'p \<Rightarrow> 'p"
  assumes le_refl: "le a a"
    and le_trans: "le a b \<Longrightarrow> le b c \<Longrightarrow> le a c"
    and meet_le1: "le (meet a b) a"
    and meet_le2: "le (meet a b) b"
    and meet_greatest: "le z a \<Longrightarrow> le z b \<Longrightarrow> le z (meet a b)"
begin

lemma meet_mono: "le a a' \<Longrightarrow> le b b' \<Longrightarrow> le (meet a b) (meet a' b')"
  using meet_greatest le_trans meet_le1 meet_le2 by metis

lemma meet_commute: "le (meet a b) (meet b a)"
  using meet_greatest meet_le1 meet_le2 by metis

lemma meet_assoc: "le (meet (meet a b) c) (meet a (meet b c))"
  using meet_greatest le_trans meet_le1 meet_le2 by metis

lemma meet_assoc': "le (meet a (meet b c)) (meet (meet a b) c)"
  using meet_greatest le_trans meet_le1 meet_le2 by metis

lemma meet3_bounds:
  "le (meet (meet a b) c) a" "le (meet (meet a b) c) b" "le (meet (meet a b) c) c"
  using le_trans meet_le1 meet_le2 by metis+

lemma meet3_greatest: "le z a \<Longrightarrow> le z b \<Longrightarrow> le z c \<Longrightarrow> le z (meet (meet a b) c)"
  using meet_greatest by metis

lemma le_meet_iff: "le z (meet a b) \<longleftrightarrow> le z a \<and> le z b"
  using meet_greatest le_trans meet_le1 meet_le2 by metis

end

text \<open>A mode whose restrictiveness is a rank, the lower rank winning.\<close>

locale ranked_mode =
  fixes rank :: "'m \<Rightarrow> nat"
    and meet :: "'m \<Rightarrow> 'm \<Rightarrow> 'm"
  assumes meet_rank: "meet a b = (if rank a \<le> rank b then a else b)"

sublocale ranked_mode \<subseteq> ranks: policy_meet "\<lambda>a b. rank a \<le> rank b" meet
  by unfold_locales (auto simp: meet_rank)

interpretation file_modes: ranked_mode file_tool_mode_rank meet_file_mode
  by unfold_locales (simp add: meet_file_mode_def)

interpretation bash_modes: ranked_mode bash_mode_rank meet_bash_mode
  by unfold_locales (simp add: meet_bash_mode_def)

interpretation exec_modes: ranked_mode command_execution_mode_rank meet_execution_mode
  by unfold_locales (simp add: meet_execution_mode_def command_execution_mode_meet_def)

interpretation net_modes: ranked_mode network_mode_rank meet_network_mode
  by unfold_locales (simp add: meet_network_mode_def)

section \<open>Scopes\<close>

text \<open>
  A scope grants no more than another when every endpoint it names is named by the other with a
  larger value, and it is unlimited only if the other is.
\<close>

definition scope_le ::
  "('v \<Rightarrow> 'v \<Rightarrow> bool) \<Rightarrow> ('k, 'v) endpoint_scope \<Rightarrow> ('k, 'v) endpoint_scope \<Rightarrow> bool" where
  "scope_le vle a b =
     (case b of
        SAll \<Rightarrow> True
      | _ \<Rightarrow> (case a of
            SAll \<Rightarrow> False
          | SNone \<Rightarrow> True
          | SOnly m \<Rightarrow> list_all (\<lambda>k. case (scope_lookup a k, scope_lookup b k) of
                (Some v, Some w) \<Rightarrow> vle v w | _ \<Rightarrow> False) (map fst m)))"

lemma scope_le_SOnly:
  "scope_le vle (SOnly m) b \<longleftrightarrow> b = SAll \<or>
     (\<forall>k v. map_of m k = Some v \<longrightarrow> (\<exists>w. scope_lookup b k = Some w \<and> vle v w))"
proof (cases "b = SAll")
  case True
  then show ?thesis by (simp add: scope_le_def)
next
  case False
  have "scope_le vle (SOnly m) b \<longleftrightarrow>
      (\<forall>k \<in> fst ` set m. case (map_of m k, scope_lookup b k) of (Some v, Some w) \<Rightarrow> vle v w | _ \<Rightarrow> False)"
    using False by (cases b) (auto simp: scope_le_def list_all_iff)
  also have "\<dots> \<longleftrightarrow> (\<forall>k v. map_of m k = Some v \<longrightarrow> (\<exists>w. scope_lookup b k = Some w \<and> vle v w))"
    by (force simp: dom_map_of_conv_image_fst [symmetric] split: option.splits)
  finally show ?thesis using False by simp
qed

lemma scope_le_simps [simp]:
  "scope_le vle a SAll"
  "scope_le vle SNone b"
  "scope_le vle SAll b \<longleftrightarrow> b = SAll"
  by (auto simp: scope_le_def split: endpoint_scope.splits)

lemma scope_le_iff:
  "scope_le vle a b \<longleftrightarrow> b = SAll \<or> a \<noteq> SAll \<and>
     (\<forall>k v. scope_lookup a k = Some v \<longrightarrow> (\<exists>w. scope_lookup b k = Some w \<and> vle v w))"
  by (cases a) (auto simp: scope_le_SOnly)

lemma scope_lookup_meet:
  "scope_lookup (meet_with f a b) k =
     (if a = SAll then scope_lookup b k else if b = SAll then scope_lookup a k
      else case (scope_lookup a k, scope_lookup b k) of (Some v, Some w) \<Rightarrow> Some (f v w) | _ \<Rightarrow> None)"
  by (cases a; cases b) (auto simp: map_of_meet_entries split: option.split)

lemma meet_with_SAll [simp]: "meet_with f a b = SAll \<longleftrightarrow> a = SAll \<and> b = SAll"
  by (cases a; cases b) auto

locale scope_values = vals: policy_meet vle vmeet
  for vle :: "'v \<Rightarrow> 'v \<Rightarrow> bool" and vmeet :: "'v \<Rightarrow> 'v \<Rightarrow> 'v"
begin

lemma scope_refl: "scope_le vle a a"
  by (cases a) (auto simp: scope_le_iff vals.le_refl)

lemma scope_trans: "scope_le vle a b \<Longrightarrow> scope_le vle b c \<Longrightarrow> scope_le vle a c"
  unfolding scope_le_iff by (metis vals.le_trans)

lemma scope_meet_le1: "scope_le vle (meet_with vmeet a b) a"
  by (auto simp: scope_le_iff scope_lookup_meet vals.le_refl vals.meet_le1
      split: option.splits if_splits)

lemma scope_meet_le2: "scope_le vle (meet_with vmeet a b) b"
  by (auto simp: scope_le_iff scope_lookup_meet vals.le_refl vals.meet_le2
      split: option.splits if_splits)

lemma scope_meet_greatest:
  assumes "scope_le vle z a" "scope_le vle z b"
  shows "scope_le vle z (meet_with vmeet a b)"
  using assms by (fastforce simp: scope_le_iff scope_lookup_meet intro: vals.meet_greatest)

end

sublocale scope_values \<subseteq> scopes: policy_meet "scope_le vle" "meet_with vmeet"
  by unfold_locales
     (auto intro: scope_refl scope_trans scope_meet_le1 scope_meet_le2 scope_meet_greatest)

text \<open>A scope without values, and a scope of field sets.\<close>

abbreviation unit_le :: "unit \<Rightarrow> unit \<Rightarrow> bool" where
  "unit_le \<equiv> \<lambda>_ _. True"

abbreviation fields_le :: "ustring list \<Rightarrow> ustring list \<Rightarrow> bool" where
  "fields_le a b \<equiv> set a \<subseteq> set b"

interpretation unit_scopes: scope_values unit_le meet_unit_value
  by unfold_locales auto

interpretation field_scopes: scope_values fields_le bs_inter
  by unfold_locales auto

lemma permits_mono: "scope_le vle a b \<Longrightarrow> permits a k \<Longrightarrow> permits b k"
  by (cases a; cases b) (force simp: scope_le_SOnly dom_map_of_conv_image_fst [symmetric])+

section \<open>The bash policy\<close>

definition bash_le :: "tool_policy_bash \<Rightarrow> tool_policy_bash \<Rightarrow> bool" where
  "bash_le a b \<longleftrightarrow>
     bash_mode_rank (pb_tool a) \<le> bash_mode_rank (pb_tool b) \<and>
     command_execution_mode_rank (pb_execution_mode a)
       \<le> command_execution_mode_rank (pb_execution_mode b) \<and>
     network_mode_rank (pb_network_mode a) \<le> network_mode_rank (pb_network_mode b) \<and>
     (pb_sandbox a \<longrightarrow> pb_sandbox b) \<and>
     scope_le unit_le (pb_allowed a) (pb_allowed b) \<and>
     set (pb_forbidden b) \<subseteq> set (pb_forbidden a) \<and>
     scope_le unit_le (pb_read_only_allowlist a) (pb_read_only_allowlist b) \<and>
     (pb_deny_git b \<longrightarrow> pb_deny_git a)"

lemmas scope_laws = unit_scopes.scopes.le_refl field_scopes.scopes.le_refl
  unit_scopes.scopes.meet_le1 unit_scopes.scopes.meet_le2
  field_scopes.scopes.meet_le1 field_scopes.scopes.meet_le2

lemmas scope_intros = unit_scopes.scopes.meet_greatest field_scopes.scopes.meet_greatest

lemmas mode_laws = file_modes.ranks.meet_le1 file_modes.ranks.meet_le2
  bash_modes.ranks.meet_le1 bash_modes.ranks.meet_le2
  exec_modes.ranks.meet_le1 exec_modes.ranks.meet_le2
  net_modes.ranks.meet_le1 net_modes.ranks.meet_le2

lemmas mode_intros = file_modes.ranks.meet_greatest bash_modes.ranks.meet_greatest
  exec_modes.ranks.meet_greatest net_modes.ranks.meet_greatest

interpretation bash_policies: policy_meet bash_le bash_meet
proof unfold_locales
  show "bash_le a a" for a
    by (simp add: bash_le_def scope_laws)
  show "bash_le a c" if "bash_le a b" "bash_le b c" for a b c
    using that unfolding bash_le_def
    by (elim conjE, intro conjI)
       (blast | erule (1) order_trans | erule (1) unit_scopes.scopes.le_trans)+
  show "bash_le (bash_meet a b) a" "bash_le (bash_meet a b) b" for a b
    by (simp_all add: bash_le_def bash_meet_def scope_laws mode_laws)
  show "bash_le z (bash_meet a b)" if "bash_le z a" "bash_le z b" for z a b
    using that by (simp add: bash_le_def bash_meet_def scope_intros mode_intros)
qed

section \<open>The surface\<close>

definition flags_le :: "tool_policy_surface \<Rightarrow> tool_policy_surface \<Rightarrow> bool" where
  "flags_le a b \<longleftrightarrow>
     (ps_meta a \<longrightarrow> ps_meta b) \<and> (ps_goal_tools a \<longrightarrow> ps_goal_tools b) \<and>
     (ps_goal_create a \<longrightarrow> ps_goal_create b) \<and> (ps_defra_query a \<longrightarrow> ps_defra_query b) \<and>
     (ps_self_config a \<longrightarrow> ps_self_config b) \<and> (ps_memory a \<longrightarrow> ps_memory b) \<and>
     (ps_session_history a \<longrightarrow> ps_session_history b) \<and>
     (ps_context_budget a \<longrightarrow> ps_context_budget b) \<and>
     (ps_spawn a \<longrightarrow> ps_spawn b) \<and> (ps_steering a \<longrightarrow> ps_steering b) \<and>
     (ps_background a \<longrightarrow> ps_background b) \<and>
     (ps_cross_deployment a \<longrightarrow> ps_cross_deployment b) \<and>
     (ps_skills a \<longrightarrow> ps_skills b) \<and> (ps_lsp a \<longrightarrow> ps_lsp b)"

definition scopes_le :: "tool_policy_surface \<Rightarrow> tool_policy_surface \<Rightarrow> bool" where
  "scopes_le a b \<longleftrightarrow>
     scope_le fields_le (ps_cli_tools a) (ps_cli_tools b) \<and>
     scope_le unit_le (ps_mcp_services a) (ps_mcp_services b) \<and>
     scope_le unit_le (ps_defra_collections a) (ps_defra_collections b) \<and>
     scope_le unit_le (ps_self_config_categories a) (ps_self_config_categories b) \<and>
     scope_le unit_le (ps_subagent_targets a) (ps_subagent_targets b) \<and>
     scope_le unit_le (ps_background_tools a) (ps_background_tools b) \<and>
     scope_le fields_le (ps_write_tools a) (ps_write_tools b) \<and>
     scope_le fields_le (ps_query_tools a) (ps_query_tools b) \<and>
     scope_le unit_le (ps_eth_query_methods a) (ps_eth_query_methods b) \<and>
     scope_le unit_le (ps_eth_call_tools a) (ps_eth_call_tools b)"

definition surface_le :: "tool_policy_surface \<Rightarrow> tool_policy_surface \<Rightarrow> bool" where
  "surface_le a b \<longleftrightarrow>
     file_tool_mode_rank (ps_file a) \<le> file_tool_mode_rank (ps_file b) \<and>
     bash_le (ps_bash a) (ps_bash b) \<and> flags_le a b \<and> scopes_le a b"

lemma flags_le_trans: "flags_le a b \<Longrightarrow> flags_le b c \<Longrightarrow> flags_le a c"
  by (simp add: flags_le_def)

lemma scopes_le_trans:
  assumes "scopes_le a b" "scopes_le b c"
  shows "scopes_le a c"
  using assms unfolding scopes_le_def
  by (elim conjE, intro conjI)
     (erule (1) unit_scopes.scopes.le_trans | erule (1) field_scopes.scopes.le_trans)+

interpretation surfaces: policy_meet surface_le surface_meet
proof unfold_locales
  show "surface_le a a" for a
    by (simp add: surface_le_def flags_le_def scopes_le_def scope_laws bash_policies.le_refl)
  show "surface_le a c" if "surface_le a b" "surface_le b c" for a b c
    using that unfolding surface_le_def
    by (elim conjE, intro conjI)
       (erule (1) order_trans | erule (1) bash_policies.le_trans | erule (1) flags_le_trans |
        erule (1) scopes_le_trans)+
  show "surface_le (surface_meet a b) a" "surface_le (surface_meet a b) b" for a b
    by (simp_all add: surface_le_def surface_meet_def flags_le_def scopes_le_def scope_laws mode_laws
        bash_policies.meet_le1 bash_policies.meet_le2)
  show "surface_le z (surface_meet a b)" if "surface_le z a" "surface_le z b" for z a b
    using that by (simp add: surface_le_def surface_meet_def flags_le_def scopes_le_def scope_intros
        mode_intros bash_policies.meet_greatest)
qed

lemma effective_bounds:
  "surface_le (effective b c r) b" "surface_le (effective b c r) c" "surface_le (effective b c r) r"
  unfolding effective_def by (rule surfaces.meet3_bounds)+

lemma le_runtime_all: "surface_le p runtime_all"
  by (cases "ps_file p"; cases "pb_tool (ps_bash p)"; cases "pb_execution_mode (ps_bash p)";
      cases "pb_network_mode (ps_bash p)")
     (simp_all add: surface_le_def runtime_all_def bash_le_def bash_unrestricted_def flags_le_def
        scopes_le_def)

end
