(* ===== verification/Command_Policy_Props.thy ===== *)
theory Command_Policy_Props
  imports Command_Policy
begin

text \<open>
  What a command that passes the gate satisfies: the argv prefixes, the network mode, the Git
  guards, and the effect of a request's workspace authority.
\<close>

named_theorems gate_simps \<open>equations that evaluate the command gate on literals\<close>

section \<open>Prefixes\<close>

lemma matches_prefix_iff: "matches_prefix argv pfx \<longleftrightarrow> Sublist.prefix pfx argv"
proof -
  have "list_all (\<lambda>(a, b). a = b) (zip argv pfx) \<longleftrightarrow> Sublist.prefix pfx argv"
    if "length pfx \<le> length argv"
    using that
  proof (induction pfx arbitrary: argv)
    case Nil
    then show ?case by simp
  next
    case (Cons p pfx)
    then show ?case by (cases argv) auto
  qed
  then show ?thesis
    by (auto simp: matches_prefix_def dest: Sublist.prefix_length_le)
qed

lemma first_matching_prefix_None:
  "first_matching_prefix argv ps = None \<longleftrightarrow> (\<forall>p \<in> set ps. \<not> Sublist.prefix p argv)"
  by (auto simp: first_matching_prefix_def find_None_iff matches_prefix_iff)

lemma first_matching_prefix_Some:
  "first_matching_prefix argv ps = Some p \<Longrightarrow> p \<in> set ps \<and> Sublist.prefix p argv"
  by (auto simp: first_matching_prefix_def find_Some_iff matches_prefix_iff)

lemma any_matching_prefix_None [simp]:
  "any_matching_prefix argv None ps = first_matching_prefix argv ps"
  by (cases "first_matching_prefix argv ps") (simp_all add: any_matching_prefix_def)

lemma refuse_first_Inr [simp]:
  "refuse_first bad deny args = Inr u \<longleftrightarrow> (\<forall>a \<in> set args. \<not> bad a)"
  by (auto simp: refuse_first_def find_None_iff find_Some_iff split: option.splits)

text \<open>The conditions a validated command meets, one per step of the gate.\<close>

lemma validated:
  assumes "validate_command_policy command args p = Inr ()"
  shows "\<forall>pfx \<in> set (cep_forbidden_argv_prefixes p). \<not> Sublist.prefix pfx (command # args)"
    and "\<not> cep_deny_all_argv p"
    and "cep_allowed_argv_prefixes p \<noteq> [] \<Longrightarrow>
           \<exists>pfx \<in> set (cep_allowed_argv_prefixes p). Sublist.prefix pfx (command # args)"
    and "validate_network_mode command args p = Inr ()"
    and "cep_mode p = XM_ReadOnly \<Longrightarrow>
           built_in_allowlisted command (cep_read_only_allowlist p) \<or>
           (\<exists>pfx \<in> set (cep_allowed_argv_prefixes p). Sublist.prefix pfx (command # args))"
    and "cep_mode p = XM_ReadOnly \<Longrightarrow>
           validate_read_only_arguments (command_key_of command) args p = Inr ()"
    and "cep_mode p \<noteq> XM_ReadOnly \<Longrightarrow> cep_deny_git_metadata_writes p \<Longrightarrow>
           validate_git_worktree_diff_policy command args p = Inr ()"
proof -
  let ?argv = "command # args"
  have forb: "first_matching_prefix ?argv (cep_forbidden_argv_prefixes p) = None"
    and nd: "\<not> cep_deny_all_argv p"
    and al: "cep_allowed_argv_prefixes p \<noteq> [] \<Longrightarrow>
               first_matching_prefix ?argv (cep_allowed_argv_prefixes p) \<noteq> None"
    and net: "validate_network_mode command args p = Inr ()"
    and tail: "(if cep_mode p = XM_ReadOnly
        then validate_read_only_command_inner command args (cep_read_only_allowlist p)
               (first_matching_prefix ?argv (cep_allowed_argv_prefixes p) \<noteq> None) p
        else if cep_deny_git_metadata_writes p
        then validate_git_worktree_diff_policy command args p else Inr ()) = Inr ()"
    using assms unfolding validate_command_policy_def validate_command_policy_inner_def Let_def
    by (auto simp: bind_res_Inr split: option.splits if_splits)
  show "\<forall>pfx \<in> set (cep_forbidden_argv_prefixes p). \<not> Sublist.prefix pfx ?argv"
    using forb by (simp add: first_matching_prefix_None)
  show "\<not> cep_deny_all_argv p" "validate_network_mode command args p = Inr ()"
    by (fact nd, fact net)
  show "\<exists>pfx \<in> set (cep_allowed_argv_prefixes p). Sublist.prefix pfx ?argv"
    if "cep_allowed_argv_prefixes p \<noteq> []"
    using al [OF that] by (auto dest: first_matching_prefix_Some)
  show "built_in_allowlisted command (cep_read_only_allowlist p) \<or>
      (\<exists>pfx \<in> set (cep_allowed_argv_prefixes p). Sublist.prefix pfx ?argv)"
    if "cep_mode p = XM_ReadOnly"
    using tail that
    by (auto simp: validate_read_only_command_inner_def dest: first_matching_prefix_Some split: if_splits)
  show "validate_read_only_arguments (command_key_of command) args p = Inr ()"
    if "cep_mode p = XM_ReadOnly"
    using tail that by (auto simp: validate_read_only_command_inner_def split: if_splits)
  show "validate_git_worktree_diff_policy command args p = Inr ()"
    if "cep_mode p \<noteq> XM_ReadOnly" "cep_deny_git_metadata_writes p"
    using tail that by simp
qed

section \<open>Git\<close>

text \<open>
  An argument list that reaches Git only as a read: no option that redirects Git, then dash
  options, then a reading subcommand whose arguments carry no flag that writes or executes.
\<close>

definition reads_git :: "ustring list \<Rightarrow> bool" where
  "reads_git args \<longleftrightarrow> list_all (\<lambda>a. \<not> git_global_option_requires_denial a) args \<and>
     (case dropWhile (starts_with (lit ''-'')) args of
        [] \<Rightarrow> False
      | subcommand # rest \<Rightarrow>
          git_read_subcommand_allowed_under_worktree_diff subcommand \<and>
          list_all (\<lambda>a. \<not> unsafe_git_flag a) rest \<and>
          (subcommand = lit ''branch'' \<longrightarrow> list_all git_branch_flag_allowed rest))"

lemma dash_starts: "starts_with (lit ''-'') (lit ''--'')"
  by (simp add: starts_with_iff lit_def)

lemma find_git_subcommand_from_dropWhile:
  assumes "\<forall>a \<in> set args. \<not> git_global_option_requires_denial a"
  shows "find_git_subcommand_from n False args =
    (case dropWhile (starts_with (lit ''-'')) args of [] \<Rightarrow> None
     | s # rest \<Rightarrow> Some (n + length (takeWhile (starts_with (lit ''-'')) args), s))"
  using assms
proof (induction args arbitrary: n)
  case Nil
  then show ?case by simp
next
  case (Cons a args)
  have "\<not> git_option_with_value a"
    using Cons.prems by (simp add: git_global_option_requires_denial_def)
  moreover have "a = lit ''--'' \<Longrightarrow> starts_with (lit ''-'') a"
    by (simp add: dash_starts)
  ultimately show ?case
    using Cons.IH [of "Suc n"] Cons.prems
    by (cases "starts_with (lit ''-'') a")
       (auto simp del: dropWhile_eq_Nil_conv split: list.split)
qed

lemma drop_takeWhile: "dropWhile P xs = y # ys \<Longrightarrow> drop (Suc (length (takeWhile P xs))) xs = ys"
  by (metis append_eq_conv_conj drop_Suc list.sel(3) takeWhile_dropWhile_id tl_drop)

lemma branch_args_Inr:
  "validate_git_branch_args args p = Inr u \<longleftrightarrow> list_all git_branch_flag_allowed args"
  by (auto simp: validate_git_branch_args_def list_all_iff)

lemma subcommand_split:
  assumes "\<forall>a \<in> set args. \<not> git_global_option_requires_denial a"
    and "find_git_subcommand args = Some (i, s)"
  obtains rest where "dropWhile (starts_with (lit ''-'')) args = s # rest"
    and "drop (i + 1) args = rest"
  using assms that drop_takeWhile [of "starts_with (lit ''-'')" args]
  by (auto simp: find_git_subcommand_def find_git_subcommand_from_dropWhile split: list.splits)

lemma validate_git_args_reads:
  assumes "validate_git_args args p = Inr ()"
  shows "reads_git args"
proof -
  obtain i s where clean: "\<forall>a \<in> set args. \<not> git_global_option_requires_denial a"
    and fs: "find_git_subcommand args = Some (i, s)"
    and flags: "validate_git_read_only_flags (drop (i + 1) args) p = Inr ()"
    and sub: "one_of s [''status'', ''diff'', ''show'', ''log'', ''ls-files'', ''grep'', ''rev-parse''] \<or>
      s = lit ''branch'' \<and> validate_git_branch_args (drop (i + 1) args) p = Inr ()"
    using assms unfolding validate_git_args_def
    by (auto simp: bind_res_Inr Let_def split: if_splits)
  obtain rest where "dropWhile (starts_with (lit ''-'')) args = s # rest" "drop (i + 1) args = rest"
    by (rule subcommand_split [OF clean fs])
  then show ?thesis
    using clean flags sub
    by (auto simp: reads_git_def list_all_iff validate_git_read_only_flags_def branch_args_Inr
        git_read_subcommand_allowed_under_worktree_diff_def)
qed

lemma deny_git_metadata_write_reads:
  assumes "deny_git_metadata_write_args args p = Inr ()"
  shows "reads_git args"
proof -
  obtain i s where clean: "\<forall>a \<in> set args. \<not> git_global_option_requires_denial a"
    and fs: "find_git_subcommand args = Some (i, s)"
    and flags: "validate_git_read_only_flags (drop (i + 1) args) p = Inr ()"
    and sub: "git_read_subcommand_allowed_under_worktree_diff s"
    and br: "s = lit ''branch'' \<Longrightarrow> validate_git_branch_args (drop (i + 1) args) p = Inr ()"
    using assms unfolding deny_git_metadata_write_args_def
    by (auto simp: bind_res_Inr Let_def split: if_splits)
  obtain rest where "dropWhile (starts_with (lit ''-'')) args = s # rest" "drop (i + 1) args = rest"
    by (rule subcommand_split [OF clean fs])
  then show ?thesis
    using clean flags sub br
    by (auto simp: reads_git_def list_all_iff validate_git_read_only_flags_def branch_args_Inr)
qed

lemma deny_each_reads:
  "deny_each_git_invocation gs p = Inr () \<Longrightarrow> g \<in> set gs \<Longrightarrow> reads_git g"
  by (induction gs) (auto simp: bind_res_Inr deny_git_metadata_write_reads)

section \<open>Workspace authority\<close>

lemma authority_mode [simp]:
  "cep_mode (apply_workspace_authority p a) =
     command_execution_mode_meet (cep_mode p) (command_mode a)"
  by (auto simp: apply_workspace_authority_def Let_def)

lemma authority_frame [simp]:
  "cep_forbidden_argv_prefixes (apply_workspace_authority p a) = cep_forbidden_argv_prefixes p"
  "cep_allowed_argv_prefixes (apply_workspace_authority p a) = cep_allowed_argv_prefixes p"
  "cep_network_mode (apply_workspace_authority p a) = cep_network_mode p"
  "cep_deny_all_argv (apply_workspace_authority p a) = cep_deny_all_argv p"
  by (auto simp: apply_workspace_authority_def Let_def)

lemma effective_frame [simp]:
  "cep_forbidden_argv_prefixes (effective_command_policy scope p) = cep_forbidden_argv_prefixes p"
  "cep_allowed_argv_prefixes (effective_command_policy scope p) = cep_allowed_argv_prefixes p"
  "cep_network_mode (effective_command_policy scope p) = cep_network_mode p"
  "cep_deny_all_argv (effective_command_policy scope p) = cep_deny_all_argv p"
  by (cases scope; simp add: effective_command_policy_def)+

lemma effective_mode_le:
  "command_execution_mode_rank (cep_mode (effective_command_policy scope p))
     \<le> command_execution_mode_rank (cep_mode p)"
  by (cases scope) (auto simp: effective_command_policy_def command_execution_mode_meet_def)

lemma effective_read_only:
  "cep_mode p = XM_ReadOnly \<Longrightarrow> cep_mode (effective_command_policy scope p) = XM_ReadOnly"
  using effective_mode_le [of scope p] by (cases "cep_mode (effective_command_policy scope p)") auto

text \<open>A bound request runs read-only, or with the Git guard.\<close>

lemma bound_guarded:
  "cep_mode (effective_command_policy (Some a) p) = XM_ReadOnly \<or>
   cep_mode (effective_command_policy (Some a) p) = XM_WorkspaceWrite \<and>
   cep_deny_git_metadata_writes (effective_command_policy (Some a) p)"
  by (cases a; cases "cep_mode p")
     (auto simp: effective_command_policy_def apply_workspace_authority_def Let_def
        command_execution_mode_meet_def)

lemma effective_idem [simp]:
  "effective_command_policy scope (effective_command_policy scope p) = effective_command_policy scope p"
proof (cases scope)
  case None
  then show ?thesis by (simp add: effective_command_policy_def)
next
  case (Some a)
  then show ?thesis
    by (cases a; cases "cep_mode p")
       (auto simp: effective_command_policy_def apply_workspace_authority_def Let_def
          command_execution_mode_meet_def default_read_only_command_policy_def cep_read_only_def
          default_read_only_commands_def)
qed

section \<open>Spawned commands\<close>

lemma validated_runE:
  assumes "validated_run host scope p command args cwd = Inr req"
  obtains dir program rest sandbox where
    "validate_command_policy command args (effective_command_policy scope p) = Inr ()"
    "sandboxed_command_for_policy host command args (effective_command_policy scope p)
       = Inr (program, rest, sandbox)"
    "req = \<lparr>sr_argv = program # rest, sr_cwd = dir, sr_sandbox = sandbox\<rparr>"
  using assms unfolding validated_run_def run_command_def Let_def
  by (auto simp: bind_res_Inr split: sum.splits)

lemma sandboxed_cases:
  assumes "sandboxed_command_for_policy host command args p = Inr (program, rest, sandbox)"
  shows "cep_mode p \<noteq> XM_WorkspaceWrite \<and> program = command \<and> rest = args \<and>
           sandbox = (if cep_mode p = XM_ReadOnly then lit ''policy_read_only''
                      else lit ''unsandboxed_unrestricted'') \<or>
         cep_mode p = XM_WorkspaceWrite \<and> program = lit ''/usr/bin/sandbox-exec'' \<and>
           rest = [lit ''-p'', macos_workspace_write_policy (cep_network_mode p),
              lit ''-DWRITABLE_ROOT='' @ ch_root host, lit ''--'', command] @ args \<and>
           sandbox = lit ''macos_seatbelt''"
  using assms unfolding sandboxed_command_for_policy_def select_sandbox_for_execution_def
    sandboxed_workspace_write_command_def
  by (auto split: command_execution_mode.splits if_splits)

end
