(* ===== verification/Tool_Selection.thy ===== *)
theory Tool_Selection
  imports Tool_Policy Tool_Call
begin

text \<open>
  From a \<^verbatim>\<open>ToolSelection\<close> document to the tools a behavior runs with:
  \<^verbatim>\<open>tool_surface/selection.rs\<close> (the document read into a selection),
  \<^verbatim>\<open>ToolPolicySurface::from_selection\<close> (the behavior's policy), \<^verbatim>\<open>tool_surface/build.rs\<close>
  (the executable command policy under the effective policy, and the host tools) and the
  language-server constraints of \<^verbatim>\<open>toolset/lsp/mod.rs\<close>.
\<close>

section \<open>Selections\<close>

datatype selection_error =
    PolicyVersionRequired
  | UnknownPolicyVersion ustring
  | BadMode mode_error
  | BadPrefix prefix_error

definition tool_policy_version_parse :: "ustring option \<Rightarrow> selection_error + unit" where
  "tool_policy_version_parse value =
     (case nonblank value of
        None \<Rightarrow> Inl PolicyVersionRequired
      | Some v \<Rightarrow> if v = lit ''tool-policy/v1'' then Inr () else Inl (UnknownPolicyVersion v))"

text \<open>\<^verbatim>\<open>ToolPolicyVersion::V1.default_enabled()\<close>.\<close>

definition v1_default_enabled :: bool where
  "v1_default_enabled = False"

record subagent_target =
  st_name :: ustring
  st_agent_did :: ustring
  st_behavior_id :: ustring
  st_description :: "ustring option"

record subagent_tool_config =
  sc_targets :: "subagent_target list"
  sc_spawn_enabled :: bool
  sc_steering_enabled :: bool
  sc_background_enabled :: bool
  sc_default_await_mode :: await_mode
  sc_allow_cross_deployment :: bool

definition subagent_tools_enabled :: "subagent_tool_config \<Rightarrow> bool" where
  "subagent_tools_enabled c \<longleftrightarrow> sc_spawn_enabled c \<and> sc_targets c \<noteq> []"

definition background_inspection_tools_enabled :: "subagent_tool_config \<Rightarrow> bool" where
  "background_inspection_tools_enabled c \<longleftrightarrow> subagent_tools_enabled c \<and> sc_background_enabled c"

definition steer_subagent_enabled :: "subagent_tool_config \<Rightarrow> bool" where
  "steer_subagent_enabled c \<longleftrightarrow> background_inspection_tools_enabled c \<and> sc_steering_enabled c"

record resolved_eth_query =
  eq_tool_id :: ustring
  eq_chain_id :: nat
  eq_rpc_url :: ustring
  eq_methods :: "ustring list"

text \<open>Of a resolved contract call, the model keeps its tool name and whether it signs.\<close>

record resolved_eth_call =
  ec_tool_name :: ustring
  ec_is_signing :: bool

record tool_selection_document =
  sd_tool_policy_version :: "ustring option"
  sd_enable_file_tools :: "bool option"
  sd_file_tools_mode :: "ustring option"
  sd_file_tool_root :: "ustring option"
  sd_enable_bash :: "bool option"
  sd_bash_mode :: "ustring option"
  sd_command_execution_policy :: "ustring option"
  sd_command_allowed_argv_prefixes :: "ustring list option"
  sd_command_forbidden_argv_prefixes :: "ustring list option"
  sd_read_only_command_allowlist :: "ustring list option"
  sd_command_network_mode :: "ustring option"
  sd_cli_tool_names :: "ustring list option"
  sd_enable_meta_tools :: "bool option"
  sd_enable_goal_tools :: "bool option"
  sd_enable_goal_creation :: "bool option"
  sd_allowed_mcp_service_ids :: "ustring list option"
  sd_required_mcp_service_ids :: "ustring list option"
  sd_backgroundable_tool_names :: "ustring list option"
  sd_approval_required_tools :: "ustring list option"
  sd_subagent_targets :: "ustring list option"
  sd_subagent_spawn_enabled :: "bool option"
  sd_subagent_steering_enabled :: "bool option"
  sd_subagent_background_enabled :: "bool option"
  sd_subagent_default_await_mode :: "ustring option"
  sd_subagent_allow_cross_deployment :: "bool option"
  sd_enable_memory :: "bool option"
  sd_enable_session_history_tool :: "bool option"
  sd_enable_context_budget :: "bool option"
  sd_enable_defra_query :: "bool option"
  sd_defra_query_collections :: "ustring list option"
  sd_write_tools :: "write_tool_decl list option"
  sd_enable_self_config :: "bool option"
  sd_self_config_categories :: "ustring list option"
  sd_self_config_no_lockout :: "bool option"
  sd_self_config_dry_run :: "bool option"
  sd_enable_lsp :: "bool option"
  sd_lsp_config :: "ustring option"

record tool_selection =
  ts_file_tools :: file_tool_mode
  ts_file_tool_root :: "ustring option"
  ts_bash :: bash_mode
  ts_command_policy :: "command_execution_policy option"
  ts_cli_tool_names :: "ustring list"
  ts_enable_meta_tools :: bool
  ts_enable_goal_tools :: bool
  ts_enable_goal_creation :: bool
  ts_allowed_mcp_service_ids :: "ustring list"
  ts_required_mcp_service_ids :: "ustring list"
  ts_backgroundable_tool_names :: "ustring list"
  ts_approval_required_tools :: "ustring list"
  ts_enable_memory :: bool
  ts_enable_session_history_tool :: bool
  ts_enable_context_budget :: bool
  ts_enable_defra_query :: bool
  ts_defra_query_collections :: "ustring list"
  ts_write_tools :: "write_tool_decl list"
  ts_query_tools :: "query_tool_decl list"
  ts_enable_self_config :: bool
  ts_self_config_categories :: "ustring list option"
  ts_self_config_no_lockout :: bool
  ts_self_config_dry_run :: bool
  ts_enable_lsp :: bool
  ts_lsp_config :: "ustring option"
  ts_eth_queries :: "resolved_eth_query list"
  ts_eth_calls :: "resolved_eth_call list"

definition or_false :: "bool option \<Rightarrow> bool" where
  "or_false b = (case b of None \<Rightarrow> False | Some v \<Rightarrow> v)"

definition or_empty :: "'a list option \<Rightarrow> 'a list" where
  "or_empty l = (case l of None \<Rightarrow> [] | Some v \<Rightarrow> v)"

lemma or_simps [simp]:
  "or_false None = False" "or_false (Some v) = v" "or_empty None = []" "or_empty (Some l) = l"
  by (simp_all add: or_false_def or_empty_def)

text \<open>\<open>parse_target\<close> is the JSON decoding of one \<^verbatim>\<open>subagent_targets\<close> entry.\<close>

definition subagent_config_from_document ::
  "(ustring \<Rightarrow> subagent_target option) \<Rightarrow> tool_selection_document \<Rightarrow> subagent_tool_config" where
  "subagent_config_from_document parse_target doc =
     (let background_enabled = or_false (sd_subagent_background_enabled doc) in
      \<lparr>sc_targets = List.map_filter parse_target (or_empty (sd_subagent_targets doc)),
       sc_spawn_enabled = or_false (sd_subagent_spawn_enabled doc),
       sc_steering_enabled = or_false (sd_subagent_steering_enabled doc),
       sc_background_enabled = background_enabled,
       sc_default_await_mode =
         (case opt_filter (\<lambda>m. background_enabled \<or> m \<noteq> Background)
            (Option.bind (nonblank (sd_subagent_default_await_mode doc)) await_from_persisted) of
            None \<Rightarrow> Foreground | Some m \<Rightarrow> m),
       sc_allow_cross_deployment = or_false (sd_subagent_allow_cross_deployment doc)\<rparr>)"

definition lift_mode :: "mode_error + 'a \<Rightarrow> selection_error + 'a" where
  "lift_mode r = (case r of Inl e \<Rightarrow> Inl (BadMode e) | Inr a \<Rightarrow> Inr a)"

definition lift_prefix :: "prefix_error + 'a \<Rightarrow> selection_error + 'a" where
  "lift_prefix r = (case r of Inl e \<Rightarrow> Inl (BadPrefix e) | Inr a \<Rightarrow> Inr a)"

text \<open>\<^verbatim>\<open>Option<Result<T>>::transpose\<close> after a parse of an optional text.\<close>

definition parse_opt :: "(ustring \<Rightarrow> mode_error + 'a) \<Rightarrow> ustring option \<Rightarrow> selection_error + 'a option" where
  "parse_opt parse v =
     (case v of None \<Rightarrow> Inr None | Some s \<Rightarrow> bind_res (lift_mode (parse s)) (\<lambda>a. Inr (Some a)))"

definition has_command_policy :: "tool_selection_document \<Rightarrow> bool" where
  "has_command_policy doc \<longleftrightarrow>
     nonblank (sd_command_execution_policy doc) \<noteq> None \<or>
     nonblank (sd_command_network_mode doc) \<noteq> None \<or>
     or_empty (sd_command_allowed_argv_prefixes doc) \<noteq> [] \<or>
     or_empty (sd_command_forbidden_argv_prefixes doc) \<noteq> [] \<or>
     or_empty (sd_read_only_command_allowlist doc) \<noteq> []"

definition command_policy_from_document ::
  "bool \<Rightarrow> (ustring \<Rightarrow> ustring list option) \<Rightarrow> tool_selection_document \<Rightarrow> bash_mode \<Rightarrow>
   selection_error + command_execution_policy option" where
  "command_policy_from_document macos from_json doc bash =
     (if \<not> has_command_policy doc then
        (if bash = BM_Unrestricted
         then Inr (Some (with_mode XM_Unrestricted (write_capable macos))) else Inr None)
      else
        bind_res (parse_opt command_execution_mode_parse
                    (nonblank (sd_command_execution_policy doc))) (\<lambda>requested.
        bind_res (Inr (case bash of
             BM_Unrestricted \<Rightarrow> (case requested of None \<Rightarrow> XM_Unrestricted | Some m \<Rightarrow> m)
           | _ \<Rightarrow> XM_ReadOnly)) (\<lambda>mode.
        bind_res (lift_prefix (parse_argv_prefixes from_json
                    (or_empty (sd_command_allowed_argv_prefixes doc)))) (\<lambda>allowed.
        bind_res (lift_prefix (parse_argv_prefixes from_json
                    (or_empty (sd_command_forbidden_argv_prefixes doc)))) (\<lambda>forbidden.
        bind_res (parse_opt command_network_mode_parse
                    (nonblank (sd_command_network_mode doc))) (\<lambda>network.
          let base = (if mode = XM_ReadOnly then default_read_only_command_policy
                      else write_capable macos);
              base = (if mode = XM_ReadOnly \<and> or_empty (sd_read_only_command_allowlist doc) \<noteq> []
                      then with_read_only_allowlist
                             (or_empty (sd_read_only_command_allowlist doc)) base
                      else base)
          in Inr (Some (with_network_mode
                   (case network of None \<Rightarrow> NM_Inherit | Some n \<Rightarrow> n)
                   (with_forbidden_argv_prefixes forbidden
                     (with_allowed_argv_prefixes allowed (with_mode mode base)))))))))))"

definition resolve_goal_capabilities :: "bool option \<Rightarrow> bool option \<Rightarrow> bool \<times> bool" where
  "resolve_goal_capabilities tools creation = (or_false tools, or_false creation)"

definition or_text :: "string \<Rightarrow> ustring option \<Rightarrow> ustring" where
  "or_text d v = (case v of None \<Rightarrow> lit d | Some s \<Rightarrow> s)"

definition selection_from_document ::
  "bool \<Rightarrow> (ustring \<Rightarrow> ustring list option) \<Rightarrow> tool_selection_document \<Rightarrow>
   selection_error + tool_selection" where
  "selection_from_document macos from_json doc =
     bind_res (tool_policy_version_parse (sd_tool_policy_version doc)) (\<lambda>_.
     bind_res (if or_false (sd_enable_bash doc)
               then lift_mode (bash_mode_parse (or_text ''ReadOnly'' (sd_bash_mode doc)))
               else Inr BM_Off) (\<lambda>bash.
     bind_res (if or_false (sd_enable_file_tools doc)
               then lift_mode (file_tool_mode_parse (or_text ''ReadOnly'' (sd_file_tools_mode doc)))
               else Inr FM_Off) (\<lambda>file.
     bind_res (command_policy_from_document macos from_json doc bash) (\<lambda>command_policy.
       Inr \<lparr>ts_file_tools = file,
         ts_file_tool_root = nonblank (sd_file_tool_root doc),
         ts_bash = bash,
         ts_command_policy = command_policy,
         ts_cli_tool_names = or_empty (sd_cli_tool_names doc),
         ts_enable_meta_tools =
           (case sd_enable_meta_tools doc of None \<Rightarrow> v1_default_enabled | Some b \<Rightarrow> b),
         ts_enable_goal_tools =
           fst (resolve_goal_capabilities (sd_enable_goal_tools doc) (sd_enable_goal_creation doc)),
         ts_enable_goal_creation =
           snd (resolve_goal_capabilities (sd_enable_goal_tools doc) (sd_enable_goal_creation doc)),
         ts_allowed_mcp_service_ids = or_empty (sd_allowed_mcp_service_ids doc),
         ts_required_mcp_service_ids = or_empty (sd_required_mcp_service_ids doc),
         ts_backgroundable_tool_names = or_empty (sd_backgroundable_tool_names doc),
         ts_approval_required_tools = or_empty (sd_approval_required_tools doc),
         ts_enable_memory = or_false (sd_enable_memory doc),
         ts_enable_session_history_tool = or_false (sd_enable_session_history_tool doc),
         ts_enable_context_budget =
           (case sd_enable_context_budget doc of None \<Rightarrow> v1_default_enabled | Some b \<Rightarrow> b),
         ts_enable_defra_query = or_false (sd_enable_defra_query doc),
         ts_defra_query_collections = or_empty (sd_defra_query_collections doc),
         ts_write_tools = or_empty (sd_write_tools doc),
         ts_query_tools = [],
         ts_enable_self_config = or_false (sd_enable_self_config doc),
         ts_self_config_categories = sd_self_config_categories doc,
         ts_self_config_no_lockout = or_false (sd_self_config_no_lockout doc),
         ts_self_config_dry_run = or_false (sd_self_config_dry_run doc),
         ts_enable_lsp = or_false (sd_enable_lsp doc),
         ts_lsp_config = nonblank (sd_lsp_config doc),
         ts_eth_queries = [],
         ts_eth_calls = []\<rparr>))))"

section \<open>The behavior's policy\<close>

definition agent_config_query_collections :: "ustring list" where
  "agent_config_query_collections = map lit
     [''AgentPrincipal'', ''AgentBehavior'', ''ToolSelection'', ''Skill'', ''DatastoreToolSurface'',
      ''InferenceBackend'', ''InferenceProfile'', ''ToolServiceRegistry'',
      ''ToolServiceHealthState'', ''Task'', ''Schedule'', ''EventTrigger'', ''AgentRuntime'',
      ''AgentNetwork'', ''PeerEndpoint'', ''PeerRegistry'', ''PeerPairingDesired'',
      ''PeerPairingApplied'', ''DataPlanePairingDesired'']"

fun expand_collection_scope_aliases :: "ustring list \<Rightarrow> ustring list" where
  "expand_collection_scope_aliases [] = []"
| "expand_collection_scope_aliases (c # cs) =
     (let entry = trim c in
      (if entry = lit ''agent-config'' then agent_config_query_collections
       else if entry \<noteq> [] then [entry] else []) @ expand_collection_scope_aliases cs)"

definition default_self_config_categories :: "ustring list" where
  "default_self_config_categories = map lit [''behavior'', ''profile'', ''tools'']"

definition subagent_target_key :: "subagent_target \<Rightarrow> ustring \<times> ustring" where
  "subagent_target_key t = (trim (st_agent_did t), trim (st_behavior_id t))"

definition eth_query_scope_from_resolved :: "resolved_eth_query list \<Rightarrow> unit_scope" where
  "eth_query_scope_from_resolved queries =
     (let methods = bs_collect (concat (map eq_methods queries)) in
      if methods = [] then SNone else only_units methods)"

definition eth_call_scope_from_resolved :: "resolved_eth_call list \<Rightarrow> unit_scope" where
  "eth_call_scope_from_resolved calls =
     (if calls = [] then SNone else only_units (map ec_tool_name calls))"

definition bash_from_selection :: "tool_selection \<Rightarrow> tool_policy_bash" where
  "bash_from_selection s =
     (let cp = ts_command_policy s;
          allowed = (case cp of None \<Rightarrow> [] | Some p \<Rightarrow> cep_allowed_argv_prefixes p);
          forbidden = (case cp of None \<Rightarrow> [] | Some p \<Rightarrow> cep_forbidden_argv_prefixes p);
          read_only = (case cp of None \<Rightarrow> [] | Some p \<Rightarrow> cep_read_only_allowlist p)
      in \<lparr>pb_tool = ts_bash s,
          pb_execution_mode =
            (case cp of None \<Rightarrow> default_execution_mode (ts_bash s) | Some p \<Rightarrow> cep_mode p),
          pb_network_mode = (case cp of None \<Rightarrow> NM_Inherit | Some p \<Rightarrow> cep_network_mode p),
          pb_sandbox = True,
          pb_allowed = (if allowed = [] then SAll else only_units allowed),
          pb_forbidden = bs_collect forbidden,
          pb_read_only_allowlist =
            (if read_only = [] then SAll else only_units (map trim read_only)),
          pb_deny_git =
            (case cp of None \<Rightarrow> False | Some p \<Rightarrow> cep_deny_git_metadata_writes p)\<rparr>)"

definition policy_from_selection ::
  "tool_selection \<Rightarrow> subagent_tool_config \<Rightarrow> tool_policy_surface" where
  "policy_from_selection s sub =
     \<lparr>ps_file = ts_file_tools s,
      ps_bash = bash_from_selection s,
      ps_meta = ts_enable_meta_tools s,
      ps_goal_tools = ts_enable_goal_tools s,
      ps_goal_create = ts_enable_goal_creation s,
      ps_defra_query = ts_enable_defra_query s,
      ps_self_config = ts_enable_self_config s,
      ps_memory = ts_enable_memory s,
      ps_session_history = ts_enable_session_history_tool s,
      ps_context_budget = ts_enable_context_budget s,
      ps_spawn = sc_spawn_enabled sub,
      ps_steering = sc_steering_enabled sub,
      ps_background = sc_background_enabled sub,
      ps_cross_deployment = sc_allow_cross_deployment sub,
      ps_skills = True,
      ps_lsp = (ts_enable_lsp s \<and> ts_file_tools s \<noteq> FM_Off),
      ps_cli_tools = SOnly (bt_collect (map (\<lambda>n. (trim n, [])) (ts_cli_tool_names s))),
      ps_mcp_services =
        (if \<not> ts_enable_meta_tools s then SNone
         else if ts_allowed_mcp_service_ids s = [] then SNone
         else only_units (map trim (ts_allowed_mcp_service_ids s))),
      ps_defra_collections =
        (if \<not> ts_enable_defra_query s then SNone
         else if ts_defra_query_collections s = [] then SAll
         else only_units (expand_collection_scope_aliases (ts_defra_query_collections s))),
      ps_self_config_categories =
        (if \<not> ts_enable_self_config s then SNone
         else case ts_self_config_categories s of
             None \<Rightarrow> only_units default_self_config_categories
           | Some cats \<Rightarrow> only_units (map trim cats)),
      ps_subagent_targets = only_units (map subagent_target_key (sc_targets sub)),
      ps_background_tools = only_units (map trim (ts_backgroundable_tool_names s)),
      ps_write_tools = write_scope_from_decls (ts_write_tools s),
      ps_query_tools = query_scope_from_decls (ts_query_tools s),
      ps_eth_query_methods = eth_query_scope_from_resolved (ts_eth_queries s),
      ps_eth_call_tools = eth_call_scope_from_resolved (ts_eth_calls s)\<rparr>"

section \<open>The executable command policy\<close>

definition downgrade_file_tools :: "file_tool_mode \<Rightarrow> file_tool_mode \<Rightarrow> file_tool_mode" where
  "downgrade_file_tools requested limit =
     (if file_tool_mode_rank requested \<le> file_tool_mode_rank limit then requested else limit)"

definition downgrade_bash :: "bash_mode \<Rightarrow> bash_mode \<Rightarrow> bash_mode" where
  "downgrade_bash requested limit =
     (if bash_mode_rank requested \<le> bash_mode_rank limit then requested else limit)"

definition project_allowed_prefixes ::
  "(ustring list, unit) endpoint_scope \<Rightarrow> ustring list list option \<times> bool" where
  "project_allowed_prefixes scope =
     (case scope of
        SAll \<Rightarrow> (None, False)
      | SNone \<Rightarrow> (None, True)
      | SOnly m \<Rightarrow> if m = [] then (None, True) else (Some (scope_keys scope), False))"

definition project_read_only_allowlist :: "unit_scope \<Rightarrow> ustring list option" where
  "project_read_only_allowlist scope =
     (case scope of
        SAll \<Rightarrow> None
      | SNone \<Rightarrow> Some []
      | SOnly m \<Rightarrow> if m = [] then Some [] else Some (scope_keys scope))"

definition apply_effective_bash ::
  "command_execution_policy \<Rightarrow> tool_policy_bash \<Rightarrow> ustring list list option \<Rightarrow> bool \<Rightarrow>
   ustring list list \<Rightarrow> ustring list option \<Rightarrow> command_execution_policy" where
  "apply_effective_bash policy eb allowed_override deny_all forbidden read_only_override =
     (let p = (if deny_all
               then with_deny_all_argv True (policy\<lparr>cep_allowed_argv_prefixes := []\<rparr>)
               else case allowed_override of
                   Some allowed \<Rightarrow> policy\<lparr>cep_allowed_argv_prefixes := allowed\<rparr>
                 | None \<Rightarrow> policy);
          p = (if forbidden \<noteq> [] then p\<lparr>cep_forbidden_argv_prefixes := forbidden\<rparr> else p);
          p = (case read_only_override of
                 Some l \<Rightarrow> with_read_only_allowlist l p | None \<Rightarrow> p);
          p = p\<lparr>cep_mode := meet_execution_mode (cep_mode p) (pb_execution_mode eb)\<rparr>;
          p = p\<lparr>cep_network_mode := meet_network_mode (cep_network_mode p) (pb_network_mode eb)\<rparr>
      in if pb_deny_git eb then with_git_worktree_diff p else p)"

definition constrain_base ::
  "command_execution_policy option \<Rightarrow> bash_mode \<Rightarrow> command_execution_policy option" where
  "constrain_base command_policy bash =
     (case command_policy of
        None \<Rightarrow> None
      | Some policy \<Rightarrow>
          if bash = BM_Unrestricted \<or> cep_mode policy = XM_ReadOnly then Some policy
          else Some (with_network_mode (cep_network_mode policy)
                 (with_forbidden_argv_prefixes (cep_forbidden_argv_prefixes policy)
                   (with_allowed_argv_prefixes (cep_allowed_argv_prefixes policy)
                     default_read_only_command_policy))))"

definition imposes_constraint :: "tool_policy_bash \<Rightarrow> bool" where
  "imposes_constraint eb \<longleftrightarrow>
     snd (project_allowed_prefixes (pb_allowed eb)) \<or>
     (case pb_allowed eb of SOnly _ \<Rightarrow> True | _ \<Rightarrow> False) \<or>
     pb_forbidden eb \<noteq> [] \<or>
     project_read_only_allowlist (pb_read_only_allowlist eb) \<noteq> None"

definition constrain_command_policy_to_effective_bash ::
  "bool \<Rightarrow> command_execution_policy option \<Rightarrow> tool_policy_bash \<Rightarrow> bash_mode \<Rightarrow>
   command_execution_policy option" where
  "constrain_command_policy_to_effective_bash macos command_policy eb bash =
     (if bash = BM_Off then None
      else
        (let (allowed_override, deny_all) = project_allowed_prefixes (pb_allowed eb);
             apply_to = (\<lambda>base. Some (apply_effective_bash base eb allowed_override deny_all
                           (pb_forbidden eb)
                           (project_read_only_allowlist (pb_read_only_allowlist eb))))
         in case constrain_base command_policy bash of
              Some policy \<Rightarrow> apply_to policy
            | None \<Rightarrow>
                if imposes_constraint eb
                then apply_to (if bash = BM_ReadOnly then default_read_only_command_policy
                               else write_capable macos)
                else None))"

section \<open>Host tools\<close>

datatype native_tool =
    NT_ListFiles nat
  | NT_ReadFile nat
  | NT_Glob nat
  | NT_Grep nat
  | NT_WriteFile ustring
  | NT_EditFile ustring
  | NT_BashReadOnly nat nat "ustring list" command_execution_policy
  | NT_BashUnrestricted nat nat ustring command_execution_policy
  | NT_Cli cli_tool_config

record tool_set =
  set_tools :: "native_tool list"
  set_read_root :: "ustring option"

definition native_backgroundable :: "native_tool \<Rightarrow> bool" where
  "native_backgroundable t =
     (case t of NT_BashReadOnly _ _ _ _ \<Rightarrow> True | NT_BashUnrestricted _ _ _ _ \<Rightarrow> True | _ \<Rightarrow> False)"

definition builder_bash_read_only :: "nat \<Rightarrow> nat \<Rightarrow> command_execution_policy option \<Rightarrow> native_tool" where
  "builder_bash_read_only t t_max policy =
     NT_BashReadOnly t (max t_max t) default_read_only_commands
       (case policy of None \<Rightarrow> cep_read_only default_read_only_commands | Some p \<Rightarrow> p)"

definition builder_bash_unrestricted ::
  "bool \<Rightarrow> ustring \<Rightarrow> nat \<Rightarrow> nat \<Rightarrow> command_execution_policy option \<Rightarrow> native_tool" where
  "builder_bash_unrestricted macos root t t_max policy =
     NT_BashUnrestricted t (max t_max t) root
       (case policy of None \<Rightarrow> write_capable macos | Some p \<Rightarrow> p)"

datatype host_tools_error = RootEscapes ustring ustring | RootUnresolved ustring | RootRequired ustring

definition path_components :: "ustring \<Rightarrow> ustring list" where
  "path_components p =
     (if starts_with (lit ''/'') p then [lit ''/''] else []) @
     filter (\<lambda>c. c \<noteq> [] \<and> c \<noteq> lit ''.'') (split_on 47 p)"

text \<open>
  \<open>resolve_root\<close> is \<^verbatim>\<open>resolve_configured_tool_root\<close>, which makes a path absolute and
  canonical on the file system.
\<close>

definition resolve_effective_tool_root ::
  "(ustring \<Rightarrow> ustring + ustring) \<Rightarrow> ustring option \<Rightarrow> ustring option \<Rightarrow>
   host_tools_error + ustring option" where
  "resolve_effective_tool_root resolve_root selection_root ceiling_root =
     (let resolve = (\<lambda>v. case v of None \<Rightarrow> Inr None
            | Some p \<Rightarrow> (case resolve_root p of Inl e \<Rightarrow> Inl (RootUnresolved e) | Inr q \<Rightarrow> Inr (Some q)))
      in bind_res (resolve selection_root) (\<lambda>sel.
         bind_res (resolve ceiling_root) (\<lambda>cl.
           case (sel, cl) of
             (Some s, Some c) \<Rightarrow>
               if Sublist.prefix (path_components c) (path_components s) then Inr (Some s)
               else Inl (RootEscapes s c)
           | (Some s, None) \<Rightarrow> Inr (Some s)
           | (None, Some c) \<Rightarrow> Inr (Some c)
           | (None, None) \<Rightarrow> Inr None)))"

fun dedupe_strings_from :: "ustring list \<Rightarrow> ustring list \<Rightarrow> ustring list" where
  "dedupe_strings_from seen [] = []"
| "dedupe_strings_from seen (v # vs) =
     (let t = trim v in
      if t = [] \<or> t \<in> set seen then dedupe_strings_from seen vs
      else t # dedupe_strings_from (t # seen) vs)"

definition dedupe_strings :: "ustring list \<Rightarrow> ustring list" where
  "dedupe_strings vs = dedupe_strings_from [] vs"

text \<open>The CLI tools of the ceiling by name; a later entry replaces an earlier one of its name.\<close>

definition ceiling_cli_tool :: "tool_ceiling \<Rightarrow> ustring \<Rightarrow> cli_tool_config option" where
  "ceiling_cli_tool c name = map_of (rev (map (\<lambda>t. (ct_name t, t)) (cl_cli_tools c))) name"

definition build_host_tools ::
  "bool \<Rightarrow> (ustring \<Rightarrow> ustring + ustring) \<Rightarrow> file_tool_mode \<Rightarrow> bash_mode \<Rightarrow>
   command_execution_policy option \<Rightarrow> tool_policy_bash \<Rightarrow> ustring option \<Rightarrow> ustring list \<Rightarrow>
   tool_ceiling \<Rightarrow> host_tools_error + tool_set" where
  "build_host_tools macos resolve_root file bash command_policy eb file_tool_root cli_names cl =
     bind_res (if file \<noteq> FM_Off \<or> bash \<noteq> BM_Off
               then resolve_effective_tool_root resolve_root file_tool_root (cl_root cl)
               else Inr None) (\<lambda>root.
     bind_res (Inr (if file \<noteq> FM_Off
                    then [NT_ListFiles 200, NT_ReadFile 32000, NT_Glob 200, NT_Grep 200]
                    else [])) (\<lambda>readers.
     bind_res (if file = FM_ReadWrite then
                 (case root of
                    None \<Rightarrow> Inl (RootRequired (lit ''readwrite file tools require a configured tool root''))
                  | Some r \<Rightarrow> Inr [NT_WriteFile r, NT_EditFile r])
               else Inr []) (\<lambda>writers.
     bind_res (let policy = constrain_command_policy_to_effective_bash macos command_policy eb bash
               in case bash of
                    BM_Off \<Rightarrow> Inr []
                  | BM_ReadOnly \<Rightarrow>
                      Inr [builder_bash_read_only (cl_command_timeout cl) (command_timeout_max cl) policy]
                  | BM_Unrestricted \<Rightarrow>
                      (case root of
                         None \<Rightarrow> Inl (RootRequired (lit ''unrestricted bash requires a configured tool root''))
                       | Some r \<Rightarrow>
                           Inr [builder_bash_unrestricted macos r (cl_command_timeout cl)
                                  (command_timeout_max cl) policy])) (\<lambda>shells.
       Inr \<lparr>set_tools = readers @ writers @ shells @
              map NT_Cli (List.map_filter (ceiling_cli_tool cl) (dedupe_strings cli_names)),
            set_read_root = root\<rparr>))))"

text \<open>
  The host tools of a behavior: \<^verbatim>\<open>BehaviorToolConfig::from_selection_with_subagent_tools\<close>
  from the selection to \<^verbatim>\<open>build_host_tools\<close>.
\<close>

definition static_policy_of ::
  "tool_selection \<Rightarrow> subagent_tool_config \<Rightarrow> tool_ceiling \<Rightarrow> tool_policy_surface" where
  "static_policy_of s sub cl = effective (policy_from_selection s sub) (cl_policy cl) runtime_all"

definition behavior_host_tools ::
  "bool \<Rightarrow> (ustring \<Rightarrow> ustring + ustring) \<Rightarrow> tool_selection \<Rightarrow> subagent_tool_config \<Rightarrow>
   tool_ceiling \<Rightarrow> host_tools_error + tool_set" where
  "behavior_host_tools macos resolve_root s sub cl =
     (let static = static_policy_of s sub cl in
      build_host_tools macos resolve_root
        (downgrade_file_tools (ts_file_tools s) (ps_file static))
        (downgrade_bash (ts_bash s) (pb_tool (ps_bash static)))
        (ts_command_policy s) (ps_bash static) (ts_file_tool_root s)
        (filter_cli_names static (ts_cli_tool_names s)) cl)"

section \<open>Language servers\<close>

record command_constraints =
  cc_allowed_argv_prefixes :: "ustring list list"
  cc_forbidden_argv_prefixes :: "ustring list list"
  cc_network_mode :: command_network_mode
  cc_execution_mode :: command_execution_mode
  cc_sandbox :: command_execution_mode
  cc_deny_all_argv :: bool
  cc_deny_git_metadata_writes :: bool

definition to_spawn_policy :: "command_constraints \<Rightarrow> command_execution_policy" where
  "to_spawn_policy c =
     \<lparr>cep_mode = cc_sandbox c, cep_allowed_argv_prefixes = cc_allowed_argv_prefixes c,
      cep_forbidden_argv_prefixes = cc_forbidden_argv_prefixes c,
      cep_network_mode = cc_network_mode c, cep_read_only_allowlist = [],
      cep_deny_all_argv = cc_deny_all_argv c,
      cep_deny_git_metadata_writes = cc_deny_git_metadata_writes c\<rparr>"

text \<open>\<open>enforced\<close> is \<^verbatim>\<open>workspace_write_sandbox_enforced()\<close>.\<close>

definition default_lsp_network_mode :: "bool \<Rightarrow> command_network_mode" where
  "default_lsp_network_mode enforced = (if enforced then NM_Disabled else NM_Inherit)"

definition lsp_sandbox_for_effective ::
  "bool \<Rightarrow> command_execution_mode \<Rightarrow> command_execution_mode" where
  "lsp_sandbox_for_effective enforced m =
     (case m of
        XM_WorkspaceWrite \<Rightarrow> XM_WorkspaceWrite
      | XM_Unrestricted \<Rightarrow> XM_Unrestricted
      | XM_ReadOnly \<Rightarrow> if enforced then XM_WorkspaceWrite else XM_Unrestricted)"

definition constraints_from_effective_bash ::
  "bool \<Rightarrow> tool_policy_bash \<Rightarrow> command_network_mode option \<Rightarrow> command_constraints" where
  "constraints_from_effective_bash enforced bash overlay =
     (let (allowed, deny_all) = (case pb_allowed bash of
            SAll \<Rightarrow> ([], False)
          | SNone \<Rightarrow> ([], True)
          | SOnly _ \<Rightarrow> (scope_keys (pb_allowed bash), False));
          sandbox = lsp_sandbox_for_effective enforced (pb_execution_mode bash);
          desired = (case overlay of
            Some m \<Rightarrow> m
          | None \<Rightarrow> if sandbox = XM_WorkspaceWrite then default_lsp_network_mode enforced
                   else NM_Inherit)
      in \<lparr>cc_allowed_argv_prefixes = allowed,
          cc_forbidden_argv_prefixes = pb_forbidden bash,
          cc_network_mode = command_network_mode_meet desired (pb_network_mode bash),
          cc_execution_mode = pb_execution_mode bash,
          cc_sandbox = sandbox,
          cc_deny_all_argv = deny_all,
          cc_deny_git_metadata_writes = pb_deny_git bash\<rparr>)"

text \<open>
  \<^verbatim>\<open>prepare_managed_command\<close> after the executable was admitted: \<open>admitted\<close> is its canonical
  path on the host.
\<close>

definition prepare_managed_command ::
  "command_host \<Rightarrow> ustring \<Rightarrow> ustring list \<Rightarrow> ustring \<Rightarrow> command_constraints \<Rightarrow>
   command_tool_error + (ustring \<times> ustring list \<times> ustring)" where
  "prepare_managed_command host command args admitted constraints =
     (let spawn_policy = to_spawn_policy constraints in
      case validate_command_policy_inner command args (Some admitted) spawn_policy of
        Inl d \<Rightarrow> Inl (TE_Denied d)
      | Inr _ \<Rightarrow> sandboxed_command_for_policy host admitted args spawn_policy)"

end
