(* ===== verification/Tool_Selection_Props.thy ===== *)
theory Tool_Selection_Props
  imports Tool_Policy_Props Command_Policy_Props Tool_Selection
begin

text \<open>
  The executable command policy against the effective one it was built from: what each restriction
  of the effective bash policy becomes at the gate, and the limits a spawned command keeps.
\<close>

section \<open>Running a bash tool\<close>

text \<open>
  \<^verbatim>\<open>ToolSet::build_native_tools\<close> hands each bash entry's policy to its tool; the tool's call
  validates and runs the argv it derives from the arguments.
\<close>

definition bash_policy_of :: "native_tool \<Rightarrow> command_execution_policy option" where
  "bash_policy_of t =
     (case t of NT_BashReadOnly _ _ _ p \<Rightarrow> Some p | NT_BashUnrestricted _ _ _ p \<Rightarrow> Some p | _ \<Rightarrow> None)"

definition bash_tool_argv :: "native_tool \<Rightarrow> bash_args \<Rightarrow> ustring \<times> ustring list" where
  "bash_tool_argv t a =
     (case t of NT_BashUnrestricted _ _ _ _ \<Rightarrow> unrestricted_bash_argv a
      | _ \<Rightarrow> (ba_command a, ba_args a))"

definition bash_tool_call ::
  "command_host \<Rightarrow> workspace_authority option \<Rightarrow> native_tool \<Rightarrow> bash_args \<Rightarrow>
   (command_tool_error + spawn_request) option" where
  "bash_tool_call host scope t a =
     (case t of
        NT_BashReadOnly _ _ _ p \<Rightarrow> Some (read_only_bash_call host scope p a)
      | NT_BashUnrestricted _ _ _ p \<Rightarrow> Some (unrestricted_bash_call host scope p a)
      | _ \<Rightarrow> None)"

lemma bash_tool_callE:
  assumes "bash_tool_call host scope t a = Some (Inr req)"
  obtains p command args where "bash_policy_of t = Some p" "bash_tool_argv t a = (command, args)"
    "validated_run host scope p command args (ba_cwd a) = Inr req"
  using assms
  by (auto simp: bash_tool_call_def bash_policy_of_def bash_tool_argv_def read_only_bash_call_def
      unrestricted_bash_call_def split: native_tool.splits prod.splits)

section \<open>The executable policy against the effective one\<close>

definition executable_policy ::
  "bool \<Rightarrow> command_execution_policy option \<Rightarrow> tool_policy_bash \<Rightarrow> bash_mode \<Rightarrow>
   command_execution_policy" where
  "executable_policy macos cp eb bash =
     (case constrain_command_policy_to_effective_bash macos cp eb bash of
        Some p \<Rightarrow> p
      | None \<Rightarrow> if bash = BM_ReadOnly then cep_read_only default_read_only_commands
               else write_capable macos)"

lemma built_bash_tools:
  assumes "build_host_tools macos resolve_root file bash cp eb root names cl = Inr ts"
    and "t \<in> set (set_tools ts)" "bash_policy_of t = Some p"
  shows "bash \<noteq> BM_Off \<and> p = executable_policy macos cp eb bash \<and>
    ((\<exists>x y z. t = NT_BashReadOnly x y z p) \<longleftrightarrow> bash = BM_ReadOnly)"
  using assms unfolding build_host_tools_def
  by (auto simp: bind_res_Inr Let_def bash_policy_of_def builder_bash_read_only_def
      builder_bash_unrestricted_def executable_policy_def
      split: native_tool.splits bash_mode.splits option.splits if_splits)

text \<open>Every executable policy is a base policy with the effective one applied, or a default.\<close>

lemma executable_cases:
  assumes "bash \<noteq> BM_Off"
  obtains base where
      "executable_policy macos cp eb bash = apply_effective_bash base eb
         (fst (project_allowed_prefixes (pb_allowed eb))) (snd (project_allowed_prefixes (pb_allowed eb)))
         (pb_forbidden eb) (project_read_only_allowlist (pb_read_only_allowlist eb))"
      "bash = BM_ReadOnly \<Longrightarrow> cep_mode base = XM_ReadOnly"
      "cep_allowed_argv_prefixes base = (case cp of None \<Rightarrow> [] | Some q \<Rightarrow> cep_allowed_argv_prefixes q)"
    | "executable_policy macos cp eb bash =
         (if bash = BM_ReadOnly then cep_read_only default_read_only_commands else write_capable macos)"
      "cp = None" "\<not> imposes_constraint eb"
proof (cases "constrain_base cp bash")
  case None
  then have "cp = None" by (auto simp: constrain_base_def split: option.splits if_splits)
  then show thesis
    using that(2) that(1) [of "if bash = BM_ReadOnly then default_read_only_command_policy
        else write_capable macos"] None assms
    by (cases "imposes_constraint eb")
       (auto simp: executable_policy_def constrain_command_policy_to_effective_bash_def
          default_read_only_command_policy_def cep_read_only_def write_capable_def split: prod.splits)
next
  case (Some b)
  then have "bash = BM_ReadOnly \<Longrightarrow> cep_mode b = XM_ReadOnly"
    "cep_allowed_argv_prefixes b = (case cp of None \<Rightarrow> [] | Some q \<Rightarrow> cep_allowed_argv_prefixes q)"
    by (auto simp: constrain_base_def default_read_only_command_policy_def cep_read_only_def
        split: option.splits if_splits)
  with Some show thesis
    using assms by (intro that(1) [of b])
      (auto simp: executable_policy_def constrain_command_policy_to_effective_bash_def
         split: prod.splits)
qed

lemma apply_effective_simps [simp]:
  "cep_mode (apply_effective_bash base eb al da fo ro) =
     meet_execution_mode (cep_mode base) (pb_execution_mode eb)"
  "cep_network_mode (apply_effective_bash base eb al da fo ro) =
     meet_network_mode (cep_network_mode base) (pb_network_mode eb)"
  "cep_deny_all_argv (apply_effective_bash base eb al da fo ro) = (da \<or> cep_deny_all_argv base)"
  "cep_forbidden_argv_prefixes (apply_effective_bash base eb al da fo ro) =
     (if fo \<noteq> [] then fo else cep_forbidden_argv_prefixes base)"
  "cep_allowed_argv_prefixes (apply_effective_bash base eb al da fo ro) =
     (if da then [] else case al of Some a \<Rightarrow> a | None \<Rightarrow> cep_allowed_argv_prefixes base)"
  "cep_read_only_allowlist (apply_effective_bash base eb al da fo ro) =
     (case ro of Some l \<Rightarrow> l | None \<Rightarrow> cep_read_only_allowlist base)"
  by (auto simp: apply_effective_bash_def Let_def split: option.splits)

lemma executable_forbidden:
  "bash \<noteq> BM_Off \<Longrightarrow>
   set (pb_forbidden eb) \<subseteq> set (cep_forbidden_argv_prefixes (executable_policy macos cp eb bash))"
  by (erule executable_cases [where cp = cp and eb = eb and macos = macos])
     (auto simp: imposes_constraint_def)

lemma executable_allowed:
  assumes "bash \<noteq> BM_Off" "pb_allowed eb \<noteq> SAll"
    "\<not> cep_deny_all_argv (executable_policy macos cp eb bash)"
  shows "cep_allowed_argv_prefixes (executable_policy macos cp eb bash) = scope_keys (pb_allowed eb) \<and>
         scope_keys (pb_allowed eb) \<noteq> []"
  using assms(1)
proof (cases rule: executable_cases [where cp = cp and eb = eb and macos = macos])
  case (1 base)
  then show ?thesis
    using assms(2,3) by (cases "pb_allowed eb") (auto simp: project_allowed_prefixes_def split: if_splits)
next
  case 2
  then show ?thesis
    using assms(2) by (cases "pb_allowed eb") (auto simp: imposes_constraint_def project_allowed_prefixes_def)
qed

lemma executable_read_only_allowlist:
  assumes "bash \<noteq> BM_Off" "pb_read_only_allowlist eb \<noteq> SAll"
  shows "cep_read_only_allowlist (executable_policy macos cp eb bash)
           = scope_keys (pb_read_only_allowlist eb)"
  using assms(1)
proof (cases rule: executable_cases [where cp = cp and eb = eb and macos = macos])
  case (1 base)
  then show ?thesis
    using assms(2)
    by (cases "pb_read_only_allowlist eb") (auto simp: project_read_only_allowlist_def split: if_splits)
next
  case 2
  then show ?thesis
    using assms(2)
    by (cases "pb_read_only_allowlist eb")
       (auto simp: imposes_constraint_def project_read_only_allowlist_def split: if_splits)
qed

lemma executable_mode:
  assumes "bash \<noteq> BM_Off" "bash = BM_Unrestricted \<Longrightarrow> cp \<noteq> None"
  shows "command_execution_mode_rank (cep_mode (executable_policy macos cp eb bash))
           \<le> command_execution_mode_rank (pb_execution_mode eb)"
    and "bash = BM_ReadOnly \<Longrightarrow> cep_mode (executable_policy macos cp eb bash) = XM_ReadOnly"
proof -
  have le: "command_execution_mode_rank (cep_mode p) \<le> command_execution_mode_rank (pb_execution_mode eb) \<and>
      (bash = BM_ReadOnly \<longrightarrow> cep_mode p = XM_ReadOnly)"
    if "p = executable_policy macos cp eb bash" for p
    using assms(1)
  proof (cases rule: executable_cases [where cp = cp and eb = eb and macos = macos])
    case (1 base)
    then show ?thesis
      using that by (cases "cep_mode base"; cases "pb_execution_mode eb")
        (auto simp: meet_execution_mode_def command_execution_mode_meet_def)
  next
    case 2
    then show ?thesis
      using assms that by (cases bash) (auto simp: cep_read_only_def)
  qed
  then show "command_execution_mode_rank (cep_mode (executable_policy macos cp eb bash))
      \<le> command_execution_mode_rank (pb_execution_mode eb)"
    "bash = BM_ReadOnly \<Longrightarrow> cep_mode (executable_policy macos cp eb bash) = XM_ReadOnly"
    by simp_all
qed

section \<open>Commands under the ceiling\<close>

lemma or_false_iff [simp]: "or_false b \<longleftrightarrow> b = Some True"
  by (cases b) auto

lemma document_command_mode:
  assumes "command_policy_from_document macos from_json doc bash = Inr cp"
  shows "case cp of None \<Rightarrow> bash \<noteq> BM_Unrestricted | Some p \<Rightarrow> cep_mode p \<noteq> XM_ReadOnly \<longrightarrow> bash = BM_Unrestricted"
  using assms unfolding command_policy_from_document_def
  by (cases bash) (auto simp: bind_res_Inr Let_def split: if_splits)

lemma selection_from_documentE:
  assumes "selection_from_document macos from_json doc = Inr s"
  obtains "nonblank (sd_tool_policy_version doc) = Some (lit ''tool-policy/v1'')"
    and "ts_bash s \<noteq> BM_Off \<Longrightarrow> sd_enable_bash doc = Some True"
    and "ts_file_tools s \<noteq> FM_Off \<Longrightarrow> sd_enable_file_tools doc = Some True"
    and "command_policy_from_document macos from_json doc (ts_bash s) = Inr (ts_command_policy s)"
    and "ts_enable_meta_tools s = (sd_enable_meta_tools doc = Some True)"
    and "ts_allowed_mcp_service_ids s = or_empty (sd_allowed_mcp_service_ids doc)"
    and "ts_enable_goal_tools s = (sd_enable_goal_tools doc = Some True)"
    and "ts_enable_goal_creation s = (sd_enable_goal_creation doc = Some True)"
    and "ts_enable_memory s = (sd_enable_memory doc = Some True)"
    and "ts_enable_session_history_tool s = (sd_enable_session_history_tool doc = Some True)"
    and "ts_enable_context_budget s = (sd_enable_context_budget doc = Some True)"
    and "ts_enable_defra_query s = (sd_enable_defra_query doc = Some True)"
    and "ts_enable_self_config s = (sd_enable_self_config doc = Some True)"
    and "ts_enable_lsp s = (sd_enable_lsp doc = Some True)"
    and "ts_eth_queries s = []" and "ts_eth_calls s = []"
  using assms unfolding selection_from_document_def tool_policy_version_parse_def v1_default_enabled_def
    resolve_goal_capabilities_def
  by (auto simp: bind_res_Inr split: if_splits option.splits)

lemma document_bash_policy:
  assumes "selection_from_document macos from_json doc = Inr s"
  shows "ts_bash s = BM_Unrestricted \<Longrightarrow> ts_command_policy s \<noteq> None"
proof (rule selection_from_documentE [OF assms], goal_cases)
  case 1
  then show ?case
    using document_command_mode [OF 1(5)] by (simp split: option.splits)
qed

lemma static_below_ceiling: "bash_le (ps_bash (static_policy_of s sub cl)) (ps_bash (cl_policy cl))"
  using effective_bounds(2) [of "policy_from_selection s sub" "cl_policy cl" runtime_all]
  by (simp add: static_policy_of_def surface_le_def)

lemma scope_keys_permits:
  assumes "scope_le vle a b" "k \<in> set (scope_keys a)"
  shows "permits b k"
proof -
  have "permits a k" using assms(2) by (cases a) auto
  with assms(1) show ?thesis by (rule permits_mono)
qed

text \<open>
  How a checked command line is spawned: as it is, or as the command of a seatbelt. The limits an
  operator's bash ceiling puts on a spawned command, and the limit its command list puts on the head
  of a command that runs read-only.
\<close>

definition spawns_argv :: "ustring list \<Rightarrow> spawn_request \<Rightarrow> bool" where
  "spawns_argv argv req \<longleftrightarrow>
     (if sr_sandbox req = lit ''macos_seatbelt''
      then (\<exists>net root. sr_argv req = [lit ''/usr/bin/sandbox-exec'', lit ''-p'', macos_workspace_write_policy net,
              lit ''-DWRITABLE_ROOT='' @ root, lit ''--''] @ argv)
      else sr_argv req = argv)"

definition within_bash_ceiling ::
  "tool_policy_bash \<Rightarrow> ustring list \<Rightarrow> spawn_request \<Rightarrow> bool" where
  "within_bash_ceiling c argv req \<longleftrightarrow>
     pb_tool c \<noteq> BM_Off \<and> spawns_argv argv req \<and>
     (sr_sandbox req \<noteq> lit ''policy_read_only'' \<longrightarrow>
        pb_tool c = BM_Unrestricted \<and> pb_execution_mode c \<noteq> XM_ReadOnly) \<and>
     (sr_sandbox req = lit ''unsandboxed_unrestricted'' \<longrightarrow> pb_execution_mode c = XM_Unrestricted) \<and>
     list_all (\<lambda>pfx. \<not> Sublist.prefix pfx argv) (pb_forbidden c) \<and>
     (pb_allowed c \<noteq> SAll \<longrightarrow> list_ex (\<lambda>pfx. Sublist.prefix pfx argv) (scope_keys (pb_allowed c)))"

definition head_on_command_list :: "tool_policy_bash \<Rightarrow> ustring \<Rightarrow> bool" where
  "head_on_command_list c command \<longleftrightarrow>
     pb_read_only_allowlist c = SAll \<or>
     built_in_allowlisted command (scope_keys (pb_read_only_allowlist c))"

lemma exec_rank_iff [simp]:
  "command_execution_mode_rank m = 0 \<longleftrightarrow> m = XM_ReadOnly"
  "2 \<le> command_execution_mode_rank m \<longleftrightarrow> m = XM_Unrestricted"
  by (cases m; simp)+

lemma bash_rank_iff [simp]:
  "bash_mode_rank m = 0 \<longleftrightarrow> m = BM_Off"
  "2 \<le> bash_mode_rank m \<longleftrightarrow> m = BM_Unrestricted"
  by (cases m; simp)+

lemma permits_keys: "permits s k \<Longrightarrow> s \<noteq> SAll \<Longrightarrow> k \<in> set (scope_keys s)"
  by (cases s) auto

lemma keys_below:
  assumes "scope_le vle a b" "b \<noteq> SAll"
  shows "a \<noteq> SAll" "set (scope_keys a) \<subseteq> set (scope_keys b)"
  using assms scope_keys_permits [OF assms(1)] by (auto intro: permits_keys)

lemma spawned_within:
  assumes bash: "bash \<noteq> BM_Off" "bash = BM_Unrestricted \<Longrightarrow> cp \<noteq> None"
    and le: "bash_le eb c" "bash_mode_rank bash \<le> bash_mode_rank (pb_tool c)"
    and run: "validated_run host scope (executable_policy macos cp eb bash) command args cwd = Inr req"
  shows "within_bash_ceiling c (command # args) req"
proof -
  let ?p = "executable_policy macos cp eb bash"
  let ?q = "effective_command_policy scope ?p"
  obtain dir program rest sandbox where
    val: "validate_command_policy command args ?q = Inr ()" and
    box: "sandboxed_command_for_policy host command args ?q = Inr (program, rest, sandbox)" and
    req: "req = \<lparr>sr_argv = program # rest, sr_cwd = dir, sr_sandbox = sandbox\<rparr>"
    by (rule validated_runE [OF run])
  note mode = executable_mode [OF bash, of macos eb]
  have ranks: "command_execution_mode_rank (cep_mode ?q) \<le> command_execution_mode_rank (pb_execution_mode c)"
    using effective_mode_le [of scope ?p] mode(1) le(1) by (auto simp: bash_le_def)
  have tool: "bash_mode_rank bash \<noteq> 0" "pb_tool c \<noteq> BM_Off"
    using bash(1) le(2) bash_rank_iff(1) [of bash] bash_rank_iff(1) [of "pb_tool c"] by auto
  have ro: "cep_mode ?q \<noteq> XM_ReadOnly \<Longrightarrow> pb_tool c = BM_Unrestricted"
    using mode(2) effective_read_only [of ?p scope] bash(1) le(2)
    by (cases bash; cases "pb_tool c") auto
  have box': "sandbox \<noteq> lit ''policy_read_only'' \<Longrightarrow> cep_mode ?q \<noteq> XM_ReadOnly"
    "sandbox = lit ''unsandboxed_unrestricted'' \<Longrightarrow> cep_mode ?q = XM_Unrestricted"
    using sandboxed_cases [OF box] by (cases "cep_mode ?q"; auto)+
  have forb: "\<not> Sublist.prefix pfx (command # args)" if "pfx \<in> set (pb_forbidden c)" for pfx
    using validated(1) [OF val] executable_forbidden [OF bash(1), of eb macos cp] le(1) that
    by (auto simp: bash_le_def)
  have allow: "list_ex (\<lambda>pfx. Sublist.prefix pfx (command # args)) (scope_keys (pb_allowed c))"
    if "pb_allowed c \<noteq> SAll"
  proof -
    have le': "scope_le unit_le (pb_allowed eb) (pb_allowed c)" using le(1) by (simp add: bash_le_def)
    have "\<not> cep_deny_all_argv ?p" using validated(2) [OF val] by simp
    then have "cep_allowed_argv_prefixes ?p = scope_keys (pb_allowed eb)" "scope_keys (pb_allowed eb) \<noteq> []"
      using executable_allowed [OF bash(1) keys_below(1) [OF le' that], of macos cp] by auto
    then show ?thesis
      using validated(3) [OF val] keys_below(2) [OF le' that] by (auto simp: list_ex_iff)
  qed
  have "spawns_argv (command # args) req"
    using sandboxed_cases [OF box] by (auto simp: req spawns_argv_def split: if_splits)
  then show ?thesis
    unfolding within_bash_ceiling_def
    using tool ro box' forb allow ranks
    by (cases "pb_execution_mode c"; cases "cep_mode ?q") (auto simp: req list_all_iff)
qed

lemma built_in_allowlisted_mono:
  "built_in_allowlisted command l \<Longrightarrow> set l \<subseteq> set l' \<Longrightarrow> built_in_allowlisted command l'"
  by (auto simp: built_in_allowlisted_def list_ex_iff)

lemma executable_allowed_sub:
  assumes "bash \<noteq> BM_Off"
    and "pb_allowed eb = SAll \<Longrightarrow> (case cp of None \<Rightarrow> [] | Some q \<Rightarrow> cep_allowed_argv_prefixes q) = []"
  shows "set (cep_allowed_argv_prefixes (executable_policy macos cp eb bash)) \<subseteq> set (scope_keys (pb_allowed eb))"
  using assms(1)
proof (cases rule: executable_cases [where cp = cp and eb = eb and macos = macos])
  case (1 base)
  then show ?thesis
    using assms(2) by (cases "pb_allowed eb") (auto simp: project_allowed_prefixes_def split: if_splits)
next
  case 2
  then show ?thesis by (auto simp: cep_read_only_def write_capable_def)
qed

lemma read_only_head_within:
  assumes "bash \<noteq> BM_Off" "bash_le eb c"
    and "pb_allowed eb = SAll \<Longrightarrow> (case cp of None \<Rightarrow> [] | Some q \<Rightarrow> cep_allowed_argv_prefixes q) = []"
    and run: "validated_run host None (executable_policy macos cp eb bash) command args cwd = Inr req"
    and ro: "sr_sandbox req = lit ''policy_read_only''"
    and none: "scope_keys (pb_allowed eb) = []"
  shows "head_on_command_list c command"
proof -
  let ?p = "executable_policy macos cp eb bash"
  have eff: "effective_command_policy None ?p = ?p" by (simp add: effective_command_policy_def)
  obtain dir program rest sandbox where
    val: "validate_command_policy command args ?p = Inr ()" and
    box: "sandboxed_command_for_policy host command args ?p = Inr (program, rest, sandbox)" and
    req: "req = \<lparr>sr_argv = program # rest, sr_cwd = dir, sr_sandbox = sandbox\<rparr>"
    by (rule validated_runE [OF run]) (simp only: eff)
  have mode: "cep_mode ?p = XM_ReadOnly"
    using sandboxed_cases [OF box] ro by (auto simp: req split: if_splits)
  show ?thesis
  proof (cases "pb_read_only_allowlist c = SAll")
    case False
    have le: "scope_le unit_le (pb_read_only_allowlist eb) (pb_read_only_allowlist c)"
      using assms(2) by (simp add: bash_le_def)
    have "set (cep_allowed_argv_prefixes ?p) \<subseteq> set (scope_keys (pb_allowed eb))"
      by (rule executable_allowed_sub) (fact assms)+
    then show ?thesis
      using none validated(5) [OF val mode] executable_read_only_allowlist [OF assms(1) keys_below(1) [OF le False]]
        keys_below(2) [OF le False]
      by (auto simp: head_on_command_list_def list_ex_iff intro: built_in_allowlisted_mono)
  qed (simp add: head_on_command_list_def)
qed

lemma static_allowed_SAll:
  assumes "pb_allowed (ps_bash (static_policy_of s sub cl)) = SAll"
  shows "(case ts_command_policy s of None \<Rightarrow> [] | Some q \<Rightarrow> cep_allowed_argv_prefixes q) = []"
  using assms
  by (auto simp: static_policy_of_def effective_def surface_meet_def bash_meet_def policy_from_selection_def
      bash_from_selection_def Let_def only_units_def split: if_splits option.splits)

lemma downgrade_bash_le: "bash_mode_rank (downgrade_bash r l) \<le> bash_mode_rank l"
  by (simp add: downgrade_bash_def)

lemma downgrade_bash_Unrestricted: "downgrade_bash r l = BM_Unrestricted \<Longrightarrow> r = BM_Unrestricted"
  by (cases r; cases l) (auto simp: downgrade_bash_def)

end
