(* ===== verification/Tool_Policy_Claims.thy ===== *)
theory Tool_Policy_Claims
  imports Tool_Selection_Props
begin

text \<open>
  The contract of the tool policy end to end: the effective policy is the greatest one below the
  behavior, the ceiling and the runtime; a command a bash tool spawns obeys the operator's ceiling;
  a disabled network and a workspace binding hold at the gate; capabilities are opt-in; declared query
  tools keep the filters the runtime fills; and the places where a restriction of the effective policy
  is lost on the way to the gate.
\<close>

section \<open>A concrete behavior\<close>

text \<open>
  A document that enables read-only bash, under a ceiling that allows two Git and file commands,
  forbids curl and disables the network; and the call \<^verbatim>\<open>git status\<close> on it.
\<close>

definition blank_document :: tool_selection_document where
  "blank_document = \<lparr>
    sd_tool_policy_version = None, sd_enable_file_tools = None, sd_file_tools_mode = None,
    sd_file_tool_root = None, sd_enable_bash = None, sd_bash_mode = None,
    sd_command_execution_policy = None, sd_command_allowed_argv_prefixes = None,
    sd_command_forbidden_argv_prefixes = None, sd_read_only_command_allowlist = None,
    sd_command_network_mode = None, sd_cli_tool_names = None, sd_enable_meta_tools = None,
    sd_enable_goal_tools = None, sd_enable_goal_creation = None,
    sd_allowed_mcp_service_ids = None, sd_required_mcp_service_ids = None,
    sd_backgroundable_tool_names = None, sd_approval_required_tools = None,
    sd_subagent_targets = None, sd_subagent_spawn_enabled = None,
    sd_subagent_steering_enabled = None, sd_subagent_background_enabled = None,
    sd_subagent_default_await_mode = None, sd_subagent_allow_cross_deployment = None,
    sd_enable_memory = None, sd_enable_session_history_tool = None,
    sd_enable_context_budget = None, sd_enable_defra_query = None,
    sd_defra_query_collections = None, sd_write_tools = None, sd_enable_self_config = None,
    sd_self_config_categories = None, sd_self_config_no_lockout = None,
    sd_self_config_dry_run = None, sd_enable_lsp = None, sd_lsp_config = None\<rparr>"

definition demo_document :: tool_selection_document where
  "demo_document = blank_document\<lparr>sd_tool_policy_version := Some (lit ''tool-policy/v1''),
     sd_enable_bash := Some True, sd_bash_mode := Some (lit ''ReadOnly'')\<rparr>"

definition demo_ceiling :: tool_ceiling where
  "demo_ceiling = with_policy
     (runtime_all\<lparr>ps_bash := bash_unrestricted\<lparr>pb_network_mode := NM_Disabled,
        pb_allowed := only_units [[lit ''git''], [lit ''cat'']], pb_forbidden := [[lit ''curl'']]\<rparr>\<rparr>)
     (ceiling_readwrite (lit ''/srv''))"

definition open_ceiling :: tool_ceiling where
  "open_ceiling = with_policy
     (runtime_all\<lparr>ps_bash := bash_unrestricted\<lparr>pb_network_mode := NM_Disabled\<rparr>\<rparr>)
     (ceiling_readwrite (lit ''/srv''))"

definition demo_subagents :: subagent_tool_config where
  "demo_subagents = subagent_config_from_document (\<lambda>_. None) demo_document"

definition demo_selection :: tool_selection where
  "demo_selection = projr (selection_from_document False (\<lambda>_. None) demo_document)"

definition demo_tools :: "tool_ceiling \<Rightarrow> tool_set" where
  "demo_tools cl = projr (behavior_host_tools False Inr demo_selection demo_subagents cl)"

definition demo_bash :: "tool_ceiling \<Rightarrow> native_tool" where
  "demo_bash cl = hd (set_tools (demo_tools cl))"

definition demo_host :: command_host where
  "demo_host = \<lparr>ch_root = lit ''/srv'', ch_macos = False, ch_sandbox_exec = False,
     ch_resolve_dir = (\<lambda>_. Inr (lit ''/srv''))\<rparr>"

definition git_status :: bash_args where
  "git_status = \<lparr>ba_command = lit ''git'', ba_args = [lit ''status''], ba_cwd = None\<rparr>"

definition git_status_spawn :: spawn_request where
  "git_status_spawn = \<lparr>sr_argv = [lit ''git'', lit ''status''], sr_cwd = lit ''/srv'',
     sr_sandbox = lit ''policy_read_only''\<rparr>"

lemmas selection_defs = selection_from_document_def demo_document_def blank_document_def
  tool_policy_version_parse_def nonblank_def command_policy_from_document_def has_command_policy_def
  lift_mode_def or_text_def bash_mode_parse_def Let_def resolve_goal_capabilities_def
  v1_default_enabled_def

lemma trim_demo [simp]:
  "trim (lit ''tool-policy/v1'') = lit ''tool-policy/v1''" "trim (lit ''ReadOnly'') = lit ''ReadOnly''"
  by (rule trim_lit; simp add: is_ws_def)+

lemma demo_selection_doc:
  "selection_from_document False (\<lambda>_. None) demo_document = Inr demo_selection"
  by (simp add: demo_selection_def selection_defs)

lemma demo_selection_facts [simp]:
  "ts_bash demo_selection = BM_ReadOnly" "ts_file_tools demo_selection = FM_Off"
  "ts_command_policy demo_selection = None" "ts_cli_tool_names demo_selection = []"
  "ts_file_tool_root demo_selection = None"
  by (simp_all add: demo_selection_def selection_defs)

lemma demo_selection_merged:
  "demo_selection = demo_selection\<lparr>ts_write_tools := [], ts_query_tools := [], ts_eth_queries := [],
     ts_eth_calls := []\<rparr>"
  by (simp add: demo_selection_def selection_defs)

lemma demo_bash_selection: "bash_from_selection demo_selection = bash_off\<lparr>pb_tool := BM_ReadOnly\<rparr>"
  by (simp add: bash_from_selection_def bash_off_def bs_collect_def bt_collect_def)

lemma demo_static:
  "ps_bash (static_policy_of demo_selection sub cl) =
     bash_meet (bash_meet (bash_off\<lparr>pb_tool := BM_ReadOnly\<rparr>) (ps_bash (cl_policy cl))) bash_unrestricted"
  by (simp add: static_policy_of_def effective_def surface_meet_def policy_from_selection_def runtime_all_def demo_bash_selection)

definition demo_bash_tool :: "tool_ceiling \<Rightarrow> native_tool" where
  "demo_bash_tool cl =
     NT_BashReadOnly (cl_command_timeout cl) (max (command_timeout_max cl) (cl_command_timeout cl))
       default_read_only_commands
       (executable_policy False None (ps_bash (static_policy_of demo_selection demo_subagents cl))
          BM_ReadOnly)"

lemma demo_tools_eq:
  assumes "pb_tool (ps_bash (cl_policy cl)) = BM_Unrestricted" "cl_root cl = Some r"
  shows "behavior_host_tools False Inr demo_selection demo_subagents cl = Inr (demo_tools cl)"
    and "set_tools (demo_tools cl) = [demo_bash cl]"
    and "demo_bash cl = demo_bash_tool cl"
proof -
  have b: "downgrade_bash BM_ReadOnly
      (pb_tool (ps_bash (static_policy_of demo_selection demo_subagents cl))) = BM_ReadOnly"
    using assms(1)
    by (simp add: demo_static bash_meet_def meet_bash_mode_def downgrade_bash_def bash_off_def
        bash_unrestricted_def)
  have f: "downgrade_file_tools FM_Off x = FM_Off" for x
    by (simp add: downgrade_file_tools_def)
  have n: "List.map_filter (ceiling_cli_tool cl) (dedupe_strings (filter_cli_names p [])) = []" for p
    by (simp add: filter_cli_names_def dedupe_strings_def List.map_filter_simps split: endpoint_scope.split)
  have "behavior_host_tools False Inr demo_selection demo_subagents cl
      = Inr \<lparr>set_tools = [demo_bash_tool cl], set_read_root = Some r\<rparr>"
    using assms(2)
    by (simp add: behavior_host_tools_def Let_def b f n build_host_tools_def
        resolve_effective_tool_root_def builder_bash_read_only_def executable_policy_def
        demo_bash_tool_def)
  then show "behavior_host_tools False Inr demo_selection demo_subagents cl = Inr (demo_tools cl)"
    "set_tools (demo_tools cl) = [demo_bash cl]" "demo_bash cl = demo_bash_tool cl"
    by (simp_all add: demo_tools_def demo_bash_def)
qed

lemma demo_ceilings [simp]:
  "pb_tool (ps_bash (cl_policy demo_ceiling)) = BM_Unrestricted" "cl_root demo_ceiling = Some (lit ''/srv'')"
  "pb_tool (ps_bash (cl_policy open_ceiling)) = BM_Unrestricted" "cl_root open_ceiling = Some (lit ''/srv'')"
  by (simp_all add: demo_ceiling_def open_ceiling_def with_policy_def refresh_cli_policy_def runtime_all_def bash_unrestricted_def ceiling_readwrite_def ceiling_of_def)

definition demo_policy :: command_execution_policy where
  "demo_policy = executable_policy False None
     (ps_bash (static_policy_of demo_selection demo_subagents demo_ceiling)) BM_ReadOnly"

lemmas ceiling_defs = with_policy_def refresh_cli_policy_def runtime_all_def ceiling_readwrite_def
  ceiling_of_def

lemma demo_policy_eq:
  "demo_policy = default_read_only_command_policy
     \<lparr>cep_allowed_argv_prefixes := [[lit ''cat''], [lit ''git'']],
      cep_forbidden_argv_prefixes := [[lit ''curl'']], cep_network_mode := NM_Disabled\<rparr>"
  unfolding demo_policy_def demo_static by (simp add: demo_ceiling_def ceiling_defs) code_simp

lemma demo_bash_eq:
  "demo_bash demo_ceiling = NT_BashReadOnly 120 120 default_read_only_commands demo_policy"
  using demo_tools_eq(3) [OF demo_ceilings(1,2)]
  by (simp add: demo_policy_def demo_bash_tool_def command_timeout_max_def demo_ceiling_def ceiling_defs
      default_command_timeout_secs_def)

lemma demo_bash_run:
  "bash_tool_call demo_host None (demo_bash demo_ceiling) git_status = Some (Inr git_status_spawn)"
  unfolding demo_bash_eq demo_policy_eq by code_simp

lemma demo_run_bound:
  "bash_tool_call demo_host (Some WA_ReadWrite) (demo_bash demo_ceiling) git_status
     = Some (Inr git_status_spawn)"
  unfolding demo_bash_eq demo_policy_eq by code_simp

lemma demo_argv: "bash_tool_argv (demo_bash demo_ceiling) git_status = (lit ''git'', [lit ''status''])"
  by (simp add: demo_bash_eq bash_tool_argv_def git_status_def)

lemma demo_git_key: "command_key_of (lit ''git'') = lit ''git''"
  by code_simp

lemma open_ceiling_bash:
  "pb_allowed (ps_bash (cl_policy open_ceiling)) = SAll"
  "pb_forbidden (ps_bash (cl_policy open_ceiling)) = []"
  "pb_read_only_allowlist (ps_bash (cl_policy open_ceiling)) = SAll"
  "pb_network_mode (ps_bash (cl_policy open_ceiling)) = NM_Disabled"
  by (simp_all add: open_ceiling_def with_policy_def refresh_cli_policy_def bash_unrestricted_def)

text \<open>A declared query tool with one filter the runtime fills, and a policy that grants it.\<close>

definition demo_query :: query_tool_decl where
  "demo_query = \<lparr>qd_tool_name = lit ''find_notes'', qd_collection = lit ''Note'', qd_description = [],
     qd_fields = [lit ''title''],
     qd_filter_fields = [\<lparr>wf_name = lit ''owner'', wf_required = True, wf_fill = Some Correlation\<rparr>]\<rparr>"

lemma trim_demo_query [simp]:
  "trim (lit ''find_notes'') = lit ''find_notes''" "trim (lit ''Note'') = lit ''Note''"
  "trim (lit ''title'') = lit ''title''" "trim (lit ''owner'') = lit ''owner''"
  by (rule trim_lit; simp add: is_ws_def)+

lemma demo_query_kept:
  "demo_query \<in> set (query_decls_for_runtime
     (runtime_all\<lparr>ps_query_tools := SOnly [((lit ''find_notes'', lit ''Note''),
        [lit ''owner'', lit ''title''])]\<rparr>) [demo_query])"
  by (simp add: query_decls_for_runtime_def narrow_query_decl_def query_is_well_formed_def demo_query_def
      List.map_filter_simps)

definition disjoint_bash :: tool_policy_bash where
  "disjoint_bash = bash_unrestricted\<lparr>pb_allowed :=
     meet_with meet_unit_value (only_units [[lit ''git'']]) (only_units [[lit ''ls'']])\<rparr>"

section \<open>Commands under the ceiling\<close>

text \<open>C21. A command a bash tool spawns obeys the operator's ceiling. The tool was built from a
  selection document (with the datastore and contract tools merged in) under a ceiling; whatever
  workspace authority the request carries, what is spawned is the command line that was checked, as it
  is or inside the seatbelt wrapper; it starts with no prefix the ceiling
  forbids and with one it allows when it lists any, the ceiling has bash, a command that is not run
  read-only needs a ceiling with unrestricted bash, and one that runs without a sandbox needs a
  ceiling whose execution mode is unrestricted. The ceiling's command list is weaker: a read-only
  command of an unbound request has its head on it, when there is one, provided the effective policy
  lists no allowed prefixes; \<open>prefix_overrides_command_list\<close> shows that it may not otherwise.\<close>

theorem spawned_command_within_ceiling:
  assumes "selection_from_document macos from_json doc = Inr s0"
    and "s = s0\<lparr>ts_write_tools := w, ts_query_tools := q, ts_eth_queries := eqs, ts_eth_calls := ecs\<rparr>"
    and "behavior_host_tools macos resolve_root s sub cl = Inr ts"
    and "t \<in> set (set_tools ts)"
    and "bash_tool_call host scope t a = Some (Inr req)"
    and "bash_tool_argv t a = (command, args)"
  shows "within_bash_ceiling (ps_bash (cl_policy cl)) (command # args) req \<and>
    (scope = None \<and> sr_sandbox req = lit ''policy_read_only'' \<and>
     scope_keys (pb_allowed (ps_bash (static_policy_of s sub cl))) = [] \<longrightarrow>
       head_on_command_list (ps_bash (cl_policy cl)) command)"
proof -
  let ?static = "static_policy_of s sub cl"
  let ?bash = "downgrade_bash (ts_bash s) (pb_tool (ps_bash ?static))"
  obtain p where p: "bash_policy_of t = Some p"
    and run: "validated_run host scope p command args (ba_cwd a) = Inr req"
    using bash_tool_callE [OF assms(5)] assms(6) by auto
  have built: "?bash \<noteq> BM_Off" "p = executable_policy macos (ts_command_policy s) (ps_bash ?static) ?bash"
    using built_bash_tools [OF assms(3) [unfolded behavior_host_tools_def Let_def] assms(4) p] by auto
  have cp: "ts_command_policy s \<noteq> None" if "?bash = BM_Unrestricted"
    using downgrade_bash_Unrestricted [OF that] document_bash_policy [OF assms(1)] assms(2) by simp
  have "bash_mode_rank ?bash \<le> bash_mode_rank (pb_tool (ps_bash (cl_policy cl)))"
    using downgrade_bash_le [of "ts_bash s"] static_below_ceiling [of s sub cl]
    by (auto simp: bash_le_def intro: order_trans)
  then have "within_bash_ceiling (ps_bash (cl_policy cl)) (command # args) req"
    using spawned_within [OF built(1) cp static_below_ceiling] run built(2) by blast
  moreover have "head_on_command_list (ps_bash (cl_policy cl)) command"
    if "scope = None" "sr_sandbox req = lit ''policy_read_only''" "scope_keys (pb_allowed (ps_bash ?static)) = []"
    using read_only_head_within [OF built(1) static_below_ceiling static_allowed_SAll] run built(2) that
    by blast
  ultimately show ?thesis by blast
qed

theorem spawned_command_within_ceiling_witness:
  "within_bash_ceiling (ps_bash (cl_policy demo_ceiling)) [lit ''git'', lit ''status''] git_status_spawn"
  using spawned_command_within_ceiling [OF demo_selection_doc demo_selection_merged
      demo_tools_eq(1) [OF demo_ceilings(1,2)] _ demo_bash_run demo_argv]
  by (simp add: demo_tools_eq(2) [OF demo_ceilings(1,2)])

text \<open>The operator's command list does not bound a behavior that lists prefixes: with \<^verbatim>\<open>curl\<close> as an
  allowed prefix of the behavior and \<^verbatim>\<open>ls\<close> as the only command of the ceiling's list, \<^verbatim>\<open>curl\<close> is spawned
  read-only.\<close>

definition listing_ceiling :: tool_policy_bash where
  "listing_ceiling = bash_unrestricted\<lparr>pb_read_only_allowlist := only_units [lit ''ls'']\<rparr>"

definition curl_behavior :: tool_policy_bash where
  "curl_behavior = bash_off\<lparr>pb_tool := BM_ReadOnly, pb_allowed := only_units [[lit ''curl'']],
     pb_network_mode := NM_Enabled\<rparr>"

theorem prefix_overrides_command_list:
  "scope_keys (pb_read_only_allowlist listing_ceiling) = [lit ''ls''] \<and>
   validated_run demo_host None
     (executable_policy False None (bash_meet (bash_meet curl_behavior listing_ceiling) bash_unrestricted) BM_ReadOnly)
     (lit ''curl'') [lit ''-I'', lit ''https://example.org''] None =
   Inr \<lparr>sr_argv = [lit ''curl'', lit ''-I'', lit ''https://example.org''], sr_cwd = lit ''/srv'',
        sr_sandbox = lit ''policy_read_only''\<rparr>"
  by code_simp

section \<open>The effective policy\<close>

text \<open>C20. The effective policy grants no more than the behavior, the ceiling or the runtime, in
  any mode, flag, endpoint or field, and it is the most permissive such policy: a policy is below
  the effective one exactly when it is below all three.\<close>

theorem effective_is_greatest_common_policy:
  "surface_le (effective b c r) b \<and> surface_le (effective b c r) c \<and> surface_le (effective b c r) r \<and>
   (surface_le z (effective b c r) \<longleftrightarrow> surface_le z b \<and> surface_le z c \<and> surface_le z r)"
  using effective_bounds by (simp add: effective_def surfaces.le_meet_iff conj_assoc)

section \<open>Network and Git\<close>

lemma disabled_network_cases:
  assumes "validate_network_mode command args p = Inr ()" "cep_network_mode p = NM_Disabled"
  shows "cep_mode p = XM_WorkspaceWrite \<or>
    cep_mode p = XM_ReadOnly \<and> command_key_of command \<noteq> lit ''curl'' \<and>
    (command_key_of command = lit ''tailscale'' \<longrightarrow>
       (\<forall>x. first_of args = Some x \<longrightarrow> \<not> one_of x [''ping'', ''netcheck'']))"
  using assms
  by (cases "cep_mode p"; cases args)
     (auto simp: validate_network_mode_def validate_read_only_network_disabled_def Let_def
        split: if_splits)

lemma seatbelt_without_network:
  "\<not> str_contains (macos_workspace_write_policy NM_Disabled) (lit ''network'')"
  by (simp add: macos_workspace_write_policy_def allows_network_def lit_def starts_with_def)

text \<open>A bash tool whose policy disables the network never spawns a command outside its reach:
  no command runs unsandboxed; a sandboxed one runs under a seatbelt profile that has no network
  rule; a read-only one is neither curl nor a Tailscale probe.\<close>

theorem disabled_network_is_enforced:
  assumes "bash_tool_call host scope t a = Some (Inr req)"
    and "bash_policy_of t = Some p" and "cep_network_mode p = NM_Disabled"
    and "bash_tool_argv t a = (command, args)"
  shows "sr_sandbox req = lit ''macos_seatbelt'' \<and>
      (\<exists>profile rest. sr_argv req = lit ''/usr/bin/sandbox-exec'' # lit ''-p'' # profile # rest \<and>
         \<not> str_contains profile (lit ''network'')) \<or>
    sr_sandbox req = lit ''policy_read_only'' \<and> sr_argv req = command # args \<and>
      command_key_of command \<noteq> lit ''curl'' \<and>
      (command_key_of command = lit ''tailscale'' \<longrightarrow>
         (\<forall>x. first_of args = Some x \<longrightarrow> \<not> one_of x [''ping'', ''netcheck'']))"
proof -
  let ?q = "effective_command_policy scope p"
  have run: "validated_run host scope p command args (ba_cwd a) = Inr req"
    using bash_tool_callE [OF assms(1)] assms(2,4) by auto
  obtain dir program rest sandbox where
    val: "validate_command_policy command args ?q = Inr ()" and
    box: "sandboxed_command_for_policy host command args ?q = Inr (program, rest, sandbox)" and
    req: "req = \<lparr>sr_argv = program # rest, sr_cwd = dir, sr_sandbox = sandbox\<rparr>"
    by (rule validated_runE [OF run])
  have net: "cep_network_mode ?q = NM_Disabled" using assms(3) by simp
  show ?thesis
    using disabled_network_cases [OF validated(4) [OF val] net] sandboxed_cases [OF box]
      seatbelt_without_network
    by (auto simp: req assms(3))
qed

theorem disabled_network_is_enforced_witness:
  "cep_network_mode demo_policy = NM_Disabled \<and> sr_argv git_status_spawn = [lit ''git'', lit ''status'']"
proof -
  have "cep_network_mode demo_policy = NM_Disabled" by (simp add: demo_policy_eq)
  then show ?thesis
    using disabled_network_is_enforced [OF demo_bash_run _ _ demo_argv, of demo_policy]
    by (simp add: bash_policy_of_def demo_bash_eq git_status_spawn_def)
qed

lemma git_is_no_shell:
  "command_key_of command = lit ''git'' \<Longrightarrow> shell_command_script command args = None"
  by (auto simp: command_key_of_def shell_command_script_def split: option.splits)

lemma read_only_git: "validate_read_only_arguments (lit ''git'') args p = validate_git_args args p"
  by (simp add: validate_read_only_arguments_def)

text \<open>A request bound to a workspace cannot change shared Git metadata through the command
  gate: nothing it spawns runs unsandboxed, a direct Git call is a read whatever the authority, and
  when it may write (only with the read-write authority) every Git call the gate sees in a shell
  script is a read as well.\<close>

theorem workspace_bound_git_is_read:
  assumes "bash_tool_call host (Some authority) t a = Some (Inr req)"
    and "bash_tool_argv t a = (command, args)"
  shows "sr_sandbox req \<noteq> lit ''unsandboxed_unrestricted'' \<and>
    (command_key_of command = lit ''git'' \<longrightarrow> reads_git args) \<and>
    (sr_sandbox req \<noteq> lit ''policy_read_only'' \<longrightarrow> authority = WA_ReadWrite \<and>
       (case shell_command_script command args of None \<Rightarrow> True
        | Some script \<Rightarrow> list_all reads_git (git_invocations_in_script script)))"
proof -
  obtain p where run: "validated_run host (Some authority) p command args (ba_cwd a) = Inr req"
    using bash_tool_callE [OF assms(1)] assms(2) by auto
  let ?q = "effective_command_policy (Some authority) p"
  obtain dir program rest sandbox where
    val: "validate_command_policy command args ?q = Inr ()" and
    box: "sandboxed_command_for_policy host command args ?q = Inr (program, rest, sandbox)" and
    req: "req = \<lparr>sr_argv = program # rest, sr_cwd = dir, sr_sandbox = sandbox\<rparr>"
    by (rule validated_runE [OF run])
  have modes: "cep_mode ?q = XM_ReadOnly \<or>
      cep_mode ?q = XM_WorkspaceWrite \<and> cep_deny_git_metadata_writes ?q \<and> authority = WA_ReadWrite"
    using bound_guarded [of authority p]
    by (cases authority) (auto simp: effective_command_policy_def command_execution_mode_meet_def split: if_splits)
  then show ?thesis
  proof
    assume ro: "cep_mode ?q = XM_ReadOnly"
    then show ?thesis
      using sandboxed_cases [OF box] validated(6) [OF val ro]
      by (auto simp: req read_only_git intro: validate_git_args_reads)
  next
    assume ww: "cep_mode ?q = XM_WorkspaceWrite \<and> cep_deny_git_metadata_writes ?q \<and> authority = WA_ReadWrite"
    then have diff: "validate_git_worktree_diff_policy command args ?q = Inr ()"
      by (intro validated(7) [OF val]) auto
    show ?thesis
      using ww sandboxed_cases [OF box] diff
      by (auto simp: req validate_git_worktree_diff_policy_def git_is_no_shell list_all_iff
          intro: deny_git_metadata_write_reads deny_each_reads split: if_splits option.splits)
  qed
qed

theorem workspace_bound_git_is_read_witness:
  "sr_sandbox git_status_spawn \<noteq> lit ''unsandboxed_unrestricted'' \<and> reads_git [lit ''status'']"
  using workspace_bound_git_is_read [OF demo_run_bound demo_argv] demo_git_key by simp

section \<open>Selections and declared tools\<close>

text \<open>Every capability of a behavior is opt-in: a selection document is read only under the
  known policy version, and each mode, flag and endpoint family of the resulting policy is granted
  only if the document's own field says so; an omitted field grants nothing.\<close>

theorem capabilities_are_opt_in:
  assumes "selection_from_document macos from_json doc = Inr s"
    and "pol = policy_from_selection s (subagent_config_from_document parse_target doc)"
  shows "nonblank (sd_tool_policy_version doc) = Some (lit ''tool-policy/v1'') \<and>
    (ps_file pol \<noteq> FM_Off \<longrightarrow> sd_enable_file_tools doc = Some True) \<and>
    (pb_tool (ps_bash pol) \<noteq> BM_Off \<longrightarrow> sd_enable_bash doc = Some True) \<and>
    (pb_execution_mode (ps_bash pol) \<noteq> XM_ReadOnly \<longrightarrow> pb_tool (ps_bash pol) = BM_Unrestricted) \<and>
    (include_meta_tools pol \<longrightarrow>
       sd_enable_meta_tools doc = Some True \<and> or_empty (sd_allowed_mcp_service_ids doc) \<noteq> []) \<and>
    (include_goal_creation pol \<longrightarrow>
       sd_enable_goal_tools doc = Some True \<and> sd_enable_goal_creation doc = Some True) \<and>
    (include_defra_query pol \<longrightarrow> sd_enable_defra_query doc = Some True) \<and>
    (include_self_config pol \<longrightarrow> sd_enable_self_config doc = Some True) \<and>
    (ps_memory pol \<longrightarrow> sd_enable_memory doc = Some True) \<and>
    (ps_session_history pol \<longrightarrow> sd_enable_session_history_tool doc = Some True) \<and>
    (ps_context_budget pol \<longrightarrow> sd_enable_context_budget doc = Some True) \<and>
    (ps_spawn pol \<longrightarrow> sd_subagent_spawn_enabled doc = Some True) \<and>
    (ps_cross_deployment pol \<longrightarrow> sd_subagent_allow_cross_deployment doc = Some True) \<and>
    (ps_lsp pol \<longrightarrow> sd_enable_lsp doc = Some True \<and> sd_enable_file_tools doc = Some True) \<and>
    ps_eth_query_methods pol = SNone \<and> ps_eth_call_tools pol = SNone"
proof (rule selection_from_documentE [OF assms(1)], goal_cases)
  case 1
  have "pb_execution_mode (ps_bash pol) \<noteq> XM_ReadOnly \<longrightarrow> pb_tool (ps_bash pol) = BM_Unrestricted"
    using document_command_mode [OF 1(4)]
    by (cases "ts_bash s")
       (auto simp: assms(2) policy_from_selection_def bash_from_selection_def Let_def
          split: option.splits)
  with 1 show ?case
    by (simp add: assms(2) policy_from_selection_def bash_from_selection_def Let_def
        subagent_config_from_document_def include_meta_tools_def include_goal_creation_def
        include_defra_query_def include_self_config_def eth_query_scope_from_resolved_def
        eth_call_scope_from_resolved_def)
qed

theorem capabilities_are_opt_in_witness:
  "pb_tool (ps_bash (policy_from_selection demo_selection demo_subagents)) = BM_ReadOnly \<and>
   sd_enable_bash demo_document = Some True"
proof -
  have "pb_tool (ps_bash (policy_from_selection demo_selection demo_subagents)) = BM_ReadOnly"
    by (simp add: policy_from_selection_def demo_bash_selection)
  then show ?thesis
    using capabilities_are_opt_in [OF demo_selection_doc, of _ "\<lambda>_. None"]
    by (simp add: demo_subagents_def)
qed

lemma in_map_filter: "y \<in> set (List.map_filter f xs) \<longleftrightarrow> (\<exists>x \<in> set xs. f x = Some y)"
  by (induction xs) (auto simp: List.map_filter_simps split: option.split)

text \<open>Narrowing a declared query tool to what the policy grants never widens what it reads:
  each surviving tool is a declared one the policy permits, with fewer projected fields, at least
  one, and with every filter the runtime fills still in place.\<close>

theorem narrowed_queries_keep_filled_filters:
  assumes "d' \<in> set (query_decls_for_runtime p decls)"
  shows "\<exists>d. d \<in> set decls \<and> qd_tool_name d' = qd_tool_name d \<and> qd_collection d' = qd_collection d \<and>
    permits (ps_query_tools p) (trim (qd_tool_name d), trim (qd_collection d)) \<and>
    qd_fields d' \<noteq> [] \<and> set (qd_fields d') \<subseteq> set (qd_fields d) \<and>
    filter (\<lambda>f. wf_fill f \<noteq> None) (qd_filter_fields d')
      = filter (\<lambda>f. wf_fill f \<noteq> None) (qd_filter_fields d)"
proof -
  obtain d where d: "d \<in> set decls" and wf: "qd_fields d' \<noteq> []"
    and from_d: "(case ps_query_tools p of SNone \<Rightarrow> None | SAll \<Rightarrow> Some d
        | SOnly grants \<Rightarrow>
            Option.bind (map_of grants (trim (qd_tool_name d), trim (qd_collection d)))
              (\<lambda>fs. narrow_query_decl fs d)) = Some d'"
    using assms by (auto simp: query_decls_for_runtime_def query_is_well_formed_def in_map_filter)
  show ?thesis
  proof (cases "ps_query_tools p")
    case (SOnly grants)
    then obtain fs where fs: "map_of grants (trim (qd_tool_name d), trim (qd_collection d)) = Some fs"
      and narrow: "narrow_query_decl fs d = Some d'"
      using from_d by (auto split: option.splits simp: bind_eq_Some_conv)
    have kept: "wf_fill f \<noteq> None \<Longrightarrow> f \<in> set (qd_filter_fields d) \<Longrightarrow> trim (wf_name f) \<in> set fs" for f
      using narrow by (auto simp: narrow_query_decl_def list_ex_iff split: if_splits)
    have "filter (\<lambda>f. wf_fill f \<noteq> None) (filter (\<lambda>f. trim (wf_name f) \<in> set fs) (qd_filter_fields d))
        = filter (\<lambda>f. wf_fill f \<noteq> None) (qd_filter_fields d)"
      using kept by (auto simp: intro!: filter_cong)
    then show ?thesis
      using d wf narrow SOnly map_of_SomeD [OF fs]
      by (intro exI [of _ d]) (force simp: narrow_query_decl_def split: if_splits)
  qed (use d wf from_d in auto)
qed

theorem narrowed_queries_keep_filled_filters_witness:
  "\<exists>d. d \<in> set [demo_query] \<and> qd_tool_name demo_query = qd_tool_name d \<and>
    filter (\<lambda>f. wf_fill f \<noteq> None) (qd_filter_fields demo_query)
      = filter (\<lambda>f. wf_fill f \<noteq> None) (qd_filter_fields d)"
  using narrowed_queries_keep_filled_filters [OF demo_query_kept] by blast

section \<open>Where a restriction is lost\<close>

lemma disjoint_meet_entries:
  assumes "set as \<inter> set bs = {}"
  shows "meet_entries f (bt_collect (map (\<lambda>k. (k, ())) as)) (bt_collect (map (\<lambda>k. (k, ())) bs)) = []"
proof -
  have "map_of (meet_entries f (bt_collect (map (\<lambda>k. (k, ())) as))
      (bt_collect (map (\<lambda>k. (k, ())) bs))) k = None" for k
    using assms
    by (auto simp: map_of_meet_entries map_of_bt_collect split: option.splits dest!: map_of_SomeD)
  then show ?thesis
    by (metis list.exhaust map_of_eq_None_iff list.set_intros(1) image_eqI)
qed

text \<open>C37. When a behavior and its ceiling list disjoint allowed prefixes, their meet allows
  nothing. The bash gate refuses every command then, but the language-server gate, which turns the
  empty list of prefixes into no list at all, accepts every command (no forbidden prefixes, network not
  disabled, Git not denied).\<close>

theorem lsp_gate_opens_on_disjoint_prefixes:
  assumes "set as \<inter> set bs = {}"
    and "pb_allowed eb = meet_with meet_unit_value (only_units as) (only_units bs)"
    and "pb_forbidden eb = []" and "pb_network_mode eb \<noteq> NM_Disabled" and "\<not> pb_deny_git eb"
    and "bash \<noteq> BM_Off"
  shows "validate_command_policy command args (executable_policy macos cp eb bash) \<noteq> Inr () \<and>
    validate_command_policy_inner command args (Some admitted)
      (to_spawn_policy (constraints_from_effective_bash enforced eb None)) = Inr ()"
proof -
  have empty: "pb_allowed eb = SOnly []"
    using assms(1) by (simp add: assms(2) only_units_def disjoint_meet_entries)
  have "cep_deny_all_argv (executable_policy macos cp eb bash)"
    using executable_allowed [OF assms(6), of eb macos cp] empty by auto
  then have "validate_command_policy command args (executable_policy macos cp eb bash) \<noteq> Inr ()"
    using validated(2) by blast
  moreover have "validate_command_policy_inner command args (Some admitted)
      (to_spawn_policy (constraints_from_effective_bash enforced eb None)) = Inr ()"
    using assms(3-5)
    by (cases "pb_execution_mode eb"; cases "pb_network_mode eb"; cases enforced)
       (simp_all add: validate_command_policy_inner_def to_spawn_policy_def empty Let_def
          constraints_from_effective_bash_def lsp_sandbox_for_effective_def default_lsp_network_mode_def
          any_matching_prefix_def first_matching_prefix_def validate_network_mode_def
          command_network_mode_meet_def)
  ultimately show ?thesis ..
qed

theorem lsp_gate_opens_on_disjoint_prefixes_witness:
  "validate_command_policy (lit ''rm'') [] (executable_policy False None disjoint_bash BM_Unrestricted) \<noteq> Inr () \<and>
   validate_command_policy_inner (lit ''rm'') [] (Some (lit ''/bin/rm''))
     (to_spawn_policy (constraints_from_effective_bash False disjoint_bash None)) = Inr ()"
  by (rule lsp_gate_opens_on_disjoint_prefixes [where as = "[[lit ''git'']]" and bs = "[[lit ''ls'']]"])
     (simp_all add: disjoint_bash_def bash_unrestricted_def)

text \<open>C38. A read-only bash tool of a selection without command policy fields is built with the
  default policy when the ceiling lists no prefixes and no command heads, whatever network mode the
  ceiling has: with the network disabled by the ceiling, curl is still accepted.\<close>

theorem read_only_bash_ignores_network_ceiling:
  assumes "ts_command_policy s = None" and "ts_bash s = BM_ReadOnly"
    and "pb_allowed (ps_bash (cl_policy cl)) = SAll" and "pb_forbidden (ps_bash (cl_policy cl)) = []"
    and "pb_read_only_allowlist (ps_bash (cl_policy cl)) = SAll"
    and "behavior_host_tools macos resolve_root s sub cl = Inr ts"
    and "t \<in> set (set_tools ts)" and "bash_policy_of t = Some p"
  shows "p = default_read_only_command_policy \<and> cep_network_mode p = NM_Inherit \<and>
    validate_command_policy (lit ''curl'') [lit ''https://example.com''] p = Inr ()"
proof -
  let ?static = "static_policy_of s sub cl"
  let ?bash = "downgrade_bash (ts_bash s) (pb_tool (ps_bash ?static))"
  have built: "?bash \<noteq> BM_Off" "p = executable_policy macos (ts_command_policy s) (ps_bash ?static) ?bash"
    using built_bash_tools [OF assms(6) [unfolded behavior_host_tools_def Let_def] assms(7,8)] by auto
  have bash: "?bash = BM_ReadOnly"
    using built(1) assms(2) by (cases "pb_tool (ps_bash ?static)") (auto simp: downgrade_bash_def)
  have "\<not> imposes_constraint (ps_bash ?static)"
    using assms(1,3-5)
    by (simp add: imposes_constraint_def static_policy_of_def effective_def surface_meet_def bash_meet_def
        policy_from_selection_def bash_from_selection_def runtime_all_def bash_unrestricted_def
        bs_union_def bs_collect_def bt_collect_def project_allowed_prefixes_def
        project_read_only_allowlist_def)
  then have "p = default_read_only_command_policy"
    using built(2) bash assms(1)
    by (simp add: executable_policy_def constrain_command_policy_to_effective_bash_def constrain_base_def
        default_read_only_command_policy_def split: prod.split)
  moreover have "cep_network_mode default_read_only_command_policy = NM_Inherit"
    "validate_command_policy (lit ''curl'') [lit ''https://example.com''] default_read_only_command_policy = Inr ()"
    by code_simp+
  ultimately show ?thesis by simp
qed

theorem read_only_bash_ignores_network_ceiling_witness:
  "pb_network_mode (ps_bash (cl_policy open_ceiling)) = NM_Disabled \<and>
   bash_policy_of (demo_bash open_ceiling) = Some default_read_only_command_policy \<and>
   validate_command_policy (lit ''curl'') [lit ''https://example.com''] default_read_only_command_policy = Inr ()"
proof -
  obtain p where p: "bash_policy_of (demo_bash open_ceiling) = Some p"
    using demo_tools_eq(3) [OF demo_ceilings(3,4)] by (simp add: bash_policy_of_def demo_bash_tool_def)
  show ?thesis
    using read_only_bash_ignores_network_ceiling [OF demo_selection_facts(3,1) open_ceiling_bash(1-3)
        demo_tools_eq(1) [OF demo_ceilings(3,4)] _ p] open_ceiling_bash(4) p
    by (auto simp: demo_tools_eq(2) [OF demo_ceilings(3,4)])
qed

text \<open>A read-only policy whose command list is empty, as the meet of disjoint lists gives,
  refuses every command of an unbound request; binding the request to a workspace replaces the empty
  list by the default one, and the same policy then runs the default commands.\<close>

theorem workspace_binding_restores_default_commands:
  assumes "cep_mode p = XM_ReadOnly" and "cep_read_only_allowlist p = []"
    and "cep_allowed_argv_prefixes p = []" and "cep_forbidden_argv_prefixes p = []"
    and "\<not> cep_deny_all_argv p"
  shows "validate_command_policy command args (effective_command_policy None p) \<noteq> Inr () \<and>
    validate_command_policy (lit ''cat'') args (effective_command_policy (Some authority) p) = Inr ()"
proof -
  let ?q = "effective_command_policy (Some authority) p"
  have "cep_mode ?q = XM_ReadOnly"
    using assms(1) by (rule effective_read_only)
  moreover have "cep_read_only_allowlist ?q = default_read_only_commands"
    using assms(1,2)
    by (cases authority) (simp_all add: effective_command_policy_def apply_workspace_authority_def Let_def
        command_execution_mode_meet_def default_read_only_command_policy_def cep_read_only_def)
  moreover have "command_key_of (lit ''cat'') = lit ''cat''"
    "built_in_allowlisted (lit ''cat'') default_read_only_commands"
    by code_simp+
  ultimately have "validate_command_policy (lit ''cat'') args ?q = Inr ()"
    using assms(3-5)
    by (simp add: validate_command_policy_def validate_command_policy_inner_def first_matching_prefix_def
        validate_network_mode_def validate_read_only_network_disabled_def
        validate_read_only_command_inner_def validate_read_only_arguments_def Let_def)
  moreover have "validate_command_policy command args (effective_command_policy None p) \<noteq> Inr ()"
    using validated(5) [of command args p] assms(1-3)
    by (auto simp: effective_command_policy_def built_in_allowlisted_def)
  ultimately show ?thesis by simp
qed

theorem workspace_binding_restores_default_commands_witness:
  "validate_command_policy (lit ''ls'') [] (effective_command_policy None
     (default_read_only_command_policy\<lparr>cep_read_only_allowlist := []\<rparr>)) \<noteq> Inr () \<and>
   validate_command_policy (lit ''cat'') [] (effective_command_policy (Some WA_ReadOnly)
     (default_read_only_command_policy\<lparr>cep_read_only_allowlist := []\<rparr>)) = Inr ()"
  by (rule workspace_binding_restores_default_commands)
     (simp_all add: default_read_only_command_policy_def cep_read_only_def)

end
