(* ===== verification/Pairing_Routes.thy ===== *)
theory Pairing_Routes
  imports Ordered_Map
begin

text \<open>
  What a peer-to-peer route carries: the filters, scope templates and collection sets of
  \<^verbatim>\<open>agent/p2p_reconcile/templates.rs\<close>, the directional client route of \<^verbatim>\<open>policy.rs\<close> and the collection
  profiles of \<^verbatim>\<open>profiles.rs\<close>. The predicate type is DefraDB's; the parts of it the sources do not
  show (an access-control filter, the constructors \<^verbatim>\<open>eq\<close> and \<^verbatim>\<open>predicate\<close>) are arguments.
\<close>

section \<open>Filters\<close>

text \<open>\<^verbatim>\<open>p2p::ReplicationFilter\<close>, by the constructors the code matches on, and the adapter's own filter
  by the fields it reads.\<close>

datatype 'acp filter_predicate =
    Predicate "(ustring \<times> json) list"
  | All "'acp filter_predicate list"
  | Acp 'acp

type_synonym 'acp pairing_filters = "(ustring \<times> 'acp filter_predicate) list"

record replication_filter =
  rf_field :: ustring
  rf_value :: json
  rf_conditions :: "(ustring \<times> json) list option"

type_synonym replication_filters = "(ustring \<times> replication_filter) list"

record 'acp filter_api =
  fa_eq :: "ustring \<Rightarrow> json \<Rightarrow> 'acp filter_predicate"
  fa_predicate :: "(ustring \<times> json) list \<Rightarrow> replication_filter"

definition equality_filter :: "'acp filter_api \<Rightarrow> ustring \<Rightarrow> ustring \<Rightarrow> 'acp filter_predicate" where
  "equality_filter F field v = fa_eq F field (JStr v)"

definition filter_parts :: "'acp filter_predicate \<Rightarrow> 'acp filter_predicate list" where
  "filter_parts p = (case p of All nested \<Rightarrow> nested | _ \<Rightarrow> [p])"

definition first_occurrences :: "'a list \<Rightarrow> 'a list" where
  "first_occurrences xs = fold (\<lambda>x acc. if x \<in> set acc then acc else acc @ [x]) xs []"

definition combine_filters ::
  "'acp filter_predicate \<Rightarrow> 'acp filter_predicate \<Rightarrow> 'acp filter_predicate" where
  "combine_filters left right =
     (case first_occurrences (filter_parts left @ filter_parts right) of
        [p] \<Rightarrow> p
      | unique \<Rightarrow> All unique)"

fun filter_conditions :: "'acp filter_predicate \<Rightarrow> (ustring \<times> json) list option" where
  "filter_conditions (Predicate conditions) = Some conditions"
| "filter_conditions (All filters) =
     map_option (\<lambda>cs. [(lit ''_and'', JArr (map JObj cs))]) (those (map filter_conditions filters))"
| "filter_conditions (Acp _) = None"

definition to_replication_filters ::
  "'acp filter_api \<Rightarrow> 'acp pairing_filters \<Rightarrow> replication_filters option" where
  "to_replication_filters F filters =
     map_option bt_collect
       (those (map (\<lambda>(collection, f).
          map_option (\<lambda>cs. (collection, fa_predicate F cs)) (filter_conditions f)) filters))"

definition json_as_object :: "json \<Rightarrow> (ustring \<times> json) list option" where
  "json_as_object v = (case v of JObj m \<Rightarrow> Some m | _ \<Rightarrow> None)"

definition single_string_eq :: "'acp filter_predicate \<Rightarrow> (ustring \<times> ustring) option" where
  "single_string_eq f =
     (case f of
        Predicate [(field, v)] \<Rightarrow>
          (case json_as_object v of
             Some operators \<Rightarrow>
               (case map_of operators (lit ''_eq'') of
                  Some (JStr s) \<Rightarrow> if length operators = 1 then Some (field, s) else None
                | _ \<Rightarrow> None)
           | None \<Rightarrow> None)
      | _ \<Rightarrow> None)"

text \<open>\<^verbatim>\<open>collect\<close> of \<^verbatim>\<open>conjunctive_string_eq\<close>: whether to go on, and the value found so far.\<close>

fun collect_eq ::
  "ustring \<Rightarrow> 'acp filter_predicate \<Rightarrow> ustring option \<Rightarrow> bool \<times> ustring option"
and collect_eqs ::
  "ustring \<Rightarrow> 'acp filter_predicate list \<Rightarrow> ustring option \<Rightarrow> bool \<times> ustring option" where
  "collect_eq field (Predicate conditions) found =
     (case map_of conditions field of
        None \<Rightarrow> (True, found)
      | Some condition \<Rightarrow>
          (case Option.bind (Option.bind (json_as_object condition) (\<lambda>c. map_of c (lit ''_eq''))) json_as_str of
             None \<Rightarrow> (False, found)
           | Some v \<Rightarrow> (case found of Some e \<Rightarrow> (e = v, found) | None \<Rightarrow> (True, Some v))))"
| "collect_eq field (All filters) found = collect_eqs field filters found"
| "collect_eq field (Acp _) found = (False, found)"
| "collect_eqs field [] found = (True, found)"
| "collect_eqs field (f # fs) found =
     (case collect_eq field f found of
        (True, found') \<Rightarrow> collect_eqs field fs found'
      | (False, found') \<Rightarrow> (False, found'))"

definition conjunctive_string_eq :: "'acp filter_predicate \<Rightarrow> ustring \<Rightarrow> ustring option" where
  "conjunctive_string_eq f field =
     (case collect_eq field f None of (True, found) \<Rightarrow> found | (False, _) \<Rightarrow> None)"

section \<open>Templates\<close>

datatype delivery = Push | Replicate

datatype did_source = LocalDid | PeerDid | HomeDid

record collection_rule =
  cr_collection :: ustring
  cr_field :: ustring
  cr_source :: did_source

datatype route_scope =
    ScopePeerDid ustring
  | Unscoped
  | PerCollection "collection_rule list"
  | ClientRoute

record scope_template =
  st_id :: ustring
  st_collections :: "ustring list"
  st_scope :: route_scope
  st_delivery :: delivery

definition rule_of :: "string \<Rightarrow> string \<Rightarrow> did_source \<Rightarrow> collection_rule" where
  "rule_of c f s = \<lparr>cr_collection = lit c, cr_field = lit f, cr_source = s\<rparr>"

definition conversation_transcript_collections :: "ustring list" where
  "conversation_transcript_collections = map lit
     [''AgentRequest'', ''AgentResponse'', ''AgentMessage'', ''AgentToolCall'', ''AgentToolResult'',
      ''AgentSession'', ''AgentConversation'', ''CompactionEntry'']"

definition conversation_collections :: "ustring list" where
  "conversation_collections = map lit
     [''AgentRequest'', ''AgentResponse'', ''AgentMessage'', ''AgentToolCall'', ''AgentToolResult'',
      ''AgentSession'', ''AgentConversation'', ''CompactionEntry'', ''AgentBehavior'',
      ''ToolSelection'', ''InferenceBackend'', ''InferenceProfile'', ''ToolServiceRegistry'',
      ''Skill'', ''DatastoreToolSurface'', ''ChainKeyBinding'', ''EthTool'']"

definition client_collections :: "ustring list" where
  "client_collections = map lit
     [''AgentRequest'', ''AgentResponse'', ''AgentMessage'', ''AgentToolCall'', ''AgentToolResult'',
      ''AgentSession'', ''AgentConversation'', ''CompactionEntry'', ''MailboxItem'',
      ''PersonaConfigRequest'', ''PeerEndpoint'', ''SessionHydrationRequest'', ''AgentBehavior'',
      ''ToolSelection'', ''InferenceProfile'', ''ToolServiceRegistry'', ''Skill'',
      ''DatastoreToolSurface'', ''ChainKeyBinding'', ''EthTool'', ''Task'', ''Schedule'',
      ''EventTrigger'', ''AgentBehaviorReadiness'']"

definition client_to_runtime_collections :: "ustring list" where
  "client_to_runtime_collections = map lit
     [''AgentRequest'', ''AgentResponse'', ''AgentMessage'', ''AgentToolCall'', ''AgentToolResult'',
      ''AgentSession'', ''AgentConversation'', ''CompactionEntry'', ''MailboxItem'',
      ''PersonaConfigRequest'', ''PeerEndpoint'', ''SessionHydrationRequest'']"

definition conversation_rules :: "collection_rule list" where
  "conversation_rules = map (\<lambda>c. rule_of c ''requester_did'' PeerDid)
     [''AgentRequest'', ''AgentResponse'', ''AgentMessage'', ''AgentToolCall'', ''AgentToolResult'',
      ''AgentSession'', ''AgentConversation'', ''CompactionEntry'']"

definition client_index_collections :: "ustring list" where
  "client_index_collections = map lit [''AgentConversation'', ''AgentSession'', ''MailboxItem'']"

definition client_index_rules :: "collection_rule list" where
  "client_index_rules = map (\<lambda>c. rule_of c ''requester_did'' PeerDid)
     [''AgentConversation'', ''AgentSession'', ''MailboxItem'']"

definition machine_collections :: "ustring list" where
  "machine_collections = map lit
     [''AgentRequest'', ''AgentResponse'', ''AgentMessage'', ''AgentToolCall'', ''AgentToolResult'',
      ''AgentSession'', ''AgentConversation'', ''CompactionEntry'', ''MailboxItem'',
      ''AgentBehavior'', ''ToolSelection'', ''InferenceBackend'', ''InferenceProfile'',
      ''ToolServiceRegistry'', ''Skill'', ''DatastoreToolSurface'', ''ChainKeyBinding'', ''EthTool'',
      ''SessionHydrationRequest'', ''AgentDirectoryEntry'']"

definition machine_rules :: "collection_rule list" where
  "machine_rules = map (\<lambda>c. rule_of c ''requester_did'' PeerDid)
     [''AgentRequest'', ''AgentResponse'', ''AgentMessage'', ''AgentToolCall'', ''AgentToolResult'',
      ''AgentSession'', ''AgentConversation'', ''CompactionEntry'', ''MailboxItem'',
      ''SessionHydrationRequest''] @
     [rule_of ''AgentDirectoryEntry'' ''source_did'' HomeDid]"

definition agent_config_collections :: "ustring list" where
  "agent_config_collections = map lit
     [''AgentBehavior'', ''ToolSelection'', ''InferenceBackend'', ''InferenceProfile'',
      ''ToolServiceRegistry'', ''Skill'', ''DatastoreToolSurface'', ''ChainKeyBinding'', ''EthTool'']"

definition subagent_coordinator_collections :: "ustring list" where
  "subagent_coordinator_collections = [lit ''AgentToolCall'']"

definition subagent_coordinator_rules :: "collection_rule list" where
  "subagent_coordinator_rules = [rule_of ''AgentToolCall'' ''spawn_target_did'' PeerDid]"

definition subagent_host_collections :: "ustring list" where
  "subagent_host_collections = map lit
     [''AgentRequest'', ''AgentResponse'', ''AgentMessage'', ''AgentToolCall'']"

definition subagent_host_rules :: "collection_rule list" where
  "subagent_host_rules = map (\<lambda>c. rule_of c ''requester_did'' PeerDid)
     [''AgentRequest'', ''AgentResponse'', ''AgentMessage'', ''AgentToolCall'']"

definition app_collections_template :: ustring where
  "app_collections_template = lit ''app-collections''"

definition client_template :: ustring where
  "client_template = lit ''client''"

definition template_of :: "string \<Rightarrow> ustring list \<Rightarrow> route_scope \<Rightarrow> delivery \<Rightarrow> scope_template" where
  "template_of i cs s d = \<lparr>st_id = lit i, st_collections = cs, st_scope = s, st_delivery = d\<rparr>"

definition builtin_templates :: "scope_template list" where
  "builtin_templates =
     [template_of ''conversation'' conversation_collections (PerCollection conversation_rules) Push,
      template_of ''machine'' machine_collections (PerCollection machine_rules) Push,
      template_of ''client'' client_collections ClientRoute Push,
      template_of ''agent-config'' agent_config_collections Unscoped Replicate,
      template_of ''backup'' conversation_transcript_collections Unscoped Replicate,
      template_of ''subagent-coordinator'' subagent_coordinator_collections
        (PerCollection subagent_coordinator_rules) Push,
      template_of ''subagent-host'' subagent_host_collections (PerCollection subagent_host_rules) Push,
      template_of ''app-collections'' [] Unscoped Replicate,
      template_of ''client-index'' client_index_collections (PerCollection client_index_rules) Push]"

definition resolve_template :: "ustring \<Rightarrow> scope_template option" where
  "resolve_template i = find (\<lambda>t. st_id t = i) builtin_templates"

text \<open>The collections of the protocol's own schemas, in registration order.\<close>

definition all_collection_names :: "ustring list" where
  "all_collection_names = map lit
     [''AgentPrincipal'', ''AgentBehavior'', ''AgentRuntime'', ''AgentBehaviorReadiness'',
      ''AgentDirectoryEntry'', ''AgentMemory'', ''ToolSelection'', ''Skill'', ''DatastoreToolSurface'',
      ''ChainKeyBinding'', ''EthTool'', ''EthSubmission'', ''WorkspaceRoot'', ''IsolatedWorkspace'',
      ''WorkspacePlacement'', ''RepositoryPlacement'', ''HostDeployment'', ''WorkspaceBinding'',
      ''WorkspaceReceipt'', ''CallbackModule'', ''CallbackBinding'', ''CallbackInvocation'',
      ''CallbackResult'', ''OAuthCredential'', ''InferenceProfile'', ''InferenceCall'',
      ''AgentConversation'', ''AgentRequest'', ''AgentResponse'', ''AgentToolResult'',
      ''AgentSession'', ''Goal'', ''GoalCreationClaim'', ''MailboxItem'', ''AgentMessage'',
      ''AgentToolCall'', ''AgentToolApproval'', ''CompactionEntry'', ''RenderedRequest'',
      ''ProviderContextReduction'', ''ProjectionAcpBinding'', ''Task'', ''Schedule'',
      ''EventTrigger'', ''EventTriggerGroupState'', ''GraphDefinition'', ''GraphRevision'',
      ''GraphRun'', ''ToolServiceRegistry'', ''ToolServiceHealthState'', ''PeerPairingDesired'',
      ''DataPlanePairingDesired'', ''PeerPairingApplied'', ''PeerRegistry'', ''AgentNetwork'',
      ''PeerEndpoint'', ''NetworkAdminPin'', ''NetworkEnrollmentRequest'',
      ''NetworkEnrollmentDecision'', ''NetworkAuthorizationRevision'',
      ''NetworkEnrollmentRouteReceipt'', ''EnrollmentOperatorNonce'', ''PersonaConfigRequest'',
      ''SessionHydrationRequest'']"

definition runtime_collection_names :: "ustring list" where
  "runtime_collection_names = [lit ''InferenceBackend'']"

definition admit_app_collections :: "ustring list \<Rightarrow> ustring list option" where
  "admit_app_collections requested =
     (if requested \<noteq> [] \<and>
         \<not> list_ex (\<lambda>c. c \<in> set (all_collection_names @ runtime_collection_names)) requested
      then Some requested else None)"

text \<open>\<^verbatim>\<open>scope_filter\<close>; \<open>None\<close> is the panic of a client route without a direction.\<close>

definition rule_filters ::
  "'acp filter_api \<Rightarrow> collection_rule list \<Rightarrow> ustring \<Rightarrow> ustring \<Rightarrow> 'acp pairing_filters" where
  "rule_filters F rules peer_did local_did =
     bt_collect (map (\<lambda>r.
       (cr_collection r,
        equality_filter F (cr_field r)
          (case cr_source r of LocalDid \<Rightarrow> local_did | PeerDid \<Rightarrow> peer_did | HomeDid \<Rightarrow> local_did))) rules)"

definition scope_filter ::
  "'acp filter_api \<Rightarrow> route_scope \<Rightarrow> ustring list \<Rightarrow> ustring \<Rightarrow> ustring \<Rightarrow> 'acp pairing_filters option" where
  "scope_filter F scope collections peer_did local_did =
     (case scope of
        ScopePeerDid field \<Rightarrow>
          Some (bt_collect (map (\<lambda>c. (c, equality_filter F field peer_did)) collections))
      | Unscoped \<Rightarrow> Some []
      | PerCollection rules \<Rightarrow> Some (rule_filters F rules peer_did local_did)
      | ClientRoute \<Rightarrow> None)"

section \<open>Client routes\<close>

datatype pairing_direction = ClientToRuntime | RuntimeToClient

fun direction_as_str :: "pairing_direction \<Rightarrow> ustring" where
  "direction_as_str ClientToRuntime = lit ''client-to-runtime''"
| "direction_as_str RuntimeToClient = lit ''runtime-to-client''"

definition direction_parse :: "ustring \<Rightarrow> pairing_direction option" where
  "direction_parse v =
     (let t = trim v in
      if t = lit ''client-to-runtime'' then Some ClientToRuntime
      else if t = lit ''runtime-to-client'' then Some RuntimeToClient
      else None)"

definition client_route_id :: "ustring \<Rightarrow> pairing_direction \<Rightarrow> ustring" where
  "client_route_id directory_id d = directory_id @ lit '':'' @ direction_as_str d"

definition strip_suffix :: "ustring \<Rightarrow> ustring \<Rightarrow> ustring option" where
  "strip_suffix suf s = map_option rev (strip_prefix (rev suf) (rev s))"

datatype route_error =
    BlankPairingId | BlankDirectory | NoDirection | BlankRouteField
  | NotDialable | BadPeerId | NoDialAddress

definition client_route_direction :: "ustring \<Rightarrow> route_error + pairing_direction" where
  "client_route_direction pairing_id =
     (let p = trim pairing_id in
      if p = [] then Inl BlankPairingId
      else case strip_suffix (lit '':client-to-runtime'') p of
          Some dir \<Rightarrow> if trim dir = [] then Inl BlankDirectory else Inr ClientToRuntime
        | None \<Rightarrow>
            (case strip_suffix (lit '':runtime-to-client'') p of
               Some dir \<Rightarrow> if trim dir = [] then Inl BlankDirectory else Inr RuntimeToClient
             | None \<Rightarrow> Inl NoDirection))"

text \<open>The transport's address parser \<^verbatim>\<open>parse_public_peer_addr\<close> is an argument.\<close>

type_synonym addr_parser = "ustring \<Rightarrow> (ustring \<times> ustring list) option"

record transport_endpoint =
  te_peer_id :: ustring
  te_address :: ustring
  te_dial_addresses :: "ustring set"

definition is_ascii_hexdigit :: "uchar \<Rightarrow> bool" where
  "is_ascii_hexdigit c \<longleftrightarrow> 48 \<le> c \<and> c \<le> 57 \<or> 65 \<le> c \<and> c \<le> 70 \<or> 97 \<le> c \<and> c \<le> 102"

definition endpoint_parse :: "addr_parser \<Rightarrow> ustring \<Rightarrow> route_error + transport_endpoint" where
  "endpoint_parse parse_addr raw =
     (let address = trim raw in
      case parse_addr address of
        None \<Rightarrow> Inl NotDialable
      | Some (peer_id, dials) \<Rightarrow>
          if utf8_len peer_id \<noteq> 64 \<or> \<not> list_all is_ascii_hexdigit peer_id then Inl BadPeerId
          else let dial_addresses = set (filter (\<lambda>a. a \<noteq> []) (map trim dials)) in
               if dial_addresses = {} then Inl NoDialAddress
               else Inr \<lparr>te_peer_id = peer_id, te_address = address,
                         te_dial_addresses = dial_addresses\<rparr>)"

definition equivalent_to :: "transport_endpoint \<Rightarrow> transport_endpoint \<Rightarrow> bool" where
  "equivalent_to a b \<longleftrightarrow> te_peer_id a = te_peer_id b \<and> te_dial_addresses a = te_dial_addresses b"

definition client_route_collections :: "pairing_direction \<Rightarrow> ustring list" where
  "client_route_collections d =
     (case d of ClientToRuntime \<Rightarrow> client_to_runtime_collections | RuntimeToClient \<Rightarrow> client_collections)"

definition owned_row_filter ::
  "'acp filter_api \<Rightarrow> ustring \<Rightarrow> ustring \<Rightarrow> 'acp filter_predicate" where
  "owned_row_filter F requester_did owner_agent_did =
     combine_filters (equality_filter F (lit ''requester_did'') requester_did)
                     (equality_filter F (lit ''agent_did'') owner_agent_did)"

definition client_route_filters ::
  "'acp filter_api \<Rightarrow> pairing_direction \<Rightarrow> ustring \<Rightarrow> ustring \<Rightarrow> 'acp pairing_filters" where
  "client_route_filters F d requester_did owner_agent_did =
     bt_collect
       (map (\<lambda>c. (lit c, owned_row_filter F requester_did owner_agent_did))
          [''AgentRequest'', ''AgentResponse'', ''AgentMessage'', ''AgentToolCall'',
           ''AgentToolResult'', ''AgentSession'', ''AgentConversation'', ''CompactionEntry'',
           ''MailboxItem'', ''PersonaConfigRequest''] @
        [(lit ''PeerEndpoint'', equality_filter F (lit ''did'')
            (case d of ClientToRuntime \<Rightarrow> requester_did | RuntimeToClient \<Rightarrow> owner_agent_did)),
         (lit ''SessionHydrationRequest'', owned_row_filter F requester_did owner_agent_did)] @
        (if d = RuntimeToClient
         then [(lit ''AgentBehaviorReadiness'', equality_filter F (lit ''agent_did'') owner_agent_did)]
         else []))"

definition resolve_template_filters ::
  "'acp filter_api \<Rightarrow> scope_template \<Rightarrow> pairing_direction \<Rightarrow> ustring \<Rightarrow> ustring \<Rightarrow> 'acp pairing_filters" where
  "resolve_template_filters F t d requester_did owner_agent_did =
     (case scope_filter F (st_scope t) (st_collections t) requester_did owner_agent_did of
        None \<Rightarrow> client_route_filters F d requester_did owner_agent_did
      | Some filters \<Rightarrow> filters)"

section \<open>Profiles\<close>

datatype p2p_collection_profile =
  ProfileRuntime | ProfileAgent | ProfileDesktopConfig | ProfileChatRequests | ProfileToolServices
| ProfileDiscovery

fun profile_id :: "p2p_collection_profile \<Rightarrow> ustring" where
  "profile_id ProfileRuntime = lit ''runtime''"
| "profile_id ProfileAgent = lit ''agent''"
| "profile_id ProfileDesktopConfig = lit ''desktop-config''"
| "profile_id ProfileChatRequests = lit ''chat-requests''"
| "profile_id ProfileToolServices = lit ''tool-services''"
| "profile_id ProfileDiscovery = lit ''discovery''"

definition profile_from_id :: "ustring \<Rightarrow> p2p_collection_profile option" where
  "profile_from_id i =
     (let t = trim i in
      if t = lit ''runtime'' then Some ProfileRuntime
      else if t = lit ''agent'' then Some ProfileAgent
      else if t = lit ''desktop-config'' then Some ProfileDesktopConfig
      else if t = lit ''chat-requests'' then Some ProfileChatRequests
      else if t = lit ''tool-services'' then Some ProfileToolServices
      else if t = lit ''discovery'' then Some ProfileDiscovery
      else None)"

fun profile_collection_names :: "p2p_collection_profile \<Rightarrow> ustring list" where
  "profile_collection_names ProfileRuntime = map lit
     [''AgentPrincipal'', ''AgentBehavior'', ''AgentRuntime'', ''AgentBehaviorReadiness'',
      ''ToolSelection'', ''InferenceProfile'', ''InferenceBackend'', ''AgentConversation'',
      ''AgentRequest'', ''AgentResponse'', ''AgentToolResult'', ''AgentSession'', ''AgentMessage'',
      ''AgentToolCall'', ''CompactionEntry'', ''ProjectionAcpBinding'', ''Task'', ''Schedule'',
      ''ToolServiceRegistry'']"
| "profile_collection_names ProfileAgent = map lit
     [''AgentPrincipal'', ''AgentBehavior'', ''AgentRuntime'', ''AgentBehaviorReadiness'',
      ''ToolSelection'', ''InferenceBackend'', ''InferenceProfile'']"
| "profile_collection_names ProfileDesktopConfig = map lit
     [''AgentPrincipal'', ''AgentBehavior'', ''ToolSelection'', ''InferenceBackend'',
      ''InferenceProfile'', ''ToolServiceRegistry'', ''Task'', ''Schedule'']"
| "profile_collection_names ProfileChatRequests = map lit
     [''AgentConversation'', ''AgentRequest'', ''AgentResponse'', ''AgentToolResult'',
      ''AgentSession'', ''AgentMessage'', ''AgentToolCall'', ''CompactionEntry'']"
| "profile_collection_names ProfileToolServices = map lit [''ToolServiceRegistry'']"
| "profile_collection_names ProfileDiscovery = map lit
     [''PeerRegistry'', ''AgentPrincipal'', ''AgentBehavior'', ''AgentRuntime'',
      ''AgentBehaviorReadiness'', ''ToolSelection'', ''InferenceBackend'', ''InferenceProfile'']"

datatype profile_error = UnknownProfile ustring | NoCollections

fun add_profiles :: "ustring list \<Rightarrow> ustring set \<Rightarrow> profile_error + ustring set" where
  "add_profiles [] collections = Inr collections"
| "add_profiles (i # rest) collections =
     (if trim i = [] then add_profiles rest collections
      else case profile_from_id (trim i) of
          None \<Rightarrow> Inl (UnknownProfile (trim i))
        | Some p \<Rightarrow> add_profiles rest (collections \<union> set (profile_collection_names p)))"

definition expand_p2p_collection_profile_ids ::
  "ustring list \<Rightarrow> ustring list \<Rightarrow> profile_error + ustring set" where
  "expand_p2p_collection_profile_ids explicit ids =
     (case add_profiles ids (set (filter (\<lambda>c. c \<noteq> []) (map trim explicit))) of
        Inl e \<Rightarrow> Inl e
      | Inr collections \<Rightarrow> if collections = {} then Inl NoCollections else Inr collections)"

end
