(* ===== verification/Pairing_Diff.thy ===== *)
theory Pairing_Diff
  imports Pairing_Routes
begin

text \<open>
  Desired against actual wiring of one peer, \<^verbatim>\<open>agent/p2p_reconcile/diff.rs\<close>: the operations that turn
  what the transport carries into what a pairing asks for, restricted to what the runtime installed
  itself. Sets of strings are ascending lists, compared by their elements.
\<close>

section \<open>States\<close>

record 'acp pairing_desired =
  pd_collections :: "ustring list"
  pd_replicator_addresses :: "ustring list"
  pd_replicator_collections :: "ustring list"
  pd_replicator_filter :: "'acp pairing_filters"
  pd_template_ids :: "ustring list"

record pairing_actual =
  pa_collections :: "ustring list"
  pa_replicator_addresses :: "ustring list"
  pa_replicator_collections :: "(ustring \<times> ustring list) list"
  pa_replicator_filters :: "(ustring \<times> replication_filters) list"
  pa_filters_unobserved :: "ustring list"
  pa_observed_addresses :: "(ustring \<times> ustring list) list"

record 'acp pairing_applied =
  pp_collections :: "ustring list"
  pp_replicator_addresses :: "ustring list"
  pp_replicator_filter :: "'acp pairing_filters"

definition default_desired :: "'acp pairing_desired" where
  "default_desired = \<lparr>pd_collections = [], pd_replicator_addresses = [],
     pd_replicator_collections = [], pd_replicator_filter = [], pd_template_ids = []\<rparr>"

definition default_applied :: "'acp pairing_applied" where
  "default_applied = \<lparr>pp_collections = [], pp_replicator_addresses = [], pp_replicator_filter = []\<rparr>"

definition has_wiring :: "'acp pairing_desired \<Rightarrow> bool" where
  "has_wiring d \<longleftrightarrow> pd_collections d \<noteq> [] \<or> pd_replicator_addresses d \<noteq> []"

definition effective_replicator_collections :: "'acp pairing_desired \<Rightarrow> ustring list" where
  "effective_replicator_collections d =
     (if pd_replicator_collections d = [] then pd_collections d else pd_replicator_collections d)"

definition uses_subagent_template :: "'acp pairing_desired \<Rightarrow> bool" where
  "uses_subagent_template d \<longleftrightarrow> list_ex (starts_with (lit ''subagent-'')) (pd_template_ids d)"

definition applied_is_empty :: "'acp pairing_applied \<Rightarrow> bool" where
  "applied_is_empty p \<longleftrightarrow> pp_collections p = [] \<and> pp_replicator_addresses p = []"

datatype diff_op =
    InstallCollection ustring
  | TeardownCollection ustring
  | InstallReplicator ustring
  | TeardownReplicator ustring

definition bs_diff :: "'a list \<Rightarrow> 'a list \<Rightarrow> 'a list" where
  "bs_diff a b = filter (\<lambda>x. x \<notin> set b) a"

section \<open>Equivalence of live filters and addresses\<close>

definition scalar_equality :: "replication_filter \<Rightarrow> (ustring \<times> json) option" where
  "scalar_equality f =
     (if rf_conditions f = None \<and> rf_field f \<noteq> [] then Some (rf_field f, rf_value f)
      else case rf_conditions f of
          None \<Rightarrow> None
        | Some conditions \<Rightarrow>
            (case conditions of
               [(field, operation)] \<Rightarrow>
                 (case json_as_object operation of
                    None \<Rightarrow> None
                  | Some op \<Rightarrow>
                      if length op \<noteq> 1 then None
                      else map_option (\<lambda>v. (field, v)) (map_of op (lit ''_eq'')))
             | _ \<Rightarrow> None))"

definition replication_filter_equivalent :: "replication_filter \<Rightarrow> replication_filter \<Rightarrow> bool" where
  "replication_filter_equivalent left right \<longleftrightarrow>
     left = right \<or>
     (case (scalar_equality left, scalar_equality right) of (Some l, Some r) \<Rightarrow> l = r | _ \<Rightarrow> False)"

definition replication_filters_equivalent :: "replication_filters \<Rightarrow> replication_filters \<Rightarrow> bool" where
  "replication_filters_equivalent desired live \<longleftrightarrow>
     length desired = length live \<and>
     list_all (\<lambda>(collection, df).
       case map_of live collection of
         None \<Rightarrow> False
       | Some lf \<Rightarrow> replication_filter_equivalent df lf) desired"

definition transport_addresses_equivalent :: "addr_parser \<Rightarrow> ustring \<Rightarrow> ustring \<Rightarrow> bool" where
  "transport_addresses_equivalent parse_addr left right \<longleftrightarrow>
     left = right \<or>
     (case (parse_addr left, parse_addr right) of
        (Some (lp, ld), Some (rp, rd)) \<Rightarrow> lp = rp \<and> (ld = [] \<or> rd = [])
      | _ \<Rightarrow> False) \<or>
     (case (endpoint_parse parse_addr left, endpoint_parse parse_addr right) of
        (Inr l, Inr r) \<Rightarrow> equivalent_to l r
      | _ \<Rightarrow> False)"

section \<open>Differences\<close>

definition compute_pairing_diff :: "'acp pairing_desired \<Rightarrow> pairing_actual \<Rightarrow> diff_op list" where
  "compute_pairing_diff d a =
     map InstallCollection (bs_diff (pd_collections d) (pa_collections a)) @
     map TeardownCollection (bs_diff (pa_collections a) (pd_collections d)) @
     map InstallReplicator (bs_diff (pd_replicator_addresses d) (pa_replicator_addresses a)) @
     map TeardownReplicator (bs_diff (pa_replicator_addresses a) (pd_replicator_addresses d))"

text \<open>The reasons to reinstall a replicator whose address is desired, live and owned.\<close>

definition collections_changed :: "'acp pairing_desired \<Rightarrow> pairing_actual \<Rightarrow> ustring \<Rightarrow> bool" where
  "collections_changed d a r =
     (case map_of (pa_replicator_collections a) r of
        None \<Rightarrow> False
      | Some carried \<Rightarrow> set carried \<noteq> set (effective_replicator_collections d))"

definition live_filter_changed ::
  "'acp filter_api \<Rightarrow> 'acp pairing_desired \<Rightarrow> pairing_actual \<Rightarrow> ustring \<Rightarrow> bool" where
  "live_filter_changed F d a r =
     (if r \<in> set (pa_filters_unobserved a) then pd_replicator_filter d \<noteq> []
      else case map_of (pa_replicator_filters a) r of
          Some live \<Rightarrow>
            (case to_replication_filters F (pd_replicator_filter d) of
               None \<Rightarrow> True
             | Some desired \<Rightarrow> \<not> replication_filters_equivalent desired live)
        | None \<Rightarrow> pd_replicator_filter d \<noteq> [])"

definition endpoint_changed :: "addr_parser \<Rightarrow> pairing_actual \<Rightarrow> ustring \<Rightarrow> bool" where
  "endpoint_changed parse_addr a r =
     (case map_of (pa_observed_addresses a) r of
        None \<Rightarrow> False
      | Some observed \<Rightarrow>
          length observed \<noteq> 1 \<or>
          list_ex (\<lambda>address. \<not> transport_addresses_equivalent parse_addr address r) observed)"

definition compute_owned_pairing_diff ::
  "'acp filter_api \<Rightarrow> addr_parser \<Rightarrow> 'acp pairing_desired \<Rightarrow> pairing_actual \<Rightarrow> 'acp pairing_applied \<Rightarrow>
   diff_op list" where
  "compute_owned_pairing_diff F parse_addr d a p =
     (let filter_changed = (pd_replicator_filter d \<noteq> pp_replicator_filter p) in
      map InstallCollection (bs_diff (pd_collections d) (pa_collections a)) @
      map TeardownCollection
        (filter (\<lambda>c. c \<notin> set (pd_collections d)) (bs_inter (pa_collections a) (pp_collections p))) @
      map TeardownReplicator (bs_diff (pp_replicator_addresses p) (pd_replicator_addresses d)) @
      concat (map (\<lambda>r. [TeardownReplicator r, InstallReplicator r])
        (filter (\<lambda>r. r \<in> set (pd_replicator_addresses d) \<and>
             (filter_changed \<or> live_filter_changed F d a r \<or> collections_changed d a r \<or>
              endpoint_changed parse_addr a r))
           (bs_inter (pa_replicator_addresses a) (pp_replicator_addresses p)))) @
      map InstallReplicator (bs_diff (pd_replicator_addresses d) (pa_replicator_addresses a)))"

definition owned_pairing_live_matches ::
  "'acp filter_api \<Rightarrow> addr_parser \<Rightarrow> 'acp pairing_desired \<Rightarrow> pairing_actual \<Rightarrow> 'acp pairing_applied \<Rightarrow> bool" where
  "owned_pairing_live_matches F parse_addr d a p \<longleftrightarrow>
     compute_owned_pairing_diff F parse_addr d a p = [] \<and>
     (pd_replicator_filter d = [] \<or>
      list_all (\<lambda>r. r \<notin> set (pa_filters_unobserved a)) (pd_replicator_addresses d))"

definition desired_route_is_applied :: "'acp pairing_desired \<Rightarrow> 'acp pairing_applied \<Rightarrow> bool" where
  "desired_route_is_applied d p \<longleftrightarrow>
     pd_replicator_addresses d \<noteq> [] \<and>
     set (pd_replicator_addresses d) = set (pp_replicator_addresses p) \<and>
     pd_replicator_filter d = pp_replicator_filter p \<and>
     set (pp_collections p) \<subseteq> set (pd_collections d)"

text \<open>The record of what the runtime owns, after an operation has succeeded (\<^verbatim>\<open>engine.rs\<close>).\<close>

fun update_applied_after_success ::
  "diff_op \<Rightarrow> 'acp pairing_desired \<Rightarrow> 'acp pairing_applied \<Rightarrow> 'acp pairing_applied" where
  "update_applied_after_success (InstallCollection c) d p =
     p\<lparr>pp_collections := bs_union (pp_collections p) [c]\<rparr>"
| "update_applied_after_success (TeardownCollection c) d p =
     p\<lparr>pp_collections := bs_diff (pp_collections p) [c]\<rparr>"
| "update_applied_after_success (InstallReplicator r) d p =
     p\<lparr>pp_replicator_addresses := bs_union (pp_replicator_addresses p) [r],
       pp_replicator_filter := pd_replicator_filter d\<rparr>"
| "update_applied_after_success (TeardownReplicator r) d p =
     (let rest = bs_diff (pp_replicator_addresses p) [r] in
      p\<lparr>pp_replicator_addresses := rest,
        pp_replicator_filter := (if rest = [] then [] else pp_replicator_filter p)\<rparr>)"

section \<open>Facts about the differences\<close>

lemma set_bs_diff [simp]: "set (bs_diff a b) = set a - set b"
  by (auto simp: bs_diff_def)

lemma bs_diff_Nil [simp]: "bs_diff a b = [] \<longleftrightarrow> set a \<subseteq> set b"
  by (auto simp: bs_diff_def filter_empty_conv)

lemma bs_inter_Nil [simp]: "bs_inter a b = [] \<longleftrightarrow> set a \<inter> set b = {}"
  by (auto simp: bs_inter_def filter_empty_conv)

text \<open>The reasons to reinstall, together.\<close>

definition replicator_stale ::
  "'acp filter_api \<Rightarrow> addr_parser \<Rightarrow> 'acp pairing_desired \<Rightarrow> pairing_actual \<Rightarrow> 'acp pairing_applied \<Rightarrow>
   ustring \<Rightarrow> bool" where
  "replicator_stale F parse_addr d a p r \<longleftrightarrow>
     pd_replicator_filter d \<noteq> pp_replicator_filter p \<or> live_filter_changed F d a r \<or>
     collections_changed d a r \<or> endpoint_changed parse_addr a r"

lemma owned_diff_iff:
  "op \<in> set (compute_owned_pairing_diff F P d a p) \<longleftrightarrow>
     (case op of
        InstallCollection c \<Rightarrow> c \<in> set (pd_collections d) \<and> c \<notin> set (pa_collections a)
      | TeardownCollection c \<Rightarrow>
          c \<in> set (pa_collections a) \<and> c \<in> set (pp_collections p) \<and> c \<notin> set (pd_collections d)
      | InstallReplicator r \<Rightarrow>
          r \<in> set (pd_replicator_addresses d) \<and>
          (r \<notin> set (pa_replicator_addresses a) \<or>
           r \<in> set (pp_replicator_addresses p) \<and> replicator_stale F P d a p r)
      | TeardownReplicator r \<Rightarrow>
          r \<in> set (pp_replicator_addresses p) \<and>
          (r \<notin> set (pd_replicator_addresses d) \<or>
           r \<in> set (pa_replicator_addresses a) \<and> replicator_stale F P d a p r))"
  by (cases op) (auto simp: compute_owned_pairing_diff_def replicator_stale_def Let_def bs_inter_def)

lemma owned_diff_empty_iff:
  "compute_owned_pairing_diff F P d a p = [] \<longleftrightarrow>
     set (pd_collections d) \<subseteq> set (pa_collections a) \<and>
     set (pa_collections a) \<inter> set (pp_collections p) \<subseteq> set (pd_collections d) \<and>
     set (pp_replicator_addresses p) \<subseteq> set (pd_replicator_addresses d) \<and>
     set (pd_replicator_addresses d) \<subseteq> set (pa_replicator_addresses a) \<and>
     (\<forall>r \<in> set (pp_replicator_addresses p). \<not> replicator_stale F P d a p r)"
    (is "?diff = [] \<longleftrightarrow> ?R")
proof
  assume "?diff = []"
  then have "\<And>op. op \<notin> set ?diff" by simp
  from this [of "InstallCollection _"] this [of "TeardownCollection _"]
    this [of "InstallReplicator _"] this [of "TeardownReplicator _"]
  show ?R by (auto simp: owned_diff_iff)
next
  assume ?R
  then have "\<And>op. op \<notin> set ?diff"
    by (auto simp: owned_diff_iff split: diff_op.splits)
  then show "?diff = []" by (metis list.set_intros(1) neq_Nil_conv)
qed

text \<open>The equivalence of live filters is reflexive and, on maps with the same number of entries,
  symmetric.\<close>

lemma replication_filter_equivalent_refl [simp]: "replication_filter_equivalent f f"
  by (simp add: replication_filter_equivalent_def)

lemma replication_filters_equivalent_refl:
  assumes "distinct (map fst fs)"
  shows "replication_filters_equivalent fs fs"
  using assms by (auto simp: replication_filters_equivalent_def list_all_iff)

end
