(* ===== verification/Pairing_Desired.thy ===== *)
theory Pairing_Desired
  imports Pairing_Diff
begin

text \<open>
  How the desired wiring of a peer is derived (\<^verbatim>\<open>agent/p2p_reconcile/engine.rs\<close>,
  \<open>GraphqlPairingStateStore\<close>): the enrollment authority names the endpoint and the principal, the
  stored rows only witness it or add an overlay, and the two layers are merged. The query of the
  rows, the authority, the clock and chrono's parser and printer are arguments.
\<close>

section \<open>Rows and enrollment entries\<close>

record pairing_state_row =
  ps_peer_id :: "ustring option"
  ps_agent_did :: "ustring option"
  ps_collections :: "ustring list option"
  ps_replicator_addresses :: "ustring list option"
  ps_template :: "ustring option"
  ps_source :: "ustring option"
  ps_request_digest :: "ustring option"
  ps_authorization_sequence :: "int option"
  ps_authorization_expires_at :: "ustring option"

record endpoint_entry =
  en_desired_id :: ustring
  en_peer_id :: ustring
  en_agent_did :: ustring
  en_address :: ustring
  en_request_digest :: ustring
  en_authorization_sequence :: nat
  en_authorization_expires_at :: ustring

record route_generation =
  rg_member_did :: ustring
  rg_member_peer :: ustring
  rg_member_ticket :: ustring
  rg_request_digest :: ustring
  rg_authorization_sequence :: nat
  rg_authorization_expires_at :: ustring

record 'acp loaded_desired =
  ld_state :: "'acp pairing_desired option"
  ld_generation :: "route_generation option"

definition default_loaded_desired :: "'acp loaded_desired" where
  "default_loaded_desired = \<lparr>ld_state = None, ld_generation = None\<rparr>"

datatype desired_error =
    QueryFailed ustring
  | ForeignDid ustring
  | MissingTemplate
  | UnknownTemplate ustring
  | MissingRouteKey
  | RouteKey route_error
  | BlankPeerDid

record canonical_time =
  tm_parse :: "ustring \<Rightarrow> instant option"
  tm_print_secs :: "instant \<Rightarrow> ustring"

definition parse_canonical_timestamp :: "canonical_time \<Rightarrow> ustring \<Rightarrow> instant option" where
  "parse_canonical_timestamp TM v =
     (if strip_suffix (lit ''Z'') v = None then None
      else case tm_parse TM v of
          None \<Rightarrow> None
        | Some t \<Rightarrow> if tm_print_secs TM t = v then Some t else None)"

definition authorization_lease_is_fresh_at :: "canonical_time \<Rightarrow> ustring \<Rightarrow> instant \<Rightarrow> bool" where
  "authorization_lease_is_fresh_at TM expires_at now =
     (case parse_canonical_timestamp TM expires_at of None \<Rightarrow> False | Some t \<Rightarrow> now < t)"

definition entry_is_fresh_at :: "canonical_time \<Rightarrow> endpoint_entry \<Rightarrow> instant \<Rightarrow> bool" where
  "entry_is_fresh_at TM e now \<longleftrightarrow>
     0 < en_authorization_sequence e \<and> en_authorization_sequence e \<le> 2 ^ 63 - 1 \<and>
     authorization_lease_is_fresh_at TM (en_authorization_expires_at e) now"

definition enrollment_source :: ustring where
  "enrollment_source = lit ''enrollment''"

definition materialized_enrollment_entry ::
  "endpoint_entry list \<Rightarrow> ustring \<Rightarrow> ustring \<Rightarrow> endpoint_entry option" where
  "materialized_enrollment_entry entries peer_id self_did =
     find (\<lambda>e. en_desired_id e = peer_id \<and> en_agent_did e \<noteq> self_did) entries"

text \<open>A signed sequence number is compared as \<^verbatim>\<open>i64\<close>; \<open>entry_is_fresh_at\<close> keeps it in range.\<close>

definition enrollment_base_row ::
  "pairing_state_row \<Rightarrow> endpoint_entry \<Rightarrow> ustring \<Rightarrow> pairing_state_row option" where
  "enrollment_base_row row e self_did =
     (if ps_source row \<noteq> Some enrollment_source then None
      else if ps_request_digest row \<noteq> Some (en_request_digest e) \<or>
              ps_authorization_sequence row \<noteq> Some (int (en_authorization_sequence e)) \<or>
              ps_authorization_expires_at row \<noteq> Some (en_authorization_expires_at e) then None
      else Some (row\<lparr>ps_peer_id := Some (en_desired_id e),
                     ps_agent_did := Some self_did,
                     ps_collections := None,
                     ps_replicator_addresses := Some [en_address e],
                     ps_template := Some client_template\<rparr>))"

definition local_data_plane_row ::
  "pairing_state_row \<Rightarrow> endpoint_entry \<Rightarrow> ustring \<Rightarrow> pairing_state_row option" where
  "local_data_plane_row row e self_did =
     (case ps_source row of
        None \<Rightarrow> None
      | Some raw \<Rightarrow>
          let s = trim raw in
          if s = [] \<or> s = enrollment_source then None
          else Some (row\<lparr>ps_peer_id := Some (en_peer_id e),
                         ps_agent_did := Some self_did,
                         ps_replicator_addresses := Some [en_address e]\<rparr>))"

section \<open>From a row to the wiring\<close>

definition data_plane_scope_requires_signed_peer_did :: "route_scope \<Rightarrow> bool" where
  "data_plane_scope_requires_signed_peer_did scope =
     (case scope of
        ScopePeerDid _ \<Rightarrow> False
      | Unscoped \<Rightarrow> False
      | PerCollection rules \<Rightarrow> list_ex (\<lambda>r. cr_source r = PeerDid) rules
      | ClientRoute \<Rightarrow> True)"

definition data_plane_scope_filter ::
  "'acp filter_api \<Rightarrow> route_scope \<Rightarrow> ustring list \<Rightarrow> ustring \<Rightarrow> ustring \<Rightarrow> pairing_direction \<Rightarrow>
   'acp pairing_filters" where
  "data_plane_scope_filter F scope collections signed_peer_did local_did d =
     (case scope of
        ScopePeerDid field \<Rightarrow> bt_collect (map (\<lambda>c. (c, equality_filter F field local_did)) collections)
      | Unscoped \<Rightarrow> []
      | PerCollection rules \<Rightarrow> rule_filters F rules signed_peer_did local_did
      | ClientRoute \<Rightarrow>
          (case d of
             ClientToRuntime \<Rightarrow> client_route_filters F d local_did signed_peer_did
           | RuntimeToClient \<Rightarrow> client_route_filters F d signed_peer_did local_did))"

definition route_direction_of_row ::
  "scope_template \<Rightarrow> pairing_state_row \<Rightarrow> desired_error + pairing_direction" where
  "route_direction_of_row t row =
     (if st_scope t \<noteq> ClientRoute then Inr RuntimeToClient
      else if ps_source row = Some enrollment_source then Inr RuntimeToClient
      else case nonblank (ps_peer_id row) of
          None \<Rightarrow> Inl MissingRouteKey
        | Some route_id \<Rightarrow>
            (case client_route_direction route_id of Inl e \<Rightarrow> Inl (RouteKey e) | Inr d \<Rightarrow> Inr d))"

text \<open>\<open>None\<close> is a layer that is skipped: an application collection set that is empty or overlaps
  the protocol's own collections.\<close>

definition row_collections ::
  "scope_template \<Rightarrow> pairing_direction \<Rightarrow> pairing_state_row \<Rightarrow> (ustring list \<times> ustring list) option" where
  "row_collections t d row =
     (if st_id t = app_collections_template
      then map_option (\<lambda>cs. (cs, cs))
             (admit_app_collections
                (bs_collect (filter (\<lambda>c. c \<noteq> [])
                   (map trim (case ps_collections row of None \<Rightarrow> [] | Some cs \<Rightarrow> cs)))))
      else Some (bs_collect (if st_scope t = ClientRoute then client_route_collections d
                             else st_collections t), []))"

definition data_plane_desired_from_pairing_row ::
  "'acp filter_api \<Rightarrow> pairing_state_row \<Rightarrow> endpoint_entry \<Rightarrow> ustring \<Rightarrow>
   desired_error + 'acp pairing_desired option" where
  "data_plane_desired_from_pairing_row F row signed self_did =
     (case opt_filter (\<lambda>did. did \<noteq> [] \<and> did \<noteq> self_did) (map_option trim (ps_agent_did row)) of
        Some foreign \<Rightarrow> Inl (ForeignDid foreign)
      | None \<Rightarrow>
     (case nonblank (ps_template row) of
        None \<Rightarrow> Inl MissingTemplate
      | Some template_id \<Rightarrow>
     (case resolve_template template_id of
        None \<Rightarrow> Inl (UnknownTemplate template_id)
      | Some t \<Rightarrow>
     (case route_direction_of_row t row of
        Inl e \<Rightarrow> Inl e
      | Inr d \<Rightarrow>
          let peer_did = trim (en_agent_did signed) in
          if data_plane_scope_requires_signed_peer_did (st_scope t) \<and> peer_did = [] then Inl BlankPeerDid
          else case row_collections t d row of
              None \<Rightarrow> Inr None
            | Some (rep_cols, sub_cols) \<Rightarrow>
                Inr (Some \<lparr>pd_collections = sub_cols,
                           pd_replicator_addresses = filter (\<lambda>a. a \<noteq> []) [trim (en_address signed)],
                           pd_replicator_collections = rep_cols,
                           pd_replicator_filter =
                             data_plane_scope_filter F (st_scope t) rep_cols peer_did self_did d,
                           pd_template_ids = [st_id t]\<rparr>)))))"

definition bt_extend :: "('k::linorder \<times> 'v) list \<Rightarrow> ('k \<times> 'v) list \<Rightarrow> ('k \<times> 'v) list" where
  "bt_extend m es = fold (\<lambda>(k, v). bt_insert k v) es m"

definition merge_layered_desired ::
  "ustring \<Rightarrow> ustring \<Rightarrow> 'acp pairing_desired option \<Rightarrow> 'acp pairing_desired option \<Rightarrow>
   'acp pairing_desired option" where
  "merge_layered_desired local_did peer_did base data_plane =
     (let base = (if peer_did = local_did then None else base);
          data_plane = map_option (\<lambda>d. if app_collections_template \<notin> set (pd_template_ids d)
                                         then d\<lparr>pd_collections := []\<rparr> else d) data_plane
      in case (base, data_plane) of
           (None, None) \<Rightarrow> None
         | (Some d, None) \<Rightarrow> Some d
         | (None, Some d) \<Rightarrow> Some d
         | (Some l, Some r) \<Rightarrow>
             Some \<lparr>pd_collections = bs_union (pd_collections l) (pd_collections r),
                   pd_replicator_addresses =
                     (if pd_replicator_addresses r \<noteq> [] then pd_replicator_addresses r
                      else pd_replicator_addresses l),
                   pd_replicator_collections =
                     bs_union (pd_replicator_collections l) (pd_replicator_collections r),
                   pd_replicator_filter = bt_extend (pd_replicator_filter l) (pd_replicator_filter r),
                   pd_template_ids = bs_union (pd_template_ids l) (pd_template_ids r)\<rparr>)"

section \<open>The store's desired state\<close>

record authorization_fence =
  af_member_did :: ustring
  af_member_peer :: ustring
  af_member_ticket :: ustring
  af_request_digest :: ustring
  af_authorization_sequence :: nat
  af_authorization_expires_at :: ustring

definition generation_of_fence :: "authorization_fence \<Rightarrow> route_generation" where
  "generation_of_fence f =
     \<lparr>rg_member_did = af_member_did f, rg_member_peer = af_member_peer f,
      rg_member_ticket = af_member_ticket f, rg_request_digest = af_request_digest f,
      rg_authorization_sequence = af_authorization_sequence f,
      rg_authorization_expires_at = af_authorization_expires_at f\<rparr>"

definition entry_of_fence :: "authorization_fence \<Rightarrow> endpoint_entry" where
  "entry_of_fence f =
     \<lparr>en_desired_id = af_member_peer f, en_peer_id = af_member_peer f,
      en_agent_did = af_member_did f, en_address = af_member_ticket f,
      en_request_digest = af_request_digest f,
      en_authorization_sequence = af_authorization_sequence f,
      en_authorization_expires_at = af_authorization_expires_at f\<rparr>"

definition generation_of_entry :: "endpoint_entry \<Rightarrow> route_generation" where
  "generation_of_entry e =
     \<lparr>rg_member_did = en_agent_did e, rg_member_peer = en_peer_id e,
      rg_member_ticket = en_address e, rg_request_digest = en_request_digest e,
      rg_authorization_sequence = en_authorization_sequence e,
      rg_authorization_expires_at = en_authorization_expires_at e\<rparr>"

text \<open>
  The store is built with the authority handle, with one exact entry, or with neither. An answer of
  the authority is the fence of a peer, or an error text.
\<close>

datatype enrollment_of_store =
    EnrollmentAuthority "ustring \<Rightarrow> ustring + authorization_fence option"
      "ustring \<Rightarrow> ustring \<Rightarrow> ustring + authorization_fence option"
  | ExactEnrollment endpoint_entry
  | NoEnrollment

definition data_plane_materialized_entry ::
  "canonical_time \<Rightarrow> enrollment_of_store \<Rightarrow> ustring \<Rightarrow> instant \<Rightarrow> ustring \<Rightarrow>
   (endpoint_entry \<times> route_generation) option" where
  "data_plane_materialized_entry TM en self_did now peer_id =
     (case (case en of
              EnrollmentAuthority by_peer _ \<Rightarrow>
                (case by_peer peer_id of
                   Inr (Some f) \<Rightarrow> Some (entry_of_fence f, generation_of_fence f)
                 | _ \<Rightarrow> None)
            | ExactEnrollment e \<Rightarrow> Some (e, generation_of_entry e)
            | NoEnrollment \<Rightarrow> None) of
        None \<Rightarrow> None
      | Some (e, g) \<Rightarrow>
          if \<not> entry_is_fresh_at TM e now then None
          else map_option (\<lambda>e. (e, g)) (materialized_enrollment_entry [e] peer_id self_did))"

definition layer_desired ::
  "'acp filter_api \<Rightarrow> endpoint_entry \<Rightarrow> ustring \<Rightarrow> pairing_state_row option \<Rightarrow>
   desired_error + 'acp pairing_desired option" where
  "layer_desired F e self_did row =
     (case row of None \<Rightarrow> Inr None | Some r \<Rightarrow> data_plane_desired_from_pairing_row F r e self_did)"

text \<open>The answer of the query is the first \<^verbatim>\<open>PeerPairingDesired\<close> and the first
  \<^verbatim>\<open>DataPlanePairingDesired\<close> row of the peer. A row is decoded when it is needed, so each of the two is a
  result of its own.\<close>

type_synonym read_row = "ustring + pairing_state_row option"

definition layer_of_row ::
  "'acp filter_api \<Rightarrow> endpoint_entry \<Rightarrow> ustring \<Rightarrow> (pairing_state_row \<Rightarrow> pairing_state_row option) \<Rightarrow> read_row \<Rightarrow>
   desired_error + 'acp pairing_desired option" where
  "layer_of_row F e self_did materialize answer =
     (case answer of
        Inl x \<Rightarrow> Inl (QueryFailed x)
      | Inr row \<Rightarrow> layer_desired F e self_did (Option.bind row materialize))"

definition load_desired_with_authority ::
  "'acp filter_api \<Rightarrow> canonical_time \<Rightarrow> enrollment_of_store \<Rightarrow> ustring \<Rightarrow> instant \<Rightarrow>
   (ustring + read_row \<times> read_row) \<Rightarrow> ustring \<Rightarrow> desired_error + 'acp loaded_desired" where
  "load_desired_with_authority F TM en self_did now answer peer_id =
     (case answer of
        Inl e \<Rightarrow> Inl (QueryFailed e)
      | Inr (base_row, dp_row) \<Rightarrow>
          (case data_plane_materialized_entry TM en self_did now peer_id of
             None \<Rightarrow> Inr default_loaded_desired
           | Some (e, g) \<Rightarrow>
               (case layer_of_row F e self_did (\<lambda>r. enrollment_base_row r e self_did) base_row of
                  Inl x \<Rightarrow> Inl x
                | Inr base \<Rightarrow>
                    (case layer_of_row F e self_did (\<lambda>r. local_data_plane_row r e self_did) dp_row of
                       Inl x \<Rightarrow> Inl x
                     | Inr data_plane \<Rightarrow>
                         Inr \<lparr>ld_state = merge_layered_desired self_did (en_agent_did e) base data_plane,
                              ld_generation = Some g\<rparr>))))"

definition enrollment_generation_is_current ::
  "canonical_time \<Rightarrow> enrollment_of_store \<Rightarrow> instant \<Rightarrow> route_generation \<Rightarrow> ustring + bool" where
  "enrollment_generation_is_current TM en now g =
     (case en of
        EnrollmentAuthority _ by_member \<Rightarrow>
          (case by_member (rg_member_did g) (rg_member_peer g) of
             Inl e \<Rightarrow> Inl e
           | Inr f \<Rightarrow> Inr (map_option generation_of_fence f = Some g))
      | ExactEnrollment e \<Rightarrow> Inr (entry_is_fresh_at TM e now \<and> generation_of_entry e = g)
      | NoEnrollment \<Rightarrow> Inr False)"

section \<open>The store's applied state\<close>

record applied_state_row =
  ar_doc_id :: ustring
  ar_collections :: "ustring list option"
  ar_replicator_addresses :: "ustring list option"
  ar_replicator_filter :: "ustring option"

record 'acp loaded_applied =
  la_state :: "'acp pairing_applied"
  la_duplicate_doc_ids :: "ustring list"

definition decode_replicator_filter ::
  "(ustring \<Rightarrow> 'acp pairing_filters option) \<Rightarrow> ustring option \<Rightarrow> 'acp pairing_filters" where
  "decode_replicator_filter decode v =
     (case nonblank v of
        None \<Rightarrow> []
      | Some raw \<Rightarrow> (case decode raw of None \<Rightarrow> [] | Some fs \<Rightarrow> fs))"

definition into_applied ::
  "(ustring \<Rightarrow> 'acp pairing_filters option) \<Rightarrow> applied_state_row \<Rightarrow> 'acp pairing_applied" where
  "into_applied decode r =
     \<lparr>pp_collections = bs_collect (case ar_collections r of None \<Rightarrow> [] | Some cs \<Rightarrow> cs),
      pp_replicator_addresses =
        bs_collect (case ar_replicator_addresses r of None \<Rightarrow> [] | Some cs \<Rightarrow> cs),
      pp_replicator_filter = decode_replicator_filter decode (ar_replicator_filter r)\<rparr>"

definition load_applied_from_rows ::
  "(ustring \<Rightarrow> 'acp pairing_filters option) \<Rightarrow> applied_state_row list \<Rightarrow> 'acp loaded_applied" where
  "load_applied_from_rows decode rows =
     (case sort_key ar_doc_id rows of
        [] \<Rightarrow> \<lparr>la_state = default_applied, la_duplicate_doc_ids = []\<rparr>
      | canonical # rest \<Rightarrow>
          \<lparr>la_state = into_applied decode canonical, la_duplicate_doc_ids = map ar_doc_id rest\<rparr>)"

definition peer_ids_of_rows :: "ustring list \<Rightarrow> ustring list \<Rightarrow> ustring list \<Rightarrow> ustring list" where
  "peer_ids_of_rows desired data_plane applied =
     bs_collect (filter (\<lambda>i. trim i \<noteq> []) (desired @ data_plane @ applied))"

end
