(* ===== verification/World_Act.thy ===== *)
theory World_Act
  imports Gents_Prelude
begin

text \<open>
  Fallible asynchronous code as a function on a world: the question mark of Rust is \<open>act_bind\<close>. The
  world holds everything the calls read and change, so an action is a plain function and runs.
\<close>

section \<open>Actions with errors\<close>

type_synonym ('w, 'e, 'a) act = "'w \<Rightarrow> ('e + 'a) \<times> 'w"

definition act_return :: "'a \<Rightarrow> ('w, 'e, 'a) act" where
  "act_return x w = (Inr x, w)"

definition act_bind :: "('w, 'e, 'a) act \<Rightarrow> ('a \<Rightarrow> ('w, 'e, 'b) act) \<Rightarrow> ('w, 'e, 'b) act" where
  "act_bind m f w = (case m w of (Inl e, w') \<Rightarrow> (Inl e, w') | (Inr x, w') \<Rightarrow> f x w')"

definition act_err :: "('e \<Rightarrow> 'f) \<Rightarrow> ('w, 'e, 'a) act \<Rightarrow> ('w, 'f, 'a) act" where
  "act_err g m w = (case m w of (Inl e, w') \<Rightarrow> (Inl (g e), w') | (Inr x, w') \<Rightarrow> (Inr x, w'))"

fun act_each :: "('a \<Rightarrow> ('w, 'e, 'b) act) \<Rightarrow> 'a list \<Rightarrow> ('w, 'e, 'b list) act" where
  "act_each f [] = act_return []"
| "act_each f (x # xs) = act_bind (f x) (\<lambda>y. act_bind (act_each f xs) (\<lambda>ys. act_return (y # ys)))"

fun act_fold :: "('a \<Rightarrow> 's \<Rightarrow> ('w, 'e, 's) act) \<Rightarrow> 'a list \<Rightarrow> 's \<Rightarrow> ('w, 'e, 's) act" where
  "act_fold f [] s = act_return s"
| "act_fold f (x # xs) s = act_bind (f x s) (act_fold f xs)"

section \<open>How actions compose\<close>

named_theorems act_simps

lemmas [act_simps] = act_return_def act_err_def

lemma act_bind_eq [act_simps]:
  "act_bind m f w = (case m w of (Inl e, w') \<Rightarrow> (Inl e, w') | (Inr x, w') \<Rightarrow> f x w')"
  by (simp add: act_bind_def)

lemma act_bindE:
  assumes "act_bind m f w = (Inr y, w'')"
  obtains x w' where "m w = (Inr x, w')" "f x w' = (Inr y, w'')"
  using assms by (auto simp: act_bind_def split: prod.splits sum.splits)

lemma act_errE:
  assumes "act_err g m w = (Inr x, w')"
  obtains "m w = (Inr x, w')"
  using assms by (auto simp: act_err_def split: prod.splits sum.splits)

lemma act_returnE:
  assumes "act_return x w = (Inr y, w')"
  obtains "y = x" "w' = w"
  using assms by (simp add: act_return_def)

lemma act_each_pure:
  assumes "\<And>x. f x w = (Inr (g x), w)"
  shows "act_each f xs w = (Inr (map g xs), w)"
  by (induction xs) (simp_all add: act_simps assms)

lemma act_fold_pure:
  assumes "\<And>x s. x \<in> set xs \<Longrightarrow> f x s w = (Inr (g x s), w)"
  shows "act_fold f xs s w = (Inr (fold g xs s), w)"
  using assms by (induction xs arbitrary: s) (simp_all add: act_simps)

section \<open>What every run of an action does to the world\<close>

text \<open>\<open>keeps R m\<close>: whatever \<open>m\<close> returns, the worlds before and after it are related. For a preorder this
  composes, so it is proved action by action, also when other tasks act between the calls.\<close>

definition keeps :: "('w \<Rightarrow> 'w \<Rightarrow> bool) \<Rightarrow> ('w, 'e, 'a) act \<Rightarrow> bool" where
  "keeps R m \<longleftrightarrow> (\<forall>w r w'. m w = (r, w') \<longrightarrow> R w w')"

lemma keeps_return: "reflp R \<Longrightarrow> keeps R (act_return x)"
  by (simp add: keeps_def act_return_def reflp_def)

lemma keeps_err: "keeps R m \<Longrightarrow> keeps R (act_err g m)"
  by (auto simp: keeps_def act_err_def split: prod.splits sum.splits)

lemma keeps_bind:
  assumes "transp R" and "keeps R m" and "\<And>x. keeps R (f x)"
  shows "keeps R (act_bind m f)"
  unfolding keeps_def
proof (intro allI impI)
  fix w r w'
  assume run: "act_bind m f w = (r, w')"
  obtain s w1 where m: "m w = (s, w1)" by force
  show "R w w'"
  proof (cases s)
    case (Inl e)
    with run m have "w' = w1" by (simp add: act_bind_def)
    with assms(2) m show ?thesis by (simp add: keeps_def)
  next
    case (Inr x)
    with run m have "f x w1 = (r, w')" by (simp add: act_bind_def)
    with assms(2,3) m have "R w w1" "R w1 w'" by (auto simp: keeps_def)
    with assms(1) show ?thesis by (rule transpD)
  qed
qed

lemma keeps_run: "keeps R m \<Longrightarrow> m w = (r, w') \<Longrightarrow> R w w'"
  by (simp add: keeps_def)

end
