(* ===== verification/Pairing_Engine.thy ===== *)
theory Pairing_Engine
  imports Pairing_Desired World_Act
begin

text \<open>
  The reconcile tick of one peer: \<^verbatim>\<open>agent/p2p_reconcile/engine.rs\<close> and
  \<^verbatim>\<open>engine/remote_topology.rs\<close>, over the two interfaces they are written against, the transport
  administration (\<^verbatim>\<open>trait_def.rs\<close>) and the state store, and the implementations of both
  (\<^verbatim>\<open>embedded_impl.rs\<close>, \<open>GraphqlPairingStateStore\<close>) over the database node. The node's own calls,
  including what other tasks do meanwhile, are functions on a world. Texts of error contexts and
  logging are left out.
\<close>

section \<open>Interfaces\<close>

datatype admin_error =
    RpcTimeout
  | RpcError ustring
  | RemoteNotFound ustring
  | RemoteUnauthorized
  | LocalError ustring

datatype pairing_error_class =
  ClassRpcTimeout | ClassRpcError | ClassRemoteNotFound | ClassRemoteUnauthorized | ClassLocalError

fun classify_remote_admin_error :: "admin_error \<Rightarrow> pairing_error_class" where
  "classify_remote_admin_error RpcTimeout = ClassRpcTimeout"
| "classify_remote_admin_error (RpcError _) = ClassRpcError"
| "classify_remote_admin_error (RemoteNotFound _) = ClassRemoteNotFound"
| "classify_remote_admin_error RemoteUnauthorized = ClassRemoteUnauthorized"
| "classify_remote_admin_error (LocalError _) = ClassLocalError"

record remote_replicator =
  rr_id :: "ustring option"
  rr_collections :: "ustring list"
  rr_address :: "ustring option"
  rr_filters :: "replication_filters option"

record ('acp, 'w) p2p_admin =
  ad_active_peers :: "('w, admin_error, ustring list) act"
  ad_connect :: "ustring list \<Rightarrow> ('w, admin_error, unit) act"
  ad_list_replicators :: "('w, admin_error, remote_replicator list) act"
  ad_add_replicator ::
    "ustring list \<Rightarrow> ustring list \<Rightarrow> 'acp pairing_filters \<Rightarrow> ('w, admin_error, unit) act"
  ad_delete_replicator :: "ustring \<Rightarrow> ustring list \<Rightarrow> ('w, admin_error, unit) act"
  ad_list_p2p_collections :: "('w, admin_error, ustring list) act"
  ad_resolve_collection_name :: "ustring \<Rightarrow> ('w, admin_error, ustring option) act"
  ad_add_p2p_collections :: "ustring list \<Rightarrow> ('w, admin_error, unit) act"
  ad_delete_p2p_collections :: "ustring list \<Rightarrow> ('w, admin_error, unit) act"

record ('acp, 'w) pairing_store =
  ss_load_desired :: "ustring \<Rightarrow> ('w, desired_error, 'acp loaded_desired) act"
  ss_generation_is_current :: "route_generation \<Rightarrow> ('w, ustring, bool) act"
  ss_load_applied :: "ustring \<Rightarrow> ('w, ustring, 'acp loaded_applied) act"
  ss_persist_applied :: "ustring \<Rightarrow> 'acp loaded_applied \<Rightarrow> ('w, ustring, unit) act"

datatype tick_error = AdminFailed admin_error | StoreFailed ustring

section \<open>Reading the live topology\<close>

definition canonical_replicator_address ::
  "addr_parser \<Rightarrow> remote_replicator \<Rightarrow> ustring list \<Rightarrow> ustring option" where
  "canonical_replicator_address parse_addr rep applied_addresses =
     (let by_peer = (case rr_id rep of
                       None \<Rightarrow> []
                     | Some i \<Rightarrow> filter (\<lambda>a. map_option fst (parse_addr a) = Some i) applied_addresses)
      in case by_peer of
           [only] \<Rightarrow> Some only
         | _ \<Rightarrow> or_else (rr_address rep) (rr_id rep))"

record replicator_scan =
  sn_addresses :: "ustring list"
  sn_observed :: "(ustring \<times> ustring list) list"
  sn_ids :: "(ustring \<times> ustring) list"
  sn_collections :: "(ustring \<times> ustring list) list"
  sn_filters :: "(ustring \<times> replication_filters) list"
  sn_unobserved :: "ustring list"

definition empty_scan :: replicator_scan where
  "empty_scan = \<lparr>sn_addresses = [], sn_observed = [], sn_ids = [], sn_collections = [],
     sn_filters = [], sn_unobserved = []\<rparr>"

definition get_or :: "'v \<Rightarrow> ('k \<times> 'v) list \<Rightarrow> 'k \<Rightarrow> 'v" where
  "get_or z m k = (case map_of m k of None \<Rightarrow> z | Some v \<Rightarrow> v)"

definition resolve_or_raw :: "('acp, 'w) p2p_admin \<Rightarrow> ustring \<Rightarrow> ('w, admin_error, ustring) act" where
  "resolve_or_raw A i =
     act_bind (ad_resolve_collection_name A i)
       (\<lambda>name. act_return (case name of None \<Rightarrow> i | Some n \<Rightarrow> n))"

definition note_replicator :: "ustring \<Rightarrow> remote_replicator \<Rightarrow> replicator_scan \<Rightarrow> replicator_scan" where
  "note_replicator address rep s =
     s\<lparr>sn_addresses := bs_union (sn_addresses s) [address],
       sn_observed := (case rr_address rep of
          None \<Rightarrow> sn_observed s
        | Some o' \<Rightarrow> bt_insert address (bs_union (get_or [] (sn_observed s) address) [o']) (sn_observed s)),
       sn_ids := (case rr_id rep of
          None \<Rightarrow> sn_ids s
        | Some i \<Rightarrow> bt_insert address
            (case map_of (sn_ids s) address of None \<Rightarrow> i | Some e \<Rightarrow> if i < e then i else e) (sn_ids s)),
       sn_collections := bt_insert address
         (get_or [] (sn_collections s) address @ rr_collections rep) (sn_collections s)\<rparr>"

definition scan_replicator ::
  "('acp, 'w) p2p_admin \<Rightarrow> addr_parser \<Rightarrow> ustring list \<Rightarrow> remote_replicator \<Rightarrow> replicator_scan \<Rightarrow>
   ('w, admin_error, replicator_scan) act" where
  "scan_replicator A parse_addr applied_addresses rep s =
     (case canonical_replicator_address parse_addr rep applied_addresses of
        None \<Rightarrow> act_return s
      | Some address \<Rightarrow>
          let s = note_replicator address rep s in
          case rr_filters rep of
            None \<Rightarrow> act_return (s\<lparr>sn_unobserved := bs_union (sn_unobserved s) [address]\<rparr>)
          | Some filters \<Rightarrow>
              act_bind (act_each (\<lambda>(i, f). act_bind (resolve_or_raw A i) (\<lambda>n. act_return (n, f))) filters)
                (\<lambda>named. act_return (s\<lparr>sn_filters :=
                   bt_insert address
                     (bt_extend (get_or [] (sn_filters s) address) (bt_collect named))
                     (sn_filters s)\<rparr>)))"

record actual_snapshot =
  as_state :: pairing_actual
  as_ids_by_addr :: "(ustring \<times> ustring) list"
  as_collections_by_addr :: "(ustring \<times> ustring list) list"

definition read_actual ::
  "('acp, 'w) p2p_admin \<Rightarrow> addr_parser \<Rightarrow> ustring list \<Rightarrow> ('w, admin_error, actual_snapshot) act" where
  "read_actual A parse_addr applied_addresses =
     act_bind (ad_list_p2p_collections A) (\<lambda>ids.
     act_bind (act_each (resolve_or_raw A) ids) (\<lambda>names.
     act_bind (ad_list_replicators A) (\<lambda>reps.
     act_bind (act_fold (scan_replicator A parse_addr applied_addresses) reps empty_scan) (\<lambda>s.
     act_bind (act_each (\<lambda>(address, ids).
         act_bind (act_each (resolve_or_raw A) ids) (\<lambda>ns. act_return (address, bs_collect ns)))
         (sn_collections s)) (\<lambda>rcols.
     act_return
       \<lparr>as_state =
          \<lparr>pa_collections = bs_collect names,
           pa_replicator_addresses = sn_addresses s,
           pa_replicator_collections = rcols,
           pa_replicator_filters = sn_filters s,
           pa_filters_unobserved = sn_unobserved s,
           pa_observed_addresses = sn_observed s\<rparr>,
        as_ids_by_addr = sn_ids s,
        as_collections_by_addr = sn_collections s\<rparr>)))))"

section \<open>Operations on the transport\<close>

definition teardown_collections ::
  "'acp pairing_desired \<Rightarrow> actual_snapshot \<Rightarrow> ustring \<Rightarrow> ustring list" where
  "teardown_collections d snap address =
     (case opt_filter (\<lambda>cs. cs \<noteq> []) (map_of (as_collections_by_addr snap) address) of
        Some cs \<Rightarrow> cs
      | None \<Rightarrow> effective_replicator_collections d)"

definition teardown_id :: "addr_parser \<Rightarrow> actual_snapshot \<Rightarrow> ustring \<Rightarrow> ustring" where
  "teardown_id parse_addr snap address =
     (case or_else (map_of (as_ids_by_addr snap) address) (map_option fst (parse_addr address)) of
        Some i \<Rightarrow> i
      | None \<Rightarrow> address)"

definition not_found_ok :: "('w, admin_error, unit) act \<Rightarrow> ('w, admin_error, unit) act" where
  "not_found_ok m w = (case m w of (Inl (RemoteNotFound _), w') \<Rightarrow> (Inr (), w') | r \<Rightarrow> r)"

definition apply_op ::
  "('acp, 'w) p2p_admin \<Rightarrow> addr_parser \<Rightarrow> diff_op \<Rightarrow> 'acp pairing_desired \<Rightarrow> actual_snapshot \<Rightarrow>
   ('w, admin_error, unit) act" where
  "apply_op A parse_addr op d snap =
     (case op of
        InstallCollection c \<Rightarrow> ad_add_p2p_collections A [c]
      | TeardownCollection c \<Rightarrow> ad_delete_p2p_collections A [c]
      | InstallReplicator address \<Rightarrow>
          ad_add_replicator A [address] (effective_replicator_collections d) (pd_replicator_filter d)
      | TeardownReplicator address \<Rightarrow>
          not_found_ok (ad_delete_replicator A (teardown_id parse_addr snap address)
                          (teardown_collections d snap address)))"

definition replay_replicator_after_reconnect ::
  "('acp, 'w) p2p_admin \<Rightarrow> ustring \<Rightarrow> 'acp pairing_desired \<Rightarrow> actual_snapshot \<Rightarrow>
   ('w, admin_error, unit) act" where
  "replay_replicator_after_reconnect A address d snap =
     act_bind (ad_delete_replicator A
                (case map_of (as_ids_by_addr snap) address of None \<Rightarrow> address | Some i \<Rightarrow> i)
                (teardown_collections d snap address))
       (\<lambda>_. ad_add_replicator A [address] (effective_replicator_collections d) (pd_replicator_filter d))"

text \<open>The teardown of a route that is being deleted (\<^verbatim>\<open>teardown_owned_replicators_at_endpoint\<close>).\<close>

datatype teardown_error = BadEndpoint route_error | TeardownAdmin admin_error | Survived ustring

definition at_endpoint :: "addr_parser \<Rightarrow> ustring \<Rightarrow> ustring \<Rightarrow> remote_replicator \<Rightarrow> bool" where
  "at_endpoint parse_addr address peer rep \<longleftrightarrow>
     (case rr_address rep of
        None \<Rightarrow> False
      | Some c \<Rightarrow> c = address \<or>
          (case endpoint_parse parse_addr c of Inl _ \<Rightarrow> False | Inr e \<Rightarrow> te_peer_id e = peer)) \<or>
     rr_id rep = Some peer"

definition teardown_owned_replicators_at_endpoint ::
  "('acp, 'w) p2p_admin \<Rightarrow> addr_parser \<Rightarrow> ustring \<Rightarrow> ('w, teardown_error, nat) act" where
  "teardown_owned_replicators_at_endpoint A parse_addr address =
     (case endpoint_parse parse_addr address of
        Inl e \<Rightarrow> (\<lambda>w. (Inl (BadEndpoint e), w))
      | Inr endpoint \<Rightarrow>
          let peer = te_peer_id endpoint in
          act_bind (act_err TeardownAdmin (ad_list_replicators A)) (\<lambda>reps.
          act_bind (act_fold (\<lambda>rep removed.
              act_bind (act_err TeardownAdmin
                  (not_found_ok (ad_delete_replicator A
                     (case rr_id rep of None \<Rightarrow> peer | Some i \<Rightarrow> i) (rr_collections rep))))
                (\<lambda>_. act_return (Suc removed)))
              (filter (at_endpoint parse_addr address peer) reps) 0) (\<lambda>removed.
          act_bind (act_err TeardownAdmin (ad_list_replicators A)) (\<lambda>remaining w.
            if list_ex (at_endpoint parse_addr address peer) remaining
            then (Inl (Survived peer), w) else (Inr removed, w)))))"

section \<open>The tick\<close>

definition fresh_generation_or_close ::
  "('acp, 'w) pairing_store \<Rightarrow> route_generation option \<Rightarrow> 'w \<Rightarrow> bool \<times> 'w" where
  "fresh_generation_or_close S generation w =
     (case generation of
        None \<Rightarrow> (True, w)
      | Some g \<Rightarrow>
          (case ss_generation_is_current S g w of
             (Inl _, w') \<Rightarrow> (False, w')
           | (Inr current, w') \<Rightarrow> (current, w')))"

definition persist_applied_record ::
  "('acp, 'w) pairing_store \<Rightarrow> ustring \<Rightarrow> 'acp loaded_applied \<Rightarrow> ('w, tick_error, 'acp loaded_applied) act" where
  "persist_applied_record S peer_id la =
     act_bind (act_err StoreFailed (ss_persist_applied S peer_id la))
       (\<lambda>_. act_return (la\<lparr>la_duplicate_doc_ids := []\<rparr>))"

definition peer_already_active ::
  "('acp, 'w) p2p_admin \<Rightarrow> addr_parser \<Rightarrow> ustring \<Rightarrow> 'w \<Rightarrow> bool \<times> 'w" where
  "peer_already_active A parse_addr peer_id w =
     (case ad_active_peers A w of
        (Inl _, w') \<Rightarrow> (False, w')
      | (Inr peers, w') \<Rightarrow>
          (list_ex (\<lambda>entry. case parse_addr entry of
              Some (parsed, _) \<Rightarrow> parsed = peer_id
            | None \<Rightarrow> str_contains entry peer_id) peers, w'))"

fun any_peer_active ::
  "('acp, 'w) p2p_admin \<Rightarrow> addr_parser \<Rightarrow> ustring list \<Rightarrow> 'w \<Rightarrow> bool \<times> 'w" where
  "any_peer_active A parse_addr [] w = (False, w)"
| "any_peer_active A parse_addr (p # ps) w =
     (case peer_already_active A parse_addr p w of
        (True, w') \<Rightarrow> (True, w')
      | (False, w') \<Rightarrow> any_peer_active A parse_addr ps w')"

record 'acp ready_peer =
  rp_desired :: "'acp pairing_desired option"
  rp_generation :: "route_generation option"
  rp_applied :: "'acp loaded_applied"
  rp_reconnected :: bool
  rp_force_replay :: bool

datatype 'acp prepared_state =
    DesiredReadFailed
  | PreparationFailed tick_error
  | Ready "'acp ready_peer"

record 'acp peer_preparation =
  pr_active_before :: bool
  pr_state :: "'acp prepared_state"

definition desired_or_default :: "'acp pairing_desired option \<Rightarrow> 'acp pairing_desired" where
  "desired_or_default d = (case d of None \<Rightarrow> default_desired | Some x \<Rightarrow> x)"

text \<open>Dial the peer unless it is connected already and its addresses are unchanged.\<close>

definition connect_pairing_peer ::
  "('acp, 'w) p2p_admin \<Rightarrow> ('acp, 'w) pairing_store \<Rightarrow> addr_parser \<Rightarrow> bool \<Rightarrow> 'acp ready_peer \<Rightarrow> 'w \<Rightarrow>
   'acp peer_preparation \<times> 'w" where
  "connect_pairing_peer A S parse_addr force_replay_when_active rp w =
     (let d = desired_or_default (rp_desired rp);
          owned = pp_replicator_addresses (la_state (rp_applied rp));
          address_changed = (owned \<noteq> [] \<and> set owned \<noteq> set (pd_replicator_addresses d));
          peers = List.map_filter (\<lambda>a. case endpoint_parse parse_addr a of
                      Inl _ \<Rightarrow> None | Inr e \<Rightarrow> Some (te_peer_id e)) (pd_replicator_addresses d)
      in case any_peer_active A parse_addr peers w of
           (active_before, w1) \<Rightarrow>
             if \<not> address_changed \<and> active_before
             then (\<lparr>pr_active_before = active_before,
                    pr_state = Ready (rp\<lparr>rp_force_replay := force_replay_when_active\<rparr>)\<rparr>, w1)
             else (case fresh_generation_or_close S (rp_generation rp) w1 of
                     (False, w2) \<Rightarrow>
                       (\<lparr>pr_active_before = active_before,
                         pr_state = Ready (rp\<lparr>rp_desired := None\<rparr>)\<rparr>, w2)
                   | (True, w2) \<Rightarrow>
                       (case ad_connect A (pd_replicator_addresses d) w2 of
                          (Inl e, w3) \<Rightarrow>
                            (\<lparr>pr_active_before = active_before,
                              pr_state = PreparationFailed (AdminFailed e)\<rparr>, w3)
                        | (Inr _, w3) \<Rightarrow>
                            (\<lparr>pr_active_before = active_before,
                              pr_state = Ready (rp\<lparr>rp_reconnected := True,
                                rp_force_replay := force_replay_when_active \<and> active_before\<rparr>)\<rparr>, w3))))"

definition prepare_pairing_peer ::
  "('acp, 'w) p2p_admin \<Rightarrow> ('acp, 'w) pairing_store \<Rightarrow> addr_parser \<Rightarrow> ustring \<Rightarrow> bool \<Rightarrow> 'w \<Rightarrow>
   'acp peer_preparation \<times> 'w" where
  "prepare_pairing_peer A S parse_addr peer_id force_replay_when_active w =
     (case ss_load_desired S peer_id w of
        (Inl _, w1) \<Rightarrow> (\<lparr>pr_active_before = False, pr_state = DesiredReadFailed\<rparr>, w1)
      | (Inr loaded, w1) \<Rightarrow>
          let (current, w2) = (if ld_state loaded = None then (True, w1)
                               else fresh_generation_or_close S (ld_generation loaded) w1);
              desired = (if current then ld_state loaded else None);
              d = desired_or_default desired
          in case ss_load_applied S peer_id w2 of
               (Inl e, w3) \<Rightarrow>
                 (\<lparr>pr_active_before = False, pr_state = PreparationFailed (StoreFailed e)\<rparr>, w3)
             | (Inr la, w3) \<Rightarrow>
                 let rp = \<lparr>rp_desired = desired, rp_generation = ld_generation loaded,
                           rp_applied = la, rp_reconnected = False, rp_force_replay = False\<rparr> in
                 if has_wiring d \<and> pd_replicator_addresses d \<noteq> []
                 then connect_pairing_peer A S parse_addr force_replay_when_active rp w3
                 else (\<lparr>pr_active_before = False, pr_state = Ready rp\<rparr>, w3))"

text \<open>The state of the operation loop: what is still desired, the snapshot the operations refer to,
  the record of what is owned and the operations done.\<close>

record 'acp loop_state =
  ls_desired :: "'acp pairing_desired option"
  ls_snapshot :: actual_snapshot
  ls_applied :: "'acp loaded_applied"
  ls_done :: "diff_op list"

definition do_op ::
  "('acp, 'w) p2p_admin \<Rightarrow> ('acp, 'w) pairing_store \<Rightarrow> addr_parser \<Rightarrow> ustring \<Rightarrow> diff_op \<Rightarrow>
   'acp loop_state \<Rightarrow> ('w, tick_error, 'acp loop_state) act" where
  "do_op A S parse_addr peer_id op ls =
     (let d = desired_or_default (ls_desired ls);
          la = ls_applied ls in
      act_bind (act_err AdminFailed (apply_op A parse_addr op d (ls_snapshot ls))) (\<lambda>_.
      act_bind (persist_applied_record S peer_id
                 (la\<lparr>la_state := update_applied_after_success op d (la_state la)\<rparr>)) (\<lambda>la'.
      act_return (ls\<lparr>ls_applied := la', ls_done := ls_done ls @ [op]\<rparr>))))"

text \<open>The loop once nothing is desired any more, and while the authority has to be asked before
  every operation. When it has closed, the remaining operations are replaced by the teardown.\<close>

fun closed_ops ::
  "('acp, 'w) p2p_admin \<Rightarrow> ('acp, 'w) pairing_store \<Rightarrow> addr_parser \<Rightarrow> ustring \<Rightarrow> diff_op list \<Rightarrow>
   'acp loop_state \<Rightarrow> ('w, tick_error, 'acp loop_state) act" where
  "closed_ops A S parse_addr peer_id [] ls = act_return ls"
| "closed_ops A S parse_addr peer_id (op # ops) ls =
     act_bind (do_op A S parse_addr peer_id op ls) (closed_ops A S parse_addr peer_id ops)"

definition close_route ::
  "'acp filter_api \<Rightarrow> ('acp, 'w) p2p_admin \<Rightarrow> ('acp, 'w) pairing_store \<Rightarrow> addr_parser \<Rightarrow> ustring \<Rightarrow>
   'acp loop_state \<Rightarrow> ('w, tick_error, 'acp loop_state) act" where
  "close_route F A S parse_addr peer_id ls =
     (let applied = la_state (ls_applied ls) in
      act_bind (act_err AdminFailed (read_actual A parse_addr (pp_replicator_addresses applied))) (\<lambda>snap.
      closed_ops A S parse_addr peer_id
        (compute_owned_pairing_diff F parse_addr default_desired (as_state snap) applied)
        (ls\<lparr>ls_desired := None, ls_snapshot := snap\<rparr>)))"

fun open_ops ::
  "'acp filter_api \<Rightarrow> ('acp, 'w) p2p_admin \<Rightarrow> ('acp, 'w) pairing_store \<Rightarrow> addr_parser \<Rightarrow> ustring \<Rightarrow>
   route_generation option \<Rightarrow> diff_op list \<Rightarrow> 'acp loop_state \<Rightarrow> ('w, tick_error, 'acp loop_state) act" where
  "open_ops F A S parse_addr peer_id g [] ls w = (Inr ls, w)"
| "open_ops F A S parse_addr peer_id g (op # ops) ls w =
     (case fresh_generation_or_close S g w of
        (False, w') \<Rightarrow> close_route F A S parse_addr peer_id ls w'
      | (True, w') \<Rightarrow>
          act_bind (do_op A S parse_addr peer_id op ls)
            (open_ops F A S parse_addr peer_id g ops) w')"

definition run_ops ::
  "'acp filter_api \<Rightarrow> ('acp, 'w) p2p_admin \<Rightarrow> ('acp, 'w) pairing_store \<Rightarrow> addr_parser \<Rightarrow> ustring \<Rightarrow>
   route_generation option \<Rightarrow> diff_op list \<Rightarrow> 'acp loop_state \<Rightarrow> ('w, tick_error, 'acp loop_state) act" where
  "run_ops F A S parse_addr peer_id g ops ls =
     (if ls_desired ls = None then closed_ops A S parse_addr peer_id ops ls
      else open_ops F A S parse_addr peer_id g ops ls)"

definition reinstalls :: "diff_op list \<Rightarrow> ustring \<Rightarrow> bool" where
  "reinstalls ops address \<longleftrightarrow>
     InstallReplicator address \<in> set ops \<or> TeardownReplicator address \<in> set ops"

definition replay_subagent_routes ::
  "('acp, 'w) p2p_admin \<Rightarrow> ('acp, 'w) pairing_store \<Rightarrow> 'acp ready_peer \<Rightarrow> 'acp pairing_desired \<Rightarrow>
   actual_snapshot \<Rightarrow> diff_op list \<Rightarrow> ('w, tick_error, ustring list) act" where
  "replay_subagent_routes A S rp d snap ops w =
     (if (rp_reconnected rp \<or> rp_force_replay rp) \<and> uses_subagent_template d
      then (case fresh_generation_or_close S (rp_generation rp) w of
              (False, w') \<Rightarrow> (Inr [], w')
            | (True, w') \<Rightarrow>
                act_each (\<lambda>address.
                    act_bind (act_err AdminFailed (replay_replicator_after_reconnect A address d snap))
                      (\<lambda>_. act_return address))
                  (filter (\<lambda>a. \<not> reinstalls ops a)
                     (bs_inter (pd_replicator_addresses d) (pa_replicator_addresses (as_state snap)))) w')
      else (Inr [], w))"

record tick_outcome =
  to_ops_applied :: "diff_op list"
  to_replayed :: "ustring list"
  to_desired_read_failed :: bool
  to_peer_active :: bool
  to_live_route_matches :: bool

definition finish_tick ::
  "'acp filter_api \<Rightarrow> ('acp, 'w) p2p_admin \<Rightarrow> ('acp, 'w) pairing_store \<Rightarrow> addr_parser \<Rightarrow> ustring \<Rightarrow> bool \<Rightarrow>
   ustring list \<Rightarrow> 'acp loop_state \<Rightarrow> ('w, tick_error, tick_outcome) act" where
  "finish_tick F A S parse_addr peer_id active replayed ls =
     (let applied = la_state (ls_applied ls);
          d = desired_or_default (ls_desired ls) in
      act_bind (if ls_done ls = [] \<and> replayed = [] then act_return (ls_snapshot ls)
                else act_err AdminFailed (read_actual A parse_addr (pp_replicator_addresses applied)))
        (\<lambda>verified.
      act_bind (if ls_desired ls = None \<and> \<not> applied_is_empty applied
                then persist_applied_record S peer_id ((ls_applied ls)\<lparr>la_state := default_applied\<rparr>)
                else act_return (ls_applied ls))
        (\<lambda>_. act_return
          \<lparr>to_ops_applied = ls_done ls, to_replayed = replayed, to_desired_read_failed = False,
           to_peer_active = active,
           to_live_route_matches =
             owned_pairing_live_matches F parse_addr d (as_state verified) applied\<rparr>)))"

definition reconcile_ready_peer ::
  "'acp filter_api \<Rightarrow> ('acp, 'w) p2p_admin \<Rightarrow> ('acp, 'w) pairing_store \<Rightarrow> addr_parser \<Rightarrow> ustring \<Rightarrow> bool \<Rightarrow>
   'acp ready_peer \<Rightarrow> ('w, tick_error, tick_outcome) act" where
  "reconcile_ready_peer F A S parse_addr peer_id active_before rp =
     act_bind (act_err AdminFailed
        (read_actual A parse_addr (pp_replicator_addresses (la_state (rp_applied rp))))) (\<lambda>snap.
     act_bind (if la_duplicate_doc_ids (rp_applied rp) \<noteq> []
               then persist_applied_record S peer_id (rp_applied rp)
               else act_return (rp_applied rp)) (\<lambda>la w.
       case (if rp_desired rp = None then (True, w)
             else fresh_generation_or_close S (rp_generation rp) w) of
         (current, w1) \<Rightarrow>
           let desired = (if current then rp_desired rp else None);
               d = desired_or_default desired;
               ops = compute_owned_pairing_diff F parse_addr d (as_state snap) (la_state la)
           in act_bind (replay_subagent_routes A S rp d snap ops) (\<lambda>replayed.
              act_bind (run_ops F A S parse_addr peer_id (rp_generation rp) ops
                  \<lparr>ls_desired = desired, ls_snapshot = snap, ls_applied = la, ls_done = []\<rparr>) (\<lambda>ls.
              finish_tick F A S parse_addr peer_id (active_before \<or> rp_reconnected rp) replayed ls)) w1))"

definition reconcile_prepared_peer ::
  "'acp filter_api \<Rightarrow> ('acp, 'w) p2p_admin \<Rightarrow> ('acp, 'w) pairing_store \<Rightarrow> addr_parser \<Rightarrow> ustring \<Rightarrow>
   'acp peer_preparation \<Rightarrow> ('w, tick_error, tick_outcome) act" where
  "reconcile_prepared_peer F A S parse_addr peer_id prep =
     (case pr_state prep of
        PreparationFailed e \<Rightarrow> (\<lambda>w. (Inl e, w))
      | DesiredReadFailed \<Rightarrow>
          act_return \<lparr>to_ops_applied = [], to_replayed = [], to_desired_read_failed = True,
                      to_peer_active = False, to_live_route_matches = False\<rparr>
      | Ready rp \<Rightarrow>
          reconcile_ready_peer F A S parse_addr peer_id (pr_active_before prep) rp)"

definition reconcile_peer_tick_with_replay ::
  "'acp filter_api \<Rightarrow> ('acp, 'w) p2p_admin \<Rightarrow> ('acp, 'w) pairing_store \<Rightarrow> addr_parser \<Rightarrow> ustring \<Rightarrow> bool \<Rightarrow>
   ('w, tick_error, tick_outcome) act" where
  "reconcile_peer_tick_with_replay F A S parse_addr peer_id force_replay w =
     (case prepare_pairing_peer A S parse_addr peer_id force_replay w of
        (prep, w') \<Rightarrow> reconcile_prepared_peer F A S parse_addr peer_id prep w')"

definition reconcile_peer_tick ::
  "'acp filter_api \<Rightarrow> ('acp, 'w) p2p_admin \<Rightarrow> ('acp, 'w) pairing_store \<Rightarrow> addr_parser \<Rightarrow> ustring \<Rightarrow>
   ('w, tick_error, tick_outcome) act" where
  "reconcile_peer_tick F A S parse_addr peer_id =
     reconcile_peer_tick_with_replay F A S parse_addr peer_id False"

definition observe_owned_pairing_live_matches ::
  "'acp filter_api \<Rightarrow> ('acp, 'w) p2p_admin \<Rightarrow> addr_parser \<Rightarrow> 'acp pairing_desired \<Rightarrow>
   'acp pairing_applied \<Rightarrow> ('w, admin_error, bool) act" where
  "observe_owned_pairing_live_matches F A parse_addr d p =
     act_bind (read_actual A parse_addr (pp_replicator_addresses p))
       (\<lambda>snap. act_return (owned_pairing_live_matches F parse_addr d (as_state snap) p))"

end
