(* ===== verification/Pairing_Node.thy ===== *)
theory Pairing_Node
  imports Pairing_Engine
begin

text \<open>
  The implementations of the two interfaces of the pairing engine over the embedded database node:
  \<^verbatim>\<open>embedded_impl.rs\<close> over the node's transport operations, and \<open>GraphqlPairingStateStore\<close> over its
  queries. The node is an argument; a call of the transport ends with a value, with an error, or not
  within the time limit.
\<close>

section \<open>The transport\<close>

datatype p2p_error =
    P2pNotFound ustring
  | P2pTransport ustring
  | P2pInternal ustring
  | P2pInvalidInput ustring
  | P2pUnsupported ustring
  | P2pOther ustring

datatype 'a p2p_reply = Elapsed | Failed p2p_error | Answered 'a

type_synonym ('w, 'a) call = "'w \<Rightarrow> 'a p2p_reply \<times> 'w"

record adapter_replicator =
  ap_id :: "ustring option"
  ap_collections :: "ustring list"
  ap_address :: "ustring option"
  ap_filters :: replication_filters

record 'w p2p_node =
  pn_has_p2p :: "'w \<Rightarrow> bool"
  pn_connected_peers :: "('w, ustring list) call"
  pn_connect_peer :: "ustring \<Rightarrow> ('w, unit) call"
  pn_get_replicators :: "('w, adapter_replicator list) call"
  pn_add_replicator ::
    "ustring list \<Rightarrow> ustring option \<Rightarrow> replication_filters \<Rightarrow> ('w, unit) call"
  pn_remove_replicator :: "ustring list \<Rightarrow> ustring option \<Rightarrow> ('w, unit) call"
  pn_get_collections :: "('w, ustring list) call"
  pn_add_collections :: "ustring list \<Rightarrow> ('w, unit) call"
  pn_remove_collections :: "ustring list \<Rightarrow> ('w, unit) call"
  pn_list_collections :: "'w \<Rightarrow> ustring + ustring list"
  pn_get_collection :: "ustring \<Rightarrow> 'w \<Rightarrow> ustring + (ustring \<times> ustring) option"

text \<open>\<^verbatim>\<open>get_collection\<close> answers the name and the identifier of a definition.\<close>

definition map_p2p_error :: "string \<Rightarrow> p2p_error \<Rightarrow> admin_error" where
  "map_p2p_error operation e =
     (case e of
        P2pNotFound m \<Rightarrow> RemoteNotFound m
      | P2pTransport m \<Rightarrow> RpcError (lit operation @ lit '': '' @ m)
      | P2pInternal m \<Rightarrow> RpcError (lit operation @ lit '': '' @ m)
      | P2pInvalidInput m \<Rightarrow> LocalError (lit operation @ lit '': '' @ m)
      | P2pUnsupported m \<Rightarrow> LocalError (lit operation @ lit '': '' @ m)
      | P2pOther m \<Rightarrow> RpcError (lit operation @ lit '': '' @ m))"

definition no_transport :: admin_error where
  "no_transport = LocalError (lit ''embedded node has no P2P transport'')"

definition embedded_run :: "string \<Rightarrow> ('w, 'a) call \<Rightarrow> ('w, admin_error, 'a) act" where
  "embedded_run operation m w =
     (case m w of
        (Elapsed, w') \<Rightarrow> (Inl RpcTimeout, w')
      | (Failed e, w') \<Rightarrow> (Inl (map_p2p_error operation e), w')
      | (Answered x, w') \<Rightarrow> (Inr x, w'))"

definition with_p2p :: "'w p2p_node \<Rightarrow> ('w, admin_error, 'a) act \<Rightarrow> ('w, admin_error, 'a) act" where
  "with_p2p N m w = (if pn_has_p2p N w then m w else (Inl no_transport, w))"

definition embedded_connect :: "'w p2p_node \<Rightarrow> ustring list \<Rightarrow> ('w, admin_error, unit) act" where
  "embedded_connect N addresses =
     with_p2p N (act_bind (act_each (\<lambda>a. embedded_run ''connect_peer'' (pn_connect_peer N a)) addresses)
       (\<lambda>_. act_return ()))"

definition remote_replicator_of :: "adapter_replicator \<Rightarrow> remote_replicator" where
  "remote_replicator_of r = \<lparr>rr_id = ap_id r, rr_collections = ap_collections r,
     rr_address = ap_address r, rr_filters = Some (ap_filters r)\<rparr>"

definition embedded_add_replicator ::
  "'acp filter_api \<Rightarrow> 'w p2p_node \<Rightarrow> ustring list \<Rightarrow> ustring list \<Rightarrow> 'acp pairing_filters \<Rightarrow>
   ('w, admin_error, unit) act" where
  "embedded_add_replicator F N addresses collections filters =
     with_p2p N
       (case to_replication_filters F filters of
          None \<Rightarrow> (\<lambda>w. (Inl (LocalError (lit ''ACP filter is not supported by the replication API'')), w))
        | Some fs \<Rightarrow>
            embedded_run ''add_replicator'' (pn_add_replicator N collections (first_of addresses) fs))"

definition embedded_delete_replicator ::
  "'w p2p_node \<Rightarrow> ustring \<Rightarrow> ustring list \<Rightarrow> ('w, admin_error, unit) act" where
  "embedded_delete_replicator N i collections =
     with_p2p N (embedded_run ''remove_replicator''
       (pn_remove_replicator N collections (if trim i = [] then None else Some i)))"

fun find_collection_name :: "'w p2p_node \<Rightarrow> 'w \<Rightarrow> ustring \<Rightarrow> ustring list \<Rightarrow> ustring option" where
  "find_collection_name N w i [] = None"
| "find_collection_name N w i (n # ns) =
     (case pn_get_collection N n w of
        Inr (Some (name, cid)) \<Rightarrow> if cid = i then Some name else find_collection_name N w i ns
      | _ \<Rightarrow> find_collection_name N w i ns)"

definition embedded_resolve_collection_name ::
  "'w p2p_node \<Rightarrow> ustring \<Rightarrow> ('w, admin_error, ustring option) act" where
  "embedded_resolve_collection_name N i w =
     (case pn_list_collections N w of
        Inl e \<Rightarrow> (Inl (LocalError e), w)
      | Inr names \<Rightarrow> (Inr (find_collection_name N w i names), w))"

definition embedded_admin :: "'acp filter_api \<Rightarrow> 'w p2p_node \<Rightarrow> ('acp, 'w) p2p_admin" where
  "embedded_admin F N =
     \<lparr>ad_active_peers = with_p2p N (embedded_run ''connected_peers'' (pn_connected_peers N)),
      ad_connect = embedded_connect N,
      ad_list_replicators =
        with_p2p N (act_bind (embedded_run ''get_replicators'' (pn_get_replicators N))
          (\<lambda>rs. act_return (map remote_replicator_of rs))),
      ad_add_replicator = embedded_add_replicator F N,
      ad_delete_replicator = embedded_delete_replicator N,
      ad_list_p2p_collections = with_p2p N (embedded_run ''get_collections'' (pn_get_collections N)),
      ad_resolve_collection_name = embedded_resolve_collection_name N,
      ad_add_p2p_collections =
        (\<lambda>cs. with_p2p N (embedded_run ''add_collections'' (pn_add_collections N cs))),
      ad_delete_p2p_collections =
        (\<lambda>cs. with_p2p N (embedded_run ''remove_collections'' (pn_remove_collections N cs)))\<rparr>"

section \<open>The state store\<close>

text \<open>The queries and mutations of the store, with their answers decoded, the clock and the
  authority's answers at a world.\<close>

record ('acp, 'w) pairing_queries =
  pq_desired_rows ::
    "ustring \<Rightarrow> 'w \<Rightarrow> (ustring + read_row \<times> read_row) \<times> 'w"
  pq_applied_rows :: "ustring \<Rightarrow> ('w, ustring, applied_state_row list) act"
  pq_delete_applied :: "ustring \<Rightarrow> ('w, ustring, unit) act"
  pq_save_applied :: "ustring list \<Rightarrow> ustring \<Rightarrow> 'acp pairing_applied \<Rightarrow> ('w, ustring, unit) act"
  pq_clock :: "'w \<Rightarrow> instant"
  pq_enrollment :: "'w \<Rightarrow> enrollment_of_store"

definition store_load_desired ::
  "'acp filter_api \<Rightarrow> canonical_time \<Rightarrow> ustring \<Rightarrow> ('acp, 'w) pairing_queries \<Rightarrow> ustring \<Rightarrow>
   ('w, desired_error, 'acp loaded_desired) act" where
  "store_load_desired F TM self_did Q peer_id w =
     (case pq_desired_rows Q peer_id w of
        (answer, w') \<Rightarrow>
          (load_desired_with_authority F TM (pq_enrollment Q w') self_did (pq_clock Q w') answer peer_id, w'))"

definition store_persist_applied ::
  "('acp, 'w) pairing_queries \<Rightarrow> ustring \<Rightarrow> 'acp loaded_applied \<Rightarrow> ('w, ustring, unit) act" where
  "store_persist_applied Q peer_id la =
     (if applied_is_empty (la_state la) then pq_delete_applied Q peer_id
      else pq_save_applied Q (la_duplicate_doc_ids la) peer_id (la_state la))"

definition graphql_pairing_state_store ::
  "'acp filter_api \<Rightarrow> canonical_time \<Rightarrow> (ustring \<Rightarrow> 'acp pairing_filters option) \<Rightarrow> ustring \<Rightarrow>
   ('acp, 'w) pairing_queries \<Rightarrow> ('acp, 'w) pairing_store" where
  "graphql_pairing_state_store F TM decode self_did Q =
     \<lparr>ss_load_desired = store_load_desired F TM self_did Q,
      ss_generation_is_current =
        (\<lambda>g w. (enrollment_generation_is_current TM (pq_enrollment Q w) (pq_clock Q w) g, w)),
      ss_load_applied = (\<lambda>peer_id.
        act_bind (pq_applied_rows Q peer_id) (\<lambda>rows. act_return (load_applied_from_rows decode rows))),
      ss_persist_applied = store_persist_applied Q\<rparr>"

section \<open>Intervals\<close>

text \<open>\<^verbatim>\<open>intervals.rs\<close>, in milliseconds; the argument is the environment.\<close>

definition parse_u64 :: "ustring \<Rightarrow> nat option" where
  "parse_u64 s = opt_filter (\<lambda>n. n < 2 ^ 64)
     (let ds = (case s of [] \<Rightarrow> [] | c # r \<Rightarrow> if c = 43 then r else s)
      in if ds = [] then None else digits_value 0 ds)"

definition parse_ms :: "ustring \<Rightarrow> nat option" where
  "parse_ms raw = opt_filter (\<lambda>ms. 0 < ms) (parse_u64 (trim raw))"

definition env_ms :: "(ustring \<Rightarrow> ustring option) \<Rightarrow> string \<Rightarrow> nat option" where
  "env_ms env key = Option.bind (env (lit key)) parse_ms"

definition heartbeat_interval :: "(ustring \<Rightarrow> ustring option) \<Rightarrow> nat" where
  "heartbeat_interval env =
     (case env_ms env ''GENTS_REGISTRY_HEARTBEAT_MS'' of None \<Rightarrow> 30000 | Some ms \<Rightarrow> ms)"

definition sweep_interval :: "(ustring \<Rightarrow> ustring option) \<Rightarrow> nat" where
  "sweep_interval env = (case env_ms env ''GENTS_PAIRING_SWEEP_MS'' of None \<Rightarrow> 30000 | Some ms \<Rightarrow> ms)"

definition endpoint_interval :: "(ustring \<Rightarrow> ustring option) \<Rightarrow> nat" where
  "endpoint_interval env =
     (case env_ms env ''GENTS_ENDPOINT_HEARTBEAT_MS'' of None \<Rightarrow> heartbeat_interval env | Some ms \<Rightarrow> ms)"

definition stale_after :: "(ustring \<Rightarrow> ustring option) \<Rightarrow> nat" where
  "stale_after env =
     (case env_ms env ''GENTS_REGISTRY_STALE_MS'' of None \<Rightarrow> heartbeat_interval env * 3 | Some ms \<Rightarrow> ms)"

text \<open>In nanoseconds, since the division of a \<^verbatim>\<open>Duration\<close> keeps them.\<close>

definition lease_renewal_interval_ns :: "(ustring \<Rightarrow> ustring option) \<Rightarrow> nat" where
  "lease_renewal_interval_ns env = max (stale_after env * 1000000 div 3) 1000000"

end
