(* ===== verification/Pairing_Props.thy ===== *)
theory Pairing_Props
  imports Pairing_Node
begin

text \<open>
  Lemmas on the pairing engine: what the operation loop does, and how the
  desired wiring depends on the authority.
\<close>

section \<open>One operation\<close>

lemma do_opE:
  assumes "do_op A S P peer op ls w = (Inr ls', w')"
  obtains w1 where
    "apply_op A P op (desired_or_default (ls_desired ls)) (ls_snapshot ls) w = (Inr (), w1)"
    "ss_persist_applied S peer ((ls_applied ls)\<lparr>la_state := update_applied_after_success op
        (desired_or_default (ls_desired ls)) (la_state (ls_applied ls))\<rparr>) w1 = (Inr (), w')"
    "ls' = ls\<lparr>ls_applied := \<lparr>la_state = update_applied_after_success op
        (desired_or_default (ls_desired ls)) (la_state (ls_applied ls)), la_duplicate_doc_ids = []\<rparr>,
      ls_done := ls_done ls @ [op]\<rparr>"
proof -
  from assms show ?thesis
    unfolding do_op_def Let_def persist_applied_record_def
    by (auto elim!: act_bindE act_errE act_returnE intro!: that)
qed

text \<open>The fields of the loop state that an operation keeps, and what it adds.\<close>

lemma do_op_fields:
  assumes "do_op A S P peer op ls w = (Inr ls', w')"
  shows "ls_desired ls' = ls_desired ls" "ls_snapshot ls' = ls_snapshot ls"
    "ls_done ls' = ls_done ls @ [op]"
    "la_state (ls_applied ls') =
       update_applied_after_success op (desired_or_default (ls_desired ls)) (la_state (ls_applied ls))"
  using assms by (auto elim!: do_opE)

lemma closed_ops_fields:
  assumes "closed_ops A S P peer ops ls w = (Inr ls', w')"
  shows "ls_desired ls' = ls_desired ls \<and> ls_done ls' = ls_done ls @ ops"
  using assms
  by (induction ops arbitrary: ls w) (auto elim!: act_bindE act_returnE do_opE)

section \<open>Nothing desired\<close>

text \<open>The difference against nothing desired removes what is owned.\<close>

lemma default_desired_fields [simp]:
  "pd_collections default_desired = []" "pd_replicator_addresses default_desired = []"
  "pd_replicator_collections default_desired = []" "pd_replicator_filter default_desired = []"
  "pd_template_ids default_desired = []" "desired_or_default None = default_desired"
  "desired_or_default (Some d) = d"
  by (simp_all add: default_desired_def desired_or_default_def)

lemma diff_against_nothing:
  assumes "op \<in> set (compute_owned_pairing_diff F P default_desired a p)"
  shows "(\<exists>c \<in> set (pp_collections p). op = TeardownCollection c) \<or>
    (\<exists>r \<in> set (pp_replicator_addresses p). op = TeardownReplicator r)"
  using assms by (auto simp: owned_diff_iff split: diff_op.splits)

section \<open>A closed authority\<close>

text \<open>The same administration with other functions for dialling and installing.\<close>

abbreviation install_with ::
  "(ustring list \<Rightarrow> ('w, admin_error, unit) act) \<Rightarrow>
   (ustring list \<Rightarrow> ustring list \<Rightarrow> 'acp pairing_filters \<Rightarrow> ('w, admin_error, unit) act) \<Rightarrow>
   (ustring list \<Rightarrow> ('w, admin_error, unit) act) \<Rightarrow> ('acp, 'w) p2p_admin \<Rightarrow> ('acp, 'w) p2p_admin" where
  "install_with dial add subscribe A \<equiv>
     A\<lparr>ad_connect := dial, ad_add_replicator := add, ad_add_p2p_collections := subscribe\<rparr>"

fun is_teardown :: "diff_op \<Rightarrow> bool" where
  "is_teardown (TeardownCollection _) = True"
| "is_teardown (TeardownReplicator _) = True"
| "is_teardown _ = False"

lemma read_actual_cong:
  assumes "ad_list_p2p_collections A' = ad_list_p2p_collections A"
    and "ad_list_replicators A' = ad_list_replicators A"
    and "ad_resolve_collection_name A' = ad_resolve_collection_name A"
  shows "read_actual A' = read_actual A"
proof -
  have r: "resolve_or_raw A' = resolve_or_raw A"
    by (intro ext) (simp add: resolve_or_raw_def assms)
  have "scan_replicator A' = scan_replicator A"
    by (intro ext) (simp only: scan_replicator_def r)
  with r show ?thesis by (intro ext) (simp add: read_actual_def assms)
qed

lemma read_actual_install [simp]: "read_actual (install_with c a k A) = read_actual A"
  by (rule read_actual_cong) simp_all

lemma do_op_install:
  assumes "is_teardown op"
  shows "do_op (install_with c a k A) S P peer op ls = do_op A S P peer op ls"
  using assms by (cases op) (simp_all add: do_op_def apply_op_def Let_def)

lemma closed_ops_install:
  assumes "\<forall>op \<in> set ops. is_teardown op"
  shows "closed_ops (install_with c a k A) S P peer ops ls = closed_ops A S P peer ops ls"
  using assms
proof (induction ops arbitrary: ls)
  case (Cons op ops)
  then have "closed_ops (install_with c a k A) S P peer ops = closed_ops A S P peer ops"
    by (simp add: fun_eq_iff)
  with Cons.prems show ?case by (simp add: do_op_install)
qed simp

lemma teardown_against_nothing:
  "\<forall>op \<in> set (compute_owned_pairing_diff F P default_desired a p). is_teardown op"
  by (auto dest!: diff_against_nothing)

lemma no_template_no_replay [simp]:
  "replay_subagent_routes A S rp default_desired snap ops w = (Inr [], w)"
  by (simp add: replay_subagent_routes_def uses_subagent_template_def)

lemma finish_tick_install [simp]: "finish_tick F (install_with c a k A) = finish_tick F A"
  by (intro ext) (simp only: finish_tick_def read_actual_install)

lemma reconcile_closed_install:
  assumes "rp_desired rp = None"
  shows "reconcile_ready_peer F (install_with c a k A) S P peer active rp
    = reconcile_ready_peer F A S P peer active rp"
proof -
  have "run_ops F (install_with c a k A) S P peer g
          (compute_owned_pairing_diff F P default_desired b p) ls
      = run_ops F A S P peer g (compute_owned_pairing_diff F P default_desired b p) ls"
    if "ls_desired ls = None" for g b p and ls
    using that by (simp add: run_ops_def closed_ops_install [OF teardown_against_nothing])
  then show ?thesis
    using assms by (simp add: reconcile_ready_peer_def fun_eq_iff act_bind_eq)
qed

definition closed_store :: "('acp, 'w) pairing_store \<Rightarrow> bool" where
  "closed_store S \<longleftrightarrow>
     (\<forall>g w. fst (ss_generation_is_current S g w) \<noteq> Inr True) \<and>
     (\<forall>peer w ld w'. ss_load_desired S peer w = (Inr ld, w') \<longrightarrow> ld_state ld \<noteq> None \<longrightarrow> ld_generation ld \<noteq> None)"

lemma closed_not_fresh:
  assumes "closed_store S"
  shows "fst (fresh_generation_or_close S (Some g) w) = False"
proof -
  obtain r w' where "ss_generation_is_current S g w = (r, w')" by force
  moreover from this have "r \<noteq> Inr True"
    using assms unfolding closed_store_def by (metis fst_conv)
  ultimately show ?thesis
    by (cases r) (auto simp: fresh_generation_or_close_def)
qed

text \<open>The state in which a tick reads the record: the desired state is loaded, its generation checked.\<close>

definition record_world :: "('acp, 'w) pairing_store \<Rightarrow> ustring \<Rightarrow> 'w \<Rightarrow> 'w" where
  "record_world S peer w =
     (case ss_load_desired S peer w of
        (Inl _, w1) \<Rightarrow> w1
      | (Inr ld, w1) \<Rightarrow>
          if ld_state ld = None then w1 else snd (fresh_generation_or_close S (ld_generation ld) w1))"

lemma prepare_closed_eq:
  assumes "closed_store S"
  shows "prepare_pairing_peer A S P peer f w =
    (case ss_load_desired S peer w of
       (Inl _, w1) \<Rightarrow> (\<lparr>pr_active_before = False, pr_state = DesiredReadFailed\<rparr>, w1)
     | (Inr ld, w1) \<Rightarrow>
         (case ss_load_applied S peer (snd (if ld_state ld = None then (True, w1)
              else fresh_generation_or_close S (ld_generation ld) w1)) of
            (Inl e, w3) \<Rightarrow>
              (\<lparr>pr_active_before = False, pr_state = PreparationFailed (StoreFailed e)\<rparr>, w3)
          | (Inr la, w3) \<Rightarrow>
              (\<lparr>pr_active_before = False, pr_state = Ready \<lparr>rp_desired = None,
                 rp_generation = ld_generation ld, rp_applied = la, rp_reconnected = False,
                 rp_force_replay = False\<rparr>\<rparr>, w3)))"
proof -
  obtain r w1 where load: "ss_load_desired S peer w = (r, w1)" by force
  show ?thesis
  proof (cases r)
    case (Inl e)
    then show ?thesis by (simp add: prepare_pairing_peer_def load)
  next
    case (Inr ld)
    obtain current w2 where cur: "(if ld_state ld = None then (True, w1)
        else fresh_generation_or_close S (ld_generation ld) w1) = (current, w2)" by fastforce
    have "\<not> current" if "ld_state ld \<noteq> None"
    proof -
      from assms load that Inr obtain g where "ld_generation ld = Some g"
        unfolding closed_store_def by blast
      then show ?thesis
        using closed_not_fresh [OF assms, of g w1] cur that by simp
    qed
    then have none: "(if current then ld_state ld else None) = None" by (cases "ld_state ld") auto
    obtain r3 w3 where la: "ss_load_applied S peer w2 = (r3, w3)" by force
    then show ?thesis
      unfolding prepare_pairing_peer_def load prod.case Inr sum.case cur Let_def none
      by (cases r3) (simp_all add: has_wiring_def)
  qed
qed

lemma prepare_closed:
  assumes "closed_store S" and "prepare_pairing_peer A S P peer f w = (prep, w')"
  shows "prepare_pairing_peer (install_with c a k A) S P peer f w = (prep, w')"
    and "pr_state prep = Ready rp \<Longrightarrow> rp_desired rp = None \<and>
      ss_load_applied S peer (record_world S peer w) = (Inr (rp_applied rp), w')"
proof -
  from assms(2) show "prepare_pairing_peer (install_with c a k A) S P peer f w = (prep, w')"
    by (simp only: prepare_closed_eq [OF assms(1)])
  assume "pr_state prep = Ready rp"
  with assms(2) show "rp_desired rp = None \<and>
      ss_load_applied S peer (record_world S peer w) = (Inr (rp_applied rp), w')"
    unfolding prepare_closed_eq [OF assms(1)]
    by (auto simp: record_world_def split: prod.splits sum.splits if_splits)
qed

lemma tick_closed_install:
  assumes "closed_store S"
  shows "reconcile_peer_tick_with_replay F (install_with c a k A) S P peer f w
    = reconcile_peer_tick_with_replay F A S P peer f w"
proof -
  obtain prep w1 where prep: "prepare_pairing_peer A S P peer f w = (prep, w1)" by force
  note p = prepare_closed [OF assms this]
  have "reconcile_prepared_peer F (install_with c a k A) S P peer prep w1
    = reconcile_prepared_peer F A S P peer prep w1"
    using p(2) by (auto simp: reconcile_prepared_peer_def reconcile_closed_install split: prepared_state.split)
  then show ?thesis
    by (simp add: reconcile_peer_tick_with_replay_def prep p(1))
qed

end
