(* ===== verification/Pairing_Converge.thy ===== *)
theory Pairing_Converge
  imports Pairing_Props
begin

text \<open>
  Convergence of the reconcile tick. The locale \<open>pairing_env\<close> states what the engine relies on while
  the transport and the store work: listing shows the routes that exist, installing and removing
  change exactly the named route or collection, and what is persisted is what is loaded later.
\<close>

section \<open>The interface\<close>

type_synonym live_routes = "ustring \<rightharpoonup> ustring set \<times> replication_filters"

definition peer_of :: "addr_parser \<Rightarrow> ustring \<Rightarrow> ustring" where
  "peer_of P a = (case P a of Some (i, _) \<Rightarrow> i | None \<Rightarrow> a)"

definition resolved :: "(ustring \<Rightarrow> ustring option) \<Rightarrow> ustring \<Rightarrow> ustring" where
  "resolved names i = (case names i of None \<Rightarrow> i | Some n \<Rightarrow> n)"

text \<open>A listing shows every route once, under its address, with the peer it leads to, its
  collections and its filters.\<close>

definition shows_route ::
  "addr_parser \<Rightarrow> (ustring \<Rightarrow> ustring option) \<Rightarrow> live_routes \<Rightarrow> remote_replicator \<Rightarrow> bool" where
  "shows_route P names R rep \<longleftrightarrow>
     (\<exists>a fl. rr_address rep = Some a \<and> rr_filters rep = Some fl \<and>
        (\<forall>i. rr_id rep = Some i \<longrightarrow> i = peer_of P a) \<and>
        R a = Some (resolved names ` set (rr_collections rep),
                    bt_collect (map (\<lambda>(i, f). (resolved names i, f)) fl)))"

definition lists_routes ::
  "addr_parser \<Rightarrow> (ustring \<Rightarrow> ustring option) \<Rightarrow> live_routes \<Rightarrow> remote_replicator list \<Rightarrow> bool" where
  "lists_routes P names R reps \<longleftrightarrow>
     distinct (map rr_address reps) \<and> list_all (shows_route P names R) reps \<and>
     (\<forall>a \<in> dom R. Some a \<in> rr_address ` set reps)"

text \<open>A record of what is owned holds sets in order, and no filter without a route.\<close>

definition well_recorded :: "'acp pairing_applied \<Rightarrow> bool" where
  "well_recorded p \<longleftrightarrow>
     sorted_wrt (<) (pp_collections p) \<and> sorted_wrt (<) (pp_replicator_addresses p) \<and>
     (pp_replicator_addresses p = [] \<longrightarrow> pp_replicator_filter p = [])"

locale pairing_env =
  fixes F :: "'acp filter_api"
    and A :: "('acp, 'w) p2p_admin"
    and S :: "('acp, 'w) pairing_store"
    and P :: addr_parser
    and names :: "ustring \<Rightarrow> ustring option"
    and peer :: ustring
    and subs :: "'w \<Rightarrow> ustring set"
    and routes :: "'w \<Rightarrow> live_routes"
    and recorded :: "'w \<Rightarrow> 'acp pairing_applied"
    and writable :: "'acp pairing_filters \<Rightarrow> bool"
  assumes resolve: "ad_resolve_collection_name A i w = (Inr (names i), w)"
    and list_collections:
      "\<exists>ids. ad_list_p2p_collections A w = (Inr ids, w) \<and> resolved names ` set ids = subs w"
    and list_replicators:
      "\<exists>reps. ad_list_replicators A w = (Inr reps, w) \<and> lists_routes P names (routes w) reps"
    and active: "\<exists>r w'. ad_active_peers A w = (r, w') \<and>
        subs w' = subs w \<and> routes w' = routes w \<and> recorded w' = recorded w"
    and connect: "\<exists>w'. ad_connect A as w = (Inr (), w') \<and>
        subs w' = subs w \<and> routes w' = routes w \<and> recorded w' = recorded w"
    and add_collection: "\<exists>w'. ad_add_p2p_collections A [c] w = (Inr (), w') \<and>
        subs w' = insert c (subs w) \<and> routes w' = routes w \<and> recorded w' = recorded w"
    and delete_collection: "\<exists>w'. ad_delete_p2p_collections A [c] w = (Inr (), w') \<and>
        subs w' = subs w - {c} \<and> routes w' = routes w \<and> recorded w' = recorded w"
    and add_replicator: "to_replication_filters F fs = Some rf \<Longrightarrow> routes w a = None \<Longrightarrow>
        \<exists>w'. ad_add_replicator A [a] cs fs w = (Inr (), w') \<and> subs w' = subs w \<and>
          routes w' = (routes w)(a \<mapsto> (set cs, rf)) \<and> recorded w' = recorded w"
    and delete_replicator: "routes w a = Some (cols, f) \<Longrightarrow> peer_of P a = i \<Longrightarrow>
        inj_on (peer_of P) (dom (routes w)) \<Longrightarrow> cols \<subseteq> resolved names ` set cs \<Longrightarrow>
        \<exists>w'. ad_delete_replicator A i cs w = (Inr (), w') \<and> subs w' = subs w \<and>
          routes w' = (routes w)(a := None) \<and> recorded w' = recorded w"
    and delete_missing: "i \<notin> peer_of P ` dom (routes w) \<Longrightarrow>
        \<exists>r w'. ad_delete_replicator A i cs w = (r, w') \<and> (r = Inr () \<or> (\<exists>m. r = Inl (RemoteNotFound m))) \<and>
          subs w' = subs w \<and> routes w' = routes w \<and> recorded w' = recorded w"
    and load_desired: "ss_load_desired S peer w = (x, w') \<Longrightarrow>
        subs w' = subs w \<and> routes w' = routes w \<and> recorded w' = recorded w"
    and generation: "ss_generation_is_current S g w = (y, w') \<Longrightarrow>
        subs w' = subs w \<and> routes w' = routes w \<and> recorded w' = recorded w"
    and load_applied: "\<exists>w'. ss_load_applied S peer w =
        (Inr \<lparr>la_state = recorded w, la_duplicate_doc_ids = []\<rparr>, w') \<and>
        subs w' = subs w \<and> routes w' = routes w \<and> recorded w' = recorded w"
    and persist: "well_recorded (la_state la) \<Longrightarrow> writable (pp_replicator_filter (la_state la)) \<Longrightarrow>
        \<exists>w'. ss_persist_applied S peer la w = (Inr (), w') \<and>
          subs w' = subs w \<and> routes w' = routes w \<and> recorded w' = la_state la"
    and writable_Nil: "writable []"
begin

abbreviation same_view :: "'w \<Rightarrow> 'w \<Rightarrow> bool" where
  "same_view w w' \<equiv> subs w' = subs w \<and> routes w' = routes w \<and> recorded w' = recorded w"

end

section \<open>Reading\<close>

definition scanned ::
  "(ustring \<Rightarrow> ustring option) \<Rightarrow> remote_replicator \<Rightarrow> replicator_scan \<Rightarrow> replicator_scan" where
  "scanned names rep s =
     (let a = the (rr_address rep); s = note_replicator a rep s in
      s\<lparr>sn_filters := bt_insert a
          (bt_extend (get_or [] (sn_filters s) a)
             (bt_collect (map (\<lambda>(i, f). (resolved names i, f)) (the (rr_filters rep)))))
          (sn_filters s)\<rparr>)"

text \<open>What a snapshot says about the routes.\<close>

definition snapshot_of ::
  "addr_parser \<Rightarrow> (ustring \<Rightarrow> ustring option) \<Rightarrow> ustring set \<Rightarrow> live_routes \<Rightarrow> actual_snapshot \<Rightarrow> bool" where
  "snapshot_of P names C R snap \<longleftrightarrow>
     set (pa_collections (as_state snap)) = C \<and>
     set (pa_replicator_addresses (as_state snap)) = dom R \<and>
     distinct (pa_replicator_addresses (as_state snap)) \<and>
     pa_filters_unobserved (as_state snap) = [] \<and>
     (\<forall>a i. map_of (as_ids_by_addr snap) a = Some i \<longrightarrow> i = peer_of P a) \<and>
     (\<forall>a. R a = None \<longrightarrow> map_of (as_collections_by_addr snap) a = None) \<and>
     (\<forall>a cols f. R a = Some (cols, f) \<longrightarrow>
        map_of (pa_replicator_filters (as_state snap)) a = Some f \<and>
        map_of (pa_observed_addresses (as_state snap)) a = Some [a] \<and>
        (\<exists>cs. map_of (pa_replicator_collections (as_state snap)) a = Some cs \<and> set cs = cols) \<and>
        (\<exists>raw. map_of (as_collections_by_addr snap) a = Some raw \<and> resolved names ` set raw = cols))"

lemma bt_extend_Nil: "bt_extend [] es = bt_collect es"
  by (simp add: bt_extend_def bt_collect_def)

lemma bt_collect_wf: "bt_wf m \<Longrightarrow> bt_collect m = m"
proof (induction m rule: rev_induct)
  case Nil
  then show ?case by (simp add: bt_collect_def)
next
  case (snoc e m)
  obtain k v where e: "e = (k, v)" by (cases e)
  have "bt_wf m" and "\<forall>x \<in> fst ` set m. x < k"
    using snoc.prems by (auto simp: bt_wf_def e sorted_wrt_append)
  then show ?case
    using snoc.IH by (simp add: bt_collect_def e bt_insert_last)
qed

lemma bt_collect_idem [simp]: "bt_collect (bt_collect es) = bt_collect es"
  by (simp add: bt_collect_wf bt_wf_collect)

lemma distinct_bs_diff [simp]: "distinct xs \<Longrightarrow> distinct (bs_diff xs ys)"
  by (simp add: bs_diff_def)

lemma distinct_bs_inter [simp]: "distinct xs \<Longrightarrow> distinct (bs_inter xs ys)"
  by (simp add: bs_inter_def)

lemma bs_single [simp]: "bs_union [] [a] = [a]"
  by (simp add: bs_union_def bs_collect_def bt_collect_def)

text \<open>The scan of a listing, entry by entry.\<close>

definition scan_at :: "replicator_scan \<Rightarrow> ustring \<Rightarrow>
    ustring list option \<times> ustring option \<times> ustring list option \<times> replication_filters option" where
  "scan_at s a = (map_of (sn_observed s) a, map_of (sn_ids s) a, map_of (sn_collections s) a,
     map_of (sn_filters s) a)"

definition entry_of ::
  "(ustring \<Rightarrow> ustring option) \<Rightarrow> ustring \<Rightarrow> remote_replicator \<Rightarrow>
    ustring list option \<times> ustring option \<times> ustring list option \<times> replication_filters option" where
  "entry_of names a rep = (Some [a], rr_id rep, Some (rr_collections rep),
     Some (bt_collect (map (\<lambda>(i, f). (resolved names i, f)) (the (rr_filters rep)))))"

lemma scanned_at:
  assumes "rr_address r = Some b" and "scan_at s b = (None, None, None, None)"
  shows "scan_at (scanned names r s) a = (if a = b then entry_of names b r else scan_at s a)"
  using assms
  by (auto simp: scan_at_def entry_of_def scanned_def note_replicator_def Let_def get_or_def bt_extend_Nil
      split: option.split)

lemma scan_at_empty [simp]: "scan_at empty_scan a = (None, None, None, None)"
  by (simp add: scan_at_def empty_scan_def)

lemma fold_scanned_at:
  assumes "list_all (shows_route P names R) reps" and "distinct (map rr_address reps)"
    and "\<forall>a. Some a \<in> rr_address ` set reps \<longrightarrow> scan_at s a = (None, None, None, None)"
  shows "scan_at (fold (scanned names) reps s) a =
    (case find (\<lambda>r. rr_address r = Some a) reps of None \<Rightarrow> scan_at s a | Some rep \<Rightarrow> entry_of names a rep)"
  using assms
proof (induction reps arbitrary: s)
  case (Cons r reps)
  from Cons.prems(1) obtain b where b: "rr_address r = Some b"
    by (auto simp: shows_route_def)
  have fresh: "scan_at s b = (None, None, None, None)"
    using Cons.prems(3) b by force
  note step = scanned_at [OF b fresh, of names]
  have "\<forall>a. Some a \<in> rr_address ` set reps \<longrightarrow> scan_at (scanned names r s) a = (None, None, None, None)"
    using Cons.prems(2,3) b by (auto simp: step)
  then have IH: "scan_at (fold (scanned names) reps (scanned names r s)) a =
      (case find (\<lambda>r. rr_address r = Some a) reps of None \<Rightarrow> scan_at (scanned names r s) a
       | Some rep \<Rightarrow> entry_of names a rep)"
    using Cons.IH Cons.prems by simp
  have "find (\<lambda>r. rr_address r = Some b) reps = None"
    using Cons.prems(2) b by (force simp: find_None_iff)
  then show ?case
    using IH b by (auto simp: step split: option.split)
qed simp

lemma fold_scanned_rest:
  assumes "list_all (shows_route P names R) reps"
  shows "set (sn_addresses (fold (scanned names) reps s)) =
      set (sn_addresses s) \<union> {a. Some a \<in> rr_address ` set reps}"
    and "sn_unobserved (fold (scanned names) reps s) = sn_unobserved s"
    and "distinct (sn_addresses s) \<Longrightarrow> distinct (sn_addresses (fold (scanned names) reps s))"
  using assms
  by (induction reps arbitrary: s)
    (force simp: scanned_def note_replicator_def Let_def shows_route_def)+

lemma distinct_all_eq:
  assumes "distinct xs" and "\<forall>x \<in> set xs. x = a"
  shows "xs \<in> {[], [a]}"
  using assms by (cases xs; cases "tl xs") auto

context pairing_env
begin

lemma resolve_raw: "resolve_or_raw A i w = (Inr (resolved names i), w)"
  by (simp add: resolve_or_raw_def act_simps resolve resolved_def)

lemma canonical_address:
  assumes "shows_route P names (routes w) rep" and "rr_address rep = Some a"
    and "inj_on (peer_of P) (dom (routes w) \<union> set owned)" and "distinct owned"
  shows "canonical_replicator_address P rep owned = Some a"
proof -
  have a: "a \<in> dom (routes w)" and i: "rr_id rep = Some i \<Longrightarrow> i = peer_of P a" for i
    using assms(1,2) by (auto simp: shows_route_def)
  have "b = a" if "rr_id rep = Some i" "b \<in> set owned" "map_option fst (P b) = Some i" for b i
  proof -
    have "peer_of P b = peer_of P a"
      using i [OF that(1)] that(3) by (auto simp: peer_of_def)
    then show ?thesis
      using inj_onD [OF assms(3)] a that(2) by blast
  qed
  then have "filter (\<lambda>b. map_option fst (P b) = Some i) owned \<in> {[], [a]}" if "rr_id rep = Some i" for i
    using that assms(4) by (intro distinct_all_eq) auto
  then show ?thesis
    using assms(2) by (cases "rr_id rep") (auto simp: canonical_replicator_address_def)
qed

lemma scan_pure:
  assumes "shows_route P names (routes w) rep"
    and "inj_on (peer_of P) (dom (routes w) \<union> set owned)" and "distinct owned"
  shows "scan_replicator A P owned rep s w = (Inr (scanned names rep s), w)"
proof -
  from assms(1) obtain a fl where rep: "rr_address rep = Some a" "rr_filters rep = Some fl"
    by (auto simp: shows_route_def)
  have "act_each (\<lambda>(i, f). act_bind (resolve_or_raw A i) (\<lambda>n. act_return (n, f))) fl w
      = (Inr (map (\<lambda>(i, f). (resolved names i, f)) fl), w)"
    by (rule act_each_pure) (auto simp: act_simps resolve_raw)
  then show ?thesis
    using canonical_address [OF assms(1) rep(1) assms(2,3)] rep
    by (simp add: scan_replicator_def scanned_def act_simps Let_def)
qed

lemma reading:
  assumes "inj_on (peer_of P) (dom (routes w) \<union> set owned)" and "distinct owned"
  shows "\<exists>snap. read_actual A P owned w = (Inr snap, w) \<and> snapshot_of P names (subs w) (routes w) snap"
proof -
  obtain ids where ids: "ad_list_p2p_collections A w = (Inr ids, w)" "resolved names ` set ids = subs w"
    using list_collections by blast
  obtain reps where reps: "ad_list_replicators A w = (Inr reps, w)" and
    lists: "lists_routes P names (routes w) reps"
    using list_replicators by blast
  define sc where "sc = fold (scanned names) reps empty_scan"
  have scan: "act_fold (scan_replicator A P owned) reps empty_scan w = (Inr sc, w)"
    unfolding sc_def using lists
    by (intro act_fold_pure scan_pure assms) (auto simp: lists_routes_def list_all_iff)
  define rcols where "rcols = map (\<lambda>(a, raw). (a, bs_collect (map (resolved names) raw))) (sn_collections sc)"
  have cols: "act_each (\<lambda>(address, ids). act_bind (act_each (resolve_or_raw A) ids)
      (\<lambda>ns. act_return (address, bs_collect ns))) (sn_collections sc) w = (Inr rcols, w)"
    unfolding rcols_def
    by (rule act_each_pure) (auto simp: act_simps act_each_pure [where g = "resolved names"] resolve_raw)
  have rmap: "map_of rcols a = map_option (\<lambda>raw. bs_collect (map (resolved names) raw)) (map_of (sn_collections sc) a)" for a
    by (simp add: rcols_def map_of_map)
  have sn: "scan_at sc a = (case find (\<lambda>r. rr_address r = Some a) reps of
      None \<Rightarrow> (None, None, None, None) | Some rep \<Rightarrow> entry_of names a rep)" for a
    unfolding sc_def using lists
    by (subst fold_scanned_at [where P = P and R = "routes w"])
      (auto simp: lists_routes_def split: option.split)
  have absent: "scan_at sc a = (None, None, None, None)" if "routes w a = None" for a
  proof -
    have "find (\<lambda>r. rr_address r = Some a) reps = None"
      using lists that by (force simp: find_None_iff lists_routes_def list_all_iff shows_route_def)
    then show ?thesis by (simp add: sn)
  qed
  have present: "\<exists>rep. scan_at sc a = entry_of names a rep \<and> shows_route P names (routes w) rep \<and> rr_address rep = Some a"
    if "routes w a \<noteq> None" for a
  proof -
    from lists that have "\<exists>rep \<in> set reps. rr_address rep = Some a"
      by (force simp: lists_routes_def)
    then obtain rep where rep: "find (\<lambda>r. rr_address r = Some a) reps = Some rep"
      by (metis (mono_tags, lifting) find_None_iff option.exhaust)
    then have "rep \<in> set reps" "rr_address rep = Some a"
      by (auto simp: find_Some_iff)
    then show ?thesis
      using lists rep by (auto simp: sn lists_routes_def list_all_iff)
  qed
  have addresses: "set (sn_addresses sc) = dom (routes w)" and "sn_unobserved sc = []"
    and "distinct (sn_addresses sc)"
    using lists fold_scanned_rest [where reps = reps and s = empty_scan and P = P and R = "routes w"]
    by (auto simp: sc_def lists_routes_def empty_scan_def list_all_iff shows_route_def)
  let ?snap = "\<lparr>as_state = \<lparr>pa_collections = bs_collect (map (resolved names) ids),
      pa_replicator_addresses = sn_addresses sc, pa_replicator_collections = rcols,
      pa_replicator_filters = sn_filters sc, pa_filters_unobserved = sn_unobserved sc,
      pa_observed_addresses = sn_observed sc\<rparr>, as_ids_by_addr = sn_ids sc,
      as_collections_by_addr = sn_collections sc\<rparr>"
  have "read_actual A P owned w = (Inr ?snap, w)"
    by (simp add: read_actual_def act_simps ids reps scan cols act_each_pure [where g = "resolved names"] resolve_raw)
  moreover have "snapshot_of P names (subs w) (routes w) ?snap"
    unfolding snapshot_of_def
  proof (intro conjI allI impI, goal_cases)
    case (5 a i)
    with absent [of a] present [of a] show ?case
      by (cases "routes w a") (auto simp: scan_at_def entry_of_def shows_route_def)
  next
    case (6 a)
    with absent show ?case by (simp add: scan_at_def)
  next
    case (7 a cols f)
    with present [of a] show ?case
      by (auto simp: scan_at_def entry_of_def shows_route_def)
  next
    case (8 a cols f)
    with present [of a] show ?case
      by (auto simp: scan_at_def entry_of_def)
  next
    case (9 a cols f)
    with present [of a] show ?case
      by (auto simp: scan_at_def entry_of_def shows_route_def rmap)
  next
    case (10 a cols f)
    with present [of a] show ?case
      by (auto simp: scan_at_def entry_of_def shows_route_def)
  qed (simp_all add: ids addresses \<open>sn_unobserved sc = []\<close> \<open>distinct (sn_addresses sc)\<close>)
  ultimately show ?thesis by blast
qed

end

section \<open>Operations\<close>

text \<open>The effect of an operation on the subscribed collections and the live routes.\<close>

fun op_view ::
  "'acp pairing_desired \<Rightarrow> replication_filters \<Rightarrow> diff_op \<Rightarrow> ustring set \<times> live_routes \<Rightarrow>
   ustring set \<times> live_routes" where
  "op_view d rf (InstallCollection c) (C, R) = (insert c C, R)"
| "op_view d rf (TeardownCollection c) (C, R) = (C - {c}, R)"
| "op_view d rf (InstallReplicator a) (C, R) = (C, R(a \<mapsto> (set (effective_replicator_collections d), rf)))"
| "op_view d rf (TeardownReplicator a) (C, R) = (C, R(a := None))"

lemma sorted_bs_union [simp]: "sorted_wrt (<) (bs_union a b)"
  using bt_wf_collect [of "map (\<lambda>x. (x, ())) (a @ b)"]
  by (simp add: bs_union_def bs_collect_def bt_wf_def)

lemma bs_union_Nil [simp]: "bs_union a b = [] \<longleftrightarrow> a = [] \<and> b = []"
  by (simp add: bs_union_def)

lemma update_well_recorded:
  assumes "well_recorded p"
  shows "well_recorded (update_applied_after_success op d p)"
  using assms
  by (cases op) (auto simp: well_recorded_def bs_diff_def sorted_wrt_filter Let_def)

text \<open>When the laws say what it does: an address is free before it is installed, and a removed
  route is the one the snapshot saw.\<close>

fun op_fits :: "addr_parser \<Rightarrow> live_routes \<Rightarrow> diff_op \<Rightarrow> live_routes \<Rightarrow> bool" where
  "op_fits P R0 (InstallReplicator a) R \<longleftrightarrow> R a = None"
| "op_fits P R0 (TeardownReplicator a) R \<longleftrightarrow>
     (R a = None \<or> R a = R0 a) \<and> inj_on (peer_of P) (insert a (dom R))"
| "op_fits P R0 _ R \<longleftrightarrow> True"

fun ops_fit ::
  "addr_parser \<Rightarrow> live_routes \<Rightarrow> 'acp pairing_desired \<Rightarrow> replication_filters \<Rightarrow> diff_op list \<Rightarrow>
   ustring set \<times> live_routes \<Rightarrow> bool" where
  "ops_fit P R0 d rf [] v \<longleftrightarrow> True"
| "ops_fit P R0 d rf (op # ops) v \<longleftrightarrow> op_fits P R0 op (snd v) \<and> ops_fit P R0 d rf ops (op_view d rf op v)"

lemma ops_fit_append:
  "ops_fit P R0 d rf (xs @ ys) v \<longleftrightarrow>
     ops_fit P R0 d rf xs v \<and> ops_fit P R0 d rf ys (fold (op_view d rf) xs v)"
  by (induction xs arbitrary: v) auto

lemma op_view_install_collections:
  "fold (op_view d rf) (map InstallCollection cs) (C, R) = (C \<union> set cs, R)"
  "ops_fit P R0 d rf (map InstallCollection cs) (C, R)"
  by (induction cs arbitrary: C) auto

lemma op_view_teardown_collections:
  "fold (op_view d rf) (map TeardownCollection cs) (C, R) = (C - set cs, R)"
  "ops_fit P R0 d rf (map TeardownCollection cs) (C, R)"
  by (induction cs arbitrary: C) auto

lemma op_view_teardown_replicators:
  "fold (op_view d rf) (map TeardownReplicator rs) (C, R) =
     (C, \<lambda>a. if a \<in> set rs then None else R a)"
proof (induction rs arbitrary: R)
  case (Cons r rs)
  show ?case by (simp add: Cons) (auto simp: fun_eq_iff)
qed simp

lemma ops_fit_teardown_replicators:
  assumes "inj_on (peer_of P) (dom R \<union> set rs)" and "\<forall>a. R a = None \<or> R a = R0 a"
  shows "ops_fit P R0 d rf (map TeardownReplicator rs) (C, R)"
  using assms
proof (induction rs arbitrary: R)
  case (Cons a rs)
  have ins: "inj_on (peer_of P) (insert a (dom R))" and
    rest: "inj_on (peer_of P) (dom (R(a := None)) \<union> set rs)"
    by (rule inj_on_subset [OF Cons.prems(1)]; auto)+
  have "\<forall>b. (R(a := None)) b = None \<or> (R(a := None)) b = R0 b"
    using Cons.prems(2) by simp
  from Cons.IH [OF rest this] ins Cons.prems(2) show ?case
    by (simp del: fun_upd_apply add: fun_upd_same)
qed simp

lemma op_view_reinstall:
  "fold (op_view d rf) (concat (map (\<lambda>r. [TeardownReplicator r, InstallReplicator r]) rs)) (C, R) =
     (C, \<lambda>a. if a \<in> set rs then Some (set (effective_replicator_collections d), rf) else R a)"
proof (induction rs arbitrary: R)
  case (Cons r rs)
  show ?case by (simp add: Cons) (auto simp: fun_eq_iff)
qed simp

lemma ops_fit_reinstall:
  assumes "inj_on (peer_of P) (dom R \<union> set rs)" and "\<forall>a \<in> set rs. R a = R0 a" and "distinct rs"
  shows "ops_fit P R0 d rf (concat (map (\<lambda>r. [TeardownReplicator r, InstallReplicator r]) rs)) (C, R)"
  using assms
proof (induction rs arbitrary: R)
  case (Cons a rs)
  let ?R = "R(a \<mapsto> (set (effective_replicator_collections d), rf))"
  have "dom ?R \<union> set rs = dom R \<union> set (a # rs)" by auto
  then have rest: "inj_on (peer_of P) (dom ?R \<union> set rs)"
    using Cons.prems(1) by (simp only:)
  have ins: "inj_on (peer_of P) (insert a (dom R))"
    by (rule inj_on_subset [OF Cons.prems(1)]) auto
  have "\<forall>b \<in> set rs. ?R b = R0 b" "distinct rs"
    using Cons.prems(2,3) by auto
  from Cons.IH [OF rest this] ins Cons.prems(2) show ?case
    by (simp del: fun_upd_apply add: fun_upd_same)
qed simp

lemma op_view_install_replicators:
  "fold (op_view d rf) (map InstallReplicator rs) (C, R) =
     (C, \<lambda>a. if a \<in> set rs then Some (set (effective_replicator_collections d), rf) else R a)"
proof (induction rs arbitrary: R)
  case (Cons r rs)
  show ?case by (simp add: Cons) (auto simp: fun_eq_iff)
qed simp

lemma ops_fit_install_replicators:
  assumes "set rs \<inter> dom R = {}" and "distinct rs"
  shows "ops_fit P R0 d rf (map InstallReplicator rs) (C, R)"
  using assms
proof (induction rs arbitrary: R)
  case (Cons a rs)
  have free: "set rs \<inter> dom (R(a \<mapsto> (set (effective_replicator_collections d), rf))) = {}" "distinct rs"
    using Cons.prems by (auto simp: dom_fun_upd)
  from Cons.IH [OF this] Cons.prems(1) show ?case
    by (cases "R a") (auto simp del: fun_upd_apply simp: domIff)
qed simp

context pairing_env
begin

lemma applying:
  assumes fit: "op_fits P R0 op (routes w)" and snap: "snapshot_of P names C0 R0 snap"
    and rf: "to_replication_filters F (pd_replicator_filter d) = Some rf"
  shows "\<exists>w'. apply_op A P op d snap w = (Inr (), w') \<and> recorded w' = recorded w \<and>
    (subs w', routes w') = op_view d rf op (subs w, routes w)"
proof (cases op)
  case (InstallCollection c)
  then show ?thesis using add_collection [of c w] by (auto simp: apply_op_def)
next
  case (TeardownCollection c)
  then show ?thesis using delete_collection [of c w] by (auto simp: apply_op_def)
next
  case (InstallReplicator a)
  then show ?thesis
    using add_replicator [OF rf, of w a "effective_replicator_collections d"] fit
    by (auto simp: apply_op_def)
next
  case (TeardownReplicator a)
  have i: "teardown_id P snap a = peer_of P a"
    using snap
    by (cases "map_of (as_ids_by_addr snap) a")
      (auto simp: teardown_id_def snapshot_of_def peer_of_def split: option.splits)
  show ?thesis
  proof (cases "routes w a")
    case None
    have "peer_of P a \<notin> peer_of P ` dom (routes w)"
      using fit None by (auto simp: TeardownReplicator dest: inj_onD)
    from delete_missing [OF this, of "teardown_collections d snap a"] obtain r w' where
      "ad_delete_replicator A (peer_of P a) (teardown_collections d snap a) w = (r, w')"
      "r = Inr () \<or> (\<exists>m. r = Inl (RemoteNotFound m))" "same_view w w'" by blast
    then show ?thesis
      using None by (auto simp: TeardownReplicator apply_op_def i not_found_ok_def fun_upd_idem)
  next
    case (Some cf)
    obtain cols f where cf: "cf = (cols, f)" by (cases cf)
    have "R0 a = Some (cols, f)" and "inj_on (peer_of P) (insert a (dom (routes w)))"
      using fit Some cf by (auto simp: TeardownReplicator)
    moreover from this have inj: "inj_on (peer_of P) (dom (routes w))"
      by (auto intro: inj_on_subset)
    ultimately obtain raw where "map_of (as_collections_by_addr snap) a = Some raw"
      "resolved names ` set raw = cols"
      using snap unfolding snapshot_of_def by blast
    then have "cols \<subseteq> resolved names ` set (teardown_collections d snap a)"
      by (auto simp: teardown_collections_def)
    from delete_replicator [OF _ refl inj this] Some cf obtain w' where
      "ad_delete_replicator A (peer_of P a) (teardown_collections d snap a) w = (Inr (), w')"
      "subs w' = subs w" "routes w' = (routes w)(a := None)" "recorded w' = recorded w" by blast
    then show ?thesis
      by (auto simp: TeardownReplicator apply_op_def i not_found_ok_def)
  qed
qed

lemma update_writable:
  assumes "writable (pd_replicator_filter d)" and "writable (pp_replicator_filter p)"
  shows "writable (pp_replicator_filter (update_applied_after_success op d p))"
  using assms writable_Nil by (cases op) (auto simp: Let_def)

lemma doing:
  assumes "op_fits P R0 op (routes w)" and "snapshot_of P names C0 R0 (ls_snapshot ls)"
    and "desired_or_default (ls_desired ls) = d" and "to_replication_filters F (pd_replicator_filter d) = Some rf"
    and "writable (pp_replicator_filter (update_applied_after_success op d (la_state (ls_applied ls))))"
    and "well_recorded (la_state (ls_applied ls))"
  shows "\<exists>w'. do_op A S P peer op ls w = (Inr (ls\<lparr>ls_applied :=
        \<lparr>la_state = update_applied_after_success op d (la_state (ls_applied ls)),
         la_duplicate_doc_ids = []\<rparr>, ls_done := ls_done ls @ [op]\<rparr>), w') \<and>
    recorded w' = update_applied_after_success op d (la_state (ls_applied ls)) \<and>
    (subs w', routes w') = op_view d rf op (subs w, routes w)"
proof -
  obtain w1 where w1: "apply_op A P op d (ls_snapshot ls) w = (Inr (), w1)"
    "(subs w1, routes w1) = op_view d rf op (subs w, routes w)"
    using applying [OF assms(1,2,4)] by blast
  let ?la = "(ls_applied ls)\<lparr>la_state := update_applied_after_success op d (la_state (ls_applied ls))\<rparr>"
  obtain w2 where "ss_persist_applied S peer ?la w1 = (Inr (), w2)" "subs w2 = subs w1"
    "routes w2 = routes w1" "recorded w2 = la_state ?la"
    using persist [of ?la w1] assms(5) update_well_recorded [OF assms(6)] by auto
  with w1 show ?thesis
    by (auto simp: do_op_def Let_def assms(3) persist_applied_record_def act_simps)
qed

text \<open>The loop runs to its end while the authority stays open.\<close>

lemma running:
  assumes "ops_fit P R0 d rf ops (subs w, routes w)" and "snapshot_of P names C0 R0 (ls_snapshot ls)"
    and "ls_desired ls = Some d" and "to_replication_filters F (pd_replicator_filter d) = Some rf"
    and "writable (pd_replicator_filter d)"
    and "writable (pp_replicator_filter (la_state (ls_applied ls)))"
    and current: "\<And>w. fst (fresh_generation_or_close S g w)"
    and "recorded w = la_state (ls_applied ls)" and "well_recorded (la_state (ls_applied ls))"
  shows "\<exists>ls' w'. open_ops F A S P peer g ops ls w = (Inr ls', w') \<and>
    ls_desired ls' = Some d \<and> ls_done ls' = ls_done ls @ ops \<and> ls_snapshot ls' = ls_snapshot ls \<and>
    la_state (ls_applied ls') =
      fold (\<lambda>op. update_applied_after_success op d) ops (la_state (ls_applied ls)) \<and>
    recorded w' = la_state (ls_applied ls') \<and>
    (subs w', routes w') = fold (op_view d rf) ops (subs w, routes w)"
  using assms(1-6,8,9)
proof (induction ops arbitrary: ls w)
  case (Cons op ops)
  obtain w1 where fresh: "fresh_generation_or_close S g w = (True, w1)"
    using current [of w] by (metis (full_types) prod.collapse)
  have same: "same_view w w1"
    using fresh generation
    by (fastforce simp: fresh_generation_or_close_def split: option.splits prod.splits sum.splits)
  have w: "writable (pp_replicator_filter (update_applied_after_success op d (la_state (ls_applied ls))))"
    by (rule update_writable [OF Cons.prems(5,6)])
  have d: "desired_or_default (ls_desired ls) = d" using Cons.prems(3) by simp
  from doing [OF _ Cons.prems(2) d Cons.prems(4) w Cons.prems(8), where w = w1] Cons.prems(1) same obtain w2 where
    step: "do_op A S P peer op ls w1 = (Inr (ls\<lparr>ls_applied :=
        \<lparr>la_state = update_applied_after_success op d (la_state (ls_applied ls)),
         la_duplicate_doc_ids = []\<rparr>, ls_done := ls_done ls @ [op]\<rparr>), w2)"
      (is "_ = (Inr ?ls, _)")
    and r2: "recorded w2 = update_applied_after_success op d (la_state (ls_applied ls))"
    and v2: "(subs w2, routes w2) = op_view d rf op (subs w, routes w)"
    by auto
  have "\<exists>ls' w'. open_ops F A S P peer g ops ?ls w2 = (Inr ls', w') \<and>
    ls_desired ls' = Some d \<and> ls_done ls' = ls_done ?ls @ ops \<and> ls_snapshot ls' = ls_snapshot ?ls \<and>
    la_state (ls_applied ls') =
      fold (\<lambda>op. update_applied_after_success op d) ops (la_state (ls_applied ?ls)) \<and>
    recorded w' = la_state (ls_applied ls') \<and>
    (subs w', routes w') = fold (op_view d rf) ops (subs w2, routes w2)"
    using Cons.prems w r2 v2 update_well_recorded by (intro Cons.IH) simp_all
  then show ?case
    using fresh step v2 by (auto simp: act_simps)
qed simp

end

section \<open>The difference, carried out\<close>

abbreviation stale_routes ::
  "'acp filter_api \<Rightarrow> addr_parser \<Rightarrow> 'acp pairing_desired \<Rightarrow> pairing_actual \<Rightarrow> 'acp pairing_applied \<Rightarrow> ustring list" where
  "stale_routes F P d a p \<equiv>
     filter (\<lambda>r. r \<in> set (pd_replicator_addresses d) \<and> replicator_stale F P d a p r)
       (bs_inter (pa_replicator_addresses a) (pp_replicator_addresses p))"

lemma owned_diff_segments:
  "compute_owned_pairing_diff F P d a p =
     map InstallCollection (bs_diff (pd_collections d) (pa_collections a)) @
     map TeardownCollection
       (filter (\<lambda>c. c \<notin> set (pd_collections d)) (bs_inter (pa_collections a) (pp_collections p))) @
     map TeardownReplicator (bs_diff (pp_replicator_addresses p) (pd_replicator_addresses d)) @
     concat (map (\<lambda>r. [TeardownReplicator r, InstallReplicator r]) (stale_routes F P d a p)) @
     map InstallReplicator (bs_diff (pd_replicator_addresses d) (pa_replicator_addresses a))"
  by (simp add: compute_owned_pairing_diff_def replicator_stale_def Let_def)

lemma diff_view:
  assumes "snapshot_of P names C R snap"
  shows "fold (op_view d rf) (compute_owned_pairing_diff F P d (as_state snap) p) (C, R) =
    (C \<union> set (pd_collections d) - (set (pp_collections p) - set (pd_collections d)),
     \<lambda>a. if a \<in> set (pd_replicator_addresses d) \<and>
             (R a = None \<or> a \<in> set (pp_replicator_addresses p) \<and> replicator_stale F P d (as_state snap) p a)
         then Some (set (effective_replicator_collections d), rf)
         else if a \<in> set (pp_replicator_addresses p) - set (pd_replicator_addresses d) then None else R a)"
proof -
  have C: "set (pa_collections (as_state snap)) = C" and
    R: "set (pa_replicator_addresses (as_state snap)) = dom R"
    using assms by (auto simp: snapshot_of_def)
  show ?thesis
    unfolding owned_diff_segments fold_append comp_def op_view_install_collections(1)
      op_view_teardown_collections(1) op_view_teardown_replicators op_view_reinstall
      op_view_install_replicators
    by (auto simp: C R bs_inter_def fun_eq_iff domIff)
qed

lemma diff_fits:
  assumes "snapshot_of P names C R snap"
    and "inj_on (peer_of P) (dom R \<union> set (pp_replicator_addresses p))"
    and "distinct (pd_replicator_addresses d)"
  shows "ops_fit P R d rf (compute_owned_pairing_diff F P d (as_state snap) p) (C, R)"
proof -
  let ?gone = "bs_diff (pp_replicator_addresses p) (pd_replicator_addresses d)"
  let ?stale = "stale_routes F P d (as_state snap) p"
  let ?R1 = "\<lambda>a. if a \<in> set ?gone then None else R a"
  let ?R2 = "\<lambda>a. if a \<in> set ?stale then Some (set (effective_replicator_collections d), rf) else ?R1 a"
  have R: "set (pa_replicator_addresses (as_state snap)) = dom R"
    and dist: "distinct (pa_replicator_addresses (as_state snap))"
    using assms(1) by (auto simp: snapshot_of_def)
  have gone: "ops_fit P R d rf (map TeardownReplicator ?gone) (C', R)" for C'
    by (rule ops_fit_teardown_replicators, rule inj_on_subset [OF assms(2)]) auto
  have stale: "ops_fit P R d rf
      (concat (map (\<lambda>r. [TeardownReplicator r, InstallReplicator r]) ?stale)) (C', ?R1)" for C'
    using dist
    by (intro ops_fit_reinstall inj_on_subset [OF assms(2)]) (auto simp: R split: if_splits)
  have new: "ops_fit P R d rf
      (map InstallReplicator (bs_diff (pd_replicator_addresses d) (pa_replicator_addresses (as_state snap))))
      (C', ?R2)" for C'
    using assms(3) by (intro ops_fit_install_replicators) (auto simp: R split: if_splits)
  show ?thesis
    unfolding owned_diff_segments ops_fit_append op_view_install_collections(1)
      op_view_teardown_collections(1) op_view_teardown_replicators op_view_reinstall
    by (intro conjI op_view_install_collections(2) op_view_teardown_collections(2) gone stale new)
qed

text \<open>The record of what is owned, after the difference.\<close>

abbreviation updated :: "'acp pairing_desired \<Rightarrow> diff_op list \<Rightarrow> 'acp pairing_applied \<Rightarrow> 'acp pairing_applied" where
  "updated d ops p \<equiv> fold (\<lambda>op. update_applied_after_success op d) ops p"

lemma updated_collections:
  "set (pp_collections (updated d (map InstallCollection cs) p)) = set (pp_collections p) \<union> set cs"
  "pp_replicator_addresses (updated d (map InstallCollection cs) p) = pp_replicator_addresses p"
  "pp_replicator_filter (updated d (map InstallCollection cs) p) = pp_replicator_filter p"
  "set (pp_collections (updated d (map TeardownCollection cs) p)) = set (pp_collections p) - set cs"
  "pp_replicator_addresses (updated d (map TeardownCollection cs) p) = pp_replicator_addresses p"
  "pp_replicator_filter (updated d (map TeardownCollection cs) p) = pp_replicator_filter p"
  by (induction cs arbitrary: p) auto

lemma updated_teardowns:
  "pp_collections (updated d (map TeardownReplicator rs) p) = pp_collections p"
  "set (pp_replicator_addresses (updated d (map TeardownReplicator rs) p)) =
     set (pp_replicator_addresses p) - set rs"
  by (induction rs arbitrary: p) (auto simp: Let_def)

lemma updated_teardowns_filter:
  "\<not> set (pp_replicator_addresses p) \<subseteq> set rs \<Longrightarrow>
     pp_replicator_filter (updated d (map TeardownReplicator rs) p) = pp_replicator_filter p"
proof (induction rs arbitrary: p)
  case (Cons a rs)
  let ?p = "p\<lparr>pp_replicator_addresses := bs_diff (pp_replicator_addresses p) [a]\<rparr>"
  have "\<not> set (pp_replicator_addresses p) \<subseteq> {a}" using Cons.prems by auto
  then have "update_applied_after_success (TeardownReplicator a) d p = ?p"
    by (simp add: Let_def)
  moreover have "\<not> set (pp_replicator_addresses ?p) \<subseteq> set rs"
    using Cons.prems by auto
  ultimately show ?case using Cons.IH [of ?p] by simp
qed simp

lemma updated_reinstalls:
  "pp_collections (updated d (concat (map (\<lambda>r. [TeardownReplicator r, InstallReplicator r]) rs)) p) =
     pp_collections p"
  "set (pp_replicator_addresses
     (updated d (concat (map (\<lambda>r. [TeardownReplicator r, InstallReplicator r]) rs)) p)) =
     set (pp_replicator_addresses p) \<union> set rs"
  "pp_replicator_filter (updated d (concat (map (\<lambda>r. [TeardownReplicator r, InstallReplicator r]) rs)) p) =
     (if rs = [] then pp_replicator_filter p else pd_replicator_filter d)"
  by (induction rs arbitrary: p) (auto simp: Let_def)

lemma updated_installs:
  "pp_collections (updated d (map InstallReplicator rs) p) = pp_collections p"
  "set (pp_replicator_addresses (updated d (map InstallReplicator rs) p)) =
     set (pp_replicator_addresses p) \<union> set rs"
  "pp_replicator_filter (updated d (map InstallReplicator rs) p) =
     (if rs = [] then pp_replicator_filter p else pd_replicator_filter d)"
  by (induction rs arbitrary: p) auto

lemma updated_well_recorded: "well_recorded p \<Longrightarrow> well_recorded (updated d ops p)"
  by (induction ops arbitrary: p) (simp_all add: update_well_recorded)

lemma well_recorded_distinct: "well_recorded p \<Longrightarrow> distinct (pp_replicator_addresses p)"
  by (simp add: well_recorded_def strict_sorted_iff)

lemma diff_updated:
  assumes "snapshot_of P names C R snap"
    and "\<forall>a \<in> set (pd_replicator_addresses d). R a \<noteq> None \<longrightarrow> a \<in> set (pp_replicator_addresses p)"
    and p'_def: "p' = updated d (compute_owned_pairing_diff F P d (as_state snap) p) p"
  shows "set (pp_replicator_addresses p') = set (pd_replicator_addresses d)"
    and "pd_replicator_addresses d \<noteq> [] \<Longrightarrow> pp_replicator_filter p' = pd_replicator_filter d"
    and "set (pp_collections p') \<inter> (C \<union> set (pd_collections d)) \<subseteq> set (pd_collections d)"
proof -
  have C: "set (pa_collections (as_state snap)) = C" and
    R: "set (pa_replicator_addresses (as_state snap)) = dom R"
    using assms(1) by (auto simp: snapshot_of_def)
  note segs = owned_diff_segments fold_append comp_def
  note upd = updated_collections updated_teardowns updated_reinstalls updated_installs
  show "set (pp_replicator_addresses p') = set (pd_replicator_addresses d)"
    unfolding p'_def segs upd using assms(2) by (auto simp: R domIff)
  show "set (pp_collections p') \<inter> (C \<union> set (pd_collections d)) \<subseteq> set (pd_collections d)"
    unfolding p'_def segs upd by (auto simp: C)
  assume "pd_replicator_addresses d \<noteq> []"
  then obtain r where r: "r \<in> set (pd_replicator_addresses d)" by (cases "pd_replicator_addresses d") auto
  show "pp_replicator_filter p' = pd_replicator_filter d"
  proof (cases "stale_routes F P d (as_state snap) p = [] \<and>
      bs_diff (pd_replicator_addresses d) (pa_replicator_addresses (as_state snap)) = []")
    case False
    then show ?thesis unfolding p'_def segs upd by (simp split: if_splits)
  next
    case True
    then have "R r \<noteq> None" using r by (auto simp: R domIff)
    then have own: "r \<in> set (pp_replicator_addresses p)" using assms(2) r by blast
    moreover have "\<not> replicator_stale F P d (as_state snap) p r"
      using True r own \<open>R r \<noteq> None\<close> by (auto simp: filter_empty_conv R)
    ultimately show ?thesis
      using True r unfolding p'_def segs upd
      by (subst updated_teardowns_filter) (auto simp: updated_collections replicator_stale_def)
  qed
qed

section \<open>Convergence\<close>

text \<open>The wiring of a peer is settled when the desired collections and routes are live and owned,
  with the desired collections and filters, and nothing else of what is owned is live. This speaks of
  the record as it is afterwards; \<open>cleared\<close> says what became of the record before.\<close>

definition settled ::
  "'acp pairing_desired \<Rightarrow> replication_filters \<Rightarrow> ustring set \<Rightarrow> live_routes \<Rightarrow> 'acp pairing_applied \<Rightarrow> bool" where
  "settled d rf C R p \<longleftrightarrow>
     set (pd_collections d) \<subseteq> C \<and> C \<inter> set (pp_collections p) \<subseteq> set (pd_collections d) \<and>
     set (pp_replicator_addresses p) = set (pd_replicator_addresses d) \<and>
     (pd_replicator_addresses d \<noteq> [] \<longrightarrow> pp_replicator_filter p = pd_replicator_filter d) \<and>
     (\<forall>a \<in> set (pd_replicator_addresses d). \<exists>f.
        R a = Some (set (effective_replicator_collections d), f) \<and> replication_filters_equivalent rf f)"

text \<open>From a record \<open>p\<close>: what it owned and is not desired is gone, and what it did not own and is not
  desired is as it was.\<close>

definition cleared ::
  "'acp pairing_desired \<Rightarrow> 'acp pairing_applied \<Rightarrow> ustring set \<times> live_routes \<Rightarrow> ustring set \<times> live_routes \<Rightarrow> bool" where
  "cleared d p v v' \<longleftrightarrow>
     fst v' = fst v \<union> set (pd_collections d) - (set (pp_collections p) - set (pd_collections d)) \<and>
     (\<forall>a. a \<notin> set (pd_replicator_addresses d) \<longrightarrow>
        snd v' a = (if a \<in> set (pp_replicator_addresses p) then None else snd v a))"

lemma settled_not_stale:
  assumes "settled d rf C R p" and "snapshot_of P names C R snap"
    and "to_replication_filters F (pd_replicator_filter d) = Some rf"
    and "r \<in> set (pd_replicator_addresses d)"
  shows "\<not> replicator_stale F P d (as_state snap) p r"
proof -
  from assms(1,4) obtain f where R: "R r = Some (set (effective_replicator_collections d), f)"
    and eq: "replication_filters_equivalent rf f"
    by (auto simp: settled_def)
  have "pp_replicator_filter p = pd_replicator_filter d"
    using assms(1,4) by (auto simp: settled_def)
  moreover have "map_of (pa_replicator_filters (as_state snap)) r = Some f"
    "map_of (pa_observed_addresses (as_state snap)) r = Some [r]"
    "\<exists>cs. map_of (pa_replicator_collections (as_state snap)) r = Some cs \<and>
       set cs = set (effective_replicator_collections d)"
    "pa_filters_unobserved (as_state snap) = []"
    using assms(2) R unfolding snapshot_of_def by blast+
  ultimately show ?thesis
    using eq assms(3)
    by (auto simp: replicator_stale_def live_filter_changed_def collections_changed_def
        endpoint_changed_def transport_addresses_equivalent_def)
qed

lemma settled_matches:
  assumes "settled d rf C R p" and "snapshot_of P names C R snap"
    and "to_replication_filters F (pd_replicator_filter d) = Some rf"
  shows "compute_owned_pairing_diff F P d (as_state snap) p = []"
    and "owned_pairing_live_matches F P d (as_state snap) p"
proof -
  have "set (pa_collections (as_state snap)) = C" "set (pa_replicator_addresses (as_state snap)) = dom R"
    and un: "pa_filters_unobserved (as_state snap) = []"
    using assms(2) by (auto simp: snapshot_of_def)
  then show "compute_owned_pairing_diff F P d (as_state snap) p = []"
    using assms(1) settled_not_stale [OF assms]
    by (auto simp: owned_diff_empty_iff settled_def)
  with un show "owned_pairing_live_matches F P d (as_state snap) p"
    by (simp add: owned_pairing_live_matches_def list_all_iff)
qed

lemma diff_settles:
  assumes "snapshot_of P names C R snap"
    and "to_replication_filters F (pd_replicator_filter d) = Some rf"
    and "\<forall>a \<in> set (pd_replicator_addresses d). R a \<noteq> None \<longrightarrow> a \<in> set (pp_replicator_addresses p)"
    and "(C', R') = fold (op_view d rf) (compute_owned_pairing_diff F P d (as_state snap) p) (C, R)"
  shows "settled d rf C' R' (updated d (compute_owned_pairing_diff F P d (as_state snap) p) p)"
proof -
  note upd = diff_updated [OF assms(1,3) refl, where F = F]
  have C': "C' = C \<union> set (pd_collections d) - (set (pp_collections p) - set (pd_collections d))"
    using assms(4) unfolding diff_view [OF assms(1)] by simp
  have refl: "replication_filters_equivalent rf rf"
    using assms(2) bt_wf_collect
    by (intro replication_filters_equivalent_refl)
      (auto simp: to_replication_filters_def bt_wf_def strict_sorted_iff)
  have "\<exists>f. R' a = Some (set (effective_replicator_collections d), f) \<and> replication_filters_equivalent rf f"
    if a: "a \<in> set (pd_replicator_addresses d)" for a
  proof (cases "R a = None \<or> a \<in> set (pp_replicator_addresses p) \<and> replicator_stale F P d (as_state snap) p a")
    case True
    then show ?thesis
      using assms(4) a refl unfolding diff_view [OF assms(1)] by auto
  next
    case False
    then obtain cols f where R: "R a = Some (cols, f)" by auto
    with assms(3) a False have fresh: "\<not> replicator_stale F P d (as_state snap) p a" by auto
    have "R' a = R a"
      using assms(4) a False unfolding diff_view [OF assms(1)] by auto
    moreover have "map_of (pa_replicator_filters (as_state snap)) a = Some f"
      "\<exists>cs. map_of (pa_replicator_collections (as_state snap)) a = Some cs \<and> set cs = cols"
      "pa_filters_unobserved (as_state snap) = []"
      using assms(1) R unfolding snapshot_of_def by blast+
    ultimately show ?thesis
      using fresh R assms(2)
      by (auto simp: replicator_stale_def live_filter_changed_def collections_changed_def)
  qed
  then show ?thesis
    using upd C' unfolding settled_def by auto
qed

context pairing_env
begin

lemma fresh_view:
  assumes "fresh_generation_or_close S g w = (b, w')"
  shows "same_view w w'"
  using assms generation
  by (fastforce simp: fresh_generation_or_close_def split: option.splits prod.splits sum.splits)

lemma any_active_view: "any_peer_active A P ps w = (b, w') \<Longrightarrow> same_view w w'"
proof (induction ps arbitrary: w)
  case (Cons p ps)
  obtain r w1 where act: "ad_active_peers A w = (r, w1)" "same_view w w1"
    using active [of w] by blast
  then show ?case
    using Cons by (auto simp: peer_already_active_def split: sum.splits bool.splits prod.splits)
qed simp

text \<open>Preparation: the record is loaded and the peer is dialled; the authority stays open.\<close>

lemma preparing:
  assumes "ss_load_desired S peer w = (Inr \<lparr>ld_state = Some d, ld_generation = g\<rparr>, w0)"
    and current: "\<And>w. fst (fresh_generation_or_close S g w)"
  shows "\<exists>prep rp w'. prepare_pairing_peer A S P peer f w = (prep, w') \<and> same_view w w' \<and>
    pr_state prep = Ready rp \<and> rp_desired rp = Some d \<and> rp_generation rp = g \<and>
    rp_applied rp = \<lparr>la_state = recorded w, la_duplicate_doc_ids = []\<rparr>"
proof -
  obtain w1 where w1: "fresh_generation_or_close S g w0 = (True, w1)"
    using current [of w0] by (metis (full_types) prod.collapse)
  have v1: "same_view w w1"
    using load_desired [OF assms(1)] fresh_view [OF w1] by simp
  obtain w2 where w2: "ss_load_applied S peer w1 = (Inr \<lparr>la_state = recorded w, la_duplicate_doc_ids = []\<rparr>, w2)"
    and v2: "same_view w w2"
    using load_applied [of w1] v1 by auto
  let ?rp = "\<lparr>rp_desired = Some d, rp_generation = g,
    rp_applied = \<lparr>la_state = recorded w, la_duplicate_doc_ids = []\<rparr>, rp_reconnected = False, rp_force_replay = False\<rparr>"
  have prep: "prepare_pairing_peer A S P peer f w =
      (if has_wiring d \<and> pd_replicator_addresses d \<noteq> [] then connect_pairing_peer A S P f ?rp w2
       else (\<lparr>pr_active_before = False, pr_state = Ready ?rp\<rparr>, w2))"
    by (simp add: prepare_pairing_peer_def assms(1) w1 w2 Let_def)
  have "\<exists>prep rp w'. connect_pairing_peer A S P f ?rp w2 = (prep, w') \<and> same_view w w' \<and>
    pr_state prep = Ready rp \<and> rp_desired rp = Some d \<and> rp_generation rp = g \<and>
    rp_applied rp = \<lparr>la_state = recorded w, la_duplicate_doc_ids = []\<rparr>"
  proof -
    define peers where "peers = List.map_filter (\<lambda>a. case endpoint_parse P a of
        Inl _ \<Rightarrow> None | Inr e \<Rightarrow> Some (te_peer_id e)) (pd_replicator_addresses d)"
    obtain b w3 where w3: "any_peer_active A P peers w2 = (b, w3)" by force
    obtain w4 where w4: "fresh_generation_or_close S g w3 = (True, w4)"
      using current [of w3] by (metis (full_types) prod.collapse)
    obtain w5 where w5: "ad_connect A (pd_replicator_addresses d) w4 = (Inr (), w5)" "same_view w4 w5"
      using connect by blast
    show ?thesis
      using any_active_view [OF w3] fresh_view [OF w4] w5 v2
      by (auto simp: connect_pairing_peer_def Let_def w3 w4 peers_def [symmetric])
  qed
  then show ?thesis
    using v2 prep by (cases "has_wiring d \<and> pd_replicator_addresses d \<noteq> []") auto
qed

lemma updated_writable:
  assumes "writable (pd_replicator_filter d)" and "writable (pp_replicator_filter p)"
  shows "writable (pp_replicator_filter (updated d ops p))"
  using assms(2)
  by (induction ops arbitrary: p) (simp_all add: update_writable [OF assms(1)])

text \<open>The end of a tick whose wiring is settled: the last reading confirms it.\<close>

lemma finishing:
  assumes "settled d rf (subs w) (routes w) (recorded w)"
    and "to_replication_filters F (pd_replicator_filter d) = Some rf"
    and "inj_on (peer_of P) (dom (routes w) \<union> set (pp_replicator_addresses (recorded w)))"
    and "well_recorded (recorded w)"
    and "ls_desired ls = Some d" and "la_state (ls_applied ls) = recorded w"
    and "ls_done ls = [] \<longrightarrow> snapshot_of P names (subs w) (routes w) (ls_snapshot ls)"
  shows "\<exists>out. finish_tick F A S P peer b [] ls w = (Inr out, w) \<and> to_ops_applied out = ls_done ls \<and>
      to_live_route_matches out"
proof -
  obtain snap where "read_actual A P (pp_replicator_addresses (recorded w)) w = (Inr snap, w)"
    "snapshot_of P names (subs w) (routes w) snap"
    using reading [OF assms(3) well_recorded_distinct [OF assms(4)]] by blast
  then show ?thesis
    using settled_matches(2) [OF assms(1) _ assms(2)] assms(5-7)
    by (cases "ls_done ls = []") (simp_all add: finish_tick_def act_simps Let_def)
qed

lemma converging:
  assumes load: "ss_load_desired S peer w = (Inr \<lparr>ld_state = Some d, ld_generation = g\<rparr>, w0)"
    and current: "\<And>w. fst (fresh_generation_or_close S g w)"
    and rf: "to_replication_filters F (pd_replicator_filter d) = Some rf"
    and owned: "\<forall>a \<in> set (pd_replicator_addresses d). routes w a \<noteq> None \<longrightarrow>
        a \<in> set (pp_replicator_addresses (recorded w))"
    and inj: "inj_on (peer_of P) (dom (routes w) \<union> set (pp_replicator_addresses (recorded w)))"
      "inj_on (peer_of P) (dom (routes w) - set (pp_replicator_addresses (recorded w)) \<union>
         set (pd_replicator_addresses d))"
    and rec: "well_recorded (recorded w)" and dist: "distinct (pd_replicator_addresses d)"
    and wr: "writable (pd_replicator_filter d)" "writable (pp_replicator_filter (recorded w))"
    and sub: "\<not> uses_subagent_template d"
  shows "\<exists>out w' snap. reconcile_peer_tick_with_replay F A S P peer f w = (Inr out, w') \<and>
    snapshot_of P names (subs w) (routes w) snap \<and>
    to_ops_applied out = compute_owned_pairing_diff F P d (as_state snap) (recorded w) \<and>
    to_live_route_matches out \<and> settled d rf (subs w') (routes w') (recorded w') \<and>
    (subs w', routes w') = fold (op_view d rf)
      (compute_owned_pairing_diff F P d (as_state snap) (recorded w)) (subs w, routes w) \<and>
    well_recorded (recorded w') \<and> writable (pp_replicator_filter (recorded w'))"
proof -
  let ?p = "recorded w"
  obtain prep rp w1 where prep: "prepare_pairing_peer A S P peer f w = (prep, w1)" and v1: "same_view w w1"
    and rp: "pr_state prep = Ready rp" "rp_desired rp = Some d" "rp_generation rp = g"
      "rp_applied rp = \<lparr>la_state = ?p, la_duplicate_doc_ids = []\<rparr>"
    using preparing [OF load current] by blast
  obtain snap where snap: "read_actual A P (pp_replicator_addresses ?p) w1 = (Inr snap, w1)"
    "snapshot_of P names (subs w) (routes w) snap"
    using reading [of w1 "pp_replicator_addresses ?p"] v1 inj(1) well_recorded_distinct [OF rec] by auto
  define ops where "ops = compute_owned_pairing_diff F P d (as_state snap) ?p"
  let ?ls = "\<lparr>ls_desired = Some d, ls_snapshot = snap,
    ls_applied = \<lparr>la_state = ?p, la_duplicate_doc_ids = []\<rparr>, ls_done = []\<rparr>"
  obtain w2 where w2: "fresh_generation_or_close S g w1 = (True, w2)"
    using current [of w1] by (metis (full_types) prod.collapse)
  have v2: "same_view w w2" using fresh_view [OF w2] v1 by simp
  have "ops_fit P (routes w) d rf ops (subs w2, routes w2)"
    using diff_fits [OF snap(2) inj(1) dist] v2 by (simp add: ops_def)
  from running [OF this _ _ rf wr(1) _ current, of "subs w" ?ls] snap(2) wr(2) v2 rec
  obtain ls w3 where run: "open_ops F A S P peer g ops ?ls w2 = (Inr ls, w3)"
    and ls: "ls_desired ls = Some d" "ls_done ls = ops" "ls_snapshot ls = snap"
      "la_state (ls_applied ls) = recorded w3"
    and rec3: "recorded w3 = updated d ops ?p"
    and v3: "(subs w3, routes w3) = fold (op_view d rf) ops (subs w, routes w)"
    by auto
  have settled: "settled d rf (subs w3) (routes w3) (recorded w3)"
    using diff_settles [OF snap(2) rf owned v3 [unfolded ops_def]] by (simp add: rec3 ops_def)
  have "dom (routes w3) \<union> set (pp_replicator_addresses (recorded w3)) \<subseteq>
      dom (routes w) - set (pp_replicator_addresses ?p) \<union> set (pd_replicator_addresses d)"
    using v3 settled owned
    unfolding ops_def diff_view [OF snap(2)] settled_def by (auto split: if_splits)
  moreover have "ls_done ls = [] \<longrightarrow> snapshot_of P names (subs w3) (routes w3) (ls_snapshot ls)"
    using v3 snap(2) by (auto simp: ls)
  ultimately obtain out where "finish_tick F A S P peer (pr_active_before prep \<or> rp_reconnected rp) [] ls w3 = (Inr out, w3)"
    and out: "to_ops_applied out = ops" "to_live_route_matches out"
    using finishing [OF settled rf inj_on_subset [OF inj(2)] _ ls(1,4)] updated_well_recorded [OF rec]
    by (auto simp: ls(2) rec3)
  then have "reconcile_peer_tick_with_replay F A S P peer f w = (Inr out, w3)"
    using sub run
    by (simp add: reconcile_peer_tick_with_replay_def prep reconcile_prepared_peer_def rp
        reconcile_ready_peer_def act_simps snap(1) w2 replay_subagent_routes_def run_ops_def
        ops_def [symmetric] Let_def)
  moreover have "well_recorded (recorded w3)" "writable (pp_replicator_filter (recorded w3))"
    using updated_well_recorded [OF rec] updated_writable [OF wr] by (simp_all add: rec3)
  ultimately show ?thesis
    using snap(2) out settled v3 by (auto simp: ops_def)
qed

section \<open>Closing\<close>

text \<open>The loop once the authority has closed.\<close>

lemma closing_ops:
  assumes "ops_fit P R0 (default_desired :: 'acp pairing_desired) rf ops (subs w, routes w)"
    and "snapshot_of P names C0 R0 (ls_snapshot ls)" and "ls_desired ls = None"
    and "to_replication_filters F [] = Some rf"
    and "writable (pp_replicator_filter (la_state (ls_applied ls)))"
    and "recorded w = la_state (ls_applied ls)" and "well_recorded (la_state (ls_applied ls))"
  shows "\<exists>ls' w'. closed_ops A S P peer ops ls w = (Inr ls', w') \<and>
    ls_desired ls' = None \<and> ls_done ls' = ls_done ls @ ops \<and>
    la_state (ls_applied ls') = updated default_desired ops (la_state (ls_applied ls)) \<and>
    recorded w' = la_state (ls_applied ls') \<and>
    (subs w', routes w') = fold (op_view (default_desired :: 'acp pairing_desired) rf) ops (subs w, routes w)"
  using assms(1-3,5-)
proof (induction ops arbitrary: ls w)
  case Nil
  then show ?case by (simp add: act_return_def)
next
  case (Cons op ops)
  have d: "desired_or_default (ls_desired ls) = default_desired" using Cons.prems(3) by simp
  have rf: "to_replication_filters F (pd_replicator_filter default_desired) = Some rf" using assms(4) by simp
  have wr: "writable (pp_replicator_filter (update_applied_after_success op default_desired (la_state (ls_applied ls))))"
    using update_writable [of default_desired, OF _ Cons.prems(4)] writable_Nil by simp
  have fit: "op_fits P R0 op (routes w)" using Cons.prems(1) by simp
  obtain w1 where step: "do_op A S P peer op ls w = (Inr (ls\<lparr>ls_applied :=
        \<lparr>la_state = update_applied_after_success op default_desired (la_state (ls_applied ls)),
         la_duplicate_doc_ids = []\<rparr>, ls_done := ls_done ls @ [op]\<rparr>), w1)" (is "_ = (Inr ?ls, _)")
    and r1: "recorded w1 = update_applied_after_success op default_desired (la_state (ls_applied ls))"
    and v1: "(subs w1, routes w1) = op_view (default_desired :: 'acp pairing_desired) rf op (subs w, routes w)"
    using doing [OF fit Cons.prems(2) d rf wr Cons.prems(6)] by blast
  have "\<exists>ls' w'. closed_ops A S P peer ops ?ls w1 = (Inr ls', w') \<and>
    ls_desired ls' = None \<and> ls_done ls' = ls_done ?ls @ ops \<and>
    la_state (ls_applied ls') = updated default_desired ops (la_state (ls_applied ?ls)) \<and>
    recorded w' = la_state (ls_applied ls') \<and>
    (subs w', routes w') = fold (op_view (default_desired :: 'acp pairing_desired) rf) ops (subs w1, routes w1)"
  proof (rule Cons.IH)
    show "ops_fit P R0 (default_desired :: 'acp pairing_desired) rf ops (subs w1, routes w1)" using Cons.prems(1) unfolding v1 by simp
    show "snapshot_of P names C0 R0 (ls_snapshot ?ls)" "ls_desired ?ls = None" using Cons.prems(2,3) by simp_all
    show "writable (pp_replicator_filter (la_state (ls_applied ?ls)))" using wr by simp
    show "recorded w1 = la_state (ls_applied ?ls)" using r1 by simp
    show "well_recorded (la_state (ls_applied ?ls))" using update_well_recorded [OF Cons.prems(6)] by simp
  qed
  then obtain ls' w' where rest: "closed_ops A S P peer ops ?ls w1 = (Inr ls', w')"
    and r: "ls_desired ls' = None" "ls_done ls' = ls_done ?ls @ ops"
      "la_state (ls_applied ls') = updated default_desired ops (la_state (ls_applied ?ls))"
      "recorded w' = la_state (ls_applied ls')"
      "(subs w', routes w') = fold (op_view (default_desired :: 'acp pairing_desired) rf) ops (subs w1, routes w1)" by blast
  have "closed_ops A S P peer (op # ops) ls w = (Inr ls', w')"
    by (simp only: closed_ops.simps act_bind_eq step prod.case sum.case rest)
  with r show ?case unfolding v1 by (intro exI [of _ ls'] exI [of _ w']) simp
qed

text \<open>The end of a tick that closed a route: the record is emptied.\<close>

lemma finishing_closed:
  assumes "ls_desired ls = None" and "recorded w = la_state (ls_applied ls)" and "well_recorded (recorded w)"
    and "inj_on (peer_of P) (dom (routes w) \<union> set (pp_replicator_addresses (recorded w)))"
  shows "\<exists>out w'. finish_tick F A S P peer b [] ls w = (Inr out, w') \<and> to_ops_applied out = ls_done ls \<and>
    subs w' = subs w \<and> routes w' = routes w \<and> recorded w' = default_applied"
proof -
  obtain snap where snap: "read_actual A P (pp_replicator_addresses (recorded w)) w = (Inr snap, w)"
    using reading [OF assms(4) well_recorded_distinct [OF assms(3)]] by blast
  let ?la = "(ls_applied ls)\<lparr>la_state := default_applied\<rparr>"
  have "well_recorded (la_state ?la)" "writable (pp_replicator_filter (la_state ?la))"
    using writable_Nil by (simp_all add: well_recorded_def default_applied_def)
  from persist [OF this] obtain w' where "ss_persist_applied S peer ?la w = (Inr (), w')"
    "subs w' = subs w" "routes w' = routes w" "recorded w' = default_applied" by auto
  moreover have "recorded w = default_applied" if "applied_is_empty (la_state (ls_applied ls))"
    using that assms(2,3) by (cases "recorded w") (auto simp: applied_is_empty_def default_applied_def well_recorded_def)
  ultimately show ?thesis
    using snap assms(1,2)
    by (cases "applied_is_empty (la_state (ls_applied ls))"; cases "ls_done ls = []")
      (auto simp: finish_tick_def act_simps Let_def persist_applied_record_def)
qed

lemma closing:
  assumes closed: "closed_store S" and load: "ss_load_desired S peer w = (Inr ld, w0)"
    and inj: "inj_on (peer_of P) (dom (routes w) \<union> set (pp_replicator_addresses (recorded w)))"
    and rec: "well_recorded (recorded w)" and wr: "writable (pp_replicator_filter (recorded w))"
  shows "\<exists>out w'. reconcile_peer_tick_with_replay F A S P peer f w = (Inr out, w') \<and>
    subs w' = subs w - set (pp_collections (recorded w)) \<and>
    routes w' = (\<lambda>a. if a \<in> set (pp_replicator_addresses (recorded w)) then None else routes w a) \<and>
    recorded w' = default_applied"
proof -
  let ?p = "recorded w"
  obtain b w1 where b: "(if ld_state ld = None then (True, w0)
      else fresh_generation_or_close S (ld_generation ld) w0) = (b, w1)" by fastforce
  have v1: "same_view w w1"
    using load_desired [OF load] b fresh_view by (fastforce split: if_splits)
  obtain w2 where w2: "ss_load_applied S peer w1 = (Inr \<lparr>la_state = ?p, la_duplicate_doc_ids = []\<rparr>, w2)"
    and v2: "same_view w w2"
    using load_applied [of w1] v1 by auto
  let ?rp = "\<lparr>rp_desired = None, rp_generation = ld_generation ld,
    rp_applied = \<lparr>la_state = ?p, la_duplicate_doc_ids = []\<rparr>, rp_reconnected = False, rp_force_replay = False\<rparr>"
  have prep: "prepare_pairing_peer A S P peer f w = (\<lparr>pr_active_before = False, pr_state = Ready ?rp\<rparr>, w2)"
    by (simp add: prepare_closed_eq [OF closed] load b w2)
  obtain snap where snap: "read_actual A P (pp_replicator_addresses ?p) w2 = (Inr snap, w2)"
    "snapshot_of P names (subs w) (routes w) snap"
    using reading [of w2 "pp_replicator_addresses ?p"] v2 inj well_recorded_distinct [OF rec] by auto
  obtain rf where rf: "to_replication_filters F [] = Some rf"
    by (auto simp: to_replication_filters_def)
  define ops where "ops = compute_owned_pairing_diff F P default_desired (as_state snap) ?p"
  let ?ls = "\<lparr>ls_desired = None, ls_snapshot = snap,
    ls_applied = \<lparr>la_state = ?p, la_duplicate_doc_ids = []\<rparr>, ls_done = []\<rparr>"
  have "ops_fit P (routes w) (default_desired :: 'acp pairing_desired) rf ops (subs w2, routes w2)"
    unfolding ops_def conjunct1 [OF v2] conjunct1 [OF conjunct2 [OF v2]]
    by (rule diff_fits [OF snap(2) inj]) simp
  then have "\<exists>ls w3. closed_ops A S P peer ops ?ls w2 = (Inr ls, w3) \<and>
    ls_desired ls = None \<and> ls_done ls = ls_done ?ls @ ops \<and>
    la_state (ls_applied ls) = updated default_desired ops (la_state (ls_applied ?ls)) \<and>
    recorded w3 = la_state (ls_applied ls) \<and>
    (subs w3, routes w3) = fold (op_view (default_desired :: 'acp pairing_desired) rf) ops (subs w2, routes w2)"
    by (rule closing_ops [OF _ _ _ rf, where ?C0.0 = "subs w"]) (simp_all add: snap(2) wr v2 rec)
  then obtain ls w3 where
    run: "closed_ops A S P peer ops ?ls w2 = (Inr ls, w3)"
    and ls: "ls_desired ls = None" "la_state (ls_applied ls) = updated default_desired ops ?p"
      "recorded w3 = la_state (ls_applied ls)"
    and v3: "(subs w3, routes w3) = fold (op_view (default_desired :: 'acp pairing_desired) rf) ops (subs w, routes w)"
    unfolding conjunct1 [OF v2] conjunct1 [OF conjunct2 [OF v2]] by (elim exE conjE) (simp add: that)
  have post: "subs w3 = subs w - set (pp_collections ?p)"
    "routes w3 = (\<lambda>a. if a \<in> set (pp_replicator_addresses ?p) then None else routes w a)"
    using v3 unfolding ops_def diff_view [OF snap(2)] prod.inject default_desired_fields list.set
    by (simp_all only: empty_iff simp_thms if_False Un_empty_right Diff_empty)
  have "set (pp_replicator_addresses (recorded w3)) = set (pd_replicator_addresses (default_desired :: 'acp pairing_desired))"
    unfolding ls ops_def by (rule diff_updated(1) [OF snap(2) _ refl]) simp
  then have none: "set (pp_replicator_addresses (recorded w3)) = {}" by simp
  have "dom (routes w3) \<subseteq> dom (routes w)" unfolding post(2) by (auto split: if_splits)
  then have "inj_on (peer_of P) (dom (routes w3) \<union> set (pp_replicator_addresses (recorded w3)))"
    unfolding none by (intro inj_on_subset [OF inj]) blast
  moreover have "well_recorded (recorded w3)" using updated_well_recorded [OF rec] by (simp add: ls)
  ultimately obtain out w4 where fin: "finish_tick F A S P peer False [] ls w3 = (Inr out, w4)"
    and v4: "subs w4 = subs w3" "routes w4 = routes w3" "recorded w4 = default_applied"
    using finishing_closed [OF ls(1,3)] by blast
  have "reconcile_peer_tick_with_replay F A S P peer f w = (Inr out, w4)"
    by (simp add: reconcile_peer_tick_with_replay_def prep reconcile_prepared_peer_def
        reconcile_ready_peer_def act_simps snap(1) run_ops_def ops_def [symmetric] Let_def run fin)
  moreover have "subs w4 = subs w - set (pp_collections ?p)"
    "routes w4 = (\<lambda>a. if a \<in> set (pp_replicator_addresses ?p) then None else routes w a)"
    by (simp_all only: v4 post)
  ultimately show ?thesis using v4(3) by blast
qed

end

end
