(* ===== verification/Pairing_Calls.thy ===== *)
theory Pairing_Calls
  imports Pairing_Props
begin

text \<open>
  Which calls a reconcile tick makes on the transport. The scope of a tick are the collections and
  addresses that its pairing desires or its record owns. \<open>confined\<close> is a transport that answers the
  calls in that scope as the given one and every other call in an arbitrary way; a tick cannot tell the
  two apart.
\<close>

section \<open>The scope of a tick\<close>

text \<open>The peer identifiers by which a route is removed: those of its address, and those a listing shows at it.\<close>

definition listed_at :: "('acp, 'w) p2p_admin \<Rightarrow> ustring \<Rightarrow> ustring \<Rightarrow> bool" where
  "listed_at A i a \<longleftrightarrow> (\<exists>w w' reps rep. ad_list_replicators A w = (Inr reps, w') \<and> rep \<in> set reps \<and>
     rr_id rep = Some i \<and> rr_address rep = Some a)"

definition names_route :: "('acp, 'w) p2p_admin \<Rightarrow> addr_parser \<Rightarrow> ustring \<Rightarrow> ustring \<Rightarrow> bool" where
  "names_route A P i a \<longleftrightarrow> i = a \<or> map_option fst (P a) = Some i \<or> listed_at A i a"

definition scope_addresses :: "'acp pairing_desired \<Rightarrow> 'acp pairing_applied \<Rightarrow> ustring set" where
  "scope_addresses d p = set (pd_replicator_addresses d) \<union> set (pp_replicator_addresses p)"

definition scope_collections :: "'acp pairing_desired \<Rightarrow> 'acp pairing_applied \<Rightarrow> ustring set" where
  "scope_collections d p = set (pd_collections d) \<union> set (pp_collections p)"

definition confined ::
  "('acp, 'w) p2p_admin \<Rightarrow> addr_parser \<Rightarrow> 'acp pairing_desired \<Rightarrow> 'acp pairing_applied \<Rightarrow>
   ('acp, 'w) p2p_admin \<Rightarrow> ('acp, 'w) p2p_admin" where
  "confined A P d p B = A\<lparr>
     ad_connect := (\<lambda>as. if as = pd_replicator_addresses d then ad_connect A as else ad_connect B as),
     ad_add_p2p_collections := (\<lambda>cs. if set cs \<subseteq> set (pd_collections d)
        then ad_add_p2p_collections A cs else ad_add_p2p_collections B cs),
     ad_delete_p2p_collections := (\<lambda>cs. if set cs \<subseteq> scope_collections d p
        then ad_delete_p2p_collections A cs else ad_delete_p2p_collections B cs),
     ad_add_replicator := (\<lambda>as cs fs.
        if set as \<subseteq> set (pd_replicator_addresses d) \<and> cs = effective_replicator_collections d \<and>
           fs = pd_replicator_filter d
        then ad_add_replicator A as cs fs else ad_add_replicator B as cs fs),
     ad_delete_replicator := (\<lambda>i cs. if \<exists>a \<in> scope_addresses d p. names_route A P i a
        then ad_delete_replicator A i cs else ad_delete_replicator B i cs)\<rparr>"

lemma confined_reads [simp]:
  "ad_active_peers (confined A P d p B) = ad_active_peers A"
  "ad_list_replicators (confined A P d p B) = ad_list_replicators A"
  "ad_list_p2p_collections (confined A P d p B) = ad_list_p2p_collections A"
  "ad_resolve_collection_name (confined A P d p B) = ad_resolve_collection_name A"
  by (simp_all add: confined_def)

lemma confined_writes:
  "ad_connect (confined A P d p B) (pd_replicator_addresses d) = ad_connect A (pd_replicator_addresses d)"
  "c \<in> set (pd_collections d) \<Longrightarrow> ad_add_p2p_collections (confined A P d p B) [c] = ad_add_p2p_collections A [c]"
  "c \<in> scope_collections d p \<Longrightarrow>
     ad_delete_p2p_collections (confined A P d p B) [c] = ad_delete_p2p_collections A [c]"
  "a \<in> set (pd_replicator_addresses d) \<Longrightarrow>
     ad_add_replicator (confined A P d p B) [a] (effective_replicator_collections d) (pd_replicator_filter d) =
     ad_add_replicator A [a] (effective_replicator_collections d) (pd_replicator_filter d)"
  "a \<in> scope_addresses d p \<Longrightarrow> names_route A P i a \<Longrightarrow>
     ad_delete_replicator (confined A P d p B) i = ad_delete_replicator A i"
  by (auto simp: confined_def fun_eq_iff)

lemma read_actual_confined [simp]: "read_actual (confined A P d p B) = read_actual A"
  by (rule read_actual_cong) simp_all

lemma active_confined [simp]: "any_peer_active (confined A P d p B) = any_peer_active A"
proof (intro ext)
  fix Q ps w
  have "peer_already_active (confined A P d p B) = peer_already_active A"
    by (intro ext) (simp add: peer_already_active_def)
  then show "any_peer_active (confined A P d p B) Q ps w = any_peer_active A Q ps w"
    by (induction ps arbitrary: w) (simp_all split: prod.splits bool.splits)
qed

section \<open>What a snapshot knows\<close>

definition snap_ids :: "('acp, 'w) p2p_admin \<Rightarrow> addr_parser \<Rightarrow> (ustring \<times> ustring) list \<Rightarrow> bool" where
  "snap_ids A P m \<longleftrightarrow> (\<forall>a i. map_of m a = Some i \<longrightarrow> names_route A P i a)"

lemma canonical_names:
  assumes "canonical_replicator_address P rep owned = Some a" and "rr_id rep = Some i"
    and "\<And>b. rr_address rep = Some b \<Longrightarrow> listed_at A i b"
  shows "names_route A P i a"
proof -
  have by_peer: "map_option fst (P x) = Some i" if "filter (\<lambda>a. map_option fst (P a) = Some i) owned = [x]" for x
  proof -
    have "x \<in> set (filter (\<lambda>a. map_option fst (P a) = Some i) owned)" using that by simp
    then show ?thesis by simp
  qed
  let ?own = "filter (\<lambda>a. map_option fst (P a) = Some i) owned"
  show ?thesis
  proof (cases "?own = [a]")
    case True
    then show ?thesis using by_peer by (simp add: names_route_def)
  next
    case False
    then have "or_else (rr_address rep) (Some i) = Some a"
      using assms(1,2) by (simp add: canonical_replicator_address_def split: list.splits)
    then show ?thesis
      using assms(3) by (cases "rr_address rep") (simp_all add: names_route_def or_else_def)
  qed
qed

lemma scan_ids:
  assumes "scan_replicator A P owned rep s w = (Inr s', w')" and "snap_ids A P (sn_ids s)"
    and "\<And>i b. rr_id rep = Some i \<Longrightarrow> rr_address rep = Some b \<Longrightarrow> listed_at A i b"
  shows "snap_ids A P (sn_ids s')"
proof (cases "canonical_replicator_address P rep owned")
  case None
  then show ?thesis using assms(1,2) by (simp add: scan_replicator_def act_return_def)
next
  case (Some a)
  have ids: "sn_ids s' = sn_ids (note_replicator a rep s)"
    using assms(1) Some unfolding scan_replicator_def
    by (auto simp: Let_def act_simps split: option.splits prod.splits sum.splits)
  show ?thesis
  proof (cases "rr_id rep")
    case None
    then show ?thesis using ids assms(2) by (simp add: note_replicator_def)
  next
    case (Some i)
    have "names_route A P i a"
      using canonical_names [OF \<open>canonical_replicator_address P rep owned = Some a\<close> Some] assms(3) Some by blast
    then show ?thesis
      using ids assms(2) Some by (auto simp: note_replicator_def snap_ids_def split: option.splits if_splits)
  qed
qed

lemma fold_scan_ids:
  assumes "act_fold (scan_replicator A P owned) reps s w = (Inr s', w')" and "snap_ids A P (sn_ids s)"
    and "\<And>rep i b. rep \<in> set reps \<Longrightarrow> rr_id rep = Some i \<Longrightarrow> rr_address rep = Some b \<Longrightarrow> listed_at A i b"
  shows "snap_ids A P (sn_ids s')"
  using assms
proof (induction reps arbitrary: s w)
  case (Cons rep reps)
  from Cons.prems(1) obtain s1 w1 where "scan_replicator A P owned rep s w = (Inr s1, w1)"
    and "act_fold (scan_replicator A P owned) reps s1 w1 = (Inr s', w')"
    by (auto elim: act_bindE)
  moreover from this have "snap_ids A P (sn_ids s1)"
    using scan_ids Cons.prems(2,3) by (metis list.set_intros(1))
  ultimately show ?case using Cons.IH Cons.prems(3) by (metis list.set_intros(2))
qed (simp add: act_return_def)

lemma read_ids:
  assumes "read_actual A P owned w = (Inr snap, w')"
  shows "snap_ids A P (as_ids_by_addr snap)"
proof -
  obtain reps w1 w2 s w3 where reps: "ad_list_replicators A w1 = (Inr reps, w2)"
    and s: "act_fold (scan_replicator A P owned) reps empty_scan w2 = (Inr s, w3)"
    and "as_ids_by_addr snap = sn_ids s"
    using assms unfolding read_actual_def by (auto elim!: act_bindE act_returnE)
  moreover have "snap_ids A P (sn_ids s)"
    using reps by (intro fold_scan_ids [OF s]) (auto simp: snap_ids_def empty_scan_def listed_at_def)
  ultimately show ?thesis by simp
qed

section \<open>Operations and loops\<close>

lemma act_bind_cong:
  assumes "m w = m' w" and "\<And>x w'. m' w = (Inr x, w') \<Longrightarrow> f x w' = f' x w'"
  shows "act_bind m f w = act_bind m' f' w"
  using assms by (cases "m' w"; cases "fst (m' w)") (auto simp: act_bind_def)

lemma act_each_cong:
  assumes "\<And>x w. x \<in> set xs \<Longrightarrow> f x w = g x w"
  shows "act_each f xs w = act_each g xs w"
  using assms by (induction xs arbitrary: w) (auto intro!: act_bind_cong)

text \<open>The operations in the scope; \<open>e\<close> is what is desired when they are applied.\<close>

definition in_scope ::
  "'acp pairing_desired \<Rightarrow> 'acp pairing_applied \<Rightarrow> 'acp pairing_desired \<Rightarrow> diff_op \<Rightarrow> bool" where
  "in_scope d p e op =
     (case op of
        InstallCollection c \<Rightarrow> c \<in> set (pd_collections d)
      | InstallReplicator a \<Rightarrow> a \<in> set (pd_replicator_addresses d) \<and> e = d
      | TeardownCollection c \<Rightarrow> c \<in> scope_collections d p
      | TeardownReplicator a \<Rightarrow> a \<in> scope_addresses d p)"

definition record_in_scope :: "'acp pairing_desired \<Rightarrow> 'acp pairing_applied \<Rightarrow> 'acp pairing_applied \<Rightarrow> bool" where
  "record_in_scope d p q \<longleftrightarrow>
     set (pp_collections q) \<subseteq> scope_collections d p \<and> set (pp_replicator_addresses q) \<subseteq> scope_addresses d p"

definition loop_in_scope ::
  "('acp, 'w) p2p_admin \<Rightarrow> addr_parser \<Rightarrow> 'acp pairing_desired \<Rightarrow> 'acp pairing_applied \<Rightarrow> 'acp loop_state \<Rightarrow> bool" where
  "loop_in_scope A P d p ls \<longleftrightarrow>
     snap_ids A P (as_ids_by_addr (ls_snapshot ls)) \<and> record_in_scope d p (la_state (ls_applied ls))"

lemma teardown_names:
  "snap_ids A P (as_ids_by_addr snap) \<Longrightarrow> names_route A P (teardown_id P snap a) a"
  by (cases "map_of (as_ids_by_addr snap) a")
    (auto simp: snap_ids_def teardown_id_def or_else_def names_route_def split: option.splits)

lemma apply_op_confined:
  assumes "in_scope d p e op" and "snap_ids A P (as_ids_by_addr snap)"
  shows "apply_op (confined A P d p B) P op e snap = apply_op A P op e snap"
proof (cases op)
  case (TeardownReplicator a)
  then have "ad_delete_replicator (confined A P d p B) (teardown_id P snap a) =
      ad_delete_replicator A (teardown_id P snap a)"
    using assms(1) teardown_names [OF assms(2)] by (intro confined_writes(5)) (simp_all add: in_scope_def)
  then show ?thesis by (simp add: apply_op_def TeardownReplicator)
qed (use assms(1) in \<open>simp_all add: apply_op_def in_scope_def confined_writes\<close>)

lemma do_op_confined:
  assumes "in_scope d p (desired_or_default (ls_desired ls)) op" and "loop_in_scope A P d p ls"
  shows "do_op (confined A P d p B) S P peer op ls = do_op A S P peer op ls"
proof -
  have "snap_ids A P (as_ids_by_addr (ls_snapshot ls))" using assms(2) by (simp add: loop_in_scope_def)
  from apply_op_confined [OF assms(1) this] show ?thesis by (simp add: do_op_def Let_def)
qed

lemma do_op_scope:
  assumes "do_op A S P peer op ls w = (Inr ls', w')"
    and "in_scope d p (desired_or_default (ls_desired ls)) op" and "loop_in_scope A P d p ls"
  shows "loop_in_scope A P d p ls' \<and> ls_desired ls' = ls_desired ls"
  using assms(2,3) unfolding loop_in_scope_def record_in_scope_def do_op_fields [OF assms(1)]
  by (cases op) (auto simp: in_scope_def scope_collections_def scope_addresses_def Let_def)

lemma closed_ops_confined:
  assumes "\<forall>op \<in> set ops. in_scope d p (desired_or_default (ls_desired ls)) op" and "loop_in_scope A P d p ls"
  shows "closed_ops (confined A P d p B) S P peer ops ls w = closed_ops A S P peer ops ls w"
  using assms
proof (induction ops arbitrary: ls w)
  case (Cons op ops)
  have op: "in_scope d p (desired_or_default (ls_desired ls)) op" using Cons.prems(1) by simp
  have "closed_ops (confined A P d p B) S P peer ops ls' w' = closed_ops A S P peer ops ls' w'"
    if "do_op A S P peer op ls w = (Inr ls', w')" for ls' w'
    using do_op_scope [OF that op Cons.prems(2)] Cons.prems(1) by (intro Cons.IH) simp_all
  then show ?case
    unfolding closed_ops.simps by (intro act_bind_cong) (simp_all add: do_op_confined [OF op Cons.prems(2)])
qed simp

lemma nothing_in_scope:
  assumes "record_in_scope d p q"
  shows "\<forall>op \<in> set (compute_owned_pairing_diff F P default_desired a q). in_scope d p e op"
  using assms by (auto simp: record_in_scope_def in_scope_def dest!: diff_against_nothing)

lemma diff_in_scope:
  assumes "record_in_scope d p q"
  shows "\<forall>op \<in> set (compute_owned_pairing_diff F P d a q). in_scope d p d op"
  using assms by (auto simp: record_in_scope_def in_scope_def owned_diff_iff split: diff_op.splits)

lemma close_route_confined:
  assumes "loop_in_scope A P d p ls"
  shows "close_route F (confined A P d p B) S P peer ls w = close_route F A S P peer ls w"
proof -
  have rec: "record_in_scope d p (la_state (ls_applied ls))" using assms by (simp add: loop_in_scope_def)
  show ?thesis
    unfolding close_route_def Let_def
  proof (rule act_bind_cong)
    fix snap w'
    assume "act_err AdminFailed (read_actual A P (pp_replicator_addresses (la_state (ls_applied ls)))) w = (Inr snap, w')"
    then have "snap_ids A P (as_ids_by_addr snap)" by (auto elim!: act_errE dest: read_ids)
    then show "closed_ops (confined A P d p B) S P peer
        (compute_owned_pairing_diff F P default_desired (as_state snap) (la_state (ls_applied ls)))
        (ls\<lparr>ls_desired := None, ls_snapshot := snap\<rparr>) w' =
      closed_ops A S P peer
        (compute_owned_pairing_diff F P default_desired (as_state snap) (la_state (ls_applied ls)))
        (ls\<lparr>ls_desired := None, ls_snapshot := snap\<rparr>) w'"
      using rec nothing_in_scope [OF rec] by (intro closed_ops_confined) (simp_all add: loop_in_scope_def)
  qed simp
qed

lemma open_ops_confined:
  assumes "\<forall>op \<in> set ops. in_scope d p (desired_or_default (ls_desired ls)) op" and "loop_in_scope A P d p ls"
  shows "open_ops F (confined A P d p B) S P peer g ops ls w = open_ops F A S P peer g ops ls w"
  using assms
proof (induction ops arbitrary: ls w)
  case (Cons op ops)
  have op: "in_scope d p (desired_or_default (ls_desired ls)) op" using Cons.prems(1) by simp
  obtain b w1 where fresh: "fresh_generation_or_close S g w = (b, w1)" by force
  have "open_ops F (confined A P d p B) S P peer g ops ls' w' = open_ops F A S P peer g ops ls' w'"
    if "do_op A S P peer op ls w1 = (Inr ls', w')" for ls' w'
    using do_op_scope [OF that op Cons.prems(2)] Cons.prems(1) by (intro Cons.IH) simp_all
  then have "act_bind (do_op (confined A P d p B) S P peer op ls) (open_ops F (confined A P d p B) S P peer g ops) w1 =
      act_bind (do_op A S P peer op ls) (open_ops F A S P peer g ops) w1"
    by (intro act_bind_cong) (simp_all add: do_op_confined [OF op Cons.prems(2)])
  then show ?case
    using close_route_confined [OF Cons.prems(2)] by (cases b) (simp_all add: fresh)
qed simp

lemma run_ops_confined:
  assumes "\<forall>op \<in> set ops. in_scope d p (desired_or_default (ls_desired ls)) op" and "loop_in_scope A P d p ls"
  shows "run_ops F (confined A P d p B) S P peer g ops ls w = run_ops F A S P peer g ops ls w"
  using closed_ops_confined [OF assms] open_ops_confined [OF assms] by (simp add: run_ops_def)

section \<open>The tick\<close>

lemma replay_confined:
  assumes "snap_ids A P (as_ids_by_addr snap)" and "e = d \<or> e = default_desired"
  shows "replay_subagent_routes (confined A P d p B) S rp e snap ops w = replay_subagent_routes A S rp e snap ops w"
  using assms(2)
proof
  assume e: "e = d"
  have "replay_replicator_after_reconnect (confined A P d p B) a d snap w' = replay_replicator_after_reconnect A a d snap w'"
    if "a \<in> set (pd_replicator_addresses d)" for a w'
  proof -
    have "names_route A P (case map_of (as_ids_by_addr snap) a of None \<Rightarrow> a | Some i \<Rightarrow> i) a"
      using assms(1) by (auto simp: snap_ids_def names_route_def split: option.splits)
    then show ?thesis
      using that unfolding replay_replicator_after_reconnect_def
      by (simp add: confined_writes(4) confined_writes(5) [of a] scope_addresses_def)
  qed
  then show ?thesis
    unfolding e replay_subagent_routes_def
    by (auto intro!: act_each_cong act_bind_cong simp: act_err_def split: prod.splits bool.splits)
qed simp

lemma finish_confined [simp]: "finish_tick F (confined A P d p B) = finish_tick F A"
  by (intro ext) (simp only: finish_tick_def read_actual_confined)

lemma ready_confined:
  assumes "desired_or_default (rp_desired rp) = d \<or> rp_desired rp = None" and "la_state (rp_applied rp) = p"
  shows "reconcile_ready_peer F (confined A P d p B) S P peer active rp w =
    reconcile_ready_peer F A S P peer active rp w"
  unfolding reconcile_ready_peer_def
proof (intro act_bind_cong, goal_cases)
  case (3 snap w1 la w2)
  have snap: "snap_ids A P (as_ids_by_addr snap)" using 3(1) by (auto elim!: act_errE dest: read_ids)
  have la: "la_state la = p"
    using 3(2) assms(2) by (auto simp: persist_applied_record_def elim!: act_bindE act_returnE split: if_splits)
  then have rec: "record_in_scope d p (la_state la)"
    by (simp add: record_in_scope_def scope_collections_def scope_addresses_def)
  obtain b w3 where b: "(if rp_desired rp = None then (True, w2)
      else fresh_generation_or_close S (rp_generation rp) w2) = (b, w3)" by fastforce
  define D where "D = (if b then rp_desired rp else None)"
  have D: "desired_or_default D = d \<or> desired_or_default D = default_desired"
    using assms(1) by (auto simp: D_def)
  define ops where "ops = compute_owned_pairing_diff F P (desired_or_default D) (as_state snap) (la_state la)"
  let ?ls = "\<lparr>ls_desired = D, ls_snapshot = snap, ls_applied = la, ls_done = []\<rparr>"
  have "\<forall>op \<in> set ops. in_scope d p (desired_or_default (ls_desired ?ls)) op"
    using D diff_in_scope [OF rec] nothing_in_scope [OF rec] by (auto simp: ops_def)
  moreover have "loop_in_scope A P d p ?ls" using snap rec by (simp add: loop_in_scope_def)
  ultimately have run: "run_ops F (confined A P d p B) S P peer g ops ?ls w' = run_ops F A S P peer g ops ?ls w'" for g w'
    by (rule run_ops_confined)
  show ?case
    unfolding b prod.case Let_def D_def [symmetric] ops_def [symmetric]
    by (intro act_bind_cong) (simp_all add: replay_confined [OF snap D] run)
qed simp_all

lemma connect_confined:
  assumes "desired_or_default (rp_desired rp) = d"
  shows "connect_pairing_peer (confined A P d p B) S P f rp w = connect_pairing_peer A S P f rp w"
  unfolding connect_pairing_peer_def Let_def assms active_confined confined_writes(1) ..

lemma prepare_confined:
  assumes "ss_load_desired S peer w = (Inr ld, w1)"
  shows "prepare_pairing_peer (confined A P (desired_or_default (ld_state ld)) p B) S P peer f w =
    prepare_pairing_peer A S P peer f w"
proof -
  obtain b w2 where b: "(if ld_state ld = None then (True, w1)
      else fresh_generation_or_close S (ld_generation ld) w1) = (b, w2)" by fastforce
  show ?thesis
    unfolding prepare_pairing_peer_def assms prod.case sum.case b Let_def
    by (cases b) (simp_all add: connect_confined has_wiring_def split: prod.splits sum.splits)
qed

end
