(* ===== verification/Pairing_Claims.thy ===== *)
theory Pairing_Claims
  imports Pairing_Converge Pairing_Calls "HOL-Library.AList"
begin

text \<open>
  The correctness of peer pairing: a tick converges, stays within what the runtime owns, and never
  extends a route whose authority has closed; the endpoint and the scope of an enrolled route come
  from the signed enrollment alone. The witnesses run the engine on an in-memory node, through the
  embedded administration and the GraphQL state store of the model.
\<close>

section \<open>An in-memory node\<close>

record mem_world =
  mw_subs :: "ustring list"
  mw_routes :: "(ustring \<times> ustring list \<times> replication_filters) list"
  mw_row :: "applied_state_row option"

definition demo_parser :: addr_parser where
  "demo_parser a = Some (lit ''peer-'' @ a, [a])"

definition demo_api :: "unit filter_api" where
  "demo_api = \<lparr>fa_eq = (\<lambda>f v. Predicate [(f, JObj [(lit ''_eq'', v)])]),
     fa_predicate = (\<lambda>cs. \<lparr>rf_field = [], rf_value = JNull, rf_conditions = Some cs\<rparr>)\<rparr>"

definition mem_remove_replicator :: "ustring list \<Rightarrow> ustring option \<Rightarrow> (mem_world, unit) call" where
  "mem_remove_replicator cs addr w =
     (case addr of
        None \<Rightarrow> (Failed (P2pNotFound []), w)
      | Some i \<Rightarrow>
          if list_ex (\<lambda>(a, _). peer_of demo_parser a = i) (mw_routes w)
          then (Answered (), w\<lparr>mw_routes := filter (\<lambda>(a, _). peer_of demo_parser a \<noteq> i) (mw_routes w)\<rparr>)
          else (Failed (P2pNotFound i), w))"

definition mem_p2p :: "mem_world p2p_node" where
  "mem_p2p =
     \<lparr>pn_has_p2p = (\<lambda>_. True),
      pn_connected_peers = (\<lambda>w. (Answered [], w)),
      pn_connect_peer = (\<lambda>_ w. (Answered (), w)),
      pn_get_replicators = (\<lambda>w. (Answered (map (\<lambda>(a, cs, f).
        \<lparr>ap_id = Some (peer_of demo_parser a), ap_collections = cs, ap_address = Some a, ap_filters = f\<rparr>)
        (AList.clearjunk (mw_routes w))), w)),
      pn_add_replicator = (\<lambda>cs addr f w. case addr of
          None \<Rightarrow> (Failed (P2pInvalidInput []), w)
        | Some a \<Rightarrow> (Answered (), w\<lparr>mw_routes := (a, cs, f) # mw_routes w\<rparr>)),
      pn_remove_replicator = mem_remove_replicator,
      pn_get_collections = (\<lambda>w. (Answered (mw_subs w), w)),
      pn_add_collections = (\<lambda>cs w. (Answered (), w\<lparr>mw_subs := cs @ mw_subs w\<rparr>)),
      pn_remove_collections = (\<lambda>cs w. (Answered (), w\<lparr>mw_subs := filter (\<lambda>c. c \<notin> set cs) (mw_subs w)\<rparr>)),
      pn_list_collections = (\<lambda>_. Inr []),
      pn_get_collection = (\<lambda>_ _. Inr None)\<rparr>"

definition demo_filters :: "unit pairing_filters" where
  "demo_filters = client_route_filters demo_api RuntimeToClient (lit ''phone'') (lit ''home'')"

definition demo_decode :: "ustring \<Rightarrow> unit pairing_filters option" where
  "demo_decode raw = (if raw = lit ''F'' then Some demo_filters else None)"

definition mem_row :: "unit pairing_applied \<Rightarrow> applied_state_row" where
  "mem_row p = \<lparr>ar_doc_id = lit ''doc'', ar_collections = Some (pp_collections p),
     ar_replicator_addresses = Some (pp_replicator_addresses p),
     ar_replicator_filter = (if pp_replicator_filter p = [] then None else Some (lit ''F''))\<rparr>"

definition mem_rows :: "mem_world \<Rightarrow> applied_state_row list" where
  "mem_rows w = (case mw_row w of None \<Rightarrow> [] | Some r \<Rightarrow> [r])"

definition demo_fence :: authorization_fence where
  "demo_fence = \<lparr>af_member_did = lit ''phone'', af_member_peer = lit ''p'', af_member_ticket = lit ''ticket'',
     af_request_digest = lit ''digest'', af_authorization_sequence = 1, af_authorization_expires_at = lit ''9Z''\<rparr>"

definition demo_time :: canonical_time where
  "demo_time = \<lparr>tm_parse = (\<lambda>s. if s = lit ''9Z'' then Some 9 else None), tm_print_secs = (\<lambda>_. lit ''9Z'')\<rparr>"

definition demo_row :: pairing_state_row where
  "demo_row = \<lparr>ps_peer_id = Some (lit ''p''), ps_agent_did = None, ps_collections = None,
     ps_replicator_addresses = None, ps_template = None, ps_source = Some enrollment_source,
     ps_request_digest = Some (lit ''digest''), ps_authorization_sequence = Some 1,
     ps_authorization_expires_at = Some (lit ''9Z'')\<rparr>"

definition mem_queries ::
  "enrollment_of_store \<Rightarrow> pairing_state_row option \<Rightarrow> (unit, mem_world) pairing_queries" where
  "mem_queries en overlay =
     \<lparr>pq_desired_rows = (\<lambda>_ w. (Inr (Inr (Some demo_row), Inr overlay), w)),
      pq_applied_rows = (\<lambda>_ w. (Inr (mem_rows w), w)),
      pq_delete_applied = (\<lambda>_ w. (Inr (), w\<lparr>mw_row := None\<rparr>)),
      pq_save_applied = (\<lambda>_ _ p w. (Inr (), w\<lparr>mw_row := Some (mem_row p)\<rparr>)),
      pq_clock = (\<lambda>_. 0),
      pq_enrollment = (\<lambda>_. en)\<rparr>"

definition open_authority :: enrollment_of_store where
  "open_authority = EnrollmentAuthority (\<lambda>_. Inr (Some demo_fence)) (\<lambda>_ _. Inr (Some demo_fence))"

definition mem_store ::
  "enrollment_of_store \<Rightarrow> pairing_state_row option \<Rightarrow> (unit, mem_world) pairing_store" where
  "mem_store en overlay =
     graphql_pairing_state_store demo_api demo_time demo_decode (lit ''home'') (mem_queries en overlay)"

definition mem_routes_of :: "mem_world \<Rightarrow> live_routes" where
  "mem_routes_of w a = map_option (\<lambda>(cs, f). (set cs, bt_collect f)) (map_of (mw_routes w) a)"

definition mem_recorded :: "mem_world \<Rightarrow> unit pairing_applied" where
  "mem_recorded w = la_state (load_applied_from_rows demo_decode (mem_rows w))"

definition mem_writable :: "unit pairing_filters \<Rightarrow> bool" where
  "mem_writable fs \<longleftrightarrow> fs = [] \<or> fs = demo_filters"

lemma trim_Nil_iff: "trim s = [] \<longleftrightarrow> (\<forall>c \<in> set s. is_ws c)"
proof -
  have "trim s = [] \<longleftrightarrow> (\<forall>c \<in> set (dropWhile is_ws s). is_ws c)"
    by (simp add: trim_def trim_end_def trim_start_def dropWhile_eq_Nil_conv)
  also have "\<dots> \<longleftrightarrow> dropWhile is_ws s = []"
    by (metis empty_iff hd_dropWhile hd_in_set list.set(1))
  finally show ?thesis by (simp add: dropWhile_eq_Nil_conv)
qed

lemma demo_peer: "peer_of demo_parser a = lit ''peer-'' @ a" "trim (peer_of demo_parser a) \<noteq> []"
  by (simp_all add: peer_of_def demo_parser_def trim_Nil_iff lit_def is_ws_def)

lemma demo_peer_inj: "inj (peer_of demo_parser)"
  by (simp add: inj_def demo_peer)

lemmas mem_admin_simps = embedded_admin_def mem_p2p_def with_p2p_def embedded_run_def act_simps

lemma mem_resolved [simp]: "resolved (\<lambda>_. None) = (\<lambda>i. i)"
  by (simp add: resolved_def fun_eq_iff)

lemma mem_lists:
  "\<exists>reps. ad_list_replicators (embedded_admin demo_api mem_p2p) w = (Inr reps, w) \<and>
     lists_routes demo_parser (\<lambda>_. None) (mem_routes_of w) reps"
proof (intro exI conjI)
  let ?reps = "map (\<lambda>(a, cs, f). \<lparr>rr_id = Some (peer_of demo_parser a), rr_collections = cs,
      rr_address = Some a, rr_filters = Some f\<rparr>) (AList.clearjunk (mw_routes w))"
  show "ad_list_replicators (embedded_admin demo_api mem_p2p) w = (Inr ?reps, w)"
    by (simp add: mem_admin_simps remote_replicator_of_def case_prod_beta comp_def)
  have "map rr_address ?reps = map Some (map fst (AList.clearjunk (mw_routes w)))"
    by (simp add: case_prod_beta comp_def)
  moreover have "distinct (map Some (map fst (AList.clearjunk (mw_routes w))))"
    by (subst distinct_map) (simp add: distinct_clearjunk del: map_map)
  ultimately have "distinct (map rr_address ?reps)" by (simp only:)
  moreover have "shows_route demo_parser (\<lambda>_. None) (mem_routes_of w) rep" if "rep \<in> set ?reps" for rep
  proof -
    from that obtain a cs f where e: "(a, cs, f) \<in> set (AList.clearjunk (mw_routes w))"
      and rep: "rep = \<lparr>rr_id = Some (peer_of demo_parser a), rr_collections = cs,
        rr_address = Some a, rr_filters = Some f\<rparr>"
      by auto
    have "map_of (mw_routes w) a = Some (cs, f)"
      using map_of_is_SomeI [OF distinct_clearjunk e] by (simp add: map_of_clearjunk)
    then show ?thesis
      by (simp add: shows_route_def rep mem_routes_of_def)
  qed
  moreover have "Some a \<in> rr_address ` set ?reps" if "a \<in> dom (mem_routes_of w)" for a
  proof -
    from that obtain v where "map_of (AList.clearjunk (mw_routes w)) a = Some v"
      by (auto simp: mem_routes_of_def map_of_clearjunk)
    then have "(a, v) \<in> set (AList.clearjunk (mw_routes w))"
      by (rule map_of_SomeD)
    then show ?thesis by (force simp: case_prod_beta)
  qed
  ultimately show "lists_routes demo_parser (\<lambda>_. None) (mem_routes_of w) ?reps"
    by (simp add: lists_routes_def list_all_iff)
qed

lemma mem_delete:
  assumes "mem_routes_of w a = Some (cols, f)"
  shows "\<exists>w'. ad_delete_replicator (embedded_admin demo_api mem_p2p) (peer_of demo_parser a) cs w = (Inr (), w') \<and>
    mw_subs w' = mw_subs w \<and> mem_routes_of w' = (mem_routes_of w)(a := None) \<and> mem_recorded w' = mem_recorded w"
proof -
  have "list_ex (\<lambda>(b, _). peer_of demo_parser b = peer_of demo_parser a) (mw_routes w)"
    using assms by (auto simp: mem_routes_of_def list_ex_iff dest!: map_of_SomeD)
  then show ?thesis
    using demo_peer(2) [of a]
    by (auto simp: mem_admin_simps embedded_delete_replicator_def demo_peer(1) mem_remove_replicator_def
        mem_routes_of_def map_of_filter_key mem_recorded_def mem_rows_def fun_eq_iff)
qed

lemma mem_delete_missing:
  assumes "i \<notin> peer_of demo_parser ` dom (mem_routes_of w)"
  shows "\<exists>m. ad_delete_replicator (embedded_admin demo_api mem_p2p) i cs w = (Inl (RemoteNotFound m), w)"
proof -
  have "\<not> list_ex (\<lambda>(b, _). peer_of demo_parser b = i) (mw_routes w)"
    using assms by (fastforce simp: mem_routes_of_def list_ex_iff dom_def dest!: weak_map_of_SomeI)
  then show ?thesis
    by (simp add: mem_admin_simps embedded_delete_replicator_def mem_remove_replicator_def map_p2p_error_def)
qed

lemma bs_collect_sorted: "sorted_wrt (<) xs \<Longrightarrow> bs_collect xs = xs"
  by (simp add: bs_collect_def bt_collect_wf bt_wf_def comp_def)

lemma trim_F [simp]: "trim (lit ''F'') = lit ''F''"
  by (rule trim_lit) (simp add: is_ws_def)

lemma mem_persist:
  assumes "well_recorded p" and "mem_writable (pp_replicator_filter p)"
  shows "\<exists>w'. ss_persist_applied (mem_store en ov) peer \<lparr>la_state = p, la_duplicate_doc_ids = ds\<rparr> w = (Inr (), w') \<and>
    mw_subs w' = mw_subs w \<and> mem_routes_of w' = mem_routes_of w \<and> mem_recorded w' = p"
  using assms
  by (auto simp: mem_store_def graphql_pairing_state_store_def store_persist_applied_def mem_queries_def
      applied_is_empty_def mem_routes_of_def mem_recorded_def mem_rows_def load_applied_from_rows_def
      into_applied_def mem_row_def well_recorded_def bs_collect_sorted default_applied_def mem_writable_def
      decode_replicator_filter_def nonblank_def demo_decode_def)

interpretation mem: pairing_env demo_api "embedded_admin demo_api mem_p2p" "mem_store en ov" demo_parser
  "\<lambda>_. None" peer "\<lambda>w. set (mw_subs w)" mem_routes_of mem_recorded mem_writable
  for en ov peer
proof (unfold_locales, goal_cases)
  case (3 w)
  show ?case by (rule mem_lists)
next
  case (8 fs rf w a cs)
  then show ?case
    by (auto simp: mem_admin_simps embedded_add_replicator_def mem_routes_of_def mem_recorded_def
        mem_rows_def fun_eq_iff to_replication_filters_def)
next
  case (9 w a cols f i cs)
  then show ?case using mem_delete [of w a cols f cs] by auto
next
  case (10 i w cs)
  then show ?case using mem_delete_missing [of i w cs] by auto
next
  case (14 la w)
  then show ?case using mem_persist [of "la_state la" en ov peer "la_duplicate_doc_ids la" w]
    by (cases la) auto
qed (auto simp: mem_admin_simps embedded_resolve_collection_name_def embedded_connect_def act_each_pure
    mem_routes_of_def mem_recorded_def mem_rows_def mem_store_def graphql_pairing_state_store_def
    store_load_desired_def mem_queries_def load_applied_from_rows_def mem_writable_def
    split: option.splits)

section \<open>Convergence\<close>

text \<open>C16. Reconciling a peer converges. Over a transport and a store that work, with the authority
  open throughout, one tick returns and ends with the peer's wiring settled: the desired collections are
  subscribed, every desired route is live with exactly the desired collections and equivalent
  filters, and the tick reports that the live route matches. What the record owned before and is not
  desired is gone, subscriptions and routes alike, and what is neither desired nor recorded is
  untouched. The next tick does nothing. The hypotheses: live routes at desired addresses are recorded
  as owned, addresses that are used at one time lead to different peers, and the pairing is no subagent
  pairing (which replays its routes on reconnect).\<close>

theorem pairing_tick_converges:
  assumes env: "pairing_env F A S P names peer subs routes recorded writable"
    and load: "\<forall>w. \<exists>w0. ss_load_desired S peer w = (Inr \<lparr>ld_state = Some d, ld_generation = g\<rparr>, w0)"
    and current: "\<forall>w. fst (fresh_generation_or_close S g w)"
    and rf: "to_replication_filters F (pd_replicator_filter d) = Some rf"
    and owned: "\<forall>a \<in> set (pd_replicator_addresses d). routes w a \<noteq> None \<longrightarrow>
        a \<in> set (pp_replicator_addresses (recorded w))"
    and inj1: "inj_on (peer_of P) (dom (routes w) \<union> set (pp_replicator_addresses (recorded w)))"
    and inj2: "inj_on (peer_of P) (dom (routes w) - set (pp_replicator_addresses (recorded w)) \<union>
         set (pd_replicator_addresses d))"
    and rec: "well_recorded (recorded w)" and dist: "distinct (pd_replicator_addresses d)"
    and wr: "writable (pd_replicator_filter d)" "writable (pp_replicator_filter (recorded w))"
    and sub: "\<not> uses_subagent_template d"
  shows "\<exists>out w'. reconcile_peer_tick F A S P peer w = (Inr out, w') \<and> to_live_route_matches out \<and>
    settled d rf (subs w') (routes w') (recorded w') \<and>
    cleared d (recorded w) (subs w, routes w) (subs w', routes w') \<and>
    (\<exists>out' w''. reconcile_peer_tick F A S P peer w' = (Inr out', w'') \<and> to_ops_applied out' = [])"
proof -
  note conv = pairing_env.converging [OF env _ _ rf _ _ _ _ dist wr(1) _ sub]
  have cur: "\<And>w. fst (fresh_generation_or_close S g w)" using current by blast
  obtain w0 where "ss_load_desired S peer w = (Inr \<lparr>ld_state = Some d, ld_generation = g\<rparr>, w0)"
    using load by blast
  from conv [OF this cur owned inj1 inj2 rec wr(2), of False] obtain out w' snap where
    tick: "reconcile_peer_tick_with_replay F A S P peer False w = (Inr out, w')"
    and snap: "snapshot_of P names (subs w) (routes w) snap"
    and out: "to_live_route_matches out" "settled d rf (subs w') (routes w') (recorded w')"
    and view: "(subs w', routes w') = fold (op_view d rf)
      (compute_owned_pairing_diff F P d (as_state snap) (recorded w)) (subs w, routes w)"
    and rec': "well_recorded (recorded w')" "writable (pp_replicator_filter (recorded w'))"
    by blast
  note view = view [unfolded diff_view [OF snap]]
  have sub': "dom (routes w') \<union> set (pp_replicator_addresses (recorded w')) \<subseteq>
      dom (routes w) - set (pp_replicator_addresses (recorded w)) \<union> set (pd_replicator_addresses d)"
    using view out(2) owned unfolding settled_def by (auto split: if_splits)
  have owned': "\<forall>a \<in> set (pd_replicator_addresses d). routes w' a \<noteq> None \<longrightarrow>
      a \<in> set (pp_replicator_addresses (recorded w'))"
    using out(2) by (auto simp: settled_def)
  have inj': "inj_on (peer_of P) (dom (routes w') \<union> set (pp_replicator_addresses (recorded w')))"
    "inj_on (peer_of P) (dom (routes w') - set (pp_replicator_addresses (recorded w')) \<union>
       set (pd_replicator_addresses d))"
    using sub' by (blast intro: inj_on_subset [OF inj2])+
  obtain w1 where "ss_load_desired S peer w' = (Inr \<lparr>ld_state = Some d, ld_generation = g\<rparr>, w1)"
    using load by blast
  from conv [OF this cur owned' inj' rec', of False] obtain out' w'' snap' where
    "reconcile_peer_tick_with_replay F A S P peer False w' = (Inr out', w'')"
    "snapshot_of P names (subs w') (routes w') snap'"
    "to_ops_applied out' = compute_owned_pairing_diff F P d (as_state snap') (recorded w')" by blast
  moreover from this have "to_ops_applied out' = []"
    using settled_matches(1) [OF out(2) _ rf] by simp
  moreover have "cleared d (recorded w) (subs w, routes w) (subs w', routes w')"
    using view by (auto simp: cleared_def)
  ultimately show ?thesis
    using tick out unfolding reconcile_peer_tick_def by blast
qed

text \<open>Filters that the adapter accepts: those without access-control parts.\<close>

lemma those_Some: "(\<forall>x \<in> set xs. x \<noteq> None) \<Longrightarrow> \<exists>ys. those xs = Some ys"
  by (induction xs) auto

lemma set_bt_collect: "set (bt_collect es) \<subseteq> set es"
proof -
  have "set (bt_insert k v m) \<subseteq> insert (k, v) (set m)" for k :: 'a and v :: 'b and m
    by (induction m) (auto split: if_splits)
  then have "set (fold (\<lambda>(k, v). bt_insert k v) es m) \<subseteq> set es \<union> set m" for m
    by (induction es arbitrary: m) fastforce+
  from this [of "[]"] show ?thesis by (simp add: bt_collect_def)
qed

lemma demo_filters_convert: "\<exists>rf. to_replication_filters demo_api demo_filters = Some rf"
proof -
  have "filter_conditions f \<noteq> None" if "(c, f) \<in> set demo_filters" for c f
    using that set_bt_collect
    by (fastforce simp: demo_filters_def client_route_filters_def owned_row_filter_def equality_filter_def
        demo_api_def combine_filters_def filter_parts_def first_occurrences_def)
  then show ?thesis
    unfolding to_replication_filters_def by (auto intro!: those_Some)
qed

definition demo_desired :: "unit pairing_desired" where
  "demo_desired = \<lparr>pd_collections = [], pd_replicator_addresses = [lit ''ticket''],
     pd_replicator_collections = bs_collect client_collections, pd_replicator_filter = demo_filters,
     pd_template_ids = [client_template]\<rparr>"

lemma trim_demo_pairing:
  "trim (lit ''home'') = lit ''home''" "trim (lit ''client'') = lit ''client''"
  "trim (lit ''phone'') = lit ''phone''" "trim (lit ''ticket'') = lit ''ticket''"
  "trim (lit ''agent-config'') = lit ''agent-config''" "trim (lit ''operator'') = lit ''operator''"
  by (rule trim_lit, simp add: is_ws_def)+

lemma demo_entry:
  "data_plane_materialized_entry demo_time open_authority (lit ''home'') 0 (lit ''p'') =
     Some (entry_of_fence demo_fence, generation_of_fence demo_fence)"
  by (simp add: data_plane_materialized_entry_def open_authority_def entry_is_fresh_at_def entry_of_fence_def
      demo_fence_def authorization_lease_is_fresh_at_def parse_canonical_timestamp_def demo_time_def
      strip_suffix_def materialized_enrollment_entry_def lit_def)

lemma client_template_resolved:
  "resolve_template (lit ''client'') = Some (template_of ''client'' client_collections ClientRoute Push)"
  by (simp add: resolve_template_def builtin_templates_def template_of_def)

lemma demo_load:
  "ss_load_desired (mem_store open_authority None) (lit ''p'') w =
     (Inr \<lparr>ld_state = Some demo_desired, ld_generation = Some (generation_of_fence demo_fence)\<rparr>, w)"
  by (simp add: mem_store_def graphql_pairing_state_store_def store_load_desired_def mem_queries_def
      load_desired_with_authority_def demo_entry layer_of_row_def layer_desired_def enrollment_base_row_def demo_row_def
      entry_of_fence_def demo_fence_def data_plane_desired_from_pairing_row_def nonblank_def
      trim_demo_pairing client_template_def client_template_resolved route_direction_of_row_def
      template_of_def row_collections_def app_collections_template_def client_route_collections_def
      data_plane_scope_filter_def data_plane_scope_requires_signed_peer_did_def merge_layered_desired_def
      demo_desired_def demo_filters_def Let_def)

lemma demo_current:
  "fresh_generation_or_close (mem_store open_authority ov) (Some (generation_of_fence demo_fence)) w = (True, w)"
  by (simp add: fresh_generation_or_close_def mem_store_def graphql_pairing_state_store_def mem_queries_def
      enrollment_generation_is_current_def open_authority_def)

definition empty_world :: mem_world where
  "empty_world = \<lparr>mw_subs = [], mw_routes = [], mw_row = None\<rparr>"

lemma empty_world_fields:
  "mem_routes_of empty_world = Map.empty" "mem_recorded empty_world = default_applied"
  by (simp_all add: fun_eq_iff mem_routes_of_def mem_recorded_def mem_rows_def empty_world_def
      load_applied_from_rows_def)

theorem pairing_tick_converges_witness:
  "\<exists>out w'. reconcile_peer_tick demo_api (embedded_admin demo_api mem_p2p) (mem_store open_authority None)
      demo_parser (lit ''p'') empty_world = (Inr out, w') \<and> to_live_route_matches out \<and>
    mem_routes_of w' (lit ''ticket'') \<noteq> None"
proof -
  obtain rf where rf: "to_replication_filters demo_api (pd_replicator_filter demo_desired) = Some rf"
    using demo_filters_convert by (auto simp: demo_desired_def)
  have "\<not> uses_subagent_template demo_desired"
    by (simp add: uses_subagent_template_def demo_desired_def client_template_def) code_simp
  then have "\<exists>out w'. reconcile_peer_tick demo_api (embedded_admin demo_api mem_p2p)
      (mem_store open_authority None) demo_parser (lit ''p'') empty_world = (Inr out, w') \<and>
    to_live_route_matches out \<and> settled demo_desired rf (set (mw_subs w')) (mem_routes_of w') (mem_recorded w')"
    using pairing_tick_converges [OF mem.pairing_env_axioms [of open_authority None "lit ''p''"],
        where w = empty_world and d = demo_desired and g = "Some (generation_of_fence demo_fence)" and rf = rf] rf
    by (fastforce simp: demo_load demo_current empty_world_fields default_applied_def well_recorded_def mem_writable_def demo_desired_def)
  then show ?thesis
    by (auto simp: settled_def demo_desired_def)
qed

section \<open>Ownership\<close>

text \<open>A node that holds two routes, of which the record of the peer owns one.\<close>

definition closed_authority :: enrollment_of_store where
  "closed_authority = EnrollmentAuthority (\<lambda>_. Inr None) (\<lambda>_ _. Inr None)"

definition owning_world :: mem_world where
  "owning_world = \<lparr>mw_subs = [], mw_routes = [(lit ''t'', [], []), (lit ''u'', [], [])],
     mw_row = Some \<lparr>ar_doc_id = lit ''doc'', ar_collections = None,
       ar_replicator_addresses = Some [lit ''t''], ar_replicator_filter = None\<rparr>\<rparr>"

lemma owning_tick:
  "(case reconcile_peer_tick_with_replay demo_api (embedded_admin demo_api mem_p2p)
      (mem_store closed_authority None) demo_parser (lit ''p'') False owning_world of
     (Inr out, w) \<Rightarrow> to_ops_applied out = [TeardownReplicator (lit ''t'')] \<and>
        \<not> to_desired_read_failed out \<and> map fst (mw_routes w) = [lit ''u'']
   | _ \<Rightarrow> False)"
  by code_simp

lemma connect_ready:
  assumes "connect_pairing_peer A S P f rp w = (prep, w')" and "pr_state prep = Ready rp'"
  shows "rp_desired rp' \<in> {rp_desired rp, None} \<and> rp_applied rp' = rp_applied rp"
  using assms
  by (auto simp: connect_pairing_peer_def Let_def split: prod.splits bool.splits sum.splits if_splits)

lemma prepared_from_loads:
  assumes "prepare_pairing_peer A S P peer f w = (prep, w')" and "pr_state prep = Ready rp"
  obtains ld la w1 w3 where "ss_load_desired S peer w = (Inr ld, w1)"
    "ss_load_applied S peer (record_world S peer w) = (Inr la, w3)"
    "rp_desired rp \<in> {ld_state ld, None}" "rp_applied rp = la"
proof -
  from assms obtain ld w1 where ld: "ss_load_desired S peer w = (Inr ld, w1)"
    by (auto simp: prepare_pairing_peer_def split: prod.splits sum.splits)
  obtain b w2 where b: "(if ld_state ld = None then (True, w1)
      else fresh_generation_or_close S (ld_generation ld) w1) = (b, w2)" by fastforce
  have prep: "(case ss_load_applied S peer w2 of
       (Inl e, w3) \<Rightarrow> (\<lparr>pr_active_before = False, pr_state = PreparationFailed (StoreFailed e)\<rparr>, w3)
     | (Inr la, w3) \<Rightarrow>
         let rp = \<lparr>rp_desired = (if b then ld_state ld else None), rp_generation = ld_generation ld,
                   rp_applied = la, rp_reconnected = False, rp_force_replay = False\<rparr>;
             d = desired_or_default (if b then ld_state ld else None) in
         if has_wiring d \<and> pd_replicator_addresses d \<noteq> []
         then connect_pairing_peer A S P f rp w3
         else (\<lparr>pr_active_before = False, pr_state = Ready rp\<rparr>, w3)) = (prep, w')"
    using assms(1) unfolding prepare_pairing_peer_def ld prod.case sum.case b Let_def .
  from prep assms(2) obtain la w3 where la: "ss_load_applied S peer w2 = (Inr la, w3)"
    by (auto split: prod.splits sum.splits)
  with prep assms(2) have "rp_desired rp \<in> {ld_state ld, None} \<and> rp_applied rp = la"
    by (auto simp: Let_def split: if_splits dest: connect_ready)
  moreover have "record_world S peer w = w2"
    using b by (auto simp: record_world_def ld split: if_splits)
  ultimately show ?thesis using ld la by (auto intro: that)
qed

text \<open>C18. A tick stays within its pairing. Once the desired state and the record are loaded, whatever
  the transport and the store answer after that, whenever the authority closes meanwhile, and also when
  the tick fails halfway or replays the routes of a subagent, a tick dials only the desired addresses,
  subscribes only desired collections, installs only desired addresses with the desired collections and
  filters, unsubscribes only collections that are desired or recorded, and removes replicators only under
  a peer identifier of an address that is desired or recorded: it ends the same, result and world, over a
  transport that treats every other call of these in any other way.\<close>

theorem tick_stays_within_pairing:
  assumes "ss_load_desired S peer w = (Inr ld, w1)"
    and "ss_load_applied S peer (record_world S peer w) = (Inr la, w2)"
  shows "reconcile_peer_tick_with_replay F
      (confined A P (desired_or_default (ld_state ld)) (la_state la) B) S P peer f w =
    reconcile_peer_tick_with_replay F A S P peer f w"
proof -
  let ?G = "confined A P (desired_or_default (ld_state ld)) (la_state la) B"
  obtain prep w3 where prep: "prepare_pairing_peer A S P peer f w = (prep, w3)" by force
  have "reconcile_ready_peer F ?G S P peer active rp w3 = reconcile_ready_peer F A S P peer active rp w3"
    if rp: "pr_state prep = Ready rp" for active rp
    using prep rp
  proof (cases rule: prepared_from_loads)
    case (1 ld' la' w1' w2')
    with assms have "rp_desired rp \<in> {ld_state ld, None}" "rp_applied rp = la" by auto
    then show ?thesis by (intro ready_confined) auto
  qed
  then show ?thesis
    using prepare_confined [OF assms(1), of A P "la_state la" B f] prep
    by (auto simp: reconcile_peer_tick_with_replay_def reconcile_prepared_peer_def split: prepared_state.split)
qed

lemma owning_load:
  "ss_load_applied (mem_store closed_authority None) (lit ''p'')
      (record_world (mem_store closed_authority None) (lit ''p'') owning_world) =
    (Inr \<lparr>la_state = \<lparr>pp_collections = [], pp_replicator_addresses = [lit ''t''], pp_replicator_filter = []\<rparr>,
      la_duplicate_doc_ids = []\<rparr>, owning_world)"
  by code_simp

lemma owning_tick_runs:
  obtains out w where "reconcile_peer_tick_with_replay demo_api (embedded_admin demo_api mem_p2p)
      (mem_store closed_authority None) demo_parser (lit ''p'') False owning_world = (Inr out, w)"
    "to_ops_applied out = [TeardownReplicator (lit ''t'')]" "\<not> to_desired_read_failed out"
  using owning_tick by (auto split: prod.splits sum.splits)

text \<open>A transport that loses every route when it is asked for anything outside the scope.\<close>

definition rogue_p2p :: "(unit, mem_world) p2p_admin" where
  "rogue_p2p = (embedded_admin demo_api mem_p2p)\<lparr>
     ad_delete_replicator := \<lambda>_ _ w. (Inr (), w\<lparr>mw_routes := []\<rparr>),
     ad_connect := \<lambda>_ w. (Inl RpcTimeout, w\<lparr>mw_routes := []\<rparr>)\<rparr>"

theorem tick_stays_within_pairing_witness:
  "\<exists>out w. reconcile_peer_tick_with_replay demo_api
      (confined (embedded_admin demo_api mem_p2p) demo_parser default_desired
         \<lparr>pp_collections = [], pp_replicator_addresses = [lit ''t''], pp_replicator_filter = []\<rparr> rogue_p2p)
      (mem_store closed_authority None) demo_parser (lit ''p'') False owning_world = (Inr out, w) \<and>
    map fst (mw_routes w) = [lit ''u'']"
proof -
  have load: "ss_load_desired (mem_store closed_authority None) (lit ''p'') owning_world =
      (Inr \<lparr>ld_state = None, ld_generation = None\<rparr>, owning_world)"
    by code_simp
  from tick_stays_within_pairing [OF load owning_load, where F = demo_api and A = "embedded_admin demo_api mem_p2p"
      and B = rogue_p2p and P = demo_parser and f = False] owning_tick
  show ?thesis by (auto split: prod.splits sum.splits)
qed

section \<open>A closed authority\<close>

lemma graphql_store_closed:
  assumes "\<forall>w g. enrollment_generation_is_current TM (pq_enrollment Q w) (pq_clock Q w) g \<noteq> Inr True"
  shows "closed_store (graphql_pairing_state_store F TM decode self_did Q)"
  using assms
  by (auto simp: closed_store_def graphql_pairing_state_store_def store_load_desired_def
      load_desired_with_authority_def default_loaded_desired_def split: prod.splits sum.splits option.splits)

text \<open>C17. A route whose enrollment is no longer current only shrinks. As long as the store cannot
  confirm any generation (revoked, expired, superseded, or the authority does not answer), a tick
  never dials the peer, installs a replicator or subscribes a collection: it behaves the same
  whatever those three functions do. And over a transport and a store that work, a tick that could read
  the desired state returns, and afterwards exactly what the record owned is gone: its routes and its
  subscriptions are removed from the node, every other route and subscription is as it was, and the
  record is empty. (Addresses in use and recorded lead to different peers.)\<close>

theorem closed_route_only_shrinks:
  assumes "\<forall>w g. enrollment_generation_is_current TM (pq_enrollment Q w) (pq_clock Q w) g \<noteq> Inr True"
    and "S = graphql_pairing_state_store F TM decode self_did Q"
  shows "reconcile_peer_tick_with_replay F
      (A\<lparr>ad_connect := dial, ad_add_replicator := add, ad_add_p2p_collections := subscribe\<rparr>) S P peer f w =
    reconcile_peer_tick_with_replay F A S P peer f w \<and>
    (pairing_env F A S P names peer subs routes recorded writable \<and>
     (\<exists>ld w0. ss_load_desired S peer w = (Inr ld, w0)) \<and>
     inj_on (peer_of P) (dom (routes w) \<union> set (pp_replicator_addresses (recorded w))) \<and>
     well_recorded (recorded w) \<and> writable (pp_replicator_filter (recorded w)) \<longrightarrow>
       (\<exists>out w'. reconcile_peer_tick_with_replay F A S P peer f w = (Inr out, w') \<and>
          subs w' = subs w - set (pp_collections (recorded w)) \<and>
          routes w' = (\<lambda>a. if a \<in> set (pp_replicator_addresses (recorded w)) then None else routes w a) \<and>
          recorded w' = default_applied))"
proof -
  have closed: "closed_store S" using graphql_store_closed assms by blast
  show ?thesis
    by (intro conjI impI tick_closed_install [OF closed]) (elim conjE exE, rule pairing_env.closing [OF _ closed])
qed

lemma closed_authority_closed:
  "\<forall>w g. enrollment_generation_is_current demo_time (pq_enrollment (mem_queries closed_authority None) w)
     (pq_clock (mem_queries closed_authority None) w) g \<noteq> Inr True"
  by (simp add: enrollment_generation_is_current_def mem_queries_def closed_authority_def)

lemma owning_world_fields:
  "mem_recorded owning_world =
     \<lparr>pp_collections = [], pp_replicator_addresses = [lit ''t''], pp_replicator_filter = []\<rparr>"
  "dom (mem_routes_of owning_world) = {lit ''t'', lit ''u''}"
  by (code_simp) (auto simp: mem_routes_of_def owning_world_def split: if_splits)

theorem closed_route_only_shrinks_witness:
  "\<exists>out w. reconcile_peer_tick_with_replay demo_api (embedded_admin demo_api mem_p2p)
      (mem_store closed_authority None) demo_parser (lit ''p'') False owning_world = (Inr out, w) \<and>
    mem_routes_of w (lit ''t'') = None \<and> mem_routes_of w (lit ''u'') = mem_routes_of owning_world (lit ''u'')"
proof -
  have load: "ss_load_desired (mem_store closed_authority None) (lit ''p'') owning_world =
      (Inr \<lparr>ld_state = None, ld_generation = None\<rparr>, owning_world)"
    by code_simp
  have inj: "inj_on (peer_of demo_parser) (dom (mem_routes_of owning_world) \<union>
      set (pp_replicator_addresses (mem_recorded owning_world)))"
    by (simp add: owning_world_fields) code_simp
  have rec: "well_recorded (mem_recorded owning_world)" "mem_writable (pp_replicator_filter (mem_recorded owning_world))"
    by (simp_all add: owning_world_fields well_recorded_def mem_writable_def)
  have "lit ''t'' \<noteq> lit ''u''" by code_simp
  with closed_route_only_shrinks [OF closed_authority_closed mem_store_def, where A = "embedded_admin demo_api mem_p2p"
      and P = demo_parser and peer = "lit ''p''" and f = False and w = owning_world] load inj rec
    mem.pairing_env_axioms [of closed_authority None "lit ''p''"]
  show ?thesis by (fastforce simp: owning_world_fields)
qed

lemma default_applied_addresses: "pp_replicator_addresses default_applied = []"
  by (simp add: default_applied_def)

lemma reconcile_unrecorded:
  assumes "rp_desired rp = None" and "rp_applied rp = \<lparr>la_state = default_applied, la_duplicate_doc_ids = []\<rparr>"
  shows "reconcile_ready_peer F (A\<lparr>ad_delete_replicator := remove, ad_delete_p2p_collections := unsubscribe\<rparr>)
      S P peer active rp = reconcile_ready_peer F A S P peer active rp"
proof -
  let ?A = "A\<lparr>ad_delete_replicator := remove, ad_delete_p2p_collections := unsubscribe\<rparr>"
  have read: "read_actual ?A = read_actual A"
    by (rule read_actual_cong) simp_all
  have finish: "finish_tick F ?A = finish_tick F A"
    by (intro ext) (simp only: finish_tick_def read)
  have none: "compute_owned_pairing_diff F P default_desired b default_applied = []" for b
    by (simp add: owned_diff_empty_iff default_applied_def)
  show ?thesis
  proof
    fix w
    obtain r w1 where "read_actual A P [] w = (r, w1)" by force
    then show "reconcile_ready_peer F ?A S P peer active rp w = reconcile_ready_peer F A S P peer active rp w"
      using assms by (cases r) (simp_all add: reconcile_ready_peer_def act_simps read finish run_ops_def none default_applied_addresses)
  qed
qed

text \<open>C40. An install that did not reach the record is never undone. When the record of a peer is
  empty, as it is when the process stops or the store fails between a successful install and its
  record, and the authority has closed, a tick behaves the same whatever the transport's functions
  for removing replicators and collections do: no tick removes the route.\<close>

theorem unrecorded_route_is_never_torn_down:
  assumes "\<forall>w g. enrollment_generation_is_current TM (pq_enrollment Q w) (pq_clock Q w) g \<noteq> Inr True"
    and "S = graphql_pairing_state_store F TM decode self_did Q"
    and "pq_applied_rows Q peer (record_world S peer w) = (Inr [], w')"
  shows "reconcile_peer_tick_with_replay F
      (A\<lparr>ad_delete_replicator := remove, ad_delete_p2p_collections := unsubscribe\<rparr>) S P peer f w =
    reconcile_peer_tick_with_replay F A S P peer f w"
proof -
  have closed: "closed_store S" using graphql_store_closed assms(1,2) by blast
  let ?A = "A\<lparr>ad_delete_replicator := remove, ad_delete_p2p_collections := unsubscribe\<rparr>"
  obtain prep w1 where prep: "prepare_pairing_peer A S P peer f w = (prep, w1)" by force
  then have "prepare_pairing_peer ?A S P peer f w = (prep, w1)"
    by (simp only: prepare_closed_eq [OF closed])
  moreover have "rp_desired rp = None \<and>
      rp_applied rp = \<lparr>la_state = default_applied, la_duplicate_doc_ids = []\<rparr>" if "pr_state prep = Ready rp" for rp
  proof -
    have "ss_load_applied S peer (record_world S peer w) =
        (Inr \<lparr>la_state = default_applied, la_duplicate_doc_ids = []\<rparr>, w')"
      using assms(3) by (simp add: assms(2) graphql_pairing_state_store_def act_simps load_applied_from_rows_def)
    then show ?thesis using prepare_closed(2) [OF closed prep that] by simp
  qed
  ultimately show ?thesis
    by (auto simp: reconcile_peer_tick_with_replay_def prep reconcile_prepared_peer_def
        reconcile_unrecorded split: prepared_state.split)
qed

theorem unrecorded_route_is_never_torn_down_witness:
  "reconcile_peer_tick_with_replay demo_api
      ((embedded_admin demo_api mem_p2p)\<lparr>ad_delete_replicator := \<lambda>_ _ w. (Inr (), w\<lparr>mw_routes := []\<rparr>)\<rparr>)
      (mem_store closed_authority None) demo_parser (lit ''p'') False (owning_world\<lparr>mw_row := None\<rparr>) =
    reconcile_peer_tick_with_replay demo_api (embedded_admin demo_api mem_p2p)
      (mem_store closed_authority None) demo_parser (lit ''p'') False (owning_world\<lparr>mw_row := None\<rparr>)"
proof -
  have "pq_applied_rows (mem_queries closed_authority None) (lit ''p'')
      (record_world (mem_store closed_authority None) (lit ''p'') (owning_world\<lparr>mw_row := None\<rparr>)) =
    (Inr [], owning_world\<lparr>mw_row := None\<rparr>)"
    by code_simp
  from unrecorded_route_is_never_torn_down [OF closed_authority_closed mem_store_def this,
      where A = "embedded_admin demo_api mem_p2p" and remove = "\<lambda>_ _ w. (Inr (), w\<lparr>mw_routes := []\<rparr>)"
        and unsubscribe = "ad_delete_p2p_collections (embedded_admin demo_api mem_p2p)"
        and P = demo_parser and f = False]
  show ?thesis by simp
qed

text \<open>A route the record does not own is reported as matching. When the record holds nothing, the
  difference of a pairing whose addresses are all live is empty, and the pairing counts as live and
  matching, whatever collections, filters and observed addresses the live routes have.\<close>

theorem unowned_route_is_certified:
  assumes "pp_replicator_addresses p = []" and "pp_collections p = []"
    and "set (pd_collections d) \<subseteq> set (pa_collections a)"
    and "set (pd_replicator_addresses d) \<subseteq> set (pa_replicator_addresses a)"
    and "set (pd_replicator_addresses d) \<inter> set (pa_filters_unobserved a) = {}"
  shows "owned_pairing_live_matches F P d
    (a\<lparr>pa_replicator_filters := fs, pa_replicator_collections := cs, pa_observed_addresses := os\<rparr>) p"
  using assms
  by (auto simp: owned_pairing_live_matches_def owned_diff_empty_iff list_all_iff)

theorem unowned_route_is_certified_witness:
  "owned_pairing_live_matches demo_api demo_parser demo_desired
     \<lparr>pa_collections = [], pa_replicator_addresses = [lit ''ticket''],
      pa_replicator_collections = [], pa_replicator_filters = [], pa_filters_unobserved = [],
      pa_observed_addresses = []\<rparr>
     default_applied"
  using unowned_route_is_certified [of default_applied demo_desired
      "\<lparr>pa_collections = [], pa_replicator_addresses = [lit ''ticket''],
        pa_replicator_collections = [], pa_replicator_filters = [], pa_filters_unobserved = [],
        pa_observed_addresses = []\<rparr>"
      demo_api demo_parser "[]" "[]" "[]"]
  by (simp add: default_applied_def demo_desired_def)

section \<open>The desired wiring\<close>

lemma base_layer:
  assumes "enrollment_base_row row e self_did = Some r" and "layer_desired F e self_did (Some r) = Inr b"
  shows "b = Some \<lparr>pd_collections = [], pd_replicator_addresses = filter (\<lambda>a. a \<noteq> []) [trim (en_address e)],
      pd_replicator_collections = bs_collect client_collections,
      pd_replicator_filter = client_route_filters F RuntimeToClient (trim (en_agent_did e)) self_did,
      pd_template_ids = [client_template]\<rparr>"
proof -
  have r: "ps_source r = Some enrollment_source" "ps_template r = Some client_template"
    using assms(1) by (auto simp: enrollment_base_row_def split: if_splits)
  have t: "resolve_template client_template = Some (template_of ''client'' client_collections ClientRoute Push)"
    "nonblank (Some client_template) = Some client_template"
    by (simp_all add: client_template_def client_template_resolved nonblank_def trim_demo_pairing)
  have "st_scope (template_of i cs sc dl) = sc" "st_id (template_of i cs sc dl) = lit i" for i cs sc dl
    by (simp_all add: template_of_def)
  moreover have "route_direction_of_row (template_of ''client'' client_collections ClientRoute Push) r = Inr RuntimeToClient"
    "row_collections (template_of ''client'' client_collections ClientRoute Push) RuntimeToClient r =
      Some (bs_collect client_collections, [])"
    by (simp_all add: route_direction_of_row_def r template_of_def row_collections_def
        app_collections_template_def client_route_collections_def)
  ultimately show ?thesis
    using assms(2)
    by (auto simp: layer_desired_def data_plane_desired_from_pairing_row_def r t Let_def
        data_plane_scope_filter_def client_template_def [symmetric] split: if_splits option.splits)
qed

lemma layer_address:
  assumes "layer_desired F e self_did row = Inr (Some x)"
  shows "pd_replicator_addresses x = filter (\<lambda>a. a \<noteq> []) [trim (en_address e)]"
  using assms
  by (auto simp: layer_desired_def data_plane_desired_from_pairing_row_def Let_def
      split: option.splits sum.splits if_splits)

lemma map_of_bt_extend: "map_of (bt_extend m es) = map_of m ++ map_of (rev es)"
  by (simp add: bt_extend_def map_of_fold_bt_insert)

lemma client_route_keys:
  assumes "c \<in> set client_to_runtime_collections"
  shows "map_of (client_route_filters F RuntimeToClient r a) c \<noteq> None"
proof -
  have "c \<in> fst ` set (client_route_filters F RuntimeToClient r a)"
    unfolding client_route_filters_def keys_bt_collect
    using assms by (auto simp: client_to_runtime_collections_def)
  then show ?thesis by (simp add: map_of_eq_None_iff)
qed

lemma materialized_other:
  assumes "data_plane_materialized_entry TM en self_did now peer = Some (e, g)"
  shows "en_desired_id e = peer" "en_agent_did e \<noteq> self_did" "entry_is_fresh_at TM e now"
  using assms
  by (auto simp: data_plane_materialized_entry_def materialized_enrollment_entry_def
      split: option.splits if_splits)

text \<open>C19. The endpoint and the scope of an enrolled peer come from its enrollment. When the stored row
  witnesses the current enrollment, then whatever else the rows say: the route leads to the enrolled
  ticket only, and each of the transcript and control collections a client exchanges has a filter.
  Without an overlay the route is exactly the client route between the enrolled principal and this
  node. The enrollment is fresh, and names another principal than this node.\<close>

theorem enrolled_route_is_scoped:
  assumes "load_desired_with_authority F TM en self_did now (Inr (Inr (Some row), Inr overlay)) peer = Inr ld"
    and "ld_state ld = Some d"
    and "data_plane_materialized_entry TM en self_did now peer = Some (e, g)"
    and "enrollment_base_row row e self_did \<noteq> None"
  shows "entry_is_fresh_at TM e now \<and> en_agent_did e \<noteq> self_did \<and> ld_generation ld = Some g \<and>
    set (pd_replicator_addresses d) \<subseteq> {trim (en_address e)} \<and>
    (\<forall>c \<in> set client_to_runtime_collections. map_of (pd_replicator_filter d) c \<noteq> None) \<and>
    (overlay = None \<longrightarrow>
       pd_replicator_filter d = client_route_filters F RuntimeToClient (trim (en_agent_did e)) self_did \<and>
       pd_replicator_collections d = bs_collect client_collections \<and> pd_collections d = [])"
proof -
  note e = materialized_other [OF assms(3)]
  obtain r where r: "enrollment_base_row row e self_did = Some r" using assms(4) by blast
  from assms(1) obtain base x where base: "layer_desired F e self_did (Some r) = Inr base"
    and x: "layer_desired F e self_did (Option.bind overlay (\<lambda>r. local_data_plane_row r e self_did)) = Inr x"
    and ld: "ld = \<lparr>ld_state = merge_layered_desired self_did (en_agent_did e) base x, ld_generation = Some g\<rparr>"
    by (auto simp: load_desired_with_authority_def layer_of_row_def assms(3) r split: sum.splits)
  note b = base_layer [OF r base]
  show ?thesis
  proof (cases x)
    case None
    then have "d = the base" using assms(2) e(2) by (simp add: ld b merge_layered_desired_def)
    then show ?thesis
      using e client_route_keys by (auto simp: ld b split: if_splits)
  next
    case (Some y)
    then have "overlay \<noteq> None" using x by (cases overlay) (auto simp: layer_desired_def)
    moreover have "set (pd_replicator_addresses d) \<subseteq> {trim (en_address e)}"
      using assms(2) e(2) layer_address [OF x [unfolded Some]]
      by (auto simp: ld b Some merge_layered_desired_def Let_def split: if_splits)
    moreover have "map_of (pd_replicator_filter d) c \<noteq> None" if "c \<in> set client_to_runtime_collections" for c
      using assms(2) e(2) client_route_keys [OF that]
      by (auto simp: ld b Some merge_layered_desired_def Let_def map_of_bt_extend map_add_def
          split: option.splits)
    ultimately show ?thesis using e by (auto simp: ld)
  qed
qed

lemma demo_base_row:
  "enrollment_base_row demo_row (entry_of_fence demo_fence) (lit ''home'') \<noteq> None"
  by (simp add: enrollment_base_row_def demo_row_def entry_of_fence_def demo_fence_def)

lemma demo_load_desired:
  "load_desired_with_authority demo_api demo_time open_authority (lit ''home'') 0 (Inr (Inr (Some demo_row), Inr None))
     (lit ''p'') = Inr \<lparr>ld_state = Some demo_desired, ld_generation = Some (generation_of_fence demo_fence)\<rparr>"
  using demo_load [of undefined]
  by (simp add: mem_store_def graphql_pairing_state_store_def store_load_desired_def mem_queries_def
      split: sum.splits)

lemma agent_request_exchanged: "lit ''AgentRequest'' \<in> set client_to_runtime_collections"
  by (simp add: client_to_runtime_collections_def)

theorem enrolled_route_is_scoped_witness:
  "en_agent_did (entry_of_fence demo_fence) \<noteq> lit ''home'' \<and>
   map_of (pd_replicator_filter demo_desired) (lit ''AgentRequest'') \<noteq> None \<and>
   pd_replicator_collections demo_desired = bs_collect client_collections"
  using enrolled_route_is_scoped [OF demo_load_desired loaded_desired.select_convs(1) demo_entry demo_base_row]
    agent_request_exchanged by blast

lemma base_layer_returns:
  assumes "enrollment_base_row row e self_did = Some r"
    and "trim self_did = self_did" and "trim (en_agent_did e) \<noteq> []"
  shows "\<exists>b. layer_desired F e self_did (Some r) = Inr (Some b)"
proof -
  have r: "ps_agent_did r = Some self_did" "ps_source r = Some enrollment_source"
    "ps_template r = Some client_template"
    using assms(1) by (auto simp: enrollment_base_row_def split: if_splits)
  show ?thesis
    using assms(2,3)
    by (simp add: layer_desired_def data_plane_desired_from_pairing_row_def r opt_filter_def nonblank_def
        trim_demo_pairing client_template_def client_template_resolved template_of_def
        route_direction_of_row_def row_collections_def app_collections_template_def)
qed

lemma agent_config_resolved:
  "resolve_template (lit ''agent-config'') =
     Some (template_of ''agent-config'' agent_config_collections Unscoped Replicate)"
  by code_simp

lemma client_route_without_backends:
  "map_of (client_route_filters F RuntimeToClient r a) (lit ''InferenceBackend'') = None"
  "lit ''InferenceBackend'' \<notin> set client_collections"
  "lit ''InferenceBackend'' \<in> set agent_config_collections"
proof -
  show "lit ''InferenceBackend'' \<notin> set client_collections"
    "lit ''InferenceBackend'' \<in> set agent_config_collections"
    by (simp_all add: client_collections_def agent_config_collections_def lit_def)
  have "lit ''InferenceBackend'' \<notin> fst ` set (client_route_filters F RuntimeToClient r a)"
    unfolding client_route_filters_def keys_bt_collect
    by (auto simp: lit_def client_to_runtime_collections_def)
  then show "map_of (client_route_filters F RuntimeToClient r a) (lit ''InferenceBackend'') = None"
    by (simp add: map_of_eq_None_iff)
qed

text \<open>An overlay row reaches beyond application collections. A local data-plane row of the peer may
  name any template; with the template of the agent configuration, the route to the enrolled client
  replicates the provider credentials' collection \<open>InferenceBackend\<close> without any filter, although the
  client route leaves it out on purpose and overlays are meant for other collections only.\<close>

theorem overlay_replicates_backends:
  assumes "data_plane_materialized_entry TM en self_did now peer = Some (e, g)"
    and "enrollment_base_row row e self_did \<noteq> None"
    and "trim self_did = self_did" and "trim (en_agent_did e) \<noteq> []"
    and "ps_source overlay = Some s" and "trim s \<noteq> []" and "trim s \<noteq> enrollment_source"
    and "ps_template overlay = Some (lit ''agent-config'')"
  shows "\<exists>d. load_desired_with_authority F TM en self_did now (Inr (Inr (Some row), Inr (Some overlay))) peer =
      Inr \<lparr>ld_state = Some d, ld_generation = Some g\<rparr> \<and>
    lit ''InferenceBackend'' \<in> set (pd_replicator_collections d) \<and>
    map_of (pd_replicator_filter d) (lit ''InferenceBackend'') = None"
proof -
  obtain r where r: "enrollment_base_row row e self_did = Some r" using assms(2) by blast
  obtain b where b: "layer_desired F e self_did (Some r) = Inr (Some b)"
    using base_layer_returns [OF r assms(3,4)] by blast
  note b_is = base_layer [OF r b]
  have "nonblank (ps_template overlay) = Some (lit ''agent-config'')"
    by (simp add: assms(8) nonblank_def trim_demo_pairing)
  then have "layer_desired F e self_did (local_data_plane_row overlay e self_did) =
    Inr (Some \<lparr>pd_collections = [], pd_replicator_addresses = filter (\<lambda>a. a \<noteq> []) [trim (en_address e)],
      pd_replicator_collections = bs_collect agent_config_collections, pd_replicator_filter = [],
      pd_template_ids = [lit ''agent-config'']\<rparr>)"
    using assms(3,5-7)
    by (simp add: local_data_plane_row_def layer_desired_def data_plane_desired_from_pairing_row_def
        agent_config_resolved template_of_def route_direction_of_row_def row_collections_def
        data_plane_scope_requires_signed_peer_did_def data_plane_scope_filter_def
        app_collections_template_def opt_filter_def del: filter.simps)
  then show ?thesis
    using materialized_other [OF assms(1)]
    by (simp add: client_route_without_backends load_desired_with_authority_def layer_of_row_def assms(1) r b b_is merge_layered_desired_def
        bt_extend_def)
qed

definition demo_overlay :: pairing_state_row where
  "demo_overlay = demo_row\<lparr>ps_source := Some (lit ''operator''), ps_template := Some (lit ''agent-config'')\<rparr>"

theorem overlay_replicates_backends_witness:
  "\<exists>d. load_desired_with_authority demo_api demo_time open_authority (lit ''home'') 0
      (Inr (Inr (Some demo_row), Inr (Some demo_overlay))) (lit ''p'') =
      Inr \<lparr>ld_state = Some d, ld_generation = Some (generation_of_fence demo_fence)\<rparr> \<and>
    lit ''InferenceBackend'' \<in> set (pd_replicator_collections d) \<and>
    map_of (pd_replicator_filter d) (lit ''InferenceBackend'') = None"
  by (rule overlay_replicates_backends [OF demo_entry demo_base_row, where s = "lit ''operator''"])
    (simp_all add: trim_demo_pairing entry_of_fence_def demo_fence_def demo_overlay_def enrollment_source_def)

end
