(* ===== verification/Goal_State.thy ===== *)
theory Goal_State
  imports Request_State
begin

text \<open>
  The decisions about durable goals, from \<^verbatim>\<open>gents/src/goal.rs\<close>: the status of a goal and the actions on
  it, the continuation decision after a request of the session has ended, blocked audits, who may
  create a goal, the steps of an atomic submission and of a continuation, and the identities that are
  derived from names. \<open>i64\<close> values are integers with the saturation written out.
\<close>

section \<open>Vocabulary\<close>

definition i64_max :: int where
  "i64_max = 2 ^ 63 - 1"

definition sat_add :: "int \<Rightarrow> int \<Rightarrow> int" where
  "sat_add a b = max (- (2 ^ 63)) (min i64_max (a + b))"

datatype goal_status = GoalActive | GoalPaused | GoalBlocked | GoalUsageLimited | GoalBudgetLimited | GoalComplete

fun goal_as_str :: "goal_status \<Rightarrow> ustring" where
  "goal_as_str GoalActive = lit ''active''"
| "goal_as_str GoalPaused = lit ''paused''"
| "goal_as_str GoalBlocked = lit ''blocked''"
| "goal_as_str GoalUsageLimited = lit ''usage_limited''"
| "goal_as_str GoalBudgetLimited = lit ''budget_limited''"
| "goal_as_str GoalComplete = lit ''complete''"

definition goal_parse :: "ustring \<Rightarrow> goal_status option" where
  "goal_parse v =
     (let s = trim v in
      if s = lit ''active'' then Some GoalActive
      else if s = lit ''paused'' then Some GoalPaused
      else if s = lit ''blocked'' then Some GoalBlocked
      else if s = lit ''usage_limited'' \<or> s = lit ''usageLimited'' then Some GoalUsageLimited
      else if s = lit ''budget_limited'' \<or> s = lit ''budgetLimited'' then Some GoalBudgetLimited
      else if s = lit ''complete'' then Some GoalComplete
      else None)"

definition accrues_active_time :: "goal_status \<Rightarrow> bool" where
  "accrues_active_time s \<longleftrightarrow> s = GoalActive"

datatype goal_request_terminal = GtCompleted | GtFailed | GtDead | GtInterrupted | GtSuperseded

fun goal_terminal_from_state :: "request_state \<Rightarrow> goal_request_terminal option" where
  "goal_terminal_from_state ReqCompleted = Some GtCompleted"
| "goal_terminal_from_state ReqFailed = Some GtFailed"
| "goal_terminal_from_state ReqDead = Some GtDead"
| "goal_terminal_from_state ReqInterrupted = Some GtInterrupted"
| "goal_terminal_from_state ReqSuperseded = Some GtSuperseded"
| "goal_terminal_from_state _ = None"

definition goal_terminal_parse :: "ustring \<Rightarrow> goal_request_terminal option" where
  "goal_terminal_parse v =
     (case request_parse v of Inl _ \<Rightarrow> None | Inr st \<Rightarrow> goal_terminal_from_state st)"

definition blocked_audit_threshold :: int where
  "blocked_audit_threshold = 3"

definition max_infrastructure_retries :: int where
  "max_infrastructure_retries = 2"

section \<open>The state machine\<close>

datatype goal_audit_observation = SameRequest | SameCondition | NewCondition

datatype goal_action =
    Pause
  | Resume
  | Complete
  | BlockedAudit goal_audit_observation
  | OperatorBlock
  | UsageLimit
  | BudgetExhausted
  | WrapupFinished
  | WrapupAbandoned
  | CleanTurn

record goal_state =
  gs_status :: goal_status
  gs_blocked_audits :: int
  gs_wrapup_requested :: bool
  gs_wrapup_completed :: bool

fun audited :: "goal_audit_observation \<Rightarrow> int \<Rightarrow> int" where
  "audited SameRequest n = max n 0"
| "audited SameCondition n = sat_add (max n 0) 1"
| "audited NewCondition n = 1"

fun goal_step :: "goal_state \<Rightarrow> goal_action \<Rightarrow> goal_state option" where
  "goal_step s Pause =
     (if gs_status s = GoalActive then Some (s\<lparr>gs_status := GoalPaused\<rparr>) else None)"
| "goal_step s Resume =
     (if gs_status s \<in> {GoalPaused, GoalBlocked, GoalUsageLimited}
      then Some (s\<lparr>gs_status := GoalActive, gs_blocked_audits := 0\<rparr>) else None)"
| "goal_step s Complete =
     (if gs_status s \<noteq> GoalComplete
      then Some (s\<lparr>gs_status := GoalComplete, gs_wrapup_completed := True\<rparr>) else None)"
| "goal_step s (BlockedAudit obs) =
     (if gs_status s = GoalActive
      then let n = audited obs (gs_blocked_audits s) in
           Some (s\<lparr>gs_status := if blocked_audit_threshold \<le> n then GoalBlocked else GoalActive,
                   gs_blocked_audits := n\<rparr>)
      else None)"
| "goal_step s OperatorBlock =
     (if gs_status s = GoalActive then Some (s\<lparr>gs_status := GoalBlocked\<rparr>) else None)"
| "goal_step s UsageLimit =
     (if gs_status s = GoalActive then Some (s\<lparr>gs_status := GoalUsageLimited\<rparr>) else None)"
| "goal_step s BudgetExhausted =
     (if gs_status s = GoalActive \<and> \<not> gs_wrapup_requested s
      then Some (s\<lparr>gs_status := GoalBudgetLimited, gs_wrapup_requested := True\<rparr>) else None)"
| "goal_step s WrapupFinished =
     (if gs_status s = GoalBudgetLimited \<and> gs_wrapup_requested s \<and> \<not> gs_wrapup_completed s
      then Some (s\<lparr>gs_wrapup_completed := True\<rparr>) else None)"
| "goal_step s WrapupAbandoned =
     (if gs_status s = GoalBudgetLimited \<and> gs_wrapup_requested s \<and> \<not> gs_wrapup_completed s
      then Some (s\<lparr>gs_wrapup_completed := True\<rparr>) else None)"
| "goal_step s CleanTurn =
     (if gs_status s = GoalActive then Some (s\<lparr>gs_blocked_audits := 0\<rparr>) else None)"

definition next_blocked_audit ::
  "int \<Rightarrow> ustring option \<Rightarrow> ustring option \<Rightarrow> ustring \<Rightarrow> ustring \<Rightarrow> int \<times> bool" where
  "next_blocked_audit previous_count previous_reason previous_request_id reason request_id =
     (let obs = (if previous_request_id = Some request_id then SameRequest
                 else if previous_reason = Some reason then SameCondition
                 else NewCondition);
          s = \<lparr>gs_status = GoalActive, gs_blocked_audits = previous_count,
               gs_wrapup_requested = False, gs_wrapup_completed = False\<rparr>
      in case goal_step s (BlockedAudit obs) of
           Some s' \<Rightarrow> (gs_blocked_audits s', gs_status s' = GoalBlocked)
         | None \<Rightarrow> undefined)"

datatype goal_decision = GdNone | GdContinue | GdRetry | GdPause | GdWrapup | GdAbandonWrapup

definition decide_goal_continuation ::
  "goal_status \<Rightarrow> goal_request_terminal \<Rightarrow> bool \<Rightarrow> bool \<Rightarrow> bool \<Rightarrow> bool \<Rightarrow> bool \<Rightarrow> int \<Rightarrow> bool \<Rightarrow> bool \<Rightarrow>
   goal_decision" where
  "decide_goal_continuation status terminal session_idle child_exists budget_reached has_activity
     request_is_wrapup infrastructure_retries wrapup_requested wrapup_completed =
     (if \<not> session_idle \<or> child_exists then GdNone
      else case status of
          GoalActive \<Rightarrow>
            (case terminal of
               GtInterrupted \<Rightarrow> GdPause
             | GtSuperseded \<Rightarrow> GdPause
             | GtCompleted \<Rightarrow>
                 if \<not> has_activity then GdPause else if budget_reached then GdWrapup else GdContinue
             | _ \<Rightarrow> if max infrastructure_retries 0 < max_infrastructure_retries then GdRetry else GdPause)
        | GoalBudgetLimited \<Rightarrow>
            if \<not> wrapup_requested \<or> wrapup_completed then GdNone
            else if \<not> request_is_wrapup then GdWrapup
            else (case terminal of
                    GtCompleted \<Rightarrow> GdNone
                  | _ \<Rightarrow> if max infrastructure_retries 0 < max_infrastructure_retries then GdRetry
                        else GdAbandonWrapup)
        | _ \<Rightarrow> GdNone)"

definition operator_action_for_status :: "goal_status \<Rightarrow> goal_status \<Rightarrow> goal_action option" where
  "operator_action_for_status current target =
     (if current = target then None
      else Some (case target of
          GoalActive \<Rightarrow> Resume
        | GoalPaused \<Rightarrow> Pause
        | GoalBlocked \<Rightarrow> OperatorBlock
        | GoalUsageLimited \<Rightarrow> UsageLimit
        | GoalBudgetLimited \<Rightarrow> BudgetExhausted
        | GoalComplete \<Rightarrow> Complete))"

datatype goal_error =
    IllegalTransition goal_status goal_status
  | ObjectiveRequired
  | BudgetNotPositive
  | UnknownGoalStatus ustring
  | BudgetWithoutObjective
  | ObjectiveEmpty
  | GoalStorage ustring
  | GoalRowMissing

definition apply_operator_status_transition :: "goal_state \<Rightarrow> goal_status \<Rightarrow> goal_error + goal_state" where
  "apply_operator_status_transition s target =
     (case operator_action_for_status (gs_status s) target of
        None \<Rightarrow> Inr s
      | Some a \<Rightarrow> ok_or (IllegalTransition (gs_status s) target) (goal_step s a))"

section \<open>Creation\<close>

record goal_creation_fingerprint =
  fp_owner :: ustring
  fp_session :: ustring
  fp_objective :: ustring
  fp_token_budget :: "int option"

record goal_create_request =
  cq_caller :: ustring
  cq_current_session :: ustring
  cq_requested_owner :: ustring
  cq_requested_session :: ustring
  cq_objective :: ustring
  cq_objective_nonempty :: bool
  cq_token_budget :: "int option"
  cq_goal_tools :: bool
  cq_goal_create :: bool

datatype goal_create_disposition = CreateDenied | CreateInvalid | CreateFresh | CreateIdempotent | CreateConflict

definition goal_creation_fingerprint_of :: "goal_create_request \<Rightarrow> goal_creation_fingerprint" where
  "goal_creation_fingerprint_of q =
     \<lparr>fp_owner = cq_caller q, fp_session = cq_current_session q,
      fp_objective = trim (cq_objective q), fp_token_budget = cq_token_budget q\<rparr>"

definition decide_model_goal_create ::
  "goal_create_request \<Rightarrow> goal_creation_fingerprint option \<Rightarrow> goal_create_disposition" where
  "decide_model_goal_create q existing =
     (if \<not> cq_goal_tools q \<or> \<not> cq_goal_create q \<or> cq_requested_owner q \<noteq> cq_caller q \<or>
         cq_requested_session q \<noteq> cq_current_session q then CreateDenied
      else if \<not> cq_objective_nonempty q \<or> trim (cq_objective q) = [] \<or>
         (case cq_token_budget q of None \<Rightarrow> False | Some b \<Rightarrow> b \<le> 0 \<or> b > i64_max) then CreateInvalid
      else case existing of
          None \<Rightarrow> CreateFresh
        | Some fp \<Rightarrow> if fp = goal_creation_fingerprint_of q then CreateIdempotent else CreateConflict)"

definition owned_create_request :: "ustring \<Rightarrow> ustring \<Rightarrow> ustring \<Rightarrow> int option \<Rightarrow> goal_create_request" where
  "owned_create_request agent_did session_id objective token_budget =
     \<lparr>cq_caller = agent_did, cq_current_session = session_id, cq_requested_owner = agent_did,
      cq_requested_session = session_id, cq_objective = objective,
      cq_objective_nonempty = (objective \<noteq> []), cq_token_budget = token_budget,
      cq_goal_tools = True, cq_goal_create = True\<rparr>"

definition validate_task_goal_declaration :: "ustring option \<Rightarrow> int option \<Rightarrow> goal_error + unit" where
  "validate_task_goal_declaration objective token_budget =
     (case objective of
        None \<Rightarrow> if token_budget = None then Inr () else Inl BudgetWithoutObjective
      | Some ob \<Rightarrow>
          if trim ob = [] then Inl ObjectiveEmpty
          else (case token_budget of
                  Some b \<Rightarrow> if b \<le> 0 then Inl BudgetNotPositive else Inr ()
                | None \<Rightarrow> Inr ()))"

section \<open>Submission and continuation\<close>

record goal_submission_state =
  sb_durable_goal :: bool
  sb_runnable_request :: bool
  sb_staged_goal :: bool
  sb_staged_request :: bool

datatype goal_submission_action = StageGoal | StageRequest | Commit | Abort | Crash

fun goal_submission_step :: "goal_submission_state \<Rightarrow> goal_submission_action \<Rightarrow> goal_submission_state" where
  "goal_submission_step s StageGoal = s\<lparr>sb_staged_goal := True\<rparr>"
| "goal_submission_step s StageRequest =
     (if sb_staged_goal s \<or> sb_durable_goal s then s\<lparr>sb_staged_request := True\<rparr> else s)"
| "goal_submission_step s Commit =
     (if sb_staged_goal s \<and> sb_staged_request s
      then \<lparr>sb_durable_goal = True, sb_runnable_request = True, sb_staged_goal = False,
            sb_staged_request = False\<rparr>
      else s)"
| "goal_submission_step s Abort = s\<lparr>sb_staged_goal := False, sb_staged_request := False\<rparr>"
| "goal_submission_step s Crash = s\<lparr>sb_staged_goal := False, sb_staged_request := False\<rparr>"

datatype goal_continuation_phase = Unclaimed | Claimed | ChildPresent

datatype goal_continuation_action = ClaimOf bool | Materialize | ReconcileChild | CrashOf

definition goal_continuation_materialization_step ::
  "goal_continuation_phase \<Rightarrow> goal_continuation_action \<Rightarrow> goal_continuation_phase" where
  "goal_continuation_materialization_step phase action =
     (case (phase, action) of
        (Unclaimed, ClaimOf True) \<Rightarrow> Claimed
      | (Claimed, Materialize) \<Rightarrow> ChildPresent
      | (Claimed, ReconcileChild) \<Rightarrow> ChildPresent
      | _ \<Rightarrow> phase)"

section \<open>Identities\<close>

text \<open>Lengths are in bytes for a goal, in characters for a fire of a task.\<close>

definition deterministic_goal_id :: "ustring \<Rightarrow> ustring \<Rightarrow> ustring" where
  "deterministic_goal_id agent_did session_id =
     dec_of_nat (utf8_len agent_did) @ lit '':'' @ agent_did @ lit '':'' @ session_id"

definition deterministic_goal_creation_key :: "ustring \<Rightarrow> ustring \<Rightarrow> ustring" where
  "deterministic_goal_creation_key agent_did session_id =
     lit ''goal-create:'' @ dec_of_nat (utf8_len agent_did) @ lit '':'' @ agent_did @ lit '':'' @ session_id"

record task_goal_fire_identity =
  fi_session_id :: ustring
  fi_request_id :: ustring
  fi_retry_key :: ustring

definition task_goal_scope :: "ustring \<Rightarrow> ustring \<Rightarrow> ustring \<Rightarrow> ustring" where
  "task_goal_scope agent_did task_id fire_key =
     dec_of_nat (length agent_did) @ lit '':'' @ agent_did @ lit '':'' @
     dec_of_nat (length task_id) @ lit '':'' @ task_id @ lit '':'' @
     dec_of_nat (length fire_key) @ lit '':'' @ fire_key"

definition task_goal_fire_identity_of :: "ustring \<Rightarrow> ustring \<Rightarrow> ustring \<Rightarrow> task_goal_fire_identity" where
  "task_goal_fire_identity_of agent_did task_id fire_key =
     (let scope = task_goal_scope agent_did task_id fire_key in
      \<lparr>fi_session_id = lit ''task-goal-session:'' @ scope,
       fi_request_id = lit ''task-goal-request:'' @ scope,
       fi_retry_key = lit ''task-goal-retry:'' @ scope\<rparr>)"

record task_goal_request_binding =
  tb_agent_did :: ustring
  tb_behavior_id :: ustring
  tb_session_id :: ustring
  tb_request_id :: ustring
  tb_retry_key :: ustring

datatype task_goal_fire_recovery = FireAbsent | FireRecovered | FireConflict

record task_goal_fire_recovery_decision =
  fd_disposition :: task_goal_fire_recovery
  fd_recovered_request_id :: "ustring option"
  fd_checkpointable :: bool

definition decide_task_goal_fire_recovery ::
  "task_goal_request_binding \<Rightarrow> task_goal_request_binding option \<Rightarrow> task_goal_fire_recovery_decision" where
  "decide_task_goal_fire_recovery expected observed =
     (case observed of
        None \<Rightarrow> \<lparr>fd_disposition = FireAbsent, fd_recovered_request_id = None, fd_checkpointable = False\<rparr>
      | Some ob \<Rightarrow>
          if ob = expected
          then \<lparr>fd_disposition = FireRecovered, fd_recovered_request_id = Some (tb_request_id ob),
                fd_checkpointable = True\<rparr>
          else \<lparr>fd_disposition = FireConflict, fd_recovered_request_id = None, fd_checkpointable = False\<rparr>)"

section \<open>Facts\<close>

lemma trim_goal_words:
  "trim (goal_as_str s) = goal_as_str s"
  by (cases s) (simp_all add: trim_lit is_ws_def)

lemma goal_parse_as_str [simp]: "goal_parse (goal_as_str s) = Some s"
  unfolding goal_parse_def trim_goal_words Let_def by (cases s) simp_all

lemma goal_as_str_inject [simp]: "goal_as_str a = goal_as_str b \<longleftrightarrow> a = b"
  by (metis goal_parse_as_str option.inject)

lemma next_blocked_audit_eq:
  "next_blocked_audit n lr lq c q =
     (let m = audited (if lq = Some q then SameRequest else if lr = Some c then SameCondition else NewCondition) n
      in (m, blocked_audit_threshold \<le> m))"
  by (simp add: next_blocked_audit_def Let_def)

end
