(* ===== verification/Goal_Doc.thy ===== *)
theory Goal_Doc
  imports Goal_State Watcher Execution_Lease World_Act
begin

text \<open>
  The \<^verbatim>\<open>Goal\<close> documents of \<^verbatim>\<open>gents/src/goal.rs\<close> and the goal tools of \<^verbatim>\<open>hook/persistence/goal_tools.rs\<close>:
  loading, the operator's \<^verbatim>\<open>set_goal\<close>, conditional updates, claims of a continuation, usage, and what
  the tools \<^verbatim>\<open>get_goal\<close> and \<^verbatim>\<open>update_goal\<close> do to the goal (the tool-call records around them are those of
  the tool-call life cycle). A world is a database; before every call other tasks may act on it.
\<close>

section \<open>Calls\<close>

record 'db goal_env =
  ge_node :: "'db node"
  ge_others :: "'db \<Rightarrow> 'db"
  ge_clock :: "'db \<Rightarrow> instant"
  ge_time :: rfc3339
  ge_json :: json_reader
  ge_queue :: queue_reader
  ge_json_text :: "ustring \<Rightarrow> ustring"

text \<open>The last three are \<^verbatim>\<open>serde_json\<close>: reading JSON text and queue metadata, and a string as JSON text.\<close>

abbreviation GOAL :: string where
  "GOAL \<equiv> ''Goal''"

definition goal_query :: "'db goal_env \<Rightarrow> string \<Rightarrow> eq_filter \<Rightarrow> ('db, goal_error, (doc_id \<times> row) list) act" where
  "goal_query G c flt db =
     (let db = ge_others G db in
      case nd_query (ge_node G) c flt db of Inl e \<Rightarrow> (Inl (GoalStorage e), db) | Inr rows \<Rightarrow> (Inr rows, db))"

definition goal_update :: "'db goal_env \<Rightarrow> eq_filter \<Rightarrow> input \<Rightarrow> ('db, goal_error, bool) act" where
  "goal_update G flt inp db =
     (case nd_update (ge_node G) GOAL flt inp (ge_others G db) of
        (Inl e, db') \<Rightarrow> (Inl (GoalStorage e), db')
      | (Inr resp, db') \<Rightarrow> (Inr (update_hit GOAL resp), db'))"

definition goal_create :: "'db goal_env \<Rightarrow> string \<Rightarrow> input \<Rightarrow> ('db, goal_error, unit) act" where
  "goal_create G c inp db =
     (case nd_create (ge_node G) c inp (ge_others G db) of
        (Inl e, db') \<Rightarrow> (Inl (GoalStorage e), db')
      | (Inr resp, db') \<Rightarrow> (Inr (), db'))"

text \<open>\<^verbatim>\<open>Utc::now()\<close>, and its RFC 3339 text.\<close>

definition goal_now :: "'db goal_env \<Rightarrow> ('db, goal_error, instant) act" where
  "goal_now G db = (Inr (ge_clock G db), db)"

definition print_time :: "'db goal_env \<Rightarrow> instant \<Rightarrow> gval" where
  "print_time G t = GStr (rf_print (ge_time G) t)"

section \<open>Documents\<close>

record goal_document =
  gd_doc_id :: doc_id
  gd_goal_id :: ustring
  gd_session_id :: ustring
  gd_agent_did :: ustring
  gd_objective :: ustring
  gd_status :: ustring
  gd_token_budget :: "int option"
  gd_tokens_used :: "int option"
  gd_active_time_seconds :: "int option"
  gd_active_started_at :: "ustring option"
  gd_consecutive_blocked_audits :: "int option"
  gd_last_blocked_request_id :: "ustring option"
  gd_last_blocked_reason :: "ustring option"
  gd_last_continued_from_request_id :: "ustring option"
  gd_continuation_sequence :: "int option"
  gd_wrapup_requested :: "bool option"
  gd_wrapup_completed :: "bool option"
  gd_infrastructure_retry_count :: "int option"
  gd_last_failure :: "ustring option"
  gd_completion_evidence :: "ustring option"
  gd_created_at :: "ustring option"
  gd_updated_at :: "ustring option"

definition bool_field :: "row \<Rightarrow> string \<Rightarrow> bool option" where
  "bool_field r f = (case r f of Some (GBool b) \<Rightarrow> Some b | _ \<Rightarrow> None)"

definition or_default :: "'a \<Rightarrow> 'a option \<Rightarrow> 'a" where
  "or_default z x = (case x of None \<Rightarrow> z | Some v \<Rightarrow> v)"

definition goal_of_row :: "doc_id \<times> row \<Rightarrow> goal_document option" where
  "goal_of_row x =
     (case x of (d, r) \<Rightarrow>
        (case (str_field r ''goal_id'', str_field r ''session_id'', str_field r ''agent_did'') of
           (Some goal_id, Some session_id, Some agent_did) \<Rightarrow>
             Some \<lparr>gd_doc_id = d, gd_goal_id = goal_id, gd_session_id = session_id, gd_agent_did = agent_did,
               gd_objective = or_default [] (str_field r ''objective''),
               gd_status = or_default [] (str_field r ''status''),
               gd_token_budget = int_field r ''token_budget'',
               gd_tokens_used = int_field r ''tokens_used'',
               gd_active_time_seconds = int_field r ''active_time_seconds'',
               gd_active_started_at = str_field r ''active_started_at'',
               gd_consecutive_blocked_audits = int_field r ''consecutive_blocked_audits'',
               gd_last_blocked_request_id = str_field r ''last_blocked_request_id'',
               gd_last_blocked_reason = str_field r ''last_blocked_reason'',
               gd_last_continued_from_request_id = str_field r ''last_continued_from_request_id'',
               gd_continuation_sequence = int_field r ''continuation_sequence'',
               gd_wrapup_requested = bool_field r ''wrapup_requested'',
               gd_wrapup_completed = bool_field r ''wrapup_completed'',
               gd_infrastructure_retry_count = int_field r ''infrastructure_retry_count'',
               gd_last_failure = str_field r ''last_failure'',
               gd_completion_evidence = str_field r ''completion_evidence'',
               gd_created_at = str_field r ''created_at'',
               gd_updated_at = str_field r ''updated_at''\<rparr>
         | _ \<Rightarrow> None))"

definition parsed_status :: "goal_document \<Rightarrow> goal_status option" where
  "parsed_status g = goal_parse (gd_status g)"

definition goal_state_of :: "goal_document \<Rightarrow> goal_state option" where
  "goal_state_of g =
     map_option (\<lambda>st. \<lparr>gs_status = st,
         gs_blocked_audits = max (or_default 0 (gd_consecutive_blocked_audits g)) 0,
         gs_wrapup_requested = or_default False (gd_wrapup_requested g),
         gs_wrapup_completed = or_default False (gd_wrapup_completed g)\<rparr>)
       (parsed_status g)"

definition current_active_time_seconds :: "rfc3339 \<Rightarrow> goal_document \<Rightarrow> instant \<Rightarrow> int" where
  "current_active_time_seconds T g now =
     (let persisted = max (or_default 0 (gd_active_time_seconds g)) 0 in
      if parsed_status g \<noteq> Some GoalActive then persisted
      else sat_add persisted
             (case Option.bind (gd_active_started_at g) (rf_parse T) of
                None \<Rightarrow> 0
              | Some started \<Rightarrow> max ((now - started) div 1000000000) 0))"

definition continuation_sequence :: "goal_document \<Rightarrow> int" where
  "continuation_sequence g = max (or_default 0 (gd_continuation_sequence g)) 0"

definition sort_goals_canonical :: "goal_document list \<Rightarrow> goal_document list" where
  "sort_goals_canonical gs = sort_key (\<lambda>g. (gd_created_at g, gd_goal_id g, gd_doc_id g)) gs"

section \<open>Loading\<close>

definition decode_goal_rows :: "'db goal_env \<Rightarrow> eq_filter \<Rightarrow> ('db, goal_error, goal_document list) act" where
  "decode_goal_rows G flt =
     act_bind (goal_query G GOAL flt) (\<lambda>rows db.
       (ok_or (GoalStorage (lit ''decoding Goal rows'')) (those (map goal_of_row rows)), db))"

definition load_goals_for_session ::
  "'db goal_env \<Rightarrow> ustring \<Rightarrow> ustring \<Rightarrow> ('db, goal_error, goal_document list) act" where
  "load_goals_for_session G agent_did session_id =
     act_bind (decode_goal_rows G [(''agent_did'', Is (GStr agent_did)), (''session_id'', Is (GStr session_id))])
       (\<lambda>gs. act_return (sort_goals_canonical gs))"

definition load_canonical_goal ::
  "'db goal_env \<Rightarrow> ustring \<Rightarrow> ustring \<Rightarrow> ('db, goal_error, goal_document option) act" where
  "load_canonical_goal G agent_did session_id =
     act_bind (load_goals_for_session G agent_did session_id) (\<lambda>gs. act_return (first_of gs))"

definition load_goal_by_id ::
  "'db goal_env \<Rightarrow> ustring \<Rightarrow> ustring \<Rightarrow> ('db, goal_error, goal_document option) act" where
  "load_goal_by_id G agent_did goal_id =
     act_bind (decode_goal_rows G [(''agent_did'', Is (GStr agent_did)), (''goal_id'', Is (GStr goal_id))])
       (\<lambda>gs. act_return (first_of (sort_goals_canonical gs)))"

definition load_goal_by_doc_id :: "'db goal_env \<Rightarrow> doc_id \<Rightarrow> ('db, goal_error, goal_document option) act" where
  "load_goal_by_doc_id G d =
     act_bind (decode_goal_rows G [(''_docID'', Is (GStr d))]) (\<lambda>gs. act_return (first_of gs))"

text \<open>\<^verbatim>\<open>Option::context(..)?\<close>\<close>

definition present :: "'a option \<Rightarrow> ('db, goal_error, 'a) act" where
  "present x db = (ok_or GoalRowMissing x, db)"

section \<open>Updates\<close>

definition goal_filter :: "goal_document \<Rightarrow> eq_filter" where
  "goal_filter g = [(''_docID'', Is (GStr (gd_doc_id g))), (''agent_did'', Is (GStr (gd_agent_did g)))]"

definition update_goal_fields :: "'db goal_env \<Rightarrow> goal_document \<Rightarrow> input \<Rightarrow> ('db, goal_error, unit) act" where
  "update_goal_fields G g inp =
     act_bind (goal_update G (goal_filter g) inp) (\<lambda>_. act_return ())"

definition update_goal_fields_if_status ::
  "'db goal_env \<Rightarrow> goal_document \<Rightarrow> goal_status \<Rightarrow> input \<Rightarrow> ('db, goal_error, bool) act" where
  "update_goal_fields_if_status G g expected inp =
     goal_update G (goal_filter g @ [(''status'', Is (GStr (goal_as_str expected)))]) inp"

definition claim_filter :: "goal_document \<Rightarrow> eq_filter" where
  "claim_filter g = goal_filter g @
     [(''status'', Is (GStr (gd_status g))),
      (''continuation_sequence'', Is (GInt (continuation_sequence g)))]"

definition claim_continuation ::
  "'db goal_env \<Rightarrow> goal_document \<Rightarrow> ustring \<Rightarrow> ('db, goal_error, bool) act" where
  "claim_continuation G g parent_request_id =
     act_bind (goal_now G) (\<lambda>now.
       goal_update G (claim_filter g)
         [(''last_continued_from_request_id'', GStr parent_request_id),
          (''continuation_sequence'', GInt (sat_add (continuation_sequence g) 1)),
          (''updated_at'', print_time G now)])"

definition claim_retry_continuation ::
  "'db goal_env \<Rightarrow> goal_document \<Rightarrow> ustring \<Rightarrow> int \<Rightarrow> ustring \<Rightarrow> ('db, goal_error, bool) act" where
  "claim_retry_continuation G g parent_request_id retry_count failure =
     act_bind (goal_now G) (\<lambda>now.
       goal_update G (claim_filter g)
         [(''last_continued_from_request_id'', GStr parent_request_id),
          (''continuation_sequence'', GInt (sat_add (continuation_sequence g) 1)),
          (''infrastructure_retry_count'', GInt retry_count),
          (''last_failure'', GStr failure),
          (''updated_at'', print_time G now)])"

definition optional_int_field :: "string \<Rightarrow> int option \<Rightarrow> input" where
  "optional_int_field f v = [(f, case v of None \<Rightarrow> GNull | Some n \<Rightarrow> GInt n)]"

definition optional_string_field :: "string \<Rightarrow> ustring option \<Rightarrow> input" where
  "optional_string_field f v = [(f, case v of None \<Rightarrow> GNull | Some s \<Rightarrow> GStr s)]"

section \<open>The operator\<close>

definition set_goal_update ::
  "'db goal_env \<Rightarrow> instant \<Rightarrow> goal_document \<Rightarrow> goal_action option \<Rightarrow> goal_state \<Rightarrow> ustring \<Rightarrow> int option \<Rightarrow> input" where
  "set_goal_update G now g action post objective budget =
     [(''objective'', GStr objective), (''status'', GStr (goal_as_str (gs_status post)))] @
     optional_int_field ''token_budget'' budget @
     [(''tokens_used'', GInt (max (or_default 0 (gd_tokens_used g)) 0)),
      (''active_time_seconds'', GInt (current_active_time_seconds (ge_time G) g now))] @
     optional_string_field ''active_started_at''
       (if accrues_active_time (gs_status post) then Some (rf_print (ge_time G) now) else None) @
     [(''consecutive_blocked_audits'', GInt (gs_blocked_audits post)),
      (''wrapup_requested'', GBool (gs_wrapup_requested post)),
      (''wrapup_completed'', GBool (gs_wrapup_completed post))] @
     (if action = Some Resume
      then [(''last_blocked_request_id'', GNull), (''last_blocked_reason'', GNull), (''last_failure'', GNull),
            (''infrastructure_retry_count'', GInt 0), (''completion_evidence'', GNull)]
      else []) @
     [(''updated_at'', print_time G now)]"

definition new_goal_input ::
  "'db goal_env \<Rightarrow> instant \<Rightarrow> ustring \<Rightarrow> ustring \<Rightarrow> ustring option \<Rightarrow> ustring \<Rightarrow> int option \<Rightarrow> goal_state \<Rightarrow> input" where
  "new_goal_input G now agent_did session_id creation_key objective budget s =
     [(''goal_id'', GStr (deterministic_goal_id agent_did session_id))] @
     (case creation_key of None \<Rightarrow> [] | Some k \<Rightarrow> [(''creation_key'', GStr k)]) @
     [(''session_id'', GStr session_id), (''agent_did'', GStr agent_did), (''objective'', GStr objective),
      (''status'', GStr (goal_as_str (gs_status s)))] @
     optional_int_field ''token_budget'' budget @
     [(''tokens_used'', GInt 0), (''active_time_seconds'', GInt 0)] @
     optional_string_field ''active_started_at''
       (if accrues_active_time (gs_status s) then Some (rf_print (ge_time G) now) else None) @
     [(''consecutive_blocked_audits'', GInt (gs_blocked_audits s)), (''continuation_sequence'', GInt 0),
      (''wrapup_requested'', GBool (gs_wrapup_requested s)), (''wrapup_completed'', GBool (gs_wrapup_completed s)),
      (''infrastructure_retry_count'', GInt 0),
      (''created_at'', print_time G now), (''updated_at'', print_time G now)]"

definition initial_goal_state :: "goal_status \<Rightarrow> goal_state" where
  "initial_goal_state s =
     \<lparr>gs_status = s, gs_blocked_audits = (if s = GoalBlocked then blocked_audit_threshold else 0),
      gs_wrapup_requested = (s = GoalBudgetLimited), gs_wrapup_completed = (s = GoalComplete)\<rparr>"

text \<open>The budget argument distinguishes a budget that is left alone from one that is set or removed.\<close>

definition set_goal ::
  "'db goal_env \<Rightarrow> ustring \<Rightarrow> ustring \<Rightarrow> ustring option \<Rightarrow> goal_status option \<Rightarrow> int option option \<Rightarrow>
   ('db, goal_error, goal_document) act" where
  "set_goal G agent_did session_id objective status token_budget =
     act_bind (load_canonical_goal G agent_did session_id) (\<lambda>existing.
     act_bind (\<lambda>db. (ok_or ObjectiveRequired
         (or_else (opt_filter (\<lambda>s. s \<noteq> []) (map_option trim objective)) (map_option gd_objective existing)), db)) (\<lambda>ob.
       let st = or_default GoalActive (or_else status (Option.bind existing parsed_status));
           budget = or_default (Option.bind existing gd_token_budget) token_budget
       in if (case budget of None \<Rightarrow> False | Some b \<Rightarrow> b \<le> 0) then (\<lambda>db. (Inl BudgetNotPositive, db))
          else act_bind (goal_now G) (\<lambda>now.
            case existing of
              Some g \<Rightarrow>
                act_bind (\<lambda>db. (ok_or (UnknownGoalStatus (gd_status g)) (goal_state_of g), db)) (\<lambda>pre.
                act_bind (\<lambda>db. (apply_operator_status_transition pre st, db)) (\<lambda>post.
                act_bind (goal_update G
                    [(''_docID'', Is (GStr (gd_doc_id g))), (''agent_did'', Is (GStr agent_did))]
                    (set_goal_update G now g (operator_action_for_status (gs_status pre) st) post ob budget)) (\<lambda>_.
                act_bind (load_goal_by_doc_id G (gd_doc_id g)) present)))
            | None \<Rightarrow>
                act_bind (goal_create G GOAL
                    (new_goal_input G now agent_did session_id None ob budget (initial_goal_state st))) (\<lambda>_.
                act_bind (load_canonical_goal G agent_did session_id) present))))"

section \<open>Usage\<close>

definition u64_max :: int where
  "u64_max = 2 ^ 64 - 1"

definition charged_from_persisted_parts :: "int option \<Rightarrow> int option \<Rightarrow> goal_error + int option" where
  "charged_from_persisted_parts prompt completion =
     (case (prompt, completion) of
        (None, None) \<Rightarrow> Inr None
      | (Some p, Some c) \<Rightarrow>
          if p < 0 \<or> c < 0 then Inl (GoalStorage (lit ''negative usage'')) else Inr (Some (min u64_max (p + c)))
      | _ \<Rightarrow> Inl (GoalStorage (lit ''partial usage'')))"

fun sum_charged_from_persisted_parts :: "(int option \<times> int option) list \<Rightarrow> int \<Rightarrow> goal_error + int" where
  "sum_charged_from_persisted_parts [] acc = Inr acc"
| "sum_charged_from_persisted_parts ((p, c) # rows) acc =
     bind_res (charged_from_persisted_parts p c)
       (\<lambda>x. sum_charged_from_persisted_parts rows (min u64_max (acc + or_default 0 x)))"

definition session_token_usage :: "'db goal_env \<Rightarrow> ustring \<Rightarrow> ustring \<Rightarrow> ('db, goal_error, int) act" where
  "session_token_usage G agent_did session_id =
     act_bind (goal_query G AREQ [(''agent_did'', Is (GStr agent_did)), (''session_id'', Is (GStr session_id))])
       (\<lambda>rows.
         let ids = remdups_adj (sort (List.map_filter (\<lambda>(d, r). str_field r ''request_id'') rows)) in
         if ids = [] then act_return 0
         else act_bind (goal_query G ''InferenceCall''
                  [(''agent_did'', Is (GStr agent_did)), (''request_id'', OneOf (map GStr ids))])
                (\<lambda>calls db.
                  (case sum_charged_from_persisted_parts
                      (map (\<lambda>(d, r). (int_field r ''prompt_tokens'', int_field r ''completion_tokens'')) calls) 0 of
                     Inl e \<Rightarrow> Inl e
                   | Inr n \<Rightarrow> Inr (min n i64_max), db)))"

definition refresh_goal_usage :: "'db goal_env \<Rightarrow> goal_document \<Rightarrow> ('db, goal_error, int) act" where
  "refresh_goal_usage G g =
     act_bind (session_token_usage G (gd_agent_did g) (gd_session_id g)) (\<lambda>tokens.
     act_bind (goal_now G) (\<lambda>now.
     act_bind (update_goal_fields G g
         ([(''tokens_used'', GInt tokens),
           (''active_time_seconds'', GInt (current_active_time_seconds (ge_time G) g now))] @
          optional_string_field ''active_started_at''
            (if (case parsed_status g of None \<Rightarrow> False | Some s \<Rightarrow> accrues_active_time s)
             then Some (rf_print (ge_time G) now) else None) @
          [(''updated_at'', print_time G now)])) (\<lambda>_.
     act_return tokens)))"

section \<open>The tools\<close>

definition get_goal_call :: "'db goal_env \<Rightarrow> ustring \<Rightarrow> ustring \<Rightarrow> ('db, goal_error, goal_document option) act" where
  "get_goal_call G agent_did session_id =
     act_bind (load_canonical_goal G agent_did session_id) (\<lambda>found.
       case found of
         None \<Rightarrow> act_return None
       | Some g \<Rightarrow>
           act_bind (refresh_goal_usage G g) (\<lambda>_.
           act_bind (load_canonical_goal G agent_did session_id) (\<lambda>again.
             act_return (Some (or_default g again)))))"

datatype update_goal_outcome =
    NoDurableGoal
  | GoalStatusUnknown ustring
  | CompleteNotLegal
  | CompleteAccepted
  | BlockedNotLegal goal_status
  | BlockedWithoutReason
  | BlockedAnswer bool int
  | UnsupportedGoalStatus ustring

definition complete_fields :: "'db goal_env \<Rightarrow> instant \<Rightarrow> goal_document \<Rightarrow> goal_state \<Rightarrow> ustring option \<Rightarrow> input" where
  "complete_fields G now g post reason =
     [(''status'', GStr (goal_as_str (gs_status post))),
      (''active_time_seconds'', GInt (current_active_time_seconds (ge_time G) g now)),
      (''active_started_at'', GNull), (''wrapup_completed'', GBool (gs_wrapup_completed post)),
      (''last_failure'', GNull)] @
     optional_string_field ''completion_evidence'' (nonblank reason) @
     [(''updated_at'', print_time G now)]"

definition blocked_fields ::
  "'db goal_env \<Rightarrow> instant \<Rightarrow> goal_document \<Rightarrow> int \<Rightarrow> bool \<Rightarrow> ustring \<Rightarrow> ustring \<Rightarrow> input" where
  "blocked_fields G now g audits accepted request_id reason =
     [(''status'', GStr (goal_as_str (if accepted then GoalBlocked else GoalActive))),
      (''consecutive_blocked_audits'', GInt audits), (''last_blocked_request_id'', GStr request_id),
      (''last_blocked_reason'', GStr reason)] @
     (if accepted
      then [(''active_time_seconds'', GInt (current_active_time_seconds (ge_time G) g now)),
            (''active_started_at'', GNull)]
      else []) @
     [(''updated_at'', print_time G now)]"

definition update_goal_call ::
  "'db goal_env \<Rightarrow> ustring \<Rightarrow> ustring \<Rightarrow> ustring \<Rightarrow> ustring \<Rightarrow> ustring option \<Rightarrow>
   ('db, goal_error, update_goal_outcome) act" where
  "update_goal_call G agent_did session_id request_id status reason =
     act_bind (load_canonical_goal G agent_did session_id) (\<lambda>found.
       case found of
         None \<Rightarrow> act_return NoDurableGoal
       | Some g \<Rightarrow>
           act_bind (goal_now G) (\<lambda>now.
             case goal_state_of g of
               None \<Rightarrow> act_return (GoalStatusUnknown (gd_status g))
             | Some pre \<Rightarrow>
                 if trim status = lit ''complete''
                 then (case goal_step pre Complete of
                         None \<Rightarrow> act_return CompleteNotLegal
                       | Some post \<Rightarrow>
                           act_bind (update_goal_fields G g (complete_fields G now g post reason))
                             (\<lambda>_. act_return CompleteAccepted))
                 else if trim status = lit ''blocked''
                 then (if gs_status pre \<noteq> GoalActive then act_return (BlockedNotLegal (gs_status pre))
                       else case nonblank reason of
                           None \<Rightarrow> act_return BlockedWithoutReason
                         | Some why \<Rightarrow>
                             let (audits, accepted) =
                                   next_blocked_audit (or_default 0 (gd_consecutive_blocked_audits g))
                                     (gd_last_blocked_reason g) (gd_last_blocked_request_id g) why request_id
                             in act_bind (update_goal_fields G g (blocked_fields G now g audits accepted request_id why))
                                  (\<lambda>_. act_return (BlockedAnswer accepted audits)))
                 else act_return (UnsupportedGoalStatus (trim status))))"

end
