(* ===== verification/Goal_Props.thy ===== *)
theory Goal_Props
  imports Goal_Source
begin

text \<open>
  What the writers of a goal may do to it. \<open>goal_edge\<close> is one legal change of a goal's state,
  \<open>goals_move\<close> says that every well-formed goal of a store has gone along such changes, with its
  identity kept, its continuation counter not set back and its retries bounded. The controller is proved
  to do this whatever the other tasks do, as long as they do it too.
\<close>

section \<open>Legal changes of a goal\<close>

definition wf_goal :: "goal_state \<Rightarrow> bool" where
  "wf_goal s \<longleftrightarrow>
     (gs_status s = GoalBudgetLimited \<longrightarrow> gs_wrapup_requested s) \<and>
     (gs_wrapup_requested s \<longrightarrow> gs_status s \<in> {GoalBudgetLimited, GoalComplete}) \<and>
     (gs_wrapup_completed s \<longrightarrow> gs_status s \<in> {GoalBudgetLimited, GoalComplete}) \<and>
     (gs_status s = GoalComplete \<longrightarrow> gs_wrapup_completed s)"

text \<open>The controller also forgets the audits of a goal whose budget is exhausted, which is not a
  \<open>CleanTurn\<close> of the state machine.\<close>

inductive goal_edge :: "goal_state \<Rightarrow> goal_state \<Rightarrow> bool" where
  edge_step: "goal_step s a = Some s' \<Longrightarrow> goal_edge s s'"
| edge_forget: "gs_status s = GoalBudgetLimited \<Longrightarrow> goal_edge s (s\<lparr>gs_blocked_audits := 0\<rparr>)"

inductive_cases goal_edgeE: "goal_edge s s'"

lemma wf_goal_step: "goal_step s a = Some s' \<Longrightarrow> wf_goal s \<Longrightarrow> wf_goal s'"
  by (cases a) (auto simp: wf_goal_def Let_def split: if_splits)

lemma wf_goal_edge: "goal_edge s s' \<Longrightarrow> wf_goal s \<Longrightarrow> wf_goal s'"
  by (erule goal_edgeE, erule wf_goal_step, assumption) (simp add: wf_goal_def)

lemma wf_initial_goal [simp]: "wf_goal (initial_goal_state s)"
  by (simp add: wf_goal_def initial_goal_state_def)

lemma complete_edge: "goal_edge s s' \<Longrightarrow> gs_status s = GoalComplete \<Longrightarrow> s' = s"
proof (elim goal_edgeE)
  fix a
  assume "goal_step s a = Some s'" and "gs_status s = GoalComplete"
  then show "s' = s" by (cases a) (auto split: if_splits)
qed auto

lemma complete_edges: "goal_edge\<^sup>*\<^sup>* s s' \<Longrightarrow> gs_status s = GoalComplete \<Longrightarrow> s' = s"
  by (induction rule: rtranclp_induct) (auto dest: complete_edge)

section \<open>Legal changes of a goal's row\<close>

definition row_goal :: "row \<Rightarrow> goal_state option" where
  "row_goal r =
     map_option (\<lambda>st. \<lparr>gs_status = st,
         gs_blocked_audits = max (or_default 0 (int_field r ''consecutive_blocked_audits'')) 0,
         gs_wrapup_requested = or_default False (bool_field r ''wrapup_requested''),
         gs_wrapup_completed = or_default False (bool_field r ''wrapup_completed'')\<rparr>)
       (goal_parse (or_default [] (str_field r ''status'')))"

definition goal_sequence :: "row \<Rightarrow> int" where
  "goal_sequence r = max (or_default 0 (int_field r ''continuation_sequence'')) 0"

definition row_retries :: "row \<Rightarrow> int" where
  "row_retries r = or_default 0 (int_field r ''infrastructure_retry_count'')"

definition goal_row_ok :: "row \<Rightarrow> bool" where
  "goal_row_ok r \<longleftrightarrow>
     (case row_goal r of None \<Rightarrow> False | Some s \<Rightarrow> wf_goal s) \<and>
     goal_sequence r \<le> i64_max \<and> row_retries r \<le> max_infrastructure_retries"

definition goal_ids :: "string list" where
  "goal_ids = [''goal_id'', ''agent_did'', ''session_id'']"

text \<open>While the counter stands still, so does the parent the goal was last continued from.\<close>

definition goal_row_moves :: "row \<Rightarrow> row \<Rightarrow> bool" where
  "goal_row_moves r r' \<longleftrightarrow>
     (goal_row_ok r \<longrightarrow>
        goal_row_ok r' \<and> map r' goal_ids = map r goal_ids \<and>
        goal_edge\<^sup>*\<^sup>* (the (row_goal r)) (the (row_goal r')) \<and>
        goal_sequence r \<le> goal_sequence r' \<and>
        (goal_sequence r' = goal_sequence r \<longrightarrow> goal_sequence r < i64_max \<longrightarrow>
           r' ''last_continued_from_request_id'' = r ''last_continued_from_request_id''))"

definition goals_move :: "contents \<Rightarrow> contents \<Rightarrow> bool" where
  "goals_move v v' \<longleftrightarrow>
     (\<forall>d r. v GOAL d = Some r \<longrightarrow> (\<exists>r'. v' GOAL d = Some r' \<and> goal_row_moves r r'))"

lemma goal_row_moves_refl [simp]: "goal_row_moves r r"
  by (simp add: goal_row_moves_def)

lemma goal_row_moves_trans: "goal_row_moves r r' \<Longrightarrow> goal_row_moves r' r'' \<Longrightarrow> goal_row_moves r r''"
  unfolding goal_row_moves_def by (auto intro: rtranclp_trans)

lemma goals_move_refl [simp]: "goals_move v v"
  by (simp add: goals_move_def)

lemma goals_move_trans: "goals_move u v \<Longrightarrow> goals_move v w \<Longrightarrow> goals_move u w"
  unfolding goals_move_def using goal_row_moves_trans by blast

lemma goals_move_row:
  assumes "goals_move v v'" and "v GOAL d = Some r"
  obtains r' where "v' GOAL d = Some r'" "goal_row_moves r r'"
  using assms unfolding goals_move_def by blast

lemma goals_move_updated:
  assumes "\<And>d r. row_matches flt d r \<Longrightarrow> goal_row_moves r (apply_input inp r)"
  shows "goals_move v (updated GOAL flt inp v)"
  using assms by (auto simp: goals_move_def updated_def)

lemma goals_move_added:
  assumes "v c d = None"
  shows "goals_move v (added c d inp v)"
  using assms by (auto simp: goals_move_def added_def)

section \<open>Writes\<close>

text \<open>Fields that are no part of what \<open>goals_move\<close> speaks of.\<close>

definition goal_fields :: "string list" where
  "goal_fields = goal_ids @ [''status'', ''consecutive_blocked_audits'', ''wrapup_requested'', ''wrapup_completed'',
     ''continuation_sequence'', ''infrastructure_retry_count'', ''last_continued_from_request_id'']"

lemma goal_row_moves_other:
  assumes "\<And>f. f \<in> set goal_fields \<Longrightarrow> r' f = r f"
  shows "goal_row_moves r r'"
proof -
  have "row_goal r' = row_goal r" "goal_sequence r' = goal_sequence r" "row_retries r' = row_retries r"
    by (simp_all add: row_goal_def goal_sequence_def row_retries_def int_field_def bool_field_def str_field_def
        assms goal_fields_def)
  then show ?thesis
    by (simp add: goal_row_moves_def goal_row_ok_def goal_ids_def assms goal_fields_def)
qed

lemma goal_row_moves_apply_other:
  "list_all (\<lambda>f. f \<notin> set goal_fields) (map fst inp) \<Longrightarrow> goal_row_moves r (apply_input inp r)"
  by (rule goal_row_moves_other, rule apply_input_other) (auto simp: list_all_iff)

lemma goal_row_moves_touch:
  "f \<notin> set goal_fields \<Longrightarrow> goal_row_moves r r' \<Longrightarrow> goal_row_moves r (r'(f \<mapsto> v))"
  by (erule goal_row_moves_trans) (rule goal_row_moves_other, auto)

lemmas goal_fields_simps = goal_fields_def goal_ids_def

text \<open>A write of the state that leaves the counter and the identity alone, and at most resets the retries.\<close>

lemma goal_row_moves_state:
  assumes "\<And>f. f \<in> set goal_ids \<union> {''continuation_sequence'', ''last_continued_from_request_id''} \<Longrightarrow> r' f = r f"
    and "r' ''infrastructure_retry_count'' \<in> {r ''infrastructure_retry_count'', Some (GInt 0)}"
    and "\<And>s. row_goal r = Some s \<Longrightarrow> wf_goal s \<Longrightarrow> \<exists>s'. row_goal r' = Some s' \<and> goal_edge\<^sup>*\<^sup>* s s'"
  shows "goal_row_moves r r'"
proof -
  have same: "goal_sequence r' = goal_sequence r" "map r' goal_ids = map r goal_ids"
    by (simp_all add: goal_sequence_def int_field_def assms(1) goal_ids_def)
  have retries: "row_retries r' \<in> {row_retries r, 0}"
    using assms(2) by (auto simp: row_retries_def int_field_def or_default_def)
  have wf: "wf_goal s \<Longrightarrow> wf_goal s'" if "goal_edge\<^sup>*\<^sup>* s s'" for s s'
    using that by (induction rule: rtranclp_induct) (auto intro: wf_goal_edge)
  show ?thesis
    unfolding goal_row_moves_def
  proof (intro impI conjI)
    assume ok: "goal_row_ok r"
    then obtain s where s: "row_goal r = Some s" "wf_goal s"
      by (auto simp: goal_row_ok_def split: option.splits)
    with assms(3) obtain s' where s': "row_goal r' = Some s'" "goal_edge\<^sup>*\<^sup>* s s'" by blast
    with ok wf s retries show "goal_row_ok r'" by (auto simp: goal_row_ok_def same max_infrastructure_retries_def)
    from s s' show "goal_edge\<^sup>*\<^sup>* (the (row_goal r)) (the (row_goal r'))" by simp
  qed (simp_all add: same assms(1))
qed

lemma status_text: "r ''status'' = Some (GStr (goal_as_str st)) \<Longrightarrow> row_goal r = Some s \<Longrightarrow> gs_status s = st"
  by (auto simp: row_goal_def str_field_def or_default_def)

lemmas row_goal_simps = row_goal_def str_field_def int_field_def bool_field_def or_default_def

text \<open>The writes of the controller, each on a row that has the expected status.\<close>

lemma stop_moves:
  assumes "r ''status'' = Some (GStr (goal_as_str GoalActive))" and "st \<in> {GoalPaused, GoalUsageLimited}"
  shows "goal_row_moves r (apply_input (stop_fields G g now st reason) r)"
proof (rule goal_row_moves_state)
  fix s
  assume s: "row_goal r = Some s"
  have "goal_edge s (s\<lparr>gs_status := st\<rparr>)"
    using assms(2) status_text [OF assms(1) s]
    by (auto intro: edge_step [of _ Pause] edge_step [of _ UsageLimit])
  moreover have "row_goal (apply_input (stop_fields G g now st reason) r) = Some (s\<lparr>gs_status := st\<rparr>)"
    using s assms by (auto simp: stop_fields_def row_goal_simps)
  ultimately show "\<exists>s'. row_goal (apply_input (stop_fields G g now st reason) r) = Some s' \<and> goal_edge\<^sup>*\<^sup>* s s'"
    by auto
qed (auto simp: stop_fields_def goal_ids_def)

lemma wrapup_completed_moves:
  assumes "r ''status'' = Some (GStr (goal_as_str GoalBudgetLimited))"
  shows "goal_row_moves r (r(''wrapup_completed'' \<mapsto> GBool True))"
proof (rule goal_row_moves_state)
  fix s
  assume s: "row_goal r = Some s" "wf_goal s"
  note st = status_text [OF assms s(1)]
  have "goal_edge\<^sup>*\<^sup>* s (s\<lparr>gs_wrapup_completed := True\<rparr>)"
  proof (cases "gs_wrapup_completed s")
    case True
    then have "s\<lparr>gs_wrapup_completed := True\<rparr> = s" by (cases s) simp
    then show ?thesis by simp
  next
    case False
    with s st show ?thesis
      by (intro r_into_rtranclp edge_step [of _ WrapupFinished]) (simp add: wf_goal_def)
  qed
  moreover have "row_goal (r(''wrapup_completed'' \<mapsto> GBool True)) = Some (s\<lparr>gs_wrapup_completed := True\<rparr>)"
    using s assms by (auto simp: row_goal_simps)
  ultimately show "\<exists>s'. row_goal (r(''wrapup_completed'' \<mapsto> GBool True)) = Some s' \<and> goal_edge\<^sup>*\<^sup>* s s'"
    by auto
qed (auto simp: goal_ids_def)

lemma audits_reset_moves:
  assumes "r ''status'' = Some (GStr (goal_as_str st))" and "st \<in> {GoalActive, GoalBudgetLimited}"
  shows "goal_row_moves r (r(''consecutive_blocked_audits'' \<mapsto> GInt 0))"
proof (rule goal_row_moves_state)
  fix s
  assume s: "row_goal r = Some s"
  have "goal_edge s (s\<lparr>gs_blocked_audits := 0\<rparr>)"
    using assms(2) status_text [OF assms(1) s]
    by (auto intro: edge_step [of _ CleanTurn] edge_forget)
  moreover have "row_goal (r(''consecutive_blocked_audits'' \<mapsto> GInt 0)) = Some (s\<lparr>gs_blocked_audits := 0\<rparr>)"
    using s assms by (auto simp: row_goal_simps)
  ultimately show "\<exists>s'. row_goal (r(''consecutive_blocked_audits'' \<mapsto> GInt 0)) = Some s' \<and> goal_edge\<^sup>*\<^sup>* s s'"
    by auto
qed (auto simp: goal_ids_def)

lemma budget_limited_moves:
  assumes "r ''status'' = Some (GStr (goal_as_str GoalActive))"
  shows "goal_row_moves r (r(''status'' \<mapsto> GStr (lit ''budget_limited''), ''wrapup_requested'' \<mapsto> GBool True))"
    (is "goal_row_moves r ?r'")
proof (rule goal_row_moves_state)
  fix s
  assume s: "row_goal r = Some s" "wf_goal s"
  have "goal_edge s (s\<lparr>gs_status := GoalBudgetLimited, gs_wrapup_requested := True\<rparr>)"
    using s(2) status_text [OF assms s(1)]
    by (intro edge_step [of _ BudgetExhausted]) (auto simp: wf_goal_def)
  moreover have "goal_parse (lit ''budget_limited'') = Some GoalBudgetLimited"
    using goal_parse_as_str [of GoalBudgetLimited] by simp
  then have "row_goal ?r' = Some (s\<lparr>gs_status := GoalBudgetLimited, gs_wrapup_requested := True\<rparr>)"
    using s assms by (auto simp: row_goal_simps)
  ultimately show "\<exists>s'. row_goal ?r' = Some s' \<and> goal_edge\<^sup>*\<^sup>* s s'"
    by auto
qed (auto simp: goal_ids_def)

text \<open>A write that leaves the state and the identity alone.\<close>

lemma goal_row_moves_counters:
  assumes "\<And>f. f \<in> set goal_ids \<union> {''status'', ''consecutive_blocked_audits'', ''wrapup_requested'',
      ''wrapup_completed''} \<Longrightarrow> r' f = r f"
    and "goal_sequence r \<le> i64_max \<Longrightarrow> goal_sequence r \<le> goal_sequence r' \<and> goal_sequence r' \<le> i64_max"
    and "row_retries r \<le> max_infrastructure_retries \<Longrightarrow> row_retries r' \<le> max_infrastructure_retries"
    and "goal_sequence r' = goal_sequence r \<Longrightarrow> goal_sequence r < i64_max \<Longrightarrow>
      r' ''last_continued_from_request_id'' = r ''last_continued_from_request_id''"
  shows "goal_row_moves r r'"
proof -
  have "row_goal r' = row_goal r" "map r' goal_ids = map r goal_ids"
    by (simp_all add: row_goal_simps assms(1) goal_ids_def)
  with assms(2-) show ?thesis
    unfolding goal_row_moves_def goal_row_ok_def by simp
qed

lemma retries_reset_moves: "goal_row_moves r (r(''infrastructure_retry_count'' \<mapsto> GInt 0))"
  by (rule goal_row_moves_counters)
    (auto simp: goal_sequence_def row_retries_def int_field_def or_default_def goal_ids_def max_infrastructure_retries_def)

lemma sat_add_1: "0 \<le> n \<Longrightarrow> sat_add n 1 = min i64_max (n + 1)"
  by (simp add: sat_add_def i64_max_def)

lemma claim_moves:
  assumes "r ''continuation_sequence'' = Some (GInt n)" and "0 \<le> n" and "c \<le> max_infrastructure_retries"
  shows "goal_row_moves r (r(''last_continued_from_request_id'' \<mapsto> GStr p,
      ''continuation_sequence'' \<mapsto> GInt (sat_add n 1)))" (is "goal_row_moves r ?r1")
    and "goal_row_moves r (r(''last_continued_from_request_id'' \<mapsto> GStr p,
      ''continuation_sequence'' \<mapsto> GInt (sat_add n 1), ''infrastructure_retry_count'' \<mapsto> GInt c))"
      (is "goal_row_moves r ?r2")
proof -
  have "0 \<le> i64_max" by (simp add: i64_max_def)
  with assms have n: "goal_sequence r = n" "goal_sequence ?r1 = min i64_max (n + 1)" "goal_sequence ?r2 = min i64_max (n + 1)"
    by (simp_all add: goal_sequence_def int_field_def or_default_def sat_add_1)
  have q: "row_retries ?r1 = row_retries r" "row_retries ?r2 = c"
    by (simp_all add: row_retries_def int_field_def or_default_def)
  show "goal_row_moves r ?r1"
    by (rule goal_row_moves_counters, unfold n q) (auto simp: goal_ids_def)
  show "goal_row_moves r ?r2"
    by (rule goal_row_moves_counters, unfold n q) (use assms(3) in \<open>auto simp: goal_ids_def\<close>)
qed

section \<open>The controller\<close>

definition goals_kept :: "('db \<Rightarrow> contents) \<Rightarrow> ('db, 'e, 'a) act \<Rightarrow> bool" where
  "goals_kept view m \<longleftrightarrow> keeps (\<lambda>db db'. goals_move (view db) (view db')) m"

named_theorems kept

lemma kept_pure [kept]: "goals_kept view (\<lambda>db. (x db, db))"
  by (simp add: goals_kept_def keeps_def)

lemma kept_return [kept]: "goals_kept view (act_return x)"
  by (simp add: goals_kept_def keeps_def act_return_def)

lemma kept_bind [kept]:
  assumes "goals_kept view m" and "\<And>x. goals_kept view (f x)"
  shows "goals_kept view (act_bind m f)"
  using assms unfolding goals_kept_def
  by (intro keeps_bind) (auto simp: transp_def intro: goals_move_trans)

lemma kept_bind_result:
  assumes "goals_kept view m" and "\<And>db x db'. m db = (Inr x, db') \<Longrightarrow> goals_kept view (f x)"
  shows "goals_kept view (act_bind m f)"
  unfolding goals_kept_def keeps_def
proof (intro allI impI)
  fix db x db''
  assume run: "act_bind m f db = (x, db'')"
  obtain y db' where m: "m db = (y, db')" by force
  from assms(1) m have first: "goals_move (view db) (view db')" by (auto simp: goals_kept_def keeps_def)
  show "goals_move (view db) (view db'')"
  proof (cases y)
    case Inl
    with run m first show ?thesis by (simp add: act_bind_def)
  next
    case (Inr z)
    with run m have "f z db' = (x, db'')" by (simp add: act_bind_def)
    with assms(2) m Inr have "goals_move (view db') (view db'')" by (auto simp: goals_kept_def keeps_def)
    with first show ?thesis by (rule goals_move_trans)
  qed
qed

lemma kept_if [kept]:
  "(b \<Longrightarrow> goals_kept view m) \<Longrightarrow> (\<not> b \<Longrightarrow> goals_kept view n) \<Longrightarrow> goals_kept view (if b then m else n)"
  by simp

lemma kept_option [kept]:
  "(x = None \<Longrightarrow> goals_kept view m) \<Longrightarrow> (\<And>y. x = Some y \<Longrightarrow> goals_kept view (f y)) \<Longrightarrow>
   goals_kept view (case x of None \<Rightarrow> m | Some y \<Rightarrow> f y)"
  by (cases x) auto

lemma kept_ok:
  assumes "\<And>x. y = Some x \<Longrightarrow> goals_kept view (f x)"
  shows "goals_kept view (act_bind (\<lambda>db. (ok_or e y, db)) f)"
proof (cases y)
  case None
  then show ?thesis by (auto simp: goals_kept_def keeps_def act_simps ok_or_def)
next
  case (Some x)
  then have "act_bind (\<lambda>db. (ok_or e y, db)) f = f x" by (auto simp: fun_eq_iff act_simps ok_or_def)
  with assms Some show ?thesis by simp
qed

lemma kept_run: "goals_kept view m \<Longrightarrow> m db = (x, db') \<Longrightarrow> goals_move (view db) (view db')"
  unfolding goals_kept_def by (rule keeps_run)

lemma kept_now [kept]: "goals_kept view (goal_now G)"
  by (simp add: goals_kept_def keeps_def goal_now_def)

lemma kept_present [kept]: "goals_kept view (present x)"
  by (simp add: goals_kept_def keeps_def present_def)

text \<open>What the decision says about the status, and the retries of a goal that is handed on.\<close>

lemma decision_status:
  assumes "decide_goal_continuation st t i ch b a w n wr wc = dec"
  shows "dec = GdPause \<Longrightarrow> st = GoalActive" and "dec = GdAbandonWrapup \<Longrightarrow> st = GoalBudgetLimited"
    and "dec \<noteq> GdNone \<Longrightarrow> st \<in> {GoalActive, GoalBudgetLimited}"
    and "dec = GdRetry \<Longrightarrow> n < max_infrastructure_retries"
  using assms
  by (auto simp: decide_goal_continuation_def split: goal_status.splits goal_request_terminal.splits if_splits)

lemma act_on_decision_retries:
  assumes "act_on_decision G g st t tn dec db = (Inr (Some (g', pre)), db')"
    and "dec = GdRetry \<Longrightarrow> or_default 0 (gd_infrastructure_retry_count g) < max_infrastructure_retries"
  shows "dec = GdRetry \<Longrightarrow> or_default 0 (gd_infrastructure_retry_count g') \<le> max_infrastructure_retries"
    and "dec \<notin> {GdNone, GdPause, GdAbandonWrapup}"
  using assms
  by (auto simp: act_on_decision_def act_simps Let_def or_default_def sat_add_def i64_max_def max_infrastructure_retries_def
      split: goal_decision.splits prod.splits sum.splits if_splits option.splits)

lemma clean_audits_retries:
  "clean_audits G g st t q db = (Inr (Some g'), db') \<Longrightarrow>
   gd_infrastructure_retry_count g' = gd_infrastructure_retry_count g"
  by (auto simp: clean_audits_def act_simps split: prod.splits sum.splits if_splits)

lemma request_wrapup_retries:
  "request_wrapup G g st w db = (Inr (Some g'), db') \<Longrightarrow>
   gd_infrastructure_retry_count g' = gd_infrastructure_retry_count g"
  by (auto simp: request_wrapup_def act_simps split: prod.splits sum.splits if_splits)

text \<open>The interface of a goal's writers: a store with the laws of \<open>defra\<close>, where what other tasks do
  between two calls is legal.\<close>

locale goal_store = defra "ge_node G" view
  for G :: "'db goal_env" and view :: "'db \<Rightarrow> contents" +
  assumes others_move: "goals_move (view db) (view (ge_others G db))"
begin

lemma kept_query [kept]: "goals_kept view (goal_query G c flt)"
  by (auto simp: goals_kept_def keeps_def goal_query_def Let_def others_move split: sum.splits)

lemma kept_update:
  assumes "\<And>d r. row_matches flt d r \<Longrightarrow> goal_row_moves r (apply_input inp r)"
  shows "goals_kept view (goal_update G flt inp)"
  unfolding goals_kept_def keeps_def
proof (intro allI impI)
  fix db x db'
  assume "goal_update G flt inp db = (x, db')"
  then obtain y where "nd_update (ge_node G) GOAL flt inp (ge_others G db) = (y, db')"
    by (auto simp: goal_update_def split: prod.splits sum.splits)
  from update_view [OF this] have "goals_move (view (ge_others G db)) (view db')"
    using goals_move_updated [OF assms] by auto
  with others_move show "goals_move (view db) (view db')" by (rule goals_move_trans)
qed

lemma kept_update_if_status:
  assumes "\<And>r. r ''status'' = Some (GStr (goal_as_str st)) \<Longrightarrow> goal_row_moves r (apply_input inp r)"
  shows "goals_kept view (update_goal_fields_if_status G g st inp)"
  unfolding update_goal_fields_if_status_def
  by (rule kept_update, rule assms) (simp add: goal_filter_def)

lemma kept_guarded_write:
  assumes "\<And>r. r ''status'' = Some (GStr (goal_as_str st)) \<Longrightarrow> goal_row_moves r (apply_input inp r)"
  shows "goals_kept view (guarded_write G g st inp)"
  unfolding guarded_write_def
proof (intro kept kept_update_if_status)
  fix now r
  assume "r ''status'' = Some (GStr (goal_as_str st))"
  from assms [of r, OF this] show "goal_row_moves r (apply_input (inp @ [(''updated_at'', print_time G now)]) r)"
    unfolding apply_input_append
    by (rule goal_row_moves_trans) (rule goal_row_moves_apply_other, simp add: goal_fields_simps)
qed

lemma kept_decode [kept]: "goals_kept view (decode_goal_rows G flt)"
  unfolding decode_goal_rows_def by (intro kept)

lemma kept_session_usage [kept]: "goals_kept view (session_token_usage G a s)"
  unfolding session_token_usage_def Let_def
  by (intro kept)

lemma kept_refresh [kept]: "goals_kept view (refresh_goal_usage G g)"
  unfolding refresh_goal_usage_def update_goal_fields_def
  by (intro kept kept_update goal_row_moves_apply_other)
    (simp add: optional_string_field_def goal_fields_simps)

lemma kept_loads [kept]:
  "goals_kept view (load_goals_for_session G a s)"
  "goals_kept view (load_goal_by_id G a i)"
  "goals_kept view (load_candidate_goals G a)"
  "goals_kept view (latest_request_when_session_idle G g)"
  "goals_kept view (continuation_child_exists G g p)"
  "goals_kept view (request_usage_limit_failure G q)"
  unfolding load_goals_for_session_def load_goal_by_id_def load_candidate_goals_def
    latest_request_when_session_idle_def continuation_child_exists_def request_usage_limit_failure_def
  by (intro kept)+

lemma kept_activity [kept]: "goals_kept view (request_has_activity G q)"
  by (simp add: goals_kept_def keeps_def request_has_activity_def Let_def others_move)

lemma kept_pause [kept]: "goals_kept view (pause_goal G g GoalActive reason)"
  unfolding pause_goal_def by (intro kept kept_update_if_status stop_moves) auto

lemma kept_claims:
  assumes "c \<le> max_infrastructure_retries"
  shows "goals_kept view (claim_continuation G g p)" and "goals_kept view (claim_retry_continuation G g p c why)"
proof -
  have moves: "goal_row_moves r (r(''last_continued_from_request_id'' \<mapsto> GStr p,
        ''continuation_sequence'' \<mapsto> GInt (sat_add (continuation_sequence g) 1)))"
      "goal_row_moves r (r(''last_continued_from_request_id'' \<mapsto> GStr p,
        ''continuation_sequence'' \<mapsto> GInt (sat_add (continuation_sequence g) 1),
        ''infrastructure_retry_count'' \<mapsto> GInt c))"
    if "row_matches (claim_filter g) d r" for d r
    using that claim_moves [of r "continuation_sequence g" c p] assms
    by (simp_all add: claim_filter_def goal_filter_def continuation_sequence_def)
  show "goals_kept view (claim_continuation G g p)"
    unfolding claim_continuation_def
    by (intro kept kept_update) (simp add: goal_row_moves_touch moves goal_fields_simps)
  show "goals_kept view (claim_retry_continuation G g p c why)"
    unfolding claim_retry_continuation_def
    by (intro kept kept_update) (simp add: goal_row_moves_touch moves goal_fields_simps)
qed

lemma kept_materialize [kept]: "goals_kept view (materialize_claimed_continuation G g q pre w ph)"
  unfolding materialize_claimed_continuation_def by (intro kept)

lemma kept_early [kept]: "goals_kept view (early_ending G g st q t w)"
proof -
  have stop: "goals_kept view (update_goal_fields_if_status G g GoalActive (stop_fields G g now (gs_status post) reason))"
    if "Option.bind (goal_state_of g) (\<lambda>s. goal_step s UsageLimit) = Some post" for now post reason
    using that by (intro kept_update_if_status stop_moves) (auto simp: bind_eq_Some_conv split: if_splits)
  have wrap: "goals_kept view (guarded_write G g GoalBudgetLimited
      [(''wrapup_completed'', GBool True), (''infrastructure_retry_count'', GInt 0), (''active_started_at'', GNull)])"
    by (rule kept_guarded_write)
      (simp add: goal_row_moves_touch goal_row_moves_trans [OF wrapup_completed_moves retries_reset_moves] goal_fields_simps)
  show ?thesis
    unfolding early_ending_def
    apply (rule kept_bind)
     apply (intro kept)
    apply (rule kept_option)
     apply (intro kept wrap)
    apply (rule kept_ok)
    apply (intro kept stop)
    apply assumption
    done
qed

lemma kept_decision:
  assumes "dec = GdPause \<Longrightarrow> st = GoalActive" and "dec = GdAbandonWrapup \<Longrightarrow> st = GoalBudgetLimited"
  shows "goals_kept view (act_on_decision G g st t tn dec)"
proof -
  have abandon: "goals_kept view (guarded_write G g GoalBudgetLimited
      [(''wrapup_completed'', GBool True), (''last_failure'', why)])" for why
    by (rule kept_guarded_write)
      (simp add: goal_row_moves_touch wrapup_completed_moves goal_fields_simps)
  have reset: "goals_kept view (guarded_write G g st [(''infrastructure_retry_count'', GInt 0), (''last_failure'', GNull)])"
    by (rule kept_guarded_write)
      (simp add: goal_row_moves_touch retries_reset_moves goal_fields_simps)
  show ?thesis
    using assms unfolding act_on_decision_def
    by (cases dec) (auto simp: Let_def intro!: kept kept_bind [OF abandon] kept_bind [OF reset])
qed

lemma kept_clean_audits:
  assumes "st \<in> {GoalActive, GoalBudgetLimited}"
  shows "goals_kept view (clean_audits G g st t q)"
proof -
  have "goals_kept view (guarded_write G g st
      [(''consecutive_blocked_audits'', GInt 0), (''last_blocked_request_id'', GNull), (''last_blocked_reason'', GNull)])"
    by (rule kept_guarded_write)
      (simp add: goal_row_moves_touch audits_reset_moves [OF _ assms] goal_fields_simps)
  then show ?thesis
    unfolding clean_audits_def by (intro kept)
qed

lemma kept_request_wrapup: "goals_kept view (request_wrapup G g st w)"
  unfolding request_wrapup_def
  by (intro kept kept_update_if_status) (simp add: goal_row_moves_touch budget_limited_moves goal_fields_simps)

lemma kept_claim_and_materialize:
  assumes "dec = GdRetry \<Longrightarrow> or_default 0 (gd_infrastructure_retry_count g) \<le> max_infrastructure_retries"
  shows "goals_kept view (claim_and_materialize G g q tn dec pre w)"
  unfolding claim_and_materialize_def Let_def
proof (rule kept_bind)
  have "0 \<le> max_infrastructure_retries" by (simp add: max_infrastructure_retries_def)
  then show "goals_kept view (if dec = GdRetry
      then claim_retry_continuation G g (rw_request_id q) (or_default 0 (gd_infrastructure_retry_count g)) tn
      else claim_continuation G g (rw_request_id q))"
    using assms by (auto intro: kept_claims)
qed (intro kept)

lemma kept_after_decision:
  assumes st: "dec \<noteq> GdNone \<Longrightarrow> st \<in> {GoalActive, GoalBudgetLimited}"
    and retry: "dec = GdRetry \<Longrightarrow> or_default 0 (gd_infrastructure_retry_count g) < max_infrastructure_retries"
    and run: "act_on_decision G g st t tn dec db = (Inr (Some (g', pre)), db')"
  shows "goals_kept view (act_bind (clean_audits G g' st t (rw_request_id q)) (\<lambda>go. case go of
        None \<Rightarrow> act_return None
      | Some g \<Rightarrow> act_bind (request_wrapup G g st w) (\<lambda>go. case go of
            None \<Rightarrow> act_return None
          | Some g \<Rightarrow> claim_and_materialize G g q tn dec pre w)))"
proof -
  note r = act_on_decision_retries [OF run retry]
  have "st \<in> {GoalActive, GoalBudgetLimited}" using r(2) st by blast
  then show ?thesis
    by (intro kept_bind_result kept_clean_audits)
      (auto intro!: kept kept_bind_result kept_request_wrapup kept_claim_and_materialize
        simp: clean_audits_retries request_wrapup_retries r(1) split: option.split)
qed

lemma kept_continue_goal [kept]: "goals_kept view (continue_goal G g q t tn rw ha n)"
  unfolding continue_goal_def Let_def
proof (rule kept_ok, rule kept_bind_result, goal_cases)
  case (1 st)
  show ?case
    using decision_status(1,2) by (rule kept_decision) blast+
next
  case (2 st db x db')
  show ?case
  proof (cases x)
    case None
    then show ?thesis by (simp add: kept_return)
  next
    case (Some y)
    obtain g' pre where "y = (g', pre)" by force
    with 2(2) Some show ?thesis
      by (simp only: option.case prod.case) (rule kept_after_decision [OF decision_status(3) [OF refl] decision_status(4) [OF refl]])
  qed
qed

lemma kept_build_intent [kept]: "goals_kept view (build_intent G g)"
proof -
  have "0 \<le> max_infrastructure_retries" by (simp add: max_infrastructure_retries_def)
  note claim = kept_claims(1) [OF this]
  have "goals_kept view (continue_canonical G g q ts t)" for q ts t
    unfolding continue_canonical_def decide_unclaimed_def resume_claimed_def Let_def
    by (intro kept claim)
  moreover have "goals_kept view (pause_duplicate G g)"
    unfolding pause_duplicate_def by (intro kept)
  ultimately show ?thesis
    unfolding build_intent_def
    by (intro kept) (auto intro!: kept split: list.split option.split)
qed

lemma scan_moves: "goals_move (view db) (view (snd (scan_goals G gs db)))"
proof (induction gs arbitrary: db)
  case (Cons g gs)
  obtain x db' where b: "build_intent G g db = (x, db')" by force
  have "goals_move (view db) (view db')"
    using kept_build_intent b by (rule kept_run)
  with Cons [of db'] show ?case
    using b by (auto split: sum.split option.split intro: goals_move_trans)
qed simp

lemma rescan_moves: "goals_move (view db) (view (snd (rescan G a db)))"
proof -
  obtain x db' where l: "load_candidate_goals G a db = (x, db')" by force
  have "goals_move (view db) (view db')"
    using kept_loads(3) l by (rule kept_run)
  with l scan_moves [of db'] show ?thesis
    by (auto simp: rescan_def split: sum.split intro: goals_move_trans)
qed

end

end
