(* ===== verification/Goal_Alone.thy ===== *)
theory Goal_Alone
  imports Goal_Props Session_Queue
begin

text \<open>
  The operator's \<^verbatim>\<open>set_goal\<close> and the model's \<^verbatim>\<open>update_goal\<close> read a goal, decide, and write it back with no
  condition on its status. Here they run alone: nothing happens between the read and the write, and then
  what they write is a legal change too.
\<close>

section \<open>Rows and what is read of them\<close>

lemma goal_of_row_state: "goal_of_row (d, r) = Some g \<Longrightarrow> goal_state_of g = row_goal r"
  by (auto simp: goal_of_row_def goal_state_of_def parsed_status_def row_goal_def split: option.splits)

lemma goal_of_row_fields:
  assumes "goal_of_row (d, r) = Some g"
  shows "gd_doc_id g = d" "continuation_sequence g = goal_sequence r"
    "gd_consecutive_blocked_audits g = int_field r ''consecutive_blocked_audits''"
    "gd_last_continued_from_request_id g = str_field r ''last_continued_from_request_id''"
    "str_field r ''agent_did'' = Some (gd_agent_did g)" "str_field r ''goal_id'' = Some (gd_goal_id g)"
  using assms by (auto simp: goal_of_row_def continuation_sequence_def goal_sequence_def split: option.splits)

lemma first_of_member: "first_of xs = Some x \<Longrightarrow> x \<in> set xs"
  by (cases xs) auto

definition goals_ok :: "contents \<Rightarrow> bool" where
  "goals_ok v \<longleftrightarrow> (\<forall>d r. v GOAL d = Some r \<longrightarrow> goal_row_ok r)"

section \<open>The operator's and the model's writes\<close>

lemma goal_parse_lits [simp]:
  "goal_parse (lit ''active'') = Some GoalActive"
  "goal_parse (lit ''blocked'') = Some GoalBlocked"
  "goal_parse (lit ''complete'') = Some GoalComplete"
  using goal_parse_as_str [of GoalActive] goal_parse_as_str [of GoalBlocked] goal_parse_as_str [of GoalComplete]
  by simp_all

text \<open>A row whose state is written as a whole.\<close>

lemma row_goal_written:
  assumes "r ''status'' = Some (GStr (goal_as_str (gs_status s)))"
    and "r ''consecutive_blocked_audits'' = Some (GInt (gs_blocked_audits s))" and "0 \<le> gs_blocked_audits s"
    and "r ''wrapup_requested'' = Some (GBool (gs_wrapup_requested s))"
    and "r ''wrapup_completed'' = Some (GBool (gs_wrapup_completed s))"
  shows "row_goal r = Some s"
  using assms by (simp add: row_goal_simps)

lemma complete_moves:
  assumes "row_goal r = Some pre" and "goal_step pre Complete = Some post"
  shows "goal_row_moves r (apply_input (complete_fields G now g post why) r)" (is "goal_row_moves r ?r'")
proof (rule goal_row_moves_state)
  fix s
  assume "row_goal r = Some s"
  with assms(1) have s: "s = pre" by simp
  have "row_goal ?r' = Some post"
    using assms by (auto simp: complete_fields_def optional_string_field_def row_goal_simps split: if_splits)
  then show "\<exists>s'. row_goal ?r' = Some s' \<and> goal_edge\<^sup>*\<^sup>* s s'"
    unfolding s using edge_step [OF assms(2)] by auto
qed (auto simp: complete_fields_def optional_string_field_def goal_ids_def)

lemma blocked_moves:
  assumes "row_goal r = Some pre" and "gs_status pre = GoalActive"
    and "next_blocked_audit (or_default 0 (int_field r ''consecutive_blocked_audits'')) lr lq why q = (n, accepted)"
  shows "goal_row_moves r (apply_input (blocked_fields G now g n accepted q why) r)" (is "goal_row_moves r ?r'")
proof (rule goal_row_moves_state)
  fix s
  assume "row_goal r = Some s"
  with assms(1) have s: "s = pre" by simp
  let ?obs = "if lq = Some q then SameRequest else if lr = Some why then SameCondition else NewCondition"
  from assms(1) have audits: "gs_blocked_audits pre = max (or_default 0 (int_field r ''consecutive_blocked_audits'')) 0"
    by (auto simp: row_goal_def)
  from assms(3) have n: "n = audited ?obs (gs_blocked_audits pre)" "accepted \<longleftrightarrow> blocked_audit_threshold \<le> n" "0 \<le> n"
    by (auto simp: next_blocked_audit_eq Let_def audits sat_add_def i64_max_def)
  let ?post = "pre\<lparr>gs_status := if accepted then GoalBlocked else GoalActive, gs_blocked_audits := n\<rparr>"
  have "goal_step pre (BlockedAudit ?obs) = Some ?post"
    using assms(2) by (simp only: goal_step.simps Let_def n(1,2) simp_thms if_True)
  moreover have "row_goal ?r' = Some ?post"
    using assms(1) n(3) by (auto simp: blocked_fields_def row_goal_simps)
  ultimately show "\<exists>s'. row_goal ?r' = Some s' \<and> goal_edge\<^sup>*\<^sup>* s s'"
    unfolding s using edge_step by blast
qed (auto simp: blocked_fields_def goal_ids_def)

lemma audits_nonneg: "row_goal r = Some s \<Longrightarrow> 0 \<le> gs_blocked_audits s"
  by (auto simp: row_goal_def)

lemma audited_nonneg: "0 \<le> audited obs n"
  by (cases obs) (simp_all add: sat_add_def i64_max_def)

lemma step_audits_nonneg: "goal_step s a = Some s' \<Longrightarrow> 0 \<le> gs_blocked_audits s \<Longrightarrow> 0 \<le> gs_blocked_audits s'"
  using audited_nonneg by (cases a) (auto simp: Let_def split: if_splits)

lemma set_goal_moves:
  assumes "row_goal r = Some pre" and "apply_operator_status_transition pre st = Inr post"
  shows "goal_row_moves r (apply_input
    (set_goal_update G now g (operator_action_for_status (gs_status pre) st) post ob b) r)"
    (is "goal_row_moves r ?r'")
proof (rule goal_row_moves_state)
  fix s
  assume "row_goal r = Some s"
  with assms(1) have s: "s = pre" by simp
  have edge: "goal_edge\<^sup>*\<^sup>* pre post" and nonneg: "0 \<le> gs_blocked_audits post"
    using assms audits_nonneg step_audits_nonneg
    by (auto simp: apply_operator_status_transition_def ok_or_def split: option.splits intro: edge_step)
  have "row_goal ?r' = Some post"
    by (rule row_goal_written)
      (simp_all add: set_goal_update_def optional_int_field_def optional_string_field_def nonneg)
  with edge show "\<exists>s'. row_goal ?r' = Some s' \<and> goal_edge\<^sup>*\<^sup>* s s'"
    unfolding s by blast
next
  show "?r' ''infrastructure_retry_count'' \<in> {r ''infrastructure_retry_count'', Some (GInt 0)}"
    by (simp add: set_goal_update_def optional_int_field_def optional_string_field_def)
next
  fix f
  assume "f \<in> set goal_ids \<union> {''continuation_sequence'', ''last_continued_from_request_id''}"
  then show "?r' f = r f"
    by (intro apply_input_other)
      (auto simp: goal_ids_def set_goal_update_def optional_int_field_def optional_string_field_def)
qed

lemma new_goal_ok: "goal_row_ok (apply_input (new_goal_input G now a ss k ob b (initial_goal_state st)) Map.empty)"
  (is "goal_row_ok ?r")
proof -
  have "row_goal ?r = Some (initial_goal_state st)"
    by (rule row_goal_written)
      (simp_all add: new_goal_input_def optional_int_field_def optional_string_field_def,
       simp add: initial_goal_state_def blocked_audit_threshold_def)
  then show ?thesis
    by (simp add: goal_row_ok_def)
      (simp add: new_goal_input_def goal_sequence_def row_retries_def int_field_def or_default_def i64_max_def
        max_infrastructure_retries_def)
qed

section \<open>Loaded goals are rows of the store\<close>

context defra
begin

lemma decoded_goal:
  assumes "ge_node G = N" and "decode_goal_rows G flt db = (Inr gs, db')" and "g \<in> set gs"
  shows "db' = ge_others G db \<and>
    (\<exists>r. view db' GOAL (gd_doc_id g) = Some r \<and> goal_of_row (gd_doc_id g, r) = Some g \<and> row_matches flt (gd_doc_id g) r)"
proof -
  from assms obtain rows where rows: "nd_query N GOAL flt db' = Inr rows"
    and gs: "those (map goal_of_row rows) = Some gs" and db': "db' = ge_others G db"
    by (auto simp: decode_goal_rows_def goal_query_def act_simps Let_def ok_or_def split: sum.splits option.splits)
  from assms(3) have "Some g \<in> set (map goal_of_row rows)"
    using those_member [OF gs] by auto
  then obtain d r where x: "(d, r) \<in> set rows" "goal_of_row (d, r) = Some g"
    by auto
  from query_rows [OF rows] x(1) have "view db' GOAL d = Some r" "row_matches flt d r" by auto
  with x(2) goal_of_row_fields(1) [OF x(2)] db' show ?thesis by blast
qed

end

section \<open>Alone\<close>

locale goal_alone = defra "ge_node G" view
  for G :: "'db goal_env" and view :: "'db \<Rightarrow> contents" +
  assumes alone: "ge_others G db = db"

sublocale goal_alone \<subseteq> goal_store
  by unfold_locales (simp add: alone)

context goal_alone
begin

lemma loaded_goal:
  assumes "load_canonical_goal G a s db = (Inr (Some g), db')"
  shows "db' = db \<and> (\<exists>r. view db GOAL (gd_doc_id g) = Some r \<and> goal_of_row (gd_doc_id g, r) = Some g \<and>
    gd_agent_did g = a)"
proof -
  from assms obtain gs where gs: "decode_goal_rows G [(''agent_did'', Is (GStr a)), (''session_id'', Is (GStr s))] db = (Inr gs, db')"
    and g: "first_of (sort_goals_canonical gs) = Some g"
    by (auto simp: load_canonical_goal_def load_goals_for_session_def act_simps split: sum.splits prod.splits)
  from g have "g \<in> set gs"
    by (auto simp: sort_goals_canonical_def dest: first_of_member)
  from decoded_goal [OF refl gs this] show ?thesis
    using goal_of_row_fields(5) by (fastforce simp: alone str_field_def)
qed

lemma load_pure: "load_canonical_goal G a s db = (x, db') \<Longrightarrow> db' = db"
  by (auto simp: load_canonical_goal_def load_goals_for_session_def decode_goal_rows_def goal_query_def act_simps
      Let_def alone split: sum.splits prod.splits)

lemma update_row_moves:
  assumes "goal_update G flt inp db = (x, db')"
    and "\<And>d r. view db GOAL d = Some r \<Longrightarrow> row_matches flt d r \<Longrightarrow> goal_row_moves r (apply_input inp r)"
  shows "goals_move (view db) (view db')"
proof -
  from assms(1) obtain y where "nd_update (ge_node G) GOAL flt inp db = (y, db')"
    by (auto simp: goal_update_def alone split: prod.splits sum.splits)
  from update_view [OF this] assms(2) show ?thesis
    by (auto simp: goals_move_def updated_def)
qed

lemma write_loaded_moves:
  assumes "update_goal_fields G g inp db = (x, db')" and "view db GOAL (gd_doc_id g) = Some r"
    and "goal_row_moves r (apply_input inp r)"
  shows "goals_move (view db) (view db')"
proof -
  from assms(1) obtain y where "goal_update G (goal_filter g) inp db = (y, db')"
    by (auto simp: update_goal_fields_def act_simps split: prod.splits sum.splits)
  then show ?thesis
    by (rule update_row_moves) (use assms(2,3) in \<open>auto simp: goal_filter_def\<close>)
qed

lemma update_goal_moves:
  assumes "update_goal_call G a s q status why db = (x, db')"
  shows "goals_move (view db) (view db')"
proof -
  obtain y db1 where l: "load_canonical_goal G a s db = (y, db1)" by force
  with load_pure have db1: "db1 = db" by blast
  consider (none) "db' = db"
    | (complete) g pre post where "y = Inr (Some g)" "goal_state_of g = Some pre" "goal_step pre Complete = Some post"
        "snd (update_goal_fields G g (complete_fields G (ge_clock G db) g post why) db) = db'"
    | (blocked) g pre why' n ok where "y = Inr (Some g)" "goal_state_of g = Some pre" "gs_status pre = GoalActive"
        "next_blocked_audit (or_default 0 (gd_consecutive_blocked_audits g)) (gd_last_blocked_reason g)
           (gd_last_blocked_request_id g) why' q = (n, ok)"
        "snd (update_goal_fields G g (blocked_fields G (ge_clock G db) g n ok q why') db) = db'"
    using assms l db1
    by (auto simp: update_goal_call_def act_simps goal_now_def split: sum.splits option.splits if_splits prod.splits)
  then show ?thesis
  proof cases
    case none
    then show ?thesis by simp
  next
    case complete
    with l loaded_goal db1 obtain r where r: "view db GOAL (gd_doc_id g) = Some r" "goal_of_row (gd_doc_id g, r) = Some g"
      by blast
    with complete complete_moves goal_of_row_state [OF r(2)] show ?thesis
      by (metis prod.collapse write_loaded_moves)
  next
    case blocked
    with l loaded_goal db1 obtain r where r: "view db GOAL (gd_doc_id g) = Some r" "goal_of_row (gd_doc_id g, r) = Some g"
      by blast
    with blocked blocked_moves goal_of_row_state [OF r(2)] goal_of_row_fields(3) [OF r(2)] show ?thesis
      by (metis prod.collapse write_loaded_moves)
  qed
qed

lemma doc_load_pure: "load_goal_by_doc_id G d db = (x, db') \<Longrightarrow> db' = db"
  by (auto simp: load_goal_by_doc_id_def decode_goal_rows_def goal_query_def act_simps
      Let_def alone split: sum.splits prod.splits)

lemma create_goal_moves:
  assumes "goal_create G GOAL inp db = (x, db')" and "goal_row_ok (apply_input inp Map.empty)"
  shows "goals_move (view db) (view db') \<and> (goals_ok (view db) \<longrightarrow> goals_ok (view db'))"
proof -
  from assms(1) obtain y where "nd_create (ge_node G) GOAL inp db = (y, db')"
    by (auto simp: goal_create_def alone split: prod.splits sum.splits)
  from create_view [OF this] show ?thesis
    using goals_move_added assms(2) by (auto simp: goals_ok_def added_def split: if_splits)
qed

lemma goals_move_ok: "goals_move v v' \<Longrightarrow> (\<And>d. v' GOAL d \<noteq> None \<Longrightarrow> v GOAL d \<noteq> None) \<Longrightarrow> goals_ok v \<Longrightarrow> goals_ok v'"
  unfolding goals_move_def goals_ok_def goal_row_moves_def by (metis not_None_eq option.inject)

lemma update_goal_rows:
  assumes "goal_update G flt inp db = (x, db')" and "view db' GOAL d \<noteq> None"
  shows "view db GOAL d \<noteq> None"
proof -
  from assms(1) obtain y where "nd_update (ge_node G) GOAL flt inp db = (y, db')"
    by (auto simp: goal_update_def alone split: prod.splits sum.splits)
  from update_view [OF this] assms(2) show ?thesis by (auto simp: updated_def)
qed

lemma set_goal_legal:
  assumes "set_goal G a s ob st b db = (x, db')"
  shows "goals_move (view db) (view db') \<and> (goals_ok (view db) \<longrightarrow> goals_ok (view db'))"
proof -
  obtain y db1 where l: "load_canonical_goal G a s db = (y, db1)" by force
  with load_pure have db1: "db1 = db" by blast
  consider (none) "db' = db"
    | (update) g pre post st' now ob' b' z where "y = Inr (Some g)" "goal_state_of g = Some pre"
        "apply_operator_status_transition pre st' = Inr post"
        "goal_update G [(''_docID'', Is (GStr (gd_doc_id g))), (''agent_did'', Is (GStr a))]
           (set_goal_update G now g (operator_action_for_status (gs_status pre) st') post ob' b') db = (z, db')"
    | (create) now ob' b' st' z where
        "goal_create G GOAL (new_goal_input G now a s None ob' b' (initial_goal_state st')) db = (z, db')"
    using assms l db1
    by (auto simp: set_goal_def act_simps goal_now_def Let_def ok_or_def present_def dest!: load_pure doc_load_pure
        split: sum.splits option.splits if_splits prod.splits)
  then show ?thesis
  proof cases
    case none
    then show ?thesis by simp
  next
    case update
    with l loaded_goal db1 obtain r where r: "view db GOAL (gd_doc_id g) = Some r" "goal_of_row (gd_doc_id g, r) = Some g"
      by blast
    have "goals_move (view db) (view db')"
      using update(4)
    proof (rule update_row_moves)
      fix d q
      assume "view db GOAL d = Some q"
        and "row_matches [(''_docID'', Is (GStr (gd_doc_id g))), (''agent_did'', Is (GStr a))] d q"
      with r(1) have "q = r" by simp
      with set_goal_moves update(2,3) goal_of_row_state [OF r(2)]
      show "goal_row_moves q (apply_input
          (set_goal_update G now g (operator_action_for_status (gs_status pre) st') post ob' b') q)"
        by simp
    qed
    with update_goal_rows [OF update(4)] goals_move_ok show ?thesis by blast
  next
    case create
    then show ?thesis by (rule create_goal_moves) (rule new_goal_ok)
  qed
qed

end

end
