(* ===== verification/Goal_Continuation.thy ===== *)
theory Goal_Continuation
  imports Goal_Alone
begin

text \<open>
  The runs of the controller that hand a continuation over: which reads they end with, and what these
  have seen.
\<close>

section \<open>Runs of the controller that continue a goal\<close>

definition same_goal :: "goal_document \<Rightarrow> goal_document \<Rightarrow> bool" where
  "same_goal g g' \<longleftrightarrow> gd_goal_id g' = gd_goal_id g \<and> gd_agent_did g' = gd_agent_did g"

definition same_session :: "goal_document \<Rightarrow> goal_document \<Rightarrow> bool" where
  "same_session g g' \<longleftrightarrow> same_goal g g' \<and> gd_session_id g' = gd_session_id g"

text \<open>A goal document as the store holds it.\<close>

definition stored_goal :: "contents \<Rightarrow> goal_document \<Rightarrow> bool" where
  "stored_goal v g \<longleftrightarrow> (\<exists>r. v GOAL (gd_doc_id g) = Some r \<and> goal_of_row (gd_doc_id g, r) = Some g)"

text \<open>The goal a pass works on: the document it was given, or the document a read by the same goal id returned,
  with changed counters; the session is always the one of that document.\<close>

definition worked_on :: "'db goal_env \<Rightarrow> ('db \<Rightarrow> contents) \<Rightarrow> goal_document \<Rightarrow> goal_document \<Rightarrow> bool" where
  "worked_on G view g g' \<longleftrightarrow> same_session g g' \<or>
     (\<exists>h db1 db2. load_goal_by_id G (gd_agent_did g) (gd_goal_id g) db1 = (Inr (Some h), db2) \<and>
        stored_goal (view db2) h \<and> same_goal g h \<and> same_session h g')"

lemma decision_same_session:
  "act_on_decision G g st t tn dec db = (Inr (Some (g', pre)), db') \<Longrightarrow> same_session g g'"
  by (auto simp: act_on_decision_def act_simps Let_def same_session_def same_goal_def
      split: goal_decision.splits prod.splits sum.splits if_splits)

lemma clean_same_session: "clean_audits G g st t q db = (Inr (Some g'), db') \<Longrightarrow> same_session g g'"
  by (auto simp: clean_audits_def act_simps same_session_def same_goal_def split: prod.splits sum.splits if_splits)

lemma wrapup_same_session: "request_wrapup G g st w db = (Inr (Some g'), db') \<Longrightarrow> same_session g g'"
  by (auto simp: request_wrapup_def act_simps same_session_def same_goal_def split: prod.splits sum.splits if_splits)

lemma same_session_trans: "same_session a b \<Longrightarrow> same_session b c \<Longrightarrow> same_session a c"
  by (simp add: same_session_def same_goal_def)

lemma claim_materializes:
  assumes "claim_and_materialize G g q tn dec pre w db = (Inr (Some c), db')"
  shows "\<exists>ph db1. materialize_claimed_continuation G g q pre w ph db1 = (Inr (Some c), db')"
  using assms unfolding claim_and_materialize_def Let_def
  by (elim act_bindE) (auto simp: act_simps split: if_splits)

lemma bind_goE:
  assumes "act_bind m (\<lambda>go. case go of None \<Rightarrow> act_return None | Some x \<Rightarrow> f x) db = (Inr (Some c), db')"
  obtains x db1 where "m db = (Inr (Some x), db1)" "f x db1 = (Inr (Some c), db')"
  using assms by (elim act_bindE) (auto simp: act_return_def split: option.splits)

lemma continue_materializes:
  assumes "continue_goal G g q t tn rw ha n db = (Inr (Some c), db')"
  shows "\<exists>g' pre w ph db1. same_session g g' \<and> materialize_claimed_continuation G g' q pre w ph db1 = (Inr (Some c), db')"
  using assms unfolding continue_goal_def Let_def
proof (elim act_bindE [where m = "\<lambda>db. (_, db)"] bind_goE, goal_cases)
  let ?dec = "\<lambda>st. decide_goal_continuation st t True False
    (case gd_token_budget g of None \<Rightarrow> False | Some b \<Rightarrow> b \<le> n) ha rw (or_default 0 (gd_infrastructure_retry_count g))
    (or_default False (gd_wrapup_requested g)) (or_default False (gd_wrapup_completed g))"
  case (1 st db1 x db2)
  obtain g1 pre where x: "x = (g1, pre)" by force
  show ?case
    using 1(3) unfolding x prod.case
  proof (elim bind_goE)
    fix g2 db3 g3 db4
    assume c: "clean_audits G g1 st t (rw_request_id q) db2 = (Inr (Some g2), db3)"
    assume w: "request_wrapup G g2 st (?dec st = GdWrapup \<or> ?dec st = GdRetry \<and> st = GoalBudgetLimited) db3 = (Inr (Some g3), db4)"
      and m: "claim_and_materialize G g3 q tn (?dec st) pre (?dec st = GdWrapup \<or> ?dec st = GdRetry \<and> st = GoalBudgetLimited) db4 =
        (Inr (Some c), db')"
    have "same_session g g3"
      using decision_same_session [OF 1(2) [unfolded x]] clean_same_session [OF c] wrapup_same_session [OF w]
      by (blast intro: same_session_trans)
    with claim_materializes [OF m] show ?thesis by blast
  qed
qed

lemma those_map_Some: "those (map Some xs) = Some xs"
  by (induction xs) auto

section \<open>What a continuation rests on\<close>

text \<open>Between the reads that come last, other tasks act once: \<open>db0\<close> is the database in which the session was
  seen idle, \<open>db'\<close> the one in which the goal was read.\<close>

definition session_row :: "contents \<Rightarrow> goal_document \<Rightarrow> doc_id \<Rightarrow> row \<Rightarrow> bool" where
  "session_row v g d q \<longleftrightarrow> v AREQ d = Some q \<and> q ''agent_did'' = Some (GStr (gd_agent_did g)) \<and>
     q ''session_id'' = Some (GStr (gd_session_id g))"

definition runnable_row :: "row \<Rightarrow> bool" where
  "runnable_row q \<longleftrightarrow> (case req_state q of None \<Rightarrow> False | Some st \<Rightarrow> request_is_active_runtime st)"

definition idle_after :: "contents \<Rightarrow> goal_document \<Rightarrow> ustring \<Rightarrow> bool" where
  "idle_after v g parent \<longleftrightarrow>
     (\<exists>d p. session_row v g d p \<and> str_field p ''request_id'' = Some parent \<and>
        (\<forall>e q. session_row v g e q \<longrightarrow> \<not> runnable_row q \<and> queue_key q \<le> queue_key p))"

definition claimed_from :: "contents \<Rightarrow> goal_document \<Rightarrow> ustring \<Rightarrow> bool" where
  "claimed_from v g parent \<longleftrightarrow>
     stored_goal v g \<and> gd_last_continued_from_request_id g = Some parent \<and>
     parsed_status g \<in> {Some GoalActive, Some GoalBudgetLimited}"

context defra
begin

lemma idle_latest:
  assumes "ge_node G = N" and "latest_request_when_session_idle G g db = (Inr (Some w), db')"
  shows "db' = ge_others G db \<and> idle_after (view db') g (rw_request_id w)"
proof -
  let ?flt = "[(''agent_did'', Is (GStr (gd_agent_did g))), (''session_id'', Is (GStr (gd_session_id g)))]"
  from assms obtain rows rs where rows: "nd_query N AREQ ?flt db' = Inr rows" and db': "db' = ge_others G db"
    and rs: "those (map request_row_of (rev (in_queue_order rows))) = Some rs" and w: "first_of rs = Some w"
    and idle: "\<not> list_ex (\<lambda>r. case rw_state r of None \<Rightarrow> False | Some st \<Rightarrow> request_is_active_runtime st) rs"
    by (auto simp: latest_request_when_session_idle_def goal_query_def act_simps Let_def
        split: sum.splits option.splits if_splits)
  have m: "map Some (rev rs) = map request_row_of (in_queue_order rows)"
    using those_member [OF rs] by (metis rev_map rev_rev_ident)
  then have t: "those (map request_row_of (in_queue_order rows)) = Some (rev rs)"
    by (metis those_map_Some)
  have listed: "\<exists>x \<in> set rs. request_row_of (e, q) = Some x" if "session_row (view db') g e q" for e q
  proof -
    from that query_rows [OF rows] have "(e, q) \<in> set rows" by (auto simp: session_row_def)
    then have "request_row_of (e, q) \<in> Some ` set (rev rs)"
      unfolding queue_rows_image [OF t] by blast
    then show ?thesis by auto
  qed
  from w have "w \<in> set rs" by (rule first_of_member)
  then have "Some w \<in> request_row_of ` set rows"
    using queue_rows_image [OF t] by (metis image_eqI set_rev)
  then obtain d p where p: "(d, p) \<in> set rows" "request_row_of (d, p) = Some w" by auto
  have "\<not> runnable_row q \<and> queue_key q \<le> queue_key p" if "session_row (view db') g e q" for e q
  proof -
    from listed [OF that] obtain x where x: "x \<in> set rs" "request_row_of (e, q) = Some x" by blast
    note f = request_row_of_facts [OF x(2)] request_row_of_facts [OF p(2)]
    from queue_rows_sorted [OF t] w x(1) have "queue_key (rw_cols x) \<le> queue_key (rw_cols w)"
      by (cases rs) (auto simp: sorted_wrt_append)
    with idle x(1) f show ?thesis by (auto simp: runnable_row_def list_ex_iff)
  qed
  moreover have "session_row (view db') g d p" "str_field p ''request_id'' = Some (rw_request_id w)"
    using query_rows [OF rows] p by (auto simp: session_row_def request_row_of_def split: option.splits sum.splits bind_splits)
  ultimately show ?thesis
    unfolding idle_after_def using db' by blast
qed

lemma reloaded_goal:
  assumes "ge_node G = N" and "load_goal_by_id G a i db = (Inr (Some g), db')"
  shows "db' = ge_others G db \<and> gd_agent_did g = a \<and> gd_goal_id g = i \<and>
    stored_goal (view db') g"
proof -
  let ?flt = "[(''agent_did'', Is (GStr a)), (''goal_id'', Is (GStr i))]"
  from assms(2) obtain gs where gs: "decode_goal_rows G ?flt db = (Inr gs, db')"
    and g: "first_of (sort_goals_canonical gs) = Some g"
    by (auto simp: load_goal_by_id_def act_simps split: sum.splits prod.splits)
  from g have "g \<in> set gs"
    by (auto simp: sort_goals_canonical_def dest: first_of_member)
  from decoded_goal [OF assms(1) gs this] show ?thesis
    using goal_of_row_fields(5,6) by (fastforce simp: str_field_def stored_goal_def)
qed

lemma decoded_parent: "agent_request_of_row J Q q = Inr p \<Longrightarrow> ag_request_id p = rw_request_id q"
  unfolding agent_request_of_row_def Let_def by (elim bind_resE) auto

lemma materialized_parent:
  assumes "materialize_claimed_continuation G g q pre w ph db = (Inr (Some c), db')"
  shows "ag_request_id (gc_parent c) = rw_request_id q"
  using assms decoded_parent unfolding materialize_claimed_continuation_def
  by (auto simp: act_simps present_def ok_or_def split: sum.splits prod.splits option.splits if_splits)

lemma materialized:
  assumes "ge_node G = N" and "materialize_claimed_continuation G g q pre w ph db = (Inr (Some c), db')"
  shows "\<exists>db0. db' = ge_others G db0 \<and> idle_after (view db0) g (ag_request_id (gc_parent c)) \<and>
    claimed_from (view db') (gc_goal c) (ag_request_id (gc_parent c)) \<and> same_goal g (gc_goal c) \<and>
    gc_sequence c = continuation_sequence (gc_goal c)"
proof -
  from assms(2) obtain still db0 g' parent
    where idle: "latest_request_when_session_idle G g db = (Inr (Some still), db0)"
      and id: "rw_request_id still = rw_request_id q"
      and load: "load_goal_by_id G (gd_agent_did g) (gd_goal_id g) db0 = (Inr (Some g'), db')"
      and st: "parsed_status g' \<in> {Some GoalActive, Some GoalBudgetLimited}"
      and last: "gd_last_continued_from_request_id g' = Some (rw_request_id q)"
      and parent: "agent_request_of_row (ge_json G) (ge_queue G) q = Inr parent"
      and c: "gc_goal c = g'" "gc_parent c = parent" "gc_sequence c = continuation_sequence g'"
    unfolding materialize_claimed_continuation_def
    by (auto simp: act_simps present_def ok_or_def split: sum.splits prod.splits option.splits if_splits)
  note r = reloaded_goal [OF assms(1) load] and i = idle_latest [OF assms(1) idle] and d = decoded_parent [OF parent]
  have "claimed_from (view db') g' (ag_request_id parent)"
    using r st last d unfolding claimed_from_def by auto
  with r i id d show ?thesis
    unfolding c by (auto simp: same_goal_def)
qed

lemma decide_materializes:
  assumes "ge_node G = N" and "decide_unclaimed G g st q t tn db = (Inr (Some c), db')"
  shows "\<exists>g' pre w ph db1. worked_on G view g g' \<and> materialize_claimed_continuation G g' q pre w ph db1 = (Inr (Some c), db')"
proof -
  from assms(2) obtain g1 rw ha n db1 db2 where l: "load_goal_by_id G (gd_agent_did g) (gd_goal_id g) db1 = (Inr (Some g1), db2)"
    and m: "continue_goal G g1 q t tn rw ha n db2 = (Inr (Some c), db')"
    unfolding decide_unclaimed_def Let_def
    by (auto simp: act_simps present_def ok_or_def split: sum.splits prod.splits option.splits if_splits)
  from reloaded_goal [OF assms(1) l] have "same_goal g g1" "stored_goal (view db2) g1" unfolding same_goal_def by blast+
  moreover obtain g' pre w ph db3 where "same_session g1 g'"
    "materialize_claimed_continuation G g' q pre w ph db3 = (Inr (Some c), db')"
    using continue_materializes [OF m] by blast
  ultimately show ?thesis using l unfolding worked_on_def by blast
qed

lemma build_intent_checks:
  assumes "ge_node G = N" and "build_intent G g db = (Inr (Some c), db')"
  shows "\<exists>q ts t db1. latest_request_when_session_idle G g (ge_others G db) = (Inr (Some q), db1) \<and>
    continue_canonical G g q ts t db1 = (Inr (Some c), db')"
proof -
  have pd: "pause_duplicate G g db1 \<noteq> (Inr (Some c), db2)" for db1 db2
    by (auto simp: pause_duplicate_def act_simps split: prod.splits sum.splits)
  from assms(2) obtain gs q ts t db0 db1 where
    l: "load_goals_for_session G (gd_agent_did g) (gd_session_id g) db = (Inr gs, db0)"
    and "latest_request_when_session_idle G g db0 = (Inr (Some q), db1)"
      "continue_canonical G g q ts t db1 = (Inr (Some c), db')"
    unfolding build_intent_def
    by (auto simp: act_simps pd split: sum.splits prod.splits list.splits option.splits if_splits)
  moreover from l have "db0 = ge_others G db"
    by (auto simp: load_goals_for_session_def decode_goal_rows_def goal_query_def act_simps Let_def split: sum.splits prod.splits option.splits)
  ultimately show ?thesis by blast
qed

lemma continue_canonical_materializes:
  assumes "ge_node G = N" and "continue_canonical G g q ts t db1 = (Inr (Some c), db')"
  shows "\<exists>g' pre w ph db2. worked_on G view g g' \<and> materialize_claimed_continuation G g' q pre w ph db2 = (Inr (Some c), db')"
proof -
  obtain st db2 where "resume_claimed G g st q (request_as_str ts) db2 = (Inr (Some c), db') \<or>
      decide_unclaimed G g st q t (request_as_str ts) db2 = (Inr (Some c), db')"
    using assms(2) unfolding continue_canonical_def Let_def
    by (auto simp: act_simps split: sum.splits prod.splits if_splits)
  then show ?thesis
  proof
    assume "resume_claimed G g st q (request_as_str ts) db2 = (Inr (Some c), db')"
    moreover have "worked_on G view g g" by (simp add: worked_on_def same_session_def same_goal_def)
    ultimately show ?thesis unfolding resume_claimed_def Let_def by blast
  next
    assume "decide_unclaimed G g st q t (request_as_str ts) db2 = (Inr (Some c), db')"
    from decide_materializes [OF assms(1) this] show ?thesis by blast
  qed
qed

lemma worked_on_same_goal: "worked_on G view g g' \<Longrightarrow> same_goal g g'"
  by (auto simp: worked_on_def same_session_def same_goal_def)

lemma build_intent_rests_on:
  assumes "ge_node G = N" and "build_intent G g db = (Inr (Some c), db')"
  shows "idle_after (view (ge_others G (ge_others G db))) g (ag_request_id (gc_parent c)) \<and>
    (\<exists>g' db0. worked_on G view g g' \<and> db' = ge_others G db0 \<and>
      idle_after (view db0) g' (ag_request_id (gc_parent c))) \<and>
    same_goal g (gc_goal c) \<and> claimed_from (view db') (gc_goal c) (ag_request_id (gc_parent c)) \<and>
    gc_sequence c = continuation_sequence (gc_goal c)"
proof -
  obtain q ts t db1 where first: "latest_request_when_session_idle G g (ge_others G db) = (Inr (Some q), db1)"
    and cont: "continue_canonical G g q ts t db1 = (Inr (Some c), db')"
    using build_intent_checks [OF assms] by blast
  obtain g' pre w ph db2 where g': "worked_on G view g g'"
    and mat: "materialize_claimed_continuation G g' q pre w ph db2 = (Inr (Some c), db')"
    using continue_canonical_materializes [OF assms(1) cont] by blast
  have "ag_request_id (gc_parent c) = rw_request_id q" by (rule materialized_parent [OF mat])
  with idle_latest [OF assms(1) first] materialized [OF assms(1) mat] g' worked_on_same_goal [OF g']
  show ?thesis unfolding same_goal_def by metis
qed

end

end
