(* ===== verification/Goal_Claims.thy ===== *)
theory Goal_Claims
  imports Goal_Continuation
begin

text \<open>
  The guarantees of durable goals: identities, blocked audits, claims, what a continuation rests on, the
  legality of every writer, and the race that an unconditional write loses.
\<close>

section \<open>Blocked audits\<close>

text \<open>What the reports of a run of requests leave in the goal: the count, the last reason, the last request.\<close>

definition audit_report :: "ustring \<times> ustring \<Rightarrow> int \<times> ustring option \<times> ustring option \<Rightarrow> int \<times> ustring option \<times> ustring option" where
  "audit_report x s = (case (x, s) of ((q, c), (n, lr, lq)) \<Rightarrow>
     (fst (next_blocked_audit n lr lq c q), Some c, Some q))"

definition audits_after :: "(ustring \<times> ustring) list \<Rightarrow> int \<times> ustring option \<times> ustring option" where
  "audits_after reports = fold audit_report reports (0, None, None)"

text \<open>The last turns in a row that all reported the reason.\<close>

definition turns_with :: "ustring \<Rightarrow> (ustring \<times> ustring) list \<Rightarrow> nat" where
  "turns_with c reports = length (takeWhile (\<lambda>x. snd x = c) (rev (remdups_adj reports)))"

definition one_reason :: "(ustring \<times> ustring) list \<Rightarrow> bool" where
  "one_reason reports \<longleftrightarrow> list_all (\<lambda>x. list_all (\<lambda>y. fst x = fst y \<longrightarrow> snd x = snd y) reports) reports"

lemma one_reasonD: "one_reason xs \<Longrightarrow> x \<in> set xs \<Longrightarrow> y \<in> set xs \<Longrightarrow> fst x = fst y \<Longrightarrow> snd x = snd y"
  unfolding one_reason_def list_all_iff by blast

lemma one_reason_butlast: "one_reason (xs @ [x]) \<Longrightarrow> one_reason xs"
  unfolding one_reason_def list_all_iff by (metis UnCI set_append)

lemma remdups_adj_snoc:
  "remdups_adj (xs @ [x]) = remdups_adj xs @ (if xs \<noteq> [] \<and> last xs = x then [] else [x])"
  by (induction xs rule: remdups_adj.induct) auto

lemma turns_with_snoc:
  "turns_with c (xs @ [(q, c)]) = turns_with c xs + (if xs \<noteq> [] \<and> last xs = (q, c) then 0 else 1)"
  by (simp add: turns_with_def remdups_adj_snoc)

lemma turns_with_other: "xs \<noteq> [] \<Longrightarrow> snd (last xs) \<noteq> c \<Longrightarrow> turns_with c xs = 0"
proof -
  assume "xs \<noteq> []" "snd (last xs) \<noteq> c"
  then have "rev (remdups_adj xs) \<noteq> []" "hd (rev (remdups_adj xs)) = last xs"
    by (simp_all add: hd_rev last_remdups_adj)
  with \<open>snd (last xs) \<noteq> c\<close> show ?thesis
    by (cases "rev (remdups_adj xs)") (auto simp: turns_with_def)
qed

lemma i64_pos: "3 \<le> i64_max"
  by (simp add: i64_max_def)

lemma audit_turn:
  assumes "one_reason (xs @ [(q, c)])"
    and "audits_after xs = (n, lr, lq)"
    and "xs = [] \<Longrightarrow> n = 0 \<and> lr = None \<and> lq = None"
    and "xs \<noteq> [] \<Longrightarrow> n = min i64_max (int (turns_with (snd (last xs)) xs)) \<and> lr = Some (snd (last xs)) \<and> lq = Some (fst (last xs))"
  shows "next_blocked_audit n lr lq c q =
    (min i64_max (int (turns_with c (xs @ [(q, c)]))), 3 \<le> turns_with c (xs @ [(q, c)]))"
proof (cases "xs = []")
  case True
  with assms(3) i64_pos show ?thesis
    by (simp add: next_blocked_audit_eq turns_with_def blocked_audit_threshold_def)
next
  case False
  let ?k = "turns_with (snd (last xs)) xs"
  from assms(4) False have n: "n = min i64_max (int ?k)" "lr = Some (snd (last xs))" "lq = Some (fst (last xs))" by auto
  have same: "snd (last xs) = c" if "fst (last xs) = q"
    using one_reasonD [OF assms(1), of "last xs" "(q, c)"] that False by simp
  consider (request) "last xs = (q, c)" | (condition) "fst (last xs) \<noteq> q" "snd (last xs) = c"
    | (other) "fst (last xs) \<noteq> q" "snd (last xs) \<noteq> c"
    using same by (cases "last xs") auto
  then show ?thesis
  proof cases
    case request
    with False n i64_pos show ?thesis
      by (auto simp: next_blocked_audit_eq turns_with_snoc blocked_audit_threshold_def)
  next
    case condition
    then have "last xs \<noteq> (q, c)" by (cases "last xs") auto
    with False condition have "turns_with c (xs @ [(q, c)]) = ?k + 1" by (simp add: turns_with_snoc)
    with condition n i64_pos show ?thesis
      by (auto simp: next_blocked_audit_eq blocked_audit_threshold_def sat_add_1)
  next
    case other
    then have "last xs \<noteq> (q, c)" by (cases "last xs") auto
    with False other have "turns_with c (xs @ [(q, c)]) = 1" by (simp add: turns_with_snoc turns_with_other)
    with other n i64_pos show ?thesis
      by (auto simp: next_blocked_audit_eq blocked_audit_threshold_def)
  qed
qed

lemma audits_after_snoc: "audits_after (xs @ [x]) = audit_report x (audits_after xs)"
  by (simp add: audits_after_def)

lemma audits_after_turns:
  assumes "one_reason xs" and "xs \<noteq> []"
  shows "audits_after xs = (min i64_max (int (turns_with (snd (last xs)) xs)), Some (snd (last xs)), Some (fst (last xs)))"
  using assms
proof (induction xs rule: rev_induct)
  case (snoc x xs)
  obtain q c where x: "x = (q, c)" by force
  obtain n lr lq where a: "audits_after xs = (n, lr, lq)" by (cases "audits_after xs") auto
  have step: "next_blocked_audit n lr lq c q =
      (min i64_max (int (turns_with c (xs @ [(q, c)]))), 3 \<le> turns_with c (xs @ [(q, c)]))"
  proof (rule audit_turn [OF _ a])
    show "xs = [] \<Longrightarrow> n = 0 \<and> lr = None \<and> lq = None"
      using a by (auto simp: audits_after_def)
    show "xs \<noteq> [] \<Longrightarrow> n = min i64_max (int (turns_with (snd (last xs)) xs)) \<and> lr = Some (snd (last xs)) \<and> lq = Some (fst (last xs))"
      using snoc.IH one_reason_butlast [OF snoc.prems(1)] a by simp
  qed (use snoc.prems(1) x in simp)
  then show ?case
    by (simp add: audits_after_snoc a x audit_report_def)
qed simp

text \<open>C27. A report of a blocking condition is accepted exactly when the last three turns in a row reported
  that condition, where a turn is one request and may repeat its report, as long as no request reports two
  different conditions. The list holds the turns that report; a turn that reports nothing is not in it.\<close>

theorem blocked_after_three_turns:
  assumes "one_reason (xs @ [(q, c)])"
    and "audits_after xs = (n, lr, lq)"
  shows "snd (next_blocked_audit n lr lq c q) \<longleftrightarrow> 3 \<le> turns_with c (xs @ [(q, c)])"
proof -
  note one = one_reason_butlast [OF assms(1)]
  have "next_blocked_audit n lr lq c q =
      (min i64_max (int (turns_with c (xs @ [(q, c)]))), 3 \<le> turns_with c (xs @ [(q, c)]))"
  proof (rule audit_turn [OF _ assms(2)])
    show "xs = [] \<Longrightarrow> n = 0 \<and> lr = None \<and> lq = None"
      using assms(2) by (simp add: audits_after_def)
    show "xs \<noteq> [] \<Longrightarrow> n = min i64_max (int (turns_with (snd (last xs)) xs)) \<and> lr = Some (snd (last xs)) \<and> lq = Some (fst (last xs))"
      using assms(2) audits_after_turns [OF one] by simp
  qed (rule assms(1))
  then show ?thesis by simp
qed

theorem blocked_after_three_turns_witness:
  "snd (next_blocked_audit 2 (Some (lit ''A'')) (Some (lit ''q2'')) (lit ''A'') (lit ''q3'')) \<longleftrightarrow>
   3 \<le> turns_with (lit ''A'') ([(lit ''q1'', lit ''A''), (lit ''q1'', lit ''A''), (lit ''q2'', lit ''A'')] @ [(lit ''q3'', lit ''A'')])"
proof (rule blocked_after_three_turns)
  show "audits_after [(lit ''q1'', lit ''A''), (lit ''q1'', lit ''A''), (lit ''q2'', lit ''A'')] =
      (2, Some (lit ''A''), Some (lit ''q2''))"
    by (simp add: audits_after_def audit_report_def next_blocked_audit_eq sat_add_def i64_max_def)
qed (simp add: one_reason_def)

text \<open>A request that reports a second condition hands the count of the first one on to it: after
  reports of \<open>a\<close> by two requests and of \<open>b\<close> by the second of them, the next request's report of \<open>b\<close> is
  accepted, although only two requests have reported \<open>b\<close> and only two have reported \<open>a\<close>.\<close>

theorem changed_reason_inherits_audits:
  assumes "distinct [q1, q2, q3]" and "a \<noteq> b"
    and "audits_after [(q1, a), (q2, a), (q2, b)] = (n, lr, lq)"
  shows "snd (next_blocked_audit n lr lq b q3) \<and>
    {q. (q, a) \<in> set [(q1, a), (q2, a), (q2, b), (q3, b)]} = {q1, q2} \<and>
    {q. (q, b) \<in> set [(q1, a), (q2, a), (q2, b), (q3, b)]} = {q2, q3}"
  using assms
  by (auto simp: audits_after_def audit_report_def next_blocked_audit_eq sat_add_def i64_max_def
      blocked_audit_threshold_def)

theorem changed_reason_inherits_audits_witness:
  "snd (next_blocked_audit 2 (Some (lit ''B'')) (Some (lit ''q2'')) (lit ''B'') (lit ''q3''))"
proof -
  have "audits_after [(lit ''q1'', lit ''A''), (lit ''q2'', lit ''A''), (lit ''q2'', lit ''B'')] =
      (2, Some (lit ''B''), Some (lit ''q2''))"
    by (simp add: audits_after_def audit_report_def next_blocked_audit_eq sat_add_def i64_max_def)
  from changed_reason_inherits_audits [OF _ _ this, of "lit ''q3''"] show ?thesis by simp
qed

section \<open>Identities\<close>

text \<open>C28. A goal's identity names its agent and its session: two goals have the same identity, or the same
  creation key, only when both agree. Likewise the session, the request and the retry key of a task's fire
  name the agent, the task and the fire.\<close>

theorem goal_identities_injective:
  "(deterministic_goal_id a s = deterministic_goal_id a' s' \<longleftrightarrow> a = a' \<and> s = s') \<and>
   (deterministic_goal_creation_key a s = deterministic_goal_creation_key a' s' \<longleftrightarrow> a = a' \<and> s = s') \<and>
   (task_goal_fire_identity_of a t k = task_goal_fire_identity_of a' t' k' \<longleftrightarrow> a = a' \<and> t = t' \<and> k = k')"
proof (intro conjI)
  show id: "deterministic_goal_id a s = deterministic_goal_id a' s' \<longleftrightarrow> a = a' \<and> s = s'"
    unfolding deterministic_goal_id_def dec_colon_inject
    by (auto dest: utf8_prefix_inject)
  show "deterministic_goal_creation_key a s = deterministic_goal_creation_key a' s' \<longleftrightarrow> a = a' \<and> s = s'"
    using id by (simp add: deterministic_goal_creation_key_def deterministic_goal_id_def)
  have scope: "task_goal_scope a t k = task_goal_scope a' t' k' \<longleftrightarrow> a = a' \<and> t = t' \<and> k = k'"
    unfolding task_goal_scope_def dec_colon_inject by (auto simp: dec_colon_inject)
  show "task_goal_fire_identity_of a t k = task_goal_fire_identity_of a' t' k' \<longleftrightarrow> a = a' \<and> t = t' \<and> k = k'"
    by (auto simp: task_goal_fire_identity_of_def Let_def scope)
qed

section \<open>Claims\<close>

text \<open>The two ways in which a pass claims the next continuation of a goal.\<close>

definition is_claim :: "'db goal_env \<Rightarrow> goal_document \<Rightarrow> ('db, goal_error, bool) act \<Rightarrow> bool" where
  "is_claim G g m \<longleftrightarrow>
     (\<exists>p. m = claim_continuation G g p) \<or>
     (\<exists>p n why. n \<le> max_infrastructure_retries \<and> m = claim_retry_continuation G g p n why)"

lemma claim_run:
  assumes "defra (ge_node G) view" and "is_claim G g m" and "m db = (Inr True, db')"
  shows "\<exists>r r'. view (ge_others G db) GOAL (gd_doc_id g) = Some r \<and> r ''continuation_sequence'' = Some (GInt (continuation_sequence g)) \<and>
    view db' GOAL (gd_doc_id g) = Some r' \<and> goal_row_moves r r' \<and>
    goal_sequence r' = min i64_max (continuation_sequence g + 1)"
proof -
  have n: "0 \<le> continuation_sequence g" "0 \<le> i64_max" by (simp_all add: continuation_sequence_def i64_max_def)
  have moves: "goal_row_moves r (apply_input inp r) \<and> goal_sequence (apply_input inp r) = min i64_max (continuation_sequence g + 1)"
    if "r ''continuation_sequence'' = Some (GInt (continuation_sequence g))"
      and "inp = [(''last_continued_from_request_id'', GStr p), (''continuation_sequence'', GInt (sat_add (continuation_sequence g) 1)), (''updated_at'', tm)] \<or>
        c \<le> max_infrastructure_retries \<and>
        inp = [(''last_continued_from_request_id'', GStr p), (''continuation_sequence'', GInt (sat_add (continuation_sequence g) 1)),
          (''infrastructure_retry_count'', GInt c), (''last_failure'', GStr why), (''updated_at'', tm)]" for r inp p c why tm
  proof -
    have "0 \<le> max_infrastructure_retries" by (simp add: max_infrastructure_retries_def)
    with that claim_moves(1) [of r "continuation_sequence g" 0 p] claim_moves(2) [of r "continuation_sequence g" c p] n
    show ?thesis
      by (auto simp: goal_row_moves_touch goal_fields_simps goal_sequence_def int_field_def or_default_def sat_add_1 n)
  qed
  from assms(2,3) obtain inp p c why tm resp where
    u: "nd_update (ge_node G) GOAL (claim_filter g) inp (ge_others G db) = (Inr resp, db')" "update_hit GOAL resp"
    and inp: "inp = [(''last_continued_from_request_id'', GStr p), (''continuation_sequence'', GInt (sat_add (continuation_sequence g) 1)), (''updated_at'', tm)] \<or>
        c \<le> max_infrastructure_retries \<and>
        inp = [(''last_continued_from_request_id'', GStr p), (''continuation_sequence'', GInt (sat_add (continuation_sequence g) 1)),
          (''infrastructure_retry_count'', GInt c), (''last_failure'', GStr why), (''updated_at'', tm)]"
    unfolding is_claim_def
    by (elim disjE exE conjE) (auto simp: claim_continuation_def claim_retry_continuation_def act_simps goal_now_def
        goal_update_def split: prod.splits sum.splits)
  from defra.update_won [OF assms(1) u(1) [unfolded claim_filter_def goal_filter_def append.simps] u(2)]
  obtain r where r: "view (ge_others G db) GOAL (gd_doc_id g) = Some r"
      "r ''continuation_sequence'' = Some (GInt (continuation_sequence g))"
      "view db' GOAL (gd_doc_id g) = Some (apply_input inp r)"
    by auto
  from moves [of r, OF r(2) inp] r show ?thesis by blast
qed

text \<open>C12. A continuation is claimed by one pass only: once a claim on a well-formed goal has succeeded, no claim
  from the same snapshot of the counter, which is below the largest 64-bit integer, succeeds later, whatever legal
  changes happen in between and during the claims.\<close>

theorem claim_has_one_winner:
  assumes "defra (ge_node G) view" and "\<forall>db. goals_move (view db) (view (ge_others G db))"
    and "is_claim G g m" and "is_claim G g' m'"
    and "gd_doc_id g' = gd_doc_id g" and "continuation_sequence g' = continuation_sequence g"
    and "continuation_sequence g < i64_max"
    and "view db GOAL (gd_doc_id g) = Some r" and "goal_row_ok r"
    and "m db = (Inr True, db1)" and "goals_move (view db1) (view db2)"
  shows "fst (m' db2) \<noteq> Inr True"
proof
  assume won: "fst (m' db2) = Inr True"
  obtain db3 where "m' db2 = (Inr True, db3)" using won by (cases "m' db2") simp
  from claim_run [OF assms(1,4) this] obtain q where q: "view (ge_others G db2) GOAL (gd_doc_id g) = Some q"
    and seq: "q ''continuation_sequence'' = Some (GInt (continuation_sequence g))"
    unfolding assms(5,6) by blast
  from claim_run [OF assms(1,3,10)] obtain r1 r2 where r1: "view (ge_others G db) GOAL (gd_doc_id g) = Some r1"
    and r2: "view db1 GOAL (gd_doc_id g) = Some r2" "goal_row_moves r1 r2"
    and next_seq: "goal_sequence r2 = min i64_max (continuation_sequence g + 1)"
    by blast
  have "goal_row_moves r r1"
    using assms(2,8) r1 goals_move_row by (metis option.inject)
  then have ok: "goal_row_ok r2"
    using r2(2) assms(9) by (auto simp: goal_row_moves_def)
  have "goals_move (view db1) (view (ge_others G db2))"
    using assms(2,11) goals_move_trans by blast
  then have "goal_row_moves r2 q"
    using r2(1) q goals_move_row by (metis option.inject)
  with ok next_seq have "continuation_sequence g + 1 \<le> goal_sequence q"
    using assms(7) by (simp add: goal_row_moves_def)
  moreover have "goal_sequence q = continuation_sequence g"
    using seq by (simp add: goal_sequence_def int_field_def or_default_def continuation_sequence_def)
  ultimately show False by simp
qed

section \<open>The controller and the tools\<close>

text \<open>C13. A continuation that the controller hands over is one the goal has claimed, in an idle session. Early in
  the pass, at a fixed point, the session of the goal given was seen with no runnable request and with the parent
  as its latest. Just before the end the same was seen for the session of the goal the pass works on: the goal
  given, or the document that a read by its agent and goal id returned. Last the goal was read back with the
  parent as the request it was last continued from, in a status that continues.\<close>

theorem continuation_is_claimed_and_idle:
  assumes "defra (ge_node G) view" and "build_intent G g db = (Inr (Some c), db')"
  shows "idle_after (view (ge_others G (ge_others G db))) g (ag_request_id (gc_parent c)) \<and>
    (\<exists>g' db0. worked_on G view g g' \<and> db' = ge_others G db0 \<and>
      idle_after (view db0) g' (ag_request_id (gc_parent c))) \<and>
    same_goal g (gc_goal c) \<and> claimed_from (view db') (gc_goal c) (ag_request_id (gc_parent c)) \<and>
    gc_sequence c = continuation_sequence (gc_goal c)"
  by (rule defra.build_intent_rests_on [OF assms(1) refl assms(2)])

text \<open>C11. A scan of the controller changes goals only in legal ways, also while other tasks change them in legal
  ways between any two of its calls: every well-formed goal is still there, well-formed, of the same identity,
  reached along edges of the state machine, with a counter that has not gone back and at most two retries.\<close>

theorem controller_is_legal:
  assumes "defra (ge_node G) view" and "\<forall>db. goals_move (view db) (view (ge_others G db))"
  shows "goals_move (view db) (view (snd (rescan G agent_did db)))"
proof -
  from assms have "goal_store G view"
    unfolding goal_store_def goal_store_axioms_def by blast
  then show ?thesis by (rule goal_store.rescan_moves)
qed

text \<open>C14. The operator's and the model's updates are legal when nothing happens between their read and their
  write, and what they create is well-formed.\<close>

theorem goal_tools_are_legal_alone:
  assumes "defra (ge_node G) view" and "\<forall>db. ge_others G db = db"
    and "set_goal G a s ob st b db = (x, db1)" and "update_goal_call G a s q status why db1 = (y, db2)"
  shows "goals_move (view db) (view db1) \<and> goals_move (view db1) (view db2) \<and>
    (goals_ok (view db) \<longrightarrow> goals_ok (view db1))"
proof -
  from assms(1,2) have "goal_alone G view"
    unfolding goal_alone_def goal_alone_axioms_def by blast
  from goal_alone.set_goal_legal [OF this assms(3)] goal_alone.update_goal_moves [OF this assms(4)]
  show ?thesis by blast
qed

section \<open>A lost race\<close>

definition demo_goal_row :: row where
  "demo_goal_row = apply_input
     [(''goal_id'', GStr (lit ''g'')), (''session_id'', GStr (lit ''s'')), (''agent_did'', GStr (lit ''a'')),
      (''objective'', GStr (lit ''ship'')), (''status'', GStr (lit ''active'')), (''continuation_sequence'', GInt 0)] Map.empty"

definition demo_goal_db :: mem_db where
  "demo_goal_db = [((GOAL, lit ''d''), demo_goal_row)]"

definition demo_goal_env :: "(mem_db \<Rightarrow> mem_db) \<Rightarrow> mem_db goal_env" where
  "demo_goal_env others = \<lparr>ge_node = mem_node, ge_others = others, ge_clock = (\<lambda>_. 0),
     ge_time = \<lparr>rf_print = (\<lambda>_. lit ''now''), rf_parse = (\<lambda>_. None)\<rparr>, ge_json = (\<lambda>_. None), ge_queue = (\<lambda>_. None),
     ge_json_text = id\<rparr>"

lemma demo_env_sel:
  "ge_node (demo_goal_env others) = mem_node" "ge_others (demo_goal_env others) = others" "ge_clock (demo_goal_env others) db = 0"
  "rf_print (ge_time (demo_goal_env others)) t = lit ''now''"
  "ge_json (demo_goal_env others) = (\<lambda>_. None)" "ge_queue (demo_goal_env others) = (\<lambda>_. None)"
  by (simp_all add: demo_goal_env_def)

text \<open>Another task: it starts when it is first scheduled, and completes every goal when it is scheduled again.\<close>

definition completing_task :: "mem_db \<Rightarrow> mem_db" where
  "completing_task db =
     (if mem_view db ''Started'' [] = None then ((''Started'', []), Map.empty) # db
      else snd (mem_update GOAL [] [(''status'', GStr (lit ''complete'')), (''wrapup_completed'', GBool True)] db))"

lemma complete_row_moves:
  "goal_row_moves r (apply_input [(''status'', GStr (lit ''complete'')), (''wrapup_completed'', GBool True)] r)"
    (is "goal_row_moves r ?r'")
proof (rule goal_row_moves_state)
  fix s
  assume s: "row_goal r = Some s" "wf_goal s"
  let ?s' = "s\<lparr>gs_status := GoalComplete, gs_wrapup_completed := True\<rparr>"
  have "goal_edge\<^sup>*\<^sup>* s ?s'"
  proof (cases "gs_status s = GoalComplete")
    case True
    with s(2) have "?s' = s" by (cases s) (simp add: wf_goal_def)
    then show ?thesis by simp
  next
    case False
    then show ?thesis by (intro r_into_rtranclp edge_step [of _ Complete]) simp
  qed
  moreover have "row_goal ?r' = Some ?s'"
    using s(1) by (auto simp: row_goal_simps)
  ultimately show "\<exists>s'. row_goal ?r' = Some s' \<and> goal_edge\<^sup>*\<^sup>* s s'" by blast
qed (auto simp: goal_ids_def)

lemma completing_task_legal: "goals_move (mem_view db) (mem_view (completing_task db))"
proof (cases "mem_view db ''Started'' [] = None")
  case True
  then show ?thesis by (simp add: completing_task_def goals_move_def mem_view_def)
next
  case False
  then have "mem_view (completing_task db) =
      updated GOAL [] [(''status'', GStr (lit ''complete'')), (''wrapup_completed'', GBool True)] (mem_view db)"
    by (auto simp: completing_task_def mem_update_view)
  then show ?thesis using goals_move_updated complete_row_moves by metis
qed

interpretation racing_goals: goal_store "demo_goal_env completing_task" mem_view
  by (auto simp: goal_store_def goal_store_axioms_def demo_env_sel completing_task_legal mem.defra_axioms)

interpretation lone_goals: goal_alone "demo_goal_env (\<lambda>db. db)" mem_view
  by (auto simp: goal_alone_def goal_alone_axioms_def demo_env_sel mem.defra_axioms)

definition demo_goal :: goal_document where
  "demo_goal = the (goal_of_row (lit ''d'', demo_goal_row))"

lemma demo_goal_of_row: "goal_of_row (lit ''d'', demo_goal_row) = Some demo_goal"
  by (simp add: demo_goal_def) (simp add: demo_goal_row_def goal_of_row_def str_field_def)

lemma demo_goal_fields:
  "gd_doc_id demo_goal = lit ''d''" "gd_agent_did demo_goal = lit ''a''" "gd_goal_id demo_goal = lit ''g''"
  "gd_status demo_goal = lit ''active''" "continuation_sequence demo_goal = 0"
  "gd_consecutive_blocked_audits demo_goal = None" "gd_last_blocked_request_id demo_goal = None"
  "gd_last_blocked_reason demo_goal = None" "gd_session_id demo_goal = lit ''s''"
  "goal_state_of demo_goal = Some \<lparr>gs_status = GoalActive, gs_blocked_audits = 0,
     gs_wrapup_requested = False, gs_wrapup_completed = False\<rparr>"
  by (simp_all add: demo_goal_def demo_goal_row_def goal_of_row_def str_field_def or_default_def continuation_sequence_def
      goal_state_of_def parsed_status_def int_field_def bool_field_def)

lemma demo_goal_row_ok: "goal_row_ok demo_goal_row"
  by (simp add: goal_row_ok_def demo_goal_row_def row_goal_simps wf_goal_def goal_sequence_def row_retries_def i64_max_def
      max_infrastructure_retries_def)

lemma demo_goal_load:
  assumes "others demo_goal_db = db" and "mem_hits GOAL [(''agent_did'', Is (GStr (lit ''a''))), (''session_id'', Is (GStr (lit ''s'')))] db =
    [(lit ''d'', demo_goal_row)]"
  shows "load_canonical_goal (demo_goal_env others) (lit ''a'') (lit ''s'') demo_goal_db = (Inr (Some demo_goal), db)"
  using assms by (simp add: load_canonical_goal_def load_goals_for_session_def decode_goal_rows_def act_simps goal_query_def
      demo_goal_env_def mem_calls demo_goal_of_row ok_or_def sort_goals_canonical_def)

lemma demo_goal_hits:
  "mem_hits GOAL [(''agent_did'', Is (GStr (lit ''a''))), (''session_id'', Is (GStr (lit ''s'')))] (completing_task demo_goal_db) =
    [(lit ''d'', demo_goal_row)]"
  "mem_hits GOAL [(''agent_did'', Is (GStr (lit ''a''))), (''session_id'', Is (GStr (lit ''s'')))] demo_goal_db =
    [(lit ''d'', demo_goal_row)]"
  by (simp_all add: completing_task_def demo_goal_db_def mem_hits_def mem_view_def, simp_all add: demo_goal_row_def)

definition goal_status_at :: "mem_db \<Rightarrow> doc_id \<Rightarrow> goal_status option" where
  "goal_status_at db d = map_option gs_status (Option.bind (mem_view db GOAL d) row_goal)"

lemma demo_race:
  "update_goal_call (demo_goal_env completing_task) (lit ''a'') (lit ''s'') (lit ''q'') (lit ''blocked'') (Some (lit ''stuck'')) demo_goal_db
   = (Inr (BlockedAnswer False 1), snd (mem_update GOAL (goal_filter demo_goal)
       (blocked_fields (demo_goal_env completing_task) 0 demo_goal 1 False (lit ''q'') (lit ''stuck''))
       (completing_task (completing_task demo_goal_db))))"
  apply (simp add: update_goal_call_def act_simps demo_goal_load [of completing_task, OF refl demo_goal_hits(1)] goal_now_def demo_goal_fields trim_lit is_ws_def nonblank_def
    next_blocked_audit_eq or_default_def blocked_audit_threshold_def update_goal_fields_def goal_update_def)
  apply (simp add: demo_env_sel mem_calls mem_update_def act_return_def)
  done

text \<open>C29. A blocked report that is not accepted writes the status it has read, with no condition on the status
  at that time. There are legal tasks with which it revives a completed goal: the goal is complete in the
  database the write finds, and active after it.\<close>

theorem stale_report_revives_goal:
  "\<exists>(G :: mem_db goal_env) db d. (\<forall>db. goals_move (mem_view db) (mem_view (ge_others G db))) \<and> goals_ok (mem_view db) \<and>
     goal_status_at (ge_others G (ge_others G db)) d = Some GoalComplete \<and>
     goal_status_at (snd (update_goal_call G (lit ''a'') (lit ''s'') (lit ''q'') (lit ''blocked'') (Some (lit ''stuck'')) db)) d
       = Some GoalActive"
proof (intro exI conjI)
  let ?G = "demo_goal_env completing_task"
  show "\<forall>db. goals_move (mem_view db) (mem_view (ge_others ?G db))"
    using completing_task_legal by (simp add: demo_env_sel)
  show "goals_ok (mem_view demo_goal_db)"
    using demo_goal_row_ok by (auto simp: goals_ok_def mem_view_def demo_goal_db_def split: if_splits)
  show "goal_status_at (ge_others ?G (ge_others ?G demo_goal_db)) (lit ''d'') = Some GoalComplete"
    by (simp add: demo_env_sel completing_task_def demo_goal_db_def mem_view_def mem_update_def goal_status_at_def)
      (simp add: demo_goal_row_def row_goal_simps)
  show "goal_status_at (snd (update_goal_call ?G (lit ''a'') (lit ''s'') (lit ''q'') (lit ''blocked'') (Some (lit ''stuck'')) demo_goal_db))
      (lit ''d'') = Some GoalActive"
    unfolding demo_race snd_conv
    by (simp add: completing_task_def demo_goal_db_def mem_view_def mem_update_def goal_status_at_def goal_filter_def
        demo_goal_fields blocked_fields_def)
      (simp add: demo_goal_row_def row_goal_simps)
qed

section \<open>Witnesses\<close>

lemma demo_goal_claim:
  "claim_continuation (demo_goal_env (\<lambda>db. db)) demo_goal p demo_goal_db =
   (Inr True, snd (mem_update GOAL (claim_filter demo_goal)
      [(''last_continued_from_request_id'', GStr p), (''continuation_sequence'', GInt 1), (''updated_at'', GStr (lit ''now''))]
      demo_goal_db))"
  by (simp add: claim_continuation_def act_simps goal_now_def goal_update_def demo_env_sel mem_calls demo_goal_fields sat_add_def
      i64_max_def print_time_def)
    (simp add: mem_update_def mem_hits_def demo_goal_db_def claim_filter_def goal_filter_def demo_goal_fields
      demo_goal_row_def)

theorem claim_has_one_winner_witness:
  "fst (claim_continuation (demo_goal_env (\<lambda>db. db)) demo_goal (lit ''r2'')
     (snd (claim_continuation (demo_goal_env (\<lambda>db. db)) demo_goal (lit ''r1'') demo_goal_db))) \<noteq> Inr True"
proof (rule claim_has_one_winner [where view = mem_view and g = demo_goal and g' = demo_goal and r = demo_goal_row and db = demo_goal_db])
  show "defra (ge_node (demo_goal_env (\<lambda>db. db))) mem_view"
    by (simp add: demo_env_sel mem.defra_axioms)
  show "claim_continuation (demo_goal_env (\<lambda>db. db)) demo_goal (lit ''r1'') demo_goal_db =
      (Inr True, snd (claim_continuation (demo_goal_env (\<lambda>db. db)) demo_goal (lit ''r1'') demo_goal_db))"
    by (simp add: demo_goal_claim)
qed (auto simp: demo_env_sel is_claim_def demo_goal_fields i64_max_def demo_goal_row_ok mem_view_def demo_goal_db_def)

theorem controller_is_legal_witness:
  "goals_move (mem_view demo_goal_db) (mem_view (snd (rescan (demo_goal_env completing_task) (lit ''a'') demo_goal_db)))"
  using controller_is_legal [of "demo_goal_env completing_task" mem_view demo_goal_db "lit ''a''"] mem.defra_axioms
    completing_task_legal
  by (simp add: demo_env_sel)

theorem goal_tools_are_legal_alone_witness:
  "goals_move (mem_view demo_goal_db)
     (mem_view (snd (set_goal (demo_goal_env (\<lambda>db. db)) (lit ''a'') (lit ''s'') None (Some GoalPaused) None demo_goal_db)))"
  using goal_tools_are_legal_alone [of "demo_goal_env (\<lambda>db. db)" mem_view "lit ''a''" "lit ''s''" None "Some GoalPaused" None
      demo_goal_db "fst (set_goal (demo_goal_env (\<lambda>db. db)) (lit ''a'') (lit ''s'') None (Some GoalPaused) None demo_goal_db)"
      "snd (set_goal (demo_goal_env (\<lambda>db. db)) (lit ''a'') (lit ''s'') None (Some GoalPaused) None demo_goal_db)"]
    mem.defra_axioms
  by (simp add: demo_env_sel) (metis prod.collapse)

text \<open>A goal that was claimed before a crash, with its parent completed and no child yet.\<close>

definition demo_claimed_row :: row where
  "demo_claimed_row = demo_goal_row(''last_continued_from_request_id'' \<mapsto> GStr (lit ''r1''), ''continuation_sequence'' \<mapsto> GInt 1)"

definition demo_parent_cols :: row where
  "demo_parent_cols = [''request_id'' \<mapsto> GStr (lit ''r1''), ''agent_did'' \<mapsto> GStr (lit ''a''),
     ''session_id'' \<mapsto> GStr (lit ''s''), ''content'' \<mapsto> GStr (lit ''hi''),
     ''created_at'' \<mapsto> GStr (lit ''2026''), ''lifecycle_state'' \<mapsto> GStr (lit ''completed'')]"

definition demo_parent :: request_row where
  "demo_parent = \<lparr>rw_doc_id = lit ''p'', rw_request_id = lit ''r1'', rw_state = Some ReqCompleted, rw_cols = demo_parent_cols\<rparr>"

definition demo_claimed_db :: mem_db where
  "demo_claimed_db = [((GOAL, lit ''d''), demo_claimed_row), ((AREQ, lit ''p''), demo_parent_cols)]"

definition demo_claimed_goal :: goal_document where
  "demo_claimed_goal = demo_goal\<lparr>gd_last_continued_from_request_id := Some (lit ''r1''), gd_continuation_sequence := Some 1\<rparr>"

lemma demo_claimed_of_row: "goal_of_row (lit ''d'', demo_claimed_row) = Some demo_claimed_goal"
  by (simp add: demo_claimed_goal_def demo_goal_def demo_claimed_row_def demo_goal_row_def goal_of_row_def str_field_def int_field_def bool_field_def)

lemma demo_parent_of_row: "request_row_of (lit ''p'', demo_parent_cols) = Some demo_parent"
  using request_parse_as_str [of ReqCompleted]
  by (simp add: request_row_of_def demo_parent_cols_def demo_parent_def str_field_def)

lemma demo_parent_request: "\<exists>a. agent_request_of_row (\<lambda>_. None) (\<lambda>_. None) demo_parent = Inr a"
  by (simp add: agent_request_of_row_def demo_parent_def demo_parent_cols_def str_field_def int_field_def
      unsigned_column_def validate_agent_request_def nonblank_def)

lemma demo_claimed_hits:
  "mem_hits GOAL [(''agent_did'', Is (GStr (lit ''a''))), (''session_id'', Is (GStr (lit ''s'')))] demo_claimed_db = [(lit ''d'', demo_claimed_row)]"
  "mem_hits GOAL [(''agent_did'', Is (GStr (lit ''a''))), (''goal_id'', Is (GStr (lit ''g'')))] demo_claimed_db = [(lit ''d'', demo_claimed_row)]"
  "mem_hits AREQ [(''agent_did'', Is (GStr (lit ''a''))), (''session_id'', Is (GStr (lit ''s'')))] demo_claimed_db = [(lit ''p'', demo_parent_cols)]"
  "mem_hits AREQ [(''agent_did'', Is (GStr (lit ''a''))), (''session_id'', Is (GStr (lit ''s''))),
     (''caused_by_trigger_id'', Is (GStr (lit ''g''))), (''caused_by_trigger_kind'', Is (GStr (lit ''goal''))),
     (''caused_by_parent_request_id'', Is (GStr (lit ''r1'')))] demo_claimed_db = []"
  by (simp_all add: mem_hits_def demo_claimed_db_def, simp_all add: demo_claimed_row_def demo_goal_row_def demo_parent_cols_def)

lemma demo_claimed_fields:
  "gd_doc_id demo_claimed_goal = lit ''d''" "gd_agent_did demo_claimed_goal = lit ''a''" "gd_goal_id demo_claimed_goal = lit ''g''"
  "gd_session_id demo_claimed_goal = lit ''s''" "parsed_status demo_claimed_goal = Some GoalActive"
  "gd_last_continued_from_request_id demo_claimed_goal = Some (lit ''r1'')"
  by (simp_all add: demo_claimed_goal_def demo_goal_fields parsed_status_def)

lemma demo_claimed_reads:
  "load_goals_for_session (demo_goal_env (\<lambda>db. db)) (lit ''a'') (lit ''s'') demo_claimed_db = (Inr [demo_claimed_goal], demo_claimed_db)"
  "load_goal_by_id (demo_goal_env (\<lambda>db. db)) (lit ''a'') (lit ''g'') demo_claimed_db = (Inr (Some demo_claimed_goal), demo_claimed_db)"
  "latest_request_when_session_idle (demo_goal_env (\<lambda>db. db)) demo_claimed_goal demo_claimed_db = (Inr (Some demo_parent), demo_claimed_db)"
  "continuation_child_exists (demo_goal_env (\<lambda>db. db)) demo_claimed_goal (lit ''r1'') demo_claimed_db = (Inr False, demo_claimed_db)"
  by (simp_all add: load_goals_for_session_def load_goal_by_id_def latest_request_when_session_idle_def
      continuation_child_exists_def decode_goal_rows_def act_simps goal_query_def demo_env_sel mem_calls demo_claimed_fields
      demo_claimed_hits demo_claimed_of_row demo_parent_of_row ok_or_def sort_goals_canonical_def in_queue_order_def)
    (simp add: demo_parent_def request_is_active_runtime_def)

lemma demo_build:
  "\<exists>c. build_intent (demo_goal_env (\<lambda>db. db)) demo_claimed_goal demo_claimed_db = (Inr (Some c), demo_claimed_db)"
proof -
  obtain a where a: "agent_request_of_row (\<lambda>_. None) (\<lambda>_. None) demo_parent = Inr a" using demo_parent_request by blast
  have "rw_request_id demo_parent = lit ''r1''" "rw_state demo_parent = Some ReqCompleted" by (simp_all add: demo_parent_def)
  then show ?thesis
    by (simp add: build_intent_def continue_canonical_def resume_claimed_def materialize_claimed_continuation_def act_simps
        demo_claimed_fields demo_claimed_reads ok_or_def present_def demo_env_sel a opt_filter_def request_is_terminal_def
        goal_continuation_materialization_step_def Let_def)
qed

theorem continuation_is_claimed_and_idle_witness:
  "\<exists>c. build_intent (demo_goal_env (\<lambda>db. db)) demo_claimed_goal demo_claimed_db = (Inr (Some c), demo_claimed_db) \<and>
     claimed_from (mem_view demo_claimed_db) (gc_goal c) (ag_request_id (gc_parent c))"
proof -
  obtain c where c: "build_intent (demo_goal_env (\<lambda>db. db)) demo_claimed_goal demo_claimed_db = (Inr (Some c), demo_claimed_db)"
    using demo_build by blast
  have "defra (ge_node (demo_goal_env (\<lambda>db. db))) mem_view"
    by (simp add: demo_env_sel mem.defra_axioms)
  from continuation_is_claimed_and_idle [OF this c] c show ?thesis by blast
qed

end
