(* ===== verification/Graphql_Text.thy ===== *)
theory Graphql_Text
  imports Gents_Prelude
begin

text \<open>
  The GraphQL text of \<^verbatim>\<open>gents-protocol/src/graphql.rs\<close>: identifiers, filter fragments and string literals that are
  spliced into queries, the rendering of JSON values as input literals, the reading of responses, and the
  retry loop of the HTTP client. Errors carry what their message names; the HTTP client is an argument.
\<close>

section \<open>Identifiers\<close>

definition is_ascii_alphabetic :: "uchar \<Rightarrow> bool" where
  "is_ascii_alphabetic c \<longleftrightarrow> 65 \<le> c \<and> c \<le> 90 \<or> 97 \<le> c \<and> c \<le> 122"

definition is_ascii_alphanumeric :: "uchar \<Rightarrow> bool" where
  "is_ascii_alphanumeric c \<longleftrightarrow> is_ascii_alphabetic c \<or> 48 \<le> c \<and> c \<le> 57"

datatype graphql_error =
    EmptyName
  | BadNameStart ustring uchar
  | BadNameChar ustring uchar
  | ReservedName ustring
  | FilterEmpty
  | FilterNoObject
  | FilterTrailing
  | FilterUnbalanced uchar nat
  | FilterMismatched uchar uchar nat
  | FilterBadChar uchar nat
  | FilterUnterminated
  | FilterUnclosed "uchar option"
  | ResponseWithoutData json
  | ResponseWithoutDocId ustring json
  | ResponseWithoutRows ustring
  | ResponseErrors "json list"
  | RetryableErrors ustring
  | PostFailed ustring
  | StatusFailed ustring
  | BodyFailed ustring
  | RetriesExhausted
  | ClientFailed ustring

definition validate_graphql_name :: "ustring \<Rightarrow> graphql_error + unit" where
  "validate_graphql_name name =
     (case name of
        [] \<Rightarrow> Inl EmptyName
      | c # _ \<Rightarrow>
          if is_ascii_alphabetic c \<or> c = 95
          then (case List.find (\<lambda>c. \<not> is_ascii_alphanumeric c \<and> c \<noteq> 95) name of
                  Some c \<Rightarrow> Inl (BadNameChar name c)
                | None \<Rightarrow> Inr ())
          else Inl (BadNameStart name c))"

definition validate_collection_identifier :: "ustring \<Rightarrow> graphql_error + unit" where
  "validate_collection_identifier name =
     bind_res (validate_graphql_name name) (\<lambda>_.
       if starts_with (lit ''__'') name then Inl (ReservedName name) else Inr ())"

section \<open>Filter fragments\<close>

text \<open>The loop over the characters, with the byte index of the next one. Quotation mark, backslash and
  brackets are their scalar values.\<close>

abbreviation quote_mark :: uchar where "quote_mark \<equiv> 34"
abbreviation backslash :: uchar where "backslash \<equiv> 92"

record filter_scan =
  fs_stack :: "uchar list"
  fs_in_string :: bool
  fs_escaped :: bool
  fs_closed :: bool

definition filter_char :: "nat \<Rightarrow> uchar \<Rightarrow> filter_scan \<Rightarrow> graphql_error + filter_scan" where
  "filter_char index ch s =
     (if fs_in_string s
      then Inr (if fs_escaped s then s\<lparr>fs_escaped := False\<rparr>
                else if ch = backslash then s\<lparr>fs_escaped := True\<rparr>
                else if ch = quote_mark then s\<lparr>fs_in_string := False\<rparr>
                else s)
      else if fs_closed s \<and> \<not> is_ws ch then Inl FilterTrailing
      else if ch = quote_mark then Inr (s\<lparr>fs_in_string := True\<rparr>)
      else if ch \<in> {123, 91} then Inr (s\<lparr>fs_stack := ch # fs_stack s\<rparr>)
      else if ch \<in> {125, 93}
      then (case fs_stack s of
              [] \<Rightarrow> Inl (FilterUnbalanced ch index)
            | opener # rest \<Rightarrow>
                if opener \<noteq> (if ch = 125 then 123 else 91) then Inl (FilterMismatched opener ch index)
                else Inr (s\<lparr>fs_stack := rest, fs_closed := fs_closed s \<or> rest = []\<rparr>))
      else if ch \<in> {58, 44} \<or> is_ascii_alphanumeric ch \<or> ch = 95 \<or> ch \<in> {45, 43, 46} \<or> is_ws ch then Inr s
      else Inl (FilterBadChar ch index))"

fun filter_chars :: "nat \<Rightarrow> ustring \<Rightarrow> filter_scan \<Rightarrow> graphql_error + filter_scan" where
  "filter_chars index [] s = Inr s"
| "filter_chars index (c # cs) s =
     bind_res (filter_char index c s) (filter_chars (index + utf8_width c) cs)"

definition filter_start :: filter_scan where
  "filter_start = \<lparr>fs_stack = [], fs_in_string = False, fs_escaped = False, fs_closed = False\<rparr>"

definition validate_graphql_filter_fragment :: "ustring \<Rightarrow> graphql_error + unit" where
  "validate_graphql_filter_fragment flt =
     (let trimmed = trim flt in
      if trimmed = [] then Inl FilterEmpty
      else if \<not> starts_with (lit ''{'') trimmed then Inl FilterNoObject
      else bind_res (filter_chars 0 trimmed filter_start) (\<lambda>s.
        if fs_in_string s then Inl FilterUnterminated
        else if fs_stack s \<noteq> [] then Inl (FilterUnclosed (first_of (fs_stack s)))
        else Inr ()))"

section \<open>Literals\<close>

definition escape_graphql_char :: "uchar \<Rightarrow> ustring" where
  "escape_graphql_char c =
     (if c = backslash then [backslash, backslash]
      else if c = quote_mark then [backslash, quote_mark]
      else if c = 10 then [backslash, 110]
      else if c = 13 then [backslash, 114]
      else if c = 9 then [backslash, 116]
      else [c])"

definition escape_graphql_string :: "ustring \<Rightarrow> ustring" where
  "escape_graphql_string v = concat (map escape_graphql_char v)"

definition graphql_string_literal :: "ustring \<Rightarrow> ustring" where
  "graphql_string_literal v = [quote_mark] @ escape_graphql_string v @ [quote_mark]"

definition graphql_string_list_literal :: "ustring list \<Rightarrow> ustring" where
  "graphql_string_list_literal vs =
     lit ''['' @ join_with (lit '', '') (map graphql_string_literal vs) @ lit '']''"

definition graphql_bool_literal :: "bool \<Rightarrow> ustring" where
  "graphql_bool_literal b = (if b then lit ''true'' else lit ''false'')"

text \<open>\<^verbatim>\<open>collect::<Result<Vec<_>>>\<close> over an iterator.\<close>

fun collect_results :: "('a \<Rightarrow> 'e + 'b) \<Rightarrow> 'a list \<Rightarrow> 'e + 'b list" where
  "collect_results f [] = Inr []"
| "collect_results f (x # xs) = bind_res (f x) (\<lambda>y. bind_res (collect_results f xs) (\<lambda>ys. Inr (y # ys)))"

lemma collect_results_cong [fundef_cong]:
  "xs = ys \<Longrightarrow> (\<And>x. x \<in> set ys \<Longrightarrow> f x = g x) \<Longrightarrow> collect_results f xs = collect_results g ys"
  by (induction xs arbitrary: ys) auto

fun graphql_input_literal :: "json \<Rightarrow> graphql_error + ustring" where
  "graphql_input_literal JNull = Inr (lit ''null'')"
| "graphql_input_literal (JBool b) = Inr (graphql_bool_literal b)"
| "graphql_input_literal (JInt i) = Inr (dec_of_int i)"
| "graphql_input_literal (JFloat t) = Inr t"
| "graphql_input_literal (JStr s) = Inr (graphql_string_literal s)"
| "graphql_input_literal (JArr vs) =
     (if vs = [] then Inr (lit ''null'')
      else bind_res (collect_results graphql_input_literal vs)
             (\<lambda>ts. Inr (lit ''['' @ join_with (lit '', '') ts @ lit '']'')))"
| "graphql_input_literal (JObj m) =
     bind_res (collect_results (\<lambda>kv.
         bind_res (validate_graphql_name (fst kv)) (\<lambda>_.
         bind_res (graphql_input_literal (snd kv)) (\<lambda>t. Inr (fst kv @ lit '': '' @ t)))) m)
       (\<lambda>ts. Inr (lit ''{ '' @ join_with (lit '', '') ts @ lit '' }''))"

definition nullable_string_field :: "ustring \<Rightarrow> ustring option \<Rightarrow> ustring" where
  "nullable_string_field name v =
     (case nonblank v of
        Some s \<Rightarrow> name @ lit '': '' @ graphql_string_literal s
      | None \<Rightarrow> name @ lit '': null'')"

definition optional_graphql_string_field :: "ustring \<Rightarrow> ustring option \<Rightarrow> ustring option" where
  "optional_graphql_string_field name v = map_option (\<lambda>s. name @ lit '': '' @ graphql_string_literal s) (nonblank v)"

definition optional_i64_field :: "ustring \<Rightarrow> int option \<Rightarrow> ustring option" where
  "optional_i64_field name v = map_option (\<lambda>i. name @ lit '': '' @ dec_of_int i) v"

definition optional_bool_field :: "ustring \<Rightarrow> bool option \<Rightarrow> ustring option" where
  "optional_bool_field name v = map_option (\<lambda>b. name @ lit '': '' @ graphql_bool_literal b) v"

definition optional_i64_list_field :: "ustring \<Rightarrow> int list option \<Rightarrow> ustring option" where
  "optional_i64_list_field name v =
     map_option (\<lambda>is. if is = [] then name @ lit '': null''
       else name @ lit '': ['' @ join_with (lit '', '') (map dec_of_int is) @ lit '']'') v"

definition string_list_field :: "ustring \<Rightarrow> ustring list \<Rightarrow> ustring option" where
  "string_list_field name vs =
     Some (if vs = [] then name @ lit '': null'' else name @ lit '': '' @ graphql_string_list_literal vs)"

section \<open>Responses\<close>

definition mutation_doc_id_in :: "json \<Rightarrow> ustring \<Rightarrow> ustring option" where
  "mutation_doc_id_in data field_name =
     or_else (Option.bind (Option.bind (json_get field_name data) (json_get (lit ''_docID''))) json_as_str)
       (Option.bind (Option.bind (Option.bind (Option.bind (json_get field_name data) json_as_array) first_of)
          (json_get (lit ''_docID''))) json_as_str)"

definition extract_mutation_doc_id :: "json \<Rightarrow> ustring \<Rightarrow> graphql_error + ustring" where
  "extract_mutation_doc_id response collection_name =
     bind_res (ok_or (ResponseWithoutData response) (json_get (lit ''data'') response)) (\<lambda>data.
       ok_or (ResponseWithoutDocId collection_name response)
         (fold (\<lambda>verb found. or_else found (mutation_doc_id_in data (lit verb @ collection_name)))
            [''upsert_'', ''update_'', ''create_'', ''add_''] None))"

definition collection_rows :: "json \<Rightarrow> ustring \<Rightarrow> json list option" where
  "collection_rows response collection_name =
     Option.bind (Option.bind (json_get (lit ''data'') response) (json_get collection_name)) json_as_array"

definition first_graphql_row :: "json \<Rightarrow> ustring \<Rightarrow> graphql_error + json" where
  "first_graphql_row response collection_name =
     ok_or (ResponseWithoutRows collection_name) (Option.bind (collection_rows response collection_name) first_of)"

definition graphql_rows_from_response :: "json \<Rightarrow> ustring \<Rightarrow> json list" where
  "graphql_rows_from_response response collection_name =
     (case collection_rows response collection_name of None \<Rightarrow> [] | Some rows \<Rightarrow> rows)"

definition is_collection_missing_error_message :: "ustring \<Rightarrow> ustring \<Rightarrow> bool" where
  "is_collection_missing_error_message collection_name message \<longleftrightarrow>
     str_contains message collection_name \<and> str_contains message (lit ''collection not found'') \<or>
     str_contains message (lit ''Cannot query field '' @ [backslash, quote_mark] @ collection_name @ [backslash, quote_mark]) \<or>
     str_contains message (lit ''Cannot query field '' @ [39] @ collection_name @ [39])"

section \<open>The client\<close>

text \<open>An error of the HTTP client with the tests the code makes on it, and what a post can end with.\<close>

record transport_error =
  te_timeout :: bool
  te_connect :: bool
  te_request :: bool
  te_text :: ustring

datatype post_outcome =
    SendFailed transport_error
  | StatusRejected transport_error
  | BodyUnreadable transport_error
  | Answered json

definition graphql_transport_error_is_retryable :: "transport_error \<Rightarrow> bool" where
  "graphql_transport_error_is_retryable e \<longleftrightarrow>
     te_timeout e \<or> te_connect e \<or> te_request e \<or>
     list_ex (\<lambda>needle. str_contains (te_text e) (lit needle))
       [''connection closed before message completed'', ''connection reset'', ''broken pipe'', ''channel closed'',
        ''unexpected eof'', ''end of file before message length reached'', ''error decoding response body'']"

definition response_errors :: "json \<Rightarrow> json list option" where
  "response_errors v = Option.bind (json_get (lit ''errors'') v) json_as_array"

definition finish_graphql_response :: "json \<Rightarrow> graphql_error + json" where
  "finish_graphql_response v =
     (case response_errors v of
        Some es \<Rightarrow> if es \<noteq> [] then Inl (ResponseErrors es) else Inr v
      | None \<Rightarrow> Inr v)"

definition retryable_graphql_error_text :: "ustring \<Rightarrow> bool" where
  "retryable_graphql_error_text message \<longleftrightarrow>
     (let m = to_ascii_lowercase message in
      str_contains m (lit ''transaction conflict'') \<or> str_contains m (lit ''please retry'') \<or>
      str_contains m (lit ''database is locked''))"

text \<open>\<open>to_text\<close> is \<^verbatim>\<open>serde_json\<close> printing a value.\<close>

definition retryable_graphql_error_message :: "(json \<Rightarrow> ustring) \<Rightarrow> json \<Rightarrow> ustring option" where
  "retryable_graphql_error_message to_text v =
     Option.bind (response_errors v) (\<lambda>es.
       if es = [] then None else opt_filter retryable_graphql_error_text (Some (to_text (JArr es))))"

text \<open>Durations in nanoseconds, at most \<^verbatim>\<open>Duration::MAX\<close>.\<close>

definition scale_backoff :: "nat \<Rightarrow> nat \<Rightarrow> nat" where
  "scale_backoff base attempt =
     min ((2 ^ 64 - 1) * 1000000000 + 999999999) (base * (min (attempt + 1) (2 ^ 64 - 1) mod 2 ^ 32))"

text \<open>The loop over the attempts; \<open>post\<close> sends the document once, \<open>sleep\<close> waits. Both act on a world. Building the
  HTTP client, which comes first, may fail.\<close>

record 'w graphql_client =
  gq_build_error :: "ustring option"
  gq_post :: "'w \<Rightarrow> post_outcome \<times> 'w"
  gq_sleep :: "nat \<Rightarrow> 'w \<Rightarrow> 'w"
  gq_text :: "json \<Rightarrow> ustring"
  gq_max_attempts :: nat
  gq_backoff :: nat

definition post_error :: "post_outcome \<Rightarrow> (json \<Rightarrow> ustring) \<Rightarrow> (graphql_error \<times> bool) option" where
  "post_error out to_text =
     (case out of
        SendFailed e \<Rightarrow> Some (PostFailed (te_text e), graphql_transport_error_is_retryable e)
      | StatusRejected e \<Rightarrow> Some (StatusFailed (te_text e), graphql_transport_error_is_retryable e)
      | BodyUnreadable e \<Rightarrow> Some (BodyFailed (te_text e), graphql_transport_error_is_retryable e)
      | Answered v \<Rightarrow> map_option (\<lambda>m. (RetryableErrors m, True)) (retryable_graphql_error_message to_text v))"

definition attempt_result :: "post_outcome \<Rightarrow> graphql_error \<Rightarrow> graphql_error + json" where
  "attempt_result out e = (case out of Answered v \<Rightarrow> finish_graphql_response v | _ \<Rightarrow> Inl e)"

fun attempts_from :: "'w graphql_client \<Rightarrow> nat \<Rightarrow> nat \<Rightarrow> graphql_error \<Rightarrow> 'w \<Rightarrow> (graphql_error + json) \<times> 'w" where
  "attempts_from C attempt 0 last_error w = (Inl last_error, w)"
| "attempts_from C attempt (Suc left) last_error w =
     (case gq_post C w of (out, w') \<Rightarrow>
        (case post_error out (gq_text C) of
           None \<Rightarrow> (attempt_result out RetriesExhausted, w')
         | Some (e, retryable) \<Rightarrow>
             if retryable \<and> attempt + 1 < gq_max_attempts C
             then attempts_from C (attempt + 1) left e (gq_sleep C (scale_backoff (gq_backoff C) attempt) w')
             else (attempt_result out e, w')))"

definition execute_graphql_async_with_tx :: "'w graphql_client \<Rightarrow> 'w \<Rightarrow> (graphql_error + json) \<times> 'w" where
  "execute_graphql_async_with_tx C w =
     (case gq_build_error C of
        Some e \<Rightarrow> (Inl (ClientFailed e), w)
      | None \<Rightarrow> attempts_from C 0 (max (gq_max_attempts C) 1) RetriesExhausted w)"

text \<open>The blocking client runs the same loop over its own HTTP client, without a transaction header.\<close>

definition execute_graphql_blocking :: "'w graphql_client \<Rightarrow> 'w \<Rightarrow> (graphql_error + json) \<times> 'w" where
  "execute_graphql_blocking C w =
     (case gq_build_error C of
        Some e \<Rightarrow> (Inl (ClientFailed e), w)
      | None \<Rightarrow> attempts_from C 0 (max (gq_max_attempts C) 1) RetriesExhausted w)"

section \<open>The filter probe of the event source\<close>

text \<open>\<^verbatim>\<open>probe_filter\<close> of \<^verbatim>\<open>trigger_engine/event_source.rs\<close>: the query it sends, with the trigger's filter trimmed and
  checked, and the answer it reads. \<open>execute\<close> is the node; it answers with errors or with data, if any.\<close>

definition probe_filter_literal :: "ustring \<Rightarrow> ustring option \<Rightarrow> ustring" where
  "probe_filter_literal source_doc_id user_filter =
     lit ''{ _docID: { _eq: '' @ graphql_string_literal source_doc_id @
     (case user_filter of
        Some f \<Rightarrow> lit '' }, _and: [ '' @ f @ lit '' ] }''
      | None \<Rightarrow> lit '' } }'')"

definition new_line :: "nat \<Rightarrow> ustring" where
  "new_line indent = 10 # replicate indent 32"

definition probe_query :: "ustring \<Rightarrow> ustring \<Rightarrow> ustring" where
  "probe_query source_collection filter_literal =
     lit ''query {'' @ new_line 16 @ source_collection @ lit ''(filter: '' @ filter_literal @ lit '', limit: 1) {'' @
     new_line 20 @ lit ''_docID'' @ new_line 16 @ lit ''}'' @ new_line 12 @ lit ''}''"

definition probe_filter ::
  "(ustring \<Rightarrow> json list + json option) \<Rightarrow> ustring \<Rightarrow> ustring \<Rightarrow> ustring option \<Rightarrow> graphql_error + bool" where
  "probe_filter execute source_doc_id source_collection flt =
     bind_res (validate_collection_identifier source_collection) (\<lambda>_.
     let user_filter = nonblank flt in
     bind_res (case user_filter of Some f \<Rightarrow> validate_graphql_filter_fragment f | None \<Rightarrow> Inr ()) (\<lambda>_.
     case execute (probe_query source_collection (probe_filter_literal source_doc_id user_filter)) of
       Inl es \<Rightarrow> Inl (ResponseErrors es)
     | Inr data \<Rightarrow>
         Inr (case Option.bind (Option.bind data (json_get source_collection)) json_as_array of
                Some rows \<Rightarrow> rows \<noteq> []
              | None \<Rightarrow> False)))"

end
