(* ===== verification/Graphql_Claims.thy ===== *)
theory Graphql_Claims
  imports Graphql_Text
begin

text \<open>
  What text that passes the checks of \<open>Graphql_Text\<close> can do to the document it is spliced into. The yardstick is the
  lexical grammar of the GraphQL specification: strings, block strings and comments hide their contents, everything
  else is code. A splice is harmless when the code it contributes closes only what it has opened itself.
\<close>

section \<open>The lexical grammar\<close>

text \<open>The states between two characters: code, one or two quotation marks after code, inside a string, after a
  backslash there, a comment, and the states of a block string (after quotation marks, after a backslash, after a
  backslash and quotation marks).\<close>

datatype lex_state =
    LCode | LQuote | LQuotes | LString | LEscape | LComment
  | LBlock | LBlockQuote | LBlockQuotes | LBlockEsc | LBlockEscQuote | LBlockEscQuotes

abbreviation is_newline :: "uchar \<Rightarrow> bool" where
  "is_newline c \<equiv> c = 10 \<or> c = 13"

definition code_step :: "uchar \<Rightarrow> (lex_state \<times> ustring) option" where
  "code_step c =
     (if c = quote_mark then Some (LQuote, [])
      else if c = 35 then Some (LComment, [])
      else Some (LCode, [c]))"

definition string_step :: "uchar \<Rightarrow> (lex_state \<times> ustring) option" where
  "string_step c =
     (if is_newline c then None
      else if c = backslash then Some (LEscape, [])
      else if c = quote_mark then Some (LCode, [])
      else Some (LString, []))"

definition block_step :: "uchar \<Rightarrow> lex_state \<times> ustring" where
  "block_step c = (if c = backslash then (LBlockEsc, []) else if c = quote_mark then (LBlockQuote, []) else (LBlock, []))"

fun lex_step :: "lex_state \<Rightarrow> uchar \<Rightarrow> (lex_state \<times> ustring) option" where
  "lex_step LCode c = code_step c"
| "lex_step LQuote c = (if c = quote_mark then Some (LQuotes, []) else string_step c)"
| "lex_step LQuotes c = (if c = quote_mark then Some (LBlock, []) else code_step c)"
| "lex_step LString c = string_step c"
| "lex_step LEscape c = (if is_newline c then None else Some (LString, []))"
| "lex_step LComment c = Some (if is_newline c then LCode else LComment, [])"
| "lex_step LBlock c = Some (block_step c)"
| "lex_step LBlockQuote c = Some (if c = quote_mark then (LBlockQuotes, []) else block_step c)"
| "lex_step LBlockQuotes c = Some (if c = quote_mark then (LCode, []) else block_step c)"
| "lex_step LBlockEsc c = Some (if c = quote_mark then (LBlockEscQuote, []) else block_step c)"
| "lex_step LBlockEscQuote c = Some (if c = quote_mark then (LBlockEscQuotes, []) else block_step c)"
| "lex_step LBlockEscQuotes c = Some (if c = quote_mark then (LBlock, []) else block_step c)"

text \<open>The code characters of a text, and the state after it. A text that is no GraphQL has none.\<close>

fun lex_run :: "lex_state \<Rightarrow> ustring \<Rightarrow> (lex_state \<times> ustring) option" where
  "lex_run s [] = Some (s, [])"
| "lex_run s (c # cs) =
     Option.bind (lex_step s c) (\<lambda>(s', k). map_option (\<lambda>(s'', ks). (s'', k @ ks)) (lex_run s' cs))"

text \<open>Brackets: the stack after code, when it closes only what was opened.\<close>

fun nest :: "uchar list \<Rightarrow> ustring \<Rightarrow> uchar list option" where
  "nest st [] = Some st"
| "nest st (c # cs) =
     (if c \<in> {40, 91, 123} then nest (c # st) cs
      else if c \<in> {41, 93, 125}
      then (case st of
              [] \<Rightarrow> None
            | b # st' \<Rightarrow> if b = (if c = 41 then 40 else if c = 93 then 91 else 123) then nest st' cs else None)
      else nest st cs)"

text \<open>A splice that is one closed piece of code, whatever comes before and after it.\<close>

definition closed_splice :: "ustring \<Rightarrow> bool" where
  "closed_splice t \<longleftrightarrow> (\<exists>k. lex_run LCode t = Some (LCode, k) \<and> nest [] k = Some [])"

lemma lex_run_append:
  "lex_run s (a @ b) = Option.bind (lex_run s a) (\<lambda>(s', k). map_option (\<lambda>(s'', k'). (s'', k @ k')) (lex_run s' b))"
proof (induction a arbitrary: s)
  case Nil
  then show ?case by (cases "lex_run s b") auto
next
  case (Cons c a)
  show ?case
  proof (cases "lex_step s c")
    case (Some x)
    obtain s' k where x: "x = (s', k)" by force
    show ?thesis
      using Some Cons [of s'] x
      by (cases "lex_run s' a") (auto simp: option.map_comp comp_def split_def)
  qed simp
qed

lemma nest_append: "nest st (a @ b) = Option.bind (nest st a) (\<lambda>st'. nest st' b)"
  by (induction st a rule: nest.induct) (auto split: list.splits)

lemma nest_more: "nest st k = Some st' \<Longrightarrow> nest (st @ base) k = Some (st' @ base)"
  by (induction st k arbitrary: st' rule: nest.induct) (auto split: list.splits if_splits)

text \<open>What a closed splice does in a document: it hands on exactly the state before it, and the document around it
  nests as it would without it.\<close>

lemma closed_splice_anywhere:
  assumes "closed_splice t"
  shows "\<exists>k. (\<forall>rest. lex_run LCode (t @ rest) = map_option (\<lambda>(s, ks). (s, k @ ks)) (lex_run LCode rest)) \<and>
    (\<forall>st ks. nest st (k @ ks) = nest st ks)"
proof -
  from assms obtain k where k: "lex_run LCode t = Some (LCode, k)" "nest [] k = Some []"
    by (auto simp: closed_splice_def)
  then have "nest st k = Some st" for st using nest_more [of "[]" k "[]" st] by simp
  with k show ?thesis
    by (intro exI [of _ k]) (auto simp: lex_run_append nest_append)
qed

section \<open>Filter fragments\<close>

text \<open>The quotation marks a state has just seen, and how the state of the check follows the lexer.\<close>

definition pending_quotes :: "lex_state \<Rightarrow> ustring" where
  "pending_quotes s = (if s = LQuote then [quote_mark] else if s = LQuotes then [quote_mark, quote_mark] else [])"

abbreviation triple_quote :: ustring where
  "triple_quote \<equiv> [quote_mark, quote_mark, quote_mark]"

definition scan_follows :: "filter_scan \<Rightarrow> lex_state \<Rightarrow> bool" where
  "scan_follows s l \<longleftrightarrow>
     (fs_stack s \<noteq> [] \<or> fs_closed s) \<and>
     (fs_closed s \<longrightarrow> fs_stack s = [] \<and> \<not> fs_in_string s \<and> l = LCode) \<and>
     (if fs_in_string s then (if fs_escaped s then l = LEscape else l \<in> {LQuote, LString})
      else \<not> fs_escaped s \<and> l \<in> {LCode, LQuotes})"

text \<open>Characters that neither open nor close anything.\<close>

definition plain_code :: "uchar \<Rightarrow> bool" where
  "plain_code c \<longleftrightarrow> c \<noteq> quote_mark \<and> c \<noteq> 35 \<and> c \<notin> {40, 41, 91, 93, 123, 125}"

lemma ws_plain: "is_ws c \<Longrightarrow> plain_code c"
  by (auto simp: is_ws_def plain_code_def)

lemma alnum_plain: "is_ascii_alphanumeric c \<Longrightarrow> plain_code c"
  by (auto simp: is_ascii_alphanumeric_def is_ascii_alphabetic_def plain_code_def)

lemma plain_is_code:
  "list_all plain_code t \<Longrightarrow> lex_run LCode t = Some (LCode, t) \<and> nest st t = Some st"
  by (induction t) (auto simp: code_step_def plain_code_def)

text \<open>One character of code: the lexer emits it, and brackets act on the stack as the check says.\<close>

lemma code_state:
  "scan_follows s l \<Longrightarrow> \<not> fs_in_string s \<Longrightarrow> \<not> fs_escaped s \<and> (l = LCode \<or> l = LQuotes)"
  unfolding scan_follows_def by (metis insert_iff singletonD)

lemma code_emits: "l = LCode \<or> l = LQuotes \<Longrightarrow> c \<noteq> quote_mark \<Longrightarrow> c \<noteq> 35 \<Longrightarrow> lex_step l c = Some (LCode, [c])"
  by (elim disjE) (simp_all add: code_step_def)

lemma filter_char_opens:
  assumes "filter_char i c s = Inr s'" and "\<not> fs_in_string s" and "c = 123 \<or> c = 91"
  shows "s' = s\<lparr>fs_stack := c # fs_stack s\<rparr> \<and> \<not> fs_closed s"
  using assms(3,1,2) by (elim disjE) (simp_all add: filter_char_def is_ws_def split: if_splits)

lemma filter_char_closes:
  assumes "filter_char i c s = Inr s'" and "\<not> fs_in_string s" and "c = 125 \<or> c = 93"
  shows "\<exists>rest. fs_stack s = (if c = 125 then 123 else 91) # rest \<and>
    s' = s\<lparr>fs_stack := rest, fs_closed := fs_closed s \<or> rest = []\<rparr>"
  using assms(3,1,2) by (elim disjE) (simp_all add: filter_char_def split: if_splits list.splits)

lemma filter_char_passes:
  assumes "filter_char i c s = Inr s'" and "\<not> fs_in_string s" and "c \<noteq> quote_mark"
    and c: "c \<notin> {123, 91}" "c \<notin> {125, 93}"
  shows "s' = s \<and> plain_code c"
proof -
  define plain where "plain = (c \<in> {58, 44} \<or> is_ascii_alphanumeric c \<or> c = 95 \<or> c \<in> {45, 43, 46} \<or> is_ws c)"
  have "filter_char i c s = (if fs_closed s \<and> \<not> is_ws c then Inl FilterTrailing
      else if plain then Inr s else Inl (FilterBadChar c i))"
    unfolding filter_char_def plain_def [symmetric] by (simp only: c assms(2,3) if_False not_False_eq_True)
  then have s': "s' = s" and plain using assms(1) by (simp_all split: if_splits)
  from \<open>plain\<close> have "plain_code c"
    unfolding plain_def using ws_plain alnum_plain by (elim disjE) (auto simp: plain_code_def)
  with s' show ?thesis by simp
qed

lemma nest_step:
  "c = 123 \<or> c = 91 \<Longrightarrow> nest st [c] = Some (c # st)"
  "c = 125 \<or> c = 93 \<Longrightarrow> nest ((if c = 125 then 123 else 91) # st) [c] = Some st"
  "plain_code c \<Longrightarrow> c \<noteq> 35 \<and> nest st [c] = Some st"
  by (auto simp: plain_code_def)

lemma scan_follows_codeI:
  "\<not> fs_in_string s \<Longrightarrow> \<not> fs_escaped s \<Longrightarrow> fs_closed s = (fs_stack s = []) \<Longrightarrow> scan_follows s LCode"
  by (simp add: scan_follows_def)

lemma scan_follows_closed: "scan_follows s l \<Longrightarrow> fs_closed s = (fs_stack s = [])"
  unfolding scan_follows_def by blast

lemma filter_char_code:
  assumes step: "filter_char i c s = Inr s'" and follows: "scan_follows s l"
    and code: "\<not> fs_in_string s" and c: "c \<noteq> quote_mark"
  shows "lex_step l c = Some (LCode, [c]) \<and> scan_follows s' LCode \<and> nest (fs_stack s) [c] = Some (fs_stack s')"
proof -
  note state = code_state [OF follows code] and closed = scan_follows_closed [OF follows]
  have "c \<noteq> 35 \<and> scan_follows s' LCode \<and> nest (fs_stack s) [c] = Some (fs_stack s')"
  proof -
    consider "c = 123 \<or> c = 91" | "c = 125 \<or> c = 93" | "c \<notin> {123, 91}" "c \<notin> {125, 93}"
      by blast
    then show ?thesis
    proof cases
      case 1
      from filter_char_opens [OF step code 1] state code have "scan_follows s' LCode"
        by (intro scan_follows_codeI) simp_all
      with filter_char_opens [OF step code 1] nest_step(1) [OF 1] 1 show ?thesis by force
    next
      case 2
      from filter_char_closes [OF step code 2] obtain rest where
        st: "fs_stack s = (if c = 125 then 123 else 91) # rest" and
        s': "s' = s\<lparr>fs_stack := rest, fs_closed := fs_closed s \<or> rest = []\<rparr>" by blast
      with closed state code have "scan_follows s' LCode" by (intro scan_follows_codeI) simp_all
      with st s' nest_step(2) [OF 2] 2 show ?thesis by force
    next
      case 3
      from filter_char_passes [OF step code c 3] have "s' = s" "c \<noteq> 35" "nest (fs_stack s) [c] = Some (fs_stack s)"
        using nest_step(3) by blast+
      with scan_follows_codeI [of s] state code closed show ?thesis by blast
    qed
  qed
  with code_emits [OF conjunct2 [OF state] c] show ?thesis by blast
qed

lemma string_step_cases:
  "string_step c = None \<or> c = backslash \<and> string_step c = Some (LEscape, []) \<or>
   c = quote_mark \<and> string_step c = Some (LCode, []) \<or>
   c \<noteq> backslash \<and> c \<noteq> quote_mark \<and> string_step c = Some (LString, [])"
  by (simp add: string_step_def)

lemma filter_char_string:
  assumes "filter_char i c s = Inr s'" and "scan_follows s l" and "fs_in_string s" and "\<not> fs_escaped s"
    and "l = LString \<or> c \<noteq> quote_mark"
  shows "lex_step l c = None \<or> (\<exists>l'. lex_step l c = Some (l', []) \<and> scan_follows s' l' \<and> fs_stack s' = fs_stack s)"
proof -
  from assms(2-5) have step: "lex_step l c = string_step c" and st: "fs_stack s \<noteq> []" "\<not> fs_closed s"
    by (auto simp: scan_follows_def)
  from assms(1,3,4) have s': "s' = (if c = backslash then s\<lparr>fs_escaped := True\<rparr>
      else if c = quote_mark then s\<lparr>fs_in_string := False\<rparr> else s)"
    by (simp add: filter_char_def)
  from string_step_cases [of c] show ?thesis
    unfolding step s' using st assms(3,4) by (elim disjE conjE) (simp_all add: scan_follows_def)
qed

lemma filter_char_text:
  assumes "filter_char i c s = Inr s'" and "scan_follows s l" and "fs_in_string s \<or> c = quote_mark"
    and "\<not> str_contains (pending_quotes l @ [c]) triple_quote"
  shows "lex_step l c = None \<or> (\<exists>l'. lex_step l c = Some (l', []) \<and> scan_follows s' l' \<and> fs_stack s' = fs_stack s)"
proof -
  consider "\<not> fs_in_string s" "c = quote_mark" | "fs_in_string s" "fs_escaped s"
    | "fs_in_string s" "\<not> fs_escaped s" "l = LQuote" "c = quote_mark"
    | "fs_in_string s" "\<not> fs_escaped s" "l = LString \<or> c \<noteq> quote_mark"
    using assms(2,3) unfolding scan_follows_def by (metis insert_iff singletonD)
  then show ?thesis
  proof cases
    case 1
    with assms(1) have "\<not> fs_closed s" "s' = s\<lparr>fs_in_string := True\<rparr>"
      by (simp_all add: filter_char_def is_ws_def split: if_splits)
    moreover have "l = LCode"
      using code_state [OF assms(2) 1(1)] assms(4) 1(2) by (auto simp: pending_quotes_def starts_with_def)
    ultimately show ?thesis
      using assms(2) 1 by (simp add: scan_follows_def code_step_def)
  next
    case 2
    with assms(1) have "s' = s\<lparr>fs_escaped := False\<rparr>" by (simp add: filter_char_def)
    with 2 assms(2) show ?thesis by (auto simp: scan_follows_def)
  next
    case 3
    with assms(1) have "s' = s\<lparr>fs_in_string := False\<rparr>" by (simp add: filter_char_def)
    with 3 assms(2) show ?thesis by (auto simp: scan_follows_def)
  next
    case 4
    from filter_char_string [OF assms(1,2) 4] show ?thesis .
  qed
qed

lemma str_contains_iff: "str_contains s p \<longleftrightarrow> sublist p s"
  by (induction s) (auto simp: starts_with_iff sublist_Cons_right)

lemma pending_step:
  assumes "lex_step l c = Some (l', k)"
  shows "suffix (pending_quotes l') (pending_quotes l @ [c]) \<or> pending_quotes l' = []"
  using assms
  by (cases l) (auto simp: pending_quotes_def code_step_def string_step_def block_step_def suffix_def split: if_splits)

lemma quiet_step:
  assumes "lex_step l c = Some (l', k)" and "\<not> str_contains (pending_quotes l @ c # cs) triple_quote"
  shows "\<not> str_contains (pending_quotes l' @ cs) triple_quote"
proof -
  have "suffix (pending_quotes l' @ cs) (pending_quotes l @ c # cs)"
    using pending_step [OF assms(1)] by (auto simp: suffix_def)
  with assms(2) show ?thesis
    unfolding str_contains_iff by (metis sublist_order.order.trans suffix_imp_sublist)
qed

lemma filter_chars_follow:
  assumes "filter_chars i cs s = Inr s'" and "scan_follows s l"
    and "\<not> str_contains (pending_quotes l @ cs) triple_quote" and "lex_run l cs \<noteq> None"
  shows "\<exists>l' k. lex_run l cs = Some (l', k) \<and> scan_follows s' l' \<and> nest (fs_stack s) k = Some (fs_stack s')"
  using assms
proof (induction i cs s arbitrary: l rule: filter_chars.induct)
  case (2 i c cs s)
  from 2(2) obtain s1 where s1: "filter_char i c s = Inr s1" "filter_chars (i + utf8_width c) cs s1 = Inr s'"
    by (auto elim: bind_resE)
  have quiet: "\<not> str_contains (pending_quotes l @ [c]) triple_quote"
    using 2(4) sublist_append_rightI [of "pending_quotes l @ [c]" cs] sublist_order.order.trans
    unfolding str_contains_iff by fastforce
  from 2(5) have step: "lex_step l c \<noteq> None" by (cases "lex_step l c") auto
  have "\<exists>l1 k1. lex_step l c = Some (l1, k1) \<and> scan_follows s1 l1 \<and> nest (fs_stack s) k1 = Some (fs_stack s1)"
  proof (cases "fs_in_string s \<or> c = quote_mark")
    case True
    with filter_char_text [OF s1(1) 2(3) _ quiet] step show ?thesis by fastforce
  next
    case False
    with filter_char_code [OF s1(1) 2(3)] show ?thesis by blast
  qed
  then obtain l1 k1 where l1: "lex_step l c = Some (l1, k1)" "scan_follows s1 l1" "nest (fs_stack s) k1 = Some (fs_stack s1)"
    by blast
  have "lex_run l1 cs \<noteq> None" using 2(5) l1(1) by (cases "lex_run l1 cs") auto
  from 2(1) [OF s1(2) l1(2) quiet_step [OF l1(1) 2(4)] this] obtain l' k
    where "lex_run l1 cs = Some (l', k)" "scan_follows s' l'" "nest (fs_stack s1) k = Some (fs_stack s')"
    by blast
  with l1 show ?case by (auto simp: nest_append)
qed auto

lemma whitespace_is_code: "list_all is_ws ws \<Longrightarrow> lex_run LCode ws = Some (LCode, ws) \<and> nest st ws = Some st"
  using plain_is_code ws_plain by (metis list_all_iff)

lemma trim_decompose: "\<exists>a b. s = a @ trim s @ b \<and> list_all is_ws a \<and> list_all is_ws b"
proof -
  define m where "m = dropWhile is_ws s"
  have "s = takeWhile is_ws s @ m" by (simp add: m_def)
  moreover have "m = trim_end m @ rev (takeWhile is_ws (rev m))"
    unfolding trim_end_def by (metis rev_append rev_rev_ident takeWhile_dropWhile_id)
  ultimately have "s = takeWhile is_ws s @ trim s @ rev (takeWhile is_ws (rev m))"
    by (simp add: trim_def trim_start_def m_def [symmetric])
  moreover have "list_all is_ws (takeWhile is_ws xs)" for xs
    by (simp add: list_all_iff) (metis set_takeWhileD)
  ultimately show ?thesis by (metis list_all_rev)
qed

lemma filter_fragment_scans:
  assumes "validate_graphql_filter_fragment f = Inr ()"
  shows "\<exists>cs s. trim f = 123 # cs \<and>
    filter_chars 1 cs \<lparr>fs_stack = [123], fs_in_string = False, fs_escaped = False, fs_closed = False\<rparr> = Inr s \<and>
    \<not> fs_in_string s \<and> fs_stack s = []"
proof -
  from assms obtain cs where cs: "trim f = 123 # cs"
    by (cases "trim f") (auto simp: validate_graphql_filter_fragment_def Let_def starts_with_def lit_def split: if_splits)
  with assms show ?thesis
    by (auto simp: validate_graphql_filter_fragment_def Let_def filter_start_def filter_char_def utf8_width_def
        elim!: bind_resE split: if_splits)
qed

text \<open>A fragment that is lexically GraphQL and writes no block string is one closed piece of code.\<close>

lemma filter_fragment_closed:
  assumes "validate_graphql_filter_fragment f = Inr ()" and "\<not> str_contains f triple_quote" and "lex_run LCode f \<noteq> None"
  shows "closed_splice f"
proof -
  from filter_fragment_scans [OF assms(1)] obtain cs s where cs: "trim f = 123 # cs" and
    scan: "filter_chars 1 cs \<lparr>fs_stack = [123], fs_in_string = False, fs_escaped = False, fs_closed = False\<rparr> = Inr s"
      "\<not> fs_in_string s" "fs_stack s = []"
    by blast
  obtain a b where f: "f = a @ 123 # cs @ b" and ws: "list_all is_ws a" "list_all is_ws b"
    using trim_decompose [of f] cs by auto
  note a = whitespace_is_code [OF ws(1), of "[]"] and b = whitespace_is_code [OF ws(2), of "[]"]
  have runs: "lex_run LCode cs \<noteq> None"
    using assms(3) a by (cases "lex_run LCode cs") (simp_all add: f lex_run_append code_step_def)
  have "sublist cs f" unfolding f sublist_def by (intro exI [of _ "a @ [123]"] exI [of _ b]) simp
  with assms(2) have "\<not> str_contains (pending_quotes LCode @ cs) triple_quote"
    unfolding str_contains_iff pending_quotes_def using sublist_order.order.trans by auto
  from filter_chars_follow [OF scan(1) _ this runs] obtain l k where
    k: "lex_run LCode cs = Some (l, k)" "scan_follows s l" "nest [123] k = Some []"
    using scan(3) by (auto simp: scan_follows_def)
  with scan(2,3) have "l = LCode" by (simp add: scan_follows_def)
  with k a b show ?thesis
    unfolding closed_splice_def f by (simp add: lex_run_append nest_append code_step_def)
qed

text \<open>A fragment with a block string, and what it leaves behind: the closing brackets of the query around it.\<close>

definition break_out_fragment :: ustring where
  "break_out_fragment = lit ''{a:'' @ triple_quote @ lit ''x'' @ [quote_mark] @ lit ''y'' @ triple_quote @
     lit ''}]}){_docID}S(filter:{_and:[{b:1#'' @ [quote_mark, 10] @ lit ''}''"

section \<open>Literals\<close>

lemma escaped_char_in_string:
  "lex_run LString (escape_graphql_char c) = Some (LString, [])" "lex_run LQuote (escape_graphql_char c) = Some (LString, [])"
  by (simp_all add: escape_graphql_char_def string_step_def)

lemma escaped_in_string: "lex_run LString (escape_graphql_string v) = Some (LString, [])"
  by (induction v) (simp_all add: escape_graphql_string_def lex_run_append escaped_char_in_string)

lemma string_literal_lexes:
  "lex_run LCode (graphql_string_literal v) = Some (if v = [] then LQuotes else LCode, [])"
proof (cases v)
  case (Cons c cs)
  then show ?thesis
    using escaped_in_string [of cs]
    by (simp add: graphql_string_literal_def escape_graphql_string_def lex_run_append escaped_char_in_string
        code_step_def string_step_def)
qed (simp add: graphql_string_literal_def escape_graphql_string_def code_step_def)

text \<open>The value of the characters between the quotation marks of a string, by the escapes of the GraphQL specification.
  The Unicode escapes, which the code never writes, are left out.\<close>

fun string_value :: "ustring \<Rightarrow> ustring option" where
  "string_value [] = Some []"
| "string_value [c] = (if c = backslash \<or> c = quote_mark \<or> is_newline c then None else Some [c])"
| "string_value (c # d # cs) =
     (if c = backslash
      then Option.bind (map_of [(34, 34), (92, 92), (47, 47), (98, 8), (102, 12), (110, 10), (114, 13), (116, 9)] d)
             (\<lambda>e. map_option ((#) e) (string_value cs))
      else if c = quote_mark \<or> is_newline c then None
      else map_option ((#) c) (string_value (d # cs)))"

lemma string_value_plain:
  "c \<noteq> backslash \<Longrightarrow> c \<noteq> quote_mark \<Longrightarrow> \<not> is_newline c \<Longrightarrow> string_value (c # cs) = map_option ((#) c) (string_value cs)"
  by (cases cs) simp_all

lemma string_value_escaped: "string_value (escape_graphql_char c @ cs) = map_option ((#) c) (string_value cs)"
  by (cases "string_value cs") (simp_all add: escape_graphql_char_def string_value_plain)

lemma string_value_escape: "string_value (escape_graphql_string v) = Some v"
  by (induction v) (simp_all add: escape_graphql_string_def string_value_escaped)

text \<open>A rendered value: closed code, or closed code that ends in an empty string, whose quotation marks must not be
  followed by another one.\<close>

definition sealed :: "ustring \<Rightarrow> bool" where
  "sealed t \<longleftrightarrow> (\<exists>l k. lex_run LCode t = Some (l, k) \<and> (l = LCode \<or> l = LQuotes) \<and> nest [] k = Some [])"

lemma sealed_plain: "list_all plain_code t \<Longrightarrow> sealed t"
  using plain_is_code [of t "[]"] by (auto simp: sealed_def)

lemma sealed_literal: "sealed (graphql_string_literal v)"
  by (simp add: sealed_def string_literal_lexes)

lemma after_sealed:
  assumes "l = LCode \<or> l = LQuotes" and "list_all plain_code sep" and "sep \<noteq> []"
  shows "lex_run l (sep @ rest) = map_option (\<lambda>(s, ks). (s, sep @ ks)) (lex_run LCode rest)"
proof -
  obtain c cs where sep: "sep = c # cs" using assms(3) by (cases sep) auto
  then have "lex_step l c = Some (LCode, [c])"
    using assms(1,2) by (intro code_emits) (simp_all add: plain_code_def)
  with plain_is_code [of cs "[]"] assms(2) show ?thesis
    by (cases "lex_run LCode rest") (auto simp: sep lex_run_append)
qed

lemma sealed_append:
  assumes "sealed a" and "sealed b" and "list_all plain_code sep" and "sep \<noteq> []"
  shows "sealed (a @ sep @ b)"
proof -
  from assms(1) obtain l k where k: "lex_run LCode a = Some (l, k)" "l = LCode \<or> l = LQuotes" "nest [] k = Some []"
    by (auto simp: sealed_def)
  from assms(2) obtain l' k' where k': "lex_run LCode b = Some (l', k')" "l' = LCode \<or> l' = LQuotes" "nest [] k' = Some []"
    by (auto simp: sealed_def)
  from after_sealed [OF k(2) assms(3,4), of b] k k' plain_is_code [OF assms(3), of "[]"]
  have "lex_run LCode (a @ sep @ b) = Some (l', k @ sep @ k')" "nest [] (k @ sep @ k') = Some []"
    by (simp_all add: lex_run_append nest_append)
  with k'(2) show ?thesis by (auto simp: sealed_def)
qed

lemma sealed_join:
  "list_all sealed ts \<Longrightarrow> list_all plain_code sep \<Longrightarrow> sep \<noteq> [] \<Longrightarrow> sealed (join_with sep ts)"
proof (induction ts)
  case (Cons t ts)
  then show ?case using sealed_append by (simp add: join_with_Cons)
qed (simp add: sealed_def)

lemma sealed_in_brackets:
  assumes "sealed t" and "list_all plain_code p"
    and b: "b = 91 \<and> e = 93 \<or> b = 123 \<and> e = 125"
  shows "closed_splice ([b] @ p @ t @ p @ [e])"
proof -
  from assms(1) obtain l k where k: "lex_run LCode t = Some (l, k)" "l = LCode \<or> l = LQuotes" "nest [] k = Some []"
    by (auto simp: sealed_def)
  have p: "lex_run LCode p = Some (LCode, p)" "\<And>st. nest st p = Some st"
    using plain_is_code [OF assms(2)] by auto
  have "lex_step l e = Some (LCode, [e])" "lex_step LCode b = Some (LCode, [b])"
    using b k(2) by (intro code_emits; auto)+
  moreover from this after_sealed [OF k(2) assms(2), of "[e]"] b
  have "lex_run l (p @ [e]) = Some (LCode, p @ [e])" by (cases "p = []") (auto simp: code_step_def)
  ultimately have "lex_run LCode ([b] @ p @ t @ p @ [e]) = Some (LCode, [b] @ p @ k @ p @ [e])"
    using k(1) p(1) by (simp add: lex_run_append)
  moreover have "nest [] ([b] @ p @ k @ p @ [e]) = Some []"
    using nest_more [OF k(3), of "[b]"] p(2) b by (auto simp: nest_append)
  ultimately show ?thesis by (auto simp: closed_splice_def)
qed

lemma closed_sealed: "closed_splice t \<Longrightarrow> sealed t"
  by (auto simp: closed_splice_def sealed_def)

text \<open>The floats of a JSON value, as \<^verbatim>\<open>serde_json\<close> prints them, and the characters it prints them with.\<close>

fun json_floats :: "json \<Rightarrow> ustring list" where
  "json_floats (JFloat t) = [t]"
| "json_floats (JArr vs) = concat (map json_floats vs)"
| "json_floats (JObj m) = concat (map (\<lambda>kv. json_floats (snd kv)) m)"
| "json_floats _ = []"

definition number_text :: "ustring \<Rightarrow> bool" where
  "number_text t \<longleftrightarrow> list_all (\<lambda>c. 48 \<le> c \<and> c \<le> 57 \<or> c \<in> {43, 45, 46, 69, 101}) t"

lemma number_text_plain: "number_text t \<Longrightarrow> list_all plain_code t"
  by (auto simp: number_text_def list_all_iff plain_code_def)

lemma dec_of_int_plain: "list_all plain_code (dec_of_int i)"
proof -
  have "list_all plain_code (dec_of_nat n)" for n
    by (rule number_text_plain) (auto simp: number_text_def list_all_iff dest: dec_of_nat_digits)
  then show ?thesis by (simp add: dec_of_int_def lit_def plain_code_def)
qed

lemma valid_name_plain: "validate_graphql_name name = Inr () \<Longrightarrow> list_all plain_code name"
proof -
  assume "validate_graphql_name name = Inr ()"
  then have "List.find (\<lambda>c. \<not> is_ascii_alphanumeric c \<and> c \<noteq> 95) name = None"
    by (auto simp: validate_graphql_name_def split: list.splits if_splits option.splits)
  then have "is_ascii_alphanumeric c \<or> c = 95" if "c \<in> set name" for c
    using that by (auto simp: find_None_iff)
  then show ?thesis using alnum_plain unfolding list_all_iff plain_code_def by fastforce
qed

lemma collect_results_all:
  "collect_results f xs = Inr ys \<Longrightarrow> (\<And>x y. x \<in> set xs \<Longrightarrow> f x = Inr y \<Longrightarrow> P y) \<Longrightarrow> list_all P ys"
proof (induction xs arbitrary: ys)
  case (Cons x xs)
  from Cons(2) obtain z zs where "f x = Inr z" "collect_results f xs = Inr zs" "ys = z # zs" by (auto elim!: bind_resE)
  with Cons(1) Cons(3) show ?case by (metis list.set_intros list.pred_inject(2))
qed simp

lemma separators_plain: "list_all plain_code (lit '', '')" "list_all plain_code (lit '': '')" "list_all plain_code (lit '' '')"
  by (simp_all add: lit_def plain_code_def)

lemma keyed_value_sealed:
  assumes "validate_graphql_name k = Inr ()" and "sealed t"
  shows "sealed (k @ lit '': '' @ t)"
  using sealed_append [OF sealed_plain [OF valid_name_plain [OF assms(1)]] assms(2) separators_plain(2)]
  by (simp add: lit_def)

lemma input_literal_sealed:
  assumes "graphql_input_literal v = Inr t" and "list_all number_text (json_floats v)"
  shows "sealed t"
  using assms
proof (induction v arbitrary: t rule: graphql_input_literal.induct)
  case (6 vs)
  show ?case
  proof (cases "vs = []")
    case True
    with 6 show ?thesis by (auto intro!: sealed_plain simp: lit_def plain_code_def)
  next
    case False
    with 6(2) obtain ts where ts: "collect_results graphql_input_literal vs = Inr ts"
      and t: "t = lit ''['' @ join_with (lit '', '') ts @ lit '']''"
      by (auto elim!: bind_resE)
    have "list_all sealed ts"
      using 6(1) [OF False] 6(3) by (intro collect_results_all [OF ts]) (auto simp: list_all_iff)
    then have "sealed (join_with (lit '', '') ts)" by (intro sealed_join separators_plain) (simp_all add: lit_def)
    from sealed_in_brackets [OF this, of "[]" 91 93] show ?thesis
      by (intro closed_sealed) (simp add: t lit_def)
  qed
next
  case (7 m)
  from 7(2) obtain ts where ts: "collect_results (\<lambda>kv.
      bind_res (validate_graphql_name (fst kv)) (\<lambda>_.
      bind_res (graphql_input_literal (snd kv)) (\<lambda>t. Inr (fst kv @ lit '': '' @ t)))) m = Inr ts"
    and t: "t = lit ''{ '' @ join_with (lit '', '') ts @ lit '' }''"
    by (auto elim!: bind_resE)
  have "list_all sealed ts"
    using 7(1) 7(3) by (intro collect_results_all [OF ts]) (auto simp: list_all_iff elim!: bind_resE intro!: keyed_value_sealed)
  then have "sealed (join_with (lit '', '') ts)" by (intro sealed_join separators_plain) (simp_all add: lit_def)
  from sealed_in_brackets [OF this separators_plain(3), of 123 125] show ?case
    by (intro closed_sealed) (simp add: t lit_def)
next
  case (4 x)
  then show ?case by (auto intro!: sealed_plain number_text_plain)
qed (auto simp: lit_def graphql_bool_literal_def plain_code_def sealed_literal
      intro!: sealed_plain dec_of_int_plain split: if_splits)

section \<open>The retry loop\<close>

text \<open>The outcomes of a run of posts, with a sleep between any two.\<close>

inductive client_run :: "'w graphql_client \<Rightarrow> 'w \<Rightarrow> post_outcome list \<Rightarrow> 'w \<Rightarrow> bool" for C where
  run_last: "gq_post C w = (out, w') \<Longrightarrow> client_run C w [out] w'"
| run_more: "gq_post C w = (out, w') \<Longrightarrow> client_run C (gq_sleep C d w') outs w'' \<Longrightarrow> client_run C w (out # outs) w''"

abbreviation may_retry :: "'w graphql_client \<Rightarrow> post_outcome \<Rightarrow> bool" where
  "may_retry C out \<equiv> (\<exists>e. post_error out (gq_text C) = Some (e, True))"

definition accepted :: "post_outcome \<Rightarrow> json \<Rightarrow> bool" where
  "accepted out v \<longleftrightarrow> out = Answered v \<and> response_errors v \<in> {None, Some []}"

lemma attempt_result_accepts: "attempt_result out e = Inr v \<longleftrightarrow> accepted out v"
  by (auto simp: attempt_result_def accepted_def finish_graphql_response_def split: post_outcome.splits option.splits)

lemma attempts_run:
  assumes "attempts_from C attempt (Suc left) e w = (r, w')" and "attempt + Suc left = max (gq_max_attempts C) 1"
  shows "\<exists>outs. client_run C w outs w' \<and> length outs \<le> Suc left \<and> list_all (may_retry C) (butlast outs) \<and>
    (may_retry C (last outs) \<longrightarrow> length outs = Suc left) \<and> (\<forall>v. r = Inr v \<longleftrightarrow> accepted (last outs) v)"
  using assms
proof (induction left arbitrary: attempt e w)
  case 0
  obtain out w1 where post: "gq_post C w = (out, w1)" by force
  from 0(2) have "\<not> attempt + 1 < gq_max_attempts C" by simp
  with 0(1) post have "w' = w1" "\<exists>e. r = attempt_result out e" by (auto split: option.splits prod.splits)
  with post attempt_result_accepts show ?case by (intro exI [of _ "[out]"]) (auto intro: run_last)
next
  case (Suc left)
  obtain out w1 where post: "gq_post C w = (out, w1)" by force
  show ?case
  proof (cases "may_retry C out")
    case True
    then obtain e' where e': "post_error out (gq_text C) = Some (e', True)" by blast
    from Suc(3) have more: "attempt + 1 < gq_max_attempts C" by simp
    with Suc(2) post e' have "attempts_from C (attempt + 1) (Suc left) e' (gq_sleep C (scale_backoff (gq_backoff C) attempt) w1) = (r, w')"
      by simp
    from Suc(1) [OF this] Suc(3) obtain outs where outs: "client_run C (gq_sleep C (scale_backoff (gq_backoff C) attempt) w1) outs w'"
      "length outs \<le> Suc left" "list_all (may_retry C) (butlast outs)"
      "may_retry C (last outs) \<longrightarrow> length outs = Suc left" "\<forall>v. r = Inr v \<longleftrightarrow> accepted (last outs) v"
      by auto
    then have "outs \<noteq> []" by (auto elim: client_run.cases)
    with outs True show ?thesis
      by (intro exI [of _ "out # outs"]) (simp add: run_more [OF post])
  next
    case False
    with Suc(2) post have "w' = w1" "\<exists>e. r = attempt_result out e" by (auto split: option.splits prod.splits if_splits)
    with post False attempt_result_accepts show ?thesis by (intro exI [of _ "[out]"]) (auto intro: run_last)
  qed
qed

section \<open>Properties\<close>

lemma lex_code_text:
  assumes "l = LCode \<or> l = LQuotes" and "quote_mark \<notin> set a" and "35 \<notin> set a" and "a \<noteq> []"
  shows "lex_run l (a @ rest) = map_option (\<lambda>(s, ks). (s, a @ ks)) (lex_run LCode rest)"
proof -
  have run: "lex_run LCode b = Some (LCode, b)" if "quote_mark \<notin> set b" "35 \<notin> set b" for b
    using that by (induction b) (auto simp: code_step_def)
  obtain c cs where a: "a = c # cs" using assms(4) by (cases a) auto
  then have "lex_step l c = Some (LCode, [c])" using assms by (intro code_emits) auto
  with run [of cs] assms(2,3) show ?thesis
    by (cases "lex_run LCode rest") (auto simp: a lex_run_append)
qed

lemma lex_string_literal:
  "\<exists>l. (l = LCode \<or> l = LQuotes) \<and> (\<forall>rest. lex_run LCode (graphql_string_literal v @ rest) = lex_run l rest)"
proof (intro exI [of _ "if v = [] then LQuotes else LCode"] conjI allI)
  fix rest
  show "lex_run LCode (graphql_string_literal v @ rest) = lex_run (if v = [] then LQuotes else LCode) rest"
    by (simp add: lex_run_append string_literal_lexes option.map_ident split_def)
qed simp

lemma probe_query_code:
  assumes c: "validate_graphql_name c = Inr ()" and f: "lex_run LCode f = Some (LCode, k)"
  shows "lex_run LCode (probe_query c (probe_filter_literal doc (Some f))) =
    Some (LCode, lit ''query {'' @ new_line 16 @ c @ lit ''(filter: { _docID: { _eq: '' @ lit '' }, _and: [ '' @ k @
      lit '' ] }, limit: 1) {'' @ new_line 20 @ lit ''_docID'' @ new_line 16 @ lit ''}'' @ new_line 12 @ lit ''}'')"
proof -
  obtain l where l: "l = LCode \<or> l = LQuotes" "\<And>rest. lex_run LCode (graphql_string_literal doc @ rest) = lex_run l rest"
    using lex_string_literal by blast
  define tail where "tail = lit '' ] }, limit: 1) {'' @ new_line 20 @ lit ''_docID'' @ new_line 16 @ lit ''}'' @ new_line 12 @ lit ''}''"
  define head where "head = lit ''query {'' @ new_line 16 @ c @ lit ''(filter: { _docID: { _eq: ''"
  have quiet: "quote_mark \<notin> set c" "35 \<notin> set c"
    using valid_name_plain [OF c] by (auto simp: list_all_iff plain_code_def)
  have query: "probe_query c (probe_filter_literal doc (Some f)) = head @ graphql_string_literal doc @ lit '' }, _and: [ '' @ f @ tail"
    by (simp add: probe_query_def probe_filter_literal_def head_def tail_def lit_def)
  have head: "lex_run LCode (head @ rest) = map_option (\<lambda>(s, ks). (s, head @ ks)) (lex_run LCode rest)" for rest
    using quiet by (intro lex_code_text) (auto simp: head_def lit_def new_line_def)
  have mid: "lex_run l (lit '' }, _and: [ '' @ rest) = map_option (\<lambda>(s, ks). (s, lit '' }, _and: [ '' @ ks)) (lex_run LCode rest)" for rest
    by (intro lex_code_text l(1)) (auto simp: lit_def)
  have tail: "lex_run LCode tail = Some (LCode, tail)"
    using lex_code_text [of LCode tail "[]"] by (simp add: tail_def lit_def new_line_def)
  have "lex_run LCode (f @ tail) = Some (LCode, k @ tail)" by (simp add: lex_run_append f tail)
  then show ?thesis
    unfolding query head l(2) mid by (simp add: head_def tail_def)
qed

text \<open>The definitions that evaluate a check and a lexer run on a concrete text.\<close>

lemmas check_evals = validate_graphql_filter_fragment_def validate_collection_identifier_def validate_graphql_name_def
  filter_start_def filter_char_def is_ws_def is_ascii_alphanumeric_def is_ascii_alphabetic_def
  trim_defs starts_with_def bind_res_def lit_def

lemmas lexer_evals = code_step_def string_step_def block_step_def lit_def

lemma new_line_evals:
  "new_line 12 = [10, 32, 32, 32, 32, 32, 32, 32, 32, 32, 32, 32, 32]"
  "new_line 16 = [10, 32, 32, 32, 32, 32, 32, 32, 32, 32, 32, 32, 32, 32, 32, 32, 32]"
  "new_line 20 = [10, 32, 32, 32, 32, 32, 32, 32, 32, 32, 32, 32, 32, 32, 32, 32, 32, 32, 32, 32, 32]"
  by code_simp+

text \<open>C30. A trigger's filter cannot break out of the probe query: when the collection and the trimmed filter pass their checks and
  the filter is lexically GraphQL and holds no block string, the query sent for any document id is the template, with
  the id one string token and the filter a piece of code that closes only brackets it has opened.\<close>

theorem filter_fragment_stays_inside:
  assumes "validate_collection_identifier c = Inr ()" and "validate_graphql_filter_fragment f = Inr ()"
    and "\<not> str_contains f triple_quote" and "lex_run LCode f \<noteq> None"
  shows "\<exists>k. (\<forall>doc. lex_run LCode (probe_query c (probe_filter_literal doc (Some f))) =
    Some (LCode, lit ''query {'' @ new_line 16 @ c @ lit ''(filter: { _docID: { _eq: '' @ lit '' }, _and: [ '' @ k @
      lit '' ] }, limit: 1) {'' @ new_line 20 @ lit ''_docID'' @ new_line 16 @ lit ''}'' @ new_line 12 @ lit ''}'')) \<and>
    (\<forall>st ks. nest st (k @ ks) = nest st ks)"
proof -
  from filter_fragment_closed [OF assms(2-4)] obtain k where
    k: "lex_run LCode f = Some (LCode, k)" "nest [] k = Some []" by (auto simp: closed_splice_def)
  have c: "validate_graphql_name c = Inr ()"
    using assms(1) by (auto simp: validate_collection_identifier_def elim: bind_resE)
  have "nest st k = Some st" for st using nest_more [OF k(2), of st] by simp
  with probe_query_code [OF c k(1)] show ?thesis by (intro exI [of _ k]) (simp add: nest_append)
qed

theorem filter_fragment_stays_inside_witness:
  "\<exists>k. (\<forall>doc. lex_run LCode (probe_query (lit ''T'') (probe_filter_literal doc
        (Some (lit ''{a:'' @ [quote_mark] @ lit ''}#)'' @ [quote_mark] @ lit ''}'')))) =
    Some (LCode, lit ''query {'' @ new_line 16 @ lit ''T'' @ lit ''(filter: { _docID: { _eq: '' @ lit '' }, _and: [ '' @ k @
      lit '' ] }, limit: 1) {'' @ new_line 20 @ lit ''_docID'' @ new_line 16 @ lit ''}'' @ new_line 12 @ lit ''}'')) \<and>
    (\<forall>st ks. nest st (k @ ks) = nest st ks)"
proof -
  have "validate_collection_identifier (lit ''T'') = Inr ()"
    "validate_graphql_filter_fragment (lit ''{a:'' @ [quote_mark] @ lit ''}#)'' @ [quote_mark] @ lit ''}'') = Inr ()"
    "\<not> str_contains (lit ''{a:'' @ [quote_mark] @ lit ''}#)'' @ [quote_mark] @ lit ''}'') triple_quote"
    "lex_run LCode (lit ''{a:'' @ [quote_mark] @ lit ''}#)'' @ [quote_mark] @ lit ''}'') \<noteq> None"
    by (simp_all add: check_evals lexer_evals)
  from filter_fragment_stays_inside [OF this] show ?thesis .
qed

text \<open>C31. The check knows no block strings, and with one a filter does break out. The fragment passes, is lexically
  GraphQL, and closes a bracket it never opened. The probe sends it, and the query it sends is well nested with
  another shape: the fragment has ended the probed field and put the field \<open>S\<close> beside it.\<close>

theorem block_string_breaks_out:
  "validate_graphql_filter_fragment break_out_fragment = Inr () \<and>
   (\<exists>k. lex_run LCode break_out_fragment = Some (LCode, k) \<and> nest [] k = None) \<and>
   (\<exists>k. lex_run LCode (probe_query (lit ''T'') (probe_filter_literal (lit ''d'') (Some break_out_fragment))) = Some (LCode, k) \<and>
      nest [] k = Some [] \<and> str_contains k (lit ''}]}){_docID}S(filter:{'')) \<and>
   probe_filter execute (lit ''d'') (lit ''T'') (Some break_out_fragment) =
     (case execute (probe_query (lit ''T'') (probe_filter_literal (lit ''d'') (Some break_out_fragment))) of
        Inl es \<Rightarrow> Inl (ResponseErrors es)
      | Inr data \<Rightarrow> Inr (case Option.bind (Option.bind data (json_get (lit ''T''))) json_as_array of
                       Some rows \<Rightarrow> rows \<noteq> [] | None \<Rightarrow> False))"
proof -
  have "validate_graphql_filter_fragment break_out_fragment = Inr ()" "validate_collection_identifier (lit ''T'') = Inr ()"
    "nonblank (Some break_out_fragment) = Some break_out_fragment"
    by (simp_all add: check_evals nonblank_def break_out_fragment_def)
  moreover have "case lex_run LCode break_out_fragment of Some (l, k) \<Rightarrow> l = LCode \<and> nest [] k = None | None \<Rightarrow> False"
    by (simp add: break_out_fragment_def lexer_evals)
  moreover have "case lex_run LCode (probe_query (lit ''T'') (probe_filter_literal (lit ''d'') (Some break_out_fragment))) of
      Some (l, k) \<Rightarrow> l = LCode \<and> nest [] k = Some [] \<and> str_contains k (lit ''}]}){_docID}S(filter:{'') | None \<Rightarrow> False"
    by (simp add: break_out_fragment_def probe_query_def probe_filter_literal_def graphql_string_literal_def
        escape_graphql_string_def escape_graphql_char_def new_line_evals lexer_evals starts_with_def)
  ultimately show ?thesis
    by (auto simp: probe_filter_def Let_def split: option.splits)
qed

text \<open>C32. Every JSON value the renderer accepts becomes one sealed input literal: the lexer is in code again after it, and
  its code closes exactly the brackets it opens, whatever strings and keys the value holds. The only text taken over as
  it is are floats, printed by \<^verbatim>\<open>serde_json\<close> with the characters of a number.\<close>

theorem input_literals_are_sealed:
  assumes "graphql_input_literal v = Inr t" and "list_all number_text (json_floats v)"
  shows "\<exists>l k. lex_run LCode t = Some (l, k) \<and> l \<in> {LCode, LQuotes} \<and> nest [] k = Some []"
  using input_literal_sealed [OF assms] by (auto simp: sealed_def)

theorem input_literals_are_sealed_witness:
  "\<exists>l k. lex_run LCode (lit ''{ a: [-3, 1.5], b: '' @ [quote_mark] @ lit ''}'' @ [backslash, quote_mark, quote_mark] @ lit '' }'') =
     Some (l, k) \<and> l \<in> {LCode, LQuotes} \<and> nest [] k = Some []"
proof -
  have "graphql_input_literal (JObj [(lit ''a'', JArr [JInt (- 3), JFloat (lit ''1.5'')]), (lit ''b'', JStr [125, quote_mark])]) =
      Inr (lit ''{ a: [-3, 1.5], b: '' @ [quote_mark] @ lit ''}'' @ [backslash, quote_mark, quote_mark] @ lit '' }'')"
    "list_all number_text (json_floats (JObj [(lit ''a'', JArr [JInt (- 3), JFloat (lit ''1.5'')]), (lit ''b'', JStr [125, quote_mark])]))"
    by code_simp+
  from input_literals_are_sealed [OF this] show ?thesis .
qed

text \<open>C33. A string literal is one string token whose value is the string it was made from: between its quotation marks
  the lexer never leaves the string, after the closing one it is in code, nothing of the string is code, and the escapes
  read back as the characters they stand for.\<close>

theorem string_literals_read_back:
  "lex_run LCode (graphql_string_literal v) = Some (if v = [] then LQuotes else LCode, []) \<and>
   graphql_string_literal v = [quote_mark] @ escape_graphql_string v @ [quote_mark] \<and>
   lex_run LString (escape_graphql_string v) = Some (LString, []) \<and>
   string_value (escape_graphql_string v) = Some v"
  using string_literal_lexes [of v] escaped_in_string [of v] string_value_escape [of v] graphql_string_literal_def [of v]
  by blast

text \<open>C34. The retry loop of the client, on every world. When the HTTP client cannot be built nothing is posted. Otherwise
  it posts at least once and at most \<open>max_attempts\<close> times (once when \<open>max_attempts\<close> is zero), it sleeps and posts again only
  after a failure that may be retried, it gives up on such a failure only when the attempts are used up, and it returns a
  response exactly when the last post was answered without errors.\<close>

theorem graphql_attempts_are_bounded:
  "case gq_build_error C of
     Some e \<Rightarrow> execute_graphql_async_with_tx C w = (Inl (ClientFailed e), w)
   | None \<Rightarrow>
       \<exists>outs. client_run C w outs (snd (execute_graphql_async_with_tx C w)) \<and>
         1 \<le> length outs \<and> length outs \<le> max (gq_max_attempts C) 1 \<and>
         list_all (may_retry C) (butlast outs) \<and>
         (may_retry C (last outs) \<longrightarrow> length outs = max (gq_max_attempts C) 1) \<and>
         (\<forall>v. fst (execute_graphql_async_with_tx C w) = Inr v \<longleftrightarrow> accepted (last outs) v)"
proof (cases "gq_build_error C")
  case None
  obtain n where n: "max (gq_max_attempts C) 1 = Suc n" by (metis Suc_pred max.strict_coboundedI2 zero_less_one)
  obtain r w' where r: "execute_graphql_async_with_tx C w = (r, w')" by force
  with attempts_run [of C 0 n RetriesExhausted w r w'] n None obtain outs where
    "client_run C w outs w'" "length outs \<le> Suc n" "list_all (may_retry C) (butlast outs)"
    "may_retry C (last outs) \<longrightarrow> length outs = Suc n" "\<forall>v. r = Inr v \<longleftrightarrow> accepted (last outs) v"
    by (auto simp: execute_graphql_async_with_tx_def)
  moreover from this(1) have "1 \<le> length outs" by cases simp_all
  ultimately show ?thesis using r n None by auto
qed (simp add: execute_graphql_async_with_tx_def)

definition sample_client :: "nat graphql_client" where
  "sample_client = \<lparr>gq_build_error = None,
     gq_post = (\<lambda>w. (if w = 0 then SendFailed \<lparr>te_timeout = True, te_connect = False, te_request = False, te_text = []\<rparr>
                     else Answered JNull, w + 1)),
     gq_sleep = (\<lambda>_ w. w), gq_text = (\<lambda>_. []), gq_max_attempts = 3, gq_backoff = 100\<rparr>"

theorem graphql_attempts_are_bounded_witness:
  "execute_graphql_async_with_tx sample_client 0 = (Inr JNull, 2) \<and>
   (\<exists>outs. client_run sample_client 0 outs 2 \<and> length outs \<le> 3 \<and> list_all (may_retry sample_client) (butlast outs) \<and>
      accepted (last outs) JNull)"
proof -
  have run: "execute_graphql_async_with_tx sample_client 0 = (Inr JNull, 2)"
    by (simp add: execute_graphql_async_with_tx_def sample_client_def numeral_3_eq_3 post_error_def attempt_result_def
        graphql_transport_error_is_retryable_def retryable_graphql_error_message_def finish_graphql_response_def
        response_errors_def json_get_def)
  have "max (gq_max_attempts sample_client) 1 = 3" "gq_build_error sample_client = None" by (simp_all add: sample_client_def)
  with graphql_attempts_are_bounded [of sample_client 0] run show ?thesis by auto
qed

end
