(* ===== verification/Client_Turn.thy ===== *)
theory Client_Turn
  imports Request_State "HOL-Library.Multiset"
begin

text \<open>
  The client's view of a turn, \<^verbatim>\<open>gents-protocol/src/client_protocol.rs\<close>, and the turn state of a GraphQL answer
  (\<^verbatim>\<open>GraphqlTurnState\<close> in \<^verbatim>\<open>graphql.rs\<close>): snapshots of a request and its response are projected to one of six states, and
  a turn with retries is represented by the one attempt no other attempt has replaced.
\<close>

section \<open>States\<close>

datatype client_turn_state =
    WaitingForClaim | TurnStreaming | TurnCompleted | TurnFailed | TurnSuperseded | TurnInterrupted

fun turn_rank :: "client_turn_state \<Rightarrow> nat" where
  "turn_rank WaitingForClaim = 0"
| "turn_rank TurnStreaming = 1"
| "turn_rank TurnCompleted = 2"
| "turn_rank TurnFailed = 2"
| "turn_rank TurnSuperseded = 2"
| "turn_rank TurnInterrupted = 2"

definition turn_is_terminal :: "client_turn_state \<Rightarrow> bool" where
  "turn_is_terminal s \<longleftrightarrow> s \<in> {TurnCompleted, TurnFailed, TurnSuperseded, TurnInterrupted}"

datatype response_status = RespStreaming | RespComplete | RespError

datatype invalid_response_status = InvalidResponseStatus ustring

definition response_status_parse :: "ustring \<Rightarrow> invalid_response_status + response_status" where
  "response_status_parse v =
     (if v = lit ''streaming'' then Inr RespStreaming
      else if v = lit ''complete'' then Inr RespComplete
      else if v = lit ''error'' then Inr RespError
      else Inl (InvalidResponseStatus v))"

record request_snapshot =
  rs_request_id :: ustring
  rs_retry_parent_request :: "ustring option"
  rs_lifecycle_state :: request_state
  rs_is_superseded :: bool

record response_snapshot =
  ps_status :: response_status

record attempt_view =
  av_request :: request_snapshot
  av_response :: "response_snapshot option"

record client_head_projection =
  hp_turn_state :: client_turn_state
  hp_request_state :: request_state

definition head_is_terminal :: "client_head_projection \<Rightarrow> bool" where
  "head_is_terminal h \<longleftrightarrow> turn_is_terminal (hp_turn_state h)"

definition head_is_active :: "client_head_projection \<Rightarrow> bool" where
  "head_is_active h \<longleftrightarrow> \<not> head_is_terminal h"

definition waiting_on_user_input :: "client_head_projection \<Rightarrow> bool" where
  "waiting_on_user_input h \<longleftrightarrow> head_is_active h \<and> hp_request_state h = InputRequired"

section \<open>Projection\<close>

definition derive_observation :: "request_state \<Rightarrow> bool \<Rightarrow> response_status option \<Rightarrow> client_turn_state" where
  "derive_observation lifecycle_state is_superseded status =
     (if is_superseded then TurnSuperseded
      else case lifecycle_state of
        ReqSuperseded \<Rightarrow> TurnSuperseded
      | ReqCompleted \<Rightarrow> TurnCompleted
      | ReqFailed \<Rightarrow> TurnFailed
      | ReqDead \<Rightarrow> TurnFailed
      | ReqInterrupted \<Rightarrow> TurnInterrupted
      | _ \<Rightarrow> (case status of
                Some RespComplete \<Rightarrow> TurnCompleted
              | Some RespError \<Rightarrow> TurnFailed
              | Some RespStreaming \<Rightarrow> TurnStreaming
              | None \<Rightarrow> WaitingForClaim))"

definition project_attempt :: "attempt_view \<Rightarrow> client_head_projection" where
  "project_attempt view =
     \<lparr>hp_turn_state = derive_observation (rs_lifecycle_state (av_request view)) (rs_is_superseded (av_request view))
        (map_option ps_status (av_response view)),
      hp_request_state = rs_lifecycle_state (av_request view)\<rparr>"

definition derive_attempt :: "attempt_view \<Rightarrow> client_turn_state" where
  "derive_attempt view = hp_turn_state (project_attempt view)"

definition ok_of :: "'e + 'a \<Rightarrow> 'a option" where
  "ok_of r = (case r of Inl _ \<Rightarrow> None | Inr x \<Rightarrow> Some x)"

definition project_persisted_attempt ::
  "ustring \<Rightarrow> bool \<Rightarrow> ustring option \<Rightarrow> client_head_projection option" where
  "project_persisted_attempt lifecycle_state is_superseded status =
     map_option (\<lambda>st. \<lparr>hp_turn_state = derive_observation st is_superseded
           (Option.bind status (\<lambda>s. ok_of (response_status_parse (trim s)))),
         hp_request_state = st\<rparr>)
       (ok_of (request_parse (trim lifecycle_state)))"

definition derive_persisted_attempt :: "ustring \<Rightarrow> bool \<Rightarrow> ustring option \<Rightarrow> client_turn_state option" where
  "derive_persisted_attempt lifecycle_state is_superseded status =
     map_option hp_turn_state (project_persisted_attempt lifecycle_state is_superseded status)"

section \<open>The attempts of a turn\<close>

definition referenced_request_ids :: "attempt_view list \<Rightarrow> ustring list" where
  "referenced_request_ids attempts =
     filter (\<lambda>i. i \<noteq> []) (List.map_filter (\<lambda>a. rs_retry_parent_request (av_request a)) attempts)"

definition resolve_tip :: "attempt_view list \<Rightarrow> attempt_view option" where
  "resolve_tip attempts =
     (if attempts = [] then None
      else case filter (\<lambda>a. rs_request_id (av_request a) \<notin> set (referenced_request_ids attempts)) attempts of
        [tip] \<Rightarrow> Some tip
      | _ \<Rightarrow> None)"

definition derive_turn :: "attempt_view list \<Rightarrow> client_turn_state option" where
  "derive_turn attempts = map_option derive_attempt (resolve_tip attempts)"

section \<open>Turn state of a GraphQL answer\<close>

text \<open>The fields the projection reads of the two rows.\<close>

record turn_request_row =
  tq_request_id :: ustring
  tq_retry_parent_request :: "ustring option"
  tq_superseded_by_request :: "ustring option"
  tq_lifecycle_state :: "request_state option"

record turn_response_row =
  tr_status :: "ustring option"

record graphql_turn_state =
  gts_request :: "turn_request_row option"
  gts_response :: "turn_response_row option"

definition graphql_response_status :: "turn_response_row \<Rightarrow> response_status option" where
  "graphql_response_status row = ok_of (response_status_parse (case tr_status row of Some s \<Rightarrow> s | None \<Rightarrow> []))"

definition turn_attempt_view :: "graphql_turn_state \<Rightarrow> attempt_view option" where
  "turn_attempt_view t =
     Option.bind (gts_request t) (\<lambda>request.
     map_option (\<lambda>lifecycle.
         \<lparr>av_request = \<lparr>rs_request_id = tq_request_id request,
            rs_retry_parent_request = nonblank (tq_retry_parent_request request),
            rs_lifecycle_state = lifecycle,
            rs_is_superseded = (nonblank (tq_superseded_by_request request) \<noteq> None)\<rparr>,
          av_response = map_option (\<lambda>status. \<lparr>ps_status = status\<rparr>)
            (Option.bind (gts_response t) graphql_response_status)\<rparr>)
       (tq_lifecycle_state request))"

definition projected_head :: "graphql_turn_state \<Rightarrow> client_head_projection option" where
  "projected_head t = map_option project_attempt (turn_attempt_view t)"

definition derived_turn_state :: "graphql_turn_state \<Rightarrow> client_turn_state option" where
  "derived_turn_state t = map_option hp_turn_state (projected_head t)"

definition response_is_durably_complete :: "graphql_turn_state \<Rightarrow> bool" where
  "response_is_durably_complete t \<longleftrightarrow>
     (case gts_request t of
        Some request \<Rightarrow> tq_lifecycle_state request \<in> {Some ReqCompleted, Some ReqSuperseded}
      | None \<Rightarrow> False) \<and>
     (case gts_response t of
        Some response \<Rightarrow> tr_status response \<in> {Some (lit ''complete''), Some (lit ''completed'')}
      | None \<Rightarrow> False)"

definition successor_request_id :: "graphql_turn_state \<Rightarrow> ustring option" where
  "successor_request_id t = Option.bind (gts_request t) (\<lambda>row. nonblank (tq_superseded_by_request row))"

section \<open>Progress of a turn\<close>

text \<open>How the documents behind an attempt may change: the request moves on until it is terminal, a supersession is
  never taken back, and a response is created, streams and is settled. The order of the three is left open.\<close>

inductive attempt_progress :: "attempt_view \<Rightarrow> attempt_view \<Rightarrow> bool" where
  request_moves: "\<not> request_is_terminal (rs_lifecycle_state (av_request a)) \<Longrightarrow>
    attempt_progress a (a\<lparr>av_request := (av_request a)\<lparr>rs_lifecycle_state := st\<rparr>\<rparr>)"
| superseded: "attempt_progress a (a\<lparr>av_request := (av_request a)\<lparr>rs_is_superseded := True\<rparr>\<rparr>)"
| response_appears: "av_response a = None \<Longrightarrow> attempt_progress a (a\<lparr>av_response := Some \<lparr>ps_status = s\<rparr>\<rparr>)"
| response_settles: "av_response a = Some \<lparr>ps_status = RespStreaming\<rparr> \<Longrightarrow>
    attempt_progress a (a\<lparr>av_response := Some \<lparr>ps_status = s\<rparr>\<rparr>)"

lemmas attempt_view_defs = derive_attempt_def project_attempt_def derive_observation_def

lemma progress_rank:
  assumes "attempt_progress a b"
  shows "turn_rank (derive_attempt a) \<le> turn_rank (derive_attempt b)"
  using assms
proof cases
  case (request_moves st)
  then show ?thesis
    by (auto simp: attempt_view_defs request_is_terminal_def split: request_state.splits option.splits response_status.splits)
next
  case (response_settles s)
  then show ?thesis
    by (auto simp: attempt_view_defs split: request_state.splits option.splits response_status.splits)
qed (auto simp: attempt_view_defs split: request_state.splits option.splits response_status.splits)

lemma terminal_rank: "turn_is_terminal s \<longleftrightarrow> turn_rank s = 2"
  by (cases s) (simp_all add: turn_is_terminal_def)

lemma settled_request_fixes_turn:
  assumes "attempt_progress a b" and "request_is_terminal (rs_lifecycle_state (av_request a))"
    and "rs_is_superseded (av_request b) = rs_is_superseded (av_request a)"
  shows "derive_attempt b = derive_attempt a"
  using assms
  by (induction rule: attempt_progress.cases)
    (auto simp: attempt_view_defs request_is_terminal_def split: request_state.splits)

section \<open>Properties\<close>

text \<open>C35. A turn never goes back. Along any run of changes to the documents behind an attempt, in any order of request
  and response writes, the rank of its turn state does not fall, so a turn once over stays over; and after the
  request itself is terminal, no late response write changes the state.\<close>

theorem client_turn_is_monotone:
  assumes "attempt_progress\<^sup>*\<^sup>* a b"
  shows "turn_rank (derive_attempt a) \<le> turn_rank (derive_attempt b) \<and>
    (turn_is_terminal (derive_attempt a) \<longrightarrow> turn_is_terminal (derive_attempt b)) \<and>
    (request_is_terminal (rs_lifecycle_state (av_request a)) \<and> \<not> rs_is_superseded (av_request b) \<longrightarrow>
       derive_attempt b = derive_attempt a)"
  using assms
proof (induction rule: rtranclp_induct)
  case (step b c)
  note rank = progress_rank [OF step(2)]
  have rank_le: "turn_rank s \<le> 2" for s by (cases s) simp_all
  have flags: "rs_is_superseded (av_request b) \<Longrightarrow> rs_is_superseded (av_request c)"
    using step(2) by cases simp_all
  have "request_is_terminal (rs_lifecycle_state (av_request a)) \<Longrightarrow> request_is_terminal (rs_lifecycle_state (av_request b))"
    using step(1) by (induction rule: rtranclp_induct) (auto elim: attempt_progress.cases)
  with settled_request_fixes_turn [OF step(2)] flags step(3) rank rank_le [of "derive_attempt c"] show ?case
    unfolding terminal_rank by fastforce
qed simp

definition sample_attempt :: "ustring \<Rightarrow> ustring option \<Rightarrow> request_state \<Rightarrow> response_status option \<Rightarrow> attempt_view" where
  "sample_attempt i parent st status =
     \<lparr>av_request = \<lparr>rs_request_id = i, rs_retry_parent_request = parent, rs_lifecycle_state = st, rs_is_superseded = False\<rparr>,
      av_response = map_option (\<lambda>s. \<lparr>ps_status = s\<rparr>) status\<rparr>"

theorem client_turn_is_monotone_witness:
  "turn_rank (derive_attempt (sample_attempt (lit ''r'') None ReqFailed None)) \<le>
     turn_rank (derive_attempt (sample_attempt (lit ''r'') None ReqFailed (Some RespStreaming))) \<and>
   derive_attempt (sample_attempt (lit ''r'') None ReqFailed (Some RespStreaming)) = TurnFailed"
proof -
  have "attempt_progress\<^sup>*\<^sup>* (sample_attempt (lit ''r'') None ReqFailed None) (sample_attempt (lit ''r'') None ReqFailed (Some RespStreaming))"
    using response_appears [of "sample_attempt (lit ''r'') None ReqFailed None" RespStreaming] by (simp add: sample_attempt_def)
  from client_turn_is_monotone [OF this] show ?thesis
    by (simp add: sample_attempt_def attempt_view_defs request_is_terminal_def)
qed

text \<open>A retry chain: each attempt names the one before it, and no request id occurs twice or is empty.\<close>

fun retry_chain :: "attempt_view list \<Rightarrow> bool" where
  "retry_chain (a # b # rest) \<longleftrightarrow>
     rs_retry_parent_request (av_request b) = Some (rs_request_id (av_request a)) \<and> retry_chain (b # rest)"
| "retry_chain _ \<longleftrightarrow> True"

lemma map_filter_set: "set (List.map_filter f xs) = {y. \<exists>x \<in> set xs. f x = Some y}"
  by (induction xs) (auto simp: map_filter_simps split: option.splits)

lemma referenced_iff:
  "i \<in> set (referenced_request_ids as) \<longleftrightarrow> i \<noteq> [] \<and> (\<exists>a \<in> set as. rs_retry_parent_request (av_request a) = Some i)"
  by (auto simp: referenced_request_ids_def map_filter_set)

lemma chain_references:
  "retry_chain (a # as) \<Longrightarrow> b \<in> set (butlast (a # as)) \<Longrightarrow>
   \<exists>c \<in> set as. rs_retry_parent_request (av_request c) = Some (rs_request_id (av_request b))"
  by (induction "a # as" arbitrary: a as rule: retry_chain.induct) (auto split: if_splits)

lemma chain_parents:
  "retry_chain (a # as) \<Longrightarrow> c \<in> set as \<Longrightarrow>
   \<exists>b \<in> set (butlast (a # as)). rs_retry_parent_request (av_request c) = Some (rs_request_id (av_request b))"
  by (induction "a # as" arbitrary: a as rule: retry_chain.induct) (auto split: if_splits)

lemma filter_one: "distinct xs \<Longrightarrow> y \<in> set xs \<Longrightarrow> filter (\<lambda>x. x = y) xs = [y]"
  by (induction xs) (auto simp: filter_empty_conv)

lemma last_split: "distinct (a # as) \<Longrightarrow> x \<in> set (a # as) \<Longrightarrow> x \<notin> set (butlast (a # as)) \<longleftrightarrow> x = last (a # as)"
  by (induction as arbitrary: a) auto

text \<open>In a chain the attempts some other one replaces are all but the last.\<close>

lemma chain_replaced:
  assumes chain: "retry_chain (a # as)" and first: "rs_retry_parent_request (av_request a) = None"
    and ids: "distinct (map (\<lambda>x. rs_request_id (av_request x)) (a # as))"
    and named: "[] \<notin> set (map (\<lambda>x. rs_request_id (av_request x)) (a # as))"
    and sets: "set attempts = set (a # as)" and x: "x \<in> set attempts"
  shows "rs_request_id (av_request x) \<in> set (referenced_request_ids attempts) \<longleftrightarrow> x \<in> set (butlast (a # as))"
proof
  assume "x \<in> set (butlast (a # as))"
  from chain_references [OF chain this] obtain c where
    "c \<in> set attempts" "rs_retry_parent_request (av_request c) = Some (rs_request_id (av_request x))"
    unfolding sets by auto
  moreover have "rs_request_id (av_request x) \<noteq> []" using named x unfolding sets set_map by (metis imageI)
  ultimately show "rs_request_id (av_request x) \<in> set (referenced_request_ids attempts)"
    unfolding referenced_iff by blast
next
  assume "rs_request_id (av_request x) \<in> set (referenced_request_ids attempts)"
  then obtain c where c: "c \<in> set (a # as)" "rs_retry_parent_request (av_request c) = Some (rs_request_id (av_request x))"
    unfolding referenced_iff sets by blast
  with first have "c \<in> set as" by auto
  from chain_parents [OF chain this] c(2) obtain b where
    b: "b \<in> set (butlast (a # as))" "rs_request_id (av_request b) = rs_request_id (av_request x)" by auto
  have "inj_on (\<lambda>x. rs_request_id (av_request x)) (set (a # as))" using ids by (simp only: distinct_map)
  from inj_onD [OF this b(2) in_set_butlastD [OF b(1)]] x b(1) show "x \<in> set (butlast (a # as))"
    unfolding sets by simp
qed

text \<open>C36. A turn is the last of its retries: when every attempt names the one before it, in whatever order the
  attempts are listed, the turn state is that of the attempt no other one replaces.\<close>

theorem turn_is_its_last_retry:
  assumes chain: "retry_chain (a # as)" and first: "rs_retry_parent_request (av_request a) = None"
    and ids: "distinct (map (\<lambda>x. rs_request_id (av_request x)) (a # as))"
    and named: "[] \<notin> set (map (\<lambda>x. rs_request_id (av_request x)) (a # as))"
    and listed: "mset attempts = mset (a # as)"
  shows "derive_turn attempts = Some (derive_attempt (last (a # as)))"
proof -
  let ?tip = "last (a # as)"
  have sets: "set attempts = set (a # as)" using listed by (rule mset_eq_setD)
  have once: "distinct (a # as)" using ids by (simp only: distinct_map)
  then have nodup: "distinct attempts" using listed mset_eq_imp_distinct_iff by blast
  have tip: "x \<notin> set (butlast (a # as)) \<longleftrightarrow> x = ?tip" if "x \<in> set attempts" for x
    using that last_split [OF once] unfolding sets by blast
  have "filter (\<lambda>x. rs_request_id (av_request x) \<notin> set (referenced_request_ids attempts)) attempts = filter (\<lambda>x. x = ?tip) attempts"
    using chain_replaced [OF chain first ids named sets] tip by (intro filter_cong [OF refl]) blast
  also have "\<dots> = [?tip]" using filter_one [OF nodup] sets by simp
  finally show ?thesis
    using sets unfolding derive_turn_def resolve_tip_def by (cases attempts) simp_all
qed

theorem turn_is_its_last_retry_witness:
  "derive_turn [sample_attempt (lit ''r1'') (Some (lit ''r0'')) ReqProcessing (Some RespStreaming),
      sample_attempt (lit ''r0'') None ReqFailed None] = Some TurnStreaming"
proof -
  let ?a = "sample_attempt (lit ''r0'') None ReqFailed None"
  let ?b = "sample_attempt (lit ''r1'') (Some (lit ''r0'')) ReqProcessing (Some RespStreaming)"
  have "derive_turn [?b, ?a] = Some (derive_attempt (last [?a, ?b]))"
    by (rule turn_is_its_last_retry) (simp_all add: sample_attempt_def lit_def)
  then show ?thesis by (simp add: sample_attempt_def attempt_view_defs)
qed

end
