(* ===== verification/Spec2Isabelle.thy ===== *)
theory Spec2Isabelle
  imports Tool_Call_Claims Execution_Lease_Claims Completion_Retry Cron Session_Refinement
    Edit_Match_Props Request_Recovery_Claims Tool_Policy_Claims Pairing_Claims Goal_Claims
    Graphql_Claims Client_Turn
begin

text \<open>
  A verification of the core of the gents runtime (\<^verbatim>\<open>crates/gents\<close>), the daemon that runs agents on top of
  the document database DefraDB.

  \<^bold>\<open>The program.\<close> A request to an agent is an \<^verbatim>\<open>AgentRequest\<close> document. The watcher finds pending requests,
  the claim takes one for execution under a lease, the completion loop talks to a model, calls tools and
  writes an \<^verbatim>\<open>AgentResponse\<close>, and a terminal transition ends the request; every tool call is a document with a
  life cycle of its own. Several processes and tasks do this concurrently on one store, so each transition is a
  compare-and-set on the document it changes. Recovery ends what a dead process left behind, and schedules
  create requests on time. What an agent may do is the meet of its behavior's tool selection, the operator's ceiling
  and the runtime; the command gate checks every shell command against the policy that comes out of it. Nodes
  replicate documents to each other; the pairing engine reconciles the routes to a peer with the signed enrollment.
  A durable goal keeps a session going: a controller continues it after every request until it is complete,
  blocked, paused or out of budget.

  \<^bold>\<open>The store.\<close> DefraDB is not part of the sources. \<open>Doc_Store\<close> makes it an argument: a record of create, update
  and query, with the laws the runtime relies on in the locale \<open>defra\<close>; \<open>Doc_Txn\<close> adds transactions
  (\<open>defra_txn\<close>) and the retry loop of \<^verbatim>\<open>retry.rs\<close>; \<open>Request_Recovery_Claims\<close> adds a store whose calls succeed
  (\<open>calm_store\<close>). All are interpreted on an in-memory store, which also carries the witnesses. The peer transport is
  an argument as well: \<open>Pairing_Converge\<close> states what a working transport and state store do (\<open>pairing_env\<close>), and
  \<open>Pairing_Claims\<close> interprets it on an in-memory node behind the modelled administration. A call that reports
  an error has done nothing or all of its work. The create and update of a node include the retry of conflicting
  mutations, which the node runs itself (\<^verbatim>\<open>graphql.rs\<close> only hands it a policy), and the gate in front of it. Elsewhere queries and answers are the values they stand for;
  \<open>Graphql_Text\<close> models the text itself. RFC 3339 parsing and printing, the clock, fresh identifiers and what other
  tasks do during a sleep are arguments.

  \<^bold>\<open>Theories and sources.\<close>
  \<^item> \<open>Gents_Prelude\<close>: Rust strings as scalar values, the string methods the code uses, results, instants, JSON.
  \<^item> \<open>Persisted_Vocab\<close>: the contract of an enumeration stored as text, interpreted for every such enumeration.
  \<^item> \<open>Request_State\<close>: \<^verbatim>\<open>request_lifecycle.rs\<close> and \<^verbatim>\<open>lifecycle.rs\<close> (states, time-to-live, queue metadata,
    trigger context, workspace lineage).
  \<^item> \<open>Tool_Call\<close>, \<open>Tool_Call_Props\<close>, \<open>Tool_Call_Claims\<close>: \<^verbatim>\<open>tool_call_lifecycle\<close>, every method of the handle with
    its guards, its update and its reaction to a lost race. Any number of handles interleave on one store.
  \<^item> \<open>Execution_Lease\<close>, \<open>Execution_Lease_Props\<close>, \<open>Execution_Lease_Claims\<close>: \<^verbatim>\<open>execution_policy.rs\<close>,
    \<^verbatim>\<open>execution_lease.rs\<close>, \<^verbatim>\<open>transition.rs\<close>: fenced response writes, relinquishing, terminal transitions.
  \<^item> \<open>Watcher\<close>: \<^verbatim>\<open>watcher.rs\<close> and \<^verbatim>\<open>watcher/\<close>: decoding and validation of rows, selection with a clock reading per
    row, ranking, cooldown.
  \<^item> \<open>Request_Claim\<close>, \<open>Session_Queue\<close>, \<open>Session_Queue_Claims\<close>, \<open>Session_Refinement\<close>: \<^verbatim>\<open>lifecycle/claim.rs\<close> and
    \<^verbatim>\<open>lifecycle/query.rs\<close>; \<open>queue_step\<close> interleaves the checks and transactions of any number of claimers with the
    lease operations and with requests that enter the queue, and \<open>Session_Refinement\<close> refines a first-in first-out
    queue with one server, whose state remembers who joined it.
  \<^item> \<open>Request_Recovery\<close>, \<open>Request_Recovery_Claims\<close>: \<^verbatim>\<open>lifecycle/recovery.rs\<close>: the sweep over active requests and the
    bounded re-assertion of terminal states.
  \<^item> \<open>Completion_Retry\<close>: \<^verbatim>\<open>error.rs\<close>, \<^verbatim>\<open>agent/completion_retry.rs\<close>: classes of failures, backoff, decisions.
  \<^item> \<open>Cron\<close>: \<^verbatim>\<open>schedule_cron.rs\<close>; the time-zone database is an argument.
  \<^item> \<open>Edit_Match\<close>, \<open>Edit_Match_Props\<close>: \<^verbatim>\<open>toolset/edit_match.rs\<close>; the \<^verbatim>\<open>regex\<close> crate and \<^verbatim>\<open>f64\<close> arithmetic are
    arguments.
  \<^item> \<open>Command_Denial\<close>, \<open>Command_Policy\<close>, \<open>Command_Policy_Props\<close>: \<^verbatim>\<open>toolset/denial.rs\<close>, the gate of
    \<^verbatim>\<open>toolset/shared/command.rs\<close> and the bash tools of \<^verbatim>\<open>toolset/bash_tools.rs\<close> up to the process spawn: argv
    prefixes, the read-only command list with its rules for arguments, Git, shell scripts, the sandbox.
  \<^item> \<open>Ordered_Map\<close>: Rust's \<^verbatim>\<open>BTreeMap\<close> and \<^verbatim>\<open>BTreeSet\<close> as sorted lists, used by the two groups that follow.
  \<^item> \<open>Tool_Policy\<close>, \<open>Tool_Policy_Props\<close>: \<^verbatim>\<open>tool_surface/policy.rs\<close> and \<^verbatim>\<open>modes.rs\<close>: endpoint scopes, ranked modes
    and the meet of whole surfaces. The contract of a meet is the locale \<open>policy_meet\<close>; scopes, modes and surfaces
    are its instances.
  \<^item> \<open>Tool_Selection\<close>, \<open>Tool_Selection_Props\<close>, \<open>Tool_Policy_Claims\<close>: \<^verbatim>\<open>tool_surface/selection.rs\<close>, \<^verbatim>\<open>build.rs\<close> and
    the language-server constraints of \<^verbatim>\<open>toolset/lsp/mod.rs\<close>: from a tool-selection document and a ceiling to the
    native tools and the executable command policy each of them carries.
  \<^item> \<open>Pairing_Routes\<close>, \<open>Pairing_Diff\<close>, \<open>Pairing_Desired\<close>, \<open>Pairing_Engine\<close>, \<open>Pairing_Node\<close>: \<^verbatim>\<open>agent/p2p_reconcile\<close>:
    templates, filters and client routes; the difference of desired, live and owned wiring; the desired state from
    stored rows and the signed enrollment; the tick with its authority checks; the embedded administration, the
    state store and the intervals. \<open>Pairing_Props\<close>, \<open>Pairing_Calls\<close> (a tick does not depend on how the
    transport treats calls outside its pairing), \<open>Pairing_Converge\<close> and \<open>Pairing_Claims\<close> hold the results.
  \<^item> \<open>World_Act\<close>: fallible asynchronous code as functions on a world, and what every run of such code keeps.
  \<^item> \<open>Goal_State\<close>, \<open>Goal_Doc\<close>, \<open>Goal_Source\<close>: \<^verbatim>\<open>goal.rs\<close>, the goal tools of \<^verbatim>\<open>hook/persistence/goal_tools.rs\<close> and the
    controller \<^verbatim>\<open>trigger_engine/goal_source.rs\<close>, with other tasks acting before every call. \<open>Goal_Props\<close> states what a
    legal change of a goal is and proves the controller against it under interference (locale \<open>goal_store\<close>);
    \<open>Goal_Alone\<close> does so for the writers that do not compare the status, when they run alone (\<open>goal_alone\<close>);
    \<open>Goal_Continuation\<close>, \<open>Goal_Claims\<close> hold what a continuation rests on and the results.
  \<^item> \<open>Graphql_Text\<close>, \<open>Graphql_Claims\<close>: \<^verbatim>\<open>gents-protocol/src/graphql.rs\<close>: names, filter fragments, literals, responses and
    the client's retry loop, with the filter probe of \<^verbatim>\<open>trigger_engine/event_source.rs\<close>; the yardstick is the lexical
    grammar of GraphQL.
  \<^item> \<open>Client_Turn\<close>: \<^verbatim>\<open>gents-protocol/src/client_protocol.rs\<close>: what a client sees of a turn.

  \<^bold>\<open>What is shown.\<close> Tool calls: legal edges only, terminal rows frozen, one winner per race, handles agree with
  the row, a started call reloads as it was. Leases: a write needs the live owner, a heartbeat extends the lease, a
  request and its own response end together and once, terminal rows are frozen. Sessions: one running request, queue
  order, and the refinement, store by store along a run, so that no request overtakes one that waits before it. Recovery: one sweep over a working store ends exactly the lost executions, with the
  state their response calls for; re-assertion is bounded by its cap. Watcher: exactly the heads of idle
  sessions are selected, hand-outs of a request are spaced by the cooldown. Retry: bounded by the policy, never past
  the deadline. Cron: the first matching minute, found when there is one. Edits: one site, all matches, line
  endings, edit distance. Tool policy: the effective surface is the greatest one below behavior, ceiling and
  runtime; a spawned command is the checked one and obeys the ceiling, whose read-only command list
  binds only where the effective policy lists no prefixes; a request bound to a workspace spawns nothing unsandboxed and reads
  Git only; a disabled network is enforced; capabilities are opt-in. Pairing: a tick over a working node converges,
  removes what was owned beyond that, and the next one does nothing; whatever fails, only calls within the pairing
  matter; without current enrollment nothing is installed and what is owned is removed; endpoint and scope of an enrolled route come from the enrollment. Goals: the controller
  changes goals only along legal edges while others do so too; a continuation has one claimer, and is handed over
  only for a session of the goal that was seen idle and a goal that has claimed it; identities are unambiguous; a blocking condition needs
  three turns. GraphQL text: a checked filter without block strings stays inside its query, rendered literals are
  closed and strings read back; the client's attempts are bounded. Turns: the projected state never goes back, and
  is that of the last retry. Several theorems record where the code falls short of its intent: a held tool call
  cannot be reloaded, a malformed time-to-live blocks its session, mixed line endings do not survive an edit, disjoint prefix lists open the language-server gate, a read-only bash tool
  without policy fields ignores the ceiling's network mode, a route whose record was lost is never torn down, an
  unowned route is certified as matching, an overlay may replicate provider backends, a stale report revives a
  completed goal, a report of a second condition inherits the audits of the first, and a filter with a block
  string breaks out of its query.

  \<^bold>\<open>Limits.\<close> Operations interleave at the granularity of single database calls or transactions. The retry loop runs
  at most four attempts, as in the source; no other definition uses fuel: loops are structural recursions or carry a
  termination proof. Lease durations are unbounded naturals, while the source converts
  them to 64-bit integers. The search for the next cron run is bounded by the source's own lookahead. Requests are
  assumed to enter a session's queue behind the waiting ones; the source orders them by a creation time with whole
  seconds and a random identifier, so two arrivals within a second can break that assumption.

  \<^bold>\<open>Not modelled.\<close> Network and process I/O (model providers, MCP, language servers, file tools, workspaces,
  peer transport), the desktop and command-line programs, schema migration, and read models such as timelines.
  Of peer pairing, the sweep that prepares several peers concurrently, the enrollment authority behind its answers,
  registry publication, personas and session hydration are left out; of goals, the transactions that create a goal
  once or together with its first request, deletion, and the signing of the child request. The next parts in the plan: configuration apply
  order, output truncation, request materialization and background wake recovery.
\<close>

end
